(* ===== verification/Prelude.thy ===== *)
theory Prelude
  imports Main "HOL-Library.Char_ord" "HOL-Library.List_Lexorder"
begin

text \<open>
  Shared vocabulary of the development: the exceptions of the program as a datatype, the
  result type of an operation that may raise, the sequencing of guards, the part of
  Python's strings the code uses, and the generic list lemmas the components share.

  An operation that raises is a function into \<open>'a result\<close>; \<open>Inl e\<close> is the raised
  exception and \<open>Inr x\<close> the returned value.  The classes of \<open>exc\<close> are those of
  \<^verbatim>\<open>core/errors.py\<close> and \<^verbatim>\<open>application/errors.py\<close> and the built-in ones the code
  raises; the string is the message.
\<close>

section \<open>Exceptions and results\<close>

datatype exc =
    CoreInvariantError string
  | NamespaceMismatchError string
  | RevisionMismatchError string
  | AuthorizationError string
  | ReplayError string
  | LifecycleError string
  | NotFoundError string
  | ConflictError string
  | StaleConflictError string
  | ReplayConflictError string
  | PermissionDeniedError string
  | ValidationError string
  | PersistenceError string
  | AmbiguousEffectError string
  | ExternalAdapterError string string
  | ValueError string
  | KeyError string
  | IndexError string
  | TypeError string
  | IntegrityError string
  | AttributeError string
  | RecursionError
  | AssertionError

type_synonym 'a result = "exc + 'a"

text \<open>
  The subclass relation of the two error modules, as the \<^verbatim>\<open>except\<close> clauses see it: every
  core error is a \<^verbatim>\<open>CoreInvariantError\<close> (itself a \<^verbatim>\<open>ValueError\<close>).
\<close>

fun is_core_error :: "exc \<Rightarrow> bool" where
  "is_core_error (CoreInvariantError _) = True"
| "is_core_error (NamespaceMismatchError _) = True"
| "is_core_error (RevisionMismatchError _) = True"
| "is_core_error (AuthorizationError _) = True"
| "is_core_error (ReplayError _) = True"
| "is_core_error (LifecycleError _) = True"
| "is_core_error _ = False"

fun is_conflict_error :: "exc \<Rightarrow> bool" where
  "is_conflict_error (ConflictError _) = True"
| "is_conflict_error (StaleConflictError _) = True"
| "is_conflict_error (ReplayConflictError _) = True"
| "is_conflict_error _ = False"

named_theorems ok_simps \<open>when an operation returns normally, as a condition on its inputs\<close>

definition bindR :: "'a result \<Rightarrow> ('a \<Rightarrow> 'b result) \<Rightarrow> 'b result" where
  "bindR m f = (case m of Inl e \<Rightarrow> Inl e | Inr x \<Rightarrow> f x)"

definition raise_if :: "bool \<Rightarrow> exc \<Rightarrow> unit result" where
  "raise_if c e = (if c then Inl e else Inr ())"

text \<open>\<open>chk m\<close> runs \<open>m\<close> for its exceptions only, as a call statement does.\<close>

definition chk :: "'a result \<Rightarrow> unit result" where
  "chk m = bindR m (\<lambda>_. Inr ())"

primrec check_all :: "unit result list \<Rightarrow> unit result" where
  "check_all [] = Inr ()"
| "check_all (c # cs) = bindR c (\<lambda>_. check_all cs)"

text \<open>\<open>checks cs k\<close>: the statements \<open>cs\<close> in order, then \<open>k\<close>; the first exception wins.\<close>

definition checks :: "unit result list \<Rightarrow> 'a result \<Rightarrow> 'a result" where
  "checks cs k = bindR (check_all cs) (\<lambda>_. k)"

text \<open>A comprehension \<^verbatim>\<open>tuple(f(x) for x in xs)\<close> whose body may raise.\<close>

primrec mapR :: "('a \<Rightarrow> 'b result) \<Rightarrow> 'a list \<Rightarrow> 'b list result" where
  "mapR f [] = Inr []"
| "mapR f (x # xs) = bindR (f x) (\<lambda>y. bindR (mapR f xs) (\<lambda>ys. Inr (y # ys)))"

definition opt_chk :: "('a \<Rightarrow> 'b result) \<Rightarrow> 'a option \<Rightarrow> unit result" where
  "opt_chk f v = (case v of None \<Rightarrow> Inr () | Some x \<Rightarrow> chk (f x))"

lemma bindR_Inl [simp]: "bindR (Inl e) f = Inl e"
  and bindR_Inr [simp]: "bindR (Inr x) f = f x"
  by (simp_all add: bindR_def)

lemma bindR_eq_Inr [ok_simps]: "bindR m f = Inr y \<longleftrightarrow> (\<exists>x. m = Inr x \<and> f x = Inr y)"
  by (cases m) auto

lemma bindR_eq_Inl:
  "bindR m f = Inl e \<longleftrightarrow> m = Inl e \<or> (\<exists>x. m = Inr x \<and> f x = Inl e)"
  by (cases m) auto

lemma bindR_assoc: "bindR (bindR m f) g = bindR m (\<lambda>x. bindR (f x) g)"
  by (cases m) auto

lemma bindR_cong [fundef_cong]:
  "m = m' \<Longrightarrow> (\<And>x. m' = Inr x \<Longrightarrow> f x = f' x) \<Longrightarrow> bindR m f = bindR m' f'"
  by (cases m) auto

lemma raise_if_ok [ok_simps]: "raise_if c e = Inr u \<longleftrightarrow> \<not> c"
  by (simp add: raise_if_def)

lemma raise_if_simps [simp]: "raise_if True e = Inl e" "raise_if False e = Inr ()"
  by (simp_all add: raise_if_def)

lemma raise_if_err: "raise_if c e = Inl e' \<longleftrightarrow> c \<and> e' = e"
  by (auto simp: raise_if_def)

lemma chk_ok [ok_simps]: "chk m = Inr u \<longleftrightarrow> (\<exists>x. m = Inr x)"
  by (auto simp: chk_def ok_simps)

lemma chk_simps [simp]: "chk (Inl e) = Inl e" "chk (Inr x) = Inr ()"
  by (simp_all add: chk_def)

lemma chk_err: "chk m = Inl e \<longleftrightarrow> m = Inl e"
  by (auto simp: chk_def bindR_eq_Inl)

lemma check_all_ok [ok_simps]:
  "check_all (c # cs) = Inr u \<longleftrightarrow> c = Inr () \<and> check_all cs = Inr ()"
  by (auto simp: ok_simps)

lemma check_all_append: "check_all (cs @ ds) = bindR (check_all cs) (\<lambda>_. check_all ds)"
  by (induction cs) (auto simp: bindR_assoc)

lemma check_all_append_ok [ok_simps]:
  "check_all (cs @ ds) = Inr u \<longleftrightarrow> check_all cs = Inr () \<and> check_all ds = Inr ()"
  by (auto simp: check_all_append ok_simps)

lemma check_all_map_ok [ok_simps]:
  "check_all (map f xs) = Inr u \<longleftrightarrow> (\<forall>x \<in> set xs. f x = Inr ())"
  by (induction xs) (auto simp: ok_simps)

lemma checks_ok [ok_simps]: "checks cs k = Inr y \<longleftrightarrow> check_all cs = Inr () \<and> k = Inr y"
  by (auto simp: checks_def ok_simps)

lemma checks_Nil [simp]: "checks [] k = k"
  and checks_Cons: "checks (c # cs) k = bindR c (\<lambda>_. checks cs k)"
  by (simp_all add: checks_def bindR_assoc)

lemma checks_step [simp]: "checks (Inr u # cs) k = checks cs k" "checks (Inl e # cs) k = Inl e"
  by (simp_all add: checks_Cons)

lemma mapR_ok_iff: "mapR f xs = Inr ys \<longleftrightarrow> list_all2 (\<lambda>x y. f x = Inr y) xs ys"
  by (induction xs arbitrary: ys) (auto simp: ok_simps list_all2_Cons1)

lemma mapR_ok_fix: "(\<And>x. x \<in> set xs \<Longrightarrow> f x = Inr x) \<Longrightarrow> mapR f xs = Inr xs"
  by (induction xs) auto

lemma mapR_length: "mapR f xs = Inr ys \<Longrightarrow> length ys = length xs"
  by (auto simp: mapR_ok_iff dest: list_all2_lengthD)

lemma mapR_in_set: "mapR f xs = Inr ys \<Longrightarrow> y \<in> set ys \<Longrightarrow> \<exists>x \<in> set xs. f x = Inr y"
  by (fastforce simp: mapR_ok_iff list_all2_conv_all_nth in_set_conv_nth)

lemma mapR_idem:
  assumes "mapR f xs = Inr ys" and "\<And>x y. x \<in> set xs \<Longrightarrow> f x = Inr y \<Longrightarrow> f y = Inr y"
  shows "mapR f ys = Inr ys"
  using assms by (intro mapR_ok_fix) (auto dest!: mapR_in_set)

lemma opt_chk_ok [ok_simps]:
  "opt_chk f v = Inr u \<longleftrightarrow> (\<forall>x. v = Some x \<longrightarrow> (\<exists>y. f x = Inr y))"
  by (auto simp: opt_chk_def ok_simps split: option.splits)

lemma opt_chk_simps [simp]: "opt_chk f None = Inr ()" "opt_chk f (Some x) = chk (f x)"
  by (simp_all add: opt_chk_def)

text \<open>Whether a computation returned, for executable statements of the outcome.\<close>

definition returns :: "'a result \<Rightarrow> bool" where
  "returns m = (case m of Inl _ \<Rightarrow> False | Inr _ \<Rightarrow> True)"

lemma returns_iff: "returns m \<longleftrightarrow> (\<exists>x. m = Inr x)"
  by (auto simp: returns_def split: sum.splits)

lemma returns_simps [simp]: "returns (Inl e) = False" "returns (Inr x) = True"
  by (simp_all add: returns_def)

section \<open>Strings\<close>

text \<open>
  A Python \<^verbatim>\<open>str\<close> is a HOL \<open>string\<close>: the characters are the code points 0 to 255, so
  that \<open>length\<close> counts code points as \<^verbatim>\<open>len\<close> does.  \<open>py_space\<close> is \<^verbatim>\<open>str.isspace\<close> on that
  range: tab to carriage return, the separators 28 to 31, space, 133 and 160.
\<close>

definition py_space :: "char \<Rightarrow> bool" where
  "py_space c = (let n = of_char c :: nat in
     9 \<le> n \<and> n \<le> 13 \<or> 28 \<le> n \<and> n \<le> 32 \<or> n = 133 \<or> n = 160)"

definition lstrip :: "string \<Rightarrow> string" where
  "lstrip s = dropWhile py_space s"

definition strip :: "string \<Rightarrow> string" where
  "strip s = rev (lstrip (rev (lstrip s)))"

lemma lstrip_no_space: "list_all (\<lambda>c. \<not> py_space c) s \<Longrightarrow> lstrip s = s"
  by (cases s) (auto simp: lstrip_def)

lemma strip_no_space: "list_all (\<lambda>c. \<not> py_space c) s \<Longrightarrow> strip s = s"
  unfolding strip_def by (simp add: lstrip_no_space)

lemma lstrip_idem [simp]: "lstrip (lstrip s) = lstrip s"
  by (simp add: lstrip_def dropWhile_idem)

lemma lstrip_fixed: "lstrip s = s \<longleftrightarrow> s = [] \<or> \<not> py_space (hd s)"
  by (cases s) (auto simp: lstrip_def,
      metis impossible_Cons length_dropWhile_le)

lemma rev_dropWhile_hd:
  assumes "s = [] \<or> \<not> P (hd s)"
  shows "rev (dropWhile P (rev s)) = [] \<or> \<not> P (hd (rev (dropWhile P (rev s))))"
proof (cases s)
  case (Cons c cs)
  with assms have c: "\<not> P c" by simp
  then have "dropWhile P (rev cs @ [c]) = dropWhile P (rev cs) @ [c]"
    by (induction "rev cs") (auto simp: dropWhile_append)
  with c Cons show ?thesis by simp
qed simp

lemma strip_idem [simp]: "strip (strip s) = strip s"
proof -
  let ?t = "lstrip s"
  have t: "?t = [] \<or> \<not> py_space (hd ?t)"
    using lstrip_fixed [of ?t] by simp
  then have "lstrip (strip s) = strip s"
    using rev_dropWhile_hd [where P = py_space, OF t]
    by (subst lstrip_fixed) (simp add: strip_def lstrip_def)
  then show ?thesis
    by (simp add: strip_def)
qed

lemma strip_o_strip [simp]: "strip \<circ> strip = strip"
  and strip_image_idem [simp]: "strip ` strip ` A = strip ` A"
  by (auto simp: image_image)

section \<open>Lists\<close>

text \<open>
  Keys as Python's sets and dictionaries see them.  \<open>has_dup\<close> is
  \<^verbatim>\<open>len(xs) != len(set(xs))\<close>.
\<close>

definition has_dup :: "'a list \<Rightarrow> bool" where
  "has_dup xs = (length xs \<noteq> length (remdups xs))"

lemma has_dup_iff [simp]: "has_dup xs \<longleftrightarrow> \<not> distinct xs"
  by (simp add: has_dup_def) (metis distinct_remdups remdups_id_iff_distinct length_remdups_eq)

lemma sorted_list_of_set_string [simp]:
  "set (sort xs) = set (xs :: string list)" "distinct (sort xs) = distinct xs"
  by simp_all

text \<open>A symmetric relation between the elements of a list does not depend on their order.\<close>

lemma sorted_wrt_insort_key:
  assumes "symp R"
  shows "sorted_wrt R (insort_key k x xs) \<longleftrightarrow> (\<forall>y \<in> set xs. R x y) \<and> sorted_wrt R xs"
  using assms by (induction xs) (auto simp: set_insort_key dest: sympD)

lemma sorted_wrt_sort_key:
  assumes "symp R" shows "sorted_wrt R (sort_key k xs) \<longleftrightarrow> sorted_wrt R xs"
  by (induction xs) (auto simp: sorted_wrt_insort_key [OF assms])

lemma sorted_wrt_concat:
  "sorted_wrt R (concat xss) \<longleftrightarrow> (\<forall>xs \<in> set xss. sorted_wrt R xs) \<and>
     sorted_wrt (\<lambda>xs ys. \<forall>x \<in> set xs. \<forall>y \<in> set ys. R x y) xss"
  by (induction xss) (auto simp: sorted_wrt_append)

text \<open>A dictionary \<^verbatim>\<open>{k(x): x for x in xs}\<close> over distinct keys.\<close>

definition by_key :: "('a \<Rightarrow> 'k) \<Rightarrow> 'a list \<Rightarrow> ('k \<times> 'a) list" where
  "by_key k xs = map (\<lambda>x. (k x, x)) xs"

lemma by_key_keys [simp]: "map fst (by_key k xs) = map k xs" "fst ` set (by_key k xs) = k ` set xs"
  by (auto simp: by_key_def o_def image_image)

lemma map_of_by_key:
  "distinct (map k xs) \<Longrightarrow> map_of (by_key k xs) i = Some x \<longleftrightarrow> x \<in> set xs \<and> k x = i"
  by (subst map_of_eq_Some_iff) (auto simp: by_key_def o_def)

end
