(* ===== verification/Datetimes.thy ===== *)
theory Datetimes
  imports Prelude "HOL-Library.Product_Lexorder"
begin

text \<open>
  The part of Python's \<^verbatim>\<open>datetime\<close> the code uses.  A \<^verbatim>\<open>datetime\<close> is its instant, in
  microseconds since 0001-01-01T00:00:00 UTC, with what its \<^verbatim>\<open>tzinfo\<close> says: none (a naive
  value), an offset, or a \<^verbatim>\<open>tzinfo\<close> whose \<^verbatim>\<open>utcoffset()\<close> raises.  Python compares aware values
  by their instants; the order below does so, and separates equal instants by the zone
  only, which never happens between the UTC values that pass \<^verbatim>\<open>require_utc\<close>.  A
  \<^verbatim>\<open>timedelta\<close> is its length in microseconds.  The year-9999 overflow of \<^verbatim>\<open>datetime\<close>
  arithmetic is not modelled.
\<close>

datatype tzinfo = NoTz | Offset int | RaisingTz

datatype datetime = Datetime (micros: int) (tz: tzinfo)

type_synonym timedelta = int

fun tz_code :: "tzinfo \<Rightarrow> int \<times> int" where
  "tz_code NoTz = (0, 0)"
| "tz_code (Offset i) = (1, i)"
| "tz_code RaisingTz = (2, 0)"

lemma tz_code_inject [simp]: "tz_code a = tz_code b \<longleftrightarrow> a = b"
  by (cases a; cases b) auto

definition dt_code :: "datetime \<Rightarrow> int \<times> int \<times> int" where
  "dt_code d = (micros d, tz_code (tz d))"

lemma dt_code_inject [simp]: "dt_code a = dt_code b \<longleftrightarrow> a = b"
  by (cases a; cases b) (auto simp: dt_code_def)

instantiation datetime :: linorder
begin

definition less_eq_datetime :: "datetime \<Rightarrow> datetime \<Rightarrow> bool" where
  "less_eq_datetime a b = (dt_code a \<le> dt_code b)"

definition less_datetime :: "datetime \<Rightarrow> datetime \<Rightarrow> bool" where
  "less_datetime a b = (dt_code a < dt_code b)"

instance
  by standard (auto simp: less_eq_datetime_def less_datetime_def less_le)

end

definition utc :: "int \<Rightarrow> datetime" where
  "utc t = Datetime t (Offset 0)"

definition is_utc :: "datetime \<Rightarrow> bool" where
  "is_utc d = (tz d = Offset 0)"

definition dt_add :: "datetime \<Rightarrow> timedelta \<Rightarrow> datetime" where
  "dt_add d t = Datetime (micros d + t) (tz d)"

definition dt_diff :: "datetime \<Rightarrow> datetime \<Rightarrow> timedelta" where
  "dt_diff a b = micros a - micros b"

definition seconds :: "int \<Rightarrow> timedelta" where
  "seconds n = n * 1000000"

definition minutes :: "int \<Rightarrow> timedelta" where
  "minutes n = seconds (60 * n)"

definition hours :: "int \<Rightarrow> timedelta" where
  "hours n = minutes (60 * n)"

lemma utc_simps [simp]: "micros (utc t) = t" "tz (utc t) = Offset 0" "is_utc (utc t)"
  by (simp_all add: utc_def is_utc_def)

lemma is_utc_conv: "is_utc d \<longleftrightarrow> (\<exists>t. d = utc t)"
  by (cases d) (auto simp: is_utc_def utc_def)

lemma utc_le [simp]: "utc a \<le> utc b \<longleftrightarrow> a \<le> b"
  and utc_less [simp]: "utc a < utc b \<longleftrightarrow> a < b"
  and utc_eq [simp]: "utc a = utc b \<longleftrightarrow> a = b"
  by (auto simp: less_eq_datetime_def less_datetime_def dt_code_def utc_def)

lemma utc_less_iff: "is_utc a \<Longrightarrow> is_utc b \<Longrightarrow> a < b \<longleftrightarrow> micros a < micros b"
  and utc_le_iff: "is_utc a \<Longrightarrow> is_utc b \<Longrightarrow> a \<le> b \<longleftrightarrow> micros a \<le> micros b"
  by (auto simp: is_utc_conv)

lemma dt_add_utc [simp]: "dt_add (utc t) d = utc (t + d)"
  and dt_diff_utc [simp]: "dt_diff (utc a) (utc b) = a - b"
  by (simp_all add: dt_add_def dt_diff_def utc_def)

lemma dt_add_simps [simp]:
  "is_utc (dt_add d t) = is_utc d" "micros (dt_add d t) = micros d + t" "tz (dt_add d t) = tz d"
  by (simp_all add: dt_add_def is_utc_def)

end
