(* ===== verification/Common.thy ===== *)
theory Common
  imports Datetimes
begin

text \<open>
  \<^verbatim>\<open>core/common.py\<close>: the value checks every record's constructor calls, and the deeply
  immutable JSON values.  A check returns its (possibly normalised) argument or raises.

  The model's types rule out the values the \<^verbatim>\<open>isinstance\<close> tests of the source reject (a
  string field holds a string, a revision is an \<open>int\<close>), so those tests have no branch here.
\<close>

section \<open>Scalar checks\<close>

definition SCHEMA_VERSION :: int where
  "SCHEMA_VERSION = 1"

definition require_text :: "string \<Rightarrow> string \<Rightarrow> nat \<Rightarrow> string result" where
  "require_text value field maximum =
     (let normalized = strip value
      in if normalized = [] \<or> length normalized > maximum
         then Inl (CoreInvariantError (field @ '' must be non-empty and bounded''))
         else Inr normalized)"

text \<open>The default of \<^verbatim>\<open>require_text\<close>'s keyword \<^verbatim>\<open>maximum\<close>.\<close>

abbreviation require_text_default :: "string \<Rightarrow> string \<Rightarrow> string result" where
  "require_text_default value field \<equiv> require_text value field 4096"

text \<open>The two patterns, \<^verbatim>\<open>[a-z0-9][a-z0-9._:-]{0,127}\<close> and \<^verbatim>\<open>sha256:[0-9a-f]{64}\<close>.\<close>

definition id_head :: "char \<Rightarrow> bool" where
  "id_head c = (c \<in> set ''abcdefghijklmnopqrstuvwxyz0123456789'')"

definition id_tail :: "char \<Rightarrow> bool" where
  "id_tail c = (id_head c \<or> c \<in> set ''._:-'')"

lemma id_tail_no_space: "id_tail c \<Longrightarrow> \<not> py_space c"
  by (auto simp: id_tail_def id_head_def py_space_def)

fun matches_id :: "string \<Rightarrow> bool" where
  "matches_id [] = False"
| "matches_id (c # cs) = (id_head c \<and> list_all id_tail cs \<and> length cs \<le> 127)"

definition hex_char :: "char \<Rightarrow> bool" where
  "hex_char c = (c \<in> set ''0123456789abcdef'')"

definition matches_sha256 :: "string \<Rightarrow> bool" where
  "matches_sha256 s =
     (take 7 s = ''sha256:'' \<and> length (drop 7 s) = 64 \<and> list_all hex_char (drop 7 s))"

definition require_stable_id :: "string \<Rightarrow> string \<Rightarrow> string result" where
  "require_stable_id value field =
     (if matches_id value then Inr value
      else Inl (CoreInvariantError (field @ '' must be an explicit stable string ID'')))"

definition require_revision :: "int \<Rightarrow> string \<Rightarrow> int result" where
  "require_revision value field =
     (if value < 1 then Inl (CoreInvariantError (field @ '' must be a positive integer''))
      else Inr value)"

definition require_schema_version :: "int \<Rightarrow> int result" where
  "require_schema_version value =
     (if value \<noteq> SCHEMA_VERSION then Inl (CoreInvariantError ''unsupported schema_version'')
      else Inr value)"

definition require_digest :: "string \<Rightarrow> string \<Rightarrow> string result" where
  "require_digest value field =
     (if matches_sha256 value then Inr value
      else Inl (CoreInvariantError (field @ '' must be a lowercase SHA-256 digest'')))"

definition require_utc :: "datetime \<Rightarrow> string \<Rightarrow> datetime result" where
  "require_utc value field =
     (case tz value of
        NoTz \<Rightarrow> Inl (CoreInvariantError (field @ '' must be timezone-aware UTC''))
      | RaisingTz \<Rightarrow> Inl (CoreInvariantError (field @ '' must be timezone-aware UTC''))
      | Offset offset \<Rightarrow>
          if offset \<noteq> 0 then Inl (CoreInvariantError (field @ '' must be UTC''))
          else Inr value)"

definition freeze_strings :: "string list \<Rightarrow> string \<Rightarrow> bool \<Rightarrow> string list result" where
  "freeze_strings values field allow_empty =
     bindR (mapR (\<lambda>item. require_text_default item field) values) (\<lambda>normalized.
       checks
         [raise_if (\<not> allow_empty \<and> normalized = [])
            (CoreInvariantError (field @ '' must not be empty'')),
          raise_if (has_dup normalized)
            (CoreInvariantError (field @ '' must not contain duplicates''))]
         (Inr normalized))"

definition bounded_text :: "nat \<Rightarrow> string \<Rightarrow> bool" where
  "bounded_text m t \<longleftrightarrow> t \<noteq> [] \<and> length t \<le> m"

lemma require_text_ok [ok_simps]:
  "require_text v f m = Inr t \<longleftrightarrow> t = strip v \<and> bounded_text m t"
  by (auto simp: require_text_def bounded_text_def Let_def)

lemma require_stable_id_ok [ok_simps]: "require_stable_id v f = Inr t \<longleftrightarrow> t = v \<and> matches_id v"
  by (auto simp: require_stable_id_def)

lemma require_revision_ok [ok_simps]: "require_revision v f = Inr t \<longleftrightarrow> t = v \<and> 1 \<le> v"
  by (auto simp: require_revision_def)

lemma require_schema_version_ok [ok_simps]: "require_schema_version v = Inr t \<longleftrightarrow> t = 1 \<and> v = 1"
  by (auto simp: require_schema_version_def SCHEMA_VERSION_def)

lemma require_digest_ok [ok_simps]: "require_digest v f = Inr t \<longleftrightarrow> t = v \<and> matches_sha256 v"
  by (auto simp: require_digest_def)

lemma require_utc_ok [ok_simps]: "require_utc v f = Inr t \<longleftrightarrow> t = v \<and> is_utc v"
  by (auto simp: require_utc_def is_utc_def split: tzinfo.splits)

text \<open>A text that passed once passes again unchanged: constructors may be replayed.\<close>

lemma require_text_idem: "require_text v f m = Inr t \<Longrightarrow> require_text t f m = Inr t"
  by (auto simp: ok_simps)

definition frozen_strings :: "string list \<Rightarrow> bool" where
  "frozen_strings xs \<longleftrightarrow>
     (\<forall>x \<in> set xs. strip x = x \<and> bounded_text 4096 x) \<and> distinct xs"

lemma mapR_require_text_ok:
  "mapR (\<lambda>i. require_text i f m) vs = Inr ts \<longleftrightarrow>
     ts = map strip vs \<and> (\<forall>x \<in> set ts. bounded_text m x)"
  by (induction vs arbitrary: ts) (auto simp: ok_simps)

lemma freeze_strings_ok [ok_simps]:
  "freeze_strings vs f ae = Inr ts \<longleftrightarrow>
     ts = map strip vs \<and> frozen_strings ts \<and> (ae \<or> ts \<noteq> [])"
  by (auto simp: freeze_strings_def frozen_strings_def ok_simps mapR_require_text_ok)

lemma frozen_strings_map_strip [simp]: "frozen_strings xs \<Longrightarrow> map strip xs = xs"
  by (auto simp: frozen_strings_def intro: map_idI)

lemma freeze_strings_idem:
  "freeze_strings vs f ae = Inr ts \<Longrightarrow> freeze_strings ts f ae = Inr ts"
  by (auto simp: ok_simps)

section \<open>JSON values\<close>

text \<open>
  A JSON-compatible tree.  \<open>JList\<close> is a list or a tuple, \<open>JObj\<close> a mapping or a
  \<^verbatim>\<open>FrozenJsonObject\<close> with its entries in order.  A float is infinite, not a number, or
  finite; a finite one is given by its \<^verbatim>\<open>repr\<close>, the shortest decimal text that reads back
  as it, which determines it and is the text \<^verbatim>\<open>json.dumps\<close> writes.  Equality of two trees
  is that of their constructors: Python's \<^verbatim>\<open>1 == True\<close> and \<^verbatim>\<open>1 == 1.0\<close> are not modelled.
\<close>

datatype pyfloat = PyFloat string | PyInf bool | PyNan

fun isfinite :: "pyfloat \<Rightarrow> bool" where
  "isfinite (PyFloat _) = True"
| "isfinite _ = False"

datatype json =
    JNull
  | JBool bool
  | JInt int
  | JFloat pyfloat
  | JStr string
  | JList "json list"
  | JObj "(string \<times> json) list"

type_synonym frozen_json = "(string \<times> json) list"

lemma mapR_cong [fundef_cong]:
  "xs = ys \<Longrightarrow> (\<And>x. x \<in> set ys \<Longrightarrow> f x = g x) \<Longrightarrow> mapR f xs = mapR g ys"
proof (induction xs arbitrary: ys)
  case (Cons x xs)
  then obtain zs where "ys = x # zs" "xs = zs" by (cases ys) auto
  with Cons show ?case by (auto intro!: bindR_cong)
qed simp

text \<open>The end of \<^verbatim>\<open>FrozenJsonObject.__post_init__\<close>: sort the entries by key, refuse duplicates.\<close>

definition seal_entries :: "frozen_json \<Rightarrow> frozen_json result" where
  "seal_entries normalized =
     (let entries = sort_key fst normalized
      in if has_dup (map fst entries)
         then Inl (CoreInvariantError ''JSON object keys must be unique'')
         else Inr entries)"

fun freeze_json :: "json \<Rightarrow> json result" where
  "freeze_json JNull = Inr JNull"
| "freeze_json (JBool b) = Inr (JBool b)"
| "freeze_json (JInt i) = Inr (JInt i)"
| "freeze_json (JStr s) = Inr (JStr s)"
| "freeze_json (JFloat x) =
     (if \<not> isfinite x then Inl (CoreInvariantError ''JSON numbers must be finite'')
      else Inr (JFloat x))"
| "freeze_json (JObj entries) =
     bindR (mapR (\<lambda>(key, value).
              bindR (require_text key ''JSON object key'' 256) (\<lambda>key'.
                bindR (freeze_json value) (\<lambda>value'. Inr (key', value')))) entries)
       (\<lambda>normalized. bindR (seal_entries normalized) (\<lambda>es. Inr (JObj es)))"
| "freeze_json (JList items) = bindR (mapR freeze_json items) (\<lambda>xs. Inr (JList xs))"

definition freeze_entry :: "string \<times> json \<Rightarrow> (string \<times> json) result" where
  "freeze_entry = (\<lambda>(key, value).
     bindR (require_text key ''JSON object key'' 256) (\<lambda>key'.
       bindR (freeze_json value) (\<lambda>value'. Inr (key', value'))))"

definition FrozenJsonObject_init :: "frozen_json \<Rightarrow> frozen_json result" where
  "FrozenJsonObject_init entries = bindR (mapR freeze_entry entries) seal_entries"

text \<open>\<^verbatim>\<open>FrozenJsonObject.__getitem__\<close> scans for the first entry; \<^verbatim>\<open>Mapping.get\<close> is its total form.\<close>

primrec json_get :: "frozen_json \<Rightarrow> string \<Rightarrow> json option" where
  "json_get [] key = None"
| "json_get (e # es) key = (if fst e = key then Some (snd e) else json_get es key)"

lemma json_get_map_of: "json_get es = map_of es"
  by (rule ext, induct_tac es) auto

lemma freeze_json_JObj:
  "freeze_json (JObj es) = bindR (FrozenJsonObject_init es) (\<lambda>es'. Inr (JObj es'))"
  by (simp add: FrozenJsonObject_init_def freeze_entry_def [abs_def] bindR_assoc)

text \<open>A frozen object: sorted, distinct, stripped keys of at most 256 characters.\<close>

definition frozen_entries :: "frozen_json \<Rightarrow> bool" where
  "frozen_entries es \<longleftrightarrow> sorted (map fst es) \<and> distinct (map fst es) \<and>
     (\<forall>e \<in> set es. freeze_entry e = Inr e)"

lemma seal_entries_ok:
  "seal_entries n = Inr es \<longleftrightarrow> es = sort_key fst n \<and> distinct (map fst es)"
  by (auto simp: seal_entries_def Let_def)

lemma freeze_entry_idem:
  assumes "freeze_entry e = Inr e'" and "freeze_json (snd e') = Inr (snd e')"
  shows "freeze_entry e' = Inr e'"
  using assms by (cases e) (auto simp: freeze_entry_def ok_simps)

lemma FrozenJsonObject_init_frozen:
  assumes "FrozenJsonObject_init es = Inr es'"
    and "\<And>e e'. e \<in> set es \<Longrightarrow> freeze_entry e = Inr e' \<Longrightarrow> freeze_json (snd e') = Inr (snd e')"
  shows "frozen_entries es'"
proof -
  from assms(1) obtain n where n: "mapR freeze_entry es = Inr n" "seal_entries n = Inr es'"
    by (auto simp: FrozenJsonObject_init_def ok_simps)
  have "freeze_entry e' = Inr e'" if "e' \<in> set n" for e'
    using mapR_in_set [OF n(1) that] assms(2) freeze_entry_idem by blast
  with n(2) show ?thesis
    by (auto simp: frozen_entries_def seal_entries_ok)
qed

lemma frozen_entries_init:
  assumes "frozen_entries es"
  shows "FrozenJsonObject_init es = Inr es"
proof -
  have "mapR freeze_entry es = Inr es"
    using assms by (intro mapR_ok_fix) (auto simp: frozen_entries_def)
  moreover have "seal_entries es = Inr es"
    using assms by (simp add: frozen_entries_def seal_entries_def sort_key_id_if_sorted)
  ultimately show ?thesis
    by (simp add: FrozenJsonObject_init_def)
qed

lemma freeze_json_idem_aux: "freeze_json v = Inr v' \<Longrightarrow> freeze_json v' = Inr v'"
proof (induction v arbitrary: v' rule: freeze_json.induct)
  case (6 entries)
  then obtain es where es: "FrozenJsonObject_init entries = Inr es" "v' = JObj es"
    by (auto simp only: freeze_json_JObj bindR_eq_Inr sum.inject)
  have "frozen_entries es"
    using es(1)
  proof (rule FrozenJsonObject_init_frozen)
    fix e e' assume e: "e \<in> set entries" "freeze_entry e = Inr e'"
    obtain k v where "e = (k, v)" by (rule prod.exhaust)
    with e obtain k' v' where e': "e' = (k', v')"
        and key: "require_text k ''JSON object key'' 256 = Inr k'"
        and frozen: "freeze_json v = Inr v'"
      by (auto simp: freeze_entry_def bindR_eq_Inr)
    from e(1) \<open>e = (k, v)\<close> have "(k, v) \<in> set entries" by simp
    from "6.IH" [OF this refl key frozen] e' show "freeze_json (snd e') = Inr (snd e')"
      by simp
  qed
  with es(2) show ?case
    by (simp only: freeze_json_JObj frozen_entries_init bindR_Inr)
next
  case (7 items)
  then obtain xs where xs: "mapR freeze_json items = Inr xs" "v' = JList xs"
    by (auto simp: bindR_eq_Inr)
  have "mapR freeze_json xs = Inr xs"
    by (rule mapR_idem [OF xs(1)]) (rule "7.IH")
  with xs(2) show ?case by simp
qed (auto split: if_splits)

lemma FrozenJsonObject_init_idem_aux:
  "FrozenJsonObject_init es = Inr es' \<Longrightarrow> frozen_entries es'"
  by (rule FrozenJsonObject_init_frozen)
    (auto simp: freeze_entry_def bindR_eq_Inr split: prod.splits dest: freeze_json_idem_aux)

end
