(* ===== verification/Namespaces.thy ===== *)
theory Namespaces
  imports Common
begin

text \<open>
  \<^verbatim>\<open>core/namespace.py\<close> and \<^verbatim>\<open>core/principals.py\<close>: tenant, colleague and principal
  namespaces, and the three disjoint kinds of durable principal.  A function \<open>X_init\<close> is
  the \<^verbatim>\<open>__post_init__\<close> of the dataclass \<open>X\<close>: it takes the field values as given and
  returns the (normalised) frozen value, or raises.
\<close>

section \<open>Constructors that can be replayed\<close>

text \<open>
  The contract of every \<^verbatim>\<open>__post_init__\<close> of the core: a value it returned passes it again
  unchanged.  \<^verbatim>\<open>dataclasses.replace\<close> and the storage codec rest on it, since both run the
  constructor again on the fields of an existing value.
\<close>

locale replayable =
  fixes init :: "'a \<Rightarrow> 'a result"
  assumes init_stable: "init r = Inr r' \<Longrightarrow> init r' = Inr r'"
begin

definition valid :: "'a \<Rightarrow> bool" where
  "valid r \<longleftrightarrow> init r = Inr r"

lemma init_valid: "init r = Inr r' \<Longrightarrow> valid r'"
  by (auto simp: valid_def dest: init_stable)

lemma valid_iff_image: "valid r' \<longleftrightarrow> (\<exists>r. init r = Inr r')"
  by (auto simp: valid_def dest: init_stable)

lemma init_twice: "bindR (init r) init = init r"
  by (cases "init r") (auto dest: init_stable)

end

section \<open>Namespaces\<close>

datatype NamespaceScope = TENANT | COLLEAGUE | PRINCIPAL

record Namespace =
  ns_tenant_id :: string
  ns_scope :: NamespaceScope
  ns_scope_id :: "string option"

definition Namespace_init :: "Namespace \<Rightarrow> Namespace result" where
  "Namespace_init ns = checks
     [chk (require_stable_id (ns_tenant_id ns) ''tenant_id''),
      (if ns_scope ns = TENANT
       then raise_if (ns_scope_id ns \<noteq> None)
              (NamespaceMismatchError ''tenant namespace cannot carry a scoped ID'')
       else case ns_scope_id ns of
              None \<Rightarrow> Inl (NamespaceMismatchError ''scoped namespace requires a scope_id'')
            | Some i \<Rightarrow> chk (require_stable_id i ''scope_id''))]
     (Inr ns)"

definition tenant_namespace :: "string \<Rightarrow> Namespace result" where
  "tenant_namespace t = Namespace_init \<lparr>ns_tenant_id = t, ns_scope = TENANT, ns_scope_id = None\<rparr>"

definition colleague_namespace :: "string \<Rightarrow> string \<Rightarrow> Namespace result" where
  "colleague_namespace t c =
     Namespace_init \<lparr>ns_tenant_id = t, ns_scope = COLLEAGUE, ns_scope_id = Some c\<rparr>"

definition principal_namespace :: "string \<Rightarrow> string \<Rightarrow> Namespace result" where
  "principal_namespace t p =
     Namespace_init \<lparr>ns_tenant_id = t, ns_scope = PRINCIPAL, ns_scope_id = Some p\<rparr>"

definition require_colleague :: "Namespace \<Rightarrow> unit result" where
  "require_colleague ns = raise_if (ns_scope ns \<noteq> COLLEAGUE)
     (NamespaceMismatchError ''a complete colleague namespace is required'')"

definition require_principal :: "Namespace \<Rightarrow> string \<Rightarrow> unit result" where
  "require_principal ns p = raise_if (ns_scope ns \<noteq> PRINCIPAL \<or> ns_scope_id ns \<noteq> Some p)
     (NamespaceMismatchError ''principal namespace does not match principal ID'')"

definition require_exact :: "Namespace \<Rightarrow> Namespace \<Rightarrow> unit result" where
  "require_exact ns other = raise_if (ns \<noteq> other) (NamespaceMismatchError ''namespace mismatch'')"

definition require_same_tenant :: "Namespace \<Rightarrow> Namespace \<Rightarrow> unit result" where
  "require_same_tenant ns other = raise_if (ns_tenant_id ns \<noteq> ns_tenant_id other)
     (NamespaceMismatchError ''tenant namespace mismatch'')"

lemma Namespace_init_ok [ok_simps]:
  "Namespace_init ns = Inr ns' \<longleftrightarrow> ns' = ns \<and> matches_id (ns_tenant_id ns) \<and>
     (if ns_scope ns = TENANT then ns_scope_id ns = None
      else \<exists>i. ns_scope_id ns = Some i \<and> matches_id i)"
  by (auto simp: Namespace_init_def ok_simps split: option.splits)

lemma require_colleague_ok [ok_simps]: "require_colleague ns = Inr u \<longleftrightarrow> ns_scope ns = COLLEAGUE"
  and require_principal_ok [ok_simps]:
    "require_principal ns p = Inr u \<longleftrightarrow> ns_scope ns = PRINCIPAL \<and> ns_scope_id ns = Some p"
  and require_exact_ok [ok_simps]: "require_exact ns other = Inr u \<longleftrightarrow> ns = other"
  and require_same_tenant_ok [ok_simps]:
    "require_same_tenant ns other = Inr u \<longleftrightarrow> ns_tenant_id ns = ns_tenant_id other"
  by (auto simp: require_colleague_def require_principal_def require_exact_def
      require_same_tenant_def ok_simps)

section \<open>Principals\<close>

datatype PrincipalKind = HUMAN | MODEL | SERVICE

datatype HumanRole = TENANT_ADMIN | COLLEAGUE_USER | AUDITOR

fun HumanRole_value :: "HumanRole \<Rightarrow> string" where
  "HumanRole_value TENANT_ADMIN = ''tenant_admin''"
| "HumanRole_value COLLEAGUE_USER = ''colleague_user''"
| "HumanRole_value AUDITOR = ''auditor''"

definition CANONICAL_HUMAN_ROLE_IDS :: "string list" where
  "CANONICAL_HUMAN_ROLE_IDS = map HumanRole_value [TENANT_ADMIN, COLLEAGUE_USER, AUDITOR]"

record Principal =
  pr_namespace :: Namespace
  pr_principal_id :: string
  pr_kind :: PrincipalKind
  pr_roles :: "HumanRole list"
  pr_revision :: int
  pr_schema_version :: int

definition Principal_init :: "Principal \<Rightarrow> Principal result" where
  "Principal_init p = checks
     [chk (require_schema_version (pr_schema_version p)),
      chk (require_stable_id (pr_principal_id p) ''principal_id''),
      require_principal (pr_namespace p) (pr_principal_id p),
      raise_if (has_dup (pr_roles p))
        (CoreInvariantError ''principal roles must not contain duplicates''),
      raise_if (pr_kind p \<noteq> HUMAN \<and> pr_roles p \<noteq> [])
        (CoreInvariantError ''model and service principals cannot have human roles''),
      chk (require_revision (pr_revision p) ''revision'')]
     (Inr p)"

definition human_principal :: "string \<Rightarrow> string \<Rightarrow> HumanRole list \<Rightarrow> int \<Rightarrow> Principal result" where
  "human_principal tenant_id principal_id roles revision =
     bindR (principal_namespace tenant_id principal_id) (\<lambda>ns.
       Principal_init \<lparr>pr_namespace = ns, pr_principal_id = principal_id, pr_kind = HUMAN,
         pr_roles = roles, pr_revision = revision, pr_schema_version = SCHEMA_VERSION\<rparr>)"

definition model_principal :: "string \<Rightarrow> string \<Rightarrow> int \<Rightarrow> Principal result" where
  "model_principal tenant_id principal_id revision =
     bindR (principal_namespace tenant_id principal_id) (\<lambda>ns.
       Principal_init \<lparr>pr_namespace = ns, pr_principal_id = principal_id, pr_kind = MODEL,
         pr_roles = [], pr_revision = revision, pr_schema_version = SCHEMA_VERSION\<rparr>)"

definition service_principal :: "string \<Rightarrow> string \<Rightarrow> int \<Rightarrow> Principal result" where
  "service_principal tenant_id principal_id revision =
     bindR (principal_namespace tenant_id principal_id) (\<lambda>ns.
       Principal_init \<lparr>pr_namespace = ns, pr_principal_id = principal_id, pr_kind = SERVICE,
         pr_roles = [], pr_revision = revision, pr_schema_version = SCHEMA_VERSION\<rparr>)"

definition canonical_role_ids :: "string list \<Rightarrow> string list result" where
  "canonical_role_ids values =
     bindR (freeze_strings values ''role IDs'' True) (\<lambda>role_ids.
       if \<exists>role_id \<in> set role_ids. role_id \<notin> set CANONICAL_HUMAN_ROLE_IDS
       then Inl (CoreInvariantError ''unknown human role ID'')
       else Inr role_ids)"

lemma Principal_init_ok [ok_simps]:
  "Principal_init p = Inr p' \<longleftrightarrow> p' = p \<and> pr_schema_version p = 1 \<and>
     matches_id (pr_principal_id p) \<and> ns_scope (pr_namespace p) = PRINCIPAL \<and>
     ns_scope_id (pr_namespace p) = Some (pr_principal_id p) \<and> distinct (pr_roles p) \<and>
     (pr_kind p = HUMAN \<or> pr_roles p = []) \<and> 1 \<le> pr_revision p"
  by (auto simp: Principal_init_def ok_simps)

interpretation namespace: replayable Namespace_init
  by unfold_locales (simp add: ok_simps)

interpretation principal: replayable Principal_init
  by unfold_locales (simp add: ok_simps)

section \<open>Concrete values\<close>

text \<open>A tenant with one colleague and three principals, on which the statements are exercised.\<close>

definition acme_colleague :: Namespace where
  "acme_colleague = \<lparr>ns_tenant_id = ''acme'', ns_scope = COLLEAGUE, ns_scope_id = Some ''ada''\<rparr>"

definition acme_tenant :: Namespace where
  "acme_tenant = \<lparr>ns_tenant_id = ''acme'', ns_scope = TENANT, ns_scope_id = None\<rparr>"

definition acme_principal :: "string \<Rightarrow> PrincipalKind \<Rightarrow> HumanRole list \<Rightarrow> Principal" where
  "acme_principal i kind roles =
     \<lparr>pr_namespace = \<lparr>ns_tenant_id = ''acme'', ns_scope = PRINCIPAL, ns_scope_id = Some i\<rparr>,
      pr_principal_id = i, pr_kind = kind, pr_roles = roles, pr_revision = 1,
      pr_schema_version = 1\<rparr>"

lemmas acme_defs = acme_colleague_def acme_tenant_def acme_principal_def

end
