(* ===== verification/Work.thy ===== *)
theory Work
  imports Namespaces
begin

text \<open>
  \<^verbatim>\<open>core/work.py\<close>: finite work and its lifecycle, responsibilities and obligations.  The
  dependency graph check of the same file is in the theory \<^verbatim>\<open>WorkGraph\<close>.
\<close>

record CompletionEvidence =
  ce_evidence_id :: string
  ce_kind :: string
  ce_safe_summary :: string
  ce_observed_at :: datetime
  ce_actor :: Principal
  ce_schema_version :: int

definition CompletionEvidence_init :: "CompletionEvidence \<Rightarrow> CompletionEvidence result" where
  "CompletionEvidence_init e = checks
     [chk (require_schema_version (ce_schema_version e)),
      chk (require_stable_id (ce_evidence_id e) ''evidence_id'')]
     (bindR (require_stable_id (ce_kind e) ''evidence kind'') (\<lambda>kind.
      bindR (require_text (ce_safe_summary e) ''safe_summary'' 1024) (\<lambda>safe_summary.
      checks [chk (require_utc (ce_observed_at e) ''observed_at'')]
        (Inr (e\<lparr>ce_kind := kind, ce_safe_summary := safe_summary\<rparr>)))))"

section \<open>Finite work\<close>

datatype WorkState = PLANNED | READY | IN_PROGRESS | BLOCKED | COMPLETED | CANCELLED

fun WORK_TRANSITIONS :: "WorkState \<Rightarrow> WorkState set" where
  "WORK_TRANSITIONS PLANNED = {READY, CANCELLED}"
| "WORK_TRANSITIONS READY = {IN_PROGRESS, BLOCKED, CANCELLED}"
| "WORK_TRANSITIONS IN_PROGRESS = {BLOCKED, COMPLETED, CANCELLED}"
| "WORK_TRANSITIONS BLOCKED = {READY, IN_PROGRESS, CANCELLED}"
| "WORK_TRANSITIONS COMPLETED = {}"
| "WORK_TRANSITIONS CANCELLED = {}"

record FiniteWork =
  fw_namespace :: Namespace
  fw_work_id :: string
  fw_title :: string
  fw_description :: string
  fw_state :: WorkState
  fw_dependency_ids :: "string list"
  fw_responsibility_ids :: "string list"
  fw_assignee_principal_id :: string
  fw_actor :: Principal
  fw_mandate_id :: string
  fw_mandate_revision :: int
  fw_completion_evidence :: "CompletionEvidence list"
  fw_correlation_id :: string
  fw_causation_id :: "string option"
  fw_created_at :: datetime
  fw_updated_at :: datetime
  fw_revision :: int
  fw_schema_version :: int

definition FiniteWork_init :: "FiniteWork \<Rightarrow> FiniteWork result" where
  "FiniteWork_init w =
     checks
       [chk (require_schema_version (fw_schema_version w)),
        require_colleague (fw_namespace w),
        chk (require_stable_id (fw_work_id w) ''work_id'')]
    (bindR (require_text_default (fw_title w) ''title'') (\<lambda>title.
     bindR (require_text_default (fw_description w) ''description'') (\<lambda>description.
     bindR (freeze_strings (fw_dependency_ids w) ''dependency_ids'' True) (\<lambda>dependencies.
     checks
       [check_all (map (\<lambda>d. chk (require_stable_id d ''dependency_id'')) dependencies),
        raise_if (fw_work_id w \<in> set dependencies)
          (CoreInvariantError ''finite work cannot depend on itself'')]
    (bindR (freeze_strings (fw_responsibility_ids w) ''responsibility_ids'' False)
      (\<lambda>responsibilities.
     checks
       [check_all (map (\<lambda>r. chk (require_stable_id r ''responsibility_id'')) responsibilities),
        chk (require_stable_id (fw_assignee_principal_id w) ''assignee_principal_id''),
        require_same_tenant (fw_namespace w) (pr_namespace (fw_actor w)),
        chk (require_stable_id (fw_mandate_id w) ''mandate_id''),
        chk (require_revision (fw_mandate_revision w) ''mandate_revision''),
        raise_if (fw_state w = COMPLETED \<and> fw_completion_evidence w = [])
          (CoreInvariantError ''completed work requires completion evidence''),
        raise_if (fw_state w \<noteq> COMPLETED \<and> fw_completion_evidence w \<noteq> [])
          (CoreInvariantError ''only completed work may carry completion evidence''),
        check_all (map (\<lambda>item. require_same_tenant (fw_namespace w) (pr_namespace (ce_actor item)))
          (fw_completion_evidence w)),
        chk (require_stable_id (fw_correlation_id w) ''correlation_id''),
        opt_chk (\<lambda>c. require_stable_id c ''causation_id'') (fw_causation_id w),
        chk (require_utc (fw_created_at w) ''created_at''),
        chk (require_utc (fw_updated_at w) ''updated_at''),
        raise_if (fw_updated_at w < fw_created_at w)
          (CoreInvariantError ''updated_at cannot precede created_at''),
        chk (require_revision (fw_revision w) ''revision'')]
       (Inr (w\<lparr>fw_title := title, fw_description := description,
                fw_dependency_ids := dependencies,
                fw_responsibility_ids := responsibilities\<rparr>))))))))"

text \<open>
  \<^verbatim>\<open>transition_work\<close>: the guards in the source's order, then \<^verbatim>\<open>replace\<close>, which runs the
  constructor again.
\<close>

definition transition_work ::
  "FiniteWork \<Rightarrow> int \<Rightarrow> WorkState \<Rightarrow> datetime \<Rightarrow> string set \<Rightarrow> CompletionEvidence list
     \<Rightarrow> FiniteWork result" where
  "transition_work work expected_revision next_state occurred_at satisfied completion_evidence =
     checks
       [chk (require_utc occurred_at ''occurred_at''),
        raise_if (expected_revision \<noteq> fw_revision work)
          (RevisionMismatchError ''finite work revision is stale''),
        raise_if (next_state \<notin> WORK_TRANSITIONS (fw_state work))
          (LifecycleError ''finite work lifecycle transition is invalid''),
        raise_if (next_state \<in> {READY, IN_PROGRESS} \<and> set (fw_dependency_ids work) - satisfied \<noteq> {})
          (LifecycleError ''finite work dependencies are not satisfied''),
        raise_if (next_state = COMPLETED \<and> completion_evidence = [])
          (LifecycleError ''completion requires explicit evidence''),
        raise_if (next_state \<noteq> COMPLETED \<and> completion_evidence \<noteq> [])
          (LifecycleError ''completion evidence is only valid for completion'')]
       (FiniteWork_init (work\<lparr>fw_state := next_state,
          fw_completion_evidence := completion_evidence,
          fw_updated_at := occurred_at, fw_revision := fw_revision work + 1\<rparr>))"

section \<open>Responsibilities and obligations\<close>

datatype ResponsibilityState = ACTIVE | SUSPENDED | FULFILLED | RETIRED

record Responsibility =
  re_namespace :: Namespace
  re_responsibility_id :: string
  re_mandate_id :: string
  re_mandate_revision :: int
  re_description :: string
  re_owner_principal_id :: string
  re_state :: ResponsibilityState
  re_actor :: Principal
  re_correlation_id :: string
  re_causation_id :: "string option"
  re_created_at :: datetime
  re_updated_at :: datetime
  re_revision :: int
  re_schema_version :: int

definition Responsibility_init :: "Responsibility \<Rightarrow> Responsibility result" where
  "Responsibility_init r =
     checks
       [chk (require_schema_version (re_schema_version r)),
        require_colleague (re_namespace r),
        chk (require_stable_id (re_responsibility_id r) ''responsibility_id''),
        chk (require_stable_id (re_mandate_id r) ''mandate_id''),
        chk (require_revision (re_mandate_revision r) ''mandate_revision'')]
    (bindR (require_text_default (re_description r) ''description'') (\<lambda>description.
     checks
       [chk (require_stable_id (re_owner_principal_id r) ''owner_principal_id''),
        require_same_tenant (re_namespace r) (pr_namespace (re_actor r)),
        chk (require_stable_id (re_correlation_id r) ''correlation_id''),
        opt_chk (\<lambda>c. require_stable_id c ''causation_id'') (re_causation_id r),
        chk (require_utc (re_created_at r) ''created_at''),
        chk (require_utc (re_updated_at r) ''updated_at''),
        raise_if (re_updated_at r < re_created_at r)
          (CoreInvariantError ''updated_at cannot precede created_at''),
        chk (require_revision (re_revision r) ''revision'')]
       (Inr (r\<lparr>re_description := description\<rparr>))))"

datatype ObligationState =
  OB_PENDING | OB_IN_PROGRESS | OB_SATISFIED | OB_WAIVED | OB_OVERDUE

record Obligation =
  ob_namespace :: Namespace
  ob_obligation_id :: string
  ob_responsibility_id :: string
  ob_description :: string
  ob_state :: ObligationState
  ob_due_at :: "datetime option"
  ob_work_id :: "string option"
  ob_resolution_evidence :: "CompletionEvidence list"
  ob_actor :: Principal
  ob_correlation_id :: string
  ob_causation_id :: "string option"
  ob_created_at :: datetime
  ob_updated_at :: datetime
  ob_revision :: int
  ob_schema_version :: int

definition Obligation_init :: "Obligation \<Rightarrow> Obligation result" where
  "Obligation_init r =
     checks
       [chk (require_schema_version (ob_schema_version r)),
        require_colleague (ob_namespace r),
        chk (require_stable_id (ob_obligation_id r) ''obligation_id''),
        chk (require_stable_id (ob_responsibility_id r) ''responsibility_id'')]
    (bindR (require_text_default (ob_description r) ''description'') (\<lambda>description.
     checks
       [opt_chk (\<lambda>d. require_utc d ''due_at'') (ob_due_at r),
        opt_chk (\<lambda>w. require_stable_id w ''work_id'') (ob_work_id r),
        raise_if ((ob_state r \<in> {OB_SATISFIED, OB_WAIVED}) \<noteq> (ob_resolution_evidence r \<noteq> []))
          (CoreInvariantError
             ''resolved obligations require evidence and only they may carry it''),
        check_all (map (\<lambda>item. require_same_tenant (ob_namespace r) (pr_namespace (ce_actor item)))
          (ob_resolution_evidence r)),
        require_same_tenant (ob_namespace r) (pr_namespace (ob_actor r)),
        chk (require_stable_id (ob_correlation_id r) ''correlation_id''),
        opt_chk (\<lambda>c. require_stable_id c ''causation_id'') (ob_causation_id r),
        chk (require_utc (ob_created_at r) ''created_at''),
        chk (require_utc (ob_updated_at r) ''updated_at''),
        raise_if (ob_updated_at r < ob_created_at r)
          (CoreInvariantError ''updated_at cannot precede created_at''),
        chk (require_revision (ob_revision r) ''revision'')]
       (Inr (r\<lparr>ob_description := description\<rparr>))))"

section \<open>Properties\<close>

interpretation completion_evidence: replayable CompletionEvidence_init
  by unfold_locales (auto simp: CompletionEvidence_init_def ok_simps)

interpretation finite_work: replayable FiniteWork_init
  by unfold_locales (auto simp: FiniteWork_init_def ok_simps)

interpretation responsibility: replayable Responsibility_init
  by unfold_locales (auto simp: Responsibility_init_def ok_simps)

interpretation obligation: replayable Obligation_init
  by unfold_locales (auto simp: Obligation_init_def ok_simps)

section \<open>Concrete values\<close>

definition acme_work :: "string \<Rightarrow> string list \<Rightarrow> FiniteWork" where
  "acme_work i deps =
     \<lparr>fw_namespace = acme_colleague, fw_work_id = i, fw_title = ''task'',
      fw_description = ''a task'', fw_state = PLANNED, fw_dependency_ids = deps,
      fw_responsibility_ids = [''r1''], fw_assignee_principal_id = ''model'',
      fw_actor = acme_principal ''root'' HUMAN [TENANT_ADMIN], fw_mandate_id = ''mandate'',
      fw_mandate_revision = 1, fw_completion_evidence = [], fw_correlation_id = ''c1'',
      fw_causation_id = None, fw_created_at = utc 0, fw_updated_at = utc 0, fw_revision = 1,
      fw_schema_version = SCHEMA_VERSION\<rparr>"

end
