(* ===== verification/WorkGraph.thy ===== *)
theory WorkGraph
  imports Work
begin

text \<open>
  \<^verbatim>\<open>validate_work_dependency_graph\<close> of \<^verbatim>\<open>core/work.py\<close>.  The depth-first search of the
  source is a recursive closure over two sets; here the sets are threaded through the
  calls.  The first argument counts the stack frames the interpreter has left, as Python
  does: the call that finds none left raises \<open>RecursionError\<close>.  It is the fuel of the
  recursion, and \<open>validate_graph_iff\<close> shows that more frames than works are enough.
\<close>

fun visit :: "nat \<Rightarrow> (string \<Rightarrow> string list) \<Rightarrow> string \<Rightarrow> string set \<times> string set
       \<Rightarrow> (string set \<times> string set) result"
  and visit_each :: "nat \<Rightarrow> (string \<Rightarrow> string list) \<Rightarrow> string list \<Rightarrow> string set \<times> string set
       \<Rightarrow> (string set \<times> string set) result"
where
  "visit 0 deps work_id sets = Inl RecursionError"
| "visit (Suc frames) deps work_id (visiting, visited) =
     (if work_id \<in> visiting
      then Inl (CoreInvariantError ''work dependency graph contains a cycle'')
      else if work_id \<in> visited then Inr (visiting, visited)
      else bindR (visit_each frames deps (deps work_id) (insert work_id visiting, visited))
             (\<lambda>(visiting', visited'). Inr (visiting' - {work_id}, insert work_id visited')))"
| "visit_each frames deps [] sets = Inr sets"
| "visit_each frames deps (d # ds) sets =
     bindR (visit frames deps d sets) (visit_each frames deps ds)"

primrec collect_by_id :: "Namespace \<Rightarrow> FiniteWork list \<Rightarrow> (string \<times> FiniteWork) list
    \<Rightarrow> (string \<times> FiniteWork) list result" where
  "collect_by_id namespace [] by_id = Inr by_id"
| "collect_by_id namespace (work # works) by_id = checks
     [require_exact namespace (fw_namespace work),
      raise_if (fw_work_id work \<in> fst ` set by_id)
        (CoreInvariantError ''work dependency graph contains a duplicate work ID'')]
     (collect_by_id namespace works (by_id @ [(fw_work_id work, work)]))"

definition deps_of :: "(string \<times> FiniteWork) list \<Rightarrow> string \<Rightarrow> string list" where
  "deps_of by_id i = (case map_of by_id i of None \<Rightarrow> [] | Some w \<Rightarrow> fw_dependency_ids w)"

definition validate_work_dependency_graph :: "nat \<Rightarrow> FiniteWork list \<Rightarrow> unit result" where
  "validate_work_dependency_graph frames works =
     (case works of
        [] \<Rightarrow> Inl (CoreInvariantError ''work dependency graph must not be empty'')
      | first # _ \<Rightarrow>
          bindR (collect_by_id (fw_namespace first) works []) (\<lambda>by_id.
          checks
            [check_all (map (\<lambda>work. raise_if
                 (\<exists>d \<in> set (fw_dependency_ids work). d \<notin> fst ` set by_id)
                 (CoreInvariantError ''work dependency graph references unknown work'')) works),
             chk (visit_each frames (deps_of by_id) (sort (map fst by_id)) ({}, {}))]
            (Inr ())))"

section \<open>The search finds a cycle exactly when there is one\<close>

definition edges :: "(string \<Rightarrow> string list) \<Rightarrow> (string \<times> string) set" where
  "edges deps = {(a, b). b \<in> set (deps a)}"

text \<open>What the search keeps of its second set: closed, disjoint from the stack, acyclic.\<close>

definition explored :: "(string \<Rightarrow> string list) \<Rightarrow> string set \<Rightarrow> string set \<Rightarrow> bool" where
  "explored deps visiting visited \<longleftrightarrow>
     edges deps `` visited \<subseteq> visited \<and> visiting \<inter> visited = {} \<and>
     acyclic (edges deps \<inter> visited \<times> UNIV)"

lemma acyclic_insert_root:
  assumes "acyclic (E \<inter> V \<times> UNIV)" "E `` V \<subseteq> V" "i \<notin> V" "E `` {i} \<subseteq> V"
  shows "acyclic (E \<inter> insert i V \<times> UNIV)"
proof -
  have V: "(a, b) \<in> (E \<inter> V \<times> UNIV)\<^sup>+ \<and> a \<in> V \<and> b \<in> V"
    if "(a, b) \<in> (E \<inter> insert i V \<times> UNIV)\<^sup>+" "a \<in> V" for a b
    using that by (induction rule: trancl_induct) (use assms in \<open>auto intro: trancl_into_trancl\<close>)
  have "(a, a) \<notin> (E \<inter> insert i V \<times> UNIV)\<^sup>+" for a
  proof
    assume cycle: "(a, a) \<in> (E \<inter> insert i V \<times> UNIV)\<^sup>+"
    show False
    proof (cases "a \<in> V")
      case True
      with V [OF cycle] assms(1) show False by (auto simp: acyclic_def)
    next
      case False
      from cycle obtain b where b: "(a, b) \<in> E \<inter> insert i V \<times> UNIV"
          "(b, a) \<in> (E \<inter> insert i V \<times> UNIV)\<^sup>*"
        by (auto dest: tranclD)
      with False assms(4) have "b \<in> V" by auto
      with False b(2) have "(b, a) \<in> (E \<inter> insert i V \<times> UNIV)\<^sup>+"
        by (auto dest: rtranclD)
      with V \<open>b \<in> V\<close> False show False by blast
    qed
  qed
  then show ?thesis by (simp add: acyclic_def)
qed

lemma visit_explores:
  "visit n deps i (Vg, Vd) = Inr (Vg', Vd') \<Longrightarrow> explored deps Vg Vd \<Longrightarrow>
     Vg' = Vg \<and> Vd \<subseteq> Vd' \<and> i \<in> Vd' \<and> explored deps Vg Vd'"
  "visit_each n deps is (Vg, Vd) = Inr (Vg', Vd') \<Longrightarrow> explored deps Vg Vd \<Longrightarrow>
     Vg' = Vg \<and> Vd \<subseteq> Vd' \<and> set is \<subseteq> Vd' \<and> explored deps Vg Vd'"
proof (induction n deps i "(Vg, Vd)" and n deps "is" "(Vg, Vd)"
    arbitrary: Vg Vd Vg' Vd' and Vg Vd Vg' Vd' rule: visit_visit_each.induct)
  case (2 frames deps i Vg Vd)
  show ?case
  proof (cases "i \<in> Vd")
    case False
    with "2.prems"(1) obtain G D where
        sub: "visit_each frames deps (deps i) (insert i Vg, Vd) = Inr (G, D)"
        and res: "i \<notin> Vg" "Vg' = G - {i}" "Vd' = insert i D"
      by (auto simp: bindR_eq_Inr split: if_splits)
    from False "2.prems"(2) have "explored deps (insert i Vg) Vd"
      by (auto simp: explored_def)
    with "2.hyps" [OF res(1) False sub] have *: "G = insert i Vg" "Vd \<subseteq> D"
        "set (deps i) \<subseteq> D" "explored deps (insert i Vg) D"
      by auto
    then have "acyclic (edges deps \<inter> insert i D \<times> UNIV)"
      by (intro acyclic_insert_root) (auto simp: explored_def edges_def)
    with * res show ?thesis
      by (auto simp: explored_def edges_def)
  qed (use "2.prems" in \<open>auto split: if_splits\<close>)
next
  case (4 frames deps d ds Vg Vd)
  from "4.prems"(1) obtain G D where d: "visit frames deps d (Vg, Vd) = Inr (G, D)"
      and ds: "visit_each frames deps ds (G, D) = Inr (Vg', Vd')"
    by (auto simp: bindR_eq_Inr)
  from "4.hyps"(1) [OF d "4.prems"(2)] have D: "G = Vg" "Vd \<subseteq> D" "d \<in> D" "explored deps Vg D"
    by auto
  with "4.hyps"(2) [OF d ds] show ?case by auto
qed auto

lemma visit_succeeds:
  "acyclic (edges deps) \<Longrightarrow> finite N \<Longrightarrow> edges deps `` N \<subseteq> N \<Longrightarrow> i \<in> N \<Longrightarrow> Vg \<subseteq> N \<Longrightarrow>
     card N < n + card Vg \<Longrightarrow> (\<forall>v \<in> Vg. (v, i) \<in> (edges deps)\<^sup>+) \<Longrightarrow>
     \<exists>Vd'. visit n deps i (Vg, Vd) = Inr (Vg, Vd')"
  "acyclic (edges deps) \<Longrightarrow> finite N \<Longrightarrow> edges deps `` N \<subseteq> N \<Longrightarrow> set is \<subseteq> N \<Longrightarrow> Vg \<subseteq> N \<Longrightarrow>
     card N < n + card Vg \<Longrightarrow> (\<forall>i \<in> set is. \<forall>v \<in> Vg. (v, i) \<in> (edges deps)\<^sup>+) \<Longrightarrow>
     \<exists>Vd'. visit_each n deps is (Vg, Vd) = Inr (Vg, Vd')"
proof (induction n deps i "(Vg, Vd)" and n deps "is" "(Vg, Vd)"
    arbitrary: Vg Vd and Vg Vd rule: visit_visit_each.induct)
  case (1 deps i)
  then have "card Vg \<le> card N" by (intro card_mono) auto
  with 1 show ?case by simp
next
  case (2 frames deps i Vg Vd)
  then have i: "i \<notin> Vg" by (auto simp: acyclic_def)
  show ?case
  proof (cases "i \<in> Vd")
    case False
    have "finite Vg" using 2(3) 2(6) by (rule finite_subset [rotated])
    have "\<exists>D. visit_each frames deps (deps i) (insert i Vg, Vd) = Inr (insert i Vg, D)"
    proof (rule "2.hyps" [OF i False])
      show "set (deps i) \<subseteq> N" using "2.prems"(3,4) by (auto simp: edges_def)
      show "card N < frames + card (insert i Vg)"
        using "2.prems"(6) i \<open>finite Vg\<close> by simp
      show "\<forall>j \<in> set (deps i). \<forall>v \<in> insert i Vg. (v, j) \<in> (edges deps)\<^sup>+"
        using "2.prems"(7) by (auto simp: edges_def intro: trancl_into_trancl)
    qed (use "2.prems" in auto)
    with i False show ?thesis by auto
  qed (use i in auto)
next
  case (4 frames deps d ds Vg Vd)
  then obtain D where D: "visit frames deps d (Vg, Vd) = Inr (Vg, D)" by auto
  from 4(2) [OF D] 4 D show ?case by auto
qed auto

lemma visit_keeps_stack:
  "visit n deps i (Vg, Vd) = Inr (Vg', Vd') \<Longrightarrow> Vg' = Vg"
  "visit_each n deps is (Vg, Vd) = Inr (Vg', Vd') \<Longrightarrow> Vg' = Vg"
proof (induction n deps i "(Vg, Vd)" and n deps "is" "(Vg, Vd)"
    arbitrary: Vg Vd Vg' Vd' and Vg Vd Vg' Vd' rule: visit_visit_each.induct)
  case (2 frames deps i Vg Vd)
  then show ?case by (fastforce simp: bindR_eq_Inr split: if_splits)
next
  case (4 frames deps d ds Vg Vd)
  from "4.prems" obtain G D where d: "visit frames deps d (Vg, Vd) = Inr (G, D)"
      and ds: "visit_each frames deps ds (G, D) = Inr (Vg', Vd')"
    by (auto simp: bindR_eq_Inr)
  from "4.hyps"(1) [OF d] "4.hyps"(2) [OF d ds] show ?case by simp
qed auto

lemma visit_only_cycles:
  "finite N \<Longrightarrow> edges deps `` N \<subseteq> N \<Longrightarrow> i \<in> N \<Longrightarrow> Vg \<subseteq> N \<Longrightarrow> card N < n + card Vg \<Longrightarrow>
     visit n deps i (Vg, Vd) = Inl e \<Longrightarrow>
     e = CoreInvariantError ''work dependency graph contains a cycle''"
  "finite N \<Longrightarrow> edges deps `` N \<subseteq> N \<Longrightarrow> set is \<subseteq> N \<Longrightarrow> Vg \<subseteq> N \<Longrightarrow> card N < n + card Vg \<Longrightarrow>
     visit_each n deps is (Vg, Vd) = Inl e \<Longrightarrow>
     e = CoreInvariantError ''work dependency graph contains a cycle''"
proof (induction n deps i "(Vg, Vd)" and n deps "is" "(Vg, Vd)"
    arbitrary: Vg Vd and Vg Vd rule: visit_visit_each.induct)
  case (1 deps i)
  then have "card Vg \<le> card N" by (intro card_mono) auto
  with 1 show ?case by simp
next
  case (2 frames deps i Vg Vd)
  show ?case
  proof (cases "i \<in> Vg \<or> i \<in> Vd")
    case True
    with "2.prems" show ?thesis by (auto split: if_splits)
  next
    case False
    have "finite Vg" using "2.prems"(1,4) by (rule finite_subset [rotated])
    from False "2.prems"(6) have
        sub: "visit_each frames deps (deps i) (insert i Vg, Vd) = Inl e"
      by (auto simp: bindR_eq_Inl)
    show ?thesis
    proof (rule "2.hyps" [OF _ _ _ _ _ _ _ sub])
      show "set (deps i) \<subseteq> N" using "2.prems"(2,3) by (auto simp: edges_def)
      show "card N < frames + card (insert i Vg)"
        using "2.prems"(5) False \<open>finite Vg\<close> by simp
    qed (use "2.prems" False in auto)
  qed
next
  case (4 frames deps d ds Vg Vd)
  from "4.prems"(6) consider (head) "visit frames deps d (Vg, Vd) = Inl e"
    | (tail) D where "visit frames deps d (Vg, Vd) = Inr (Vg, D)"
        "visit_each frames deps ds (Vg, D) = Inl e"
    by (auto simp: bindR_eq_Inl dest: visit_keeps_stack)
  then show ?case
  proof cases
    case head
    with 4 show ?thesis by auto
  next
    case tail
    from "4.hyps"(2) [OF tail(1)] "4.prems" tail(2) show ?thesis by auto
  qed
qed auto

section \<open>The whole check\<close>

definition work_ids :: "FiniteWork list \<Rightarrow> string set" where
  "work_ids works = fw_work_id ` set works"

definition depends_on :: "FiniteWork list \<Rightarrow> (string \<times> string) set" where
  "depends_on works = {(a, b). \<exists>w \<in> set works. fw_work_id w = a \<and> b \<in> set (fw_dependency_ids w)}"

lemma collect_by_id_ok [ok_simps]:
  "collect_by_id ns ws m = Inr m' \<longleftrightarrow>
     m' = m @ by_key fw_work_id ws \<and> (\<forall>w \<in> set ws. fw_namespace w = ns) \<and>
     distinct (map fw_work_id ws) \<and> fst ` set m \<inter> fw_work_id ` set ws = {}"
  by (induction ws arbitrary: m) (auto simp: ok_simps by_key_def)

lemma edges_deps_of:
  assumes "distinct (map fw_work_id ws)"
  shows "edges (deps_of (by_key fw_work_id ws)) = depends_on ws"
proof -
  have "b \<in> set (deps_of m a) \<longleftrightarrow> (\<exists>w. map_of m a = Some w \<and> b \<in> set (fw_dependency_ids w))"
    for m a b
    by (cases "map_of m a") (auto simp: deps_of_def)
  then show ?thesis
    using map_of_by_key [OF assms] by (auto simp: edges_def depends_on_def)
qed

definition well_formed_works :: "FiniteWork list \<Rightarrow> bool" where
  "well_formed_works works \<longleftrightarrow> works \<noteq> [] \<and>
     (\<forall>w \<in> set works. fw_namespace w = fw_namespace (hd works)) \<and>
     distinct (map fw_work_id works) \<and>
     (\<forall>w \<in> set works. set (fw_dependency_ids w) \<subseteq> work_ids works)"

lemma validate_graph_search:
  "validate_work_dependency_graph frames works = Inr () \<longleftrightarrow>
     well_formed_works works \<and>
     (\<exists>sets. visit_each frames (deps_of (by_key fw_work_id works)) (sort (map fw_work_id works))
        ({}, {}) = Inr sets)"
  by (auto simp: validate_work_dependency_graph_def well_formed_works_def work_ids_def ok_simps
      by_key_def o_def image_image split: list.splits)

lemma validate_graph_nonempty:
  assumes "works \<noteq> []"
  shows "validate_work_dependency_graph frames works =
     bindR (collect_by_id (fw_namespace (hd works)) works []) (\<lambda>by_id.
       checks
         [check_all (map (\<lambda>work. raise_if
            (\<exists>d \<in> set (fw_dependency_ids work). d \<notin> fst ` set by_id)
            (CoreInvariantError ''work dependency graph references unknown work'')) works),
          chk (visit_each frames (deps_of by_id) (sort (map fst by_id)) ({}, {}))] (Inr ()))"
proof -
  from assms obtain w ws where "works = w # ws" by (cases works) auto
  then show ?thesis
    by (simp only: validate_work_dependency_graph_def list.case list.sel)
qed

lemma validate_graph_well_formed:
  assumes wf: "well_formed_works works"
  shows "validate_work_dependency_graph frames works =
     chk (visit_each frames (deps_of (by_key fw_work_id works)) (sort (map fw_work_id works))
        ({}, {}))"
    (is "_ = chk ?search")
proof -
  have collect: "collect_by_id (fw_namespace (hd works)) works [] = Inr (by_key fw_work_id works)"
    using wf unfolding collect_by_id_ok well_formed_works_def append_Nil list.set image_empty
    by blast
  have known: "check_all (map (\<lambda>work. raise_if
        (\<exists>d \<in> set (fw_dependency_ids work). d \<notin> fw_work_id ` set works) e) works) = Inr ()"
    for e
    using wf by (auto simp: ok_simps well_formed_works_def work_ids_def)
  have "works \<noteq> []"
    using wf by (simp add: well_formed_works_def)
  show ?thesis
    by (cases ?search)
      (simp_all only: validate_graph_nonempty [OF \<open>works \<noteq> []\<close>] collect known bindR_Inr bindR_Inl checks_Cons
        checks_Nil by_key_keys chk_simps)
qed

lemma works_search_space:
  assumes "well_formed_works works"
  shows "edges (deps_of (by_key fw_work_id works)) = depends_on works"
    and "finite (work_ids works)" and "card (work_ids works) = length works"
    and "depends_on works `` work_ids works \<subseteq> work_ids works"
    and "set (sort (map fw_work_id works)) = work_ids works"
proof -
  from assms show "edges (deps_of (by_key fw_work_id works)) = depends_on works"
    by (intro edges_deps_of) (simp add: well_formed_works_def)
  from assms show "card (work_ids works) = length works"
    using distinct_card [of "map fw_work_id works"]
    by (simp add: well_formed_works_def work_ids_def)
  from assms show "depends_on works `` work_ids works \<subseteq> work_ids works"
    by (auto simp: well_formed_works_def depends_on_def)
qed (simp_all add: work_ids_def)

lemma search_finds_cycles:
  assumes "length works < frames" and wf: "well_formed_works works"
  shows "(\<exists>sets. visit_each frames (deps_of (by_key fw_work_id works))
      (sort (map fw_work_id works)) ({}, {}) = Inr sets) \<longleftrightarrow> acyclic (depends_on works)"
    (is "(\<exists>sets. visit_each frames ?deps ?ids ({}, {}) = Inr sets) \<longleftrightarrow> _")
proof
  note space = works_search_space [OF wf]
  show "acyclic (depends_on works)"
    if "\<exists>sets. visit_each frames ?deps ?ids ({}, {}) = Inr sets"
  proof -
    from that obtain Vg Vd where "visit_each frames ?deps ?ids ({}, {}) = Inr (Vg, Vd)" by auto
    then have "work_ids works \<subseteq> Vd" "acyclic (depends_on works \<inter> Vd \<times> UNIV)"
      using visit_explores(2) [of frames ?deps ?ids "{}" "{}" Vg Vd] space
      by (auto simp: explored_def acyclic_def)
    moreover have "depends_on works \<subseteq> work_ids works \<times> UNIV"
      by (auto simp: depends_on_def work_ids_def)
    ultimately show ?thesis
      by (metis Int_absorb2 Sigma_mono order_refl subset_trans)
  qed
  show "\<exists>sets. visit_each frames ?deps ?ids ({}, {}) = Inr sets"
    if "acyclic (depends_on works)"
    using visit_succeeds(2) [of ?deps "work_ids works" ?ids "{}" frames "{}"] that space assms
    by auto
qed

text \<open>
  C29. With more stack frames than works, the dependency check accepts a collection exactly
  when it is non-empty, within one namespace, without duplicate work IDs, closed under
  dependencies and acyclic.
\<close>

theorem validate_graph_iff:
  assumes "length works < frames"
  shows "validate_work_dependency_graph frames works = Inr () \<longleftrightarrow>
     works \<noteq> [] \<and>
     (\<forall>w \<in> set works. fw_namespace w = fw_namespace (hd works)) \<and>
     distinct (map fw_work_id works) \<and>
     (\<forall>w \<in> set works. set (fw_dependency_ids w) \<subseteq> work_ids works) \<and>
     acyclic (depends_on works)"
  using search_finds_cycles [OF assms]
  by (subst validate_graph_search) (auto simp: well_formed_works_def)

theorem validate_graph_iff_witness:
  "acyclic (depends_on [acme_work ''w1'' [''w2''], acme_work ''w2'' []])"
proof -
  let ?works = "[acme_work ''w1'' [''w2''], acme_work ''w2'' []]"
  have "validate_work_dependency_graph 3 ?works = Inr ()"
    by (simp add: validate_work_dependency_graph_def acme_work_def ok_simps deps_of_def
        eval_nat_numeral)
  with validate_graph_iff [of ?works 3] show ?thesis by simp
qed

text \<open>
  C30. On a well-formed collection the check never runs out of stack when it has more frames
  than works, and a cyclic one is refused with the cycle error and no other.
\<close>

theorem validate_graph_cycle_error:
  assumes "length works < frames" and "well_formed_works works" and "\<not> acyclic (depends_on works)"
  shows "validate_work_dependency_graph frames works =
     Inl (CoreInvariantError ''work dependency graph contains a cycle'')"
proof -
  obtain e where e: "visit_each frames (deps_of (by_key fw_work_id works))
      (sort (map fw_work_id works)) ({}, {}) = Inl e"
    using search_finds_cycles [OF assms(1,2)] assms(3) by (metis sum.exhaust)
  note space = works_search_space [OF assms(2)]
  have "e = CoreInvariantError ''work dependency graph contains a cycle''"
    by (rule visit_only_cycles(2) [OF space(2) _ _ _ _ e]) (use space assms(1) in auto)
  with e show ?thesis
    by (simp add: validate_graph_well_formed [OF assms(2)])
qed

theorem validate_graph_cycle_error_witness:
  "validate_work_dependency_graph 3 [acme_work ''w1'' [''w2''], acme_work ''w2'' [''w1'']] =
     Inl (CoreInvariantError ''work dependency graph contains a cycle'')"
proof (rule validate_graph_cycle_error)
  let ?works = "[acme_work ''w1'' [''w2''], acme_work ''w2'' [''w1'']]"
  show "well_formed_works ?works"
    by (simp add: well_formed_works_def work_ids_def acme_work_def)
  have "(''w1'', ''w2'') \<in> depends_on ?works" "(''w2'', ''w1'') \<in> depends_on ?works"
    by (simp_all add: depends_on_def acme_work_def)
  then show "\<not> acyclic (depends_on ?works)"
    unfolding acyclic_def by (meson trancl.simps)
qed simp

end
