(* ===== verification/Lifecycle.thy ===== *)
theory Lifecycle
  imports WorkGraph
begin

text \<open>
  What \<^verbatim>\<open>transition_work\<close> of \<^verbatim>\<open>core/work.py\<close> accepts, and what that means for a whole history
  of a piece of work.
\<close>

section \<open>One transition\<close>

text \<open>The work after an accepted transition.\<close>

definition moved :: "FiniteWork \<Rightarrow> WorkState \<Rightarrow> datetime \<Rightarrow> CompletionEvidence list \<Rightarrow> FiniteWork" where
  "moved work next_state occurred_at evidence = work\<lparr>fw_state := next_state,
     fw_completion_evidence := evidence, fw_updated_at := occurred_at,
     fw_revision := fw_revision work + 1\<rparr>"

lemma transition_work_ok:
  assumes "finite_work.valid work"
  shows "transition_work work expected next_state t satisfied evidence = Inr work' \<longleftrightarrow>
    is_utc t \<and> expected = fw_revision work \<and> next_state \<in> WORK_TRANSITIONS (fw_state work) \<and>
    (next_state \<in> {READY, IN_PROGRESS} \<longrightarrow> set (fw_dependency_ids work) \<subseteq> satisfied) \<and>
    (evidence \<noteq> []) = (next_state = COMPLETED) \<and>
    (\<forall>e \<in> set evidence. ns_tenant_id (fw_namespace work) = ns_tenant_id (pr_namespace (ce_actor e))) \<and>
    fw_created_at work \<le> t \<and> work' = moved work next_state t evidence"
proof -
  have init: "FiniteWork_init (moved work next_state t evidence) = Inr w \<longleftrightarrow>
      (next_state = COMPLETED \<longrightarrow> evidence \<noteq> []) \<and> (next_state \<noteq> COMPLETED \<longrightarrow> evidence = []) \<and>
      (\<forall>e \<in> set evidence. ns_tenant_id (fw_namespace work) = ns_tenant_id (pr_namespace (ce_actor e))) \<and>
      is_utc t \<and> fw_created_at work \<le> t \<and> w = moved work next_state t evidence" for w
  proof (cases work)
    case (fields n i title descr state deps resps assignee actor mid mrev ev corr caus created
        updated rev schema)
    from assms have v: "FiniteWork_init work = Inr work" by (simp add: finite_work.valid_def)
    have s: "strip title = title" "strip descr = descr" "map strip deps = deps"
        "map strip resps = resps"
      using v by (simp_all add: FiniteWork_init_def ok_simps fields)
    show ?thesis
      using v unfolding FiniteWork_init_def fields moved_def
      by (simp add: ok_simps s not_less eq_commute [of w]) blast
  qed
  show ?thesis
    unfolding transition_work_def moved_def [symmetric]
    by (auto simp: ok_simps init)
qed

text \<open>C27. A transition of a valid work succeeds exactly when it is requested at the current
  revision and a UTC time not before its creation, the lifecycle allows it, work that becomes
  ready or in progress has all its dependencies satisfied, and evidence - from the tenant of
  the work - is given for completion and for nothing else; the result is the work with the new
  state, evidence and time, one revision up.\<close>

theorem transition_work_iff:
  assumes "finite_work.valid work"
  shows "transition_work work expected next_state t satisfied evidence = Inr work' \<longleftrightarrow>
    is_utc t \<and> expected = fw_revision work \<and> next_state \<in> WORK_TRANSITIONS (fw_state work) \<and>
    (next_state \<in> {READY, IN_PROGRESS} \<longrightarrow> set (fw_dependency_ids work) \<subseteq> satisfied) \<and>
    (evidence \<noteq> []) = (next_state = COMPLETED) \<and>
    (\<forall>e \<in> set evidence. ns_tenant_id (fw_namespace work) = ns_tenant_id (pr_namespace (ce_actor e))) \<and>
    fw_created_at work \<le> t \<and> work' = moved work next_state t evidence"
  by (rule transition_work_ok [OF assms])

text \<open>The sample work, from planned to ready.\<close>

lemma acme_work_valid: "finite_work.valid (acme_work ''w1'' [''w2''])"
  by (simp add: finite_work.valid_def FiniteWork_init_def acme_work_def acme_defs ok_simps
      id_head_def id_tail_def frozen_strings_def SCHEMA_VERSION_def strip_def lstrip_def py_space_def
      bounded_text_def)

theorem transition_work_iff_witness:
  "transition_work (acme_work ''w1'' [''w2'']) 1 READY (utc 5) {''w2''} [] =
     Inr (moved (acme_work ''w1'' [''w2'']) READY (utc 5) []) \<and>
   transition_work (acme_work ''w1'' [''w2'']) 1 READY (utc 5) {} [] \<noteq>
     Inr (moved (acme_work ''w1'' [''w2'']) READY (utc 5) [])"
  by (simp add: transition_work_iff [OF acme_work_valid]) (simp add: acme_work_def)

section \<open>A history of transitions\<close>

text \<open>A run of accepted transitions, with the states entered and the dependencies then satisfied.\<close>

inductive work_run ::
  "FiniteWork \<Rightarrow> (WorkState \<times> string set) list \<Rightarrow> FiniteWork \<Rightarrow> bool" where
  run_start: "work_run work [] work"
| run_step: "work_run work log middle \<Longrightarrow>
    transition_work middle expected s t satisfied evidence = Inr work' \<Longrightarrow>
    work_run work (log @ [(s, satisfied)]) work'"

lemma run_keeps:
  assumes "work_run work log work'" and "finite_work.valid work"
  shows "finite_work.valid work' \<and> fw_revision work' = fw_revision work + int (length log) \<and>
    fw_dependency_ids work' = fw_dependency_ids work \<and> fw_work_id work' = fw_work_id work"
  using assms
proof induction
  case (run_step work log middle expected s t satisfied evidence work')
  then have v: "finite_work.valid middle" by blast
  from run_step(2) have "work' = moved middle s t evidence"
    by (simp add: transition_work_ok [OF v])
  moreover from run_step(2) have "finite_work.valid work'"
    by (auto simp: transition_work_def ok_simps intro: finite_work.init_valid)
  ultimately show ?case using run_step by (simp add: moved_def)
qed simp

text \<open>A state some run entered at its last step with the dependencies satisfied.\<close>

lemma run_entered:
  assumes "work_run work log work'" and "finite_work.valid work" and "fw_state work = PLANNED"
  shows "(fw_state work' \<in> {IN_PROGRESS, COMPLETED} \<longrightarrow>
      (\<exists>sat. (IN_PROGRESS, sat) \<in> set log \<and> set (fw_dependency_ids work) \<subseteq> sat)) \<and>
    (fw_state work' \<notin> {PLANNED, CANCELLED} \<longrightarrow>
      (\<exists>sat. (READY, sat) \<in> set log \<and> set (fw_dependency_ids work) \<subseteq> sat))"
  using assms
proof induction
  case (run_step work log middle expected s t satisfied evidence work')
  note k = run_keeps [OF run_step(1,4)]
  then have v: "finite_work.valid middle" and deps: "fw_dependency_ids middle = fw_dependency_ids work"
    by blast+
  from run_step(2) have w: "work' = moved middle s t evidence" "s \<in> WORK_TRANSITIONS (fw_state middle)"
      "s \<in> {READY, IN_PROGRESS} \<longrightarrow> set (fw_dependency_ids work) \<subseteq> satisfied"
    by (simp_all add: transition_work_ok [OF v] deps)
  from w run_step(3-5) show ?case
    by (cases "fw_state middle") (auto simp: moved_def)
qed simp

text \<open>C28. Completion is never reached by a short cut: work that started out planned and is now
  completed was ready and was in progress on the way, each entered when all its dependencies
  were satisfied; it carries evidence; and its revision counts the transitions it went
  through.\<close>

theorem completion_needs_dependencies:
  assumes "work_run work log work'" and "finite_work.valid work"
    and "fw_state work = PLANNED" and "fw_state work' = COMPLETED"
  shows "(\<exists>sat. (READY, sat) \<in> set log \<and> set (fw_dependency_ids work) \<subseteq> sat) \<and>
    (\<exists>sat. (IN_PROGRESS, sat) \<in> set log \<and> set (fw_dependency_ids work) \<subseteq> sat) \<and>
    fw_completion_evidence work' \<noteq> [] \<and> fw_revision work' = fw_revision work + int (length log)"
proof -
  from run_keeps [OF assms(1,2)] have "FiniteWork_init work' = Inr work'"
    by (simp add: finite_work.valid_def)
  with assms(4) have "fw_completion_evidence work' \<noteq> []"
    by (auto simp: FiniteWork_init_def ok_simps)
  with run_keeps [OF assms(1,2)] run_entered [OF assms(1-3)] assms(4) show ?thesis by simp
qed

definition acme_evidence :: CompletionEvidence where
  "acme_evidence = \<lparr>ce_evidence_id = ''v1'', ce_kind = ''report'', ce_safe_summary = ''done'',
     ce_observed_at = utc 3, ce_actor = acme_principal ''root'' HUMAN [TENANT_ADMIN],
     ce_schema_version = SCHEMA_VERSION\<rparr>"

definition acme_done :: FiniteWork where
  "acme_done = moved (moved (moved (acme_work ''w1'' [''w2'']) READY (utc 1) [])
     IN_PROGRESS (utc 2) []) COMPLETED (utc 3) [acme_evidence]"

lemma acme_run: "work_run (acme_work ''w1'' [''w2''])
    [(READY, {''w2''}), (IN_PROGRESS, {''w2'', ''w3''}), (COMPLETED, {})] acme_done"
proof -
  let ?w = "acme_work ''w1'' [''w2'']"
  have step: "work_run ?w (log @ [(s, sat)]) (moved w s t ev)"
    if run: "work_run ?w log w" and t: "is_utc t" "s \<in> WORK_TRANSITIONS (fw_state w)"
      "s \<in> {READY, IN_PROGRESS} \<longrightarrow> set (fw_dependency_ids w) \<subseteq> sat" "(ev \<noteq> []) = (s = COMPLETED)"
      "\<forall>e \<in> set ev. ns_tenant_id (fw_namespace w) = ns_tenant_id (pr_namespace (ce_actor e))"
      "fw_created_at w \<le> t"
    for log w s sat t ev
  proof -
    from run_keeps [OF run acme_work_valid] have "finite_work.valid w" by simp
    from run_step [OF run, of "fw_revision w" s t sat ev] show ?thesis
      using t by (simp add: transition_work_ok [OF \<open>finite_work.valid w\<close>])
  qed
  note one = step [OF run_start, of "utc 1" READY "{''w2''}" "[]"]
  have "work_run ?w [(READY, {''w2''})] (moved ?w READY (utc 1) [])"
    using one by (simp add: acme_work_def)
  note two = step [OF this, of "utc 2" IN_PROGRESS "{''w2'', ''w3''}" "[]"]
  then have "work_run ?w [(READY, {''w2''}), (IN_PROGRESS, {''w2'', ''w3''})]
      (moved (moved ?w READY (utc 1) []) IN_PROGRESS (utc 2) [])"
    by (simp add: acme_work_def moved_def)
  from step [OF this, of "utc 3" COMPLETED "{}" "[acme_evidence]"] show ?thesis
    by (simp add: acme_work_def moved_def acme_done_def acme_evidence_def acme_defs)
qed

theorem completion_needs_dependencies_witness:
  "fw_revision acme_done = 4 \<and> fw_completion_evidence acme_done \<noteq> []"
  using completion_needs_dependencies [OF acme_run acme_work_valid]
  by (simp add: acme_work_def acme_done_def moved_def)

end
