(* ===== verification/Policy.thy ===== *)
theory Policy
  imports Namespaces
begin

text \<open>
  \<^verbatim>\<open>core/policy.py\<close> and \<^verbatim>\<open>governance/policy.py\<close>: the typed colleague policy, its weekly
  working windows, the evaluation of an instant against them, and the wake budget's
  buckets.

  The IANA time zone data is not part of the repository: \<open>zones\<close> gives, for a known zone
  key, the UTC offset in microseconds at each UTC instant, and None for an unknown key.
\<close>

type_synonym zoneinfo = "string \<Rightarrow> (int \<Rightarrow> int) option"

section \<open>Vocabulary\<close>

datatype Weekday = MONDAY | TUESDAY | WEDNESDAY | THURSDAY | FRIDAY | SATURDAY | SUNDAY

fun WEEKDAY_INDEX :: "Weekday \<Rightarrow> int" where
  "WEEKDAY_INDEX MONDAY = 0"
| "WEEKDAY_INDEX TUESDAY = 1"
| "WEEKDAY_INDEX WEDNESDAY = 2"
| "WEEKDAY_INDEX THURSDAY = 3"
| "WEEKDAY_INDEX FRIDAY = 4"
| "WEEKDAY_INDEX SATURDAY = 5"
| "WEEKDAY_INDEX SUNDAY = 6"

datatype DurableTriggerKind = TRIGGER_EVENT | TRIGGER_TIMER

datatype ProactivityMode = PROACTIVITY_DISABLED | PROACTIVITY_BOUNDED

datatype NotificationMode = NOTIFICATION_ENABLED | NOTIFICATION_SUPPRESSED

datatype InterruptionMode =
  INTERRUPTION_NEVER | INTERRUPTION_WORKING_HOURS_ONLY | INTERRUPTION_ALLOWED

datatype WakeBudgetPeriod = PERIOD_HOUR | PERIOD_DAY | PERIOD_WEEK

datatype OutsideHoursOutcome = OUTSIDE_DEFER | OUTSIDE_NO_OP | OUTSIDE_STOP | OUTSIDE_ESCALATE

datatype StopCondition =
  STOP_ADMIN_STOP | STOP_BUDGET_EXHAUSTED | STOP_REPEATED_FAILURE | STOP_FINITE_WORK_TERMINAL

datatype EscalationCondition =
  ESC_OUTSIDE_HOURS | ESC_BUDGET_EXHAUSTED | ESC_REPEATED_FAILURE | ESC_BLOCKED_WORK

datatype PolicyRunState = RUN_ACTIVE | RUN_STOPPED

datatype PolicyStage =
  STAGE_TRIGGER | STAGE_PRE_WAKE | STAGE_POST_MODEL | STAGE_APPROVAL | STAGE_DISPATCH
  | STAGE_STOP | STAGE_ESCALATION

datatype PolicyOutcomeKind =
  PO_ALLOWED | PO_STALE_POLICY | PO_DISALLOWED_TRIGGER | PO_OUTSIDE_HOURS_DEFER
  | PO_OUTSIDE_HOURS_NO_OP | PO_OUTSIDE_HOURS_STOP | PO_OUTSIDE_HOURS_ESCALATE
  | PO_PROACTIVITY_SUPPRESSED | PO_NOTIFICATION_SUPPRESSED | PO_INTERRUPTION_SUPPRESSED
  | PO_BUDGET_EXHAUSTED | PO_DUPLICATE_TRIGGER | PO_REPEATED_FAILURE_STOP
  | PO_REPEATED_FAILURE_ESCALATE | PO_FINITE_WORK_TERMINAL_STOP | PO_BLOCKED_WORK_ESCALATE
  | PO_STOPPED | PO_EXPLICIT_RESUME

definition POLICY_REFUSAL_OUTCOMES :: "PolicyOutcomeKind set" where
  "POLICY_REFUSAL_OUTCOMES =
     {PO_STALE_POLICY, PO_DISALLOWED_TRIGGER, PO_OUTSIDE_HOURS_DEFER, PO_OUTSIDE_HOURS_NO_OP,
      PO_OUTSIDE_HOURS_STOP, PO_OUTSIDE_HOURS_ESCALATE, PO_PROACTIVITY_SUPPRESSED,
      PO_NOTIFICATION_SUPPRESSED, PO_INTERRUPTION_SUPPRESSED, PO_BUDGET_EXHAUSTED,
      PO_DUPLICATE_TRIGGER, PO_REPEATED_FAILURE_STOP, PO_REPEATED_FAILURE_ESCALATE,
      PO_FINITE_WORK_TERMINAL_STOP, PO_BLOCKED_WORK_ESCALATE, PO_STOPPED}"

section \<open>Weekly windows\<close>

record WeeklyWindow =
  ww_weekday :: Weekday
  ww_start_minute :: int
  ww_end_minute :: int

definition WeeklyWindow_init :: "WeeklyWindow \<Rightarrow> WeeklyWindow result" where
  "WeeklyWindow_init w = checks
     [raise_if (\<not> (0 \<le> ww_start_minute w \<and> ww_start_minute w < 1440))
        (CoreInvariantError ''working-hours start minute must be from 0 through 1439''),
      raise_if (\<not> (0 \<le> ww_end_minute w \<and> ww_end_minute w \<le> 1440))
        (CoreInvariantError ''working-hours end minute must be from 0 through 1440''),
      raise_if (ww_start_minute w = ww_end_minute w)
        (CoreInvariantError ''working-hours window must not have zero duration''),
      raise_if (ww_end_minute w = 0)
        (CoreInvariantError ''working-hours end minute 0 is ambiguous'')]
     (Inr w)"

record WakeBudget =
  wb_limit :: int
  wb_period :: WakeBudgetPeriod

definition WakeBudget_init :: "WakeBudget \<Rightarrow> WakeBudget result" where
  "WakeBudget_init b = checks
     [raise_if (\<not> (1 \<le> wb_limit b \<and> wb_limit b \<le> 10000))
        (CoreInvariantError ''wake-budget limit must be from 1 through 10000'')]
     (Inr b)"

definition expanded_intervals :: "WeeklyWindow \<Rightarrow> (int \<times> int \<times> int) list" where
  "expanded_intervals window =
     (let day = WEEKDAY_INDEX (ww_weekday window)
      in if ww_end_minute window > ww_start_minute window
         then [(day, ww_start_minute window, ww_end_minute window)]
         else [(day, ww_start_minute window, 1440), ((day + 1) mod 7, 0, ww_end_minute window)])"

definition validate_windows :: "WeeklyWindow list \<Rightarrow> unit result" where
  "validate_windows windows = check_all
     [raise_if (windows = []) (CoreInvariantError ''working-hours windows must not be empty''),
      (let intervals = sort (concat (map expanded_intervals windows))
       in check_all (map (\<lambda>(previous, current).
            raise_if (fst previous = fst current \<and> fst (snd current) < snd (snd previous))
              (CoreInvariantError ''working-hours windows must not overlap''))
            (zip intervals (tl intervals))))]"

definition freeze_unique_enums :: "'a list \<Rightarrow> string \<Rightarrow> bool \<Rightarrow> 'a list result" where
  "freeze_unique_enums items field allow_empty = checks
     [raise_if (\<not> allow_empty \<and> items = []) (CoreInvariantError (field @ '' must not be empty'')),
      raise_if (has_dup items)
        (CoreInvariantError (field @ '' must not contain duplicates''))]
     (Inr items)"

section \<open>The policy and its records\<close>

record ColleaguePolicy =
  cp_namespace :: Namespace
  cp_policy_id :: string
  cp_mandate_id :: string
  cp_mandate_revision :: int
  cp_timezone :: string
  cp_weekly_windows :: "WeeklyWindow list"
  cp_allowed_triggers :: "DurableTriggerKind list"
  cp_proactivity :: ProactivityMode
  cp_notification :: NotificationMode
  cp_interruption :: InterruptionMode
  cp_wake_budget :: WakeBudget
  cp_outside_hours :: OutsideHoursOutcome
  cp_stop_conditions :: "StopCondition list"
  cp_escalation_conditions :: "EscalationCondition list"
  cp_failure_limit :: int
  cp_run_state :: PolicyRunState
  cp_revision :: int
  cp_issued_by :: Principal
  cp_effective_at :: datetime
  cp_schema_version :: int

definition ColleaguePolicy_init :: "zoneinfo \<Rightarrow> ColleaguePolicy \<Rightarrow> ColleaguePolicy result" where
  "ColleaguePolicy_init zones p =
     checks
       [chk (require_schema_version (cp_schema_version p)),
        require_colleague (cp_namespace p),
        chk (require_stable_id (cp_policy_id p) ''policy_id''),
        chk (require_stable_id (cp_mandate_id p) ''mandate_id''),
        chk (require_revision (cp_mandate_revision p) ''mandate_revision''),
        raise_if (cp_timezone p = [] \<or> strip (cp_timezone p) \<noteq> cp_timezone p)
          (CoreInvariantError ''policy timezone must be a non-empty canonical string''),
        raise_if (zones (cp_timezone p) = None)
          (CoreInvariantError ''policy timezone must be a known IANA timezone''),
        validate_windows (cp_weekly_windows p),
        chk (freeze_unique_enums (cp_allowed_triggers p) ''allowed_triggers'' False),
        chk (freeze_unique_enums (cp_stop_conditions p) ''stop_conditions'' True),
        chk (freeze_unique_enums (cp_escalation_conditions p) ''escalation_conditions'' True),
        raise_if (\<not> (1 \<le> cp_failure_limit p \<and> cp_failure_limit p \<le> 100))
          (CoreInvariantError ''failure limit must be from 1 through 100''),
        chk (require_revision (cp_revision p) ''revision''),
        raise_if (pr_kind (cp_issued_by p) \<noteq> HUMAN)
          (AuthorizationError ''authoritative colleague policy must be issued by a human''),
        require_same_tenant (cp_namespace p) (pr_namespace (cp_issued_by p)),
        chk (require_utc (cp_effective_at p) ''effective_at'')]
       (Inr p)"

record PolicyEnforcementRecord =
  pe_namespace :: Namespace
  pe_outcome_id :: string
  pe_policy_id :: string
  pe_policy_revision :: int
  pe_mandate_id :: string
  pe_mandate_revision :: int
  pe_stage :: PolicyStage
  pe_outcome :: PolicyOutcomeKind
  pe_trigger_class :: "DurableTriggerKind option"
  pe_source_id :: "string option"
  pe_actor :: Principal
  pe_correlation_id :: string
  pe_causation_id :: string
  pe_occurred_at :: datetime
  pe_safe_projection :: frozen_json
  pe_payload_digest :: string
  pe_schema_version :: int

definition PolicyEnforcementRecord_init ::
  "PolicyEnforcementRecord \<Rightarrow> PolicyEnforcementRecord result" where
  "PolicyEnforcementRecord_init r = checks
     [chk (require_schema_version (pe_schema_version r)),
      require_colleague (pe_namespace r),
      check_all (map (\<lambda>(value, field). chk (require_stable_id value field))
        [(pe_outcome_id r, ''outcome_id''), (pe_policy_id r, ''policy_id''),
         (pe_mandate_id r, ''mandate_id''), (pe_correlation_id r, ''correlation_id''),
         (pe_causation_id r, ''causation_id'')]),
      chk (require_revision (pe_policy_revision r) ''policy_revision''),
      chk (require_revision (pe_mandate_revision r) ''mandate_revision''),
      opt_chk (\<lambda>i. require_stable_id i ''source_id'') (pe_source_id r),
      require_same_tenant (pe_namespace r) (pr_namespace (pe_actor r)),
      chk (require_utc (pe_occurred_at r) ''occurred_at''),
      chk (require_digest (pe_payload_digest r) ''payload_digest'')]
     (Inr r)"

record EscalationRecord =
  es_namespace :: Namespace
  es_escalation_id :: string
  es_policy_id :: string
  es_policy_revision :: int
  es_condition :: EscalationCondition
  es_safe_summary :: string
  es_actor :: Principal
  es_correlation_id :: string
  es_causation_id :: string
  es_occurred_at :: datetime
  es_revision :: int
  es_schema_version :: int

definition EscalationRecord_init :: "EscalationRecord \<Rightarrow> EscalationRecord result" where
  "EscalationRecord_init r = checks
     [chk (require_schema_version (es_schema_version r)),
      require_colleague (es_namespace r),
      check_all (map (\<lambda>(value, field). chk (require_stable_id value field))
        [(es_escalation_id r, ''escalation_id''), (es_policy_id r, ''policy_id''),
         (es_correlation_id r, ''correlation_id''), (es_causation_id r, ''causation_id'')]),
      chk (require_revision (es_policy_revision r) ''policy_revision''),
      raise_if (strip (es_safe_summary r) = [])
        (CoreInvariantError ''escalation summary must be non-empty''),
      require_same_tenant (es_namespace r) (pr_namespace (es_actor r)),
      chk (require_utc (es_occurred_at r) ''occurred_at''),
      chk (require_revision (es_revision r) ''revision'')]
     (Inr r)"

section \<open>Evaluation of a policy\<close>

text \<open>
  The local wall clock of a UTC instant: its weekday (0001-01-01 is a Monday) and minute.
  The policy's constructor has resolved the zone, so the second branch of the zone lookup
  is the exception \<^verbatim>\<open>ZoneInfo\<close> would raise.
\<close>

definition minute_micros :: int where
  "minute_micros = 60000000"

definition day_micros :: int where
  "day_micros = 1440 * minute_micros"

definition local_weekday :: "int \<Rightarrow> int" where
  "local_weekday t = (t div day_micros) mod 7"

definition local_minute :: "int \<Rightarrow> int" where
  "local_minute t = (t mod day_micros) div minute_micros"

primrec scan_windows :: "int \<Rightarrow> int \<Rightarrow> WeeklyWindow list \<Rightarrow> bool" where
  "scan_windows day minute [] = False"
| "scan_windows day minute (window # windows) =
     (let start_day = WEEKDAY_INDEX (ww_weekday window)
      in if ww_end_minute window > ww_start_minute window
         then if day = start_day \<and> ww_start_minute window \<le> minute \<and> minute < ww_end_minute window
              then True else scan_windows day minute windows
         else if day = start_day \<and> minute \<ge> ww_start_minute window then True
         else if day = (start_day + 1) mod 7 \<and> minute < ww_end_minute window then True
         else scan_windows day minute windows)"

definition within_working_hours :: "zoneinfo \<Rightarrow> ColleaguePolicy \<Rightarrow> datetime \<Rightarrow> bool result" where
  "within_working_hours zones policy evaluated_at =
     checks [chk (require_utc evaluated_at ''evaluated_at'')]
       (case zones (cp_timezone policy) of
          None \<Rightarrow> Inl (KeyError (''No time zone found with key '' @ cp_timezone policy))
        | Some offset \<Rightarrow>
            let local = micros evaluated_at + offset (micros evaluated_at)
            in Inr (scan_windows (local_weekday local) (local_minute local)
                 (cp_weekly_windows policy)))"

definition budget_bucket_start :: "WakeBudgetPeriod \<Rightarrow> datetime \<Rightarrow> datetime result" where
  "budget_bucket_start period evaluated_at =
     checks [chk (require_utc evaluated_at ''evaluated_at'')]
       (let t = micros evaluated_at;
            hour_start = t - t mod (60 * minute_micros);
            day_start = t - t mod day_micros
        in Inr (utc (case period of
             PERIOD_HOUR \<Rightarrow> hour_start
           | PERIOD_DAY \<Rightarrow> day_start
           | PERIOD_WEEK \<Rightarrow> day_start - local_weekday day_start * day_micros)))"

section \<open>Constructors\<close>

lemma freeze_unique_enums_ok [ok_simps]:
  "freeze_unique_enums xs f ae = Inr ys \<longleftrightarrow> ys = xs \<and> distinct xs \<and> (ae \<or> xs \<noteq> [])"
  by (auto simp: freeze_unique_enums_def ok_simps)

interpretation weekly_window: replayable WeeklyWindow_init
  by unfold_locales (auto simp: WeeklyWindow_init_def ok_simps)

interpretation wake_budget: replayable WakeBudget_init
  by unfold_locales (auto simp: WakeBudget_init_def ok_simps)

interpretation colleague_policy: replayable "ColleaguePolicy_init zones" for zones
  by unfold_locales (auto simp: ColleaguePolicy_init_def checks_ok)

interpretation policy_enforcement: replayable PolicyEnforcementRecord_init
  by unfold_locales (auto simp: PolicyEnforcementRecord_init_def checks_ok)

interpretation escalation_record: replayable EscalationRecord_init
  by unfold_locales (auto simp: EscalationRecord_init_def checks_ok)


section \<open>Windows and buckets\<close>

text \<open>The minutes of the week, as weekday and minute of the day, that a window covers.\<close>

definition week_minutes :: "WeeklyWindow \<Rightarrow> (int \<times> int) set" where
  "week_minutes w = {(d, m). 0 \<le> m \<and> m < 1440 \<and> scan_windows d m [w]}"

definition interval_minutes :: "int \<times> int \<times> int \<Rightarrow> (int \<times> int) set" where
  "interval_minutes i = {(d, m). d = fst i \<and> fst (snd i) \<le> m \<and> m < snd (snd i)}"

definition before_in_day :: "int \<times> int \<times> int \<Rightarrow> int \<times> int \<times> int \<Rightarrow> bool" where
  "before_in_day p c \<longleftrightarrow> \<not> (fst p = fst c \<and> fst (snd c) < snd (snd p))"

definition nonempty_interval :: "int \<times> int \<times> int \<Rightarrow> bool" where
  "nonempty_interval i \<longleftrightarrow> fst (snd i) < snd (snd i)"

lemma weekly_window_valid:
  "weekly_window.valid w \<longleftrightarrow> 0 \<le> ww_start_minute w \<and> ww_start_minute w < 1440 \<and>
     0 < ww_end_minute w \<and> ww_end_minute w \<le> 1440 \<and> ww_start_minute w \<noteq> ww_end_minute w"
  by (auto simp: weekly_window.valid_def WeeklyWindow_init_def ok_simps)

lemma week_minutes_intervals:
  "weekly_window.valid w \<Longrightarrow>
     week_minutes w = (\<Union>i \<in> set (expanded_intervals w). interval_minutes i)"
  by (auto simp: week_minutes_def interval_minutes_def expanded_intervals_def weekly_window_valid
      Let_def split: if_splits)

lemma expanded_nonempty:
  "weekly_window.valid w \<Longrightarrow> i \<in> set (expanded_intervals w) \<Longrightarrow> nonempty_interval i"
  by (auto simp: nonempty_interval_def expanded_intervals_def weekly_window_valid Let_def
      split: if_splits)

lemma WEEKDAY_INDEX_range: "0 \<le> WEEKDAY_INDEX d" "WEEKDAY_INDEX d \<le> 6"
  by (cases d; simp)+

lemma expanded_disjoint:
  "sorted_wrt (\<lambda>i j. disjnt (interval_minutes i) (interval_minutes j)) (expanded_intervals w)"
proof -
  have "(WEEKDAY_INDEX d + 1) mod 7 \<noteq> WEEKDAY_INDEX d" for d
    by (cases d) simp_all
  then show ?thesis
    by (auto simp: expanded_intervals_def disjnt_def interval_minutes_def Let_def)
qed

lemma before_in_day_disjnt:
  assumes "nonempty_interval p" "nonempty_interval c" "p \<le> c"
  shows "before_in_day p c \<longleftrightarrow> disjnt (interval_minutes p) (interval_minutes c)"
proof
  show "before_in_day p c \<Longrightarrow> disjnt (interval_minutes p) (interval_minutes c)"
    by (auto simp: before_in_day_def disjnt_def interval_minutes_def)
  assume "disjnt (interval_minutes p) (interval_minutes c)"
  moreover have "(fst c, fst (snd c)) \<in> interval_minutes c"
    using assms by (auto simp: interval_minutes_def nonempty_interval_def)
  ultimately have "(fst c, fst (snd c)) \<notin> interval_minutes p"
    by (auto simp: disjnt_iff)
  with assms(3) show "before_in_day p c"
    by (auto simp: before_in_day_def interval_minutes_def less_eq_prod_def)
qed

lemma adjacent_sorted_wrt:
  assumes "sorted xs" and "\<forall>i \<in> set xs. nonempty_interval i"
  shows "(\<forall>(p, c) \<in> set (zip xs (tl xs)). before_in_day p c) \<longleftrightarrow> sorted_wrt before_in_day xs"
  using assms
proof (induction xs)
  case (Cons x xs)
  show ?case
  proof (cases xs)
    case (Cons y ys)
    have "before_in_day x z"
      if "before_in_day x y" "sorted_wrt before_in_day xs" "z \<in> set ys" for z
    proof -
      have "before_in_day y z" "nonempty_interval y" "x \<le> y" "y \<le> z"
        using that Cons Cons.prems by auto
      with that(1) show ?thesis
        by (auto simp: before_in_day_def nonempty_interval_def less_eq_prod_def)
    qed
    with Cons Cons.IH Cons.prems show ?thesis by auto
  qed simp
qed simp

lemma intervals_check:
  assumes "\<forall>i \<in> set ivs. nonempty_interval i"
  shows "check_all (map (\<lambda>(p, c). raise_if (fst p = fst c \<and> fst (snd c) < snd (snd p)) e)
            (zip (sort ivs) (tl (sort ivs)))) = Inr () \<longleftrightarrow>
         sorted_wrt (\<lambda>i j. disjnt (interval_minutes i) (interval_minutes j)) ivs"
    (is "?check \<longleftrightarrow> sorted_wrt ?disj ivs")
proof -
  have "?check \<longleftrightarrow> (\<forall>(p, c) \<in> set (zip (sort ivs) (tl (sort ivs))). before_in_day p c)"
    by (auto simp: before_in_day_def ok_simps)
  also have "\<dots> \<longleftrightarrow> sorted_wrt before_in_day (sort ivs)"
    using assms by (intro adjacent_sorted_wrt) auto
  also have "\<dots> \<longleftrightarrow> sorted_wrt ?disj (sort ivs)"
  proof -
    have "sorted_wrt before_in_day xs \<longleftrightarrow> sorted_wrt ?disj xs"
      if "sorted xs" "\<forall>i \<in> set xs. nonempty_interval i" for xs
      using that by (induction xs) (auto simp: before_in_day_disjnt)
    with assms show ?thesis by simp
  qed
  also have "\<dots> \<longleftrightarrow> sorted_wrt ?disj ivs"
    by (rule sorted_wrt_sort_key) (auto simp: symp_def disjnt_sym)
  finally show ?thesis .
qed

text \<open>C36. The overlap check of the working-hours windows is exact: windows that passed their
  constructors are accepted when there is at least one and no two of them share a minute of
  the week, midnight and week wrap-around included, and refused otherwise.\<close>

theorem validate_windows_iff:
  assumes "\<forall>w \<in> set ws. weekly_window.valid w"
  shows "validate_windows ws = Inr () \<longleftrightarrow> ws \<noteq> [] \<and>
    (\<forall>i j. i < j \<and> j < length ws \<longrightarrow> disjnt (week_minutes (ws ! i)) (week_minutes (ws ! j)))"
proof -
  let ?D = "\<lambda>i j. disjnt (interval_minutes i) (interval_minutes j)"
  have pair: "(\<forall>i \<in> set (expanded_intervals v). \<forall>j \<in> set (expanded_intervals w). ?D i j) \<longleftrightarrow>
      disjnt (week_minutes v) (week_minutes w)" if "v \<in> set ws" "w \<in> set ws" for v w
    using that assms by (auto simp: week_minutes_intervals disjnt_def)
  have "validate_windows ws = Inr () \<longleftrightarrow> ws \<noteq> [] \<and>
      sorted_wrt ?D (concat (map expanded_intervals ws))"
    using assms by (subst intervals_check [symmetric])
      (auto simp: validate_windows_def Let_def ok_simps expanded_nonempty)
  also have "sorted_wrt ?D (concat (map expanded_intervals ws)) \<longleftrightarrow>
      sorted_wrt (\<lambda>v w. disjnt (week_minutes v) (week_minutes w)) ws"
    unfolding sorted_wrt_concat sorted_wrt_map sorted_wrt_iff_nth_less [of _ ws]
    using expanded_disjoint pair by (auto simp: nth_mem)
  finally show ?thesis
    by (auto simp: sorted_wrt_iff_nth_less)
qed

theorem validate_windows_iff_witness:
  "validate_windows [\<lparr>ww_weekday = SUNDAY, ww_start_minute = 1380, ww_end_minute = 60\<rparr>,
     \<lparr>ww_weekday = MONDAY, ww_start_minute = 30, ww_end_minute = 1020\<rparr>] \<noteq> Inr ()"
    (is "validate_windows [?a, ?b] \<noteq> _")
proof -
  have "weekly_window.valid ?a" "weekly_window.valid ?b"
    by (simp_all add: weekly_window_valid)
  then have iff: "validate_windows [?a, ?b] = Inr () \<longleftrightarrow> [?a, ?b] \<noteq> [] \<and>
      (\<forall>i j. i < j \<and> j < length [?a, ?b] \<longrightarrow>
         disjnt (week_minutes ([?a, ?b] ! i)) (week_minutes ([?a, ?b] ! j)))"
    by (intro validate_windows_iff) simp
  have "(0, 45) \<in> week_minutes ?a" "(0, 45) \<in> week_minutes ?b"
    by (simp_all add: week_minutes_def)
  then have "\<not> disjnt (week_minutes ([?a, ?b] ! 0)) (week_minutes ([?a, ?b] ! 1))"
    by (auto simp: disjnt_iff)
  then show ?thesis
    unfolding iff by force
qed


definition period_micros :: "WakeBudgetPeriod \<Rightarrow> int" where
  "period_micros p = (case p of PERIOD_HOUR \<Rightarrow> 60 * minute_micros | PERIOD_DAY \<Rightarrow> day_micros
     | PERIOD_WEEK \<Rightarrow> 7 * day_micros)"

text \<open>C38. The wake budget's bucket of an instant is the hour, day or Monday-based week that
  contains it: its start is a UTC instant no later than the instant, less than one period
  before it, and aligned to the period.\<close>

theorem budget_bucket_start_exact:
  "budget_bucket_start period at = Inr start \<longleftrightarrow> is_utc at \<and> is_utc start \<and>
     micros start \<le> micros at \<and> micros at < micros start + period_micros period \<and>
     micros start mod period_micros period = 0"
proof -
  have bucket: "s = t - t mod p \<longleftrightarrow> s \<le> t \<and> t < s + p \<and> s mod p = 0" if "0 < p" for s t p :: int
  proof
    assume s: "s = t - t mod p"
    have "0 \<le> t mod p" "t mod p < p" using that by simp_all
    moreover have "s mod p = 0" by (simp add: s minus_mod_eq_mult_div)
    ultimately show "s \<le> t \<and> t < s + p \<and> s mod p = 0" using s by linarith
  next
    assume a: "s \<le> t \<and> t < s + p \<and> s mod p = 0"
    then obtain k where k: "s = p * k" by (auto simp: mod_eq_0_iff_dvd)
    with a have "t mod p = t - s"
      by (intro int_mod_pos_eq [where q = k]) auto
    then show "s = t - t mod p" by simp
  qed
  have week: "t - t mod d - ((t - t mod d) div d mod 7) * d = t - t mod (7 * d)"
    if "0 < d" for t d :: int
  proof -
    have "(t - t mod d) div d = t div d"
      using that by (simp add: minus_mod_eq_mult_div)
    moreover have "t mod (7 * d) = d * (t div d mod 7) + t mod d"
      using zmod_zmult2_eq [of 7 t d] by (simp add: mult.commute)
    ultimately show ?thesis by (simp add: mult.commute)
  qed
  have "budget_bucket_start period at = Inr start \<longleftrightarrow> is_utc at \<and>
      start = utc (micros at - micros at mod period_micros period)"
    by (cases period) (auto simp: budget_bucket_start_def ok_simps Let_def period_micros_def
        local_weekday_def week day_micros_def minute_micros_def)
  moreover have "0 < period_micros period"
    by (cases period) (simp_all add: period_micros_def day_micros_def minute_micros_def)
  ultimately show ?thesis
    using bucket by (auto simp: is_utc_conv)
qed

end
