(* ===== verification/Digests.thy ===== *)
theory Digests
  imports Common "HOL-Library.Word"
begin

text \<open>
  The canonical encoding and the digest of \<^verbatim>\<open>core/effects.py\<close>: \<^verbatim>\<open>json.dumps\<close> with sorted
  keys, compact separators and \<^verbatim>\<open>ensure_ascii=False\<close>, its UTF-8 bytes, SHA-256 of them
  (FIPS 180-4, as \<^verbatim>\<open>hashlib.sha256\<close>), and the canonical text of a UTC \<^verbatim>\<open>datetime\<close>.
\<close>

section \<open>Decimal and hexadecimal text\<close>

definition digit :: "int \<Rightarrow> char" where
  "digit n = ''0123456789abcdef'' ! nat (n mod 16)"

text \<open>The decimal digits of a number that is not negative.\<close>

fun decimal :: "int \<Rightarrow> string" where
  "decimal n = (if n < 10 then [digit n] else decimal (n div 10) @ [digit (n mod 10)])"

declare decimal.simps [simp del]

definition int_text :: "int \<Rightarrow> string" where
  "int_text i = (if i < 0 then ''-'' @ decimal (- i) else decimal i)"

text \<open>\<open>hex_text k n\<close>: the low \<open>k\<close> hexadecimal digits; \<open>pad k n\<close>: at least \<open>k\<close> decimal ones.\<close>

primrec hex_text :: "nat \<Rightarrow> int \<Rightarrow> string" where
  "hex_text 0 n = []"
| "hex_text (Suc k) n = hex_text k (n div 16) @ [digit (n mod 16)]"

definition pad :: "nat \<Rightarrow> int \<Rightarrow> string" where
  "pad k n = (let s = decimal n in replicate (k - length s) (CHR ''0'') @ s)"

section \<open>json.dumps\<close>

definition escape_char :: "char \<Rightarrow> string" where
  "escape_char c =
     (let n = of_char c :: int
      in if n = 34 then [CHR 0x5C, CHR 0x22]
         else if n = 92 then [CHR 0x5C, CHR 0x5C]
         else if n = 10 then [CHR 0x5C, CHR ''n'']
         else if n = 13 then [CHR 0x5C, CHR ''r'']
         else if n = 9 then [CHR 0x5C, CHR ''t'']
         else if n = 8 then [CHR 0x5C, CHR ''b'']
         else if n = 12 then [CHR 0x5C, CHR ''f'']
         else if n < 32 then CHR 0x5C # ''u'' @ hex_text 4 n
         else [c])"

definition string_text :: "string \<Rightarrow> string" where
  "string_text s = CHR 0x22 # concat (map escape_char s) @ [CHR 0x22]"

fun float_text :: "pyfloat \<Rightarrow> string" where
  "float_text (PyFloat r) = r"
| "float_text (PyInf negative) = (if negative then ''-Infinity'' else ''Infinity'')"
| "float_text PyNan = ''NaN''"

primrec comma_join :: "string list \<Rightarrow> string" where
  "comma_join [] = []"
| "comma_join (x # xs) = (if xs = [] then x else x @ '','' @ comma_join xs)"

fun json_text :: "json \<Rightarrow> string" where
  "json_text JNull = ''null''"
| "json_text (JBool b) = (if b then ''true'' else ''false'')"
| "json_text (JInt i) = int_text i"
| "json_text (JFloat x) = float_text x"
| "json_text (JStr s) = string_text s"
| "json_text (JList items) = ''['' @ comma_join (map json_text items) @ '']''"
| "json_text (JObj entries) =
     ''{'' @ comma_join (map snd (sort_key fst
        (map (\<lambda>(key, value). (key, string_text key @ '':'' @ json_text value)) entries))) @ ''}''"

section \<open>UTF-8 and SHA-256\<close>

definition utf8_char :: "char \<Rightarrow> 8 word list" where
  "utf8_char c =
     (let n = of_char c :: int
      in if n < 128 then [word_of_int n]
         else [word_of_int (192 + n div 64), word_of_int (128 + n mod 64)])"

definition utf8 :: "string \<Rightarrow> 8 word list" where
  "utf8 s = concat (map utf8_char s)"

type_synonym w32 = "32 word"

text \<open>The round constants, in decimal: the leading fractional bits of the cube roots of the primes.\<close>

definition sha_k :: "w32 list" where
  "sha_k = [
     1116352408, 1899447441, 3049323471, 3921009573, 961987163, 1508970993, 2453635748,
     2870763221, 3624381080, 310598401, 607225278, 1426881987, 1925078388, 2162078206,
     2614888103, 3248222580, 3835390401, 4022224774, 264347078, 604807628, 770255983,
     1249150122, 1555081692, 1996064986, 2554220882, 2821834349, 2952996808, 3210313671,
     3336571891, 3584528711, 113926993, 338241895, 666307205, 773529912, 1294757372,
     1396182291, 1695183700, 1986661051, 2177026350, 2456956037, 2730485921, 2820302411,
     3259730800, 3345764771, 3516065817, 3600352804, 4094571909, 275423344, 430227734,
     506948616, 659060556, 883997877, 958139571, 1322822218, 1537002063, 1747873779,
     1955562222, 2024104815, 2227730452, 2361852424, 2428436474, 2756734187, 3204031479,
     3329325298]"

unbundle bit_operations_syntax

definition rotr :: "nat \<Rightarrow> w32 \<Rightarrow> w32" where
  "rotr n w = (drop_bit n w OR push_bit (32 - n) w)"

definition sha_pad :: "8 word list \<Rightarrow> 8 word list" where
  "sha_pad m =
     (let l = length m; z = (119 - l mod 64) mod 64
      in m @ [0x80] @ replicate z 0 @
         map (\<lambda>i. word_of_int (8 * int l div 256 ^ i)) [7, 6, 5, 4, 3, 2, 1, 0])"

fun be_words :: "8 word list \<Rightarrow> w32 list" where
  "be_words (a # b # c # d # bs) =
     word_of_int (((uint a * 256 + uint b) * 256 + uint c) * 256 + uint d) # be_words bs"
| "be_words _ = []"

text \<open>The message schedule, latest word first, extended \<open>n\<close> times.\<close>

primrec schedule :: "nat \<Rightarrow> w32 list \<Rightarrow> w32 list" where
  "schedule 0 ws = ws"
| "schedule (Suc n) ws =
     (let w2 = ws ! 1; w7 = ws ! 6; w15 = ws ! 14; w16 = ws ! 15;
          s0 = rotr 7 w15 XOR rotr 18 w15 XOR drop_bit 3 w15;
          s1 = rotr 17 w2 XOR rotr 19 w2 XOR drop_bit 10 w2
      in schedule n ((w16 + s0 + w7 + s1) # ws))"

type_synonym sha_state = "w32 \<times> w32 \<times> w32 \<times> w32 \<times> w32 \<times> w32 \<times> w32 \<times> w32"

fun sha_round :: "sha_state \<Rightarrow> w32 \<times> w32 \<Rightarrow> sha_state" where
  "sha_round (a, b, c, d, e, f, g, h) (k, w) =
     (let s1 = rotr 6 e XOR rotr 11 e XOR rotr 25 e;
          ch = (e AND f) XOR (NOT e AND g);
          t1 = h + s1 + ch + k + w;
          s0 = rotr 2 a XOR rotr 13 a XOR rotr 22 a;
          maj = (a AND b) XOR (a AND c) XOR (b AND c);
          t2 = s0 + maj
      in (t1 + t2, a, b, c, d + t1, e, f, g))"

fun sha_block :: "sha_state \<Rightarrow> w32 list \<Rightarrow> sha_state" where
  "sha_block (a, b, c, d, e, f, g, h) ws =
     (case foldl sha_round (a, b, c, d, e, f, g, h) (zip sha_k (rev (schedule 48 (rev ws)))) of
        (a', b', c', d', e', f', g', h') \<Rightarrow>
          (a + a', b + b', c + c', d + d', e + e', f + f', g + g', h + h'))"

function sha_blocks :: "sha_state \<Rightarrow> w32 list \<Rightarrow> sha_state" where
  "sha_blocks st ws = (if ws = [] then st else sha_blocks (sha_block st (take 16 ws)) (drop 16 ws))"
  by pat_completeness auto

termination
  by (relation "measure (\<lambda>(st, ws). length ws)") auto

declare sha_blocks.simps [simp del]

definition word_hex :: "w32 \<Rightarrow> string" where
  "word_hex w = hex_text 8 (uint w)"

definition sha256_hex :: "8 word list \<Rightarrow> string" where
  "sha256_hex m =
     (case sha_blocks (0x6a09e667, 0xbb67ae85, 0x3c6ef372, 0xa54ff53a,
        0x510e527f, 0x9b05688c, 0x1f83d9ab, 0x5be0cd19) (be_words (sha_pad m)) of
        (a, b, c, d, e, f, g, h) \<Rightarrow> concat (map word_hex [a, b, c, d, e, f, g, h]))"

definition canonical_digest :: "json \<Rightarrow> string" where
  "canonical_digest value = ''sha256:'' @ sha256_hex (utf8 (json_text value))"

definition payload_digest :: "frozen_json \<Rightarrow> string" where
  "payload_digest payload = canonical_digest (JObj payload)"

section \<open>Canonical text of a datetime\<close>

definition is_leap :: "int \<Rightarrow> bool" where
  "is_leap y = (y mod 4 = 0 \<and> (y mod 100 \<noteq> 0 \<or> y mod 400 = 0))"

definition month_lengths :: "int \<Rightarrow> int list" where
  "month_lengths y = [31, if is_leap y then 29 else 28, 31, 30, 31, 30, 31, 31, 30, 31, 30, 31]"

primrec month_day :: "int list \<Rightarrow> int \<Rightarrow> int \<Rightarrow> int \<times> int" where
  "month_day [] m d = (m, d + 1)"
| "month_day (l # ls) m d = (if d < l then (m, d + 1) else month_day ls (m + 1) (d - l))"

text \<open>Year, month and day of the day \<open>n\<close>, counted from 0001-01-01 as 0 (\<^verbatim>\<open>date.fromordinal\<close>).\<close>

definition civil :: "int \<Rightarrow> int \<times> int \<times> int" where
  "civil n =
     (let n400 = n div 146097; r = n mod 146097;
          n100 = min 3 (r div 36524); r = r - n100 * 36524;
          n4 = r div 1461; r = r mod 1461;
          n1 = min 3 (r div 365); r = r - n1 * 365;
          y = 400 * n400 + 100 * n100 + 4 * n4 + n1 + 1
      in (y, month_day (month_lengths y) 1 r))"

definition micros_of_day :: int where
  "micros_of_day = 86400000000"

text \<open>\<^verbatim>\<open>isoformat(timespec='microseconds')\<close> of the wall clock, without the offset.\<close>

definition iso_micros :: "int \<Rightarrow> string" where
  "iso_micros t =
     (case civil (t div micros_of_day) of (y, mo, d) \<Rightarrow>
      let r = t mod micros_of_day
      in pad 4 y @ ''-'' @ pad 2 mo @ ''-'' @ pad 2 d @ ''T'' @
         pad 2 (r div 3600000000) @ '':'' @ pad 2 (r div 60000000 mod 60) @ '':'' @
         pad 2 (r div 1000000 mod 60) @ ''.'' @ pad 6 (r mod 1000000))"

text \<open>Called on values that passed \<^verbatim>\<open>require_utc\<close>, whose offset text is the removed suffix.\<close>

definition datetime_to_canonical_z :: "datetime \<Rightarrow> string" where
  "datetime_to_canonical_z d = iso_micros (micros d) @ ''Z''"

section \<open>Every digest has the digest format\<close>

lemma hex_char_digit: "hex_char (digit n)"
proof -
  have "nat (n mod 16) < 16" by simp
  then have "digit n \<in> set ''0123456789abcdef''"
    unfolding digit_def by (intro nth_mem) simp
  then show ?thesis by (simp add: hex_char_def)
qed

lemma hex_text_hex: "list_all hex_char (hex_text k n)"
  by (induction k arbitrary: n) (simp_all add: hex_char_digit)

lemma hex_text_length [simp]: "length (hex_text k n) = k"
  by (induction k arbitrary: n) simp_all

lemma canonical_digest_format [simp]: "matches_sha256 (canonical_digest v)"
  by (auto simp: canonical_digest_def matches_sha256_def sha256_hex_def word_hex_def
      hex_text_hex split: prod.splits)

lemma payload_digest_format [simp]: "matches_sha256 (payload_digest v)"
  by (simp add: payload_digest_def)

end
