(* ===== verification/Governance.thy ===== *)
theory Governance
  imports Policy Digests
begin

text \<open>
  \<^verbatim>\<open>core/governance.py\<close> and \<^verbatim>\<open>governance/rbac.py\<close>: memberships, one-time credentials,
  change proposals and decisions, audit export, and the role and action matrix.
\<close>

section \<open>Memberships\<close>

datatype AuthorizationAction =
  READ_SESSION_SECURITY | READ_COLLEAGUE | READ_GOVERNANCE | ASSIGN_WORK | SUBMIT_TRIGGER
  | PROCESS_RUNTIME | DECIDE_EFFECT | MANAGE_DRAFT | PROPOSE_CHANGE | DECIDE_CHANGE
  | APPLY_CHANGE | MANAGE_CREDENTIAL | MANAGE_MEMBERSHIP | EXPORT_AUDIT | READ_AGENT_PACKAGES
  | MANAGE_AGENT_PACKAGES | READ_DEPLOYMENTS | MANAGE_DEPLOYMENTS | SELECT_DEPLOYMENT
  | READ_DEPLOYMENT_AUDIT

datatype MembershipStatus = MEMBER_ACTIVE | MEMBER_REVOKED

record Membership =
  mb_namespace :: Namespace
  mb_membership_id :: string
  mb_principal_id :: string
  mb_roles :: "HumanRole list"
  mb_colleague_ids :: "string list"
  mb_status :: MembershipStatus
  mb_role_revision :: int
  mb_membership_revision :: int
  mb_issued_by :: Principal
  mb_created_at :: datetime
  mb_updated_at :: datetime
  mb_correlation_id :: string
  mb_causation_id :: string
  mb_revision :: int
  mb_schema_version :: int

definition Membership_init :: "Membership \<Rightarrow> Membership result" where
  "Membership_init m = checks
     [chk (require_schema_version (mb_schema_version m)),
      chk (require_stable_id (mb_membership_id m) ''membership_id''),
      chk (require_stable_id (mb_principal_id m) ''principal_id''),
      require_principal (mb_namespace m) (mb_principal_id m),
      raise_if (mb_roles m = [] \<or> has_dup (mb_roles m))
        (CoreInvariantError ''membership roles must be non-empty and unique''),
      raise_if (mb_colleague_ids m = [] \<or> has_dup (mb_colleague_ids m))
        (CoreInvariantError ''membership colleague scopes must be non-empty and unique''),
      (if ''*'' \<in> set (mb_colleague_ids m)
       then raise_if (mb_colleague_ids m \<noteq> [''*''] \<or> TENANT_ADMIN \<notin> set (mb_roles m))
              (AuthorizationError ''only an Admin may have the tenant governance scope'')
       else check_all (map (\<lambda>i. chk (require_stable_id i ''colleague_id''))
              (mb_colleague_ids m))),
      chk (require_revision (mb_role_revision m) ''role_revision''),
      chk (require_revision (mb_membership_revision m) ''membership_revision''),
      raise_if (pr_kind (mb_issued_by m) \<noteq> HUMAN)
        (AuthorizationError ''membership issuer must be a durable human''),
      require_same_tenant (mb_namespace m) (pr_namespace (mb_issued_by m)),
      chk (require_utc (mb_created_at m) ''created_at''),
      chk (require_utc (mb_updated_at m) ''updated_at''),
      raise_if (mb_updated_at m < mb_created_at m)
        (CoreInvariantError ''membership update cannot precede creation''),
      chk (require_stable_id (mb_correlation_id m) ''correlation_id''),
      chk (require_stable_id (mb_causation_id m) ''causation_id''),
      chk (require_revision (mb_revision m) ''revision'')]
     (Inr m)"

definition allows_namespace :: "Membership \<Rightarrow> Namespace \<Rightarrow> bool result" where
  "allows_namespace m namespace =
     checks [require_same_tenant (mb_namespace m) namespace]
       (Inr (if mb_status m \<noteq> MEMBER_ACTIVE then False
             else case ns_scope namespace of
               TENANT \<Rightarrow> mb_colleague_ids m = [''*'']
             | PRINCIPAL \<Rightarrow> ns_scope_id namespace = Some (mb_principal_id m)
             | COLLEAGUE \<Rightarrow> mb_colleague_ids m = [''*''] \<or>
                 ns_scope_id namespace \<in> Some ` set (mb_colleague_ids m)))"

section \<open>Role-based access\<close>

definition all_actions :: "AuthorizationAction list" where
  "all_actions =
     [READ_SESSION_SECURITY, READ_COLLEAGUE, READ_GOVERNANCE, ASSIGN_WORK, SUBMIT_TRIGGER,
      PROCESS_RUNTIME, DECIDE_EFFECT, MANAGE_DRAFT, PROPOSE_CHANGE, DECIDE_CHANGE,
      APPLY_CHANGE, MANAGE_CREDENTIAL, MANAGE_MEMBERSHIP, EXPORT_AUDIT, READ_AGENT_PACKAGES,
      MANAGE_AGENT_PACKAGES, READ_DEPLOYMENTS, MANAGE_DEPLOYMENTS, SELECT_DEPLOYMENT,
      READ_DEPLOYMENT_AUDIT]"

fun ROLE_ACTIONS :: "HumanRole \<Rightarrow> AuthorizationAction list" where
  "ROLE_ACTIONS TENANT_ADMIN = all_actions"
| "ROLE_ACTIONS COLLEAGUE_USER =
     [READ_SESSION_SECURITY, READ_COLLEAGUE, ASSIGN_WORK, SUBMIT_TRIGGER, PROCESS_RUNTIME,
      DECIDE_EFFECT, READ_AGENT_PACKAGES, READ_DEPLOYMENTS, SELECT_DEPLOYMENT]"
| "ROLE_ACTIONS AUDITOR =
     [READ_SESSION_SECURITY, READ_COLLEAGUE, READ_GOVERNANCE, EXPORT_AUDIT,
      READ_AGENT_PACKAGES, READ_DEPLOYMENTS, READ_DEPLOYMENT_AUDIT]"

definition authorize_action ::
  "Principal \<Rightarrow> Membership \<Rightarrow> AuthorizationAction \<Rightarrow> Namespace \<Rightarrow> unit result" where
  "authorize_action human membership action namespace =
     checks
       [raise_if (pr_kind human \<noteq> HUMAN)
          (AuthorizationError ''a human governance action requires a durable human''),
        require_exact (pr_namespace human) (mb_namespace membership),
        require_same_tenant namespace (pr_namespace human),
        raise_if (mb_status membership \<noteq> MEMBER_ACTIVE)
          (AuthorizationError ''membership is not active''),
        raise_if (mb_roles membership \<noteq> pr_roles human \<or>
            mb_role_revision membership \<noteq> pr_revision human)
          (AuthorizationError ''principal role binding is stale'')]
    (bindR (allows_namespace membership namespace) (\<lambda>allowed.
       check_all
         [raise_if (\<not> allowed)
            (AuthorizationError ''membership does not include the requested namespace''),
          raise_if (\<not> (\<exists>role \<in> set (mb_roles membership). action \<in> set (ROLE_ACTIONS role)))
            (AuthorizationError ''role does not allow the requested action'')]))"

section \<open>Credentials\<close>

datatype CredentialKind = ENROLLMENT | RECOVERY

datatype CredentialState = CR_AUTHORIZED | CR_RETRIEVED | CR_CONSUMED | CR_REVOKED | CR_EXPIRED

record GovernanceCredential =
  gc_namespace :: Namespace
  gc_credential_id :: string
  gc_kind :: CredentialKind
  gc_state :: CredentialState
  gc_target_principal_id :: "string option"
  gc_target_role_revision :: "int option"
  gc_target_membership_revision :: "int option"
  gc_target_role :: "HumanRole option"
  gc_colleague_ids :: "string list"
  gc_bootstrap_transition :: bool
  gc_issued_by_principal_id :: string
  gc_issued_at :: datetime
  gc_expires_at :: datetime
  gc_correlation_id :: string
  gc_causation_id :: string
  gc_token_digest :: "string option"
  gc_change_decision_id :: "string option"
  gc_retrieved_at :: "datetime option"
  gc_consumed_at :: "datetime option"
  gc_revoked_at :: "datetime option"
  gc_consumed_principal_id :: "string option"
  gc_revision :: int
  gc_schema_version :: int

definition GovernanceCredential_init :: "GovernanceCredential \<Rightarrow> GovernanceCredential result" where
  "GovernanceCredential_init c = checks
     [chk (require_schema_version (gc_schema_version c)),
      raise_if (ns_scope (gc_namespace c) \<noteq> TENANT)
        (CoreInvariantError ''governance credential requires a tenant namespace''),
      chk (require_stable_id (gc_credential_id c) ''credential_id''),
      (if gc_kind c = ENROLLMENT
       then raise_if (gc_target_role c = None \<or> gc_target_principal_id c \<noteq> None \<or>
                gc_target_role_revision c \<noteq> None \<or> gc_target_membership_revision c \<noteq> None)
              (CoreInvariantError ''enrollment must fix a role and no existing principal'')
       else raise_if (gc_target_principal_id c = None \<or> gc_target_role c \<noteq> None \<or>
                gc_target_role_revision c = None \<or> gc_target_membership_revision c = None)
              (CoreInvariantError
                 ''recovery must fix an existing principal and authority revisions'')),
      opt_chk (\<lambda>i. require_stable_id i ''target_principal_id'') (gc_target_principal_id c),
      opt_chk (\<lambda>r. require_revision r ''target_role_revision'') (gc_target_role_revision c),
      opt_chk (\<lambda>r. require_revision r ''target_membership_revision'')
        (gc_target_membership_revision c),
      raise_if (gc_colleague_ids c = [] \<or> has_dup (gc_colleague_ids c))
        (CoreInvariantError ''credential scopes must be non-empty and unique''),
      (if ''*'' \<in> set (gc_colleague_ids c)
       then raise_if (gc_colleague_ids c \<noteq> [''*''] \<or>
                gc_target_role c \<notin> {Some TENANT_ADMIN, None})
              (AuthorizationError ''credential tenant scope is restricted to Admin/recovery'')
       else check_all (map (\<lambda>i. chk (require_stable_id i ''colleague_id''))
              (gc_colleague_ids c))),
      raise_if (gc_bootstrap_transition c \<and>
          (gc_kind c \<noteq> ENROLLMENT \<or> gc_target_role c \<noteq> Some TENANT_ADMIN))
        (AuthorizationError ''bootstrap transition may create only an Admin''),
      chk (require_stable_id (gc_issued_by_principal_id c) ''issued_by_principal_id''),
      chk (require_utc (gc_issued_at c) ''issued_at''),
      chk (require_utc (gc_expires_at c) ''expires_at''),
      raise_if (gc_expires_at c \<le> gc_issued_at c)
        (CoreInvariantError ''credential expiry must follow issuance''),
      opt_chk (\<lambda>d. require_digest d ''token_digest'') (gc_token_digest c),
      opt_chk (\<lambda>i. require_stable_id i ''change_decision_id'') (gc_change_decision_id c),
      opt_chk (\<lambda>t. require_utc t ''retrieved_at'') (gc_retrieved_at c),
      opt_chk (\<lambda>t. require_utc t ''consumed_at'') (gc_consumed_at c),
      opt_chk (\<lambda>t. require_utc t ''revoked_at'') (gc_revoked_at c),
      raise_if (gc_state c = CR_RETRIEVED \<and> (gc_token_digest c = None \<or> gc_retrieved_at c = None))
        (CoreInvariantError ''retrieved credential binding is incomplete''),
      raise_if (gc_state c = CR_CONSUMED \<and> gc_consumed_at c = None)
        (CoreInvariantError ''consumed credential requires a time''),
      raise_if (gc_state c = CR_REVOKED \<and> gc_revoked_at c = None)
        (CoreInvariantError ''revoked credential requires a time''),
      opt_chk (\<lambda>i. require_stable_id i ''consumed_principal_id'') (gc_consumed_principal_id c),
      chk (require_stable_id (gc_correlation_id c) ''correlation_id''),
      chk (require_stable_id (gc_causation_id c) ''causation_id''),
      chk (require_revision (gc_revision c) ''revision'')]
     (Inr c)"

section \<open>Change proposals and decisions\<close>

datatype ChangeKind = CHANGE_DRAFT | CHANGE_MEMBERSHIP | CHANGE_ADMIN_ENROLLMENT

datatype ChangeState = CH_PENDING | CH_APPROVED | CH_REJECTED | CH_EXPIRED | CH_STALE | CH_APPLIED

datatype ChangeChoice = CHANGE_APPROVE | CHANGE_REJECT

fun ChangeKind_value :: "ChangeKind \<Rightarrow> string" where
  "ChangeKind_value CHANGE_DRAFT = ''draft''"
| "ChangeKind_value CHANGE_MEMBERSHIP = ''membership''"
| "ChangeKind_value CHANGE_ADMIN_ENROLLMENT = ''admin_enrollment''"

fun MembershipStatus_value :: "MembershipStatus \<Rightarrow> string" where
  "MembershipStatus_value MEMBER_ACTIVE = ''active''"
| "MembershipStatus_value MEMBER_REVOKED = ''revoked''"

definition governance_change_digest ::
  "ChangeKind \<Rightarrow> string \<Rightarrow> int \<Rightarrow> HumanRole option \<Rightarrow> MembershipStatus option \<Rightarrow> string list
     \<Rightarrow> string result" where
  "governance_change_digest change_kind target_id target_revision proposed_role proposed_status
     proposed_colleague_ids =
     bindR (require_stable_id target_id ''target_id'') (\<lambda>target.
     bindR (require_revision target_revision ''target_revision'') (\<lambda>revision.
     Inr (canonical_digest (JObj
       [(''digest_schema_version'', JInt 1),
        (''change_kind'', JStr (ChangeKind_value change_kind)),
        (''target_id'', JStr target),
        (''target_revision'', JInt revision),
        (''proposed_role'', case proposed_role of None \<Rightarrow> JNull | Some r \<Rightarrow> JStr (HumanRole_value r)),
        (''proposed_status'', case proposed_status of None \<Rightarrow> JNull
           | Some s \<Rightarrow> JStr (MembershipStatus_value s)),
        (''proposed_colleague_ids'', JList (map JStr (sort proposed_colleague_ids)))]))))"

record ChangeProposal =
  ch_namespace :: Namespace
  ch_proposal_id :: string
  ch_change_kind :: ChangeKind
  ch_target_id :: string
  ch_target_revision :: int
  ch_canonical_digest :: string
  ch_base_profile_revision :: int
  ch_base_mandate_revision :: int
  ch_base_policy_revision :: int
  ch_proposed_role :: "HumanRole option"
  ch_proposed_status :: "MembershipStatus option"
  ch_proposed_colleague_ids :: "string list"
  ch_proposer_principal_id :: string
  ch_proposer_role_revision :: int
  ch_proposer_membership_revision :: int
  ch_issued_at :: datetime
  ch_expires_at :: datetime
  ch_state :: ChangeState
  ch_idempotency_key :: string
  ch_request_digest :: string
  ch_correlation_id :: string
  ch_causation_id :: string
  ch_decision_id :: "string option"
  ch_consumed_at :: "datetime option"
  ch_revision :: int
  ch_schema_version :: int

definition ChangeProposal_init :: "ChangeProposal \<Rightarrow> ChangeProposal result" where
  "ChangeProposal_init p =
     checks
       [chk (require_schema_version (ch_schema_version p)),
        raise_if (ns_scope (ch_namespace p) \<notin> {TENANT, COLLEAGUE})
          (CoreInvariantError ''change proposal namespace is unsupported''),
        chk (require_stable_id (ch_proposal_id p) ''proposal_id''),
        (if ch_change_kind p = CHANGE_DRAFT then require_colleague (ch_namespace p)
         else raise_if (ns_scope (ch_namespace p) \<noteq> TENANT)
                (CoreInvariantError ''membership changes require the tenant namespace'')),
        chk (require_stable_id (ch_target_id p) ''target_id''),
        chk (require_revision (ch_target_revision p) ''target_revision''),
        chk (require_digest (ch_canonical_digest p) ''canonical_digest''),
        check_all (map (\<lambda>(value, name).
            raise_if (value < 0) (CoreInvariantError (name @ '' must be non-negative'')))
          [(ch_base_profile_revision p, ''base_profile_revision''),
           (ch_base_mandate_revision p, ''base_mandate_revision''),
           (ch_base_policy_revision p, ''base_policy_revision'')])]
    (bindR (freeze_strings (ch_proposed_colleague_ids p) ''proposed_colleague_ids''
        (ch_change_kind p = CHANGE_DRAFT)) (\<lambda>scopes.
     checks
       [raise_if (''*'' \<in> set scopes \<and> scopes \<noteq> [''*''])
          (AuthorizationError ''tenant scope cannot be combined with colleague scopes''),
        check_all (map (\<lambda>scope. if scope \<noteq> ''*'' then chk (require_stable_id scope ''colleague_id'')
          else Inr ()) scopes),
        chk (require_stable_id (ch_proposer_principal_id p) ''proposer_principal_id''),
        chk (require_revision (ch_proposer_role_revision p) ''proposer_role_revision''),
        chk (require_revision (ch_proposer_membership_revision p)
          ''proposer_membership_revision''),
        chk (require_utc (ch_issued_at p) ''issued_at''),
        chk (require_utc (ch_expires_at p) ''expires_at''),
        raise_if (ch_expires_at p \<le> ch_issued_at p)
          (CoreInvariantError ''change proposal expiry must follow issuance''),
        chk (require_stable_id (ch_idempotency_key p) ''idempotency_key''),
        chk (require_digest (ch_request_digest p) ''request_digest''),
        chk (require_stable_id (ch_correlation_id p) ''correlation_id''),
        chk (require_stable_id (ch_causation_id p) ''causation_id''),
        opt_chk (\<lambda>i. require_stable_id i ''decision_id'') (ch_decision_id p),
        opt_chk (\<lambda>t. require_utc t ''consumed_at'') (ch_consumed_at p),
        raise_if (ch_state p = CH_APPLIED \<and> ch_consumed_at p = None)
          (CoreInvariantError ''applied proposal requires consumption time''),
        chk (require_revision (ch_revision p) ''revision'')]
       (Inr (p\<lparr>ch_proposed_colleague_ids := scopes\<rparr>))))"

record ChangeDecision =
  cd_namespace :: Namespace
  cd_decision_id :: string
  cd_proposal_id :: string
  cd_proposal_revision :: int
  cd_proposal_digest :: string
  cd_choice :: ChangeChoice
  cd_approver_principal_id :: string
  cd_approver_role_revision :: int
  cd_approver_membership_revision :: int
  cd_occurred_at :: datetime
  cd_valid_until :: datetime
  cd_idempotency_key :: string
  cd_request_digest :: string
  cd_correlation_id :: string
  cd_causation_id :: string
  cd_consumed_at :: "datetime option"
  cd_revision :: int
  cd_schema_version :: int

definition ChangeDecision_init :: "ChangeDecision \<Rightarrow> ChangeDecision result" where
  "ChangeDecision_init d = checks
     [chk (require_schema_version (cd_schema_version d)),
      chk (require_stable_id (cd_decision_id d) ''decision_id''),
      chk (require_stable_id (cd_proposal_id d) ''proposal_id''),
      chk (require_revision (cd_proposal_revision d) ''proposal_revision''),
      chk (require_digest (cd_proposal_digest d) ''proposal_digest''),
      chk (require_stable_id (cd_approver_principal_id d) ''approver_principal_id''),
      chk (require_revision (cd_approver_role_revision d) ''approver_role_revision''),
      chk (require_revision (cd_approver_membership_revision d) ''approver_membership_revision''),
      chk (require_utc (cd_occurred_at d) ''occurred_at''),
      chk (require_utc (cd_valid_until d) ''valid_until''),
      raise_if (cd_valid_until d < cd_occurred_at d)
        (CoreInvariantError ''change decision expiry precedes its decision''),
      chk (require_stable_id (cd_idempotency_key d) ''idempotency_key''),
      chk (require_digest (cd_request_digest d) ''request_digest''),
      chk (require_stable_id (cd_correlation_id d) ''correlation_id''),
      chk (require_stable_id (cd_causation_id d) ''causation_id''),
      raise_if (cd_causation_id d \<noteq> cd_proposal_id d)
        (CoreInvariantError ''change decision must cite its proposal''),
      opt_chk (\<lambda>t. require_utc t ''consumed_at'') (cd_consumed_at d),
      chk (require_revision (cd_revision d) ''revision'')]
     (Inr d)"

section \<open>Audit export\<close>

record AuditExportQuery =
  aq_namespace :: Namespace
  aq_start_at :: datetime
  aq_end_at :: datetime
  aq_record_types :: "string list"
  aq_limit :: int
  aq_schema_version :: int

definition AuditExportQuery_init :: "AuditExportQuery \<Rightarrow> AuditExportQuery result" where
  "AuditExportQuery_init q =
     checks
       [chk (require_schema_version (aq_schema_version q)),
        chk (require_utc (aq_start_at q) ''start_at''),
        chk (require_utc (aq_end_at q) ''end_at''),
        raise_if (aq_end_at q < aq_start_at q)
          (CoreInvariantError ''audit export range is inverted'')]
    (bindR (freeze_strings (aq_record_types q) ''record_types'' False) (\<lambda>record_types.
     checks
       [raise_if (''audit_export'' \<in> set record_types)
          (AuthorizationError ''audit export records cannot recursively export themselves''),
        raise_if (\<not> (1 \<le> aq_limit q \<and> aq_limit q \<le> 500))
          (CoreInvariantError ''audit export limit must be between 1 and 500'')]
       (Inr (q\<lparr>aq_record_types := record_types\<rparr>))))"

record AuditExportRecord =
  ax_namespace :: Namespace
  ax_record_type :: string
  ax_record_id :: string
  ax_record_revision :: int
  ax_action :: string
  ax_result :: string
  ax_actor_principal_id :: string
  ax_actor_kind :: PrincipalKind
  ax_authority_revision :: string
  ax_correlation_id :: string
  ax_causation_id :: string
  ax_occurred_at :: datetime
  ax_safe_digest :: string
  ax_safe_projection :: frozen_json
  ax_schema_version :: int

definition AuditExportRecord_init :: "AuditExportRecord \<Rightarrow> AuditExportRecord result" where
  "AuditExportRecord_init r = checks
     [chk (require_schema_version (ax_schema_version r)),
      check_all (map (\<lambda>(value, name). chk (require_stable_id value name))
        [(ax_record_type r, ''record_type''), (ax_record_id r, ''record_id''),
         (ax_action r, ''action''), (ax_result r, ''result''),
         (ax_actor_principal_id r, ''actor_principal_id''),
         (ax_authority_revision r, ''authority_revision''),
         (ax_correlation_id r, ''correlation_id''), (ax_causation_id r, ''causation_id'')]),
      chk (require_revision (ax_record_revision r) ''record_revision''),
      chk (require_utc (ax_occurred_at r) ''occurred_at''),
      chk (require_digest (ax_safe_digest r) ''safe_digest'')]
     (Inr r)"

section \<open>Constructors\<close>

interpretation membership: replayable Membership_init
  by unfold_locales (auto simp: Membership_init_def checks_ok)

interpretation governance_credential: replayable GovernanceCredential_init
  by unfold_locales (auto simp: GovernanceCredential_init_def checks_ok)

interpretation change_proposal: replayable ChangeProposal_init
  by unfold_locales (auto simp: ChangeProposal_init_def checks_ok check_all_ok check_all_map_ok
      bindR_eq_Inr freeze_strings_ok image_image)

interpretation change_decision: replayable ChangeDecision_init
  by unfold_locales (auto simp: ChangeDecision_init_def checks_ok)

interpretation audit_export_query: replayable AuditExportQuery_init
  by unfold_locales (auto simp: AuditExportQuery_init_def ok_simps)

interpretation audit_export_record: replayable AuditExportRecord_init
  by unfold_locales (auto simp: AuditExportRecord_init_def checks_ok)

section \<open>Who may do what\<close>

lemma allows_namespace_ok [ok_simps]:
  "allows_namespace m ns = Inr b \<longleftrightarrow> ns_tenant_id (mb_namespace m) = ns_tenant_id ns \<and>
     b = (mb_status m = MEMBER_ACTIVE \<and>
       (case ns_scope ns of
          TENANT \<Rightarrow> mb_colleague_ids m = [''*'']
        | PRINCIPAL \<Rightarrow> ns_scope_id ns = Some (mb_principal_id m)
        | COLLEAGUE \<Rightarrow> mb_colleague_ids m = [''*''] \<or>
            ns_scope_id ns \<in> Some ` set (mb_colleague_ids m)))"
  by (auto simp: allows_namespace_def ok_simps)

lemma authorize_action_ok:
  "authorize_action p m a ns = Inr () \<longleftrightarrow>
     pr_kind p = HUMAN \<and> pr_namespace p = mb_namespace m \<and>
     ns_tenant_id ns = ns_tenant_id (pr_namespace p) \<and> mb_status m = MEMBER_ACTIVE \<and>
     mb_roles m = pr_roles p \<and> mb_role_revision m = pr_revision p \<and>
     (\<exists>role \<in> set (pr_roles p). a \<in> set (ROLE_ACTIONS role)) \<and>
     (case ns_scope ns of
        TENANT \<Rightarrow> mb_colleague_ids m = [''*'']
      | PRINCIPAL \<Rightarrow> ns_scope_id ns = Some (mb_principal_id m)
      | COLLEAGUE \<Rightarrow> mb_colleague_ids m = [''*''] \<or>
          ns_scope_id ns \<in> Some ` set (mb_colleague_ids m))"
  by (auto simp: authorize_action_def ok_simps)


lemma admin_action_role:
  "a \<in> set (ROLE_ACTIONS role) \<Longrightarrow>
     a \<in> {MANAGE_DRAFT, PROPOSE_CHANGE, DECIDE_CHANGE, APPLY_CHANGE, MANAGE_CREDENTIAL,
          MANAGE_MEMBERSHIP, MANAGE_AGENT_PACKAGES, MANAGE_DEPLOYMENTS} \<Longrightarrow>
     role = TENANT_ADMIN"
  by (cases role) auto

text \<open>C26. Administration stays with administrators: whoever is authorised to manage drafts,
  changes, credentials, memberships, agent packages or deployments, or to act on the whole
  tenant's namespace, holds the Admin role in a membership that passed its constructor.\<close>

theorem administration_needs_admin:
  assumes "membership.valid m" and "authorize_action p m a ns = Inr ()"
    and "a \<in> {MANAGE_DRAFT, PROPOSE_CHANGE, DECIDE_CHANGE, APPLY_CHANGE, MANAGE_CREDENTIAL,
          MANAGE_MEMBERSHIP, MANAGE_AGENT_PACKAGES, MANAGE_DEPLOYMENTS} \<or> ns_scope ns = TENANT"
  shows "TENANT_ADMIN \<in> set (pr_roles p)"
proof -
  from assms(2) obtain role where role: "role \<in> set (pr_roles p)" "a \<in> set (ROLE_ACTIONS role)"
    and roles: "mb_roles m = pr_roles p"
    and tenant: "ns_scope ns = TENANT \<Longrightarrow> mb_colleague_ids m = [''*'']"
    by (force simp: authorize_action_ok)
  have star: "mb_colleague_ids m = [''*''] \<Longrightarrow> TENANT_ADMIN \<in> set (mb_roles m)"
    using assms(1) by (auto simp: membership.valid_def Membership_init_def ok_simps)
  from assms(3) show ?thesis
  proof
    assume "a \<in> {MANAGE_DRAFT, PROPOSE_CHANGE, DECIDE_CHANGE, APPLY_CHANGE, MANAGE_CREDENTIAL,
          MANAGE_MEMBERSHIP, MANAGE_AGENT_PACKAGES, MANAGE_DEPLOYMENTS}"
    with role show ?thesis using admin_action_role by blast
  next
    assume "ns_scope ns = TENANT"
    with tenant star roles show ?thesis by simp
  qed
qed

definition acme_membership :: Membership where
  "acme_membership =
     \<lparr>mb_namespace = pr_namespace (acme_principal ''root'' HUMAN [TENANT_ADMIN]),
      mb_membership_id = ''m1'', mb_principal_id = ''root'', mb_roles = [TENANT_ADMIN],
      mb_colleague_ids = [''*''], mb_status = MEMBER_ACTIVE, mb_role_revision = 1,
      mb_membership_revision = 1, mb_issued_by = acme_principal ''root'' HUMAN [TENANT_ADMIN],
      mb_created_at = utc 0, mb_updated_at = utc 0, mb_correlation_id = ''c'',
      mb_causation_id = ''c'', mb_revision = 1, mb_schema_version = 1\<rparr>"

theorem administration_needs_admin_witness:
  "authorize_action (acme_principal ''root'' HUMAN [TENANT_ADMIN]) acme_membership
     MANAGE_DEPLOYMENTS acme_tenant = Inr () \<and>
   TENANT_ADMIN \<in> set (pr_roles (acme_principal ''root'' HUMAN [TENANT_ADMIN]))"
proof -
  have valid: "membership.valid acme_membership"
    by (simp add: membership.valid_def Membership_init_def acme_membership_def acme_defs ok_simps
        id_head_def id_tail_def)
  have auth: "authorize_action (acme_principal ''root'' HUMAN [TENANT_ADMIN]) acme_membership
      MANAGE_DEPLOYMENTS acme_tenant = Inr ()"
    by (simp add: authorize_action_ok acme_membership_def acme_defs all_actions_def)
  from auth administration_needs_admin [OF valid auth] show ?thesis by simp
qed

end
