(* ===== verification/Authority.thy ===== *)
theory Authority
  imports Namespaces
begin

text \<open>
  \<^verbatim>\<open>core/authority.py\<close>: the descriptive Profile, the authoritative Mandate with its grants
  and effect boundaries, the identity card projection, and the authority diff of two
  Mandate revisions.  The four record types a diff compares each have their ID field; the
  source dispatches on the class, the model passes the ID function.
\<close>

record Profile =
  pf_namespace :: Namespace
  pf_profile_id :: string
  pf_display_name :: string
  pf_description :: string
  pf_presentation :: frozen_json
  pf_revision :: int
  pf_updated_by :: Principal
  pf_updated_at :: datetime
  pf_schema_version :: int

definition Profile_init :: "Profile \<Rightarrow> Profile result" where
  "Profile_init p =
     checks
       [chk (require_schema_version (pf_schema_version p)),
        require_colleague (pf_namespace p),
        chk (require_stable_id (pf_profile_id p) ''profile_id'')]
    (bindR (require_text_default (pf_display_name p) ''display_name'') (\<lambda>display_name.
     bindR (require_text_default (pf_description p) ''description'') (\<lambda>description.
     checks
       [chk (require_revision (pf_revision p) ''revision''),
        require_same_tenant (pf_namespace p) (pr_namespace (pf_updated_by p)),
        chk (require_utc (pf_updated_at p) ''updated_at'')]
       (Inr (p\<lparr>pf_display_name := display_name, pf_description := description\<rparr>)))))"

section \<open>The parts of a Mandate\<close>

record ResponsibilityDefinition =
  rd_responsibility_id :: string
  rd_description :: string
  rd_obligations :: "string list"
  rd_completion_conditions :: "string list"

definition ResponsibilityDefinition_init ::
  "ResponsibilityDefinition \<Rightarrow> ResponsibilityDefinition result" where
  "ResponsibilityDefinition_init r =
     checks [chk (require_stable_id (rd_responsibility_id r) ''responsibility_id'')]
    (bindR (require_text_default (rd_description r) ''description'') (\<lambda>description.
     bindR (freeze_strings (rd_obligations r) ''obligations'' False) (\<lambda>obligations.
     bindR (freeze_strings (rd_completion_conditions r) ''completion_conditions'' False)
       (\<lambda>completion_conditions.
     Inr (r\<lparr>rd_description := description, rd_obligations := obligations,
            rd_completion_conditions := completion_conditions\<rparr>)))))"

record CapabilityGrant =
  cg_capability_id :: string
  cg_description :: string

definition CapabilityGrant_init :: "CapabilityGrant \<Rightarrow> CapabilityGrant result" where
  "CapabilityGrant_init r =
     checks [chk (require_stable_id (cg_capability_id r) ''capability_id'')]
    (bindR (require_text_default (cg_description r) ''description'') (\<lambda>description.
     Inr (r\<lparr>cg_description := description\<rparr>)))"

record Constraint =
  cn_constraint_id :: string
  cn_description :: string

definition Constraint_init :: "Constraint \<Rightarrow> Constraint result" where
  "Constraint_init r =
     checks [chk (require_stable_id (cn_constraint_id r) ''constraint_id'')]
    (bindR (require_text_default (cn_description r) ''description'') (\<lambda>description.
     Inr (r\<lparr>cn_description := description\<rparr>)))"

datatype EffectKind = REFERENCE_MESSAGE | INTERNAL_RECORD | NOTIFICATION

record EffectBoundary =
  eb_boundary_id :: string
  eb_effect_kind :: EffectKind
  eb_allowed_destination_kinds :: "string list"
  eb_allowed_actions :: "string list"
  eb_constraints :: frozen_json
  eb_human_approval_required :: bool

definition EffectBoundary_init :: "EffectBoundary \<Rightarrow> EffectBoundary result" where
  "EffectBoundary_init b =
     checks [chk (require_stable_id (eb_boundary_id b) ''boundary_id'')]
    (bindR (freeze_strings (eb_allowed_destination_kinds b) ''allowed_destination_kinds'' False)
       (\<lambda>allowed_destination_kinds.
     bindR (freeze_strings (eb_allowed_actions b) ''allowed_actions'' False) (\<lambda>allowed_actions.
     Inr (b\<lparr>eb_allowed_destination_kinds := allowed_destination_kinds,
            eb_allowed_actions := allowed_actions\<rparr>))))"

section \<open>The Mandate\<close>

definition freeze_unique_records :: "('a \<Rightarrow> string) \<Rightarrow> 'a list \<Rightarrow> string \<Rightarrow> 'a list result" where
  "freeze_unique_records record_identifier records field = checks
     [raise_if (records = []) (CoreInvariantError (field @ '' must not be empty'')),
      raise_if (has_dup (map record_identifier records))
        (CoreInvariantError (field @ '' must have unique IDs''))]
     (Inr records)"

record Mandate =
  md_namespace :: Namespace
  md_mandate_id :: string
  md_mission :: string
  md_service_relationship :: string
  md_responsibilities :: "ResponsibilityDefinition list"
  md_capabilities :: "CapabilityGrant list"
  md_constraints :: "Constraint list"
  md_working_context :: frozen_json
  md_effect_boundaries :: "EffectBoundary list"
  md_revision :: int
  md_issued_by :: Principal
  md_effective_at :: datetime
  md_schema_version :: int

definition Mandate_init :: "Mandate \<Rightarrow> Mandate result" where
  "Mandate_init m =
     checks
       [chk (require_schema_version (md_schema_version m)),
        require_colleague (md_namespace m),
        chk (require_stable_id (md_mandate_id m) ''mandate_id'')]
    (bindR (require_text_default (md_mission m) ''mission'') (\<lambda>mission.
     bindR (require_text_default (md_service_relationship m) ''service_relationship'')
       (\<lambda>service_relationship.
     bindR (freeze_unique_records rd_responsibility_id (md_responsibilities m) ''responsibilities'')
       (\<lambda>responsibilities.
     bindR (freeze_unique_records cg_capability_id (md_capabilities m) ''capabilities'')
       (\<lambda>capabilities.
     bindR (freeze_unique_records cn_constraint_id (md_constraints m) ''constraints'')
       (\<lambda>constraints.
     bindR (freeze_unique_records eb_boundary_id (md_effect_boundaries m) ''effect_boundaries'')
       (\<lambda>effect_boundaries.
     checks
       [chk (require_revision (md_revision m) ''revision''),
        raise_if (pr_kind (md_issued_by m) \<noteq> HUMAN)
          (AuthorizationError ''an authoritative Mandate must be issued by a human''),
        require_same_tenant (md_namespace m) (pr_namespace (md_issued_by m)),
        chk (require_utc (md_effective_at m) ''effective_at'')]
       (Inr (m\<lparr>md_mission := mission, md_service_relationship := service_relationship,
              md_responsibilities := responsibilities, md_capabilities := capabilities,
              md_constraints := constraints, md_effect_boundaries := effect_boundaries\<rparr>)))))))))"

section \<open>The identity card\<close>

record IdentityCard =
  ic_namespace :: Namespace
  ic_profile_id :: string
  ic_profile_revision :: int
  ic_display_name :: string
  ic_description :: string
  ic_mandate_id :: string
  ic_mandate_revision :: int
  ic_mission :: string
  ic_responsibility_summaries :: "string list"
  ic_capability_summaries :: "string list"
  ic_schema_version :: int

definition IdentityCard_init :: "IdentityCard \<Rightarrow> IdentityCard result" where
  "IdentityCard_init c =
     checks
       [chk (require_schema_version (ic_schema_version c)),
        require_colleague (ic_namespace c),
        chk (require_stable_id (ic_profile_id c) ''profile_id''),
        chk (require_revision (ic_profile_revision c) ''profile_revision'')]
    (bindR (require_text_default (ic_display_name c) ''display_name'') (\<lambda>display_name.
     bindR (require_text_default (ic_description c) ''description'') (\<lambda>description.
     checks
       [chk (require_stable_id (ic_mandate_id c) ''mandate_id''),
        chk (require_revision (ic_mandate_revision c) ''mandate_revision'')]
    (bindR (require_text_default (ic_mission c) ''mission'') (\<lambda>mission.
     bindR (freeze_strings (ic_responsibility_summaries c) ''responsibility_summaries'' False)
       (\<lambda>responsibility_summaries.
     bindR (freeze_strings (ic_capability_summaries c) ''capability_summaries'' False)
       (\<lambda>capability_summaries.
     Inr (c\<lparr>ic_display_name := display_name, ic_description := description,
            ic_mission := mission, ic_responsibility_summaries := responsibility_summaries,
            ic_capability_summaries := capability_summaries\<rparr>))))))))"

definition project_identity_card :: "Profile \<Rightarrow> Mandate \<Rightarrow> IdentityCard result" where
  "project_identity_card profile mandate =
     checks [require_exact (pf_namespace profile) (md_namespace mandate)]
       (IdentityCard_init \<lparr>
          ic_namespace = md_namespace mandate,
          ic_profile_id = pf_profile_id profile,
          ic_profile_revision = pf_revision profile,
          ic_display_name = pf_display_name profile,
          ic_description = pf_description profile,
          ic_mandate_id = md_mandate_id mandate,
          ic_mandate_revision = md_revision mandate,
          ic_mission = md_mission mandate,
          ic_responsibility_summaries = map rd_description (md_responsibilities mandate),
          ic_capability_summaries = map cg_description (md_capabilities mandate),
          ic_schema_version = SCHEMA_VERSION\<rparr>)"

section \<open>The authority diff\<close>

record MandateAuthorityDiff =
  df_namespace :: Namespace
  df_mandate_id :: string
  df_from_revision :: int
  df_to_revision :: int
  df_mission_changed :: bool
  df_service_relationship_changed :: bool
  df_working_context_changed :: bool
  df_responsibility_ids :: "string list \<times> string list \<times> string list"
  df_capability_ids :: "string list \<times> string list \<times> string list"
  df_constraint_ids :: "string list \<times> string list \<times> string list"
  df_effect_boundary_ids :: "string list \<times> string list \<times> string list"
  df_schema_version :: int

text \<open>
  The loop body over one prefix: the added, removed and changed IDs are frozen in this
  order, each ID is checked, and the three groups must be disjoint.
\<close>

definition freeze_ids :: "string list \<Rightarrow> string \<Rightarrow> string list result" where
  "freeze_ids raw field_name =
     bindR (freeze_strings raw field_name True) (\<lambda>identifiers.
       checks [check_all (map (\<lambda>i. chk (require_stable_id i field_name)) identifiers)]
         (Inr identifiers))"

definition freeze_diff_group ::
  "string \<Rightarrow> string list \<times> string list \<times> string list
     \<Rightarrow> (string list \<times> string list \<times> string list) result" where
  "freeze_diff_group prefix groups = (case groups of (raw_added, raw_removed, raw_changed) \<Rightarrow>
     bindR (freeze_ids raw_added (''added_'' @ prefix @ ''_ids'')) (\<lambda>added.
     bindR (freeze_ids raw_removed (''removed_'' @ prefix @ ''_ids'')) (\<lambda>removed.
     bindR (freeze_ids raw_changed (''changed_'' @ prefix @ ''_ids'')) (\<lambda>changed.
     checks
       [raise_if (set added \<inter> set removed \<noteq> {} \<or> set added \<inter> set changed \<noteq> {} \<or>
            set removed \<inter> set changed \<noteq> {})
          (CoreInvariantError (prefix @ '' diff categories must be disjoint''))]
       (Inr (added, removed, changed))))))"

definition MandateAuthorityDiff_init :: "MandateAuthorityDiff \<Rightarrow> MandateAuthorityDiff result" where
  "MandateAuthorityDiff_init d =
     checks
       [chk (require_schema_version (df_schema_version d)),
        require_colleague (df_namespace d),
        chk (require_stable_id (df_mandate_id d) ''mandate_id''),
        chk (require_revision (df_from_revision d) ''from_revision''),
        chk (require_revision (df_to_revision d) ''to_revision''),
        raise_if (df_to_revision d \<le> df_from_revision d)
          (CoreInvariantError ''authority diff requires an increasing revision'')]
    (bindR (freeze_diff_group ''responsibility'' (df_responsibility_ids d)) (\<lambda>responsibility.
     bindR (freeze_diff_group ''capability'' (df_capability_ids d)) (\<lambda>capability.
     bindR (freeze_diff_group ''constraint'' (df_constraint_ids d)) (\<lambda>constraint.
     bindR (freeze_diff_group ''effect_boundary'' (df_effect_boundary_ids d)) (\<lambda>effect_boundary.
     Inr (d\<lparr>df_responsibility_ids := responsibility, df_capability_ids := capability,
            df_constraint_ids := constraint, df_effect_boundary_ids := effect_boundary\<rparr>))))))"

text \<open>A dictionary by ID: a later record of the same ID replaces an earlier one.\<close>

definition records_by_id :: "('a \<Rightarrow> string) \<Rightarrow> 'a list \<Rightarrow> (string \<rightharpoonup> 'a)" where
  "records_by_id record_identifier records = map_of (rev (by_key record_identifier records))"

definition record_diff ::
  "('a \<Rightarrow> string) \<Rightarrow> 'a list \<Rightarrow> 'a list \<Rightarrow> string list \<times> string list \<times> string list" where
  "record_diff record_identifier before after =
     (let before_by_id = records_by_id record_identifier before;
          after_by_id = records_by_id record_identifier after;
          before_ids = remdups (map record_identifier before);
          after_ids = remdups (map record_identifier after)
      in (sort (filter (\<lambda>i. i \<notin> set before_ids) after_ids),
          sort (filter (\<lambda>i. i \<notin> set after_ids) before_ids),
          sort (filter (\<lambda>i. i \<in> set after_ids \<and> before_by_id i \<noteq> after_by_id i) before_ids)))"

definition diff_mandate_authority :: "Mandate \<Rightarrow> Mandate \<Rightarrow> MandateAuthorityDiff result" where
  "diff_mandate_authority before after =
     checks
       [require_exact (md_namespace before) (md_namespace after),
        raise_if (md_mandate_id before \<noteq> md_mandate_id after)
          (CoreInvariantError ''authority diff requires the same mandate ID''),
        raise_if (md_revision after \<le> md_revision before)
          (CoreInvariantError ''authority diff requires a newer Mandate revision'')]
       (MandateAuthorityDiff_init \<lparr>
          df_namespace = md_namespace before,
          df_mandate_id = md_mandate_id before,
          df_from_revision = md_revision before,
          df_to_revision = md_revision after,
          df_mission_changed = (md_mission before \<noteq> md_mission after),
          df_service_relationship_changed =
            (md_service_relationship before \<noteq> md_service_relationship after),
          df_working_context_changed = (md_working_context before \<noteq> md_working_context after),
          df_responsibility_ids =
            record_diff rd_responsibility_id (md_responsibilities before) (md_responsibilities after),
          df_capability_ids =
            record_diff cg_capability_id (md_capabilities before) (md_capabilities after),
          df_constraint_ids =
            record_diff cn_constraint_id (md_constraints before) (md_constraints after),
          df_effect_boundary_ids =
            record_diff eb_boundary_id (md_effect_boundaries before) (md_effect_boundaries after),
          df_schema_version = SCHEMA_VERSION\<rparr>)"

section \<open>Constructors\<close>

lemma freeze_unique_records_ok [ok_simps]:
  "freeze_unique_records k rs f = Inr rs' \<longleftrightarrow> rs' = rs \<and> rs \<noteq> [] \<and> distinct (map k rs)"
  by (auto simp: freeze_unique_records_def ok_simps)

interpretation profile: replayable Profile_init
  by unfold_locales (auto simp: Profile_init_def ok_simps)

interpretation responsibility_definition: replayable ResponsibilityDefinition_init
  by unfold_locales (auto simp: ResponsibilityDefinition_init_def ok_simps)

interpretation capability_grant: replayable CapabilityGrant_init
  by unfold_locales (auto simp: CapabilityGrant_init_def ok_simps)

interpretation constraint: replayable Constraint_init
  by unfold_locales (auto simp: Constraint_init_def ok_simps)

interpretation effect_boundary: replayable EffectBoundary_init
  by unfold_locales (auto simp: EffectBoundary_init_def ok_simps)

interpretation mandate: replayable Mandate_init
  by unfold_locales (auto simp: Mandate_init_def ok_simps)

interpretation identity_card: replayable IdentityCard_init
  by unfold_locales (auto simp: IdentityCard_init_def ok_simps)

lemma freeze_ids_ok [ok_simps]:
  "freeze_ids raw f = Inr ids \<longleftrightarrow>
     ids = map strip raw \<and> frozen_strings ids \<and> (\<forall>i \<in> set ids. matches_id i)"
  by (auto simp: freeze_ids_def ok_simps)

lemma freeze_diff_group_ok [ok_simps]:
  "freeze_diff_group p g = Inr (a, r, c) \<longleftrightarrow>
     freeze_ids (fst g) (''added_'' @ p @ ''_ids'') = Inr a \<and>
     freeze_ids (fst (snd g)) (''removed_'' @ p @ ''_ids'') = Inr r \<and>
     freeze_ids (snd (snd g)) (''changed_'' @ p @ ''_ids'') = Inr c \<and>
     set a \<inter> set r = {} \<and> set a \<inter> set c = {} \<and> set r \<inter> set c = {}"
  by (cases g) (auto simp: freeze_diff_group_def bindR_eq_Inr checks_ok check_all_ok raise_if_ok)

lemma matches_id_strip [simp]: "matches_id s \<Longrightarrow> strip s = s"
proof (rule strip_no_space)
  assume "matches_id s"
  then have "list_all id_tail s"
    by (cases s) (auto simp: id_tail_def)
  then show "list_all (\<lambda>c. \<not> py_space c) s"
    by (auto simp: list_all_iff dest: id_tail_no_space)
qed

lemma matches_id_bounded [simp]: "matches_id s \<Longrightarrow> bounded_text 4096 s"
  by (cases s) (auto simp: bounded_text_def)

end
