(* ===== verification/Runtime.thy ===== *)
theory Runtime
  imports Authority
begin

text \<open>
  \<^verbatim>\<open>core/runtime.py\<close>: events, timer occurrences, wake cycles, agenda items and decisions,
  and the check of the first links of the causal chain.
\<close>

definition validate_causal_record ::
  "Namespace \<Rightarrow> Principal \<Rightarrow> string \<Rightarrow> string option \<Rightarrow> datetime \<Rightarrow> int \<Rightarrow> int \<Rightarrow> unit result" where
  "validate_causal_record namespace actor correlation_id causation_id occurred_at revision
     schema_version = check_all
     [chk (require_schema_version schema_version),
      require_colleague namespace,
      require_same_tenant namespace (pr_namespace actor),
      chk (require_stable_id correlation_id ''correlation_id''),
      opt_chk (\<lambda>c. require_stable_id c ''causation_id'') causation_id,
      chk (require_utc occurred_at ''occurred_at''),
      chk (require_revision revision ''revision'')]"

text \<open>
  The identity-and-revision pair of a Mandate or policy binding is complete or absent.  An
  \<^verbatim>\<open>assert\<close> the first guard makes true is not a branch.
\<close>

definition require_binding :: "string \<Rightarrow> string \<Rightarrow> string \<Rightarrow> string option \<Rightarrow> int option \<Rightarrow> unit result"
  where
  "require_binding message id_field revision_field ident revision =
     (if (ident = None) \<noteq> (revision = None) then Inl (CoreInvariantError message)
      else case ident of
        None \<Rightarrow> Inr ()
      | Some i \<Rightarrow> check_all
          [chk (require_stable_id i id_field),
           opt_chk (\<lambda>r. require_revision r revision_field) revision])"

definition validate_policy_binding :: "string option \<Rightarrow> int option \<Rightarrow> unit result" where
  "validate_policy_binding =
     require_binding ''runtime policy identity must be complete'' ''policy_id'' ''policy_revision''"

definition causal_ok ::
  "Namespace \<Rightarrow> Principal \<Rightarrow> string \<Rightarrow> string option \<Rightarrow> datetime \<Rightarrow> int \<Rightarrow> int \<Rightarrow> bool" where
  "causal_ok ns actor correlation causation at revision schema \<longleftrightarrow>
     schema = 1 \<and> ns_scope ns = COLLEAGUE \<and>
     ns_tenant_id ns = ns_tenant_id (pr_namespace actor) \<and> matches_id correlation \<and>
     (case causation of None \<Rightarrow> True | Some c \<Rightarrow> matches_id c) \<and> is_utc at \<and> 1 \<le> revision"

definition binding_ok :: "string option \<Rightarrow> int option \<Rightarrow> bool" where
  "binding_ok i r \<longleftrightarrow> (i = None \<longleftrightarrow> r = None) \<and>
     (case i of None \<Rightarrow> True | Some i' \<Rightarrow> matches_id i') \<and>
     (case r of None \<Rightarrow> True | Some r' \<Rightarrow> 1 \<le> r')"

lemma validate_causal_record_ok [ok_simps]:
  "validate_causal_record ns a c k t r v = Inr u \<longleftrightarrow> causal_ok ns a c k t r v"
  by (auto simp: validate_causal_record_def causal_ok_def ok_simps split: option.splits)

lemma require_binding_ok [ok_simps]: "require_binding m f g i r = Inr u \<longleftrightarrow> binding_ok i r"
  by (auto simp: require_binding_def binding_ok_def ok_simps split: option.splits)

lemma validate_policy_binding_ok [ok_simps]: "validate_policy_binding i r = Inr u \<longleftrightarrow> binding_ok i r"
  by (simp add: validate_policy_binding_def ok_simps)

section \<open>Events and timers\<close>

datatype InputEventState = EV_RECEIVED | EV_ACCEPTED | EV_REJECTED

record InputEvent =
  ev_namespace :: Namespace
  ev_event_id :: string
  ev_event_type :: string
  ev_state :: InputEventState
  ev_safe_projection :: frozen_json
  ev_payload_digest :: string
  ev_actor :: Principal
  ev_correlation_id :: string
  ev_causation_id :: "string option"
  ev_occurred_at :: datetime
  ev_revision :: int
  ev_schema_version :: int
  ev_policy_id :: "string option"
  ev_policy_revision :: "int option"

definition InputEvent_init :: "InputEvent \<Rightarrow> InputEvent result" where
  "InputEvent_init e =
     checks [chk (require_stable_id (ev_event_id e) ''event_id'')]
    (bindR (require_stable_id (ev_event_type e) ''event_type'') (\<lambda>event_type.
     checks
       [chk (require_digest (ev_payload_digest e) ''payload_digest''),
        validate_causal_record (ev_namespace e) (ev_actor e) (ev_correlation_id e)
          (ev_causation_id e) (ev_occurred_at e) (ev_revision e) (ev_schema_version e),
        validate_policy_binding (ev_policy_id e) (ev_policy_revision e)]
       (Inr (e\<lparr>ev_event_type := event_type\<rparr>))))"

datatype TimerOccurrenceState = TM_SCHEDULED | TM_DUE

record TimerOccurrence =
  tm_namespace :: Namespace
  tm_timer_id :: string
  tm_occurrence_id :: string
  tm_state :: TimerOccurrenceState
  tm_due_at :: datetime
  tm_safe_projection :: frozen_json
  tm_actor :: Principal
  tm_correlation_id :: string
  tm_causation_id :: "string option"
  tm_occurred_at :: datetime
  tm_revision :: int
  tm_schema_version :: int
  tm_policy_id :: "string option"
  tm_policy_revision :: "int option"

definition TimerOccurrence_init :: "TimerOccurrence \<Rightarrow> TimerOccurrence result" where
  "TimerOccurrence_init t = checks
     [chk (require_stable_id (tm_timer_id t) ''timer_id''),
      chk (require_stable_id (tm_occurrence_id t) ''occurrence_id''),
      chk (require_utc (tm_due_at t) ''due_at''),
      validate_causal_record (tm_namespace t) (tm_actor t) (tm_correlation_id t)
        (tm_causation_id t) (tm_occurred_at t) (tm_revision t) (tm_schema_version t),
      validate_policy_binding (tm_policy_id t) (tm_policy_revision t)]
     (Inr t)"

section \<open>Wake cycles\<close>

datatype WakeCycleState = WK_PLANNED | WK_RUNNING | WK_COMPLETED | WK_FAILED | WK_CANCELLED

record WakeCycle =
  wk_namespace :: Namespace
  wk_wake_cycle_id :: string
  wk_state :: WakeCycleState
  wk_trigger_event_ids :: "string list"
  wk_agenda_item_ids :: "string list"
  wk_actor :: Principal
  wk_correlation_id :: string
  wk_causation_id :: "string option"
  wk_occurred_at :: datetime
  wk_revision :: int
  wk_schema_version :: int
  wk_fencing_token :: int
  wk_checkpoint_generation :: int
  wk_trigger_timer_occurrence_ids :: "string list"
  wk_policy_id :: "string option"
  wk_policy_revision :: "int option"

definition WakeCycle_init :: "WakeCycle \<Rightarrow> WakeCycle result" where
  "WakeCycle_init w =
     checks [chk (require_stable_id (wk_wake_cycle_id w) ''wake_cycle_id'')]
    (bindR (freeze_strings (wk_trigger_event_ids w) ''trigger_event_ids'' True) (\<lambda>trigger_ids.
     bindR (freeze_strings (wk_trigger_timer_occurrence_ids w) ''trigger_timer_occurrence_ids'' True)
       (\<lambda>timer_ids.
     checks [raise_if (trigger_ids = [] \<and> timer_ids = [])
       (CoreInvariantError ''wake cycle requires an event or timer occurrence'')]
    (bindR (freeze_strings (wk_agenda_item_ids w) ''agenda_item_ids'' True) (\<lambda>agenda_ids.
     checks
       [check_all (map (\<lambda>i. chk (require_stable_id i ''causal record ID''))
          (trigger_ids @ timer_ids @ agenda_ids)),
        validate_causal_record (wk_namespace w) (wk_actor w) (wk_correlation_id w)
          (wk_causation_id w) (wk_occurred_at w) (wk_revision w) (wk_schema_version w),
        raise_if (wk_causation_id w \<notin> Some ` set (trigger_ids @ timer_ids))
          (CoreInvariantError ''wake cycle causation must name one trigger source''),
        chk (require_revision (wk_fencing_token w) ''fencing_token''),
        chk (require_revision (wk_checkpoint_generation w) ''checkpoint_generation''),
        validate_policy_binding (wk_policy_id w) (wk_policy_revision w)]
       (Inr (w\<lparr>wk_trigger_event_ids := trigger_ids,
              wk_trigger_timer_occurrence_ids := timer_ids,
              wk_agenda_item_ids := agenda_ids\<rparr>)))))))"

section \<open>Agenda items\<close>

datatype AgendaItemState = AG_PENDING | AG_SELECTED | AG_COMPLETED | AG_DEFERRED | AG_CANCELLED

record AgendaItem =
  ag_namespace :: Namespace
  ag_agenda_item_id :: string
  ag_wake_cycle_id :: string
  ag_source_event_id :: "string option"
  ag_work_id :: "string option"
  ag_title :: string
  ag_state :: AgendaItemState
  ag_priority :: int
  ag_due_at :: "datetime option"
  ag_actor :: Principal
  ag_correlation_id :: string
  ag_causation_id :: string
  ag_occurred_at :: datetime
  ag_revision :: int
  ag_schema_version :: int
  ag_generation :: int
  ag_handled_generation :: int
  ag_cause_ids :: "string list"
  ag_source_timer_occurrence_id :: "string option"
  ag_policy_id :: "string option"
  ag_policy_revision :: "int option"

text \<open>
  The source ID is the event's or the timer occurrence's; exactly one is present once the
  first guard has passed.  Empty \<^verbatim>\<open>cause_ids\<close> default to it.
\<close>

definition AgendaItem_init :: "AgendaItem \<Rightarrow> AgendaItem result" where
  "AgendaItem_init a =
     checks
       [chk (require_stable_id (ag_agenda_item_id a) ''agenda_item_id''),
        chk (require_stable_id (ag_wake_cycle_id a) ''wake_cycle_id''),
        raise_if ((ag_source_event_id a = None) = (ag_source_timer_occurrence_id a = None))
          (CoreInvariantError ''Agenda must name exactly one event or timer source''),
        opt_chk (\<lambda>i. require_stable_id i ''source_event_id'') (ag_source_event_id a),
        opt_chk (\<lambda>i. require_stable_id i ''source_timer_occurrence_id'')
          (ag_source_timer_occurrence_id a),
        opt_chk (\<lambda>i. require_stable_id i ''work_id'') (ag_work_id a)]
    (bindR (require_text_default (ag_title a) ''title'') (\<lambda>title.
     checks
       [raise_if (\<not> (0 \<le> ag_priority a \<and> ag_priority a \<le> 1000))
          (CoreInvariantError ''agenda priority must be an integer from 0 through 1000''),
        opt_chk (\<lambda>d. require_utc d ''due_at'') (ag_due_at a),
        validate_causal_record (ag_namespace a) (ag_actor a) (ag_correlation_id a)
          (Some (ag_causation_id a)) (ag_occurred_at a) (ag_revision a) (ag_schema_version a),
        raise_if (ag_causation_id a \<noteq> ag_wake_cycle_id a)
          (CoreInvariantError ''agenda item causation must name its wake cycle''),
        chk (require_revision (ag_generation a) ''generation''),
        raise_if (\<not> (0 \<le> ag_handled_generation a \<and> ag_handled_generation a \<le> ag_generation a))
          (CoreInvariantError ''handled_generation must be within the Agenda generation'')]
    (let source_id = (case ag_source_event_id a of
           Some i \<Rightarrow> i
         | None \<Rightarrow> (case ag_source_timer_occurrence_id a of Some i \<Rightarrow> i | None \<Rightarrow> []));
         causes = (if ag_cause_ids a = [] then [source_id] else ag_cause_ids a)
     in bindR (freeze_strings causes ''cause_ids'' False) (\<lambda>causes'.
        checks
          [check_all (map (\<lambda>i. chk (require_stable_id i ''cause_id'')) causes'),
           raise_if (source_id \<notin> set causes')
             (CoreInvariantError ''Agenda causes must retain the trigger source''),
           validate_policy_binding (ag_policy_id a) (ag_policy_revision a)]
          (Inr (a\<lparr>ag_title := title, ag_cause_ids := causes'\<rparr>))))))"

text \<open>
  The sort key of an agenda item.  The source's third component is the ISO text of the due
  time, whose order is the order of the instants; the model compares the instants.
\<close>

definition agenda_order_key :: "AgendaItem \<Rightarrow> int \<times> int \<times> int \<times> string" where
  "agenda_order_key item =
     (- ag_priority item,
      (case ag_due_at item of Some _ \<Rightarrow> 0 | None \<Rightarrow> 1),
      (case ag_due_at item of Some d \<Rightarrow> micros d | None \<Rightarrow> 0),
      ag_agenda_item_id item)"

section \<open>Decisions\<close>

datatype DecisionKind = PROPOSE_EFFECT | COMPLETE_ITEM | DEFER_ITEM | NO_ACTION

record Decision =
  dc_namespace :: Namespace
  dc_decision_id :: string
  dc_wake_cycle_id :: string
  dc_agenda_item_id :: string
  dc_kind :: DecisionKind
  dc_rationale :: string
  dc_proposed_effect_id :: "string option"
  dc_actor :: Principal
  dc_correlation_id :: string
  dc_causation_id :: string
  dc_occurred_at :: datetime
  dc_revision :: int
  dc_schema_version :: int
  dc_policy_id :: "string option"
  dc_policy_revision :: "int option"

definition Decision_init :: "Decision \<Rightarrow> Decision result" where
  "Decision_init d =
     checks
       [chk (require_stable_id (dc_decision_id d) ''decision_id''),
        chk (require_stable_id (dc_wake_cycle_id d) ''wake_cycle_id''),
        chk (require_stable_id (dc_agenda_item_id d) ''agenda_item_id'')]
    (bindR (require_text (dc_rationale d) ''rationale'' 2048) (\<lambda>rationale.
     checks
       [opt_chk (\<lambda>i. require_stable_id i ''proposed_effect_id'') (dc_proposed_effect_id d),
        raise_if ((dc_kind d = PROPOSE_EFFECT) \<noteq> (dc_proposed_effect_id d \<noteq> None))
          (CoreInvariantError ''effect decision must name exactly one proposed effect''),
        validate_causal_record (dc_namespace d) (dc_actor d) (dc_correlation_id d)
          (Some (dc_causation_id d)) (dc_occurred_at d) (dc_revision d) (dc_schema_version d),
        raise_if (dc_causation_id d \<noteq> dc_agenda_item_id d)
          (CoreInvariantError ''decision causation must name its agenda item''),
        validate_policy_binding (dc_policy_id d) (dc_policy_revision d)]
       (Inr (d\<lparr>dc_rationale := rationale\<rparr>))))"

definition validate_event_wake_agenda_chain ::
  "InputEvent \<Rightarrow> WakeCycle \<Rightarrow> AgendaItem \<Rightarrow> unit result" where
  "validate_event_wake_agenda_chain event wake_cycle agenda_item = check_all
     [require_exact (ev_namespace event) (wk_namespace wake_cycle),
      require_exact (ev_namespace event) (ag_namespace agenda_item),
      raise_if (length (remdups [ev_correlation_id event, wk_correlation_id wake_cycle,
          ag_correlation_id agenda_item]) \<noteq> 1)
        (NamespaceMismatchError ''causal chain correlation mismatch''),
      raise_if (wk_causation_id wake_cycle \<noteq> Some (ev_event_id event))
        (CoreInvariantError ''wake cycle does not cite the input event''),
      raise_if (ag_wake_cycle_id agenda_item \<noteq> wk_wake_cycle_id wake_cycle)
        (CoreInvariantError ''agenda item does not cite the wake cycle''),
      raise_if (ag_source_event_id agenda_item \<noteq> Some (ev_event_id event))
        (CoreInvariantError ''agenda item does not cite the input event'')]"

section \<open>Constructors\<close>

interpretation input_event: replayable InputEvent_init
  by unfold_locales (auto simp: InputEvent_init_def ok_simps)

interpretation timer_occurrence: replayable TimerOccurrence_init
  by unfold_locales (auto simp: TimerOccurrence_init_def ok_simps)

interpretation wake_cycle: replayable WakeCycle_init
  by unfold_locales (auto simp: WakeCycle_init_def ok_simps)

interpretation agenda_item: replayable AgendaItem_init
  by unfold_locales
    (auto simp: AgendaItem_init_def Let_def ok_simps split: if_splits option.splits)

interpretation decision: replayable Decision_init
  by unfold_locales (auto simp: Decision_init_def ok_simps)

end
