(* ===== verification/Effects.thy ===== *)
theory Effects
  imports Runtime Digests
begin

text \<open>
  \<^verbatim>\<open>core/effects.py\<close> and \<^verbatim>\<open>core/audit.py\<close>: fully specified effect proposals with their
  payload and proposal digests, human approval decisions, effect attempts, action results,
  and the check of the whole causal chain.
\<close>

section \<open>Envelopes\<close>

fun NamespaceScope_value :: "NamespaceScope \<Rightarrow> string" where
  "NamespaceScope_value TENANT = ''tenant''"
| "NamespaceScope_value COLLEAGUE = ''colleague''"
| "NamespaceScope_value PRINCIPAL = ''principal''"

fun PrincipalKind_value :: "PrincipalKind \<Rightarrow> string" where
  "PrincipalKind_value HUMAN = ''human''"
| "PrincipalKind_value MODEL = ''model''"
| "PrincipalKind_value SERVICE = ''service''"

fun EffectKind_value :: "EffectKind \<Rightarrow> string" where
  "EffectKind_value REFERENCE_MESSAGE = ''reference_message''"
| "EffectKind_value INTERNAL_RECORD = ''internal_record''"
| "EffectKind_value NOTIFICATION = ''notification''"

definition opt_json :: "('a \<Rightarrow> json) \<Rightarrow> 'a option \<Rightarrow> json" where
  "opt_json f v = (case v of None \<Rightarrow> JNull | Some x \<Rightarrow> f x)"

definition namespace_envelope :: "Namespace \<Rightarrow> json" where
  "namespace_envelope ns = JObj
     [(''scope'', JStr (NamespaceScope_value (ns_scope ns))),
      (''scope_id'', opt_json JStr (ns_scope_id ns)),
      (''tenant_id'', JStr (ns_tenant_id ns))]"

definition principal_envelope :: "Principal \<Rightarrow> json" where
  "principal_envelope p = JObj
     [(''kind'', JStr (PrincipalKind_value (pr_kind p))),
      (''namespace'', namespace_envelope (pr_namespace p)),
      (''principal_id'', JStr (pr_principal_id p)),
      (''revision'', JInt (pr_revision p)),
      (''roles'', JList (map JStr (sort (map HumanRole_value (pr_roles p))))),
      (''schema_version'', JInt (pr_schema_version p))]"

section \<open>Effect proposals\<close>

record EffectDestination =
  ed_kind :: string
  ed_target :: string

definition EffectDestination_init :: "EffectDestination \<Rightarrow> EffectDestination result" where
  "EffectDestination_init d =
     bindR (require_stable_id (ed_kind d) ''destination kind'') (\<lambda>kind.
     bindR (require_text (ed_target d) ''destination target'' 512) (\<lambda>target.
     Inr (d\<lparr>ed_kind := kind, ed_target := target\<rparr>)))"

record EffectConstraints =
  ec_boundary_id :: string
  ec_idempotency_key :: string
  ec_valid_until :: datetime
  ec_maximum_attempts :: int
  ec_parameters :: frozen_json

definition EffectConstraints_init :: "EffectConstraints \<Rightarrow> EffectConstraints result" where
  "EffectConstraints_init c = checks
     [chk (require_stable_id (ec_boundary_id c) ''boundary_id''),
      chk (require_stable_id (ec_idempotency_key c) ''idempotency_key''),
      chk (require_utc (ec_valid_until c) ''valid_until''),
      raise_if (ec_maximum_attempts c < 1)
        (CoreInvariantError ''maximum_attempts must be a positive integer'')]
     (Inr c)"

datatype EffectProposalState = EP_PENDING_APPROVAL | EP_APPROVED | EP_REJECTED | EP_EXPIRED

fun EffectProposalState_value :: "EffectProposalState \<Rightarrow> string" where
  "EffectProposalState_value EP_PENDING_APPROVAL = ''pending_approval''"
| "EffectProposalState_value EP_APPROVED = ''approved''"
| "EffectProposalState_value EP_REJECTED = ''rejected''"
| "EffectProposalState_value EP_EXPIRED = ''expired''"

text \<open>The last two fields are computed by the constructor (\<^verbatim>\<open>field(init=False)\<close>).\<close>

record EffectProposal =
  ep_namespace :: Namespace
  ep_proposal_id :: string
  ep_decision_id :: string
  ep_effect_kind :: EffectKind
  ep_destination :: EffectDestination
  ep_action :: string
  ep_payload :: frozen_json
  ep_safe_projection :: frozen_json
  ep_constraints :: EffectConstraints
  ep_state :: EffectProposalState
  ep_actor :: Principal
  ep_correlation_id :: string
  ep_causation_id :: string
  ep_occurred_at :: datetime
  ep_revision :: int
  ep_schema_version :: int
  ep_mandate_id :: "string option"
  ep_mandate_revision :: "int option"
  ep_policy_id :: "string option"
  ep_policy_revision :: "int option"
  ep_payload_digest :: string
  ep_proposal_digest :: string

definition proposal_envelope :: "EffectProposal \<Rightarrow> json" where
  "proposal_envelope p = JObj
     [(''action'', JStr (ep_action p)),
      (''actor'', principal_envelope (ep_actor p)),
      (''causation_id'', JStr (ep_causation_id p)),
      (''constraints'', JObj
         [(''boundary_id'', JStr (ec_boundary_id (ep_constraints p))),
          (''idempotency_key'', JStr (ec_idempotency_key (ep_constraints p))),
          (''maximum_attempts'', JInt (ec_maximum_attempts (ep_constraints p))),
          (''parameters'', JObj (ec_parameters (ep_constraints p))),
          (''valid_until'', JStr (datetime_to_canonical_z (ec_valid_until (ep_constraints p))))]),
      (''correlation_id'', JStr (ep_correlation_id p)),
      (''decision_id'', JStr (ep_decision_id p)),
      (''destination'', JObj
         [(''kind'', JStr (ed_kind (ep_destination p))),
          (''target'', JStr (ed_target (ep_destination p)))]),
      (''digest_schema_version'', JInt 1),
      (''effect_kind'', JStr (EffectKind_value (ep_effect_kind p))),
      (''mandate_id'', opt_json JStr (ep_mandate_id p)),
      (''mandate_revision'', opt_json JInt (ep_mandate_revision p)),
      (''namespace'', namespace_envelope (ep_namespace p)),
      (''occurred_at'', JStr (datetime_to_canonical_z (ep_occurred_at p))),
      (''policy_id'', opt_json JStr (ep_policy_id p)),
      (''policy_revision'', opt_json JInt (ep_policy_revision p)),
      (''payload_digest'', JStr (payload_digest (ep_payload p))),
      (''proposal_id'', JStr (ep_proposal_id p)),
      (''proposal_revision'', JInt (ep_revision p)),
      (''safe_projection'', JObj (ep_safe_projection p)),
      (''schema_version'', JInt (ep_schema_version p)),
      (''state'', JStr (EffectProposalState_value (ep_state p)))]"

definition EffectProposal_init :: "EffectProposal \<Rightarrow> EffectProposal result" where
  "EffectProposal_init p =
     checks
       [chk (require_stable_id (ep_proposal_id p) ''proposal_id''),
        chk (require_stable_id (ep_decision_id p) ''decision_id''),
        chk (require_stable_id (ep_action p) ''effect action''),
        raise_if (ep_payload p = [])
          (CoreInvariantError ''effect payload must be a non-empty immutable object''),
        raise_if (ep_safe_projection p = [])
          (CoreInvariantError ''effect safe projection must be non-empty and immutable''),
        validate_causal_record (ep_namespace p) (ep_actor p) (ep_correlation_id p)
          (Some (ep_causation_id p)) (ep_occurred_at p) (ep_revision p) (ep_schema_version p),
        raise_if (ep_causation_id p \<noteq> ep_decision_id p)
          (CoreInvariantError ''effect proposal causation must name its decision''),
        raise_if (ec_valid_until (ep_constraints p) \<le> ep_occurred_at p)
          (CoreInvariantError ''effect proposal must expire after it is proposed''),
        require_binding ''proposal mandate identity must be complete'' ''mandate_id''
          ''mandate_revision'' (ep_mandate_id p) (ep_mandate_revision p),
        require_binding ''proposal policy identity must be complete'' ''policy_id''
          ''policy_revision'' (ep_policy_id p) (ep_policy_revision p)]
       (Inr (p\<lparr>ep_payload_digest := payload_digest (ep_payload p),
              ep_proposal_digest := canonical_digest (proposal_envelope p)\<rparr>))"

section \<open>Approval decisions, attempts and results\<close>

datatype ApprovalChoice = APPROVE | REJECT

record HumanApprovalDecision =
  ha_namespace :: Namespace
  ha_approval_decision_id :: string
  ha_proposal_id :: string
  ha_proposal_revision :: int
  ha_proposal_payload_digest :: string
  ha_proposal_digest :: string
  ha_choice :: ApprovalChoice
  ha_author :: Principal
  ha_idempotency_key :: string
  ha_correlation_id :: string
  ha_causation_id :: string
  ha_occurred_at :: datetime
  ha_valid_until :: datetime
  ha_revision :: int
  ha_schema_version :: int

definition HumanApprovalDecision_init ::
  "HumanApprovalDecision \<Rightarrow> HumanApprovalDecision result" where
  "HumanApprovalDecision_init d = checks
     [chk (require_stable_id (ha_approval_decision_id d) ''approval_decision_id''),
      chk (require_stable_id (ha_proposal_id d) ''proposal_id''),
      chk (require_revision (ha_proposal_revision d) ''proposal_revision''),
      chk (require_digest (ha_proposal_payload_digest d) ''proposal_payload_digest''),
      chk (require_digest (ha_proposal_digest d) ''proposal_digest''),
      raise_if (pr_kind (ha_author d) \<noteq> HUMAN)
        (AuthorizationError ''only a durable human principal may author approval''),
      chk (require_stable_id (ha_idempotency_key d) ''idempotency_key''),
      validate_causal_record (ha_namespace d) (ha_author d) (ha_correlation_id d)
        (Some (ha_causation_id d)) (ha_occurred_at d) (ha_revision d) (ha_schema_version d),
      raise_if (ha_causation_id d \<noteq> ha_proposal_id d)
        (CoreInvariantError ''approval causation must name its proposal''),
      chk (require_utc (ha_valid_until d) ''valid_until''),
      raise_if (ha_valid_until d < ha_occurred_at d)
        (CoreInvariantError ''approval validity cannot end before its decision time'')]
     (Inr d)"

datatype EffectAttemptState = EA_PLANNED | EA_STARTED | EA_SUCCEEDED | EA_FAILED | EA_AMBIGUOUS

record EffectAttempt =
  ea_namespace :: Namespace
  ea_effect_attempt_id :: string
  ea_proposal_id :: string
  ea_proposal_revision :: int
  ea_approval_decision_id :: string
  ea_attempt_number :: int
  ea_state :: EffectAttemptState
  ea_actor :: Principal
  ea_correlation_id :: string
  ea_causation_id :: string
  ea_occurred_at :: datetime
  ea_revision :: int
  ea_schema_version :: int

definition EffectAttempt_init :: "EffectAttempt \<Rightarrow> EffectAttempt result" where
  "EffectAttempt_init a = checks
     [chk (require_stable_id (ea_effect_attempt_id a) ''effect_attempt_id''),
      chk (require_stable_id (ea_proposal_id a) ''proposal_id''),
      chk (require_revision (ea_proposal_revision a) ''proposal_revision''),
      chk (require_stable_id (ea_approval_decision_id a) ''approval_decision_id''),
      raise_if (ea_attempt_number a < 1) (CoreInvariantError ''attempt_number must be positive''),
      validate_causal_record (ea_namespace a) (ea_actor a) (ea_correlation_id a)
        (Some (ea_causation_id a)) (ea_occurred_at a) (ea_revision a) (ea_schema_version a),
      raise_if (ea_causation_id a \<noteq> ea_approval_decision_id a)
        (CoreInvariantError ''effect attempt causation must name its approval decision'')]
     (Inr a)"

datatype ActionResultState =
  AR_SUCCEEDED | AR_FAILED | AR_NOT_EXECUTED | AR_RETRYABLE_FAILURE | AR_PERMANENT_FAILURE
  | AR_AMBIGUOUS

record ActionResult =
  ar_namespace :: Namespace
  ar_action_result_id :: string
  ar_effect_attempt_id :: string
  ar_state :: ActionResultState
  ar_safe_projection :: frozen_json
  ar_result_digest :: string
  ar_actor :: Principal
  ar_correlation_id :: string
  ar_causation_id :: string
  ar_occurred_at :: datetime
  ar_revision :: int
  ar_schema_version :: int

definition ActionResult_init :: "ActionResult \<Rightarrow> ActionResult result" where
  "ActionResult_init a = checks
     [chk (require_stable_id (ar_action_result_id a) ''action_result_id''),
      chk (require_stable_id (ar_effect_attempt_id a) ''effect_attempt_id''),
      chk (require_digest (ar_result_digest a) ''result_digest''),
      validate_causal_record (ar_namespace a) (ar_actor a) (ar_correlation_id a)
        (Some (ar_causation_id a)) (ar_occurred_at a) (ar_revision a) (ar_schema_version a),
      raise_if (ar_causation_id a \<noteq> ar_effect_attempt_id a)
        (CoreInvariantError ''action result causation must name its effect attempt'')]
     (Inr a)"

section \<open>The causal audit chain\<close>

text \<open>The loop over the seven records checks namespace and correlation of each.\<close>

definition validate_causal_audit_chain ::
  "InputEvent \<Rightarrow> WakeCycle \<Rightarrow> AgendaItem \<Rightarrow> Decision \<Rightarrow> EffectProposal
     \<Rightarrow> HumanApprovalDecision \<Rightarrow> EffectAttempt \<Rightarrow> ActionResult \<Rightarrow> unit result" where
  "validate_causal_audit_chain event wake_cycle agenda_item decision proposal approval attempt
     result = checks
     [validate_event_wake_agenda_chain event wake_cycle agenda_item,
      check_all (map (\<lambda>(ns, correlation). check_all
          [require_exact (ev_namespace event) ns,
           raise_if (correlation \<noteq> ev_correlation_id event)
             (CoreInvariantError ''causal audit correlation mismatch'')])
        [(wk_namespace wake_cycle, wk_correlation_id wake_cycle),
         (ag_namespace agenda_item, ag_correlation_id agenda_item),
         (dc_namespace decision, dc_correlation_id decision),
         (ep_namespace proposal, ep_correlation_id proposal),
         (ha_namespace approval, ha_correlation_id approval),
         (ea_namespace attempt, ea_correlation_id attempt),
         (ar_namespace result, ar_correlation_id result)]),
      raise_if (dc_wake_cycle_id decision \<noteq> wk_wake_cycle_id wake_cycle)
        (CoreInvariantError ''decision does not cite the wake cycle''),
      raise_if (dc_agenda_item_id decision \<noteq> ag_agenda_item_id agenda_item)
        (CoreInvariantError ''decision does not cite the agenda item''),
      raise_if (ep_decision_id proposal \<noteq> dc_decision_id decision)
        (CoreInvariantError ''proposal does not cite the decision''),
      raise_if (dc_proposed_effect_id decision \<noteq> Some (ep_proposal_id proposal))
        (CoreInvariantError ''decision does not cite the proposal''),
      raise_if (ha_proposal_id approval \<noteq> ep_proposal_id proposal)
        (CoreInvariantError ''approval does not cite the proposal''),
      raise_if (ha_proposal_revision approval \<noteq> ep_revision proposal)
        (CoreInvariantError ''approval does not cite the proposal revision''),
      raise_if (ha_proposal_payload_digest approval \<noteq> ep_payload_digest proposal)
        (CoreInvariantError ''approval does not cite the immutable proposal payload''),
      raise_if (ha_proposal_digest approval \<noteq> ep_proposal_digest proposal)
        (CoreInvariantError ''approval does not cite the complete immutable proposal''),
      raise_if (ea_proposal_id attempt \<noteq> ep_proposal_id proposal)
        (CoreInvariantError ''effect attempt does not cite the proposal''),
      raise_if (ea_proposal_revision attempt \<noteq> ep_revision proposal)
        (CoreInvariantError ''effect attempt does not cite the proposal revision''),
      raise_if (ea_approval_decision_id attempt \<noteq> ha_approval_decision_id approval)
        (CoreInvariantError ''effect attempt does not cite the approval''),
      raise_if (ar_effect_attempt_id result \<noteq> ea_effect_attempt_id attempt)
        (CoreInvariantError ''action result does not cite the effect attempt'')]
     (Inr ())"

section \<open>Constructors\<close>

interpretation effect_destination: replayable EffectDestination_init
  by unfold_locales (auto simp: EffectDestination_init_def ok_simps)

interpretation effect_constraints: replayable EffectConstraints_init
  by unfold_locales (auto simp: EffectConstraints_init_def ok_simps)

lemma proposal_envelope_digests [simp]:
  "proposal_envelope (p\<lparr>ep_payload_digest := x, ep_proposal_digest := y\<rparr>) = proposal_envelope p"
  by (simp add: proposal_envelope_def)

interpretation effect_proposal: replayable EffectProposal_init
  by unfold_locales (auto simp: EffectProposal_init_def ok_simps)

interpretation human_approval_decision: replayable HumanApprovalDecision_init
  by unfold_locales (auto simp: HumanApprovalDecision_init_def ok_simps)

interpretation effect_attempt: replayable EffectAttempt_init
  by unfold_locales (auto simp: EffectAttempt_init_def ok_simps)

interpretation action_result: replayable ActionResult_init
  by unfold_locales (auto simp: ActionResult_init_def ok_simps)

end
