(* ===== verification/Contracts.thy ===== *)
theory Contracts
  imports Effects
begin

text \<open>
  \<^verbatim>\<open>application/contracts.py\<close>: the values the services, the store and the adapters exchange,
  with their constructors.
\<close>

definition require_policy_binding :: "string option \<Rightarrow> int option \<Rightarrow> unit result" where
  "require_policy_binding policy_id policy_revision =
     (if (policy_id = None) \<noteq> (policy_revision = None)
      then Inl (ValueError ''policy binding must be complete'')
      else check_all
        [opt_chk (\<lambda>i. require_stable_id i ''policy_id'') policy_id,
         opt_chk (\<lambda>r. require_revision r ''policy_revision'') policy_revision])"

lemma require_policy_binding_ok [ok_simps]:
  "require_policy_binding i r = Inr u \<longleftrightarrow> binding_ok i r"
  by (auto simp: require_policy_binding_def binding_ok_def ok_simps split: option.splits)

section \<open>Requests\<close>

record RequestPrincipalContext =
  rc_namespace :: Namespace
  rc_principal :: Principal
  rc_schema_version :: int

definition RequestPrincipalContext_init ::
  "RequestPrincipalContext \<Rightarrow> RequestPrincipalContext result" where
  "RequestPrincipalContext_init c = checks
     [chk (require_schema_version (rc_schema_version c)),
      require_colleague (rc_namespace c),
      require_same_tenant (rc_namespace c) (pr_namespace (rc_principal c))]
     (Inr c)"

record InputEventRequest =
  ir_event_id :: string
  ir_event_type :: string
  ir_safe_projection :: frozen_json
  ir_payload_digest :: string
  ir_correlation_id :: string
  ir_causation_id :: "string option"
  ir_schema_version :: int
  ir_policy_id :: "string option"
  ir_policy_revision :: "int option"

definition InputEventRequest_init :: "InputEventRequest \<Rightarrow> InputEventRequest result" where
  "InputEventRequest_init r = checks
     [chk (require_schema_version (ir_schema_version r)),
      chk (require_stable_id (ir_event_id r) ''event_id''),
      chk (require_stable_id (ir_event_type r) ''event_type''),
      chk (require_digest (ir_payload_digest r) ''payload_digest''),
      chk (require_stable_id (ir_correlation_id r) ''correlation_id''),
      opt_chk (\<lambda>i. require_stable_id i ''causation_id'') (ir_causation_id r),
      require_policy_binding (ir_policy_id r) (ir_policy_revision r)]
     (Inr r)"

record ApprovalRequest =
  aq_approval_decision_id :: string
  aq_proposal_id :: string
  aq_proposal_revision :: int
  aq_proposal_payload_digest :: string
  aq_proposal_digest :: string
  aq_choice :: ApprovalChoice
  aq_idempotency_key :: string
  aq_schema_version :: int

definition ApprovalRequest_init :: "ApprovalRequest \<Rightarrow> ApprovalRequest result" where
  "ApprovalRequest_init r = checks
     [chk (require_schema_version (aq_schema_version r)),
      chk (require_stable_id (aq_approval_decision_id r) ''approval_decision_id''),
      chk (require_stable_id (aq_proposal_id r) ''proposal_id''),
      chk (require_revision (aq_proposal_revision r) ''proposal_revision''),
      chk (require_digest (aq_proposal_payload_digest r) ''proposal_payload_digest''),
      chk (require_digest (aq_proposal_digest r) ''proposal_digest''),
      chk (require_stable_id (aq_idempotency_key r) ''idempotency_key'')]
     (Inr r)"

record TimerScheduleRequest =
  tq_timer_id :: string
  tq_occurrence_id :: string
  tq_due_at :: datetime
  tq_safe_projection :: frozen_json
  tq_correlation_id :: string
  tq_causation_id :: "string option"
  tq_idempotency_key :: string
  tq_schema_version :: int
  tq_policy_id :: "string option"
  tq_policy_revision :: "int option"

definition TimerScheduleRequest_init :: "TimerScheduleRequest \<Rightarrow> TimerScheduleRequest result" where
  "TimerScheduleRequest_init r = checks
     [chk (require_schema_version (tq_schema_version r)),
      chk (require_stable_id (tq_timer_id r) ''timer_id''),
      chk (require_stable_id (tq_occurrence_id r) ''occurrence_id''),
      chk (require_utc (tq_due_at r) ''due_at''),
      chk (require_stable_id (tq_correlation_id r) ''correlation_id''),
      opt_chk (\<lambda>i. require_stable_id i ''causation_id'') (tq_causation_id r),
      chk (require_stable_id (tq_idempotency_key r) ''idempotency_key''),
      require_policy_binding (tq_policy_id r) (tq_policy_revision r)]
     (Inr r)"

section \<open>Claims\<close>

record TriggerClaim =
  tc_namespace :: Namespace
  tc_trigger_id :: string
  tc_source_record_type :: string
  tc_source_id :: string
  tc_trigger_kind :: string
  tc_lease_owner :: string
  tc_lease_until :: datetime
  tc_fencing_token :: int
  tc_correlation_id :: string
  tc_causation_id :: string
  tc_schema_version :: int

definition TriggerClaim_init :: "TriggerClaim \<Rightarrow> TriggerClaim result" where
  "TriggerClaim_init c = checks
     [chk (require_schema_version (tc_schema_version c)),
      require_colleague (tc_namespace c),
      check_all (map (\<lambda>(value, field). chk (require_stable_id value field))
        [(tc_trigger_id c, ''trigger_id''), (tc_source_record_type c, ''source_record_type''),
         (tc_source_id c, ''source_id''), (tc_trigger_kind c, ''trigger_kind''),
         (tc_lease_owner c, ''lease_owner''), (tc_correlation_id c, ''correlation_id''),
         (tc_causation_id c, ''causation_id'')]),
      chk (require_utc (tc_lease_until c) ''lease_until''),
      chk (require_revision (tc_fencing_token c) ''fencing_token'')]
     (Inr c)"

record AgendaClaim =
  gl_namespace :: Namespace
  gl_agenda_item :: AgendaItem
  gl_lease_owner :: string
  gl_lease_until :: datetime
  gl_fencing_token :: int
  gl_claimed_generation :: int
  gl_schema_version :: int

definition AgendaClaim_init :: "AgendaClaim \<Rightarrow> AgendaClaim result" where
  "AgendaClaim_init c = checks
     [chk (require_schema_version (gl_schema_version c)),
      require_exact (gl_namespace c) (ag_namespace (gl_agenda_item c)),
      chk (require_stable_id (gl_lease_owner c) ''lease_owner''),
      chk (require_utc (gl_lease_until c) ''lease_until''),
      chk (require_revision (gl_fencing_token c) ''fencing_token''),
      chk (require_revision (gl_claimed_generation c) ''claimed_generation'')]
     (Inr c)"

record OutboxClaim =
  oc_namespace :: Namespace
  oc_outbox_id :: string
  oc_proposal_id :: string
  oc_approval_decision_id :: string
  oc_effect_attempt_id :: string
  oc_effect_idempotency_key :: string
  oc_attempt_number :: int
  oc_lease_owner :: string
  oc_lease_until :: datetime
  oc_fencing_token :: int
  oc_schema_version :: int

definition OutboxClaim_init :: "OutboxClaim \<Rightarrow> OutboxClaim result" where
  "OutboxClaim_init c = checks
     [chk (require_schema_version (oc_schema_version c)),
      require_colleague (oc_namespace c),
      check_all (map (\<lambda>(value, field). chk (require_stable_id value field))
        [(oc_outbox_id c, ''outbox_id''), (oc_proposal_id c, ''proposal_id''),
         (oc_approval_decision_id c, ''approval_decision_id''),
         (oc_effect_attempt_id c, ''effect_attempt_id''),
         (oc_effect_idempotency_key c, ''effect_idempotency_key''),
         (oc_lease_owner c, ''lease_owner'')]),
      chk (require_revision (oc_attempt_number c) ''attempt_number''),
      chk (require_utc (oc_lease_until c) ''lease_until''),
      chk (require_revision (oc_fencing_token c) ''fencing_token'')]
     (Inr c)"

section \<open>Intelligence\<close>

datatype SemanticOutcome = SO_PROPOSAL | SO_NO_OP | SO_WAIT | SO_ESCALATION

record IntelligenceRequest =
  iq_namespace :: Namespace
  iq_request_id :: string
  iq_wake_cycle :: WakeCycle
  iq_agenda_item :: AgendaItem
  iq_mandate :: Mandate
  iq_model_principal :: Principal
  iq_decision_id :: string
  iq_proposal_id :: string
  iq_effect_idempotency_key :: string
  iq_occurred_at :: datetime
  iq_proposal_valid_until :: datetime
  iq_schema_version :: int
  iq_policy_id :: "string option"
  iq_policy_revision :: "int option"

definition IntelligenceRequest_init :: "IntelligenceRequest \<Rightarrow> IntelligenceRequest result" where
  "IntelligenceRequest_init r = checks
     [chk (require_schema_version (iq_schema_version r)),
      require_exact (iq_namespace r) (wk_namespace (iq_wake_cycle r)),
      require_exact (iq_namespace r) (ag_namespace (iq_agenda_item r)),
      require_exact (iq_namespace r) (md_namespace (iq_mandate r)),
      require_same_tenant (iq_namespace r) (pr_namespace (iq_model_principal r)),
      check_all (map (\<lambda>(value, field). chk (require_stable_id value field))
        [(iq_request_id r, ''request_id''), (iq_decision_id r, ''decision_id''),
         (iq_proposal_id r, ''proposal_id''),
         (iq_effect_idempotency_key r, ''effect_idempotency_key'')]),
      chk (require_utc (iq_occurred_at r) ''occurred_at''),
      chk (require_utc (iq_proposal_valid_until r) ''proposal_valid_until''),
      raise_if (iq_proposal_valid_until r \<le> iq_occurred_at r)
        (ValueError ''proposal validity must follow request time''),
      require_policy_binding (iq_policy_id r) (iq_policy_revision r),
      raise_if ((wk_policy_id (iq_wake_cycle r), wk_policy_revision (iq_wake_cycle r)) \<noteq>
          (iq_policy_id r, iq_policy_revision r))
        (ValueError ''intelligence policy binding must match its wake'')]
     (Inr r)"

record SemanticDecision =
  sd_outcome :: SemanticOutcome
  sd_decision :: Decision
  sd_proposal :: "EffectProposal option"
  sd_request_id :: string
  sd_schema_version :: int

definition SemanticDecision_init :: "SemanticDecision \<Rightarrow> SemanticDecision result" where
  "SemanticDecision_init s = checks
     [chk (require_schema_version (sd_schema_version s)),
      chk (require_stable_id (sd_request_id s) ''request_id''),
      raise_if ((sd_outcome s = SO_PROPOSAL) \<noteq> (sd_proposal s \<noteq> None))
        (ValueError ''proposal outcomes must carry exactly one proposal''),
      (case sd_proposal s of None \<Rightarrow> Inr ()
       | Some p \<Rightarrow> require_exact (dc_namespace (sd_decision s)) (ep_namespace p))]
     (Inr s)"

section \<open>Channel\<close>

datatype ChannelOutcomeKind =
  CO_SUCCEEDED | CO_KNOWN_NOT_EXECUTED | CO_RETRYABLE_FAILURE | CO_PERMANENT_FAILURE
  | CO_AMBIGUOUS

record ChannelOutcome =
  co_kind :: ChannelOutcomeKind
  co_safe_projection :: frozen_json
  co_result_digest :: string
  co_schema_version :: int

definition ChannelOutcome_init :: "ChannelOutcome \<Rightarrow> ChannelOutcome result" where
  "ChannelOutcome_init o' = checks
     [chk (require_schema_version (co_schema_version o')),
      chk (require_digest (co_result_digest o') ''result_digest'')]
     (Inr o')"

datatype ReconciliationKind = RK_CONFIRMED_APPLIED | RK_CONFIRMED_ABSENT | RK_STILL_UNKNOWN

record ReconciliationOutcome =
  ro_kind :: ReconciliationKind
  ro_safe_projection :: frozen_json
  ro_result_digest :: string
  ro_schema_version :: int

definition ReconciliationOutcome_init :: "ReconciliationOutcome \<Rightarrow> ReconciliationOutcome result" where
  "ReconciliationOutcome_init o' = checks
     [chk (require_schema_version (ro_schema_version o')),
      chk (require_digest (ro_result_digest o') ''result_digest'')]
     (Inr o')"

record DispatchBundle =
  bd_proposal :: EffectProposal
  bd_approval :: HumanApprovalDecision
  bd_attempt :: EffectAttempt
  bd_approver :: Principal
  bd_effect_idempotency_key :: string
  bd_maximum_attempts :: int
  bd_schema_version :: int

definition DispatchBundle_init :: "DispatchBundle \<Rightarrow> DispatchBundle result" where
  "DispatchBundle_init b = checks
     [chk (require_schema_version (bd_schema_version b)),
      require_exact (ep_namespace (bd_proposal b)) (ha_namespace (bd_approval b)),
      require_exact (ep_namespace (bd_proposal b)) (ea_namespace (bd_attempt b)),
      require_same_tenant (ep_namespace (bd_proposal b)) (pr_namespace (bd_approver b)),
      chk (require_stable_id (bd_effect_idempotency_key b) ''effect_idempotency_key''),
      chk (require_revision (bd_maximum_attempts b) ''maximum_attempts'')]
     (Inr b)"

record ChannelEffect =
  ce_proposal :: EffectProposal
  ce_attempt :: EffectAttempt
  ce_effect_idempotency_key :: string
  ce_effect_schema_version :: int

definition ChannelEffect_init :: "ChannelEffect \<Rightarrow> ChannelEffect result" where
  "ChannelEffect_init e = checks
     [chk (require_schema_version (ce_effect_schema_version e)),
      require_exact (ep_namespace (ce_proposal e)) (ea_namespace (ce_attempt e)),
      chk (require_stable_id (ce_effect_idempotency_key e) ''effect_idempotency_key'')]
     (Inr e)"

section \<open>Results of a run\<close>

record WakeRunResult =
  wr_selected_count :: nat
  wr_decision_count :: nat
  wr_pending_count :: nat
  wr_outcome :: string

record DispatchResult =
  dr_dispatched :: bool
  dr_outcome :: "ChannelOutcomeKind option"
  dr_action_result_id :: "string option"

lemma TriggerClaim_init_ok: "TriggerClaim_init c = Inr c' \<Longrightarrow> c' = c"
  and AgendaClaim_init_ok: "AgendaClaim_init a = Inr a' \<Longrightarrow> a' = a"
  and OutboxClaim_init_ok: "OutboxClaim_init x = Inr x' \<Longrightarrow> x' = x"
  and DispatchBundle_init_ok: "DispatchBundle_init b = Inr b' \<Longrightarrow> b' = b"
  by (auto simp: TriggerClaim_init_def AgendaClaim_init_def OutboxClaim_init_def
      DispatchBundle_init_def checks_ok)

end
