(* ===== verification/Store.thy ===== *)
theory Store
  imports Contracts Policy Work Authority
begin

text \<open>
  The base of \<^verbatim>\<open>adapters/sqlite/store.py\<close>: the tables as the migrations 001 and 003 declare
  them, transactions, durable domain records with their audit trail, the replay ledger, the
  typed getters, bootstrap, and the causal history.

  A namespace stands for its three key columns, and a stored payload for the record the
  codec reads back from it; time columns hold the instant, whose order the fixed-width text
  of \<^verbatim>\<open>datetime_to_z\<close> preserves.  The columns of \<^verbatim>\<open>domain_records\<close> that repeat the payload,
  and the payload digest and safe projection of an audit row, are not kept.  SQL errors
  other than integrity errors are not modelled.
\<close>

section \<open>Rows\<close>

datatype RecordType =
  RT_PRINCIPAL | RT_PROFILE | RT_MANDATE | RT_COLLEAGUE_POLICY | RT_FINITE_WORK | RT_INPUT_EVENT
  | RT_TIMER_OCCURRENCE | RT_WAKE_CYCLE | RT_AGENDA_ITEM | RT_DECISION | RT_EFFECT_PROPOSAL
  | RT_HUMAN_APPROVAL | RT_EFFECT_ATTEMPT | RT_ACTION_RESULT

fun RecordType_value :: "RecordType \<Rightarrow> string" where
  "RecordType_value RT_PRINCIPAL = ''principal''"
| "RecordType_value RT_PROFILE = ''profile''"
| "RecordType_value RT_MANDATE = ''mandate''"
| "RecordType_value RT_COLLEAGUE_POLICY = ''colleague_policy''"
| "RecordType_value RT_FINITE_WORK = ''finite_work''"
| "RecordType_value RT_INPUT_EVENT = ''input_event''"
| "RecordType_value RT_TIMER_OCCURRENCE = ''timer_occurrence''"
| "RecordType_value RT_WAKE_CYCLE = ''wake_cycle''"
| "RecordType_value RT_AGENDA_ITEM = ''agenda_item''"
| "RecordType_value RT_DECISION = ''decision''"
| "RecordType_value RT_EFFECT_PROPOSAL = ''effect_proposal''"
| "RecordType_value RT_HUMAN_APPROVAL = ''human_approval''"
| "RecordType_value RT_EFFECT_ATTEMPT = ''effect_attempt''"
| "RecordType_value RT_ACTION_RESULT = ''action_result''"

datatype domain_record =
    DPrincipal Principal
  | DProfile Profile
  | DMandate Mandate
  | DColleaguePolicy ColleaguePolicy
  | DFiniteWork FiniteWork
  | DInputEvent InputEvent
  | DTimerOccurrence TimerOccurrence
  | DWakeCycle WakeCycle
  | DAgendaItem AgendaItem
  | DDecision Decision
  | DEffectProposal EffectProposal
  | DHumanApproval HumanApprovalDecision
  | DEffectAttempt EffectAttempt
  | DActionResult ActionResult

text \<open>\<^verbatim>\<open>_RECORD_IDENTITIES\<close>: the type, the ID field and whether the record is immutable.\<close>

fun record_identity :: "domain_record \<Rightarrow> RecordType \<times> string \<times> bool" where
  "record_identity (DPrincipal r) = (RT_PRINCIPAL, pr_principal_id r, False)"
| "record_identity (DProfile r) = (RT_PROFILE, pf_profile_id r, False)"
| "record_identity (DMandate r) = (RT_MANDATE, md_mandate_id r, False)"
| "record_identity (DColleaguePolicy r) = (RT_COLLEAGUE_POLICY, cp_policy_id r, False)"
| "record_identity (DFiniteWork r) = (RT_FINITE_WORK, fw_work_id r, False)"
| "record_identity (DInputEvent r) = (RT_INPUT_EVENT, ev_event_id r, True)"
| "record_identity (DTimerOccurrence r) = (RT_TIMER_OCCURRENCE, tm_occurrence_id r, True)"
| "record_identity (DWakeCycle r) = (RT_WAKE_CYCLE, wk_wake_cycle_id r, False)"
| "record_identity (DAgendaItem r) = (RT_AGENDA_ITEM, ag_agenda_item_id r, False)"
| "record_identity (DDecision r) = (RT_DECISION, dc_decision_id r, True)"
| "record_identity (DEffectProposal r) = (RT_EFFECT_PROPOSAL, ep_proposal_id r, True)"
| "record_identity (DHumanApproval r) = (RT_HUMAN_APPROVAL, ha_approval_decision_id r, True)"
| "record_identity (DEffectAttempt r) = (RT_EFFECT_ATTEMPT, ea_effect_attempt_id r, False)"
| "record_identity (DActionResult r) = (RT_ACTION_RESULT, ar_action_result_id r, True)"

fun record_namespace :: "domain_record \<Rightarrow> Namespace" where
  "record_namespace (DPrincipal r) = pr_namespace r"
| "record_namespace (DProfile r) = pf_namespace r"
| "record_namespace (DMandate r) = md_namespace r"
| "record_namespace (DColleaguePolicy r) = cp_namespace r"
| "record_namespace (DFiniteWork r) = fw_namespace r"
| "record_namespace (DInputEvent r) = ev_namespace r"
| "record_namespace (DTimerOccurrence r) = tm_namespace r"
| "record_namespace (DWakeCycle r) = wk_namespace r"
| "record_namespace (DAgendaItem r) = ag_namespace r"
| "record_namespace (DDecision r) = dc_namespace r"
| "record_namespace (DEffectProposal r) = ep_namespace r"
| "record_namespace (DHumanApproval r) = ha_namespace r"
| "record_namespace (DEffectAttempt r) = ea_namespace r"
| "record_namespace (DActionResult r) = ar_namespace r"

fun record_revision :: "domain_record \<Rightarrow> int" where
  "record_revision (DPrincipal r) = pr_revision r"
| "record_revision (DProfile r) = pf_revision r"
| "record_revision (DMandate r) = md_revision r"
| "record_revision (DColleaguePolicy r) = cp_revision r"
| "record_revision (DFiniteWork r) = fw_revision r"
| "record_revision (DInputEvent r) = ev_revision r"
| "record_revision (DTimerOccurrence r) = tm_revision r"
| "record_revision (DWakeCycle r) = wk_revision r"
| "record_revision (DAgendaItem r) = ag_revision r"
| "record_revision (DDecision r) = dc_revision r"
| "record_revision (DEffectProposal r) = ep_revision r"
| "record_revision (DHumanApproval r) = ha_revision r"
| "record_revision (DEffectAttempt r) = ea_revision r"
| "record_revision (DActionResult r) = ar_revision r"

text \<open>
  The first of \<^verbatim>\<open>actor\<close>, \<^verbatim>\<open>author\<close>, \<^verbatim>\<open>updated_by\<close> and \<^verbatim>\<open>issued_by\<close> the record has; the
  correlation and causation it has; and the first of its four time fields.
\<close>

fun record_actor :: "domain_record \<Rightarrow> Principal option" where
  "record_actor (DPrincipal r) = None"
| "record_actor (DProfile r) = Some (pf_updated_by r)"
| "record_actor (DMandate r) = Some (md_issued_by r)"
| "record_actor (DColleaguePolicy r) = Some (cp_issued_by r)"
| "record_actor (DFiniteWork r) = Some (fw_actor r)"
| "record_actor (DInputEvent r) = Some (ev_actor r)"
| "record_actor (DTimerOccurrence r) = Some (tm_actor r)"
| "record_actor (DWakeCycle r) = Some (wk_actor r)"
| "record_actor (DAgendaItem r) = Some (ag_actor r)"
| "record_actor (DDecision r) = Some (dc_actor r)"
| "record_actor (DEffectProposal r) = Some (ep_actor r)"
| "record_actor (DHumanApproval r) = Some (ha_author r)"
| "record_actor (DEffectAttempt r) = Some (ea_actor r)"
| "record_actor (DActionResult r) = Some (ar_actor r)"

fun record_correlation :: "domain_record \<Rightarrow> string option" where
  "record_correlation (DFiniteWork r) = Some (fw_correlation_id r)"
| "record_correlation (DInputEvent r) = Some (ev_correlation_id r)"
| "record_correlation (DTimerOccurrence r) = Some (tm_correlation_id r)"
| "record_correlation (DWakeCycle r) = Some (wk_correlation_id r)"
| "record_correlation (DAgendaItem r) = Some (ag_correlation_id r)"
| "record_correlation (DDecision r) = Some (dc_correlation_id r)"
| "record_correlation (DEffectProposal r) = Some (ep_correlation_id r)"
| "record_correlation (DHumanApproval r) = Some (ha_correlation_id r)"
| "record_correlation (DEffectAttempt r) = Some (ea_correlation_id r)"
| "record_correlation (DActionResult r) = Some (ar_correlation_id r)"
| "record_correlation _ = None"

fun record_causation :: "domain_record \<Rightarrow> string option" where
  "record_causation (DFiniteWork r) = fw_causation_id r"
| "record_causation (DInputEvent r) = ev_causation_id r"
| "record_causation (DTimerOccurrence r) = tm_causation_id r"
| "record_causation (DWakeCycle r) = wk_causation_id r"
| "record_causation (DAgendaItem r) = Some (ag_causation_id r)"
| "record_causation (DDecision r) = Some (dc_causation_id r)"
| "record_causation (DEffectProposal r) = Some (ep_causation_id r)"
| "record_causation (DHumanApproval r) = Some (ha_causation_id r)"
| "record_causation (DEffectAttempt r) = Some (ea_causation_id r)"
| "record_causation (DActionResult r) = Some (ar_causation_id r)"
| "record_causation _ = None"

fun record_occurred :: "domain_record \<Rightarrow> datetime option" where
  "record_occurred (DPrincipal r) = None"
| "record_occurred (DProfile r) = Some (pf_updated_at r)"
| "record_occurred (DMandate r) = Some (md_effective_at r)"
| "record_occurred (DColleaguePolicy r) = Some (cp_effective_at r)"
| "record_occurred (DFiniteWork r) = Some (fw_updated_at r)"
| "record_occurred (DInputEvent r) = Some (ev_occurred_at r)"
| "record_occurred (DTimerOccurrence r) = Some (tm_occurred_at r)"
| "record_occurred (DWakeCycle r) = Some (wk_occurred_at r)"
| "record_occurred (DAgendaItem r) = Some (ag_occurred_at r)"
| "record_occurred (DDecision r) = Some (dc_occurred_at r)"
| "record_occurred (DEffectProposal r) = Some (ep_occurred_at r)"
| "record_occurred (DHumanApproval r) = Some (ha_occurred_at r)"
| "record_occurred (DEffectAttempt r) = Some (ea_occurred_at r)"
| "record_occurred (DActionResult r) = Some (ar_occurred_at r)"

record audit_row =
  au_namespace :: Namespace
  au_audit_id :: string
  au_record_type :: RecordType
  au_record_id :: string
  au_record_revision :: int
  au_actor_principal_id :: string
  au_correlation_id :: string
  au_causation_id :: "string option"
  au_occurred_at :: datetime

datatype trigger_state = TR_PENDING | TR_CLAIMED | TR_COMPLETED

text \<open>A row of \<^verbatim>\<open>triggers\<close>, or of \<^verbatim>\<open>timer_triggers\<close>, which alone has a timer ID.\<close>

record trigger_row =
  tr_namespace :: Namespace
  tr_trigger_id :: string
  tr_trigger_kind :: string
  tr_source_id :: string
  tr_timer_id :: "string option"
  tr_due_at :: datetime
  tr_state :: trigger_state
  tr_lease_owner :: "string option"
  tr_lease_until :: "datetime option"
  tr_fencing_token :: int
  tr_attempt_count :: int
  tr_correlation_id :: string
  tr_causation_id :: string
  tr_actor_principal_id :: string
  tr_created_at :: datetime
  tr_revision :: int

record agenda_row =
  gr_namespace :: Namespace
  gr_agenda_item_id :: string
  gr_source_key :: string
  gr_generation :: int
  gr_handled_generation :: int
  gr_cause_ids :: "string list"
  gr_state :: AgendaItemState
  gr_priority :: int
  gr_due_at :: "datetime option"
  gr_lease_owner :: "string option"
  gr_lease_until :: "datetime option"
  gr_fencing_token :: int
  gr_starvation_count :: int
  gr_current_wake_cycle_id :: string
  gr_revision :: int

datatype outbox_state =
  OX_PENDING | OX_CLAIMED | OX_DISPATCHING | OX_COMPLETED | OX_TERMINAL_FAILED | OX_RETRY
  | OX_AMBIGUOUS | OX_AMBIGUOUS_CLAIMED

text \<open>
  The values \<^verbatim>\<open>last_outcome\<close> takes: the value of a channel outcome or of a reconciliation, or
  the texts \<^verbatim>\<open>still_unknown_wait:n\<close> and \<^verbatim>\<open>still_unknown_stopped:n\<close>.
\<close>

datatype last_outcome =
  LO_CHANNEL ChannelOutcomeKind | LO_RECONCILED ReconciliationKind | LO_WAIT int | LO_STOPPED int

record outbox_row =
  ox_namespace :: Namespace
  ox_outbox_id :: string
  ox_proposal_id :: string
  ox_approval_decision_id :: string
  ox_effect_attempt_id :: string
  ox_effect_idempotency_key :: string
  ox_state :: outbox_state
  ox_attempt_number :: int
  ox_maximum_attempts :: int
  ox_next_attempt_at :: datetime
  ox_lease_owner :: "string option"
  ox_lease_until :: "datetime option"
  ox_fencing_token :: int
  ox_last_outcome :: "last_outcome option"
  ox_actor_principal_id :: string
  ox_correlation_id :: string
  ox_causation_id :: string
  ox_created_at :: datetime
  ox_updated_at :: datetime
  ox_revision :: int

datatype ledger_kind =
  LK_INPUT_EVENT | LK_TIMER_OCCURRENCE | LK_APPROVAL | LK_PROPOSAL_APPROVAL | LK_EFFECT
  | LK_P4_INITIAL_COLLEAGUE | LK_P4_WORK

type_synonym record_key = "Namespace \<times> RecordType \<times> string"

record store =
  st_records :: "record_key \<rightharpoonup> domain_record"
  st_audit :: "audit_row list"
  st_ledger :: "Namespace \<times> ledger_kind \<times> string \<rightharpoonup> RecordType \<times> string"
  st_triggers :: "trigger_row list"
  st_timer_triggers :: "trigger_row list"
  st_agenda :: "agenda_row list"
  st_outbox :: "outbox_row list"

definition empty_store :: store where
  "empty_store = \<lparr>st_records = Map.empty, st_audit = [], st_ledger = Map.empty, st_triggers = [],
     st_timer_triggers = [], st_agenda = [], st_outbox = []\<rparr>"

section \<open>SQL statements and transactions\<close>

text \<open>\<^verbatim>\<open>SELECT ... WHERE P ORDER BY k LIMIT 1\<close>, \<^verbatim>\<open>UPDATE ... SET f WHERE P\<close> and its row count.\<close>

definition select_first :: "('r \<Rightarrow> bool) \<Rightarrow> ('r \<Rightarrow> 'k::linorder) \<Rightarrow> 'r list \<Rightarrow> 'r option" where
  "select_first P k rows = (case sort_key k (filter P rows) of [] \<Rightarrow> None | r # _ \<Rightarrow> Some r)"

definition update_where :: "('r \<Rightarrow> bool) \<Rightarrow> ('r \<Rightarrow> 'r) \<Rightarrow> 'r list \<Rightarrow> 'r list" where
  "update_where P f rows = map (\<lambda>r. if P r then f r else r) rows"

definition row_count :: "('r \<Rightarrow> bool) \<Rightarrow> 'r list \<Rightarrow> nat" where
  "row_count P rows = length (filter P rows)"

text \<open>
  \<^verbatim>\<open>_transaction\<close>: \<^verbatim>\<open>COMMIT\<close> when the body returns, \<^verbatim>\<open>ROLLBACK\<close> when it raises.  The lock
  and \<^verbatim>\<open>BEGIN IMMEDIATE\<close> make transactions run one after another.
\<close>

definition transaction :: "('s \<Rightarrow> ('a \<times> 's) result) \<Rightarrow> 's \<Rightarrow> 'a result \<times> 's" where
  "transaction body st = (case body st of Inl e \<Rightarrow> (Inl e, st) | Inr (x, st') \<Rightarrow> (Inr x, st'))"

section \<open>Durable records\<close>

definition audit_id :: "RecordType \<Rightarrow> string \<Rightarrow> int \<Rightarrow> string" where
  "audit_id record_type record_id revision =
     ''audit:'' @ take 32 (sha256_hex (utf8 (RecordType_value record_type @ [CHR 0x00] @
       record_id @ [CHR 0x00] @ int_text revision)))"

text \<open>\<^verbatim>\<open>INSERT INTO audit_records\<close> under its primary key and its unique constraint.\<close>

definition insert_audit ::
  "domain_record \<Rightarrow> Principal \<Rightarrow> string \<Rightarrow> string option \<Rightarrow> datetime \<Rightarrow> store \<Rightarrow> store result" where
  "insert_audit rec actor correlation_id causation_id occurred_at st =
     (case record_identity rec of (record_type, record_id, immutable) \<Rightarrow>
      let row = \<lparr>au_namespace = record_namespace rec,
            au_audit_id = audit_id record_type record_id (record_revision rec),
            au_record_type = record_type, au_record_id = record_id,
            au_record_revision = record_revision rec,
            au_actor_principal_id = pr_principal_id actor, au_correlation_id = correlation_id,
            au_causation_id = causation_id, au_occurred_at = occurred_at\<rparr>
      in if (\<exists>a \<in> set (st_audit st). au_namespace a = record_namespace rec \<and>
             (au_audit_id a = au_audit_id row \<or>
              (au_record_type a, au_record_id a, au_record_revision a) =
                (record_type, record_id, record_revision rec)))
            \<or> record_revision rec \<le> 0
         then Inl (IntegrityError ''audit_records'')
         else Inr (st\<lparr>st_audit := st_audit st @ [row]\<rparr>))"

definition record_key :: "domain_record \<Rightarrow> record_key" where
  "record_key rec = (record_namespace rec, fst (record_identity rec), fst (snd (record_identity rec)))"

text \<open>
  \<^verbatim>\<open>_insert_record\<close> with its optional overrides.  An empty correlation override counts as
  absent (\<^verbatim>\<open>correlation_id or ...\<close>).
\<close>

definition insert_record_as ::
  "Principal option \<Rightarrow> string option \<Rightarrow> string option \<Rightarrow> datetime option \<Rightarrow> domain_record
     \<Rightarrow> store \<Rightarrow> store result" where
  "insert_record_as actor correlation_id causation_id occurred_at rec st =
     (case (case actor of Some a \<Rightarrow> Some a | None \<Rightarrow> record_actor rec) of
        None \<Rightarrow> Inl (PersistenceError ''durable record actor is missing'')
      | Some a \<Rightarrow>
     (case (if correlation_id \<in> {None, Some []} then record_correlation rec else correlation_id) of
        None \<Rightarrow> Inl (PersistenceError ''durable record correlation is missing'')
      | Some correlation \<Rightarrow>
     (case (case occurred_at of Some t \<Rightarrow> Some t | None \<Rightarrow> record_occurred rec) of
        None \<Rightarrow> Inl (PersistenceError ''durable record timestamp is missing'')
      | Some occurred \<Rightarrow>
     checks
       [chk (require_utc occurred ''datetime''),
        raise_if (st_records st (record_key rec) \<noteq> None \<or> record_revision rec \<le> 0)
          (ConflictError ''durable record identity or constraint conflict'')]
       (case insert_audit rec a correlation
              (if causation_id = None then record_causation rec else causation_id) occurred
              (st\<lparr>st_records := (st_records st)(record_key rec \<mapsto> rec)\<rparr>) of
          Inl _ \<Rightarrow> Inl (ConflictError ''durable record identity or constraint conflict'')
        | Inr st' \<Rightarrow> Inr st'))))"

definition insert_record :: "domain_record \<Rightarrow> store \<Rightarrow> store result" where
  "insert_record = insert_record_as None None None None"

definition update_record :: "int \<Rightarrow> domain_record \<Rightarrow> store \<Rightarrow> store result" where
  "update_record expected_revision rec st =
     checks
       [raise_if (snd (snd (record_identity rec)))
          (PersistenceError ''immutable causal records cannot be updated''),
        raise_if (record_revision rec \<noteq> expected_revision + 1)
          (ConflictError ''record revision did not advance exactly once'')]
     (case record_actor rec of
        None \<Rightarrow> Inl (PersistenceError ''updated durable record actor is missing'')
      | Some actor \<Rightarrow>
     (case record_occurred rec of
        None \<Rightarrow> Inl (PersistenceError ''updated durable record timestamp is missing'')
      | Some occurred \<Rightarrow>
     checks
       [chk (require_utc occurred ''datetime''),
        raise_if (\<not> (case st_records st (record_key rec) of
            None \<Rightarrow> False | Some old \<Rightarrow> record_revision old = expected_revision))
          (ConflictError ''optimistic record revision conflict'')]
       (insert_audit rec actor
          (case record_correlation rec of Some c \<Rightarrow> c
             | None \<Rightarrow> ''record:'' @ fst (snd (record_identity rec)))
          (record_causation rec) occurred
          (st\<lparr>st_records := (st_records st)(record_key rec \<mapsto> rec)\<rparr>))))"

definition get_record :: "store \<Rightarrow> Namespace \<Rightarrow> RecordType \<Rightarrow> string \<Rightarrow> domain_record result" where
  "get_record st namespace record_type record_id =
     (case st_records st (namespace, record_type, record_id) of
        None \<Rightarrow> Inl (NotFoundError ''namespaced durable record was not found'')
      | Some rec \<Rightarrow> Inr rec)"

definition wrong_type :: "'a result" where
  "wrong_type = Inl (PersistenceError ''a durable record has the wrong contract type'')"

definition get_principal :: "store \<Rightarrow> string \<Rightarrow> string \<Rightarrow> Principal result" where
  "get_principal st tenant_id principal_id =
     bindR (principal_namespace tenant_id principal_id) (\<lambda>ns.
     bindR (get_record st ns RT_PRINCIPAL principal_id) (\<lambda>rec.
       case rec of DPrincipal r \<Rightarrow> Inr r | _ \<Rightarrow> wrong_type))"

definition get_profile :: "store \<Rightarrow> Namespace \<Rightarrow> string \<Rightarrow> Profile result" where
  "get_profile st ns i = bindR (get_record st ns RT_PROFILE i) (\<lambda>rec.
     case rec of DProfile r \<Rightarrow> Inr r | _ \<Rightarrow> wrong_type)"

definition get_mandate :: "store \<Rightarrow> Namespace \<Rightarrow> string \<Rightarrow> Mandate result" where
  "get_mandate st ns i = bindR (get_record st ns RT_MANDATE i) (\<lambda>rec.
     case rec of DMandate r \<Rightarrow> Inr r | _ \<Rightarrow> wrong_type)"

definition get_work :: "store \<Rightarrow> Namespace \<Rightarrow> string \<Rightarrow> FiniteWork result" where
  "get_work st ns i = bindR (get_record st ns RT_FINITE_WORK i) (\<lambda>rec.
     case rec of DFiniteWork r \<Rightarrow> Inr r | _ \<Rightarrow> wrong_type)"

definition get_event :: "store \<Rightarrow> Namespace \<Rightarrow> string \<Rightarrow> InputEvent result" where
  "get_event st ns i = bindR (get_record st ns RT_INPUT_EVENT i) (\<lambda>rec.
     case rec of DInputEvent r \<Rightarrow> Inr r | _ \<Rightarrow> wrong_type)"

definition get_timer_occurrence :: "store \<Rightarrow> Namespace \<Rightarrow> string \<Rightarrow> TimerOccurrence result" where
  "get_timer_occurrence st ns i = bindR (get_record st ns RT_TIMER_OCCURRENCE i) (\<lambda>rec.
     case rec of DTimerOccurrence r \<Rightarrow> Inr r | _ \<Rightarrow> wrong_type)"

definition get_wake_cycle :: "store \<Rightarrow> Namespace \<Rightarrow> string \<Rightarrow> WakeCycle result" where
  "get_wake_cycle st ns i = bindR (get_record st ns RT_WAKE_CYCLE i) (\<lambda>rec.
     case rec of DWakeCycle r \<Rightarrow> Inr r | _ \<Rightarrow> wrong_type)"

definition get_agenda_item :: "store \<Rightarrow> Namespace \<Rightarrow> string \<Rightarrow> AgendaItem result" where
  "get_agenda_item st ns i = bindR (get_record st ns RT_AGENDA_ITEM i) (\<lambda>rec.
     case rec of DAgendaItem r \<Rightarrow> Inr r | _ \<Rightarrow> wrong_type)"

definition get_proposal :: "store \<Rightarrow> Namespace \<Rightarrow> string \<Rightarrow> EffectProposal result" where
  "get_proposal st ns i = bindR (get_record st ns RT_EFFECT_PROPOSAL i) (\<lambda>rec.
     case rec of DEffectProposal r \<Rightarrow> Inr r | _ \<Rightarrow> wrong_type)"

definition get_approval :: "store \<Rightarrow> Namespace \<Rightarrow> string \<Rightarrow> HumanApprovalDecision result" where
  "get_approval st ns i = bindR (get_record st ns RT_HUMAN_APPROVAL i) (\<lambda>rec.
     case rec of DHumanApproval r \<Rightarrow> Inr r | _ \<Rightarrow> wrong_type)"

definition get_effect_attempt :: "store \<Rightarrow> Namespace \<Rightarrow> string \<Rightarrow> EffectAttempt result" where
  "get_effect_attempt st ns i = bindR (get_record st ns RT_EFFECT_ATTEMPT i) (\<lambda>rec.
     case rec of DEffectAttempt r \<Rightarrow> Inr r | _ \<Rightarrow> wrong_type)"

definition get_action_result :: "store \<Rightarrow> Namespace \<Rightarrow> string \<Rightarrow> ActionResult result" where
  "get_action_result st ns i = bindR (get_record st ns RT_ACTION_RESULT i) (\<lambda>rec.
     case rec of DActionResult r \<Rightarrow> Inr r | _ \<Rightarrow> wrong_type)"

definition causal_history :: "store \<Rightarrow> Namespace \<Rightarrow> string \<Rightarrow> audit_row list" where
  "causal_history st namespace correlation_id =
     sort_key (\<lambda>a. (au_occurred_at a, au_audit_id a))
       (filter (\<lambda>a. au_namespace a = namespace \<and> au_correlation_id a = correlation_id)
         (st_audit st))"

section \<open>Bootstrap\<close>

primrec insert_principals ::
  "Namespace \<Rightarrow> Principal \<Rightarrow> string \<Rightarrow> datetime \<Rightarrow> Principal list \<Rightarrow> store \<Rightarrow> store result" where
  "insert_principals namespace actor correlation_id occurred_at [] st = Inr st"
| "insert_principals namespace actor correlation_id occurred_at (p # ps) st =
     (if ns_tenant_id (pr_namespace p) \<noteq> ns_tenant_id namespace
      then Inl (PermissionDeniedError ''bootstrap principal crosses tenant namespace'')
      else bindR (insert_record_as (Some actor) (Some correlation_id) None (Some occurred_at)
             (DPrincipal p) st)
           (insert_principals namespace actor correlation_id occurred_at ps))"

definition bootstrap ::
  "Namespace \<Rightarrow> Principal list \<Rightarrow> Profile \<Rightarrow> Mandate \<Rightarrow> FiniteWork \<Rightarrow> Principal \<Rightarrow> string
     \<Rightarrow> datetime \<Rightarrow> store \<Rightarrow> (bool \<times> store) result" where
  "bootstrap namespace principals profile mandate work actor correlation_id occurred_at st =
     checks
       [require_exact namespace (pf_namespace profile),
        require_exact namespace (md_namespace mandate),
        require_exact namespace (fw_namespace work),
        require_same_tenant namespace (pr_namespace actor),
        raise_if (principals = [] \<or> actor \<notin> set principals)
          (PermissionDeniedError ''bootstrap actor must be a durable supplied principal'')]
     (case st_records st (namespace, RT_PROFILE, pf_profile_id profile) of
        Some (DProfile existing) \<Rightarrow>
          if existing \<noteq> profile
          then Inl (ConflictError ''bootstrap profile identity already exists with drift'')
          else Inr (False, st)
      | Some _ \<Rightarrow> wrong_type
      | None \<Rightarrow>
          bindR (insert_principals namespace actor correlation_id occurred_at principals st)
            (\<lambda>st.
          bindR (insert_record_as (Some actor) (Some correlation_id) None (Some occurred_at)
            (DProfile profile) st) (\<lambda>st.
          bindR (insert_record_as (Some actor) (Some correlation_id)
            (Some (pf_profile_id profile)) (Some occurred_at) (DMandate mandate) st) (\<lambda>st.
          bindR (insert_record (DFiniteWork work) st) (\<lambda>st. Inr (True, st))))))"

end
