(* ===== verification/TriggerStore.thy ===== *)
theory TriggerStore
  imports Store
begin

text \<open>
  The trigger operations of \<^verbatim>\<open>adapters/sqlite/store.py\<close>: idempotent ingestion of events and
  timer occurrences, and the claim of the next due trigger under a lease and a fencing
  token.
\<close>

section \<open>Statements\<close>

definition on_integrity :: "exc \<Rightarrow> 'a result \<Rightarrow> 'a result" where
  "on_integrity e m = (case m of Inl (IntegrityError _) \<Rightarrow> Inl e | _ \<Rightarrow> m)"

text \<open>\<^verbatim>\<open>INSERT INTO replay_ledger\<close> under its primary and foreign keys.\<close>

definition insert_ledger ::
  "Namespace \<Rightarrow> ledger_kind \<Rightarrow> string \<Rightarrow> RecordType \<Rightarrow> string \<Rightarrow> store \<Rightarrow> store result" where
  "insert_ledger namespace kind key record_type record_id st =
     (if st_ledger st (namespace, kind, key) \<noteq> None
         \<or> st_records st (namespace, record_type, record_id) = None
      then Inl (IntegrityError ''replay_ledger'')
      else Inr (st\<lparr>st_ledger := (st_ledger st)((namespace, kind, key) \<mapsto> (record_type, record_id))\<rparr>))"

text \<open>\<^verbatim>\<open>INSERT\<close> into a trigger table: the trigger ID and the source ID are each unique.\<close>

definition insert_trigger :: "trigger_row \<Rightarrow> trigger_row list \<Rightarrow> trigger_row list result" where
  "insert_trigger row rows =
     (if \<exists>r \<in> set rows. tr_namespace r = tr_namespace row \<and>
           (tr_trigger_id r = tr_trigger_id row \<or> tr_source_id r = tr_source_id row)
      then Inl (IntegrityError ''triggers'') else Inr (rows @ [row]))"

section \<open>Ingestion\<close>

definition event_trigger_row :: "InputEvent \<Rightarrow> string \<Rightarrow> trigger_row" where
  "event_trigger_row event trigger_id =
     \<lparr>tr_namespace = ev_namespace event, tr_trigger_id = trigger_id, tr_trigger_kind = ''event'',
      tr_source_id = ev_event_id event, tr_timer_id = None, tr_due_at = ev_occurred_at event,
      tr_state = TR_PENDING, tr_lease_owner = None, tr_lease_until = None, tr_fencing_token = 0,
      tr_attempt_count = 0, tr_correlation_id = ev_correlation_id event,
      tr_causation_id = ev_event_id event,
      tr_actor_principal_id = pr_principal_id (ev_actor event),
      tr_created_at = ev_occurred_at event, tr_revision = 1\<rparr>"

definition timer_trigger_row :: "TimerOccurrence \<Rightarrow> string \<Rightarrow> trigger_row" where
  "timer_trigger_row occurrence trigger_id =
     \<lparr>tr_namespace = tm_namespace occurrence, tr_trigger_id = trigger_id,
      tr_trigger_kind = ''timer'', tr_source_id = tm_occurrence_id occurrence,
      tr_timer_id = Some (tm_timer_id occurrence), tr_due_at = tm_due_at occurrence,
      tr_state = TR_PENDING, tr_lease_owner = None, tr_lease_until = None, tr_fencing_token = 0,
      tr_attempt_count = 0, tr_correlation_id = tm_correlation_id occurrence,
      tr_causation_id = tm_occurrence_id occurrence,
      tr_actor_principal_id = pr_principal_id (tm_actor occurrence),
      tr_created_at = tm_occurred_at occurrence, tr_revision = 1\<rparr>"

definition ingest_event ::
  "InputEvent \<Rightarrow> string \<Rightarrow> string \<Rightarrow> store \<Rightarrow> ((InputEvent \<times> bool) \<times> store) result" where
  "ingest_event event idempotency_key trigger_id st =
     (case st_ledger st (ev_namespace event, LK_INPUT_EVENT, idempotency_key) of
        Some (_, record_id) \<Rightarrow>
          bindR (get_event st (ev_namespace event) record_id) (\<lambda>existing.
          bindR (InputEvent_init (event\<lparr>ev_occurred_at := ev_occurred_at existing\<rparr>)) (\<lambda>again.
          if again \<noteq> existing then Inl (ConflictError ''input idempotency replay drifted'')
          else Inr ((existing, False), st)))
      | None \<Rightarrow>
          bindR (insert_record (DInputEvent event) st) (\<lambda>st.
          on_integrity (ConflictError ''input replay or trigger identity conflict'')
            (bindR (insert_ledger (ev_namespace event) LK_INPUT_EVENT idempotency_key
               RT_INPUT_EVENT (ev_event_id event) st) (\<lambda>st.
             bindR (insert_trigger (event_trigger_row event trigger_id) (st_triggers st)) (\<lambda>rows.
             Inr ((event, True), st\<lparr>st_triggers := rows\<rparr>))))))"

definition ingest_timer ::
  "TimerOccurrence \<Rightarrow> string \<Rightarrow> string \<Rightarrow> store \<Rightarrow> ((TimerOccurrence \<times> bool) \<times> store) result"
where
  "ingest_timer occurrence idempotency_key trigger_id st =
     (case st_ledger st (tm_namespace occurrence, LK_TIMER_OCCURRENCE, idempotency_key) of
        Some (_, record_id) \<Rightarrow>
          bindR (get_timer_occurrence st (tm_namespace occurrence) record_id) (\<lambda>existing.
          bindR (TimerOccurrence_init (occurrence\<lparr>tm_occurred_at := tm_occurred_at existing\<rparr>))
            (\<lambda>again.
          if again \<noteq> existing then Inl (ConflictError ''timer occurrence replay drifted'')
          else Inr ((existing, False), st)))
      | None \<Rightarrow>
          bindR (insert_record (DTimerOccurrence occurrence) st) (\<lambda>st.
          on_integrity (ConflictError ''timer replay or trigger identity conflict'')
            (bindR (insert_ledger (tm_namespace occurrence) LK_TIMER_OCCURRENCE idempotency_key
               RT_TIMER_OCCURRENCE (tm_occurrence_id occurrence) st) (\<lambda>st.
             checks [chk (require_utc (tm_due_at occurrence) ''datetime'')]
            (bindR (insert_trigger (timer_trigger_row occurrence trigger_id)
               (st_timer_triggers st)) (\<lambda>rows.
             Inr ((occurrence, True), st\<lparr>st_timer_triggers := rows\<rparr>)))))))"

section \<open>Claims\<close>

text \<open>A comparison with a null \<^verbatim>\<open>lease_until\<close> does not hold.\<close>

definition lease_before :: "datetime option \<Rightarrow> datetime \<Rightarrow> bool" where
  "lease_before lease_until now = (case lease_until of None \<Rightarrow> False | Some t \<Rightarrow> t < now)"

definition trigger_claimable :: "Namespace \<Rightarrow> datetime \<Rightarrow> trigger_row \<Rightarrow> bool" where
  "trigger_claimable namespace now r =
     (tr_namespace r = namespace \<and> tr_due_at r \<le> now \<and>
      (tr_state r = TR_PENDING \<or> (tr_state r = TR_CLAIMED \<and> lease_before (tr_lease_until r) now)))"

definition due_trigger :: "Namespace \<Rightarrow> datetime \<Rightarrow> trigger_row list \<Rightarrow> trigger_row option" where
  "due_trigger namespace now rows =
     select_first (trigger_claimable namespace now) (\<lambda>r. (tr_due_at r, tr_trigger_id r)) rows"

text \<open>
  The choice between the first due event trigger and the first due timer trigger:
  \<^verbatim>\<open>min\<close> by due time, trigger ID and source type.
\<close>

definition choose_trigger ::
  "trigger_row option \<Rightarrow> trigger_row option \<Rightarrow> (string \<times> trigger_row) option" where
  "choose_trigger event_row timer_row =
     (let candidates =
        (case event_row of None \<Rightarrow> [] | Some r \<Rightarrow> [(''input_event'', r)]) @
        (case timer_row of None \<Rightarrow> [] | Some r \<Rightarrow> [(''timer_occurrence'', r)])
      in select_first (\<lambda>_. True)
           (\<lambda>item. (tr_due_at (snd item), tr_trigger_id (snd item), fst item)) candidates)"

definition set_claimed :: "string \<Rightarrow> datetime \<Rightarrow> int \<Rightarrow> trigger_row \<Rightarrow> trigger_row" where
  "set_claimed owner lease_until fencing r = r\<lparr>tr_state := TR_CLAIMED, tr_lease_owner := Some owner,
     tr_lease_until := Some lease_until, tr_fencing_token := fencing,
     tr_attempt_count := tr_attempt_count r + 1, tr_revision := tr_revision r + 1\<rparr>"

definition trigger_at :: "Namespace \<Rightarrow> string \<Rightarrow> trigger_row \<Rightarrow> bool" where
  "trigger_at namespace trigger_id r =
     (tr_namespace r = namespace \<and> tr_trigger_id r = trigger_id)"

definition claim_trigger ::
  "Namespace \<Rightarrow> string \<Rightarrow> datetime \<Rightarrow> datetime \<Rightarrow> store \<Rightarrow> (TriggerClaim option \<times> store) result"
where
  "claim_trigger namespace owner now lease_until st =
     checks [chk (require_utc now ''datetime'')]
     (case choose_trigger (due_trigger namespace now (st_triggers st))
         (due_trigger namespace now (st_timer_triggers st)) of
        None \<Rightarrow> Inr (None, st)
      | Some (source_record_type, row) \<Rightarrow>
          let fencing = tr_fencing_token row + 1;
              target = (\<lambda>r. trigger_at namespace (tr_trigger_id row) r \<and>
                 tr_revision r = tr_revision row);
              upd = update_where target (set_claimed owner lease_until fencing);
              rows = (if source_record_type = ''input_event'' then st_triggers st
                      else st_timer_triggers st)
          in checks
               [chk (require_utc lease_until ''datetime''),
                raise_if (row_count target rows \<noteq> 1)
                  (ConflictError ''trigger optimistic claim conflict'')]
             (bindR (TriggerClaim_init
                \<lparr>tc_namespace = namespace, tc_trigger_id = tr_trigger_id row,
                 tc_source_record_type = source_record_type, tc_source_id = tr_source_id row,
                 tc_trigger_kind = tr_trigger_kind row, tc_lease_owner = owner,
                 tc_lease_until = lease_until, tc_fencing_token = fencing,
                 tc_correlation_id = tr_correlation_id row,
                 tc_causation_id = tr_causation_id row, tc_schema_version = SCHEMA_VERSION\<rparr>)
              (\<lambda>claim. Inr (Some claim,
                 if source_record_type = ''input_event''
                 then st\<lparr>st_triggers := upd (st_triggers st)\<rparr>
                 else st\<lparr>st_timer_triggers := upd (st_timer_triggers st)\<rparr>))))"

end
