(* ===== verification/AgendaStore.thy ===== *)
theory AgendaStore
  imports TriggerStore
begin

text \<open>
  The agenda operations of \<^verbatim>\<open>adapters/sqlite/store.py\<close>: coalescing a claimed trigger into the
  agenda item of its source key, claiming and releasing an agenda item, and committing the
  semantic decision that handles the claimed generation.
\<close>

section \<open>Source keys\<close>

text \<open>The \<^verbatim>\<open>work_id\<close>, \<^verbatim>\<open>priority\<close> and \<^verbatim>\<open>title\<close> of a safe projection, each with its fallback.\<close>

definition projection_work :: "frozen_json \<Rightarrow> string option" where
  "projection_work p =
     (case json_get p ''work_id'' of Some (JStr s) \<Rightarrow> if s = [] then None else Some s | _ \<Rightarrow> None)"

definition projection_priority :: "frozen_json \<Rightarrow> int" where
  "projection_priority p = (case json_get p ''priority'' of Some (JInt i) \<Rightarrow> i | _ \<Rightarrow> 100)"

definition projection_title :: "string \<Rightarrow> frozen_json \<Rightarrow> string" where
  "projection_title fallback p =
     (case json_get p ''title'' of
        Some (JStr s) \<Rightarrow> if strip s = [] then fallback else s | _ \<Rightarrow> fallback)"

definition event_source_key :: "InputEvent \<Rightarrow> string \<times> string option \<times> int \<times> string" where
  "event_source_key event =
     (let p = ev_safe_projection event; work = projection_work p
      in (case work of Some w \<Rightarrow> ''work:'' @ w | None \<Rightarrow> ''event:'' @ ev_event_type event,
          work, projection_priority p, projection_title ''finite work update'' p))"

definition timer_source_key :: "TimerOccurrence \<Rightarrow> string \<times> string option \<times> int \<times> string" where
  "timer_source_key occurrence =
     (let p = tm_safe_projection occurrence
      in (''timer:'' @ tm_timer_id occurrence, projection_work p, projection_priority p,
          projection_title ''scheduled timer work'' p))"

section \<open>Materialisation\<close>

text \<open>
  What \<^verbatim>\<open>materialize_agenda\<close> reads of its source, an event or a timer occurrence: source key,
  work, priority, title, the two source IDs, correlation and policy binding.
\<close>

record trigger_source =
  so_key :: string
  so_work_id :: "string option"
  so_priority :: int
  so_title :: string
  so_event_id :: "string option"
  so_timer_occurrence_id :: "string option"
  so_correlation_id :: string
  so_policy_id :: "string option"
  so_policy_revision :: "int option"

definition event_source :: "InputEvent \<Rightarrow> trigger_source" where
  "event_source e = (case event_source_key e of (key, work, priority, title) \<Rightarrow>
     \<lparr>so_key = key, so_work_id = work, so_priority = priority, so_title = title,
      so_event_id = Some (ev_event_id e), so_timer_occurrence_id = None,
      so_correlation_id = ev_correlation_id e, so_policy_id = ev_policy_id e,
      so_policy_revision = ev_policy_revision e\<rparr>)"

definition timer_source :: "TimerOccurrence \<Rightarrow> trigger_source" where
  "timer_source t = (case timer_source_key t of (key, work, priority, title) \<Rightarrow>
     \<lparr>so_key = key, so_work_id = work, so_priority = priority, so_title = title,
      so_event_id = None, so_timer_occurrence_id = Some (tm_occurrence_id t),
      so_correlation_id = tm_correlation_id t, so_policy_id = tm_policy_id t,
      so_policy_revision = tm_policy_revision t\<rparr>)"

definition load_source :: "TriggerClaim \<Rightarrow> store \<Rightarrow> trigger_source result" where
  "load_source claim st =
     (if tc_source_record_type claim = ''input_event''
      then bindR (get_event st (tc_namespace claim) (tc_source_id claim)) (\<lambda>e. Inr (event_source e))
      else bindR (get_timer_occurrence st (tc_namespace claim) (tc_source_id claim))
             (\<lambda>t. Inr (timer_source t)))"

definition claim_table :: "TriggerClaim \<Rightarrow> store \<Rightarrow> trigger_row list" where
  "claim_table claim st =
     (if tc_source_record_type claim = ''input_event'' then st_triggers st
      else st_timer_triggers st)"

text \<open>The current row of a trigger claim, refused unless owner and fencing token still match.\<close>

definition require_trigger_claim :: "TriggerClaim \<Rightarrow> store \<Rightarrow> trigger_row result" where
  "require_trigger_claim claim st = checks
     [raise_if (tc_source_record_type claim \<notin> {''input_event'', ''timer_occurrence''})
        (ConflictError ''trigger source type is unsupported'')]
     (case find (trigger_at (tc_namespace claim) (tc_trigger_id claim)) (claim_table claim st) of
        None \<Rightarrow> Inl (ConflictError ''stale trigger owner or fencing token'')
      | Some r \<Rightarrow>
          if tr_state r \<noteq> TR_CLAIMED \<or> tr_lease_owner r \<noteq> Some (tc_lease_owner claim) \<or>
             tr_fencing_token r \<noteq> tc_fencing_token claim
          then Inl (ConflictError ''stale trigger owner or fencing token'') else Inr r)"

definition agenda_of_key :: "Namespace \<Rightarrow> string \<Rightarrow> store \<Rightarrow> agenda_row option" where
  "agenda_of_key namespace source_key st =
     find (\<lambda>r. gr_namespace r = namespace \<and> gr_source_key r = source_key) (st_agenda st)"

definition agenda_at :: "Namespace \<Rightarrow> string \<Rightarrow> agenda_row \<Rightarrow> bool" where
  "agenda_at namespace agenda_item_id r =
     (gr_namespace r = namespace \<and> gr_agenda_item_id r = agenda_item_id)"

text \<open>\<^verbatim>\<open>INSERT INTO agenda_runtime\<close>: the item ID and the source key are each unique.\<close>

definition insert_agenda_row :: "agenda_row \<Rightarrow> agenda_row list \<Rightarrow> agenda_row list result" where
  "insert_agenda_row row rows =
     (if \<exists>r \<in> set rows. gr_namespace r = gr_namespace row \<and>
           (gr_agenda_item_id r = gr_agenda_item_id row \<or> gr_source_key r = gr_source_key row)
      then Inl (IntegrityError ''agenda_runtime'') else Inr (rows @ [row]))"

definition complete_trigger :: "TriggerClaim \<Rightarrow> store \<Rightarrow> store result" where
  "complete_trigger claim st =
     (let target = (\<lambda>r. trigger_at (tc_namespace claim) (tc_trigger_id claim) r \<and>
            tr_lease_owner r = Some (tc_lease_owner claim) \<and>
            tr_fencing_token r = tc_fencing_token claim);
          upd = update_where target (\<lambda>r. r\<lparr>tr_state := TR_COMPLETED, tr_lease_owner := None,
            tr_lease_until := None, tr_revision := tr_revision r + 1\<rparr>)
      in checks
           [raise_if (row_count target (claim_table claim st) \<noteq> 1)
              (ConflictError ''stale trigger checkpoint was refused'')]
         (Inr (if tc_source_record_type claim = ''input_event''
               then st\<lparr>st_triggers := upd (st_triggers st)\<rparr>
               else st\<lparr>st_timer_triggers := upd (st_timer_triggers st)\<rparr>)))"

definition materialize_agenda ::
  "TriggerClaim \<Rightarrow> string \<Rightarrow> string \<Rightarrow> Principal \<Rightarrow> datetime \<Rightarrow> store
     \<Rightarrow> ((WakeCycle \<times> AgendaItem) \<times> store) result" where
  "materialize_agenda claim wake_cycle_id agenda_item_id actor occurred_at st =
     bindR (require_trigger_claim claim st) (\<lambda>_.
     bindR (load_source claim st) (\<lambda>source.
     let ns = tc_namespace claim;
         existing = agenda_of_key ns (so_key source) st;
         actual_agenda_id = (case existing of None \<Rightarrow> agenda_item_id | Some r \<Rightarrow> gr_agenda_item_id r);
         generation = (case existing of None \<Rightarrow> 1 | Some r \<Rightarrow> gr_generation r + 1);
         causes = (case existing of None \<Rightarrow> [tc_source_id claim]
           | Some r \<Rightarrow> gr_cause_ids r @ [tc_source_id claim])
     in checks [raise_if (has_dup causes)
          (ConflictError ''Agenda cause replay was not coalesced safely'')]
    (bindR (WakeCycle_init
       \<lparr>wk_namespace = ns, wk_wake_cycle_id = wake_cycle_id, wk_state = WK_RUNNING,
        wk_trigger_event_ids = (case so_event_id source of Some i \<Rightarrow> [i] | None \<Rightarrow> []),
        wk_agenda_item_ids = [actual_agenda_id], wk_actor = actor,
        wk_correlation_id = so_correlation_id source, wk_causation_id = Some (tc_source_id claim),
        wk_occurred_at = occurred_at, wk_revision = 1, wk_schema_version = SCHEMA_VERSION,
        wk_fencing_token = tc_fencing_token claim, wk_checkpoint_generation = generation,
        wk_trigger_timer_occurrence_ids =
          (case so_timer_occurrence_id source of Some i \<Rightarrow> [i] | None \<Rightarrow> []),
        wk_policy_id = so_policy_id source, wk_policy_revision = so_policy_revision source\<rparr>)
      (\<lambda>wake.
     bindR (insert_record (DWakeCycle wake) st) (\<lambda>st.
     bindR
       (case existing of
          None \<Rightarrow>
            bindR (AgendaItem_init
              \<lparr>ag_namespace = ns, ag_agenda_item_id = actual_agenda_id,
               ag_wake_cycle_id = wake_cycle_id, ag_source_event_id = so_event_id source,
               ag_work_id = so_work_id source, ag_title = so_title source,
               ag_state = AG_PENDING, ag_priority = so_priority source, ag_due_at = None,
               ag_actor = actor, ag_correlation_id = so_correlation_id source,
               ag_causation_id = wake_cycle_id, ag_occurred_at = occurred_at,
               ag_revision = 1, ag_schema_version = SCHEMA_VERSION, ag_generation = 1,
               ag_handled_generation = 0, ag_cause_ids = causes,
               ag_source_timer_occurrence_id = so_timer_occurrence_id source,
               ag_policy_id = so_policy_id source,
               ag_policy_revision = so_policy_revision source\<rparr>) (\<lambda>agenda.
            bindR (insert_record (DAgendaItem agenda) st) (\<lambda>st.
            bindR (insert_agenda_row
              \<lparr>gr_namespace = ns, gr_agenda_item_id = actual_agenda_id,
               gr_source_key = so_key source, gr_generation = 1, gr_handled_generation = 0,
               gr_cause_ids = causes, gr_state = AG_PENDING, gr_priority = so_priority source,
               gr_due_at = None, gr_lease_owner = None, gr_lease_until = None,
               gr_fencing_token = 0, gr_starvation_count = 0,
               gr_current_wake_cycle_id = wake_cycle_id, gr_revision = 1\<rparr> (st_agenda st))
              (\<lambda>rows. Inr (agenda, st\<lparr>st_agenda := rows\<rparr>))))
        | Some row \<Rightarrow>
            bindR (get_agenda_item st ns (gr_agenda_item_id row)) (\<lambda>current.
            let state = (if gr_state row = AG_SELECTED then AG_SELECTED else AG_PENDING)
            in bindR (AgendaItem_init (current
              \<lparr>ag_wake_cycle_id := wake_cycle_id, ag_source_event_id := so_event_id source,
               ag_source_timer_occurrence_id := so_timer_occurrence_id source,
               ag_state := state, ag_actor := actor,
               ag_correlation_id := so_correlation_id source,
               ag_causation_id := wake_cycle_id, ag_occurred_at := occurred_at,
               ag_revision := ag_revision current + 1, ag_generation := generation,
               ag_cause_ids := causes, ag_policy_id := so_policy_id source,
               ag_policy_revision := so_policy_revision source\<rparr>)) (\<lambda>agenda.
            bindR (update_record (ag_revision current) (DAgendaItem agenda) st) (\<lambda>st.
            Inr (agenda, st\<lparr>st_agenda := update_where (agenda_at ns (gr_agenda_item_id row))
              (\<lambda>r. r\<lparr>gr_generation := generation, gr_cause_ids := causes, gr_state := state,
                 gr_current_wake_cycle_id := wake_cycle_id, gr_revision := gr_revision r + 1\<rparr>)
              (st_agenda st)\<rparr>)))))
      (\<lambda>(agenda, st). bindR (complete_trigger claim st) (\<lambda>st. Inr ((wake, agenda), st))))))))"

section \<open>Claim and release\<close>

definition agenda_claimable :: "Namespace \<Rightarrow> datetime \<Rightarrow> agenda_row \<Rightarrow> bool" where
  "agenda_claimable namespace now r =
     (gr_namespace r = namespace \<and> gr_generation r > gr_handled_generation r \<and>
      (gr_state r = AG_PENDING \<or> (gr_state r = AG_SELECTED \<and> lease_before (gr_lease_until r) now)))"

text \<open>
  The attention order: starvation count and priority descending, items with a due time
  first, by due time, then by ID.
\<close>

definition attention_key :: "agenda_row \<Rightarrow> int \<times> int \<times> int \<times> int \<times> string" where
  "attention_key r =
     (- gr_starvation_count r, - gr_priority r,
      (case gr_due_at r of None \<Rightarrow> 1 | Some _ \<Rightarrow> 0),
      (case gr_due_at r of None \<Rightarrow> 0 | Some d \<Rightarrow> micros d), gr_agenda_item_id r)"

definition claim_agenda ::
  "Namespace \<Rightarrow> string \<Rightarrow> datetime \<Rightarrow> datetime \<Rightarrow> store \<Rightarrow> (AgendaClaim option \<times> store) result"
where
  "claim_agenda namespace owner now lease_until st =
     checks [chk (require_utc now ''datetime'')]
     (case select_first (agenda_claimable namespace now) attention_key (st_agenda st) of
        None \<Rightarrow> Inr (None, st)
      | Some row \<Rightarrow>
          let starved = update_where (\<lambda>r. gr_namespace r = namespace \<and>
                 gr_generation r > gr_handled_generation r \<and> gr_state r = AG_PENDING \<and>
                 gr_agenda_item_id r \<noteq> gr_agenda_item_id row)
                (\<lambda>r. r\<lparr>gr_starvation_count := gr_starvation_count r + 1\<rparr>) (st_agenda st);
              fencing = gr_fencing_token row + 1;
              target = (\<lambda>r. agenda_at namespace (gr_agenda_item_id row) r \<and>
                 gr_revision r = gr_revision row);
              rows = update_where target (\<lambda>r. r\<lparr>gr_state := AG_SELECTED,
                 gr_lease_owner := Some owner, gr_lease_until := Some lease_until,
                 gr_fencing_token := fencing, gr_starvation_count := 0,
                 gr_revision := gr_revision r + 1\<rparr>) starved
          in checks
               [chk (require_utc lease_until ''datetime''),
                raise_if (row_count target starved \<noteq> 1)
                  (ConflictError ''Agenda optimistic claim conflict'')]
             (bindR (get_agenda_item st namespace (gr_agenda_item_id row)) (\<lambda>current.
              bindR (AgendaItem_init (current\<lparr>ag_state := AG_SELECTED,
                 ag_revision := ag_revision current + 1\<rparr>)) (\<lambda>selected.
              bindR (update_record (ag_revision current) (DAgendaItem selected)
                 (st\<lparr>st_agenda := rows\<rparr>)) (\<lambda>st.
              bindR (AgendaClaim_init
                \<lparr>gl_namespace = namespace, gl_agenda_item = selected, gl_lease_owner = owner,
                 gl_lease_until = lease_until, gl_fencing_token = fencing,
                 gl_claimed_generation = gr_generation row, gl_schema_version = SCHEMA_VERSION\<rparr>)
              (\<lambda>claim. Inr (Some claim, st)))))))"

definition require_agenda_claim :: "AgendaClaim \<Rightarrow> store \<Rightarrow> agenda_row result" where
  "require_agenda_claim claim st =
     (case find (agenda_at (gl_namespace claim) (ag_agenda_item_id (gl_agenda_item claim)))
         (st_agenda st) of
        None \<Rightarrow> Inl (ConflictError ''stale Agenda owner or fencing token'')
      | Some r \<Rightarrow>
          if gr_state r \<noteq> AG_SELECTED \<or> gr_lease_owner r \<noteq> Some (gl_lease_owner claim) \<or>
             gr_fencing_token r \<noteq> gl_fencing_token claim
          then Inl (ConflictError ''stale Agenda owner or fencing token'') else Inr r)"

definition release_agenda :: "AgendaClaim \<Rightarrow> store \<Rightarrow> (unit \<times> store) result" where
  "release_agenda claim st =
     bindR (require_agenda_claim claim st) (\<lambda>row.
     let ns = gl_namespace claim; item = ag_agenda_item_id (gl_agenda_item claim);
         rows = update_where (\<lambda>r. agenda_at ns item r \<and>
             gr_fencing_token r = gl_fencing_token claim)
           (\<lambda>r. r\<lparr>gr_state := AG_PENDING, gr_lease_owner := None, gr_lease_until := None,
             gr_revision := gr_revision r + 1\<rparr>) (st_agenda st)
     in bindR (get_agenda_item st ns item) (\<lambda>current.
        bindR (AgendaItem_init (current\<lparr>ag_state := AG_PENDING,
           ag_revision := ag_revision current + 1, ag_generation := gr_generation row,
           ag_handled_generation := gr_handled_generation row\<rparr>)) (\<lambda>released.
        bindR (update_record (ag_revision current) (DAgendaItem released)
           (st\<lparr>st_agenda := rows\<rparr>)) (\<lambda>st. Inr ((), st)))))"

section \<open>Commit of a decision\<close>

text \<open>
  The extension point \<^verbatim>\<open>_prepare_semantic_decision\<close> returns its argument in this store, so it
  has no definition of its own.
\<close>

definition commit_semantic_decision ::
  "AgendaClaim \<Rightarrow> SemanticDecision \<Rightarrow> store \<Rightarrow> (unit \<times> store) result" where
  "commit_semantic_decision claim semantic st =
     bindR (require_agenda_claim claim st) (\<lambda>row.
     let ns = gl_namespace claim; item = ag_agenda_item_id (gl_agenda_item claim);
         decision = sd_decision semantic
     in checks
       [require_exact (dc_namespace decision) ns,
        raise_if (dc_agenda_item_id decision \<noteq> item)
          (ConflictError ''semantic decision cites a different Agenda item''),
        raise_if (dc_wake_cycle_id decision \<noteq> ag_wake_cycle_id (gl_agenda_item claim))
          (ConflictError ''semantic decision cites a different wake cycle'')]
    (bindR (insert_record (DDecision decision) st) (\<lambda>st.
     bindR
       (case sd_proposal semantic of
          None \<Rightarrow> Inr st
        | Some proposal \<Rightarrow> checks
            [raise_if (ep_decision_id proposal \<noteq> dc_decision_id decision)
               (ConflictError ''effect proposal decision binding drifted'')]
            (insert_record (DEffectProposal proposal) st)) (\<lambda>st.
     let current_generation = gr_generation row;
         handled = max (gr_handled_generation row) (gl_claimed_generation claim);
         final_state = (if current_generation > gl_claimed_generation claim then AG_PENDING
           else AG_COMPLETED);
         target = (\<lambda>r. agenda_at ns item r \<and> gr_lease_owner r = Some (gl_lease_owner claim) \<and>
           gr_fencing_token r = gl_fencing_token claim);
         rows = update_where target (\<lambda>r. r\<lparr>gr_handled_generation := handled,
           gr_state := final_state, gr_lease_owner := None, gr_lease_until := None,
           gr_revision := gr_revision r + 1\<rparr>) (st_agenda st)
     in checks
       [raise_if (row_count target (st_agenda st) \<noteq> 1)
          (ConflictError ''stale Agenda checkpoint was refused'')]
    (bindR (get_agenda_item st ns item) (\<lambda>current.
     bindR (AgendaItem_init (current\<lparr>ag_state := final_state,
        ag_revision := ag_revision current + 1, ag_generation := current_generation,
        ag_handled_generation := handled\<rparr>)) (\<lambda>completed.
     bindR (update_record (ag_revision current) (DAgendaItem completed)
        (st\<lparr>st_agenda := rows\<rparr>)) (\<lambda>st.
     bindR (get_wake_cycle st ns (dc_wake_cycle_id decision)) (\<lambda>wake.
     bindR (WakeCycle_init (wake\<lparr>wk_state := WK_COMPLETED,
        wk_revision := wk_revision wake + 1,
        wk_checkpoint_generation := gl_claimed_generation claim\<rparr>)) (\<lambda>finalized.
     bindR (update_record (wk_revision wake) (DWakeCycle finalized) st) (\<lambda>st.
     Inr ((), st))))))))))))"

definition pending_agenda_count :: "Namespace \<Rightarrow> store \<Rightarrow> nat" where
  "pending_agenda_count namespace st =
     row_count (\<lambda>r. gr_namespace r = namespace \<and> gr_generation r > gr_handled_generation r)
       (st_agenda st)"

end
