(* ===== verification/Approvals.thy ===== *)
theory Approvals
  imports Effects "HOL-Library.AList"
begin

text \<open>
  \<^verbatim>\<open>governance/approvals.py\<close>: the authority of a human, the check of an effect proposal
  against one exact Mandate revision, and the binding of one human decision to one
  immutable proposal revision.
\<close>

definition require_authoritative_human_role ::
  "Principal \<Rightarrow> HumanRole set \<Rightarrow> string list \<Rightarrow> unit result" where
  "require_authoritative_human_role human accepted_roles caller_supplied_role_ids =
     checks
       [(if caller_supplied_role_ids \<noteq> []
         then check_all
           [chk (canonical_role_ids caller_supplied_role_ids),
            Inl (AuthorizationError ''caller-supplied roles are never authoritative'')]
         else Inr ()),
        raise_if (pr_kind human \<noteq> HUMAN)
          (AuthorizationError ''operation requires a durable human principal''),
        raise_if (accepted_roles \<inter> set (pr_roles human) = {})
          (AuthorizationError ''human principal lacks an authoritative accepted role'')]
       (Inr ())"

section \<open>Effect proposals against the Mandate\<close>

text \<open>
  The one supported constraint is the boolean \<^verbatim>\<open>network\<close>.  The typed values are a dictionary:
  a later entry of the same key replaces the earlier value in its place.
\<close>

primrec typed_entries :: "frozen_json \<Rightarrow> (string \<times> bool) list \<Rightarrow> (string \<times> bool) list result" where
  "typed_entries [] typed = Inr typed"
| "typed_entries (e # es) typed =
     (if fst e \<noteq> ''network''
      then Inl (AuthorizationError ''effect constraint is not recognized'')
      else case snd e of
        JBool b \<Rightarrow> typed_entries es (AList.update (fst e) b typed)
      | _ \<Rightarrow> Inl (AuthorizationError ''effect constraint has the wrong value type''))"

definition typed_constraint_values :: "frozen_json \<Rightarrow> (string \<times> bool) list result" where
  "typed_constraint_values values = checks
     [raise_if (values = []) (AuthorizationError ''effect constraints must be explicit'')]
     (typed_entries values [])"

definition authorize_constraint_parameters :: "frozen_json \<Rightarrow> frozen_json \<Rightarrow> unit result" where
  "authorize_constraint_parameters proposal authoritative =
     bindR (typed_constraint_values proposal) (\<lambda>proposed_values.
     bindR (typed_constraint_values authoritative) (\<lambda>authoritative_values.
     check_all
       [raise_if (set (map fst proposed_values) \<noteq> set (map fst authoritative_values))
          (AuthorizationError ''effect constraint keys do not match the boundary''),
        raise_if (\<exists>key \<in> set (map fst authoritative_values).
            map_of proposed_values key \<noteq> map_of authoritative_values key)
          (AuthorizationError ''effect constraints conflict with the boundary'')]))"

definition authorize_effect_proposal :: "EffectProposal \<Rightarrow> Mandate \<Rightarrow> int \<Rightarrow> unit result" where
  "authorize_effect_proposal proposal mandate expected_mandate_revision = checks
     [require_exact (ep_namespace proposal) (md_namespace mandate),
      raise_if (md_revision mandate \<noteq> expected_mandate_revision)
        (RevisionMismatchError ''Mandate revision is stale'')]
     (case filter (\<lambda>b. eb_boundary_id b = ec_boundary_id (ep_constraints proposal))
         (md_effect_boundaries mandate) of
        [boundary] \<Rightarrow> check_all
          [raise_if (ep_effect_kind proposal \<noteq> eb_effect_kind boundary)
             (AuthorizationError ''effect kind is outside the authoritative boundary''),
           raise_if (ed_kind (ep_destination proposal) \<notin> set (eb_allowed_destination_kinds boundary))
             (AuthorizationError ''effect destination is outside the authoritative boundary''),
           raise_if (ep_action proposal \<notin> set (eb_allowed_actions boundary))
             (AuthorizationError ''effect action is outside the authoritative boundary''),
           authorize_constraint_parameters (ec_parameters (ep_constraints proposal))
             (eb_constraints boundary),
           raise_if (ep_state proposal \<noteq>
               (if eb_human_approval_required boundary then EP_PENDING_APPROVAL else EP_APPROVED))
             (AuthorizationError ''effect state does not satisfy the human approval policy'')]
      | _ \<Rightarrow> Inl (AuthorizationError ''effect does not name one authoritative boundary''))"

section \<open>Human approval\<close>

record ApprovalAuthorization =
  aa_namespace :: Namespace
  aa_proposal_id :: string
  aa_proposal_revision :: int
  aa_proposal_payload_digest :: string
  aa_proposal_digest :: string
  aa_approval_decision_id :: string
  aa_author_principal_id :: string
  aa_schema_version :: int

definition ApprovalAuthorization_init ::
  "ApprovalAuthorization \<Rightarrow> ApprovalAuthorization result" where
  "ApprovalAuthorization_init a = checks
     [chk (require_schema_version (aa_schema_version a)),
      require_colleague (aa_namespace a),
      chk (require_stable_id (aa_proposal_id a) ''proposal_id''),
      chk (require_revision (aa_proposal_revision a) ''proposal_revision''),
      chk (require_digest (aa_proposal_payload_digest a) ''proposal_payload_digest''),
      chk (require_digest (aa_proposal_digest a) ''proposal_digest''),
      chk (require_stable_id (aa_approval_decision_id a) ''approval_decision_id''),
      chk (require_stable_id (aa_author_principal_id a) ''author_principal_id'')]
     (Inr a)"

text \<open>The three sets of consumed values and the caller's roles of the keyword arguments.\<close>

record ApprovalContext =
  ac_consumed_decision_ids :: "string set"
  ac_consumed_idempotency_keys :: "string set"
  ac_consumed_proposal_revisions :: "(string \<times> int) set"
  ac_accepted_roles :: "HumanRole set"
  ac_caller_supplied_role_ids :: "string list"

definition default_approval_context :: ApprovalContext where
  "default_approval_context =
     \<lparr>ac_consumed_decision_ids = {}, ac_consumed_idempotency_keys = {},
      ac_consumed_proposal_revisions = {}, ac_accepted_roles = {TENANT_ADMIN, COLLEAGUE_USER},
      ac_caller_supplied_role_ids = []\<rparr>"

definition authorize_human_approval ::
  "EffectProposal \<Rightarrow> HumanApprovalDecision \<Rightarrow> datetime \<Rightarrow> ApprovalContext
     \<Rightarrow> ApprovalAuthorization result" where
  "authorize_human_approval proposal decision evaluated_at context = checks
     [chk (require_utc evaluated_at ''evaluated_at''),
      require_exact (ep_namespace proposal) (ha_namespace decision),
      require_authoritative_human_role (ha_author decision) (ac_accepted_roles context)
        (ac_caller_supplied_role_ids context),
      raise_if (ep_state proposal \<noteq> EP_PENDING_APPROVAL)
        (AuthorizationError ''proposal is not awaiting approval''),
      raise_if (ha_choice decision \<noteq> APPROVE)
        (AuthorizationError ''a rejected proposal cannot be authorized''),
      raise_if (ha_proposal_id decision \<noteq> ep_proposal_id proposal)
        (CoreInvariantError ''approval references the wrong proposal''),
      raise_if (ha_proposal_revision decision \<noteq> ep_revision proposal)
        (RevisionMismatchError ''approval references a stale proposal revision''),
      raise_if (ha_proposal_payload_digest decision \<noteq> ep_payload_digest proposal)
        (RevisionMismatchError ''approval payload binding does not match the proposal''),
      raise_if (ha_proposal_digest decision \<noteq> ep_proposal_digest proposal)
        (RevisionMismatchError ''approval binding does not match the complete proposal''),
      raise_if (ha_correlation_id decision \<noteq> ep_correlation_id proposal)
        (CoreInvariantError ''approval correlation does not match the proposal''),
      raise_if (ha_occurred_at decision < ep_occurred_at proposal)
        (CoreInvariantError ''approval cannot precede its proposal''),
      raise_if (ha_occurred_at decision > evaluated_at)
        (AuthorizationError ''future-dated approval is not authoritative''),
      raise_if (ha_valid_until decision > ec_valid_until (ep_constraints proposal))
        (AuthorizationError ''approval cannot extend proposal validity''),
      raise_if (evaluated_at > ec_valid_until (ep_constraints proposal) \<or>
          evaluated_at > ha_valid_until decision)
        (AuthorizationError ''approval or proposal validity has expired''),
      raise_if (ha_approval_decision_id decision \<in> ac_consumed_decision_ids context)
        (ReplayError ''approval decision was already consumed''),
      raise_if (ha_idempotency_key decision \<in> ac_consumed_idempotency_keys context)
        (ReplayError ''approval idempotency key was already consumed''),
      raise_if ((ep_proposal_id proposal, ep_revision proposal)
          \<in> ac_consumed_proposal_revisions context)
        (ReplayError ''proposal revision already has a consumed decision'')]
     (ApprovalAuthorization_init
       \<lparr>aa_namespace = ep_namespace proposal,
        aa_proposal_id = ep_proposal_id proposal,
        aa_proposal_revision = ep_revision proposal,
        aa_proposal_payload_digest = ep_payload_digest proposal,
        aa_proposal_digest = ep_proposal_digest proposal,
        aa_approval_decision_id = ha_approval_decision_id decision,
        aa_author_principal_id = pr_principal_id (ha_author decision),
        aa_schema_version = SCHEMA_VERSION\<rparr>)"

interpretation approval_authorization: replayable ApprovalAuthorization_init
  by unfold_locales (auto simp: ApprovalAuthorization_init_def checks_ok)

section \<open>A concrete proposal, Mandate and decision\<close>

definition acme_boundary :: EffectBoundary where
  "acme_boundary =
     \<lparr>eb_boundary_id = ''b1'', eb_effect_kind = REFERENCE_MESSAGE,
      eb_allowed_destination_kinds = [''reference''], eb_allowed_actions = [''send''],
      eb_constraints = [(''network'', JBool False)], eb_human_approval_required = True\<rparr>"

definition acme_mandate :: Mandate where
  "acme_mandate =
     \<lparr>md_namespace = acme_colleague, md_mandate_id = ''mandate'', md_mission = ''serve'',
      md_service_relationship = ''team'',
      md_responsibilities = [\<lparr>rd_responsibility_id = ''r1'', rd_description = ''triage'',
        rd_obligations = [''answer''], rd_completion_conditions = [''done'']\<rparr>],
      md_capabilities = [\<lparr>cg_capability_id = ''message'', cg_description = ''send messages''\<rparr>],
      md_constraints = [\<lparr>cn_constraint_id = ''c1'', cn_description = ''offline''\<rparr>],
      md_working_context = [], md_effect_boundaries = [acme_boundary], md_revision = 1,
      md_issued_by = acme_principal ''root'' HUMAN [TENANT_ADMIN], md_effective_at = utc 0,
      md_schema_version = 1\<rparr>"

definition acme_proposal_fields :: EffectProposal where
  "acme_proposal_fields =
     \<lparr>ep_namespace = acme_colleague, ep_proposal_id = ''p1'', ep_decision_id = ''d1'',
      ep_effect_kind = REFERENCE_MESSAGE,
      ep_destination = \<lparr>ed_kind = ''reference'', ed_target = ''inbox''\<rparr>, ep_action = ''send'',
      ep_payload = [(''text'', JStr ''hello'')], ep_safe_projection = [(''kind'', JStr ''message'')],
      ep_constraints = \<lparr>ec_boundary_id = ''b1'', ec_idempotency_key = ''k1'',
        ec_valid_until = utc (hours 1), ec_maximum_attempts = 3,
        ec_parameters = [(''network'', JBool False)]\<rparr>,
      ep_state = EP_PENDING_APPROVAL, ep_actor = acme_principal ''model'' MODEL [],
      ep_correlation_id = ''corr'', ep_causation_id = ''d1'', ep_occurred_at = utc 0,
      ep_revision = 1, ep_schema_version = 1, ep_mandate_id = Some ''mandate'',
      ep_mandate_revision = Some 1, ep_policy_id = None, ep_policy_revision = None,
      ep_payload_digest = [], ep_proposal_digest = []\<rparr>"

definition acme_proposal :: EffectProposal where
  "acme_proposal = acme_proposal_fields
     \<lparr>ep_payload_digest := payload_digest (ep_payload acme_proposal_fields),
      ep_proposal_digest := canonical_digest (proposal_envelope acme_proposal_fields)\<rparr>"

definition acme_approval :: HumanApprovalDecision where
  "acme_approval =
     \<lparr>ha_namespace = acme_colleague, ha_approval_decision_id = ''a1'', ha_proposal_id = ''p1'',
      ha_proposal_revision = 1,
      ha_proposal_payload_digest = ep_payload_digest acme_proposal,
      ha_proposal_digest = ep_proposal_digest acme_proposal, ha_choice = APPROVE,
      ha_author = acme_principal ''root'' HUMAN [TENANT_ADMIN], ha_idempotency_key = ''ak1'',
      ha_correlation_id = ''corr'', ha_causation_id = ''p1'', ha_occurred_at = utc 5,
      ha_valid_until = utc (minutes 30), ha_revision = 1, ha_schema_version = 1\<rparr>"

lemmas acme_id_defs = id_head_def id_tail_def causal_ok_def binding_ok_def

lemma acme_proposal_init: "EffectProposal_init acme_proposal_fields = Inr acme_proposal"
  by (simp add: EffectProposal_init_def acme_proposal_def acme_proposal_fields_def acme_defs
      ok_simps acme_id_defs hours_def minutes_def seconds_def)

lemma acme_proposal_valid: "effect_proposal.valid acme_proposal"
  by (rule effect_proposal.init_valid [OF acme_proposal_init])

lemma acme_approval_valid:
  "human_approval_decision.valid acme_approval" "principal.valid (ha_author acme_approval)"
  by (simp_all add: human_approval_decision.valid_def HumanApprovalDecision_init_def
      principal.valid_def acme_approval_def acme_proposal_def acme_defs ok_simps acme_id_defs
      hours_def minutes_def seconds_def)

section \<open>An authorised effect is inside its boundary\<close>

lemma require_authoritative_ok [ok_simps]:
  "require_authoritative_human_role h roles supplied = Inr u \<longleftrightarrow>
     supplied = [] \<and> pr_kind h = HUMAN \<and> roles \<inter> set (pr_roles h) \<noteq> {}"
  by (auto simp: require_authoritative_human_role_def ok_simps)

lemma typed_entries_keys:
  "typed_entries es typed = Inr out \<Longrightarrow> (\<forall>e \<in> set es. fst e = ''network'' \<and> (\<exists>b. snd e = JBool b))"
  by (induction es arbitrary: typed) (auto split: if_splits json.splits)

text \<open>A frozen object that passes holds the one boolean and nothing else.\<close>

lemma typed_constraint_values_ok:
  assumes "frozen_entries es"
  shows "typed_constraint_values es = Inr out \<longleftrightarrow>
    (\<exists>b. es = [(''network'', JBool b)] \<and> out = [(''network'', b)])"
proof
  assume out: "typed_constraint_values es = Inr out"
  then have "typed_entries es [] = Inr out" and ne: "es \<noteq> []"
    by (auto simp: typed_constraint_values_def ok_simps)
  then have all: "\<forall>e \<in> set es. fst e = ''network'' \<and> (\<exists>b. snd e = JBool b)"
    by (blast dest: typed_entries_keys)
  from ne obtain e rest where es: "es = e # rest" by (cases es) auto
  have "rest = []"
  proof (cases rest)
    case (Cons e' rest')
    then have "fst e = fst e'" using all es by simp
    then have "\<not> distinct (map fst es)" using es Cons by simp
    with assms show ?thesis by (simp add: frozen_entries_def)
  qed simp
  moreover obtain b where "e = (''network'', JBool b)"
    using all es by (cases e) auto
  ultimately show "\<exists>b. es = [(''network'', JBool b)] \<and> out = [(''network'', b)]"
    using out es by (simp add: typed_constraint_values_def checks_Cons)
qed (auto simp: typed_constraint_values_def)

lemma authorize_constraint_parameters_ok:
  assumes "frozen_entries p" "frozen_entries a"
  shows "authorize_constraint_parameters p a = Inr () \<longleftrightarrow> p = a \<and> (\<exists>b. p = [(''network'', JBool b)])"
  by (auto simp: authorize_constraint_parameters_def bindR_eq_Inr check_all_ok raise_if_ok
      typed_constraint_values_ok assms)

text \<open>C18. An effect proposal is authorised exactly when the Mandate it is checked against has
  the expected revision and namespace and exactly one boundary of the proposal's boundary
  ID, and that boundary allows its kind, destination kind and action, its parameters are
  the boundary's single network flag, and its state is the one the boundary's human
  approval flag demands.\<close>

theorem authorize_effect_proposal_iff:
  assumes "frozen_entries (ec_parameters (ep_constraints p))"
    and "\<forall>b \<in> set (md_effect_boundaries m). frozen_entries (eb_constraints b)"
  shows "authorize_effect_proposal p m r = Inr () \<longleftrightarrow>
    ep_namespace p = md_namespace m \<and> md_revision m = r \<and>
    (\<exists>b. filter (\<lambda>b. eb_boundary_id b = ec_boundary_id (ep_constraints p))
           (md_effect_boundaries m) = [b] \<and>
       ep_effect_kind p = eb_effect_kind b \<and>
       ed_kind (ep_destination p) \<in> set (eb_allowed_destination_kinds b) \<and>
       ep_action p \<in> set (eb_allowed_actions b) \<and>
       ec_parameters (ep_constraints p) = eb_constraints b \<and>
       (\<exists>flag. eb_constraints b = [(''network'', JBool flag)]) \<and>
       (ep_state p = EP_PENDING_APPROVAL \<and> eb_human_approval_required b \<or>
        ep_state p = EP_APPROVED \<and> \<not> eb_human_approval_required b))"
proof (cases "filter (\<lambda>b. eb_boundary_id b = ec_boundary_id (ep_constraints p))
    (md_effect_boundaries m)")
  case (Cons b bs)
  then have "b \<in> set (md_effect_boundaries m)"
    by (metis filter_is_subset list.set_intros(1) subset_iff)
  with assms have "authorize_constraint_parameters (ec_parameters (ep_constraints p))
      (eb_constraints b) = Inr () \<longleftrightarrow> ec_parameters (ep_constraints p) = eb_constraints b \<and>
      (\<exists>flag. eb_constraints b = [(''network'', JBool flag)])"
    by (subst authorize_constraint_parameters_ok) (auto simp: eq_commute)
  with Cons show ?thesis
    by (cases bs) (auto simp: authorize_effect_proposal_def ok_simps)
qed (auto simp: authorize_effect_proposal_def ok_simps)

theorem authorize_effect_proposal_iff_witness:
  "authorize_effect_proposal acme_proposal acme_mandate 1 = Inr () \<and>
   authorize_effect_proposal acme_proposal acme_mandate 2 \<noteq> Inr ()"
proof -
  have frozen: "frozen_entries [(''network'', JBool False)]"
    by (simp add: frozen_entries_def freeze_entry_def ok_simps bounded_text_def strip_def
        lstrip_def py_space_def Let_def)
  have "frozen_entries (ec_parameters (ep_constraints acme_proposal))"
    by (simp add: acme_proposal_def acme_proposal_fields_def frozen)
  moreover have "\<forall>b \<in> set (md_effect_boundaries acme_mandate). frozen_entries (eb_constraints b)"
    by (simp add: acme_mandate_def acme_boundary_def frozen)
  ultimately have iff: "authorize_effect_proposal acme_proposal acme_mandate r = Inr () \<longleftrightarrow> r = 1"
    for r
    by (subst authorize_effect_proposal_iff)
      (auto simp: acme_proposal_def acme_proposal_fields_def acme_mandate_def acme_boundary_def)
  then show ?thesis by simp
qed

section \<open>A human approval binds one proposal\<close>

text \<open>C17. A human approval authorises one proposal, exactly: between a valid proposal that awaits
  approval and a valid approving decision of a human with an accepted role (no caller-supplied
  roles), bound by ID, revision, both digests, namespace and correlation, made after the
  proposal, not after the evaluation, unexpired and not outliving the proposal, and with the
  decision, its idempotency key and the proposal revision all unconsumed.  The returned
  authorisation names that proposal, that decision and that author.\<close>

theorem authorize_human_approval_iff:
  assumes "effect_proposal.valid p" and "human_approval_decision.valid d"
    and "principal.valid (ha_author d)"
  shows "authorize_human_approval p d now cx = Inr a \<longleftrightarrow>
    ha_namespace d = ep_namespace p \<and> is_utc now \<and>
    ac_caller_supplied_role_ids cx = [] \<and>
    (\<exists>role \<in> set (pr_roles (ha_author d)). role \<in> ac_accepted_roles cx) \<and>
    ep_state p = EP_PENDING_APPROVAL \<and> ha_choice d = APPROVE \<and>
    ha_proposal_id d = ep_proposal_id p \<and> ha_proposal_revision d = ep_revision p \<and>
    ha_proposal_payload_digest d = payload_digest (ep_payload p) \<and>
    ha_proposal_digest d = canonical_digest (proposal_envelope p) \<and>
    ha_correlation_id d = ep_correlation_id p \<and>
    ep_occurred_at p \<le> ha_occurred_at d \<and> ha_occurred_at d \<le> now \<and>
    now \<le> ha_valid_until d \<and> ha_valid_until d \<le> ec_valid_until (ep_constraints p) \<and>
    ha_approval_decision_id d \<notin> ac_consumed_decision_ids cx \<and>
    ha_idempotency_key d \<notin> ac_consumed_idempotency_keys cx \<and>
    (ep_proposal_id p, ep_revision p) \<notin> ac_consumed_proposal_revisions cx \<and>
    a = \<lparr>aa_namespace = ep_namespace p, aa_proposal_id = ep_proposal_id p,
         aa_proposal_revision = ep_revision p,
         aa_proposal_payload_digest = ep_payload_digest p,
         aa_proposal_digest = ep_proposal_digest p,
         aa_approval_decision_id = ha_approval_decision_id d,
         aa_author_principal_id = pr_principal_id (ha_author d), aa_schema_version = 1\<rparr>"
proof -
  have digests: "ep_payload_digest p = payload_digest (ep_payload p)"
      "ep_proposal_digest p = canonical_digest (proposal_envelope p)"
    using assms(1) unfolding effect_proposal.valid_def EffectProposal_init_def
    by (auto simp only: checks_ok sum.inject) (metis EffectProposal.select_convs(21, 22)
        EffectProposal.surjective EffectProposal.update_convs(21, 22))+
  have valid: "matches_id (ep_proposal_id p)" "1 \<le> ep_revision p"
      "ns_scope (ep_namespace p) = COLLEAGUE" "matches_id (ha_approval_decision_id d)"
      "matches_id (pr_principal_id (ha_author d))" "pr_kind (ha_author d) = HUMAN"
    using assms by (auto simp: effect_proposal.valid_def EffectProposal_init_def
        human_approval_decision.valid_def HumanApprovalDecision_init_def principal.valid_def
        causal_ok_def ok_simps)
  show ?thesis
    using valid by (auto simp: authorize_human_approval_def ApprovalAuthorization_init_def
        ok_simps digests SCHEMA_VERSION_def)
qed


theorem authorize_human_approval_iff_witness:
  "returns (authorize_human_approval acme_proposal acme_approval (utc 10) default_approval_context) \<and>
   \<not> returns (authorize_human_approval acme_proposal acme_approval (utc (hours 1))
       default_approval_context)"
  using authorize_human_approval_iff [OF acme_proposal_valid acme_approval_valid]
  by (simp add: returns_iff)
    (simp add: acme_proposal_def acme_proposal_fields_def acme_approval_def acme_defs
      default_approval_context_def proposal_envelope_def minutes_def seconds_def hours_def)

end
