(* ===== verification/OutboxStore.thy ===== *)
theory OutboxStore
  imports AgendaStore Approvals
begin

text \<open>
  The outbox operations of \<^verbatim>\<open>adapters/sqlite/store.py\<close>: the atomic commit of a human
  approval with its first effect attempt and outbox row, claims under lease and fencing,
  dispatch, its outcome, recovery of expired dispatches and bounded reconciliation of
  ambiguous effects.
\<close>

section \<open>Approval and first attempt\<close>

definition ledger_lookup :: "store \<Rightarrow> Namespace \<Rightarrow> ledger_kind \<Rightarrow> string \<Rightarrow> string option" where
  "ledger_lookup st namespace kind key = map_option snd (st_ledger st (namespace, kind, key))"

definition attempt_of_approval ::
  "store \<Rightarrow> Namespace \<Rightarrow> string \<Rightarrow> EffectAttempt option result" where
  "attempt_of_approval st namespace approval_decision_id =
     (case find (\<lambda>r. ox_namespace r = namespace \<and>
           ox_approval_decision_id r = approval_decision_id) (st_outbox st) of
        None \<Rightarrow> Inr None
      | Some r \<Rightarrow> bindR (get_effect_attempt st namespace (ox_effect_attempt_id r)) (\<lambda>a. Inr (Some a)))"

definition get_approval_replay ::
  "store \<Rightarrow> Namespace \<Rightarrow> string \<Rightarrow> (HumanApprovalDecision \<times> EffectAttempt option) option result"
where
  "get_approval_replay st namespace idempotency_key =
     (case ledger_lookup st namespace LK_APPROVAL idempotency_key of
        None \<Rightarrow> Inr None
      | Some record_id \<Rightarrow>
          bindR (get_approval st namespace record_id) (\<lambda>decision.
          bindR (attempt_of_approval st namespace (ha_approval_decision_id decision)) (\<lambda>attempt.
          Inr (Some (decision, attempt)))))"

definition proposal_binding :: "EffectProposal \<Rightarrow> string" where
  "proposal_binding p = ep_proposal_id p @ '':'' @ int_text (ep_revision p)"

text \<open>\<^verbatim>\<open>INSERT INTO outbox\<close> under its primary key, its unique key and its foreign key.\<close>

definition insert_outbox :: "outbox_row \<Rightarrow> store \<Rightarrow> store result" where
  "insert_outbox row st =
     (if (\<exists>r \<in> set (st_outbox st). ox_namespace r = ox_namespace row \<and>
            (ox_outbox_id r = ox_outbox_id row \<or>
             ox_effect_idempotency_key r = ox_effect_idempotency_key row)) \<or>
         ox_maximum_attempts row \<le> 0 \<or>
         st_records st (ox_namespace row, RT_EFFECT_ATTEMPT, ox_effect_attempt_id row) = None
      then Inl (IntegrityError ''outbox'')
      else Inr (st\<lparr>st_outbox := st_outbox st @ [row]\<rparr>))"

definition first_attempt ::
  "Namespace \<Rightarrow> EffectProposal \<Rightarrow> HumanApprovalDecision \<Rightarrow> string \<Rightarrow> Principal \<Rightarrow> datetime
     \<Rightarrow> EffectAttempt" where
  "first_attempt namespace proposal decision effect_attempt_id service_actor occurred_at =
     \<lparr>ea_namespace = namespace, ea_effect_attempt_id = effect_attempt_id,
      ea_proposal_id = ep_proposal_id proposal, ea_proposal_revision = ep_revision proposal,
      ea_approval_decision_id = ha_approval_decision_id decision, ea_attempt_number = 1,
      ea_state = EA_PLANNED, ea_actor = service_actor,
      ea_correlation_id = ep_correlation_id proposal,
      ea_causation_id = ha_approval_decision_id decision, ea_occurred_at = occurred_at,
      ea_revision = 1, ea_schema_version = SCHEMA_VERSION\<rparr>"

definition first_outbox_row ::
  "Namespace \<Rightarrow> EffectProposal \<Rightarrow> HumanApprovalDecision \<Rightarrow> EffectAttempt \<Rightarrow> string \<Rightarrow> Principal
     \<Rightarrow> datetime \<Rightarrow> outbox_row" where
  "first_outbox_row namespace proposal decision attempt outbox_id service_actor occurred_at =
     \<lparr>ox_namespace = namespace, ox_outbox_id = outbox_id,
      ox_proposal_id = ep_proposal_id proposal,
      ox_approval_decision_id = ha_approval_decision_id decision,
      ox_effect_attempt_id = ea_effect_attempt_id attempt,
      ox_effect_idempotency_key = ec_idempotency_key (ep_constraints proposal),
      ox_state = OX_PENDING, ox_attempt_number = 1,
      ox_maximum_attempts = ec_maximum_attempts (ep_constraints proposal),
      ox_next_attempt_at = occurred_at, ox_lease_owner = None, ox_lease_until = None,
      ox_fencing_token = 0, ox_last_outcome = None,
      ox_actor_principal_id = pr_principal_id service_actor,
      ox_correlation_id = ep_correlation_id proposal,
      ox_causation_id = ha_approval_decision_id decision, ox_created_at = occurred_at,
      ox_updated_at = occurred_at, ox_revision = 1\<rparr>"

text \<open>
  The extension point \<^verbatim>\<open>_bind_effect_approval_authority\<close> does nothing in this store, so it has
  no definition of its own.
\<close>

definition commit_approval_and_attempt ::
  "Namespace \<Rightarrow> string \<Rightarrow> int \<Rightarrow> HumanApprovalDecision \<Rightarrow> string \<Rightarrow> string \<Rightarrow> Principal
     \<Rightarrow> datetime \<Rightarrow> store
     \<Rightarrow> ((HumanApprovalDecision \<times> EffectAttempt option \<times> bool) \<times> store) result"
where
  "commit_approval_and_attempt namespace mandate_id expected_mandate_revision decision
     effect_attempt_id outbox_id service_actor occurred_at st =
     checks [require_exact namespace (ha_namespace decision)]
     (case ledger_lookup st namespace LK_APPROVAL (ha_idempotency_key decision) of
        Some record_id \<Rightarrow>
          bindR (get_approval st namespace record_id) (\<lambda>existing.
          bindR (HumanApprovalDecision_init (decision\<lparr>ha_occurred_at := ha_occurred_at existing,
             ha_valid_until := ha_valid_until existing\<rparr>)) (\<lambda>again.
          if again \<noteq> existing then Inl (ConflictError ''approval idempotency replay drifted'')
          else bindR (attempt_of_approval st namespace (ha_approval_decision_id decision))
                 (\<lambda>attempt. Inr ((existing, attempt, False), st))))
      | None \<Rightarrow>
          bindR (get_proposal st namespace (ha_proposal_id decision)) (\<lambda>proposal.
          bindR (get_mandate st namespace mandate_id) (\<lambda>mandate.
          bindR (get_principal st (ns_tenant_id namespace)
            (pr_principal_id (ha_author decision))) (\<lambda>approver.
          checks
            [raise_if (approver \<noteq> ha_author decision)
               (PermissionDeniedError ''approval durable principal binding drifted''),
             raise_if (ep_mandate_id proposal \<noteq> Some (md_mandate_id mandate))
               (PermissionDeniedError ''proposal names a different Mandate''),
             raise_if (ep_mandate_revision proposal \<noteq> Some (md_revision mandate))
               (PermissionDeniedError ''proposal Mandate revision is stale''),
             authorize_effect_proposal proposal mandate expected_mandate_revision]
          (bindR (if ha_choice decision = APPROVE then Inr decision
             else HumanApprovalDecision_init (decision\<lparr>ha_choice := APPROVE\<rparr>))
             (\<lambda>authorization_decision.
          checks
            [chk (authorize_human_approval proposal authorization_decision occurred_at
               default_approval_context),
             raise_if (ledger_lookup st namespace LK_PROPOSAL_APPROVAL (proposal_binding proposal)
                 \<noteq> None)
               (ConflictError ''proposal revision already has a durable decision'')]
          (bindR (insert_record (DHumanApproval decision) st) (\<lambda>st.
           bindR (insert_ledger namespace LK_APPROVAL (ha_idempotency_key decision)
             RT_HUMAN_APPROVAL (ha_approval_decision_id decision) st) (\<lambda>st.
           bindR (insert_ledger namespace LK_PROPOSAL_APPROVAL (proposal_binding proposal)
             RT_HUMAN_APPROVAL (ha_approval_decision_id decision) st) (\<lambda>st.
           if ha_choice decision = REJECT then Inr ((decision, None, True), st)
           else
           bindR (EffectAttempt_init (first_attempt namespace proposal decision effect_attempt_id
             service_actor occurred_at)) (\<lambda>attempt.
           bindR (insert_record (DEffectAttempt attempt) st) (\<lambda>st.
           bindR (on_integrity (ConflictError ''effect replay or outbox identity conflict'')
             (bindR (insert_outbox (first_outbox_row namespace proposal decision attempt outbox_id
                service_actor occurred_at) st)
              (insert_ledger namespace LK_EFFECT (ec_idempotency_key (ep_constraints proposal))
                RT_EFFECT_ATTEMPT (ea_effect_attempt_id attempt)))) (\<lambda>st.
           Inr ((decision, Some attempt, True), st))))))))))))))"

section \<open>Claims\<close>

definition outbox_at :: "Namespace \<Rightarrow> string \<Rightarrow> outbox_row \<Rightarrow> bool" where
  "outbox_at namespace outbox_id r = (ox_namespace r = namespace \<and> ox_outbox_id r = outbox_id)"

fun reconciliation_stopped :: "last_outcome option \<Rightarrow> bool" where
  "reconciliation_stopped (Some (LO_STOPPED _)) = True"
| "reconciliation_stopped _ = False"

definition outbox_claimable ::
  "Namespace \<Rightarrow> datetime \<Rightarrow> outbox_state set \<Rightarrow> bool \<Rightarrow> outbox_row \<Rightarrow> bool" where
  "outbox_claimable namespace now source_states exclude_stopped r =
     (ox_namespace r = namespace \<and> ox_state r \<in> source_states \<and> ox_next_attempt_at r \<le> now \<and>
      (ox_lease_until r = None \<or> lease_before (ox_lease_until r) now) \<and>
      ox_attempt_number r \<le> ox_maximum_attempts r \<and>
      (exclude_stopped \<longrightarrow> \<not> reconciliation_stopped (ox_last_outcome r)))"

text \<open>\<^verbatim>\<open>OutboxClaim(...)\<close> from a row, with the owner, lease and token given.\<close>

definition claim_of_row ::
  "Namespace \<Rightarrow> outbox_row \<Rightarrow> string \<Rightarrow> datetime \<Rightarrow> int \<Rightarrow> OutboxClaim result" where
  "claim_of_row namespace row owner lease_until fencing = OutboxClaim_init
     \<lparr>oc_namespace = namespace, oc_outbox_id = ox_outbox_id row,
      oc_proposal_id = ox_proposal_id row,
      oc_approval_decision_id = ox_approval_decision_id row,
      oc_effect_attempt_id = ox_effect_attempt_id row,
      oc_effect_idempotency_key = ox_effect_idempotency_key row,
      oc_attempt_number = ox_attempt_number row, oc_lease_owner = owner,
      oc_lease_until = lease_until, oc_fencing_token = fencing,
      oc_schema_version = SCHEMA_VERSION\<rparr>"

definition claim_outbox_state ::
  "outbox_state set \<Rightarrow> outbox_state \<Rightarrow> bool \<Rightarrow> Namespace \<Rightarrow> string \<Rightarrow> datetime \<Rightarrow> datetime
     \<Rightarrow> store \<Rightarrow> (OutboxClaim option \<times> store) result" where
  "claim_outbox_state source_states target_state exclude_stopped namespace owner now lease_until
     st = checks [chk (require_utc now ''datetime'')]
     (case select_first (outbox_claimable namespace now source_states exclude_stopped)
         (\<lambda>r. (ox_next_attempt_at r, ox_outbox_id r)) (st_outbox st) of
        None \<Rightarrow> Inr (None, st)
      | Some row \<Rightarrow>
          let fencing = ox_fencing_token row + 1;
              target = (\<lambda>r. outbox_at namespace (ox_outbox_id row) r \<and>
                 ox_revision r = ox_revision row);
              rows = update_where target (\<lambda>r. r\<lparr>ox_state := target_state,
                 ox_lease_owner := Some owner, ox_lease_until := Some lease_until,
                 ox_fencing_token := fencing, ox_updated_at := now,
                 ox_revision := ox_revision r + 1\<rparr>) (st_outbox st)
          in checks
               [chk (require_utc lease_until ''datetime''),
                raise_if (row_count target (st_outbox st) \<noteq> 1)
                  (ConflictError ''outbox optimistic claim conflict'')]
             (bindR (claim_of_row namespace row owner lease_until fencing)
               (\<lambda>claim. Inr (Some claim, st\<lparr>st_outbox := rows\<rparr>))))"

definition claim_outbox ::
  "Namespace \<Rightarrow> string \<Rightarrow> datetime \<Rightarrow> datetime \<Rightarrow> store \<Rightarrow> (OutboxClaim option \<times> store) result"
where
  "claim_outbox = claim_outbox_state {OX_PENDING, OX_RETRY, OX_CLAIMED} OX_CLAIMED False"

definition claim_ambiguous ::
  "Namespace \<Rightarrow> string \<Rightarrow> datetime \<Rightarrow> datetime \<Rightarrow> store \<Rightarrow> (OutboxClaim option \<times> store) result"
where
  "claim_ambiguous =
     claim_outbox_state {OX_AMBIGUOUS, OX_AMBIGUOUS_CLAIMED} OX_AMBIGUOUS_CLAIMED True"

definition require_outbox_claim ::
  "OutboxClaim \<Rightarrow> outbox_state set \<Rightarrow> datetime option \<Rightarrow> store \<Rightarrow> outbox_row result" where
  "require_outbox_claim claim states evaluated_at st =
     (case find (outbox_at (oc_namespace claim) (oc_outbox_id claim)) (st_outbox st) of
        None \<Rightarrow> Inl (ConflictError ''stale or drifted outbox claim binding'')
      | Some row \<Rightarrow> checks
          [raise_if
             (ox_state row \<notin> states \<or>
              ox_lease_owner row \<noteq> Some (oc_lease_owner claim) \<or>
              ox_lease_until row \<noteq> Some (oc_lease_until claim) \<or>
              ox_fencing_token row \<noteq> oc_fencing_token claim \<or>
              ox_proposal_id row \<noteq> oc_proposal_id claim \<or>
              ox_approval_decision_id row \<noteq> oc_approval_decision_id claim \<or>
              ox_effect_attempt_id row \<noteq> oc_effect_attempt_id claim \<or>
              ox_effect_idempotency_key row \<noteq> oc_effect_idempotency_key claim \<or>
              ox_attempt_number row \<noteq> oc_attempt_number claim)
             (ConflictError ''stale or drifted outbox claim binding''),
           raise_if (case evaluated_at of None \<Rightarrow> False | Some t \<Rightarrow> oc_lease_until claim < t)
             (ConflictError ''outbox claim lease expired before finalization'')]
          (Inr row))"

text \<open>The complete binding of row, claim, proposal, approval, attempt, approver and Mandate.\<close>

definition bindings_valid ::
  "outbox_row \<Rightarrow> OutboxClaim \<Rightarrow> EffectProposal \<Rightarrow> HumanApprovalDecision \<Rightarrow> EffectAttempt
     \<Rightarrow> Principal \<Rightarrow> Mandate \<Rightarrow> bool" where
  "bindings_valid row claim proposal approval attempt approver mandate =
     (ox_proposal_id row = ep_proposal_id proposal \<and>
      ep_proposal_id proposal = ea_proposal_id attempt \<and>
      ox_approval_decision_id row = ha_approval_decision_id approval \<and>
      ha_approval_decision_id approval = ea_approval_decision_id attempt \<and>
      ox_effect_attempt_id row = ea_effect_attempt_id attempt \<and>
      ox_attempt_number row = ea_attempt_number attempt \<and>
      ox_maximum_attempts row = ec_maximum_attempts (ep_constraints proposal) \<and>
      ox_effect_idempotency_key row = ec_idempotency_key (ep_constraints proposal) \<and>
      ea_proposal_revision attempt = ep_revision proposal \<and>
      ha_proposal_id approval = ep_proposal_id proposal \<and>
      ha_proposal_revision approval = ep_revision proposal \<and>
      ha_proposal_payload_digest approval = ep_payload_digest proposal \<and>
      ha_proposal_digest approval = ep_proposal_digest proposal \<and>
      oc_proposal_id claim = ox_proposal_id row \<and>
      oc_approval_decision_id claim = ox_approval_decision_id row \<and>
      oc_effect_attempt_id claim = ox_effect_attempt_id row \<and>
      oc_effect_idempotency_key claim = ox_effect_idempotency_key row \<and>
      oc_attempt_number claim = ox_attempt_number row \<and>
      ep_mandate_id proposal = Some (md_mandate_id mandate) \<and>
      ep_mandate_revision proposal = Some (md_revision mandate) \<and>
      ha_author approval = approver \<and> pr_kind (ha_author approval) = HUMAN \<and>
      pr_kind (ea_actor attempt) = SERVICE \<and>
      ea_state attempt = (if ox_state row = OX_CLAIMED then EA_PLANNED else EA_AMBIGUOUS) \<and>
      ep_correlation_id proposal = ha_correlation_id approval \<and>
      ha_correlation_id approval = ea_correlation_id attempt \<and>
      ea_correlation_id attempt = ox_correlation_id row \<and>
      ha_causation_id approval = ep_proposal_id proposal \<and>
      ea_causation_id attempt = ha_approval_decision_id approval \<and>
      ox_causation_id row = ha_approval_decision_id approval \<and>
      ox_actor_principal_id row = pr_principal_id (ea_actor attempt))"

definition load_dispatch_bundle :: "OutboxClaim \<Rightarrow> string \<Rightarrow> store \<Rightarrow> DispatchBundle result" where
  "load_dispatch_bundle claim mandate_id st =
     bindR (require_outbox_claim claim {OX_CLAIMED, OX_AMBIGUOUS_CLAIMED} None st) (\<lambda>row.
     bindR (get_proposal st (oc_namespace claim) (oc_proposal_id claim)) (\<lambda>proposal.
     bindR (get_approval st (oc_namespace claim) (oc_approval_decision_id claim)) (\<lambda>approval.
     bindR (get_effect_attempt st (oc_namespace claim) (oc_effect_attempt_id claim)) (\<lambda>attempt.
     bindR (get_principal st (ns_tenant_id (oc_namespace claim))
       (pr_principal_id (ha_author approval))) (\<lambda>approver.
     bindR (get_mandate st (oc_namespace claim) mandate_id) (\<lambda>mandate.
     checks
       [raise_if (\<not> bindings_valid row claim proposal approval attempt approver mandate)
          (PermissionDeniedError ''complete durable outbox effect binding drifted'')]
       (DispatchBundle_init
         \<lparr>bd_proposal = proposal, bd_approval = approval, bd_attempt = attempt,
          bd_approver = approver, bd_effect_idempotency_key = ox_effect_idempotency_key row,
          bd_maximum_attempts = ox_maximum_attempts row,
          bd_schema_version = SCHEMA_VERSION\<rparr>)))))))"

text \<open>The rows an outbox update by claim reaches: the ID with the claim's owner and token.\<close>

definition claimed_row :: "OutboxClaim \<Rightarrow> outbox_row \<Rightarrow> bool" where
  "claimed_row claim r =
     (outbox_at (oc_namespace claim) (oc_outbox_id claim) r \<and>
      ox_lease_owner r = Some (oc_lease_owner claim) \<and>
      ox_fencing_token r = oc_fencing_token claim)"

definition mark_dispatch_started ::
  "OutboxClaim \<Rightarrow> datetime \<Rightarrow> store \<Rightarrow> (EffectAttempt \<times> store) result" where
  "mark_dispatch_started claim occurred_at st =
     bindR (require_outbox_claim claim {OX_CLAIMED} None st) (\<lambda>_.
     bindR (get_effect_attempt st (oc_namespace claim) (oc_effect_attempt_id claim)) (\<lambda>attempt.
     checks
       [raise_if (ea_state attempt \<noteq> EA_PLANNED)
          (ConflictError ''effect attempt is not dispatchable'')]
     (bindR (EffectAttempt_init (attempt\<lparr>ea_state := EA_STARTED, ea_occurred_at := occurred_at,
        ea_revision := ea_revision attempt + 1\<rparr>)) (\<lambda>started.
      bindR (update_record (ea_revision attempt) (DEffectAttempt started) st) (\<lambda>st.
      Inr (started, st\<lparr>st_outbox := update_where (claimed_row claim)
        (\<lambda>r. r\<lparr>ox_state := OX_DISPATCHING, ox_updated_at := occurred_at,
           ox_revision := ox_revision r + 1\<rparr>) (st_outbox st)\<rparr>))))))"

section \<open>Outcome of a dispatch\<close>

fun result_states ::
  "ChannelOutcomeKind \<Rightarrow> ActionResultState \<times> EffectAttemptState \<times> outbox_state" where
  "result_states CO_SUCCEEDED = (AR_SUCCEEDED, EA_SUCCEEDED, OX_COMPLETED)"
| "result_states CO_KNOWN_NOT_EXECUTED = (AR_NOT_EXECUTED, EA_FAILED, OX_TERMINAL_FAILED)"
| "result_states CO_RETRYABLE_FAILURE = (AR_RETRYABLE_FAILURE, EA_FAILED, OX_TERMINAL_FAILED)"
| "result_states CO_PERMANENT_FAILURE = (AR_PERMANENT_FAILURE, EA_FAILED, OX_TERMINAL_FAILED)"
| "result_states CO_AMBIGUOUS = (AR_AMBIGUOUS, EA_AMBIGUOUS, OX_AMBIGUOUS)"

definition create_retry_attempt ::
  "EffectAttempt \<Rightarrow> string \<Rightarrow> Principal \<Rightarrow> datetime \<Rightarrow> store \<Rightarrow> (EffectAttempt \<times> store) result"
where
  "create_retry_attempt previous next_attempt_id actor occurred_at st =
     bindR (EffectAttempt_init
       \<lparr>ea_namespace = ea_namespace previous, ea_effect_attempt_id = next_attempt_id,
        ea_proposal_id = ea_proposal_id previous,
        ea_proposal_revision = ea_proposal_revision previous,
        ea_approval_decision_id = ea_approval_decision_id previous,
        ea_attempt_number = ea_attempt_number previous + 1, ea_state = EA_PLANNED,
        ea_actor = actor, ea_correlation_id = ea_correlation_id previous,
        ea_causation_id = ea_approval_decision_id previous, ea_occurred_at = occurred_at,
        ea_revision = 1, ea_schema_version = SCHEMA_VERSION\<rparr>) (\<lambda>retry.
     bindR (insert_record (DEffectAttempt retry) st) (\<lambda>st. Inr (retry, st)))"

text \<open>
  The shared tail of \<^verbatim>\<open>_finalize_dispatch_in_transaction\<close> and \<^verbatim>\<open>reconcile_ambiguous\<close>: the
  attempt is completed and its action result inserted.
\<close>

definition complete_attempt ::
  "EffectAttempt \<Rightarrow> EffectAttemptState \<Rightarrow> ActionResultState \<Rightarrow> frozen_json \<Rightarrow> string \<Rightarrow> string
     \<Rightarrow> Namespace \<Rightarrow> Principal \<Rightarrow> datetime \<Rightarrow> store \<Rightarrow> (ActionResult \<times> store) result" where
  "complete_attempt attempt attempt_state result_state projection digest action_result_id
     namespace result_actor occurred_at st =
     bindR (EffectAttempt_init (attempt\<lparr>ea_state := attempt_state, ea_actor := result_actor,
       ea_occurred_at := occurred_at, ea_revision := ea_revision attempt + 1\<rparr>)) (\<lambda>completed.
     bindR (update_record (ea_revision attempt) (DEffectAttempt completed) st) (\<lambda>st.
     bindR (ActionResult_init
       \<lparr>ar_namespace = namespace, ar_action_result_id = action_result_id,
        ar_effect_attempt_id = ea_effect_attempt_id attempt, ar_state = result_state,
        ar_safe_projection = projection, ar_result_digest = digest, ar_actor = result_actor,
        ar_correlation_id = ea_correlation_id attempt,
        ar_causation_id = ea_effect_attempt_id attempt, ar_occurred_at = occurred_at,
        ar_revision = 1, ar_schema_version = SCHEMA_VERSION\<rparr>) (\<lambda>result.
     bindR (insert_record (DActionResult result) st) (\<lambda>st. Inr (result, st)))))"

text \<open>The columns both final handlers set; a dispatch also sets the actor.\<close>

definition finish_row ::
  "outbox_state \<Rightarrow> EffectAttempt \<Rightarrow> datetime \<Rightarrow> last_outcome \<Rightarrow> outbox_row \<Rightarrow> outbox_row" where
  "finish_row final_state current occurred_at outcome r = r\<lparr>ox_state := final_state,
     ox_effect_attempt_id := ea_effect_attempt_id current,
     ox_attempt_number := ea_attempt_number current, ox_next_attempt_at := occurred_at,
     ox_lease_owner := None, ox_lease_until := None, ox_last_outcome := Some outcome,
     ox_updated_at := occurred_at, ox_revision := ox_revision r + 1\<rparr>"

text \<open>
  The retry part of the two final handlers: the attempt the row points to afterwards, its
  final state, and the store with a retry attempt when there is one.
\<close>

definition dispatch_retry ::
  "ChannelOutcome \<Rightarrow> outbox_row \<Rightarrow> EffectAttempt \<Rightarrow> outbox_state \<Rightarrow> string option \<Rightarrow> Principal
     \<Rightarrow> datetime \<Rightarrow> store \<Rightarrow> (EffectAttempt \<times> outbox_state \<times> store) result" where
  "dispatch_retry outcome row attempt outbox_state next_attempt_id result_actor occurred_at st =
     (case next_attempt_id of
        None \<Rightarrow> Inr (attempt, outbox_state, st)
      | Some next_id \<Rightarrow> checks
          [raise_if (co_kind outcome \<notin> {CO_KNOWN_NOT_EXECUTED, CO_RETRYABLE_FAILURE})
             (ConflictError ''only confirmed-absent outcomes may be retried''),
           raise_if (ea_attempt_number attempt \<ge> ox_maximum_attempts row)
             (ConflictError ''effect retry would exceed its attempt limit'')]
          (bindR (create_retry_attempt attempt next_id result_actor occurred_at st)
            (\<lambda>(retry, st). Inr (retry, OX_RETRY, st))))"

definition reconciliation_retry ::
  "ReconciliationOutcome \<Rightarrow> outbox_row \<Rightarrow> EffectAttempt \<Rightarrow> string option \<Rightarrow> Principal
     \<Rightarrow> datetime \<Rightarrow> store \<Rightarrow> (EffectAttempt \<times> outbox_state \<times> store) result" where
  "reconciliation_retry outcome row attempt next_attempt_id result_actor occurred_at st =
     (if ro_kind outcome \<noteq> RK_CONFIRMED_ABSENT then Inr (attempt, OX_COMPLETED, st)
      else case next_attempt_id of
        None \<Rightarrow> Inr (attempt, OX_TERMINAL_FAILED, st)
      | Some next_id \<Rightarrow> checks
          [raise_if (ea_attempt_number attempt \<ge> ox_maximum_attempts row)
             (ConflictError ''reconciled retry exceeds the attempt limit'')]
          (bindR (create_retry_attempt attempt next_id result_actor occurred_at st)
            (\<lambda>(retry, st). Inr (retry, OX_RETRY, st))))"

definition finalize_dispatch_in_transaction ::
  "OutboxClaim \<Rightarrow> ChannelOutcome \<Rightarrow> string \<Rightarrow> Principal \<Rightarrow> datetime \<Rightarrow> string option
     \<Rightarrow> outbox_state \<Rightarrow> store \<Rightarrow> (ActionResult \<times> store) result" where
  "finalize_dispatch_in_transaction claim outcome action_result_id result_actor occurred_at
     next_attempt_id required_state st =
     bindR (require_outbox_claim claim {required_state} None st) (\<lambda>row.
     bindR (get_effect_attempt st (oc_namespace claim) (oc_effect_attempt_id claim)) (\<lambda>attempt.
     case result_states (co_kind outcome) of (result_state, attempt_state, outbox_state) \<Rightarrow>
     checks
       [raise_if (required_state = OX_DISPATCHING \<and> ea_state attempt \<noteq> EA_STARTED)
          (ConflictError ''dispatch outcome does not follow a started attempt'')]
     (bindR (complete_attempt attempt attempt_state result_state (co_safe_projection outcome)
        (co_result_digest outcome) action_result_id (oc_namespace claim) result_actor
        occurred_at st) (\<lambda>(result, st).
      bindR (dispatch_retry outcome row attempt outbox_state next_attempt_id result_actor
          occurred_at st)
        (\<lambda>(current, final_state, st).
      Inr (result, st\<lparr>st_outbox := update_where (claimed_row claim)
        (\<lambda>r. (finish_row final_state current occurred_at (LO_CHANNEL (co_kind outcome)) r)
           \<lparr>ox_actor_principal_id := pr_principal_id result_actor\<rparr>)
        (st_outbox st)\<rparr>))))))"

definition finalize_dispatch ::
  "OutboxClaim \<Rightarrow> ChannelOutcome \<Rightarrow> string \<Rightarrow> Principal \<Rightarrow> datetime \<Rightarrow> string option
     \<Rightarrow> store \<Rightarrow> (ActionResult \<times> store) result" where
  "finalize_dispatch claim outcome action_result_id result_actor occurred_at next_attempt_id =
     finalize_dispatch_in_transaction claim outcome action_result_id result_actor occurred_at
       next_attempt_id OX_DISPATCHING"

definition digest_text :: "string \<Rightarrow> string" where
  "digest_text value = ''sha256:'' @ sha256_hex (utf8 value)"

definition recover_expired_dispatches ::
  "Namespace \<Rightarrow> datetime \<Rightarrow> Principal \<Rightarrow> string \<Rightarrow> store \<Rightarrow> (int \<times> store) result" where
  "recover_expired_dispatches namespace now result_actor result_id st =
     checks [chk (require_utc now ''datetime'')]
     (case select_first (\<lambda>r. ox_namespace r = namespace \<and> ox_state r = OX_DISPATCHING \<and>
           lease_before (ox_lease_until r) now)
         (\<lambda>r. (the (ox_lease_until r), ox_outbox_id r)) (st_outbox st) of
        None \<Rightarrow> Inr (0, st)
      | Some row \<Rightarrow>
          (case (ox_lease_owner row, ox_lease_until row) of
             (Some owner, Some lease_until) \<Rightarrow>
               bindR (claim_of_row namespace row owner lease_until (ox_fencing_token row))
                 (\<lambda>claim.
               bindR (ChannelOutcome_init
                 \<lparr>co_kind = CO_AMBIGUOUS,
                  co_safe_projection = [(''outcome'', JStr ''restart_recovery_ambiguous'')],
                  co_result_digest = digest_text (''restart-recovery'' @ [CHR 0x00] @
                    oc_effect_idempotency_key claim),
                  co_schema_version = SCHEMA_VERSION\<rparr>) (\<lambda>synthetic.
               bindR (finalize_dispatch_in_transaction claim synthetic result_id result_actor
                 now None OX_DISPATCHING st) (\<lambda>(_, st). Inr (1, st))))
           | _ \<Rightarrow> Inl (CoreInvariantError
               ''lease_owner must be an explicit stable string ID'')))"

section \<open>Reconciliation\<close>

definition RECONCILIATION_MAX_BACKOFF :: timedelta where
  "RECONCILIATION_MAX_BACKOFF = seconds 30"

definition RECONCILIATION_MAX_CALLS :: int where
  "RECONCILIATION_MAX_CALLS = 8"

fun reconciliation_count :: "last_outcome option \<Rightarrow> int" where
  "reconciliation_count (Some (LO_WAIT n)) = (if n > 0 then n else 0)"
| "reconciliation_count (Some (LO_STOPPED n)) = (if n > 0 then n else 0)"
| "reconciliation_count _ = 0"

text \<open>
  The exponential delay.  The source multiplies float seconds by a power of two, which is
  exact, and rounds back to whole microseconds; below thirty seconds that is this integer.
\<close>

definition reconciliation_delay :: "timedelta \<Rightarrow> int \<Rightarrow> timedelta" where
  "reconciliation_delay base_delay count =
     min (base_delay * 2 ^ nat (count - 1)) RECONCILIATION_MAX_BACKOFF"

definition reconcile_unknown ::
  "OutboxClaim \<Rightarrow> outbox_row \<Rightarrow> datetime \<Rightarrow> datetime option \<Rightarrow> store
     \<Rightarrow> (ActionResult option \<times> store) result" where
  "reconcile_unknown claim row occurred_at next_reconciliation_at st =
     (let count = reconciliation_count (ox_last_outcome row) + 1;
          budget = min (ox_maximum_attempts row) RECONCILIATION_MAX_CALLS;
          stopped = (count \<ge> budget);
          base_delay = (case next_reconciliation_at of None \<Rightarrow> 0
            | Some t \<Rightarrow> dt_diff t occurred_at);
          next = dt_add occurred_at (reconciliation_delay base_delay count)
      in checks
           [raise_if (base_delay < 0 \<or> base_delay > RECONCILIATION_MAX_BACKOFF)
              (ConflictError ''reconciliation backoff is outside its durable bound''),
            chk (require_utc next ''datetime'')]
         (Inr (None, st\<lparr>st_outbox := update_where (claimed_row claim)
           (\<lambda>r. r\<lparr>ox_state := OX_AMBIGUOUS, ox_lease_owner := None, ox_lease_until := None,
              ox_next_attempt_at := next,
              ox_last_outcome := Some (if stopped then LO_STOPPED count else LO_WAIT count),
              ox_updated_at := occurred_at, ox_revision := ox_revision r + 1\<rparr>)
           (st_outbox st)\<rparr>)))"

definition reconcile_ambiguous ::
  "OutboxClaim \<Rightarrow> ReconciliationOutcome \<Rightarrow> string \<Rightarrow> Principal \<Rightarrow> datetime \<Rightarrow> string option
     \<Rightarrow> datetime option \<Rightarrow> store \<Rightarrow> (ActionResult option \<times> store) result" where
  "reconcile_ambiguous claim outcome action_result_id result_actor occurred_at next_attempt_id
     next_reconciliation_at st =
     bindR (require_outbox_claim claim {OX_AMBIGUOUS_CLAIMED} (Some occurred_at) st) (\<lambda>row.
     bindR (get_effect_attempt st (oc_namespace claim) (oc_effect_attempt_id claim)) (\<lambda>attempt.
     checks
       [raise_if (ea_state attempt \<noteq> EA_AMBIGUOUS)
          (ConflictError ''reconciliation requires an ambiguous attempt'')]
     (if ro_kind outcome = RK_STILL_UNKNOWN
      then reconcile_unknown claim row occurred_at next_reconciliation_at st
      else
      let applied = (ro_kind outcome = RK_CONFIRMED_APPLIED)
      in bindR (complete_attempt attempt (if applied then EA_SUCCEEDED else EA_FAILED)
           (if applied then AR_SUCCEEDED else AR_NOT_EXECUTED) (ro_safe_projection outcome)
           (ro_result_digest outcome) action_result_id (oc_namespace claim) result_actor
           occurred_at st) (\<lambda>(result, st).
         bindR (reconciliation_retry outcome row attempt next_attempt_id result_actor occurred_at
             st)
           (\<lambda>(current, final_state, st).
         Inr (Some result, st\<lparr>st_outbox := update_where (claimed_row claim)
           (finish_row final_state current occurred_at (LO_RECONCILED (ro_kind outcome)))
           (st_outbox st)\<rparr>))))))"

end
