(* ===== verification/StoreFrame.thy ===== *)
theory StoreFrame
  imports OutboxStore
begin

text \<open>
  What an operation of the store may change.  \<open>grows T\<close> is the frame shared by all of them:
  no record is ever deleted, only records of the types \<open>T\<close> are replaced, and those by a
  later revision; ledger entries are never removed or rebound; audit rows are only appended.
\<close>

lemmas outcome_simps = bindR_eq_Inr checks_ok check_all_ok raise_if_ok chk_ok Let_def

section \<open>Rows\<close>

lemma select_first_Some:
  assumes "select_first P k rows = Some r"
  shows "r \<in> set rows" "P r" "\<And>q. q \<in> set rows \<Longrightarrow> P q \<Longrightarrow> k r \<le> k q"
proof -
  let ?s = "sort_key k (filter P rows)"
  from assms obtain rs where s: "?s = r # rs"
    by (auto simp: select_first_def split: list.splits)
  have sets: "set ?s = {q \<in> set rows. P q}" by auto
  from s sets show "r \<in> set rows" "P r" by auto
  fix q assume "q \<in> set rows" "P q"
  then have "q \<in> set (r # rs)" using sets s by auto
  moreover have "sorted (map k (r # rs))" using s by (metis sorted_sort_key)
  ultimately show "k r \<le> k q" by auto
qed

lemma select_first_in: "select_first P k rows = Some r \<Longrightarrow> r \<in> set rows \<and> P r"
  by (blast dest: select_first_Some(1,2))

lemma select_first_None: "select_first P k rows = None \<longleftrightarrow> (\<forall>r \<in> set rows. \<not> P r)"
proof -
  have "sort_key k (filter P rows) = [] \<longleftrightarrow> filter P rows = []"
    by (metis length_0_conv length_sort)
  then show ?thesis
    by (auto simp: select_first_def filter_empty_conv split: list.splits)
qed

lemma set_update_where: "set (update_where P f rows) = (\<lambda>r. if P r then f r else r) ` set rows"
  by (auto simp: update_where_def)

lemma update_where_map:
  "(\<And>r. r \<in> set rows \<Longrightarrow> P r \<Longrightarrow> g (f r) = g r) \<Longrightarrow> map g (update_where P f rows) = map g rows"
  by (induction rows) (auto simp: update_where_def)

section \<open>The frame\<close>

text \<open>
  A sound record table: each record is stored under its own key, and the audit trail holds
  exactly one row for each of its revisions from the first to the current one, and no other.
\<close>

definition audit_key :: "audit_row \<Rightarrow> record_key \<times> int" where
  "audit_key a = ((au_namespace a, au_record_type a, au_record_id a), au_record_revision a)"

definition audit_revisions :: "store \<Rightarrow> record_key \<Rightarrow> int set" where
  "audit_revisions st k = {v. (k, v) \<in> audit_key ` set (st_audit st)}"

fun revisions_match :: "domain_record option \<Rightarrow> record_key \<Rightarrow> int set \<Rightarrow> bool" where
  "revisions_match None k vs \<longleftrightarrow> vs = {}"
| "revisions_match (Some r) k vs \<longleftrightarrow> record_key r = k \<and>
     (\<exists>first. 1 \<le> first \<and> first \<le> record_revision r \<and> vs = {first..record_revision r})"

definition sound :: "store \<Rightarrow> bool" where
  "sound st \<longleftrightarrow> distinct (map audit_key (st_audit st)) \<and>
     (\<forall>k. revisions_match (st_records st k) k (audit_revisions st k))"

lemma sound_at: "sound st \<Longrightarrow> revisions_match (st_records st k) k (audit_revisions st k)"
  unfolding sound_def by blast

lemma audit_revisions_rows [simp]:
  "audit_revisions (st\<lparr>st_triggers := a\<rparr>) = audit_revisions st"
  "audit_revisions (st\<lparr>st_timer_triggers := b\<rparr>) = audit_revisions st"
  "audit_revisions (st\<lparr>st_agenda := c\<rparr>) = audit_revisions st"
  "audit_revisions (st\<lparr>st_outbox := d\<rparr>) = audit_revisions st"
  "audit_revisions (st\<lparr>st_ledger := l\<rparr>) = audit_revisions st"
  "audit_revisions (st\<lparr>st_records := m\<rparr>) = audit_revisions st"
  by (auto simp add: audit_revisions_def)

lemma sound_rows [simp]:
  "sound (st\<lparr>st_triggers := a\<rparr>) = sound st" "sound (st\<lparr>st_timer_triggers := b\<rparr>) = sound st"
  "sound (st\<lparr>st_agenda := c\<rparr>) = sound st" "sound (st\<lparr>st_outbox := d\<rparr>) = sound st"
  "sound (st\<lparr>st_ledger := l\<rparr>) = sound st"
  by (simp_all add: sound_def del: split_paired_All)

lemma sound_keyed: "sound st \<Longrightarrow> st_records st k = Some r \<Longrightarrow> record_key r = k"
  using sound_at [of st k] by simp

definition grows :: "RecordType set \<Rightarrow> store \<Rightarrow> store \<Rightarrow> bool" where
  "grows T st st' \<longleftrightarrow>
     (\<forall>k r. st_records st k = Some r \<longrightarrow> (\<exists>r'. st_records st' k = Some r' \<and>
        record_revision r \<le> record_revision r' \<and> (fst (snd k) \<notin> T \<longrightarrow> r' = r))) \<and>
     (\<forall>k r. st_records st' k = Some r \<longrightarrow> st_records st k = Some r \<or> record_key r = k) \<and>
     st_ledger st \<subseteq>\<^sub>m st_ledger st' \<and> (\<exists>rows. st_audit st' = st_audit st @ rows) \<and>
     (sound st \<longrightarrow> sound st')"

named_theorems frame_intros \<open>operations stay inside the frame\<close>

lemma grows_refl [simp, intro]: "grows T st st"
  by (auto simp: grows_def)

lemma grows_trans [trans]:
  assumes "grows T st st1" and "grows T st1 st2" shows "grows T st st2"
  unfolding grows_def
proof (intro conjI allI impI)
  fix k r assume "st_records st k = Some r"
  with assms(1) obtain r1 where r1: "st_records st1 k = Some r1"
      "record_revision r \<le> record_revision r1" "fst (snd k) \<notin> T \<longrightarrow> r1 = r"
    unfolding grows_def by blast
  with assms(2) obtain r2 where "st_records st2 k = Some r2"
      "record_revision r1 \<le> record_revision r2" "fst (snd k) \<notin> T \<longrightarrow> r2 = r1"
    unfolding grows_def by blast
  with r1 show "\<exists>r'. st_records st2 k = Some r' \<and> record_revision r \<le> record_revision r' \<and>
      (fst (snd k) \<notin> T \<longrightarrow> r' = r)"
    by (intro exI [of _ r2]) auto
next
  fix k r assume "st_records st2 k = Some r"
  with assms show "st_records st k = Some r \<or> record_key r = k"
    unfolding grows_def by blast
next
  show "st_ledger st \<subseteq>\<^sub>m st_ledger st2"
    using assms unfolding grows_def by (blast intro: map_le_trans)
  show "\<exists>rows. st_audit st2 = st_audit st @ rows" "sound st \<Longrightarrow> sound st2"
    using assms unfolding grows_def by auto
qed

lemma grows_mono: "grows S st st' \<Longrightarrow> S \<subseteq> T \<Longrightarrow> grows T st st'"
  unfolding grows_def by (meson subsetD)

lemma grows_keeps:
  "grows T st st' \<Longrightarrow> st_records st (n, t, i) = Some r \<Longrightarrow> t \<notin> T \<Longrightarrow>
     st_records st' (n, t, i) = Some r"
  unfolding grows_def by fastforce

lemma grows_keys:
  "grows T st st' \<Longrightarrow> st_records st' k = Some r \<Longrightarrow> st_records st k = Some r \<or> record_key r = k"
  unfolding grows_def by blast

lemma grows_rows [simp]:
  "grows T st (st'\<lparr>st_triggers := a\<rparr>) = grows T st st'"
  "grows T st (st'\<lparr>st_timer_triggers := b\<rparr>) = grows T st st'"
  "grows T st (st'\<lparr>st_agenda := c\<rparr>) = grows T st st'"
  "grows T st (st'\<lparr>st_outbox := d\<rparr>) = grows T st st'"
  "grows T (st\<lparr>st_agenda := c\<rparr>) st' = grows T st st'"
  "grows T (st\<lparr>st_outbox := d\<rparr>) st' = grows T st st'"
  by (simp_all add: grows_def)

text \<open>The tables other than records, audit and ledger, which the primitives leave alone.\<close>

definition rows_of :: "store \<Rightarrow> trigger_row list \<times> trigger_row list \<times> agenda_row list \<times> outbox_row list"
  where "rows_of st = (st_triggers st, st_timer_triggers st, st_agenda st, st_outbox st)"

lemma insert_audit_result:
  "insert_audit rec a c k t st = Inr st' \<Longrightarrow>
     \<exists>row. st' = st\<lparr>st_audit := st_audit st @ [row]\<rparr> \<and> 1 \<le> record_revision rec \<and>
       (au_namespace row, au_record_type row, au_record_id row) = record_key rec \<and>
       au_record_revision row = record_revision rec \<and>
       (\<forall>b \<in> set (st_audit st). au_namespace b = au_namespace row \<longrightarrow>
         (au_record_type b, au_record_id b, au_record_revision b) \<noteq>
         (au_record_type row, au_record_id row, au_record_revision row))"
  by (auto simp: insert_audit_def record_key_def Let_def split: prod.splits if_splits)

text \<open>One step of the record table: \<open>before\<close> is what the key held, \<open>rec\<close> what it holds now.\<close>

definition writes :: "domain_record option \<Rightarrow> domain_record \<Rightarrow> store \<Rightarrow> store \<Rightarrow> bool" where
  "writes before rec st st' \<longleftrightarrow> st_records st (record_key rec) = before \<and>
     1 \<le> record_revision rec \<and>
     (\<exists>row. st' = st\<lparr>st_records := (st_records st)(record_key rec \<mapsto> rec),
          st_audit := st_audit st @ [row]\<rparr> \<and>
       (au_namespace row, au_record_type row, au_record_id row) = record_key rec \<and>
       au_record_revision row = record_revision rec \<and>
       (\<forall>b \<in> set (st_audit st). au_namespace b = au_namespace row \<longrightarrow>
         (au_record_type b, au_record_id b, au_record_revision b) \<noteq>
         (au_record_type row, au_record_id row, au_record_revision row)))"

lemma insert_record_as_writes:
  assumes "insert_record_as actor c k t rec st = Inr st'"
  shows "writes None rec st st'"
  using assms
  by (auto simp: insert_record_as_def writes_def outcome_simps
      split: option.splits sum.splits dest!: insert_audit_result)

lemma insert_record_writes: "insert_record rec st = Inr st' \<Longrightarrow> writes None rec st st'"
  by (simp add: insert_record_def insert_record_as_writes)

lemma update_record_writes:
  assumes "update_record n rec st = Inr st'"
  shows "\<exists>old. writes (Some old) rec st st' \<and> record_revision rec = record_revision old + 1 \<and>
    \<not> snd (snd (record_identity rec)) \<and> record_revision old = n"
  using assms
  by (auto simp: update_record_def writes_def outcome_simps
      split: option.splits dest!: insert_audit_result)

lemma writes_rows: "writes b rec st st' \<Longrightarrow> rows_of st' = rows_of st \<and> st_ledger st' = st_ledger st"
  by (auto simp: writes_def rows_of_def)

lemma writes_records:
  "writes b rec st st' \<Longrightarrow> st_records st' = (st_records st)(record_key rec \<mapsto> rec)"
  by (auto simp: writes_def)

lemma writes_sound:
  assumes w: "writes before rec st st'" and "sound st"
    and step: "\<And>old. before = Some old \<Longrightarrow> record_revision rec = record_revision old + 1"
  shows "sound st'"
proof -
  let ?k = "record_key rec" and ?v = "record_revision rec"
  from w obtain row where st': "st_records st' = (st_records st)(?k \<mapsto> rec)"
      "st_audit st' = st_audit st @ [row]" and row: "audit_key row = (?k, ?v)"
    and new: "audit_key row \<notin> audit_key ` set (st_audit st)"
    and before: "st_records st ?k = before" and pos: "1 \<le> ?v"
    unfolding writes_def by (fastforce simp: audit_key_def)
  have revs: "audit_revisions st' k = audit_revisions st k \<union> (if k = ?k then {?v} else {})" for k
    by (auto simp: audit_revisions_def st' row)
  have "revisions_match (st_records st' k) k (audit_revisions st' k)" for k
  proof (cases "k = ?k")
    case False
    with sound_at [OF \<open>sound st\<close>, of k] show ?thesis by (simp add: st' revs)
  next
    case True
    have "\<exists>first. 1 \<le> first \<and> first \<le> ?v \<and> audit_revisions st' ?k = {first..?v}"
    proof (cases before)
      case None
      with sound_at [OF \<open>sound st\<close>, of ?k] before have "audit_revisions st ?k = {}" by simp
      with pos show ?thesis by (intro exI [of _ ?v]) (simp add: revs)
    next
      case (Some old)
      with sound_at [OF \<open>sound st\<close>, of ?k] before obtain first where
          "1 \<le> first" "first \<le> record_revision old"
          "audit_revisions st ?k = {first..record_revision old}"
        by auto
      with step [OF Some] show ?thesis
        by (intro exI [of _ first]) (auto simp: revs)
    qed
    with True show ?thesis by (simp add: st')
  qed
  moreover have "distinct (map audit_key (st_audit st'))"
    using \<open>sound st\<close> new by (simp add: sound_def st')
  ultimately show ?thesis by (simp add: sound_def)
qed

lemma insert_record_as_grows [frame_intros]:
  assumes "insert_record_as a c k t rec st = Inr st'" shows "grows T st st'"
  using insert_record_as_writes [OF assms] writes_sound [OF insert_record_as_writes [OF assms]]
  by (auto simp: grows_def writes_def split: if_split_asm)

lemma insert_record_grows [frame_intros]:
  "insert_record rec st = Inr st' \<Longrightarrow> grows T st st'"
  by (simp add: insert_record_def insert_record_as_grows)

lemma update_record_grows:
  assumes "update_record n rec st = Inr st'" and "fst (record_identity rec) \<in> T"
  shows "grows T st st'"
proof -
  from update_record_writes [OF assms(1)] obtain old where
    w: "writes (Some old) rec st st'" "record_revision rec = record_revision old + 1" by blast
  with writes_sound [OF w(1)] assms(2) show ?thesis
    by (auto simp: grows_def writes_def record_key_def split: if_split_asm)
qed

lemma insert_ledger_result:
  "insert_ledger n kind key t i st = Inr st' \<longleftrightarrow> st_ledger st (n, kind, key) = None \<and>
     st_records st (n, t, i) \<noteq> None \<and>
     st' = st\<lparr>st_ledger := (st_ledger st)((n, kind, key) \<mapsto> (t, i))\<rparr>"
  by (cases "st_ledger st (n, kind, key)") (auto simp: insert_ledger_def)

lemma insert_ledger_grows [frame_intros]:
  "insert_ledger n kind key t i st = Inr st' \<Longrightarrow> grows T st st'"
  by (auto simp: insert_ledger_result grows_def map_le_def)

lemma on_integrity_ok [simp]: "on_integrity e m = Inr x \<longleftrightarrow> m = Inr x"
  by (auto simp: on_integrity_def split: sum.splits exc.splits)

end
