(* ===== verification/StoreEffects.thy ===== *)
theory StoreEffects
  imports StoreFrame
begin

text \<open>
  The effect of each handler of the store on each table, as one lemma per handler: the frame
  of its record writes, and its new rows.  The step relation and its invariants rest on
  these lemmas only.
\<close>

lemma update_record_rows:
  "update_record n rec st = Inr st' \<Longrightarrow> rows_of st' = rows_of st \<and> st_ledger st' = st_ledger st"
  by (auto dest!: update_record_writes dest: writes_rows)

lemma insert_record_rows:
  "insert_record rec st = Inr st' \<Longrightarrow> rows_of st' = rows_of st \<and> st_ledger st' = st_ledger st"
  by (auto dest!: insert_record_writes writes_rows)

lemma insert_record_as_rows:
  "insert_record_as a c k t rec st = Inr st' \<Longrightarrow>
     rows_of st' = rows_of st \<and> st_ledger st' = st_ledger st"
  by (auto dest!: insert_record_as_writes writes_rows)

lemma insert_principals_frame:
  "insert_principals n a c t ps st = Inr st' \<Longrightarrow> grows T st st' \<and> rows_of st' = rows_of st"
proof (induction ps arbitrary: st)
  case (Cons p ps)
  then obtain st1 where st1: "insert_record_as (Some a) (Some c) None (Some t) (DPrincipal p) st = Inr st1"
      "insert_principals n a c t ps st1 = Inr st'"
    by (auto simp: bindR_eq_Inr split: if_splits)
  then show ?case
    using Cons.IH [OF st1(2)] insert_record_as_rows [OF st1(1)]
      insert_record_as_grows [OF st1(1)] grows_trans by metis
qed simp

lemma bootstrap_effect:
  assumes "bootstrap n ps pf md fw a c t st = Inr (x, st')"
  shows "grows T st st'" and "rows_of st' = rows_of st"
  using assms
  by (auto simp: bootstrap_def outcome_simps wrong_type_def
      split: option.splits domain_record.splits if_splits
      dest!: insert_principals_frame [where T = T])
    (metis insert_record_as_grows insert_record_grows grows_trans insert_record_as_rows
      insert_record_rows)+

lemma insert_ledger_rows:
  "insert_ledger n kd k t i st = Inr st' \<Longrightarrow> rows_of st' = rows_of st \<and> st_records st' = st_records st"
  by (auto simp: insert_ledger_result rows_of_def)

lemma rows_of_eq: "rows_of a = rows_of b \<longleftrightarrow> st_triggers a = st_triggers b \<and>
    st_timer_triggers a = st_timer_triggers b \<and> st_agenda a = st_agenda b \<and>
    st_outbox a = st_outbox b"
  by (auto simp: rows_of_def)

text \<open>The chain of record writes of a handler, from its start to a later state.\<close>

lemma chain_insert: "insert_record rec st1 = Inr st2 \<Longrightarrow> grows T st st1 \<Longrightarrow> grows T st st2"
  and chain_ledger: "insert_ledger n kd k t i st1 = Inr st2 \<Longrightarrow> grows T st st1 \<Longrightarrow> grows T st st2"
  and chain_update: "update_record v rec st1 = Inr st2 \<Longrightarrow> grows T st st1 \<Longrightarrow>
    fst (record_identity rec) \<in> T \<Longrightarrow> grows T st st2"
  by (blast intro: grows_trans insert_record_grows insert_ledger_grows update_record_grows)+

lemmas chain = chain_insert chain_ledger chain_update

lemmas row_dests = insert_record_rows update_record_rows insert_ledger_rows

lemma ingest_event_grows:
  assumes "ingest_event e key tid st = Inr (x, st')" shows "grows T st st'"
  using assms
  by (auto simp: ingest_event_def outcome_simps split: option.splits if_splits elim!: chain)

lemma ingest_event_rows:
  assumes "ingest_event e key tid st = Inr (x, st')"
  shows "st_timer_triggers st' = st_timer_triggers st" "st_agenda st' = st_agenda st"
    "st_outbox st' = st_outbox st"
    "st_triggers st' = st_triggers st \<or>
      insert_trigger (event_trigger_row e tid) (st_triggers st) = Inr (st_triggers st')"
  using assms
  by (auto simp: ingest_event_def outcome_simps rows_of_eq split: option.splits if_splits
      dest!: row_dests)

lemma ingest_timer_grows:
  assumes "ingest_timer e key tid st = Inr (x, st')" shows "grows T st st'"
  using assms
  by (auto simp: ingest_timer_def outcome_simps split: option.splits if_splits elim!: chain)

lemma ingest_timer_rows:
  assumes "ingest_timer e key tid st = Inr (x, st')"
  shows "st_triggers st' = st_triggers st" "st_agenda st' = st_agenda st"
    "st_outbox st' = st_outbox st"
    "st_timer_triggers st' = st_timer_triggers st \<or>
      insert_trigger (timer_trigger_row e tid) (st_timer_triggers st) = Inr (st_timer_triggers st')"
  using assms
  by (auto simp: ingest_timer_def outcome_simps rows_of_eq split: option.splits if_splits
      dest!: row_dests)

lemma claim_trigger_effect:
  assumes "claim_trigger n owner now lease st = Inr (x, st')"
  shows "grows T st st'" and "st_records st' = st_records st"
    and "st_agenda st' = st_agenda st" "st_outbox st' = st_outbox st"
  using assms
  by (auto simp: claim_trigger_def outcome_simps split: option.splits if_splits)

lemma complete_trigger_effect:
  assumes "complete_trigger claim st = Inr st'"
  shows "grows T st1 st' = grows T st1 st" and "st_records st' = st_records st"
    and "st_agenda st' = st_agenda st" "st_outbox st' = st_outbox st"
  using assms by (auto simp: complete_trigger_def outcome_simps split: if_splits)

lemma materialize_grows:
  assumes "materialize_agenda claim wid aid actor t st = Inr (x, st')"
  shows "grows {RT_AGENDA_ITEM} st st'"
  using assms
  by (auto simp: materialize_agenda_def outcome_simps complete_trigger_effect
      split: option.splits elim!: chain)

lemma materialize_outbox:
  assumes "materialize_agenda claim wid aid actor t st = Inr (x, st')"
  shows "st_outbox st' = st_outbox st"
  using assms
  by (auto simp: materialize_agenda_def outcome_simps complete_trigger_effect rows_of_eq
      split: option.splits dest!: row_dests)

lemma claim_agenda_grows:
  assumes "claim_agenda n owner now lease st = Inr (x, st')"
  shows "grows {RT_AGENDA_ITEM} st st'"
  using assms
  by (auto simp: claim_agenda_def outcome_simps split: option.splits
      dest!: update_record_grows [where T = "{RT_AGENDA_ITEM}"])

lemma claim_agenda_rows:
  assumes "claim_agenda n owner now lease st = Inr (x, st')"
  shows "st_triggers st' = st_triggers st" "st_timer_triggers st' = st_timer_triggers st"
    "st_outbox st' = st_outbox st"
  using assms
  by (auto simp: claim_agenda_def outcome_simps rows_of_eq split: option.splits dest!: row_dests)

lemma release_agenda_grows:
  assumes "release_agenda claim st = Inr (x, st')" shows "grows {RT_AGENDA_ITEM} st st'"
  using assms
  by (auto simp: release_agenda_def outcome_simps split: option.splits
      dest!: update_record_grows [where T = "{RT_AGENDA_ITEM}"])

lemma release_agenda_rows:
  assumes "release_agenda claim st = Inr (x, st')"
  shows "st_triggers st' = st_triggers st" "st_timer_triggers st' = st_timer_triggers st"
    "st_outbox st' = st_outbox st"
  using assms
  by (auto simp: release_agenda_def outcome_simps rows_of_eq split: option.splits dest!: row_dests)

lemma commit_decision_grows:
  assumes "commit_semantic_decision claim sem st = Inr (x, st')"
  shows "grows {RT_AGENDA_ITEM, RT_WAKE_CYCLE} st st'"
  using assms
  by (auto simp: commit_semantic_decision_def outcome_simps split: option.splits elim!: chain)

lemma commit_decision_rows:
  assumes "commit_semantic_decision claim sem st = Inr (x, st')"
  shows "st_triggers st' = st_triggers st" "st_timer_triggers st' = st_timer_triggers st"
    "st_outbox st' = st_outbox st"
  using assms
  by (auto simp: commit_semantic_decision_def outcome_simps rows_of_eq split: option.splits
      dest!: row_dests)

lemma insert_outbox_result:
  "insert_outbox row st = Inr st' \<longleftrightarrow> st' = st\<lparr>st_outbox := st_outbox st @ [row]\<rparr> \<and>
     (\<forall>r \<in> set (st_outbox st). ox_namespace r = ox_namespace row \<longrightarrow>
        ox_outbox_id r \<noteq> ox_outbox_id row \<and>
        ox_effect_idempotency_key r \<noteq> ox_effect_idempotency_key row) \<and>
     0 < ox_maximum_attempts row \<and>
     st_records st (ox_namespace row, RT_EFFECT_ATTEMPT, ox_effect_attempt_id row) \<noteq> None"
  by (auto simp: insert_outbox_def)

text \<open>
  A commit of an approval is a replay that changes nothing, or a fresh decision with its
  ledger entries, and with the first attempt and outbox row when it approves.
\<close>

definition approval_written ::
  "Namespace \<Rightarrow> EffectProposal \<Rightarrow> HumanApprovalDecision \<Rightarrow> string \<Rightarrow> string \<Rightarrow> Principal
     \<Rightarrow> datetime \<Rightarrow> store \<Rightarrow> EffectAttempt option \<Rightarrow> store \<Rightarrow> bool" where
  "approval_written n p d aid oid actor t st att st' \<longleftrightarrow> (\<exists>st1 st2 st3.
     insert_record (DHumanApproval d) st = Inr st1 \<and>
     insert_ledger n LK_APPROVAL (ha_idempotency_key d) RT_HUMAN_APPROVAL
       (ha_approval_decision_id d) st1 = Inr st2 \<and>
     insert_ledger n LK_PROPOSAL_APPROVAL (proposal_binding p) RT_HUMAN_APPROVAL
       (ha_approval_decision_id d) st2 = Inr st3 \<and>
     (ha_choice d = REJECT \<and> att = None \<and> st' = st3 \<or>
      ha_choice d = APPROVE \<and> (\<exists>a st4 st5. att = Some a \<and>
        EffectAttempt_init (first_attempt n p d aid actor t) = Inr a \<and>
        insert_record (DEffectAttempt a) st3 = Inr st4 \<and>
        insert_outbox (first_outbox_row n p d a oid actor t) st4 = Inr st5 \<and>
        insert_ledger n LK_EFFECT (ec_idempotency_key (ep_constraints p)) RT_EFFECT_ATTEMPT
          (ea_effect_attempt_id a) st5 = Inr st')))"

lemma commit_approval_cases:
  assumes "commit_approval_and_attempt n mid v d aid oid actor t st = Inr (x, st')"
  obtains (replay) existing att where "st' = st" "x = (existing, att, False)"
    "ledger_lookup st n LK_APPROVAL (ha_idempotency_key d) \<noteq> None"
  | (fresh) p m d' att auth where "n = ha_namespace d" "x = (d, att, True)"
    "ledger_lookup st n LK_APPROVAL (ha_idempotency_key d) = None"
    "ledger_lookup st n LK_PROPOSAL_APPROVAL (proposal_binding p) = None"
    "get_proposal st n (ha_proposal_id d) = Inr p" "get_mandate st n mid = Inr m"
    "get_principal st (ns_tenant_id n) (pr_principal_id (ha_author d)) = Inr (ha_author d)"
    "ep_mandate_id p = Some (md_mandate_id m)" "ep_mandate_revision p = Some (md_revision m)"
    "authorize_effect_proposal p m v = Inr ()"
    "(if ha_choice d = APPROVE then Inr d
      else HumanApprovalDecision_init (d\<lparr>ha_choice := APPROVE\<rparr>)) = Inr d'"
    "authorize_human_approval p d' t default_approval_context = Inr auth"
    "approval_written n p d aid oid actor t st att st'"
proof (cases "ledger_lookup st n LK_APPROVAL (ha_idempotency_key d)")
  case (Some i)
  with assms show thesis
    by (auto simp: commit_approval_and_attempt_def outcome_simps split: if_splits intro: replay)
next
  case None
  have choice: "c \<noteq> REJECT \<longleftrightarrow> c = APPROVE" "c \<noteq> APPROVE \<longleftrightarrow> c = REJECT" for c
    by (cases c; simp)+
  from assms None obtain p m d' auth where p:
      "n = ha_namespace d" "get_proposal st n (ha_proposal_id d) = Inr p"
      "get_mandate st n mid = Inr m"
      "get_principal st (ns_tenant_id n) (pr_principal_id (ha_author d)) = Inr (ha_author d)"
      "ep_mandate_id p = Some (md_mandate_id m)" "ep_mandate_revision p = Some (md_revision m)"
      "authorize_effect_proposal p m v = Inr ()"
      "(if ha_choice d = APPROVE then Inr d
        else HumanApprovalDecision_init (d\<lparr>ha_choice := APPROVE\<rparr>)) = Inr d'"
      "authorize_human_approval p d' t default_approval_context = Inr auth"
      "ledger_lookup st n LK_PROPOSAL_APPROVAL (proposal_binding p) = None"
    by (auto simp: commit_approval_and_attempt_def outcome_simps require_exact_ok)
  from assms None p obtain att where "x = (d, att, True)"
      "approval_written n p d aid oid actor t st att st'"
    by (auto simp: commit_approval_and_attempt_def outcome_simps approval_written_def choice
        split: if_splits)
  with p None show thesis by (intro fresh) auto
qed

lemma approval_written_grows: "approval_written n p d aid oid actor t st att st' \<Longrightarrow> grows T st st'"
  by (auto simp: approval_written_def insert_outbox_result elim!: chain)

lemma approval_written_rows:
  assumes "approval_written n p d aid oid actor t st att st'"
  shows "st_triggers st' = st_triggers st" "st_timer_triggers st' = st_timer_triggers st"
    "st_agenda st' = st_agenda st"
  using assms
  by (auto simp: approval_written_def rows_of_eq insert_outbox_result dest!: row_dests)

lemma approval_written_outbox:
  assumes "approval_written n p d aid oid actor t st att st'"
  shows "(att = None \<and> st_outbox st' = st_outbox st) \<or> (\<exists>a. att = Some a \<and>
    st_outbox st' = st_outbox st @ [first_outbox_row n p d a oid actor t] \<and>
    (\<forall>r \<in> set (st_outbox st). \<not> outbox_at n oid r))"
  using assms
  by (auto simp: approval_written_def rows_of_eq insert_outbox_result outbox_at_def
      first_outbox_row_def dest!: row_dests)

lemma commit_approval_grows:
  assumes "commit_approval_and_attempt n mid v d aid oid actor t st = Inr (x, st')"
  shows "grows T st st'"
  using assms by (rule commit_approval_cases) (auto dest: approval_written_grows)

lemma commit_approval_rows:
  assumes "commit_approval_and_attempt n mid v d aid oid actor t st = Inr (x, st')"
  shows "st_triggers st' = st_triggers st" "st_timer_triggers st' = st_timer_triggers st"
    "st_agenda st' = st_agenda st"
  using assms by (rule commit_approval_cases, auto dest: approval_written_rows)+

lemma claim_outbox_effect:
  assumes "claim_outbox_state src tgt ex n owner now lease st = Inr (x, st')"
  shows "grows T st st'" and "st_records st' = st_records st"
    and "st_triggers st' = st_triggers st" "st_timer_triggers st' = st_timer_triggers st"
    and "st_agenda st' = st_agenda st"
  using assms
  by (auto simp: claim_outbox_state_def outcome_simps split: option.splits)

lemma mark_started_grows:
  assumes "mark_dispatch_started claim t st = Inr (x, st')"
  shows "grows {RT_EFFECT_ATTEMPT} st st'"
  using assms
  by (auto simp: mark_dispatch_started_def outcome_simps elim!: chain)

lemma mark_started_rows:
  assumes "mark_dispatch_started claim t st = Inr (x, st')"
  shows "st_triggers st' = st_triggers st" "st_timer_triggers st' = st_timer_triggers st"
    "st_agenda st' = st_agenda st"
  using assms
  by (auto simp: mark_dispatch_started_def outcome_simps rows_of_eq dest!: row_dests)

lemma create_retry_result:
  "create_retry_attempt prev i actor t st = Inr (retry, st') \<longleftrightarrow>
     insert_record (DEffectAttempt retry) st = Inr st' \<and>
     EffectAttempt_init
       \<lparr>ea_namespace = ea_namespace prev, ea_effect_attempt_id = i,
        ea_proposal_id = ea_proposal_id prev, ea_proposal_revision = ea_proposal_revision prev,
        ea_approval_decision_id = ea_approval_decision_id prev,
        ea_attempt_number = ea_attempt_number prev + 1, ea_state = EA_PLANNED,
        ea_actor = actor, ea_correlation_id = ea_correlation_id prev,
        ea_causation_id = ea_approval_decision_id prev, ea_occurred_at = t, ea_revision = 1,
        ea_schema_version = SCHEMA_VERSION\<rparr> = Inr retry"
  by (auto simp: create_retry_attempt_def outcome_simps)

lemma complete_attempt_result:
  "complete_attempt a s rs p dg i n actor t st = Inr (result, st') \<longleftrightarrow>
     (\<exists>done st1. EffectAttempt_init (a\<lparr>ea_state := s, ea_actor := actor, ea_occurred_at := t,
          ea_revision := ea_revision a + 1\<rparr>) = Inr done \<and>
        update_record (ea_revision a) (DEffectAttempt done) st = Inr st1 \<and>
        ActionResult_init
          \<lparr>ar_namespace = n, ar_action_result_id = i, ar_effect_attempt_id = ea_effect_attempt_id a,
           ar_state = rs, ar_safe_projection = p, ar_result_digest = dg, ar_actor = actor,
           ar_correlation_id = ea_correlation_id a, ar_causation_id = ea_effect_attempt_id a,
           ar_occurred_at = t, ar_revision = 1, ar_schema_version = SCHEMA_VERSION\<rparr> = Inr result \<and>
        insert_record (DActionResult result) st1 = Inr st')"
  by (auto simp: complete_attempt_def outcome_simps)

text \<open>
  The retry of a finished attempt: none, or a next attempt below the limit after a
  confirmed absence.
\<close>

definition retry_step ::
  "string option \<Rightarrow> bool \<Rightarrow> outbox_row \<Rightarrow> EffectAttempt \<Rightarrow> outbox_state \<Rightarrow> Principal \<Rightarrow> datetime
     \<Rightarrow> store \<Rightarrow> EffectAttempt \<Rightarrow> outbox_state \<Rightarrow> store \<Rightarrow> bool" where
  "retry_step nid absent row attempt final actor t st2 cur fin st3 \<longleftrightarrow>
     (cur = attempt \<and> fin = final \<and> st3 = st2) \<or>
     (\<exists>i. nid = Some i \<and> absent \<and> ea_attempt_number attempt < ox_maximum_attempts row \<and>
        create_retry_attempt attempt i actor t st2 = Inr (cur, st3) \<and> fin = OX_RETRY)"

lemma dispatch_retry_step:
  "dispatch_retry oc row attempt final nid actor t st2 = Inr (cur, fin, st3) \<Longrightarrow>
     retry_step nid (co_kind oc \<in> {CO_KNOWN_NOT_EXECUTED, CO_RETRYABLE_FAILURE}) row attempt
       final actor t st2 cur fin st3"
  by (auto simp: dispatch_retry_def retry_step_def outcome_simps split: option.splits)

lemma reconciliation_retry_step:
  "reconciliation_retry oc row attempt nid actor t st2 = Inr (cur, fin, st3) \<Longrightarrow>
     ro_kind oc \<noteq> RK_STILL_UNKNOWN \<Longrightarrow>
     retry_step nid (ro_kind oc = RK_CONFIRMED_ABSENT) row attempt
       (if ro_kind oc = RK_CONFIRMED_APPLIED then OX_COMPLETED else OX_TERMINAL_FAILED)
       actor t st2 cur fin st3"
  by (cases "ro_kind oc")
    (auto simp: reconciliation_retry_def retry_step_def outcome_simps split: option.splits)

lemma finalize_cases:
  assumes "finalize_dispatch_in_transaction claim oc i actor t nid req st = Inr (result, st')"
  obtains row attempt rs as os st2 cur fin st3 where
    "require_outbox_claim claim {req} None st = Inr row"
    "get_effect_attempt st (oc_namespace claim) (oc_effect_attempt_id claim) = Inr attempt"
    "result_states (co_kind oc) = (rs, as, os)"
    "req = OX_DISPATCHING \<Longrightarrow> ea_state attempt = EA_STARTED"
    "complete_attempt attempt as rs (co_safe_projection oc) (co_result_digest oc) i
       (oc_namespace claim) actor t st = Inr (result, st2)"
    "retry_step nid (co_kind oc \<in> {CO_KNOWN_NOT_EXECUTED, CO_RETRYABLE_FAILURE}) row attempt os
       actor t st2 cur fin st3"
    "st' = st3\<lparr>st_outbox := update_where (claimed_row claim)
        (\<lambda>r. (finish_row fin cur t (LO_CHANNEL (co_kind oc)) r)
           \<lparr>ox_actor_principal_id := pr_principal_id actor\<rparr>)
        (st_outbox st3)\<rparr>"
proof -
  obtain rs as os where r: "result_states (co_kind oc) = (rs, as, os)" by (metis prod_cases3)
  from assms obtain row attempt where ra: "require_outbox_claim claim {req} None st = Inr row"
      "get_effect_attempt st (oc_namespace claim) (oc_effect_attempt_id claim) = Inr attempt"
    by (auto simp: finalize_dispatch_in_transaction_def bindR_eq_Inr)
  from assms ra r obtain st2 where c: "req = OX_DISPATCHING \<longrightarrow> ea_state attempt = EA_STARTED"
      "complete_attempt attempt as rs (co_safe_projection oc) (co_result_digest oc) i
         (oc_namespace claim) actor t st = Inr (result, st2)"
    and rest: "\<exists>cur fin st3. dispatch_retry oc row attempt os nid actor t st2 = Inr (cur, fin, st3) \<and>
      st' = st3\<lparr>st_outbox := update_where (claimed_row claim)
        (\<lambda>r. (finish_row fin cur t (LO_CHANNEL (co_kind oc)) r)
           \<lparr>ox_actor_principal_id := pr_principal_id actor\<rparr>)
        (st_outbox st3)\<rparr>"
    by (auto simp: finalize_dispatch_in_transaction_def outcome_simps)
  from rest obtain cur fin st3 where
    d: "dispatch_retry oc row attempt os nid actor t st2 = Inr (cur, fin, st3)"
    and e: "st' = st3\<lparr>st_outbox := update_where (claimed_row claim)
        (\<lambda>r. (finish_row fin cur t (LO_CHANNEL (co_kind oc)) r)
           \<lparr>ox_actor_principal_id := pr_principal_id actor\<rparr>)
        (st_outbox st3)\<rparr>"
    by blast
  show thesis
    by (rule that [OF ra r _ c(2) dispatch_retry_step [OF d] e]) (use c(1) in simp)
qed

lemma retry_step_grows:
  "retry_step nid b row attempt final actor t st2 cur fin st3 \<Longrightarrow> grows T st st2 \<Longrightarrow> grows T st st3"
  by (auto simp: retry_step_def create_retry_result elim!: chain)

lemma retry_step_rows:
  "retry_step nid b row attempt final actor t st2 cur fin st3 \<Longrightarrow> rows_of st3 = rows_of st2"
  by (auto simp: retry_step_def create_retry_result dest!: row_dests)

lemma complete_attempt_grows:
  "complete_attempt a s rs p dg i n actor t st = Inr (result, st') \<Longrightarrow>
     grows {RT_EFFECT_ATTEMPT} st st'"
  by (auto simp: complete_attempt_result elim!: chain)

lemma complete_attempt_rows:
  "complete_attempt a s rs p dg i n actor t st = Inr (result, st') \<Longrightarrow> rows_of st' = rows_of st"
  by (auto simp: complete_attempt_result dest!: row_dests)

lemma finalize_grows:
  assumes "finalize_dispatch_in_transaction claim oc i actor t nid req st = Inr (x, st')"
  shows "grows {RT_EFFECT_ATTEMPT} st st'"
  using assms by (rule finalize_cases) (auto dest: retry_step_grows complete_attempt_grows)

lemma finalize_rows:
  assumes "finalize_dispatch_in_transaction claim oc i actor t nid req st = Inr (x, st')"
  shows "st_triggers st' = st_triggers st" "st_timer_triggers st' = st_timer_triggers st"
    "st_agenda st' = st_agenda st"
  using assms
  by (rule finalize_cases, auto simp: rows_of_eq dest!: retry_step_rows complete_attempt_rows)+

lemma recover_cases:
  assumes "recover_expired_dispatches n now actor rid st = Inr (x, st')"
  obtains "st' = st" "x = 0"
  | claim oc r where "finalize_dispatch_in_transaction claim oc rid actor now None OX_DISPATCHING
        st = Inr (r, st')" "co_kind oc = CO_AMBIGUOUS" "x = 1" "oc_namespace claim = n"
  using assms
  by (auto simp: recover_expired_dispatches_def outcome_simps ChannelOutcome_init_def
      claim_of_row_def OutboxClaim_init_def split: option.splits)

lemma reconcile_cases:
  assumes "reconcile_ambiguous claim oc i actor t nid nrt st = Inr (x, st')"
  obtains (unknown) row attempt where
    "require_outbox_claim claim {OX_AMBIGUOUS_CLAIMED} (Some t) st = Inr row"
    "get_effect_attempt st (oc_namespace claim) (oc_effect_attempt_id claim) = Inr attempt"
    "ea_state attempt = EA_AMBIGUOUS" "ro_kind oc = RK_STILL_UNKNOWN"
    "reconcile_unknown claim row t nrt st = Inr (x, st')"
  | (known) row attempt result st2 cur fin st3 final where
    "require_outbox_claim claim {OX_AMBIGUOUS_CLAIMED} (Some t) st = Inr row"
    "get_effect_attempt st (oc_namespace claim) (oc_effect_attempt_id claim) = Inr attempt"
    "ea_state attempt = EA_AMBIGUOUS" "ro_kind oc \<noteq> RK_STILL_UNKNOWN" "x = Some result"
    "final = (if ro_kind oc = RK_CONFIRMED_APPLIED then OX_COMPLETED else OX_TERMINAL_FAILED)"
    "complete_attempt attempt
       (if ro_kind oc = RK_CONFIRMED_APPLIED then EA_SUCCEEDED else EA_FAILED)
       (if ro_kind oc = RK_CONFIRMED_APPLIED then AR_SUCCEEDED else AR_NOT_EXECUTED)
       (ro_safe_projection oc) (ro_result_digest oc) i (oc_namespace claim) actor t st
       = Inr (result, st2)"
    "retry_step nid (ro_kind oc = RK_CONFIRMED_ABSENT) row attempt final actor t st2 cur fin st3"
    "st' = st3\<lparr>st_outbox := update_where (claimed_row claim)
        (finish_row fin cur t (LO_RECONCILED (ro_kind oc)))
        (st_outbox st3)\<rparr>"
proof -
  from assms obtain row attempt where
    ra: "require_outbox_claim claim {OX_AMBIGUOUS_CLAIMED} (Some t) st = Inr row"
      "get_effect_attempt st (oc_namespace claim) (oc_effect_attempt_id claim) = Inr attempt"
      "ea_state attempt = EA_AMBIGUOUS"
    by (auto simp: reconcile_ambiguous_def outcome_simps)
  show thesis
  proof (cases "ro_kind oc = RK_STILL_UNKNOWN")
    case True
    with assms ra show thesis
      by (auto simp: reconcile_ambiguous_def outcome_simps intro: unknown)
  next
    case False
    define final where
      "final = (if ro_kind oc = RK_CONFIRMED_APPLIED then OX_COMPLETED else OX_TERMINAL_FAILED)"
    from assms ra False obtain result st2 cur fin st3 where x: "x = Some result"
      and c: "complete_attempt attempt
       (if ro_kind oc = RK_CONFIRMED_APPLIED then EA_SUCCEEDED else EA_FAILED)
       (if ro_kind oc = RK_CONFIRMED_APPLIED then AR_SUCCEEDED else AR_NOT_EXECUTED)
       (ro_safe_projection oc) (ro_result_digest oc) i (oc_namespace claim) actor t st
       = Inr (result, st2)"
      and d: "reconciliation_retry oc row attempt nid actor t st2 = Inr (cur, fin, st3)"
      and e: "st' = st3\<lparr>st_outbox := update_where (claimed_row claim)
        (finish_row fin cur t (LO_RECONCILED (ro_kind oc)))
        (st_outbox st3)\<rparr>"
      by (auto simp: reconcile_ambiguous_def outcome_simps)
    show thesis
      by (rule known [OF ra False x final_def c
          reconciliation_retry_step [OF d False, folded final_def] e])
  qed
qed

lemma reconcile_unknown_effect:
  assumes "reconcile_unknown claim row t nrt st = Inr (x, st')"
  shows "grows T st1 st' = grows T st1 st" "st_records st' = st_records st"
    "st_triggers st' = st_triggers st" "st_timer_triggers st' = st_timer_triggers st"
    "st_agenda st' = st_agenda st"
  using assms by (auto simp: reconcile_unknown_def outcome_simps)

lemma reconcile_grows:
  assumes "reconcile_ambiguous claim oc i actor t nid nrt st = Inr (x, st')"
  shows "grows {RT_EFFECT_ATTEMPT} st st'"
  using assms
  by (rule reconcile_cases)
    (auto simp: reconcile_unknown_effect dest: retry_step_grows complete_attempt_grows)

lemma reconcile_rows:
  assumes "reconcile_ambiguous claim oc i actor t nid nrt st = Inr (x, st')"
  shows "st_triggers st' = st_triggers st" "st_timer_triggers st' = st_timer_triggers st"
    "st_agenda st' = st_agenda st"
  using assms
  by (rule reconcile_cases, auto simp: rows_of_eq reconcile_unknown_effect
      dest!: retry_step_rows complete_attempt_rows)+

end
