(* ===== verification/StoreSteps.thy ===== *)
theory StoreSteps
  imports StoreEffects
begin

text \<open>
  The store as a state machine: one rule per operation that commits a transaction, with any
  arguments.  An operation that raises leaves the store unchanged, so it is no step.
\<close>

section \<open>The step relation\<close>

inductive store_step :: "store \<Rightarrow> store \<Rightarrow> bool" where
  do_bootstrap: "bootstrap n ps pf md fw a c t st = Inr (x, st') \<Longrightarrow> store_step st st'"
| do_ingest_event: "ingest_event e key tid st = Inr (y, st') \<Longrightarrow> store_step st st'"
| do_ingest_timer: "ingest_timer o' key tid st = Inr (z, st') \<Longrightarrow> store_step st st'"
| do_claim_trigger: "claim_trigger n owner now lease st = Inr (tc, st') \<Longrightarrow> store_step st st'"
| do_materialize: "materialize_agenda claim wid aid actor t st = Inr (wa, st') \<Longrightarrow> store_step st st'"
| do_claim_agenda: "claim_agenda n owner now lease st = Inr (ac, st') \<Longrightarrow> store_step st st'"
| do_release_agenda: "release_agenda gl st = Inr (u, st') \<Longrightarrow> store_step st st'"
| do_commit_decision: "commit_semantic_decision gl sem st = Inr (u, st') \<Longrightarrow> store_step st st'"
| do_commit_approval:
    "commit_approval_and_attempt n mid v d aid oid actor t st = Inr (w, st') \<Longrightarrow> store_step st st'"
| do_claim_outbox: "claim_outbox n owner now lease st = Inr (ox, st') \<Longrightarrow> store_step st st'"
| do_claim_ambiguous: "claim_ambiguous n owner now lease st = Inr (ox, st') \<Longrightarrow> store_step st st'"
| do_mark_started: "mark_dispatch_started oc t st = Inr (att, st') \<Longrightarrow> store_step st st'"
| do_finalize:
    "finalize_dispatch oc out i actor t nid st = Inr (res, st') \<Longrightarrow> store_step st st'"
| do_recover: "recover_expired_dispatches n now actor rid st = Inr (k, st') \<Longrightarrow> store_step st st'"
| do_reconcile:
    "reconcile_ambiguous oc rec i actor t nid nrt st = Inr (ores, st') \<Longrightarrow> store_step st st'"

definition reachable :: "store \<Rightarrow> bool" where
  "reachable st \<longleftrightarrow> store_step\<^sup>*\<^sup>* empty_store st"

lemma reachable_empty: "reachable empty_store"
  by (simp add: reachable_def)

lemma reachable_step: "reachable st \<Longrightarrow> store_step st st' \<Longrightarrow> reachable st'"
  unfolding reachable_def by (rule rtranclp.rtrancl_into_rtrancl)

lemma reachable_steps: "reachable st \<Longrightarrow> store_step\<^sup>*\<^sup>* st st' \<Longrightarrow> reachable st'"
  unfolding reachable_def by (rule rtranclp_trans)

lemma reachable_induct [consumes 1, case_names empty step]:
  assumes "reachable st" and "P empty_store"
    and "\<And>st st'. reachable st \<Longrightarrow> P st \<Longrightarrow> store_step st st' \<Longrightarrow> P st'"
  shows "P st"
  using assms(1) unfolding reachable_def
  by (induction rule: rtranclp_induct) (auto simp: assms(2) reachable_def intro: assms(3))

section \<open>Records, ledger and audit\<close>

text \<open>The record types this store ever updates.\<close>

definition mutable_types :: "RecordType set" where
  "mutable_types = {RT_AGENDA_ITEM, RT_WAKE_CYCLE, RT_EFFECT_ATTEMPT}"

lemma step_grows: "store_step st st' \<Longrightarrow> grows mutable_types st st'"
proof (induction rule: store_step.induct)
  case (do_recover n now actor rid st k st')
  then show ?case
    by (rule recover_cases)
      (auto dest: finalize_grows intro: grows_mono simp: mutable_types_def)
qed (auto dest!: bootstrap_effect(1) ingest_event_grows ingest_timer_grows
    claim_trigger_effect(1) materialize_grows claim_agenda_grows release_agenda_grows
    commit_decision_grows commit_approval_grows claim_outbox_effect(1) mark_started_grows
    finalize_grows reconcile_grows simp: claim_outbox_def claim_ambiguous_def finalize_dispatch_def
    mutable_types_def intro: grows_mono)

lemma steps_grow: "store_step\<^sup>*\<^sup>* st st' \<Longrightarrow> grows mutable_types st st'"
  by (induction rule: rtranclp_induct) (auto intro: grows_trans step_grows)

lemma empty_sound: "sound empty_store"
  by (simp add: sound_def empty_store_def audit_revisions_def)

lemma reachable_sound: "reachable st \<Longrightarrow> sound st"
  using steps_grow [of empty_store st] empty_sound by (auto simp: reachable_def grows_def)

section \<open>Fenced rows\<close>

text \<open>
  The contract of a table whose rows are leased: rows keep their identity, identities are
  unique, and the fencing token of a row never decreases.
\<close>

locale fenced_rows =
  fixes rows :: "'s \<Rightarrow> 'r list" and ident :: "'r \<Rightarrow> 'i" and fence :: "'r \<Rightarrow> int"
    and step :: "'s \<Rightarrow> 's \<Rightarrow> bool"
  assumes step_unique: "step s s' \<Longrightarrow> distinct (map ident (rows s)) \<Longrightarrow> distinct (map ident (rows s'))"
    and step_fence: "step s s' \<Longrightarrow> distinct (map ident (rows s)) \<Longrightarrow> r \<in> set (rows s) \<Longrightarrow>
      \<exists>r' \<in> set (rows s'). ident r' = ident r \<and> fence r \<le> fence r'"
begin

lemma steps_unique:
  "step\<^sup>*\<^sup>* s s' \<Longrightarrow> distinct (map ident (rows s)) \<Longrightarrow> distinct (map ident (rows s'))"
  by (induction rule: rtranclp_induct) (auto intro: step_unique)

lemma steps_fence:
  "step\<^sup>*\<^sup>* s s' \<Longrightarrow> distinct (map ident (rows s)) \<Longrightarrow> r \<in> set (rows s) \<Longrightarrow>
     \<exists>r' \<in> set (rows s'). ident r' = ident r \<and> fence r \<le> fence r'"
proof (induction rule: rtranclp_induct)
  case (step s1 s2)
  then obtain r1 where r1: "r1 \<in> set (rows s1)" "ident r1 = ident r" "fence r \<le> fence r1"
    by auto
  from step_fence [OF step(2) steps_unique [OF step(1,4)] r1(1)] r1(2,3) show ?case
    by force
qed auto

lemma same_row:
  "distinct (map ident (rows s)) \<Longrightarrow> q \<in> set (rows s) \<Longrightarrow> r \<in> set (rows s) \<Longrightarrow>
     ident q = ident r \<Longrightarrow> q = r"
  by (auto simp: distinct_map inj_on_def)

text \<open>A row seen later under the same identity carries a token at least as high.\<close>

lemma later_fence:
  assumes "step\<^sup>*\<^sup>* s s'" and "distinct (map ident (rows s))"
    and "r \<in> set (rows s)" and "q \<in> set (rows s')" and "ident q = ident r"
  shows "fence r \<le> fence q"
proof -
  from steps_fence [OF assms(1-3)] obtain r' where
    "r' \<in> set (rows s')" "ident r' = ident r" "fence r \<le> fence r'" by blast
  with same_row [OF steps_unique [OF assms(1,2)]] assms(4,5) show ?thesis by metis
qed

end

text \<open>The two shapes a statement of the store has on a table.\<close>

definition rows_kept :: "('r \<Rightarrow> 'i) \<Rightarrow> ('r \<Rightarrow> int) \<Rightarrow> 'r list \<Rightarrow> 'r list \<Rightarrow> bool" where
  "rows_kept ident fence rows rows' \<longleftrightarrow> (distinct (map ident rows) \<longrightarrow>
     distinct (map ident rows') \<and>
     (\<forall>r \<in> set rows. \<exists>r' \<in> set rows'. ident r' = ident r \<and> fence r \<le> fence r'))"

lemma rows_kept_refl [simp]: "rows_kept ident fence rows rows"
  by (auto simp: rows_kept_def)

lemma rows_kept_update:
  assumes "\<And>r. distinct (map ident rows) \<Longrightarrow> r \<in> set rows \<Longrightarrow> P r \<Longrightarrow>
    ident (f r) = ident r \<and> fence r \<le> fence (f r)"
  shows "rows_kept ident fence rows (update_where P f rows)"
  unfolding rows_kept_def
proof (intro impI conjI ballI)
  assume d: "distinct (map ident rows)"
  then have "map ident (update_where P f rows) = map ident rows"
    using assms by (intro update_where_map) blast
  with d show "distinct (map ident (update_where P f rows))" by simp
  fix r assume "r \<in> set rows"
  with assms d show "\<exists>r' \<in> set (update_where P f rows). ident r' = ident r \<and> fence r \<le> fence r'"
    by (intro bexI [of _ "if P r then f r else r"]) (auto simp: set_update_where)
qed

lemma rows_kept_append:
  "\<forall>r \<in> set rows. ident r \<noteq> ident row \<Longrightarrow> rows_kept ident fence rows (rows @ [row])"
  by (auto simp: rows_kept_def)

lemma rows_kept_trans:
  "rows_kept ident fence a b \<Longrightarrow> rows_kept ident fence b c \<Longrightarrow> rows_kept ident fence a c"
  unfolding rows_kept_def by (metis order_trans)

lemma fenced_rowsI:
  "(\<And>s s'. step s s' \<Longrightarrow> rows_kept ident fence (rows s) (rows s')) \<Longrightarrow>
     fenced_rows rows ident fence step"
  by unfold_locales (auto simp: rows_kept_def)

definition trigger_ident :: "trigger_row \<Rightarrow> Namespace \<times> string" where
  "trigger_ident r = (tr_namespace r, tr_trigger_id r)"

definition agenda_ident :: "agenda_row \<Rightarrow> Namespace \<times> string" where
  "agenda_ident r = (gr_namespace r, gr_agenda_item_id r)"

definition outbox_ident :: "outbox_row \<Rightarrow> Namespace \<times> string" where
  "outbox_ident r = (ox_namespace r, ox_outbox_id r)"

abbreviation "trigger_kept \<equiv> rows_kept trigger_ident tr_fencing_token"
abbreviation "agenda_kept \<equiv> rows_kept agenda_ident gr_fencing_token"
abbreviation "outbox_kept \<equiv> rows_kept outbox_ident ox_fencing_token"

lemma insert_trigger_kept:
  "insert_trigger row rows = Inr rows' \<Longrightarrow> trigger_kept rows rows'"
  by (auto simp: insert_trigger_def trigger_ident_def split: if_splits intro!: rows_kept_append)

lemma due_trigger_in: "due_trigger n now rows = Some r \<Longrightarrow> r \<in> set rows \<and> tr_namespace r = n"
  by (auto simp: due_trigger_def trigger_claimable_def dest: select_first_Some(1,2))

lemma choose_trigger_in:
  "choose_trigger a b = Some (src, r) \<Longrightarrow>
     (src = ''input_event'' \<and> a = Some r) \<or> (src = ''timer_occurrence'' \<and> b = Some r)"
  by (auto simp: choose_trigger_def dest!: select_first_Some(1) split: option.splits)

lemma claim_trigger_update_kept:
  assumes "row \<in> set rows" "tr_namespace row = n"
  shows "trigger_kept rows (update_where (\<lambda>r. trigger_at n (tr_trigger_id row) r \<and>
     tr_revision r = tr_revision row) (set_claimed owner lease (tr_fencing_token row + 1)) rows)"
proof (rule rows_kept_update)
  fix r assume "distinct (map trigger_ident rows)" "r \<in> set rows"
    "trigger_at n (tr_trigger_id row) r \<and> tr_revision r = tr_revision row"
  with assms have "r = row"
    by (auto simp: trigger_at_def trigger_ident_def distinct_map inj_on_def)
  then show "trigger_ident (set_claimed owner lease (tr_fencing_token row + 1) r) = trigger_ident r
      \<and> tr_fencing_token r
        \<le> tr_fencing_token (set_claimed owner lease (tr_fencing_token row + 1) r)"
    by (simp add: set_claimed_def trigger_ident_def)
qed

lemma claim_trigger_kept:
  assumes "claim_trigger n owner now lease st = Inr (x, st')"
  shows "trigger_kept (st_triggers st) (st_triggers st')"
    and "trigger_kept (st_timer_triggers st) (st_timer_triggers st')"
  using assms
  by (auto simp: claim_trigger_def outcome_simps split: option.splits if_splits
      dest!: choose_trigger_in due_trigger_in intro!: claim_trigger_update_kept)

lemma complete_trigger_kept:
  assumes "complete_trigger claim st = Inr st'"
  shows "trigger_kept (st_triggers st) (st_triggers st')"
    and "trigger_kept (st_timer_triggers st) (st_timer_triggers st')"
  using assms
  by (auto simp: complete_trigger_def outcome_simps trigger_ident_def split: if_splits
      intro!: rows_kept_update)


lemma insert_agenda_row_kept:
  assumes "insert_agenda_row row rows = Inr rows'" shows "agenda_kept rows rows'"
proof -
  from assms have "rows' = rows @ [row]" "\<forall>r \<in> set rows. agenda_ident r \<noteq> agenda_ident row"
    by (auto simp: insert_agenda_row_def agenda_ident_def split: if_splits)
  then show ?thesis by (simp add: rows_kept_append)
qed

lemma materialize_kept:
  assumes "materialize_agenda claim wid aid actor t st = Inr (x, st')"
  shows "trigger_kept (st_triggers st) (st_triggers st')"
    and "trigger_kept (st_timer_triggers st) (st_timer_triggers st')"
    and "agenda_kept (st_agenda st) (st_agenda st')"
  using assms
  by (auto simp: materialize_agenda_def outcome_simps complete_trigger_effect rows_of_eq
      agenda_ident_def split: option.splits if_splits dest!: row_dests insert_agenda_row_kept
      dest: complete_trigger_kept intro!: rows_kept_update)

lemma claim_agenda_kept:
  assumes "claim_agenda n owner now lease st = Inr (x, st')"
  shows "agenda_kept (st_agenda st) (st_agenda st')"
proof (cases "select_first (agenda_claimable n now) attention_key (st_agenda st)")
  case (Some row)
  then have row: "row \<in> set (st_agenda st)" "gr_namespace row = n"
    by (auto simp: agenda_claimable_def dest: select_first_Some(1,2))
  let ?starve = "\<lambda>r. r\<lparr>gr_starvation_count := gr_starvation_count r + 1\<rparr>"
  let ?S = "\<lambda>r. gr_namespace r = n \<and> gr_generation r > gr_handled_generation r \<and>
     gr_state r = AG_PENDING \<and> gr_agenda_item_id r \<noteq> gr_agenda_item_id row"
  let ?T = "\<lambda>r. agenda_at n (gr_agenda_item_id row) r \<and> gr_revision r = gr_revision row"
  let ?f = "\<lambda>r. r\<lparr>gr_state := AG_SELECTED, gr_lease_owner := Some owner,
     gr_lease_until := Some lease, gr_fencing_token := gr_fencing_token row + 1,
     gr_starvation_count := 0, gr_revision := gr_revision r + 1\<rparr>"
  let ?rows = "update_where ?S ?starve (st_agenda st)"
  have first: "agenda_kept (st_agenda st) ?rows"
    by (rule rows_kept_update) (simp add: agenda_ident_def)
  have second: "agenda_kept ?rows (update_where ?T ?f ?rows)"
  proof (rule rows_kept_update)
    fix r assume d: "distinct (map agenda_ident ?rows)" and r: "r \<in> set ?rows" "?T r"
    have "row \<in> set ?rows"
      using row by (auto simp: set_update_where image_iff intro: bexI [of _ row])
    with d r row have "r = row"
      by (auto simp: agenda_at_def agenda_ident_def distinct_map inj_on_def)
    then show "agenda_ident (?f r) = agenda_ident r \<and> gr_fencing_token r \<le> gr_fencing_token (?f r)"
      by (simp add: agenda_ident_def)
  qed
  have "st_agenda st' = update_where ?T ?f ?rows"
    using assms Some by (auto simp: claim_agenda_def outcome_simps rows_of_eq dest!: row_dests)
  with rows_kept_trans [OF first second] show ?thesis by simp
qed (use assms in \<open>auto simp: claim_agenda_def outcome_simps\<close>)

lemma release_agenda_kept:
  assumes "release_agenda claim st = Inr (x, st')"
  shows "agenda_kept (st_agenda st) (st_agenda st')"
  using assms
  by (auto simp: release_agenda_def outcome_simps rows_of_eq agenda_ident_def dest!: row_dests
      intro!: rows_kept_update)

lemma commit_decision_kept:
  assumes "commit_semantic_decision claim sem st = Inr (x, st')"
  shows "agenda_kept (st_agenda st) (st_agenda st')"
  using assms
  by (auto simp: commit_semantic_decision_def outcome_simps rows_of_eq agenda_ident_def
      split: option.splits dest!: row_dests intro!: rows_kept_update)

lemma commit_approval_kept:
  assumes "commit_approval_and_attempt n mid v d aid oid actor t st = Inr (x, st')"
  shows "outbox_kept (st_outbox st) (st_outbox st')"
  using assms
proof (rule commit_approval_cases)
  fix p att assume "approval_written n p d aid oid actor t st att st'"
  from approval_written_outbox [OF this] show ?thesis
  proof (elim disjE exE conjE)
    fix a assume r: "st_outbox st' = st_outbox st @ [first_outbox_row n p d a oid actor t]"
      "\<forall>r \<in> set (st_outbox st). \<not> outbox_at n oid r"
    from r(2) have "\<forall>r \<in> set (st_outbox st).
        outbox_ident r \<noteq> outbox_ident (first_outbox_row n p d a oid actor t)"
      by (simp add: outbox_ident_def outbox_at_def first_outbox_row_def)
    with r(1) show ?thesis by (simp add: rows_kept_append)
  qed simp
qed auto

lemma claim_outbox_kept:
  assumes "claim_outbox_state src tgt ex n owner now lease st = Inr (x, st')"
  shows "outbox_kept (st_outbox st) (st_outbox st')"
proof -
  have "outbox_kept rows (update_where (\<lambda>r. outbox_at n (ox_outbox_id row) r \<and>
       ox_revision r = ox_revision row) (\<lambda>r. r\<lparr>ox_state := tgt, ox_lease_owner := Some owner,
       ox_lease_until := Some lease, ox_fencing_token := ox_fencing_token row + 1,
       ox_updated_at := now, ox_revision := ox_revision r + 1\<rparr>) rows)"
    if "row \<in> set rows" "ox_namespace row = n" for row rows
  proof (rule rows_kept_update)
    fix r assume "distinct (map outbox_ident rows)" "r \<in> set rows"
      "outbox_at n (ox_outbox_id row) r \<and> ox_revision r = ox_revision row"
    with that have "r = row"
      by (auto simp: outbox_at_def outbox_ident_def distinct_map inj_on_def)
    then show "outbox_ident (r\<lparr>ox_state := tgt, ox_lease_owner := Some owner,
         ox_lease_until := Some lease, ox_fencing_token := ox_fencing_token row + 1,
         ox_updated_at := now, ox_revision := ox_revision r + 1\<rparr>) = outbox_ident r \<and>
       ox_fencing_token r \<le> ox_fencing_token (r\<lparr>ox_state := tgt, ox_lease_owner := Some owner,
         ox_lease_until := Some lease, ox_fencing_token := ox_fencing_token row + 1,
         ox_updated_at := now, ox_revision := ox_revision r + 1\<rparr>)"
      by (simp add: outbox_ident_def)
  qed
  with assms show ?thesis
    by (auto simp: claim_outbox_state_def outcome_simps outbox_claimable_def split: option.splits
        dest!: select_first_in)
qed

lemma mark_started_kept:
  assumes "mark_dispatch_started claim t st = Inr (x, st')"
  shows "outbox_kept (st_outbox st) (st_outbox st')"
  using assms
  by (auto simp: mark_dispatch_started_def outcome_simps rows_of_eq outbox_ident_def
      dest!: row_dests intro!: rows_kept_update)

lemma finish_row_simps [simp]:
  "ox_namespace (finish_row fin cur t lo r) = ox_namespace r"
  "ox_outbox_id (finish_row fin cur t lo r) = ox_outbox_id r"
  "ox_proposal_id (finish_row fin cur t lo r) = ox_proposal_id r"
  "ox_approval_decision_id (finish_row fin cur t lo r) = ox_approval_decision_id r"
  "ox_effect_idempotency_key (finish_row fin cur t lo r) = ox_effect_idempotency_key r"
  "ox_fencing_token (finish_row fin cur t lo r) = ox_fencing_token r"
  "ox_maximum_attempts (finish_row fin cur t lo r) = ox_maximum_attempts r"
  "ox_state (finish_row fin cur t lo r) = fin"
  "ox_attempt_number (finish_row fin cur t lo r) = ea_attempt_number cur"
  "ox_effect_attempt_id (finish_row fin cur t lo r) = ea_effect_attempt_id cur"
  by (simp_all add: finish_row_def)

lemma finalize_kept:
  assumes "finalize_dispatch_in_transaction claim oc i actor t nid req st = Inr (x, st')"
  shows "outbox_kept (st_outbox st) (st_outbox st')"
  using assms
  by (rule finalize_cases) (auto simp: rows_of_eq outbox_ident_def
      dest!: retry_step_rows complete_attempt_rows intro!: rows_kept_update)

lemma reconcile_kept:
  assumes "reconcile_ambiguous claim oc i actor t nid nrt st = Inr (x, st')"
  shows "outbox_kept (st_outbox st) (st_outbox st')"
  using assms
  by (rule reconcile_cases) (auto simp: rows_of_eq outbox_ident_def reconcile_unknown_def
      outcome_simps dest!: retry_step_rows complete_attempt_rows intro!: rows_kept_update)

lemma step_kept:
  assumes "store_step st st'"
  shows "trigger_kept (st_triggers st) (st_triggers st') \<and>
    trigger_kept (st_timer_triggers st) (st_timer_triggers st') \<and>
    agenda_kept (st_agenda st) (st_agenda st') \<and> outbox_kept (st_outbox st) (st_outbox st')"
  using assms
proof (induction rule: store_step.induct)
  case (do_bootstrap n ps pf md fw a c t st x st')
  then show ?case by (auto dest!: bootstrap_effect(2) simp: rows_of_eq)
next
  case (do_ingest_event e key tid st y st')
  then show ?case
    using ingest_event_rows [OF do_ingest_event] by (auto dest: insert_trigger_kept)
next
  case (do_ingest_timer o' key tid st z st')
  then show ?case
    using ingest_timer_rows [OF do_ingest_timer] by (auto dest: insert_trigger_kept)
next
  case (do_claim_trigger n owner now lease st tc st')
  then show ?case
    using claim_trigger_effect [OF do_claim_trigger] by (auto dest: claim_trigger_kept)
next
  case (do_materialize claim wid aid actor t st wa st')
  then show ?case
    using materialize_outbox [OF do_materialize] by (auto dest: materialize_kept)
next
  case (do_claim_agenda n owner now lease st ac st')
  then show ?case
    using claim_agenda_rows [OF do_claim_agenda] by (auto dest: claim_agenda_kept)
next
  case (do_release_agenda gl st u st')
  then show ?case
    using release_agenda_rows [OF do_release_agenda] by (auto dest: release_agenda_kept)
next
  case (do_commit_decision gl sem st u st')
  then show ?case
    using commit_decision_rows [OF do_commit_decision] by (auto dest: commit_decision_kept)
next
  case (do_commit_approval n mid v d aid oid actor t st w st')
  then show ?case
    using commit_approval_rows [OF do_commit_approval] by (auto dest: commit_approval_kept)
next
  case (do_claim_outbox n owner now lease st ox st')
  then show ?case
    unfolding claim_outbox_def by (auto simp: claim_outbox_effect dest: claim_outbox_kept)
next
  case (do_claim_ambiguous n owner now lease st ox st')
  then show ?case
    unfolding claim_ambiguous_def by (auto simp: claim_outbox_effect dest: claim_outbox_kept)
next
  case (do_mark_started oc t st att st')
  then show ?case
    using mark_started_rows [OF do_mark_started] by (auto dest: mark_started_kept)
next
  case (do_finalize oc out i actor t nid st res st')
  then show ?case
    unfolding finalize_dispatch_def by (auto simp: finalize_rows dest: finalize_kept)
next
  case (do_recover n now actor rid st k st')
  then show ?case
    by (rule recover_cases) (auto simp: finalize_rows dest: finalize_kept)
next
  case (do_reconcile oc rec i actor t nid nrt st ores st')
  then show ?case
    using reconcile_rows [OF do_reconcile] by (auto dest: reconcile_kept)
qed

interpretation event_trigger: fenced_rows st_triggers trigger_ident tr_fencing_token store_step
  by (rule fenced_rowsI) (simp add: step_kept)

interpretation timer_trigger: fenced_rows st_timer_triggers trigger_ident tr_fencing_token store_step
  by (rule fenced_rowsI) (simp add: step_kept)

interpretation agenda: fenced_rows st_agenda agenda_ident gr_fencing_token store_step
  by (rule fenced_rowsI) (simp add: step_kept)

interpretation outbox: fenced_rows st_outbox outbox_ident ox_fencing_token store_step
  by (rule fenced_rowsI) (simp add: step_kept)

end
