(* ===== verification/Samples.thy ===== *)
theory Samples
  imports StoreSteps
begin

text \<open>
  Small concrete stores: one with an ingested event, reached from the empty store, and its
  trigger claimed twice; one with a single pending outbox row, claimed twice.  The theorems on
  the store are exercised on them.
\<close>

section \<open>An ingested event\<close>

definition acme_event :: InputEvent where
  "acme_event =
     \<lparr>ev_namespace = acme_colleague, ev_event_id = ''e1'', ev_event_type = ''note'',
      ev_state = EV_ACCEPTED, ev_safe_projection = [],
      ev_payload_digest = ''sha256:'' @ replicate 64 (CHR ''0''),
      ev_actor = acme_principal ''root'' HUMAN [TENANT_ADMIN], ev_correlation_id = ''c1'',
      ev_causation_id = None, ev_occurred_at = utc 0, ev_revision = 1,
      ev_schema_version = SCHEMA_VERSION, ev_policy_id = None, ev_policy_revision = None\<rparr>"

definition acme_audit :: audit_row where
  "acme_audit = \<lparr>au_namespace = acme_colleague, au_audit_id = audit_id RT_INPUT_EVENT ''e1'' 1,
     au_record_type = RT_INPUT_EVENT, au_record_id = ''e1'', au_record_revision = 1,
     au_actor_principal_id = ''root'', au_correlation_id = ''c1'', au_causation_id = None,
     au_occurred_at = utc 0\<rparr>"

definition acme_ingested :: store where
  "acme_ingested = empty_store
     \<lparr>st_records := [(acme_colleague, RT_INPUT_EVENT, ''e1'') \<mapsto> DInputEvent acme_event],
      st_audit := [acme_audit],
      st_ledger := [(acme_colleague, LK_INPUT_EVENT, ''k1'') \<mapsto> (RT_INPUT_EVENT, ''e1'')],
      st_triggers := [event_trigger_row acme_event ''t1'']\<rparr>"

lemma acme_ingest:
  "ingest_event acme_event ''k1'' ''t1'' empty_store = Inr ((acme_event, True), acme_ingested)"
  by (simp add: ingest_event_def acme_ingested_def empty_store_def insert_record_def
      insert_record_as_def insert_audit_def record_key_def acme_event_def acme_audit_def
      acme_defs ok_simps insert_ledger_def insert_trigger_def on_integrity_def
      event_trigger_row_def)

lemma acme_ingested_reachable: "reachable acme_ingested"
  by (rule reachable_step [OF reachable_empty do_ingest_event [OF acme_ingest]])

definition acme_claim :: "int \<Rightarrow> string \<Rightarrow> int \<Rightarrow> TriggerClaim" where
  "acme_claim k owner t =
     \<lparr>tc_namespace = acme_colleague, tc_trigger_id = ''t1'',
      tc_source_record_type = ''input_event'', tc_source_id = ''e1'', tc_trigger_kind = ''event'',
      tc_lease_owner = owner, tc_lease_until = utc t, tc_fencing_token = k,
      tc_correlation_id = ''c1'', tc_causation_id = ''e1'', tc_schema_version = SCHEMA_VERSION\<rparr>"

text \<open>The store after the first claim, and after a second one when the first has expired.\<close>

definition acme_claimed :: store where
  "acme_claimed = acme_ingested\<lparr>st_triggers :=
     [set_claimed ''w1'' (utc 20) 1 (event_trigger_row acme_event ''t1'')]\<rparr>"

definition acme_reclaimed :: store where
  "acme_reclaimed = acme_ingested\<lparr>st_triggers :=
     [set_claimed ''w2'' (utc 40) 2
        (set_claimed ''w1'' (utc 20) 1 (event_trigger_row acme_event ''t1''))]\<rparr>"

lemmas acme_trigger_defs = acme_ingested_def acme_claimed_def acme_reclaimed_def acme_claim_def
  acme_event_def acme_defs empty_store_def claim_trigger_def due_trigger_def choose_trigger_def
  select_first_def trigger_claimable_def lease_before_def set_claimed_def update_where_def
  row_count_def trigger_at_def event_trigger_row_def TriggerClaim_init_def acme_id_defs
  SCHEMA_VERSION_def

lemma acme_trigger_claim_1:
  "claim_trigger acme_colleague ''w1'' (utc 10) (utc 20) acme_ingested =
     Inr (Some (acme_claim 1 ''w1'' 20), acme_claimed)"
  by (simp add: acme_trigger_defs ok_simps)

lemma acme_trigger_claim_2:
  "claim_trigger acme_colleague ''w2'' (utc 30) (utc 40) acme_claimed =
     Inr (Some (acme_claim 2 ''w2'' 40), acme_reclaimed)"
  by (simp add: acme_trigger_defs ok_simps)

section \<open>A pending outbox row\<close>

definition acme_row :: outbox_row where
  "acme_row =
     \<lparr>ox_namespace = acme_colleague, ox_outbox_id = ''o1'', ox_proposal_id = ''p1'',
      ox_approval_decision_id = ''a1'', ox_effect_attempt_id = ''x1'',
      ox_effect_idempotency_key = ''k1'', ox_state = OX_PENDING, ox_attempt_number = 1,
      ox_maximum_attempts = 3, ox_next_attempt_at = utc 0, ox_lease_owner = None,
      ox_lease_until = None, ox_fencing_token = 0, ox_last_outcome = None,
      ox_actor_principal_id = ''svc'', ox_correlation_id = ''corr'', ox_causation_id = ''a1'',
      ox_created_at = utc 0, ox_updated_at = utc 0, ox_revision = 1\<rparr>"

definition acme_outbox :: "outbox_row \<Rightarrow> store" where
  "acme_outbox row = empty_store\<lparr>st_outbox := [row]\<rparr>"

definition acme_leased :: "string \<Rightarrow> int \<Rightarrow> int \<Rightarrow> outbox_row \<Rightarrow> outbox_row" where
  "acme_leased owner now k row = row\<lparr>ox_state := OX_CLAIMED, ox_lease_owner := Some owner,
     ox_lease_until := Some (utc (now + 10)), ox_fencing_token := k, ox_updated_at := utc now,
     ox_revision := ox_revision row + 1\<rparr>"

definition acme_outbox_claim :: "string \<Rightarrow> int \<Rightarrow> int \<Rightarrow> OutboxClaim" where
  "acme_outbox_claim owner now k =
     \<lparr>oc_namespace = acme_colleague, oc_outbox_id = ''o1'', oc_proposal_id = ''p1'',
      oc_approval_decision_id = ''a1'', oc_effect_attempt_id = ''x1'',
      oc_effect_idempotency_key = ''k1'', oc_attempt_number = 1, oc_lease_owner = owner,
      oc_lease_until = utc (now + 10), oc_fencing_token = k, oc_schema_version = SCHEMA_VERSION\<rparr>"

lemmas acme_outbox_defs = acme_row_def acme_outbox_def acme_leased_def acme_outbox_claim_def
  acme_defs empty_store_def claim_outbox_def claim_outbox_state_def select_first_def
  outbox_claimable_def lease_before_def update_where_def row_count_def outbox_at_def
  claim_of_row_def OutboxClaim_init_def acme_id_defs SCHEMA_VERSION_def frozen_strings_def

lemma acme_outbox_claim_1:
  "claim_outbox acme_colleague ''w1'' (utc 10) (utc 20) (acme_outbox acme_row) =
     Inr (Some (acme_outbox_claim ''w1'' 10 1), acme_outbox (acme_leased ''w1'' 10 1 acme_row))"
  by (simp add: acme_outbox_defs ok_simps)

lemma acme_outbox_claim_2:
  "claim_outbox acme_colleague ''w2'' (utc 30) (utc 40) (acme_outbox (acme_leased ''w1'' 10 1 acme_row))
     = Inr (Some (acme_outbox_claim ''w2'' 30 2),
         acme_outbox (acme_leased ''w2'' 30 2 (acme_leased ''w1'' 10 1 acme_row)))"
  by (simp add: acme_outbox_defs ok_simps)

section \<open>A selected agenda item\<close>

definition acme_item :: "AgendaItemState \<Rightarrow> int \<Rightarrow> AgendaItem" where
  "acme_item state revision =
     \<lparr>ag_namespace = acme_colleague, ag_agenda_item_id = ''g1'', ag_wake_cycle_id = ''wk1'',
      ag_source_event_id = Some ''e1'', ag_work_id = None, ag_title = ''note'', ag_state = state,
      ag_priority = 100, ag_due_at = None, ag_actor = acme_principal ''svc'' SERVICE [],
      ag_correlation_id = ''c1'', ag_causation_id = ''wk1'', ag_occurred_at = utc 0,
      ag_revision = revision, ag_schema_version = SCHEMA_VERSION, ag_generation = 1,
      ag_handled_generation = 0, ag_cause_ids = [''e1''], ag_source_timer_occurrence_id = None,
      ag_policy_id = None, ag_policy_revision = None\<rparr>"

definition acme_agenda_audit :: "int \<Rightarrow> audit_row" where
  "acme_agenda_audit revision = \<lparr>au_namespace = acme_colleague,
     au_audit_id = audit_id RT_AGENDA_ITEM ''g1'' revision, au_record_type = RT_AGENDA_ITEM,
     au_record_id = ''g1'', au_record_revision = revision, au_actor_principal_id = ''svc'',
     au_correlation_id = ''c1'', au_causation_id = Some ''wk1'', au_occurred_at = utc 0\<rparr>"

text \<open>The first revision's audit row, under an ID that is not a digest.\<close>

definition acme_seed_audit :: audit_row where
  "acme_seed_audit = (acme_agenda_audit 1)\<lparr>au_audit_id := ''seed''\<rparr>"

definition acme_agenda_row :: agenda_row where
  "acme_agenda_row = \<lparr>gr_namespace = acme_colleague, gr_agenda_item_id = ''g1'',
     gr_source_key = ''event:note'', gr_generation = 1, gr_handled_generation = 0,
     gr_cause_ids = [''e1''], gr_state = AG_SELECTED, gr_priority = 100, gr_due_at = None,
     gr_lease_owner = Some ''w1'', gr_lease_until = Some (utc 20), gr_fencing_token = 1,
     gr_starvation_count = 0, gr_current_wake_cycle_id = ''wk1'', gr_revision = 1\<rparr>"

definition acme_agenda_claim :: "string \<Rightarrow> int \<Rightarrow> int \<Rightarrow> AgendaClaim" where
  "acme_agenda_claim owner now k =
     \<lparr>gl_namespace = acme_colleague, gl_agenda_item = acme_item AG_SELECTED k,
      gl_lease_owner = owner, gl_lease_until = utc (now + 10), gl_fencing_token = k,
      gl_claimed_generation = 1, gl_schema_version = SCHEMA_VERSION\<rparr>"

text \<open>The item is under its first claim, by \<open>w1\<close>; then it is claimed again, by \<open>w2\<close>.\<close>

definition acme_agenda :: store where
  "acme_agenda = empty_store
     \<lparr>st_records := [(acme_colleague, RT_AGENDA_ITEM, ''g1'') \<mapsto> DAgendaItem (acme_item AG_SELECTED 1)],
      st_audit := [acme_seed_audit], st_agenda := [acme_agenda_row]\<rparr>"

definition acme_reclaimed_agenda :: store where
  "acme_reclaimed_agenda = acme_agenda
     \<lparr>st_records := [(acme_colleague, RT_AGENDA_ITEM, ''g1'') \<mapsto> DAgendaItem (acme_item AG_SELECTED 2)],
      st_audit := [acme_seed_audit, acme_agenda_audit 2],
      st_agenda := [acme_agenda_row\<lparr>gr_lease_owner := Some ''w2'',
        gr_lease_until := Some (utc 40), gr_fencing_token := 2, gr_revision := 2\<rparr>]\<rparr>"

lemmas acme_agenda_defs = acme_item_def acme_agenda_audit_def acme_agenda_row_def acme_agenda_def
  acme_reclaimed_agenda_def acme_seed_audit_def acme_agenda_claim_def Let_def acme_defs empty_store_def claim_agenda_def
  select_first_def agenda_claimable_def lease_before_def update_where_def row_count_def
  agenda_at_def AgendaClaim_init_def AgendaItem_init_def get_agenda_item_def get_record_def
  update_record_def insert_audit_def record_key_def acme_id_defs SCHEMA_VERSION_def frozen_strings_def

lemma acme_audit_prefix: "''seed'' \<noteq> audit_id t i v"
  by (simp add: audit_id_def)

lemma acme_agenda_claimed:
  "claim_agenda acme_colleague ''w2'' (utc 30) (utc 40) acme_agenda =
     Inr (Some (acme_agenda_claim ''w2'' 30 2), acme_reclaimed_agenda)"
  using acme_audit_prefix by (simp add: acme_agenda_defs ok_simps)

end
