(* ===== verification/Durability.thy ===== *)
theory Durability
  imports Samples
begin

text \<open>
  What every history of the store keeps: its durable records, the bindings of its replay
  ledger, and an audit trail that matches the records revision by revision.
\<close>

lemma acme_claimed_later: "store_step\<^sup>*\<^sup>* acme_ingested acme_claimed"
  by (rule r_into_rtranclp, rule do_claim_trigger, rule acme_trigger_claim_1)

text \<open>C23. Durable records survive every history of the store: a record is never deleted, its
  revision never decreases, and everything but agenda items, wake cycles and effect attempts
  - events, timer occurrences, decisions, proposals, approvals, results, principals, profiles,
  Mandates and work - stays exactly as it was first written.\<close>

theorem records_durable:
  assumes "store_step\<^sup>*\<^sup>* st st'" and "st_records st (n, t, i) = Some r"
  shows "\<exists>r'. st_records st' (n, t, i) = Some r' \<and> record_revision r \<le> record_revision r' \<and>
    (t \<notin> {RT_AGENDA_ITEM, RT_WAKE_CYCLE, RT_EFFECT_ATTEMPT} \<longrightarrow> r' = r)"
  using steps_grow [OF assms(1)] assms(2) unfolding grows_def mutable_types_def by fastforce

theorem records_durable_witness:
  "st_records acme_claimed (acme_colleague, RT_INPUT_EVENT, ''e1'') = Some (DInputEvent acme_event)"
  using records_durable [OF acme_claimed_later,
      of acme_colleague RT_INPUT_EVENT "''e1''" "DInputEvent acme_event"]
  by (simp add: acme_ingested_def)

text \<open>C24. The replay ledger is write-once: an idempotency key stays bound to the record it was
  first bound to, whatever the store does later.\<close>

theorem ledger_write_once:
  assumes "store_step\<^sup>*\<^sup>* st st'" and "st_ledger st key = Some v"
  shows "st_ledger st' key = Some v"
  using steps_grow [OF assms(1)] assms(2) unfolding grows_def map_le_def by (metis domI)

theorem ledger_write_once_witness:
  "st_ledger acme_claimed (acme_colleague, LK_INPUT_EVENT, ''k1'') = Some (RT_INPUT_EVENT, ''e1'')"
  by (rule ledger_write_once [OF acme_claimed_later])
    (simp add: acme_ingested_def)

text \<open>C22. The audit trail is complete and exact in every reachable store: a record is stored
  under its own key, its revisions advanced one at a time from its first to its current one,
  each of them has exactly one audit row, and no audit row is left without its record.\<close>

theorem audit_trail_exact:
  assumes "reachable st"
  shows "distinct (map audit_key (st_audit st)) \<and>
    (case st_records st k of
        None \<Rightarrow> audit_revisions st k = {}
      | Some r \<Rightarrow> record_key r = k \<and>
          (\<exists>first. 1 \<le> first \<and> first \<le> record_revision r \<and>
             audit_revisions st k = {first..record_revision r}))"
  using sound_at [OF reachable_sound [OF assms], of k] reachable_sound [OF assms]
  by (cases "st_records st k") (simp_all add: sound_def)

theorem audit_trail_exact_witness:
  "audit_revisions acme_ingested (acme_colleague, RT_INPUT_EVENT, ''e1'') = {1}"
proof -
  let ?k = "(acme_colleague, RT_INPUT_EVENT, ''e1'')"
  have r: "st_records acme_ingested ?k = Some (DInputEvent acme_event)"
    by (simp add: acme_ingested_def)
  have v: "record_revision (DInputEvent acme_event) = 1"
    by (simp add: acme_event_def)
  from audit_trail_exact [OF acme_ingested_reachable, of ?k] obtain first where
    "1 \<le> first" "first \<le> 1" "audit_revisions acme_ingested ?k = {first..1}"
    unfolding r option.case v by blast
  then show ?thesis by simp
qed

end
