(* ===== verification/Fencing.thy ===== *)
theory Fencing
  imports Samples
begin

text \<open>
  Claims under leases: a later claim of the same row carries a higher fencing token, and
  from then on every operation under the earlier claim is refused, in every later state.
\<close>

section \<open>Well-keyed stores\<close>

definition well_keyed :: "store \<Rightarrow> bool" where
  "well_keyed st \<longleftrightarrow> sound st \<and> distinct (map trigger_ident (st_triggers st)) \<and>
     distinct (map trigger_ident (st_timer_triggers st)) \<and>
     distinct (map agenda_ident (st_agenda st)) \<and> distinct (map outbox_ident (st_outbox st))"

lemma well_keyed_steps: "store_step\<^sup>*\<^sup>* st st' \<Longrightarrow> well_keyed st \<Longrightarrow> well_keyed st'"
  unfolding well_keyed_def
  by (auto intro: event_trigger.steps_unique timer_trigger.steps_unique agenda.steps_unique
      outbox.steps_unique dest: steps_grow simp: grows_def)

lemma well_keyed_empty: "well_keyed empty_store"
  using empty_sound by (simp add: well_keyed_def empty_store_def)

lemma reachable_well_keyed: "reachable st \<Longrightarrow> well_keyed st"
  unfolding reachable_def by (rule well_keyed_steps [OF _ well_keyed_empty])

section \<open>What a claim says of its row\<close>

text \<open>
  \<open>raises_token rows st st' i k\<close>: from \<open>st\<close> to \<open>st'\<close> the token of the row \<open>i\<close> went up to \<open>k\<close>.
\<close>

definition raised :: "('r \<Rightarrow> 'i) \<Rightarrow> ('r \<Rightarrow> int) \<Rightarrow> 'r list \<Rightarrow> 'r list \<Rightarrow> 'i \<Rightarrow> int \<Rightarrow> bool" where
  "raised ident fence rows rows' i k \<longleftrightarrow>
     (\<exists>r \<in> set rows. ident r = i \<and> fence r < k) \<and> (\<exists>r \<in> set rows'. ident r = i \<and> fence r = k)"

lemma find_Some_in: "find P xs = Some x \<Longrightarrow> x \<in> set xs \<and> P x"
  by (induction xs) (auto split: if_splits)

lemma raisedI:
  assumes "r \<in> set rows" "P r" "ident r = i" "fence r < k" "ident (f r) = i" "fence (f r) = k"
  shows "raised ident fence rows (update_where P f rows) i k"
proof -
  from assms(1,2) have "f r \<in> set (update_where P f rows)"
    by (force simp: set_update_where)
  with assms show ?thesis unfolding raised_def by blast
qed

context fenced_rows begin

text \<open>After a second claim of its row, no later row carries the token of the first.\<close>

lemma superseded:
  assumes "distinct (map ident (rows s1))" "r \<in> set (rows s1)" "ident r = i" "fence r = k1"
    and "step\<^sup>*\<^sup>* s1 s2" "raised ident fence (rows s2) (rows s3) i k2"
    and "step\<^sup>*\<^sup>* s2 s3" "step\<^sup>*\<^sup>* s3 s4" "q \<in> set (rows s4)" "ident q = i"
  shows "k1 < fence q"
proof -
  from assms(6) obtain r2 r3 where r: "r2 \<in> set (rows s2)" "ident r2 = i" "fence r2 < k2"
      "r3 \<in> set (rows s3)" "ident r3 = i" "fence r3 = k2"
    unfolding raised_def by blast
  have u2: "distinct (map ident (rows s2))" and u3: "distinct (map ident (rows s3))"
    using assms(1,5,7) by (auto intro: steps_unique)
  from later_fence [OF assms(5,1,2)] r assms(3,4) have "k1 \<le> fence r2" by auto
  moreover from later_fence [OF assms(8) u3 r(4) assms(9)] assms(10) r have "k2 \<le> fence q" by auto
  ultimately show ?thesis using r(3) by simp
qed

end

lemma claim_outbox_raises:
  assumes "claim_outbox_state src tgt ex n owner now lease st = Inr (Some c, st')"
  shows "oc_namespace c = n \<and> raised outbox_ident ox_fencing_token (st_outbox st) (st_outbox st')
    (n, oc_outbox_id c) (oc_fencing_token c)"
proof -
  from assms obtain row where row: "row \<in> set (st_outbox st)"
      "outbox_claimable n now src ex row"
      "claim_of_row n row owner lease (ox_fencing_token row + 1) = Inr c"
    and st': "st_outbox st' = update_where (\<lambda>r. outbox_at n (ox_outbox_id row) r \<and>
        ox_revision r = ox_revision row) (\<lambda>r. r\<lparr>ox_state := tgt, ox_lease_owner := Some owner,
        ox_lease_until := Some lease, ox_fencing_token := ox_fencing_token row + 1,
        ox_updated_at := now, ox_revision := ox_revision r + 1\<rparr>) (st_outbox st)"
    by (auto simp: claim_outbox_state_def outcome_simps split: option.splits dest!: select_first_in)
  from row(2,3) have "ox_namespace row = n" "oc_outbox_id c = ox_outbox_id row"
      "oc_namespace c = n" "oc_fencing_token c = ox_fencing_token row + 1"
    by (auto simp: outbox_claimable_def claim_of_row_def dest: OutboxClaim_init_ok)
  with row(1) show ?thesis
    unfolding st' by (auto intro!: raisedI simp: outbox_at_def outbox_ident_def)
qed

lemma claim_trigger_raises:
  assumes "claim_trigger n owner now lease st = Inr (Some c, st')"
  shows "tc_namespace c = n \<and> tc_source_record_type c \<in> {''input_event'', ''timer_occurrence''} \<and>
    raised trigger_ident tr_fencing_token (claim_table c st) (claim_table c st')
      (n, tc_trigger_id c) (tc_fencing_token c)"
proof -
  from assms obtain src row where
    ch: "choose_trigger (due_trigger n now (st_triggers st))
         (due_trigger n now (st_timer_triggers st)) = Some (src, row)"
    by (auto simp: claim_trigger_def outcome_simps split: option.splits)
  let ?T = "\<lambda>r. trigger_at n (tr_trigger_id row) r \<and> tr_revision r = tr_revision row"
  let ?f = "set_claimed owner lease (tr_fencing_token row + 1)"
  from ch have src: "src \<in> {''input_event'', ''timer_occurrence''}"
    and row: "row \<in> set (if src = ''input_event'' then st_triggers st else st_timer_triggers st)"
      "tr_namespace row = n"
    by (auto dest!: choose_trigger_in due_trigger_in)
  from assms ch have c: "tc_namespace c = n" "tc_source_record_type c = src"
      "tc_trigger_id c = tr_trigger_id row" "tc_fencing_token c = tr_fencing_token row + 1"
    and st': "st' = (if src = ''input_event''
       then st\<lparr>st_triggers := update_where ?T ?f (st_triggers st)\<rparr>
       else st\<lparr>st_timer_triggers := update_where ?T ?f (st_timer_triggers st)\<rparr>)"
    by (auto simp: claim_trigger_def outcome_simps dest!: TriggerClaim_init_ok)
  have "raised trigger_ident tr_fencing_token (claim_table c st)
      (update_where ?T ?f (claim_table c st)) (n, tc_trigger_id c) (tc_fencing_token c)"
    using row c by (intro raisedI [of row])
      (auto simp: claim_table_def trigger_at_def trigger_ident_def set_claimed_def)
  moreover have "claim_table c st' = update_where ?T ?f (claim_table c st)"
    using c st' by (simp add: claim_table_def)
  ultimately show ?thesis using c src by simp
qed

lemma raised_after:
  assumes "raised ident fence rows' rows'' i k" and "r \<in> set rows" "ident r = i" "fence r < k"
  shows "raised ident fence rows rows'' i k"
  using assms unfolding raised_def by blast

lemma AgendaItem_init_keeps: "AgendaItem_init a = Inr a' \<Longrightarrow>
    ag_agenda_item_id a' = ag_agenda_item_id a \<and> ag_generation a' = ag_generation a \<and>
    ag_handled_generation a' = ag_handled_generation a \<and> ag_state a' = ag_state a \<and>
    ag_namespace a' = ag_namespace a"
  by (auto simp: AgendaItem_init_def ok_simps Let_def split: if_splits)

lemma claim_agenda_raises:
  assumes "claim_agenda n owner now lease st = Inr (Some c, st')" and "sound st"
  shows "gl_namespace c = n \<and> raised agenda_ident gr_fencing_token (st_agenda st) (st_agenda st')
    (n, ag_agenda_item_id (gl_agenda_item c)) (gl_fencing_token c)"
proof -
  from assms(1) obtain row where
    sel: "select_first (agenda_claimable n now) attention_key (st_agenda st) = Some row"
    by (auto simp: claim_agenda_def outcome_simps split: option.splits)
  then have row: "row \<in> set (st_agenda st)" "gr_namespace row = n"
    by (auto simp: agenda_claimable_def dest!: select_first_in)
  let ?rows = "update_where (\<lambda>r. gr_namespace r = n \<and> gr_generation r > gr_handled_generation r \<and>
     gr_state r = AG_PENDING \<and> gr_agenda_item_id r \<noteq> gr_agenda_item_id row)
     (\<lambda>r. r\<lparr>gr_starvation_count := gr_starvation_count r + 1\<rparr>) (st_agenda st)"
  let ?T = "\<lambda>r. agenda_at n (gr_agenda_item_id row) r \<and> gr_revision r = gr_revision row"
  let ?f = "\<lambda>r. r\<lparr>gr_state := AG_SELECTED, gr_lease_owner := Some owner,
     gr_lease_until := Some lease, gr_fencing_token := gr_fencing_token row + 1,
     gr_starvation_count := 0, gr_revision := gr_revision r + 1\<rparr>"
  from assms(1) sel obtain current where
    current: "get_agenda_item st n (gr_agenda_item_id row) = Inr current"
    and c: "gl_namespace c = n" "gl_fencing_token c = gr_fencing_token row + 1"
      "ag_agenda_item_id (gl_agenda_item c) = ag_agenda_item_id current"
    and st': "st_agenda st' = update_where ?T ?f ?rows"
    by (auto simp: claim_agenda_def outcome_simps rows_of_eq get_agenda_item_def get_record_def
        dest!: row_dests AgendaClaim_init_ok AgendaItem_init_keeps split: option.splits)
  from current sound_keyed [OF assms(2)] have "ag_agenda_item_id current = gr_agenda_item_id row"
    by (fastforce simp: get_agenda_item_def get_record_def outcome_simps record_key_def
        wrong_type_def split: option.splits domain_record.splits)
  moreover have "row \<in> set ?rows"
    using row by (auto simp: set_update_where image_iff intro: bexI [of _ row])
  then have "raised agenda_ident gr_fencing_token ?rows (update_where ?T ?f ?rows)
      (n, gr_agenda_item_id row) (gr_fencing_token row + 1)"
    using row(2) by (intro raisedI [of row]) (simp_all add: agenda_at_def agenda_ident_def)
  ultimately show ?thesis
    unfolding st' using row c
    by (auto intro!: raised_after [of _ _ ?rows _ _ _ row] simp: agenda_ident_def)
qed

section \<open>A superseded claim is refused\<close>

text \<open>The sample agenda is well keyed.\<close>

lemma acme_agenda_well_keyed: "well_keyed acme_agenda"
  by (auto simp: well_keyed_def sound_def acme_agenda_def empty_store_def audit_revisions_def
      audit_key_def acme_item_def record_key_def acme_agenda_audit_def acme_seed_audit_def)

lemma claim_agenda_step: "claim_agenda n w now lease st = Inr (c, st') \<Longrightarrow> store_step\<^sup>*\<^sup>* st st'"
  by (rule r_into_rtranclp) (rule do_claim_agenda)

lemma claim_trigger_step: "claim_trigger n w now lease st = Inr (c, st') \<Longrightarrow> store_step\<^sup>*\<^sup>* st st'"
  by (rule r_into_rtranclp) (rule do_claim_trigger)

lemma claim_outbox_step:
  "claim \<in> {claim_outbox, claim_ambiguous} \<Longrightarrow> claim n w now lease st = Inr (c, st') \<Longrightarrow>
     store_step\<^sup>*\<^sup>* st st'"
  by (auto intro!: r_into_rtranclp intro: do_claim_outbox do_claim_ambiguous)

lemma claim_outbox_in_raises:
  assumes "claim \<in> {claim_outbox, claim_ambiguous}" "claim n w now lease st = Inr (Some c, st')"
  shows "oc_namespace c = n \<and> raised outbox_ident ox_fencing_token (st_outbox st) (st_outbox st')
    (n, oc_outbox_id c) (oc_fencing_token c)"
  using assms unfolding claim_outbox_def claim_ambiguous_def by (auto dest: claim_outbox_raises)

lemma require_outbox_refuses:
  assumes "\<And>r. r \<in> set (st_outbox st) \<Longrightarrow> outbox_ident r = (oc_namespace c, oc_outbox_id c) \<Longrightarrow>
    oc_fencing_token c < ox_fencing_token r"
  shows "require_outbox_claim c states at st =
    Inl (ConflictError ''stale or drifted outbox claim binding'')"
proof (cases "find (outbox_at (oc_namespace c) (oc_outbox_id c)) (st_outbox st)")
  case (Some r)
  with assms [of r] have "ox_fencing_token r \<noteq> oc_fencing_token c"
    by (auto dest!: find_Some_in simp: outbox_at_def outbox_ident_def)
  with Some show ?thesis by (simp add: require_outbox_claim_def raise_if_def)
qed (simp add: require_outbox_claim_def)

lemma outbox_superseded:
  assumes "well_keyed st0" "claim1 \<in> {claim_outbox, claim_ambiguous}"
    "claim1 n w1 t1 l1 st0 = Inr (Some c1, st1)" "store_step\<^sup>*\<^sup>* st1 st2"
    "claim2 \<in> {claim_outbox, claim_ambiguous}" "claim2 n w2 t2 l2 st2 = Inr (Some c2, st3)"
    "oc_outbox_id c2 = oc_outbox_id c1" "store_step\<^sup>*\<^sup>* st3 st4"
    "r \<in> set (st_outbox st4)" "outbox_ident r = (oc_namespace c1, oc_outbox_id c1)"
  shows "oc_fencing_token c1 < ox_fencing_token r"
proof -
  have wk: "well_keyed st1"
    by (rule well_keyed_steps [OF claim_outbox_step [OF assms(2,3)] assms(1)])
  from claim_outbox_in_raises [OF assms(2,3)] obtain r1 where
    r1: "oc_namespace c1 = n" "r1 \<in> set (st_outbox st1)" "outbox_ident r1 = (n, oc_outbox_id c1)"
      "ox_fencing_token r1 = oc_fencing_token c1"
    unfolding raised_def by blast
  show ?thesis
    using wk r1 assms(4,7-10) claim_outbox_in_raises [OF assms(5,6)]
      claim_outbox_step [OF assms(5,6)]
    by (intro outbox.superseded [of st1 r1 _ _ st2 st3 "oc_fencing_token c2" st4])
      (auto simp: well_keyed_def)
qed

text \<open>C16. A worker whose outbox lease was taken over can no longer act: once the row has been
  claimed again, in every later store the bundle load, the dispatch start, its outcome and its
  reconciliation under the earlier claim are all refused as stale.\<close>

theorem outbox_stale_claim_refused:
  assumes "well_keyed st0" "claim1 \<in> {claim_outbox, claim_ambiguous}"
    "claim1 n w1 t1 l1 st0 = Inr (Some c1, st1)" "store_step\<^sup>*\<^sup>* st1 st2"
    "claim2 \<in> {claim_outbox, claim_ambiguous}" "claim2 n w2 t2 l2 st2 = Inr (Some c2, st3)"
    "oc_outbox_id c2 = oc_outbox_id c1" "store_step\<^sup>*\<^sup>* st3 st4"
  shows "let stale = ConflictError ''stale or drifted outbox claim binding''
    in load_dispatch_bundle c1 mandate_id st4 = Inl stale \<and>
       mark_dispatch_started c1 t st4 = Inl stale \<and>
       finalize_dispatch c1 outcome i actor t next_id st4 = Inl stale \<and>
       reconcile_ambiguous c1 verdict i actor t next_id next_at st4 = Inl stale"
  using require_outbox_refuses [OF outbox_superseded [OF assms]]
  by (simp add: Let_def load_dispatch_bundle_def mark_dispatch_started_def finalize_dispatch_def
      finalize_dispatch_in_transaction_def reconcile_ambiguous_def)

theorem outbox_stale_claim_refused_witness:
  "mark_dispatch_started (acme_outbox_claim ''w1'' 10 1) (utc 31)
     (acme_outbox (acme_leased ''w2'' 30 2 (acme_leased ''w1'' 10 1 acme_row))) =
     Inl (ConflictError ''stale or drifted outbox claim binding'')"
proof -
  have "well_keyed (acme_outbox acme_row)"
    unfolding well_keyed_def acme_outbox_def
    by (simp add: empty_sound) (simp add: empty_store_def)
  from outbox_stale_claim_refused [OF this insertI1 acme_outbox_claim_1 rtranclp.rtrancl_refl
      insertI1 acme_outbox_claim_2 _ rtranclp.rtrancl_refl]
  show ?thesis by (simp add: Let_def acme_outbox_claim_def)
qed

lemma require_agenda_refuses:
  assumes "\<And>r. r \<in> set (st_agenda st) \<Longrightarrow>
    agenda_ident r = (gl_namespace c, ag_agenda_item_id (gl_agenda_item c)) \<Longrightarrow>
    gl_fencing_token c < gr_fencing_token r"
  shows "require_agenda_claim c st = Inl (ConflictError ''stale Agenda owner or fencing token'')"
proof (cases "find (agenda_at (gl_namespace c) (ag_agenda_item_id (gl_agenda_item c)))
    (st_agenda st)")
  case (Some r)
  with assms [of r] have "gr_fencing_token r \<noteq> gl_fencing_token c"
    by (auto dest!: find_Some_in simp: agenda_at_def agenda_ident_def)
  with Some show ?thesis by (simp add: require_agenda_claim_def)
qed (simp add: require_agenda_claim_def)

text \<open>The row of an issued claim carries at least its token.\<close>

definition agenda_claim_issued :: "AgendaClaim \<Rightarrow> store \<Rightarrow> bool" where
  "agenda_claim_issued c st \<longleftrightarrow> (\<exists>r \<in> set (st_agenda st).
     agenda_ident r = (gl_namespace c, ag_agenda_item_id (gl_agenda_item c)) \<and>
     gl_fencing_token c \<le> gr_fencing_token r)"

lemma claim_agenda_issued:
  "claim_agenda n w now lease st = Inr (Some c, st') \<Longrightarrow> well_keyed st \<Longrightarrow> agenda_claim_issued c st'"
  using claim_agenda_raises [of n w now lease st c st']
  by (auto simp: agenda_claim_issued_def raised_def well_keyed_def)

lemma agenda_superseded:
  assumes "well_keyed st1" "agenda_claim_issued c1 st1" "store_step\<^sup>*\<^sup>* st1 st2"
    "claim_agenda (gl_namespace c1) w t l st2 = Inr (Some c2, st3)"
    "ag_agenda_item_id (gl_agenda_item c2) = ag_agenda_item_id (gl_agenda_item c1)"
    "store_step\<^sup>*\<^sup>* st3 st4" "r \<in> set (st_agenda st4)"
    "agenda_ident r = (gl_namespace c1, ag_agenda_item_id (gl_agenda_item c1))"
  shows "gl_fencing_token c1 < gr_fencing_token r"
proof -
  from assms(2) obtain r1 where r1: "r1 \<in> set (st_agenda st1)"
      "agenda_ident r1 = (gl_namespace c1, ag_agenda_item_id (gl_agenda_item c1))"
      "gl_fencing_token c1 \<le> gr_fencing_token r1"
    unfolding agenda_claim_issued_def by blast
  have "sound st2"
    using well_keyed_steps [OF assms(3,1)] by (simp add: well_keyed_def)
  from claim_agenda_raises [OF assms(4) this] assms(1,3,5-8) claim_agenda_step [OF assms(4)] r1(1,2)
  have "gr_fencing_token r1 < gr_fencing_token r"
    by (intro agenda.superseded [of st1 r1 _ _ st2 st3 "gl_fencing_token c2" st4])
      (auto simp: well_keyed_def)
  with r1(3) show ?thesis by simp
qed

text \<open>C34. The same for the agenda: once the item of an issued claim has been claimed again,
  neither its release nor a decision can be committed under the earlier claim, in any later
  store.\<close>

theorem agenda_stale_claim_refused:
  assumes "well_keyed st1" "agenda_claim_issued c1 st1" "store_step\<^sup>*\<^sup>* st1 st2"
    "claim_agenda (gl_namespace c1) w t l st2 = Inr (Some c2, st3)"
    "ag_agenda_item_id (gl_agenda_item c2) = ag_agenda_item_id (gl_agenda_item c1)"
    "store_step\<^sup>*\<^sup>* st3 st4"
  shows "let stale = ConflictError ''stale Agenda owner or fencing token''
    in release_agenda c1 st4 = Inl stale \<and> commit_semantic_decision c1 semantic st4 = Inl stale"
  using require_agenda_refuses [OF agenda_superseded [OF assms]]
  by (simp add: Let_def release_agenda_def commit_semantic_decision_def)

theorem agenda_stale_claim_refused_witness:
  "release_agenda (acme_agenda_claim ''w1'' 10 1) acme_reclaimed_agenda =
     Inl (ConflictError ''stale Agenda owner or fencing token'')"
proof -
  have issued: "agenda_claim_issued (acme_agenda_claim ''w1'' 10 1) acme_agenda"
    by (simp add: agenda_claim_issued_def acme_agenda_def acme_agenda_claim_def agenda_ident_def
        acme_item_def acme_agenda_row_def)
  have again: "claim_agenda (gl_namespace (acme_agenda_claim ''w1'' 10 1)) ''w2'' (utc 30) (utc 40)
      acme_agenda = Inr (Some (acme_agenda_claim ''w2'' 30 2), acme_reclaimed_agenda)"
    using acme_agenda_claimed by (simp add: acme_agenda_claim_def)
  from agenda_stale_claim_refused [OF acme_agenda_well_keyed issued rtranclp.rtrancl_refl again
      _ rtranclp.rtrancl_refl]
  show ?thesis by (simp add: Let_def acme_agenda_claim_def acme_item_def)
qed

text \<open>The two trigger tables behind one claim.\<close>

lemma trigger_superseded:
  assumes "well_keyed st0" "claim_trigger n w1 t1 l1 st0 = Inr (Some c1, st1)"
    "store_step\<^sup>*\<^sup>* st1 st2" "claim_trigger n w2 t2 l2 st2 = Inr (Some c2, st3)"
    "tc_trigger_id c2 = tc_trigger_id c1"
    "tc_source_record_type c2 = tc_source_record_type c1"
    "store_step\<^sup>*\<^sup>* st3 st4" "r \<in> set (claim_table c1 st4)"
    "trigger_ident r = (tc_namespace c1, tc_trigger_id c1)"
  shows "tc_fencing_token c1 < tr_fencing_token r"
proof -
  have wk: "well_keyed st1"
    by (rule well_keyed_steps [OF claim_trigger_step [OF assms(2)] assms(1)])
  from claim_trigger_raises [OF assms(2)] obtain r1 where
    r1: "tc_namespace c1 = n" "r1 \<in> set (claim_table c1 st1)"
      "trigger_ident r1 = (n, tc_trigger_id c1)" "tr_fencing_token r1 = tc_fencing_token c1"
    unfolding raised_def by blast
  have c2: "raised trigger_ident tr_fencing_token (claim_table c1 st2) (claim_table c1 st3)
      (n, tc_trigger_id c1) (tc_fencing_token c2)"
    using claim_trigger_raises [OF assms(4)] assms(5,6) by (simp add: claim_table_def)
  show ?thesis
  proof (cases "tc_source_record_type c1 = ''input_event''")
    case True
    with wk r1 c2 assms(3,7-9) claim_trigger_step [OF assms(4)] show ?thesis
      by (intro event_trigger.superseded [of st1 r1 _ _ st2 st3 "tc_fencing_token c2" st4])
        (auto simp: well_keyed_def claim_table_def)
  next
    case False
    with wk r1 c2 assms(3,7-9) claim_trigger_step [OF assms(4)] show ?thesis
      by (intro timer_trigger.superseded [of st1 r1 _ _ st2 st3 "tc_fencing_token c2" st4])
        (auto simp: well_keyed_def claim_table_def)
  qed
qed

text \<open>C35. The same for triggers: a trigger claimed again can not be materialised into the agenda
  under the earlier claim, in any later store.\<close>

theorem trigger_stale_claim_refused:
  assumes "well_keyed st0" "claim_trigger n w1 t1 l1 st0 = Inr (Some c1, st1)"
    "store_step\<^sup>*\<^sup>* st1 st2" "claim_trigger n w2 t2 l2 st2 = Inr (Some c2, st3)"
    "tc_trigger_id c2 = tc_trigger_id c1"
    "tc_source_record_type c2 = tc_source_record_type c1"
    "store_step\<^sup>*\<^sup>* st3 st4"
  shows "materialize_agenda c1 wake_cycle_id agenda_item_id actor t st4 =
    Inl (ConflictError ''stale trigger owner or fencing token'')"
proof -
  have "require_trigger_claim c1 st4 =
      Inl (ConflictError ''stale trigger owner or fencing token'')"
  proof (cases "find (trigger_at (tc_namespace c1) (tc_trigger_id c1)) (claim_table c1 st4)")
    case (Some r)
    with trigger_superseded [OF assms, of r] have "tr_fencing_token r \<noteq> tc_fencing_token c1"
      by (auto dest!: find_Some_in simp: trigger_at_def trigger_ident_def)
    with Some claim_trigger_raises [OF assms(2)] show ?thesis
      by (auto simp: require_trigger_claim_def raise_if_def)
  qed (use claim_trigger_raises [OF assms(2)] in
    \<open>auto simp: require_trigger_claim_def raise_if_def\<close>)
  then show ?thesis by (simp add: materialize_agenda_def)
qed

theorem trigger_stale_claim_refused_witness:
  "materialize_agenda (acme_claim 1 ''w1'' 20) ''wk1'' ''g1'' (acme_principal ''svc'' SERVICE [])
     (utc 31) acme_reclaimed = Inl (ConflictError ''stale trigger owner or fencing token'')"
proof -
  from trigger_stale_claim_refused [OF reachable_well_keyed [OF acme_ingested_reachable]
      acme_trigger_claim_1 rtranclp.rtrancl_refl acme_trigger_claim_2 _ _ rtranclp.rtrancl_refl]
  show ?thesis by (simp add: acme_claim_def)
qed

end
