(* ===== verification/OutboxInv.thy ===== *)
theory OutboxInv
  imports Fencing
begin

text \<open>
  The invariant of the outbox: every row is backed by a human approval of exactly its
  proposal, stays within the proposal's attempts, and is in step with the state of its current
  effect attempt.
\<close>

section \<open>The invariant\<close>

fun attempt_state_of :: "outbox_state \<Rightarrow> EffectAttemptState" where
  "attempt_state_of OX_PENDING = EA_PLANNED"
| "attempt_state_of OX_CLAIMED = EA_PLANNED"
| "attempt_state_of OX_RETRY = EA_PLANNED"
| "attempt_state_of OX_DISPATCHING = EA_STARTED"
| "attempt_state_of OX_COMPLETED = EA_SUCCEEDED"
| "attempt_state_of OX_TERMINAL_FAILED = EA_FAILED"
| "attempt_state_of OX_AMBIGUOUS = EA_AMBIGUOUS"
| "attempt_state_of OX_AMBIGUOUS_CLAIMED = EA_AMBIGUOUS"

text \<open>
  The approval behind a row: a human approved this proposal, by ID, revision and digests, and
  the replay ledger binds the proposal's revision to that approval.
\<close>

definition row_approved :: "store \<Rightarrow> outbox_row \<Rightarrow> bool" where
  "row_approved st r \<longleftrightarrow> (\<exists>d p.
     st_records st (ox_namespace r, RT_HUMAN_APPROVAL, ox_approval_decision_id r)
       = Some (DHumanApproval d) \<and>
     st_records st (ox_namespace r, RT_EFFECT_PROPOSAL, ox_proposal_id r)
       = Some (DEffectProposal p) \<and>
     ha_choice d = APPROVE \<and> pr_kind (ha_author d) = HUMAN \<and>
     ha_proposal_id d = ox_proposal_id r \<and> ha_proposal_revision d = ep_revision p \<and>
     ha_proposal_payload_digest d = ep_payload_digest p \<and>
     ha_proposal_digest d = ep_proposal_digest p \<and>
     ox_maximum_attempts r = ec_maximum_attempts (ep_constraints p) \<and>
     ox_effect_idempotency_key r = ec_idempotency_key (ep_constraints p) \<and>
     st_ledger st (ox_namespace r, LK_PROPOSAL_APPROVAL, proposal_binding p)
       = Some (RT_HUMAN_APPROVAL, ox_approval_decision_id r))"

definition row_attempted :: "store \<Rightarrow> outbox_row \<Rightarrow> bool" where
  "row_attempted st r \<longleftrightarrow> 1 \<le> ox_attempt_number r \<and> ox_attempt_number r \<le> ox_maximum_attempts r \<and>
     (\<exists>a. st_records st (ox_namespace r, RT_EFFECT_ATTEMPT, ox_effect_attempt_id r)
       = Some (DEffectAttempt a) \<and>
     ea_state a = attempt_state_of (ox_state r) \<and> ea_attempt_number a = ox_attempt_number r \<and>
     ea_proposal_id a = ox_proposal_id r \<and>
     ea_approval_decision_id a = ox_approval_decision_id r)"

definition attempt_ident :: "outbox_row \<Rightarrow> Namespace \<times> string" where
  "attempt_ident r = (ox_namespace r, ox_effect_attempt_id r)"

definition approval_ident :: "outbox_row \<Rightarrow> Namespace \<times> string" where
  "approval_ident r = (ox_namespace r, ox_approval_decision_id r)"

definition outbox_ok :: "store \<Rightarrow> bool" where
  "outbox_ok st \<longleftrightarrow> well_keyed st \<and>
     (\<forall>r \<in> set (st_outbox st). row_approved st r \<and> row_attempted st r) \<and>
     distinct (map attempt_ident (st_outbox st)) \<and> distinct (map approval_ident (st_outbox st))"

lemma outbox_ok_empty: "outbox_ok empty_store"
  using well_keyed_empty by (simp add: outbox_ok_def empty_store_def)

section \<open>Operations that leave the outbox alone\<close>

lemma row_approved_grows:
  assumes "row_approved st r" and "grows T st st'"
    and "RT_HUMAN_APPROVAL \<notin> T" "RT_EFFECT_PROPOSAL \<notin> T"
  shows "row_approved st' r"
proof -
  have keep: "st_records st' (n, t, i) = Some x"
    if "st_records st (n, t, i) = Some x" "t \<in> {RT_HUMAN_APPROVAL, RT_EFFECT_PROPOSAL}" for n t i x
    using grows_keeps [OF assms(2) that(1)] that(2) assms(3,4) by auto
  have ledger: "st_ledger st' k = Some v" if "st_ledger st k = Some v" for k v
    using assms(2) that unfolding grows_def map_le_def by (metis domI)
  from assms(1) show ?thesis
    unfolding row_approved_def by (elim exE conjE) (simp add: keep ledger)
qed

lemma row_attempted_grows:
  assumes "row_attempted st r" and "grows T st st'" and "RT_EFFECT_ATTEMPT \<notin> T"
  shows "row_attempted st' r"
  using assms(1) grows_keeps [OF assms(2) _ assms(3)] unfolding row_attempted_def by blast

lemma outbox_ok_grows:
  assumes "outbox_ok st" and "well_keyed st'" and "grows T st st'" and "st_outbox st' = st_outbox st"
    and "T \<subseteq> {RT_AGENDA_ITEM, RT_WAKE_CYCLE}"
  shows "outbox_ok st'"
proof -
  have T: "RT_HUMAN_APPROVAL \<notin> T" "RT_EFFECT_PROPOSAL \<notin> T" "RT_EFFECT_ATTEMPT \<notin> T"
    using assms(5) by auto
  from assms(1,2,4) show ?thesis
    unfolding outbox_ok_def
    using row_approved_grows [OF _ assms(3) T(1,2)] row_attempted_grows [OF _ assms(3) T(3)] by simp
qed

section \<open>Operations that change one row\<close>

text \<open>
  One row is replaced and nothing it rests on is lost: of the records, only the row's own
  attempt may change, and the row keeps its attempt or moves to one that did not exist.
\<close>

lemma outbox_ok_replace:
  assumes ok: "outbox_ok st" and wk: "well_keyed st'" and g: "grows {RT_EFFECT_ATTEMPT} st st'"
    and row: "row \<in> set (st_outbox st)"
    and others: "\<And>n i a. (n, i) \<noteq> attempt_ident row \<Longrightarrow>
      st_records st (n, RT_EFFECT_ATTEMPT, i) = Some a \<Longrightarrow>
      st_records st' (n, RT_EFFECT_ATTEMPT, i) = Some a"
    and upd: "st_outbox st' = update_where P f (st_outbox st)"
    and only: "\<And>r. r \<in> set (st_outbox st) \<Longrightarrow> P r \<Longrightarrow> r = row"
    and same: "outbox_ident (f row) = outbox_ident row" "approval_ident (f row) = approval_ident row"
      "ox_proposal_id (f row) = ox_proposal_id row"
      "ox_maximum_attempts (f row) = ox_maximum_attempts row"
      "ox_effect_idempotency_key (f row) = ox_effect_idempotency_key row"
    and new: "P row \<Longrightarrow> row_attempted st' (f row)" "\<not> P row \<Longrightarrow> row_attempted st' row"
    and moved: "attempt_ident (f row) = attempt_ident row \<or>
      st_records st (ox_namespace row, RT_EFFECT_ATTEMPT, ox_effect_attempt_id (f row)) = None"
  shows "outbox_ok st'"
proof -
  have ns: "ox_namespace (f row) = ox_namespace row"
    using same(1) by (simp add: outbox_ident_def)
  have kept: "row_approved st' r" if "r \<in> set (st_outbox st)" for r
    using row_approved_grows [OF _ g] that ok by (auto simp: outbox_ok_def)
  have attempted: "row_attempted st' r" if "r \<in> set (st_outbox st)" "r \<noteq> row" for r
  proof -
    have "attempt_ident r \<noteq> attempt_ident row"
      using ok that row by (auto simp: outbox_ok_def distinct_map inj_on_def)
    with ok that(1) others show ?thesis
      unfolding outbox_ok_def row_attempted_def attempt_ident_def by blast
  qed
  have img: "set (st_outbox st') = (\<lambda>r. if P r then f r else r) ` set (st_outbox st)"
    by (simp add: upd set_update_where)
  have rows: "row_approved st' r \<and> row_attempted st' r" if "r \<in> set (st_outbox st')" for r
  proof -
    from that img obtain q where q: "q \<in> set (st_outbox st)" "r = (if P q then f q else q)" by auto
    show ?thesis
    proof (cases "q = row")
      case True
      have "row_approved st' (f row)"
        using kept [OF row] same(2-5) ns
        unfolding row_approved_def approval_ident_def by simp
      with True q kept [OF row] new show ?thesis by auto
    next
      case False
      with q only kept attempted show ?thesis by auto
    qed
  qed
  have approvals: "map approval_ident (st_outbox st') = map approval_ident (st_outbox st)"
    unfolding upd by (rule update_where_map) (use only same(2) in auto)
  have "distinct (map attempt_ident (st_outbox st'))"
  proof (cases "attempt_ident (f row) = attempt_ident row")
    case True
    have "map attempt_ident (st_outbox st') = map attempt_ident (st_outbox st)"
      unfolding upd by (rule update_where_map) (use only True in auto)
    with ok show ?thesis by (simp add: outbox_ok_def)
  next
    case False
    have fresh: "attempt_ident q \<noteq> attempt_ident (f row)" if "q \<in> set (st_outbox st)" for q
      using moved False ok that ns
      unfolding outbox_ok_def row_attempted_def attempt_ident_def by auto
    from ok have d: "distinct (st_outbox st)" "inj_on attempt_ident (set (st_outbox st))"
      by (auto simp: outbox_ok_def distinct_map)
    let ?f = "\<lambda>r. if P r then f r else r"
    have "inj_on (\<lambda>r. attempt_ident (?f r)) (set (st_outbox st))"
    proof (rule inj_onI)
      fix x y assume xy: "x \<in> set (st_outbox st)" "y \<in> set (st_outbox st)"
        "attempt_ident (?f x) = attempt_ident (?f y)"
      show "x = y"
      proof (cases "P x"; cases "P y")
        assume "P x" "P y" with xy only show ?thesis by metis
      next
        assume "P x" "\<not> P y" with xy only fresh [of y] show ?thesis by auto
      next
        assume "\<not> P x" "P y" with xy only fresh [of x] show ?thesis by auto
      next
        assume "\<not> P x" "\<not> P y" with xy d(2) show ?thesis by (auto dest: inj_onD)
      qed
    qed
    with d(1) show ?thesis
      by (simp add: upd update_where_def distinct_map comp_inj_on_iff o_def inj_on_def)
  qed
  with ok wk rows approvals show ?thesis by (simp add: outbox_ok_def)
qed

section \<open>Each operation of the outbox\<close>

lemma get_effect_attempt_iff:
  "get_effect_attempt st n i = Inr a \<longleftrightarrow>
     st_records st (n, RT_EFFECT_ATTEMPT, i) = Some (DEffectAttempt a)"
  by (auto simp: get_effect_attempt_def get_record_def bindR_eq_Inr wrong_type_def
      split: option.splits domain_record.splits)

lemma get_proposal_iff:
  "get_proposal st n i = Inr p \<longleftrightarrow>
     st_records st (n, RT_EFFECT_PROPOSAL, i) = Some (DEffectProposal p)"
  by (auto simp: get_proposal_def get_record_def bindR_eq_Inr wrong_type_def
      split: option.splits domain_record.splits)

lemma require_outbox_claim_row:
  assumes "require_outbox_claim c states at st = Inr row"
  shows "row \<in> set (st_outbox st)" "outbox_ident row = (oc_namespace c, oc_outbox_id c)"
    "ox_state row \<in> states" "claimed_row c row" "ox_effect_attempt_id row = oc_effect_attempt_id c"
    "ox_namespace row = oc_namespace c"
  using assms
  by (auto simp: require_outbox_claim_def outcome_simps outbox_at_def outbox_ident_def
      claimed_row_def split: option.splits dest!: find_Some_in)

lemma only_claimed_row:
  assumes "well_keyed st" "row \<in> set (st_outbox st)" "claimed_row c row"
    "r \<in> set (st_outbox st)" "claimed_row c r"
  shows "r = row"
  using assms
  by (auto simp: well_keyed_def claimed_row_def outbox_at_def outbox_ident_def distinct_map
      inj_on_def)

lemma claim_keeps_ok:
  assumes "outbox_ok st" and "claim_outbox_state src tgt ex n owner now lease st = Inr (x, st')"
    and "\<And>s. s \<in> src \<Longrightarrow> attempt_state_of s = attempt_state_of tgt" and "well_keyed st'"
  shows "outbox_ok st'"
proof (cases "select_first (outbox_claimable n now src ex)
    (\<lambda>r. (ox_next_attempt_at r, ox_outbox_id r)) (st_outbox st)")
  case None
  with assms show ?thesis by (auto simp: claim_outbox_state_def outcome_simps)
next
  case (Some row)
  let ?P = "\<lambda>r. outbox_at n (ox_outbox_id row) r \<and> ox_revision r = ox_revision row"
  let ?f = "\<lambda>r. r\<lparr>ox_state := tgt, ox_lease_owner := Some owner, ox_lease_until := Some lease,
    ox_fencing_token := ox_fencing_token row + 1, ox_updated_at := now,
    ox_revision := ox_revision r + 1\<rparr>"
  from Some have row: "row \<in> set (st_outbox st)" "ox_namespace row = n" "ox_state row \<in> src"
    by (auto simp: outbox_claimable_def dest!: select_first_in)
  from assms(2) Some have upd: "st_outbox st' = update_where ?P ?f (st_outbox st)"
    by (auto simp: claim_outbox_state_def outcome_simps)
  have records: "st_records st' = st_records st"
    using claim_outbox_effect(2) [OF assms(2)] .
  have att: "row_attempted st row"
    using assms(1) row(1) by (simp add: outbox_ok_def)
  show ?thesis
  proof (rule outbox_ok_replace [OF assms(1,4) claim_outbox_effect(1) [OF assms(2)] row(1) _ upd])
    fix r assume "r \<in> set (st_outbox st)" "?P r"
    with row assms(1) show "r = row"
      by (auto simp: outbox_ok_def well_keyed_def outbox_at_def outbox_ident_def distinct_map
          inj_on_def)
  qed (use att row(3) assms(3) records in
    \<open>auto simp: outbox_ident_def approval_ident_def attempt_ident_def row_attempted_def\<close>)
qed

text \<open>The attempt of a row, rewritten in place.\<close>

lemma EffectAttempt_init_ok: "EffectAttempt_init a = Inr b \<Longrightarrow> b = a"
  by (simp add: EffectAttempt_init_def checks_ok)

lemma update_attempt:
  assumes "sound st" "st_records st (n, RT_EFFECT_ATTEMPT, i) = Some (DEffectAttempt a)"
    and "EffectAttempt_init (a\<lparr>ea_state := s, ea_actor := actor, ea_occurred_at := t,
      ea_revision := v\<rparr>) = Inr b"
    and "update_record u (DEffectAttempt b) st = Inr st'"
  shows "st_records st' = (st_records st)((n, RT_EFFECT_ATTEMPT, i) \<mapsto> DEffectAttempt b)"
    "ea_state b = s" "ea_attempt_number b = ea_attempt_number a"
    "ea_proposal_id b = ea_proposal_id a" "ea_approval_decision_id b = ea_approval_decision_id a"
    "ea_namespace b = n" "ea_effect_attempt_id b = i"
proof -
  have b: "b = a\<lparr>ea_state := s, ea_actor := actor, ea_occurred_at := t, ea_revision := v\<rparr>"
    by (rule EffectAttempt_init_ok [OF assms(3)])
  have key: "ea_namespace a = n" "ea_effect_attempt_id a = i"
    using sound_keyed [OF assms(1,2)] by (simp_all add: record_key_def)
  from update_record_writes [OF assms(4)] obtain old where "writes (Some old) (DEffectAttempt b) st st'"
    by blast
  from writes_records [OF this] show
      "st_records st' = (st_records st)((n, RT_EFFECT_ATTEMPT, i) \<mapsto> DEffectAttempt b)"
    by (simp add: record_key_def b key)
  show "ea_state b = s" "ea_attempt_number b = ea_attempt_number a"
    "ea_proposal_id b = ea_proposal_id a" "ea_approval_decision_id b = ea_approval_decision_id a"
    "ea_namespace b = n" "ea_effect_attempt_id b = i"
    by (simp_all add: b key)
qed

lemma mark_started_keeps_ok:
  assumes "outbox_ok st" and "mark_dispatch_started c t st = Inr (x, st')" and "well_keyed st'"
  shows "outbox_ok st'"
proof -
  let ?f = "\<lambda>r. r\<lparr>ox_state := OX_DISPATCHING, ox_updated_at := t, ox_revision := ox_revision r + 1\<rparr>"
  from assms(2) obtain row a b st1 where c: "require_outbox_claim c {OX_CLAIMED} None st = Inr row"
      "get_effect_attempt st (oc_namespace c) (oc_effect_attempt_id c) = Inr a"
      "EffectAttempt_init (a\<lparr>ea_state := EA_STARTED, ea_occurred_at := t,
         ea_revision := ea_revision a + 1\<rparr>) = Inr b"
      "update_record (ea_revision a) (DEffectAttempt b) st = Inr st1"
      "st' = st1\<lparr>st_outbox := update_where (claimed_row c) ?f (st_outbox st1)\<rparr>"
    by (auto simp: mark_dispatch_started_def outcome_simps)
  note row = require_outbox_claim_row [OF c(1)]
  have "sound st" using assms(1) by (simp add: outbox_ok_def well_keyed_def)
  from update_attempt [OF this, where n = "oc_namespace c" and i = "oc_effect_attempt_id c"
      and a = a and s = EA_STARTED and actor = "ea_actor a" and t = t
      and v = "ea_revision a + 1" and b = b] c(2-4)
  have b: "st_records st1 = (st_records st)((oc_namespace c, RT_EFFECT_ATTEMPT,
        oc_effect_attempt_id c) \<mapsto> DEffectAttempt b)"
      "ea_state b = EA_STARTED" "ea_attempt_number b = ea_attempt_number a"
      "ea_proposal_id b = ea_proposal_id a" "ea_approval_decision_id b = ea_approval_decision_id a"
    by (simp_all add: get_effect_attempt_iff)
  have upd: "st_outbox st' = update_where (claimed_row c) ?f (st_outbox st)"
    using c(4,5) by (auto dest!: row_dests simp: rows_of_eq)
  have att: "row_attempted st row"
    using assms(1) row(1) by (simp add: outbox_ok_def)
  show ?thesis
  proof (rule outbox_ok_replace [OF assms(1,3) mark_started_grows [OF assms(2)] row(1) _ upd])
    fix r assume "r \<in> set (st_outbox st)" "claimed_row c r"
    with only_claimed_row [of st row c r] row assms(1) show "r = row" by (simp add: outbox_ok_def)
  qed (use att row b c(2,5) in
    \<open>auto simp: outbox_ident_def approval_ident_def attempt_ident_def row_attempted_def
      get_effect_attempt_iff\<close>)
qed

text \<open>The two final handlers: the attempt is completed, and possibly a retry is planned.\<close>

lemma complete_attempt_records:
  assumes "sound st" "st_records st (n, RT_EFFECT_ATTEMPT, i) = Some (DEffectAttempt a)"
    and "complete_attempt a s rs pr dg j n actor t st = Inr (result, st')"
  shows "\<exists>b. st_records st' (n, RT_EFFECT_ATTEMPT, i) = Some (DEffectAttempt b) \<and> ea_state b = s \<and>
      ea_attempt_number b = ea_attempt_number a \<and> ea_proposal_id b = ea_proposal_id a \<and>
      ea_approval_decision_id b = ea_approval_decision_id a \<and>
      (\<forall>m k. (m, k) \<noteq> (n, i) \<longrightarrow>
         st_records st' (m, RT_EFFECT_ATTEMPT, k) = st_records st (m, RT_EFFECT_ATTEMPT, k))"
proof -
  from assms(3) obtain b st1 where c: "EffectAttempt_init (a\<lparr>ea_state := s, ea_actor := actor,
        ea_occurred_at := t, ea_revision := ea_revision a + 1\<rparr>) = Inr b"
      "update_record (ea_revision a) (DEffectAttempt b) st = Inr st1"
      "insert_record (DActionResult result) st1 = Inr st'"
    by (auto simp: complete_attempt_result)
  note u = update_attempt [OF assms(1,2) c(1,2)]
  have "st_records st' = (st_records st1)(record_key (DActionResult result) \<mapsto> DActionResult result)"
    using c(3) by (auto dest!: insert_record_writes writes_records)
  with u show ?thesis
    by (intro exI [of _ b]) (auto simp: record_key_def)
qed

lemma finish_keeps_ok:
  assumes ok: "outbox_ok st" and wk: "well_keyed st'" and g: "grows {RT_EFFECT_ATTEMPT} st st'"
    and req: "require_outbox_claim c states at st = Inr row"
    and att: "get_effect_attempt st (oc_namespace c) (oc_effect_attempt_id c) = Inr a"
    and comp: "complete_attempt a (attempt_state_of os) rs pr dg j (oc_namespace c) actor t st
      = Inr (result, st2)"
    and retry: "retry_step nid absent row a os actor t st2 cur fin st3"
    and st': "st' = st3\<lparr>st_outbox := update_where (claimed_row c) f (st_outbox st3)\<rparr>"
    and f: "outbox_ident (f row) = outbox_ident row" "approval_ident (f row) = approval_ident row"
      "ox_proposal_id (f row) = ox_proposal_id row"
      "ox_maximum_attempts (f row) = ox_maximum_attempts row"
      "ox_effect_idempotency_key (f row) = ox_effect_idempotency_key row"
      "ox_state (f row) = fin" "ox_attempt_number (f row) = ea_attempt_number cur"
      "ox_effect_attempt_id (f row) = ea_effect_attempt_id cur"
  shows "outbox_ok st'"
proof -
  note row = require_outbox_claim_row [OF req]
  have sound: "sound st" using ok by (simp add: outbox_ok_def well_keyed_def)
  have ra: "st_records st (oc_namespace c, RT_EFFECT_ATTEMPT, oc_effect_attempt_id c)
      = Some (DEffectAttempt a)"
    using att by (simp add: get_effect_attempt_iff)
  have key: "ea_namespace a = oc_namespace c" "ea_effect_attempt_id a = oc_effect_attempt_id c"
    using sound_keyed [OF sound ra] by (simp_all add: record_key_def)
  have old: "row_attempted st row"
    using ok row(1) by (simp add: outbox_ok_def)
  with ra row have a: "ea_attempt_number a = ox_attempt_number row"
      "ea_proposal_id a = ox_proposal_id row"
      "ea_approval_decision_id a = ox_approval_decision_id row"
      "1 \<le> ox_attempt_number row" "ox_attempt_number row \<le> ox_maximum_attempts row"
    by (auto simp: row_attempted_def)
  have nf: "ox_namespace (f row) = oc_namespace c" "ox_approval_decision_id (f row) = ox_approval_decision_id row"
    using f(1,2) row by (simp_all add: outbox_ident_def approval_ident_def)
  from complete_attempt_records [OF sound ra comp] obtain b where
    b: "st_records st2 (oc_namespace c, RT_EFFECT_ATTEMPT, oc_effect_attempt_id c)
        = Some (DEffectAttempt b)" "ea_state b = attempt_state_of os"
      "ea_attempt_number b = ea_attempt_number a" "ea_proposal_id b = ea_proposal_id a"
      "ea_approval_decision_id b = ea_approval_decision_id a"
    and others: "\<And>m k. (m, k) \<noteq> (oc_namespace c, oc_effect_attempt_id c) \<Longrightarrow>
      st_records st2 (m, RT_EFFECT_ATTEMPT, k) = st_records st (m, RT_EFFECT_ATTEMPT, k)"
    by auto
  have upd: "st_outbox st' = update_where (claimed_row c) f (st_outbox st)"
    using complete_attempt_rows [OF comp] retry_step_rows [OF retry] by (simp add: st' rows_of_eq)
  have g3: "grows {} st2 st3" by (rule retry_step_grows [OF retry grows_refl])
  have keep3: "st_records st' (m, RT_EFFECT_ATTEMPT, k) = Some x"
    if "st_records st2 (m, RT_EFFECT_ATTEMPT, k) = Some x" for m k x
    using grows_keeps [OF g3 that] by (simp add: st')
  have new: "row_attempted st' (f row) \<and> (attempt_ident (f row) = attempt_ident row \<or>
      st_records st (ox_namespace row, RT_EFFECT_ATTEMPT, ox_effect_attempt_id (f row)) = None)"
    using retry unfolding retry_step_def
  proof (elim disjE exE conjE)
    assume "cur = a" "fin = os" "st3 = st2"
    with b a f nf row key keep3 [OF b(1)] show ?thesis
      by (auto simp: row_attempted_def attempt_ident_def)
  next
    fix i assume i: "ea_attempt_number a < ox_maximum_attempts row"
      "create_retry_attempt a i actor t st2 = Inr (cur, st3)" "fin = OX_RETRY"
    then have ins: "insert_record (DEffectAttempt cur) st2 = Inr st3"
      and cur: "ea_namespace cur = oc_namespace c" "ea_state cur = EA_PLANNED"
        "ea_proposal_id cur = ea_proposal_id a"
        "ea_approval_decision_id cur = ea_approval_decision_id a"
        "ea_attempt_number cur = ea_attempt_number a + 1"
      by (auto simp: create_retry_result key dest!: EffectAttempt_init_ok)
    from insert_record_writes [OF ins] have w:
        "st_records st2 (oc_namespace c, RT_EFFECT_ATTEMPT, ea_effect_attempt_id cur) = None"
        "st_records st3 (oc_namespace c, RT_EFFECT_ATTEMPT, ea_effect_attempt_id cur)
          = Some (DEffectAttempt cur)"
      by (auto simp: writes_def record_key_def cur)
    then have "ea_effect_attempt_id cur \<noteq> oc_effect_attempt_id c" using b(1) by auto
    with w(1) others have "st_records st (oc_namespace c, RT_EFFECT_ATTEMPT,
        ea_effect_attempt_id cur) = None" by simp
    with w i a cur f nf row show ?thesis
      by (auto simp: row_attempted_def attempt_ident_def st')
  qed
  show ?thesis
  proof (rule outbox_ok_replace [OF ok wk g row(1) _ upd _ f(1-5)])
    fix n i x assume "(n, i) \<noteq> attempt_ident row" "st_records st (n, RT_EFFECT_ATTEMPT, i) = Some x"
    with others [of n i] row keep3 show "st_records st' (n, RT_EFFECT_ATTEMPT, i) = Some x"
      by (auto simp: attempt_ident_def)
  next
    fix r assume "r \<in> set (st_outbox st)" "claimed_row c r"
    with only_claimed_row [of st row c r] row ok show "r = row" by (simp add: outbox_ok_def)
  qed (use new row(4) in auto)
qed

lemma result_states_match:
  "result_states kind = (rs, as, os) \<Longrightarrow> as = attempt_state_of os"
  by (cases kind) auto

lemma finalize_keeps_ok:
  assumes "outbox_ok st"
    and "finalize_dispatch_in_transaction c oc i actor t nid req st = Inr (x, st')"
    and "well_keyed st'"
  shows "outbox_ok st'"
  using assms(2)
proof (rule finalize_cases)
  fix row a rs as os st2 cur fin st3
  assume c: "require_outbox_claim c {req} None st = Inr row"
      "get_effect_attempt st (oc_namespace c) (oc_effect_attempt_id c) = Inr a"
      "result_states (co_kind oc) = (rs, as, os)"
      "complete_attempt a as rs (co_safe_projection oc) (co_result_digest oc) i
         (oc_namespace c) actor t st = Inr (x, st2)"
      "retry_step nid (co_kind oc \<in> {CO_KNOWN_NOT_EXECUTED, CO_RETRYABLE_FAILURE}) row a os
         actor t st2 cur fin st3"
      "st' = st3\<lparr>st_outbox := update_where (claimed_row c)
        (\<lambda>r. (finish_row fin cur t (LO_CHANNEL (co_kind oc)) r)
           \<lparr>ox_actor_principal_id := pr_principal_id actor\<rparr>) (st_outbox st3)\<rparr>"
  note comp = c(4) [unfolded result_states_match [OF c(3)]]
  show ?thesis
    by (rule finish_keeps_ok [OF assms(1,3) finalize_grows [OF assms(2)] c(1,2) comp c(5,6)])
      (simp_all add: outbox_ident_def approval_ident_def)
qed

lemma reconcile_unknown_keeps_ok:
  assumes "outbox_ok st" and "require_outbox_claim c {OX_AMBIGUOUS_CLAIMED} at st = Inr row"
    and "reconcile_unknown c row t nrt st = Inr (x, st')" and "well_keyed st'"
  shows "outbox_ok st'"
proof -
  note row = require_outbox_claim_row [OF assms(2)]
  from assms(3) obtain f where upd: "st_outbox st' = update_where (claimed_row c) f (st_outbox st)"
    and f: "\<And>r. outbox_ident (f r) = outbox_ident r" "\<And>r. approval_ident (f r) = approval_ident r"
      "\<And>r. ox_proposal_id (f r) = ox_proposal_id r"
      "\<And>r. ox_maximum_attempts (f r) = ox_maximum_attempts r"
      "\<And>r. ox_effect_idempotency_key (f r) = ox_effect_idempotency_key r"
      "\<And>r. ox_state (f r) = OX_AMBIGUOUS" "\<And>r. ox_attempt_number (f r) = ox_attempt_number r"
      "\<And>r. ox_effect_attempt_id (f r) = ox_effect_attempt_id r"
      "\<And>r. ox_approval_decision_id (f r) = ox_approval_decision_id r"
      "\<And>r. ox_namespace (f r) = ox_namespace r"
    by (auto simp: reconcile_unknown_def outcome_simps outbox_ident_def approval_ident_def
        intro!: that)
  have records: "st_records st' = st_records st" and g: "grows {RT_EFFECT_ATTEMPT} st st'"
    using reconcile_unknown_effect(1,2) [OF assms(3)] by simp_all
  have att: "row_attempted st row"
    using assms(1) row(1) by (simp add: outbox_ok_def)
  show ?thesis
  proof (rule outbox_ok_replace [OF assms(1,4) g row(1) _ upd _ f(1-5)])
    fix r assume "r \<in> set (st_outbox st)" "claimed_row c r"
    with only_claimed_row [of st row c r] row assms(1) show "r = row" by (simp add: outbox_ok_def)
  qed (use att row records f in \<open>auto simp: attempt_ident_def row_attempted_def\<close>)
qed

lemma reconcile_keeps_ok:
  assumes "outbox_ok st" and "reconcile_ambiguous c oc i actor t nid nrt st = Inr (x, st')"
    and "well_keyed st'"
  shows "outbox_ok st'"
  using assms(2)
proof (rule reconcile_cases)
  fix row a result st2 cur fin st3 final
  assume c: "require_outbox_claim c {OX_AMBIGUOUS_CLAIMED} (Some t) st = Inr row"
      "get_effect_attempt st (oc_namespace c) (oc_effect_attempt_id c) = Inr a"
      "final = (if ro_kind oc = RK_CONFIRMED_APPLIED then OX_COMPLETED else OX_TERMINAL_FAILED)"
      "complete_attempt a (if ro_kind oc = RK_CONFIRMED_APPLIED then EA_SUCCEEDED else EA_FAILED)
         (if ro_kind oc = RK_CONFIRMED_APPLIED then AR_SUCCEEDED else AR_NOT_EXECUTED)
         (ro_safe_projection oc) (ro_result_digest oc) i (oc_namespace c) actor t st
         = Inr (result, st2)"
      "retry_step nid (ro_kind oc = RK_CONFIRMED_ABSENT) row a final actor t st2 cur fin st3"
      "st' = st3\<lparr>st_outbox := update_where (claimed_row c)
        (finish_row fin cur t (LO_RECONCILED (ro_kind oc))) (st_outbox st3)\<rparr>"
  have "(if ro_kind oc = RK_CONFIRMED_APPLIED then EA_SUCCEEDED else EA_FAILED) =
      attempt_state_of final"
    by (simp add: c(3))
  note comp = c(4) [unfolded this]
  show ?thesis
    by (rule finish_keeps_ok [OF assms(1,3) reconcile_grows [OF assms(2)] c(1,2) comp c(5,6)])
      (simp_all add: outbox_ident_def approval_ident_def)
qed (blast intro: reconcile_unknown_keeps_ok [OF assms(1) _ _ assms(3)])

lemma approval_binds:
  "authorize_human_approval p d t cx = Inr auth \<Longrightarrow> pr_kind (ha_author d) = HUMAN \<and>
     ha_proposal_id d = ep_proposal_id p \<and> ha_proposal_revision d = ep_revision p \<and>
     ha_proposal_payload_digest d = ep_payload_digest p \<and>
     ha_proposal_digest d = ep_proposal_digest p"
  by (simp add: authorize_human_approval_def require_authoritative_human_role_def outcome_simps)

lemma approval_keeps_ok:
  assumes ok: "outbox_ok st" and wk: "well_keyed st'"
    and written: "approval_written n p d aid oid actor t st att st'" and n: "n = ha_namespace d"
    and p: "get_proposal st n (ha_proposal_id d) = Inr p"
    and d': "(if ha_choice d = APPROVE then Inr d
      else HumanApprovalDecision_init (d\<lparr>ha_choice := APPROVE\<rparr>)) = Inr d'"
    and auth: "authorize_human_approval p d' t default_approval_context = Inr auth"
  shows "outbox_ok st'"
proof -
  have g: "grows {} st st'" by (rule approval_written_grows [OF written])
  from approval_written_outbox [OF written] consider "att = None" "st_outbox st' = st_outbox st"
    | a where "att = Some a" "st_outbox st' = st_outbox st @ [first_outbox_row n p d a oid actor t]"
    by blast
  then show ?thesis
  proof cases
    case 1
    with ok wk g show ?thesis by (auto intro: outbox_ok_grows)
  next
    case (2 a)
    let ?r = "first_outbox_row n p d a oid actor t"
    from written 2 obtain st1 st2 st3 st4 st5 where w:
        "insert_record (DHumanApproval d) st = Inr st1"
        "insert_ledger n LK_APPROVAL (ha_idempotency_key d) RT_HUMAN_APPROVAL
           (ha_approval_decision_id d) st1 = Inr st2"
        "insert_ledger n LK_PROPOSAL_APPROVAL (proposal_binding p) RT_HUMAN_APPROVAL
           (ha_approval_decision_id d) st2 = Inr st3"
        "ha_choice d = APPROVE" "EffectAttempt_init (first_attempt n p d aid actor t) = Inr a"
        "insert_record (DEffectAttempt a) st3 = Inr st4" "insert_outbox ?r st4 = Inr st5"
        "insert_ledger n LK_EFFECT (ec_idempotency_key (ep_constraints p)) RT_EFFECT_ATTEMPT
          (ea_effect_attempt_id a) st5 = Inr st'"
      unfolding approval_written_def by auto
    have a: "a = first_attempt n p d aid actor t" by (rule EffectAttempt_init_ok [OF w(5)])
    have s1: "st_records st3 = (st_records st)((n, RT_HUMAN_APPROVAL, ha_approval_decision_id d)
        \<mapsto> DHumanApproval d)" and fresh_d: "st_records st (n, RT_HUMAN_APPROVAL,
        ha_approval_decision_id d) = None"
      using insert_record_writes [OF w(1)] insert_ledger_rows [OF w(2)] insert_ledger_rows [OF w(3)]
      by (auto simp: writes_def record_key_def n)
    have s2: "st_records st' = (st_records st3)((n, RT_EFFECT_ATTEMPT, aid) \<mapsto> DEffectAttempt a)"
      and fresh_a: "st_records st (n, RT_EFFECT_ATTEMPT, aid) = None"
      using insert_record_writes [OF w(6)] insert_ledger_rows [OF w(8)] w(7) s1
      by (auto simp: writes_def record_key_def a first_attempt_def insert_outbox_result)
    have b: "pr_kind (ha_author d) = HUMAN" "ha_proposal_id d = ep_proposal_id p"
        "ha_proposal_revision d = ep_revision p"
        "ha_proposal_payload_digest d = ep_payload_digest p"
        "ha_proposal_digest d = ep_proposal_digest p"
      using approval_binds [OF auth] d' w(4) by auto
    have max: "0 < ec_maximum_attempts (ep_constraints p)"
      using w(7) by (simp add: insert_outbox_result first_outbox_row_def)
    have "st_ledger st3 (n, LK_PROPOSAL_APPROVAL, proposal_binding p)
        = Some (RT_HUMAN_APPROVAL, ha_approval_decision_id d)"
      using w(3) by (simp add: insert_ledger_result)
    then have ledger: "st_ledger st' (n, LK_PROPOSAL_APPROVAL, proposal_binding p)
        = Some (RT_HUMAN_APPROVAL, ha_approval_decision_id d)"
      using insert_record_rows [OF w(6)] w(7,8) by (auto simp: insert_ledger_result insert_outbox_result)
    have new: "row_approved st' ?r" "row_attempted st' ?r"
      using b w(4) p max s1 s2 ledger
      by (auto simp: row_approved_def row_attempted_def first_outbox_row_def a first_attempt_def
          get_proposal_iff)
    have "attempt_ident r \<noteq> attempt_ident ?r" "approval_ident r \<noteq> approval_ident ?r"
      if "r \<in> set (st_outbox st)" for r
      using ok that fresh_a fresh_d
      by (auto simp: outbox_ok_def row_approved_def row_attempted_def attempt_ident_def
          approval_ident_def first_outbox_row_def a first_attempt_def)
    then have "attempt_ident ?r \<notin> attempt_ident ` set (st_outbox st)"
        "approval_ident ?r \<notin> approval_ident ` set (st_outbox st)"
      by (metis imageE)+
    then have "distinct (map attempt_ident (st_outbox st'))"
        "distinct (map approval_ident (st_outbox st'))"
      using ok 2(2) by (simp_all add: outbox_ok_def)
    with new ok wk 2(2) row_approved_grows [OF _ g] row_attempted_grows [OF _ g] show ?thesis
      by (auto simp: outbox_ok_def)
  qed
qed

lemma step_keeps_ok:
  assumes "store_step st st'" and "outbox_ok st"
  shows "outbox_ok st'"
proof -
  have "store_step\<^sup>*\<^sup>* st st'" using assms(1) by blast
  with assms(2) have wk: "well_keyed st'"
    using well_keyed_steps by (simp add: outbox_ok_def)
  from assms(1) show ?thesis
  proof cases
    case (do_bootstrap n ps pf md fw a c t x)
    with assms(2) wk show ?thesis
      using bootstrap_effect(1) [OF do_bootstrap, of "{}"] bootstrap_effect(2) [OF do_bootstrap]
      by (auto intro: outbox_ok_grows simp: rows_of_eq)
  next
    case (do_ingest_event e key tid y)
    with assms(2) wk show ?thesis
      using ingest_event_rows [OF do_ingest_event] ingest_event_grows [OF do_ingest_event, of "{}"]
      by (auto intro: outbox_ok_grows)
  next
    case (do_ingest_timer o' key tid z)
    with assms(2) wk show ?thesis
      using ingest_timer_rows [OF do_ingest_timer] ingest_timer_grows [OF do_ingest_timer, of "{}"]
      by (auto intro: outbox_ok_grows)
  next
    case (do_claim_trigger n owner now lease tc)
    with assms(2) wk show ?thesis
      using claim_trigger_effect(1) [OF do_claim_trigger, of "{}"]
        claim_trigger_effect(4) [OF do_claim_trigger]
      by (auto intro: outbox_ok_grows)
  next
    case (do_materialize claim wid aid actor t wa)
    with assms(2) wk show ?thesis
      using materialize_outbox [OF do_materialize] materialize_grows [OF do_materialize]
      by (auto intro: outbox_ok_grows)
  next
    case (do_claim_agenda n owner now lease ac)
    with assms(2) wk show ?thesis
      using claim_agenda_rows [OF do_claim_agenda] claim_agenda_grows [OF do_claim_agenda]
      by (auto intro: outbox_ok_grows)
  next
    case (do_release_agenda gl u)
    with assms(2) wk show ?thesis
      using release_agenda_rows [OF do_release_agenda] release_agenda_grows [OF do_release_agenda]
      by (auto intro: outbox_ok_grows)
  next
    case (do_commit_decision gl sem u)
    with assms(2) wk show ?thesis
      using commit_decision_rows [OF do_commit_decision] commit_decision_grows [OF do_commit_decision]
      by (auto intro: outbox_ok_grows)
  next
    case (do_commit_approval n mid v d aid oid actor t w)
    from do_commit_approval assms(2) show ?thesis
      by (auto elim!: commit_approval_cases intro: approval_keeps_ok [OF assms(2) wk])
  next
    case (do_claim_outbox n owner now lease ox)
    then show ?thesis
      unfolding claim_outbox_def by (rule claim_keeps_ok [OF assms(2) _ _ wk]) auto
  next
    case (do_claim_ambiguous n owner now lease ox)
    then show ?thesis
      unfolding claim_ambiguous_def by (rule claim_keeps_ok [OF assms(2) _ _ wk]) auto
  next
    case (do_mark_started oc t att)
    then show ?thesis by (rule mark_started_keeps_ok [OF assms(2) _ wk])
  next
    case (do_finalize oc out i actor t nid res)
    then show ?thesis
      unfolding finalize_dispatch_def by (rule finalize_keeps_ok [OF assms(2) _ wk])
  next
    case (do_recover n now actor rid k)
    then show ?thesis
      by (rule recover_cases) (use assms(2) wk in \<open>auto intro: finalize_keeps_ok\<close>)
  next
    case (do_reconcile oc rec i actor t nid nrt ores)
    then show ?thesis by (rule reconcile_keeps_ok [OF assms(2) _ wk])
  qed
qed

lemma steps_keep_ok: "store_step\<^sup>*\<^sup>* st st' \<Longrightarrow> outbox_ok st \<Longrightarrow> outbox_ok st'"
  by (induction rule: rtranclp_induct) (auto intro: step_keeps_ok)

lemma reachable_outbox_ok: "reachable st \<Longrightarrow> outbox_ok st"
  unfolding reachable_def by (rule steps_keep_ok [OF _ outbox_ok_empty])

end
