(* ===== verification/OutboxMoves.thy ===== *)
theory OutboxMoves
  imports OutboxInv
begin

text \<open>
  The life of one outbox row as an abstract state machine, and the refinement: every step of
  the store moves every outbox row by at most one move of the machine.
\<close>

section \<open>The machine\<close>

definition budget :: "outbox_row \<Rightarrow> int" where
  "budget r = min (ox_maximum_attempts r) RECONCILIATION_MAX_CALLS"

text \<open>A row under a new lease, and a row whose lease is given up in a final or waiting state.\<close>

definition leased :: "outbox_state \<Rightarrow> string \<Rightarrow> datetime \<Rightarrow> datetime \<Rightarrow> outbox_row \<Rightarrow> outbox_row" where
  "leased s owner lease now r = r\<lparr>ox_state := s, ox_lease_owner := Some owner,
     ox_lease_until := Some lease, ox_fencing_token := ox_fencing_token r + 1,
     ox_updated_at := now, ox_revision := ox_revision r + 1\<rparr>"

definition unleased ::
  "outbox_state \<Rightarrow> string \<Rightarrow> int \<Rightarrow> datetime \<Rightarrow> last_outcome \<Rightarrow> string \<Rightarrow> datetime \<Rightarrow> outbox_row
     \<Rightarrow> outbox_row" where
  "unleased s attempt_id number next outcome actor now r = r\<lparr>ox_state := s,
     ox_effect_attempt_id := attempt_id, ox_attempt_number := number,
     ox_next_attempt_at := next, ox_lease_owner := None, ox_lease_until := None,
     ox_last_outcome := Some outcome, ox_actor_principal_id := actor, ox_updated_at := now,
     ox_revision := ox_revision r + 1\<rparr>"

inductive outbox_move :: "outbox_row \<Rightarrow> outbox_row \<Rightarrow> bool" where
  take: "ox_state r \<in> {OX_PENDING, OX_RETRY, OX_CLAIMED} \<Longrightarrow> ox_next_attempt_at r \<le> now \<Longrightarrow>
    ox_lease_until r = None \<or> lease_before (ox_lease_until r) now \<Longrightarrow>
    outbox_move r (leased OX_CLAIMED owner lease now r)"
| take_ambiguous: "ox_state r \<in> {OX_AMBIGUOUS, OX_AMBIGUOUS_CLAIMED} \<Longrightarrow>
    ox_next_attempt_at r \<le> now \<Longrightarrow> ox_lease_until r = None \<or> lease_before (ox_lease_until r) now \<Longrightarrow>
    \<not> reconciliation_stopped (ox_last_outcome r) \<Longrightarrow>
    outbox_move r (leased OX_AMBIGUOUS_CLAIMED owner lease now r)"
| start: "ox_state r = OX_CLAIMED \<Longrightarrow>
    outbox_move r (r\<lparr>ox_state := OX_DISPATCHING, ox_updated_at := now,
      ox_revision := ox_revision r + 1\<rparr>)"
| finish: "ox_state r = OX_DISPATCHING \<Longrightarrow> result_states kind = (rs, as, s) \<Longrightarrow>
    outbox_move r (unleased s (ox_effect_attempt_id r) (ox_attempt_number r) now
      (LO_CHANNEL kind) actor now r)"
| retry: "ox_state r = OX_DISPATCHING \<Longrightarrow> kind \<in> {CO_KNOWN_NOT_EXECUTED, CO_RETRYABLE_FAILURE} \<Longrightarrow>
    ox_attempt_number r < ox_maximum_attempts r \<Longrightarrow>
    outbox_move r (unleased OX_RETRY i (ox_attempt_number r + 1) now (LO_CHANNEL kind) actor now r)"
| wait: "ox_state r = OX_AMBIGUOUS_CLAIMED \<Longrightarrow>
    count = reconciliation_count (ox_last_outcome r) + 1 \<Longrightarrow>
    outcome = (if budget r \<le> count then LO_STOPPED count else LO_WAIT count) \<Longrightarrow>
    0 \<le> dt_diff next now \<Longrightarrow> dt_diff next now \<le> RECONCILIATION_MAX_BACKOFF \<Longrightarrow>
    outbox_move r (unleased OX_AMBIGUOUS (ox_effect_attempt_id r) (ox_attempt_number r) next
      outcome (ox_actor_principal_id r) now r)"
| settle: "ox_state r = OX_AMBIGUOUS_CLAIMED \<Longrightarrow> kind \<noteq> RK_STILL_UNKNOWN \<Longrightarrow>
    s = (if kind = RK_CONFIRMED_APPLIED then OX_COMPLETED else OX_TERMINAL_FAILED) \<Longrightarrow>
    outbox_move r (unleased s (ox_effect_attempt_id r) (ox_attempt_number r) now
      (LO_RECONCILED kind) (ox_actor_principal_id r) now r)"
| settle_retry: "ox_state r = OX_AMBIGUOUS_CLAIMED \<Longrightarrow>
    ox_attempt_number r < ox_maximum_attempts r \<Longrightarrow>
    outbox_move r (unleased OX_RETRY i (ox_attempt_number r + 1) now
      (LO_RECONCILED RK_CONFIRMED_ABSENT) (ox_actor_principal_id r) now r)"

section \<open>The refinement\<close>

definition moved_rows :: "outbox_row list \<Rightarrow> outbox_row list \<Rightarrow> bool" where
  "moved_rows rows rows' \<longleftrightarrow> list_all2 (\<lambda>r r'. r' = r \<or> outbox_move r r') rows rows'"

lemma moved_rows_refl [simp]: "moved_rows rows rows"
  by (simp add: moved_rows_def list_all2_refl)

lemma moved_rows_update:
  "(\<And>r. r \<in> set rows \<Longrightarrow> P r \<Longrightarrow> outbox_move r (f r)) \<Longrightarrow> moved_rows rows (update_where P f rows)"
  by (induction rows) (auto simp: moved_rows_def update_where_def)

lemma claim_moves:
  assumes "claim_outbox_state src tgt ex n owner now lease st = Inr (x, st')" and "well_keyed st"
    and "\<And>r. ox_state r \<in> src \<Longrightarrow> ox_next_attempt_at r \<le> now \<Longrightarrow>
      ox_lease_until r = None \<or> lease_before (ox_lease_until r) now \<Longrightarrow>
      (ex \<longrightarrow> \<not> reconciliation_stopped (ox_last_outcome r)) \<Longrightarrow>
      outbox_move r (leased tgt owner lease now r)"
  shows "moved_rows (st_outbox st) (st_outbox st')"
proof (cases "select_first (outbox_claimable n now src ex)
    (\<lambda>r. (ox_next_attempt_at r, ox_outbox_id r)) (st_outbox st)")
  case None
  with assms show ?thesis by (auto simp: claim_outbox_state_def outcome_simps)
next
  case (Some row)
  then have row: "row \<in> set (st_outbox st)" "outbox_claimable n now src ex row"
    by (auto dest!: select_first_in)
  let ?P = "\<lambda>r. outbox_at n (ox_outbox_id row) r \<and> ox_revision r = ox_revision row"
  let ?f = "\<lambda>r. r\<lparr>ox_state := tgt, ox_lease_owner := Some owner, ox_lease_until := Some lease,
    ox_fencing_token := ox_fencing_token row + 1, ox_updated_at := now,
    ox_revision := ox_revision r + 1\<rparr>"
  have upd: "st_outbox st' = update_where ?P ?f (st_outbox st)"
    using assms(1) Some by (auto simp: claim_outbox_state_def outcome_simps)
  show ?thesis
    unfolding upd
  proof (rule moved_rows_update)
    fix r assume "r \<in> set (st_outbox st)" "?P r"
    with row assms(2) have "r = row"
      by (auto simp: well_keyed_def outbox_at_def outbox_ident_def distinct_map inj_on_def
          outbox_claimable_def)
    with assms(3) [of row] row(2) show "outbox_move r (?f r)"
      by (auto simp: outbox_claimable_def leased_def)
  qed
qed

lemma mark_started_moves:
  assumes "mark_dispatch_started c t st = Inr (x, st')" and "well_keyed st"
  shows "moved_rows (st_outbox st) (st_outbox st')"
proof -
  from assms(1) obtain row where row: "require_outbox_claim c {OX_CLAIMED} None st = Inr row"
    and upd: "st_outbox st' = update_where (claimed_row c) (\<lambda>r. r\<lparr>ox_state := OX_DISPATCHING,
      ox_updated_at := t, ox_revision := ox_revision r + 1\<rparr>) (st_outbox st)"
    by (auto simp: mark_dispatch_started_def outcome_simps rows_of_eq dest!: row_dests)
  note r = require_outbox_claim_row [OF row]
  show ?thesis
    unfolding upd
  proof (rule moved_rows_update)
    fix q assume "q \<in> set (st_outbox st)" "claimed_row c q"
    with only_claimed_row [OF assms(2) r(1,4)] r(3) show "outbox_move q (q\<lparr>ox_state :=
        OX_DISPATCHING, ox_updated_at := t, ox_revision := ox_revision q + 1\<rparr>)"
      by (auto intro: start)
  qed
qed

text \<open>The current attempt of a claimed row.\<close>

lemma claimed_attempt:
  assumes "outbox_ok st" "require_outbox_claim c states at st = Inr row"
    and "get_effect_attempt st (oc_namespace c) (oc_effect_attempt_id c) = Inr a"
  shows "ea_effect_attempt_id a = ox_effect_attempt_id row"
    "ea_attempt_number a = ox_attempt_number row"
proof -
  note row = require_outbox_claim_row [OF assms(2)]
  have ra: "st_records st (ox_namespace row, RT_EFFECT_ATTEMPT, ox_effect_attempt_id row)
      = Some (DEffectAttempt a)"
    using assms(3) row by (simp add: get_effect_attempt_iff)
  have "sound st" using assms(1) by (simp add: outbox_ok_def well_keyed_def)
  from sound_keyed [OF this ra] show "ea_effect_attempt_id a = ox_effect_attempt_id row"
    by (simp add: record_key_def)
  have "row_attempted st row" using assms(1) row(1) by (simp add: outbox_ok_def)
  with ra show "ea_attempt_number a = ox_attempt_number row"
    by (auto simp: row_attempted_def)
qed

lemma retry_number:
  "retry_step nid absent row a final actor t st2 cur fin st3 \<Longrightarrow>
     (cur = a \<and> fin = final) \<or> (absent \<and> fin = OX_RETRY \<and>
       ea_attempt_number a < ox_maximum_attempts row \<and>
       ea_attempt_number cur = ea_attempt_number a + 1)"
  by (auto simp: retry_step_def create_retry_result dest!: EffectAttempt_init_ok)

lemma finalize_moves:
  assumes "finalize_dispatch_in_transaction c oc i actor t nid OX_DISPATCHING st = Inr (x, st')"
    and "outbox_ok st"
  shows "moved_rows (st_outbox st) (st_outbox st')"
  using assms(1)
proof (rule finalize_cases)
  fix row a rs as os st2 cur fin st3
  assume c: "require_outbox_claim c {OX_DISPATCHING} None st = Inr row"
      "get_effect_attempt st (oc_namespace c) (oc_effect_attempt_id c) = Inr a"
      "result_states (co_kind oc) = (rs, as, os)"
      "complete_attempt a as rs (co_safe_projection oc) (co_result_digest oc) i
         (oc_namespace c) actor t st = Inr (x, st2)"
      "retry_step nid (co_kind oc \<in> {CO_KNOWN_NOT_EXECUTED, CO_RETRYABLE_FAILURE}) row a os
         actor t st2 cur fin st3"
      "st' = st3\<lparr>st_outbox := update_where (claimed_row c)
        (\<lambda>r. (finish_row fin cur t (LO_CHANNEL (co_kind oc)) r)
           \<lparr>ox_actor_principal_id := pr_principal_id actor\<rparr>) (st_outbox st3)\<rparr>"
  note r = require_outbox_claim_row [OF c(1)] and a = claimed_attempt [OF assms(2) c(1,2)]
  let ?f = "\<lambda>r. (finish_row fin cur t (LO_CHANNEL (co_kind oc)) r)
    \<lparr>ox_actor_principal_id := pr_principal_id actor\<rparr>"
  have upd: "st_outbox st' = update_where (claimed_row c) ?f (st_outbox st)"
    using complete_attempt_rows [OF c(4)] retry_step_rows [OF c(5)] by (simp add: c(6) rows_of_eq)
  have f: "?f q = unleased fin (ea_effect_attempt_id cur) (ea_attempt_number cur) t
      (LO_CHANNEL (co_kind oc)) (pr_principal_id actor) t q" for q
    by (simp add: finish_row_def unleased_def)
  have "outbox_move row (?f row)"
    unfolding f using retry_number [OF c(5)]
  proof (elim disjE conjE)
    assume "cur = a" "fin = os"
    with finish [of row "co_kind oc" rs as os] r(3) c(3) a
    show "outbox_move row (unleased fin (ea_effect_attempt_id cur) (ea_attempt_number cur) t
        (LO_CHANNEL (co_kind oc)) (pr_principal_id actor) t row)" by simp
  next
    assume "co_kind oc \<in> {CO_KNOWN_NOT_EXECUTED, CO_RETRYABLE_FAILURE}" "fin = OX_RETRY"
      "ea_attempt_number a < ox_maximum_attempts row"
      "ea_attempt_number cur = ea_attempt_number a + 1"
    with retry [of row "co_kind oc"] r(3) a
    show "outbox_move row (unleased fin (ea_effect_attempt_id cur) (ea_attempt_number cur) t
        (LO_CHANNEL (co_kind oc)) (pr_principal_id actor) t row)" by simp
  qed
  moreover have "well_keyed st" using assms(2) by (simp add: outbox_ok_def)
  ultimately show ?thesis
    unfolding upd by (metis moved_rows_update only_claimed_row r(1,4))
qed

lemma unknown_moves:
  assumes "require_outbox_claim c {OX_AMBIGUOUS_CLAIMED} at st = Inr row"
    and "reconcile_unknown c row t nrt st = Inr (x, st')" and "well_keyed st"
  shows "moved_rows (st_outbox st) (st_outbox st')"
proof -
  note r = require_outbox_claim_row [OF assms(1)]
  define count where "count = reconciliation_count (ox_last_outcome row) + 1"
  define delay where "delay = (case nrt of None \<Rightarrow> 0 | Some u \<Rightarrow> dt_diff u t)"
  define nxt where "nxt = dt_add t (reconciliation_delay delay count)"
  define oc where "oc = (if budget row \<le> count then LO_STOPPED count else LO_WAIT count)"
  let ?f = "\<lambda>r. r\<lparr>ox_state := OX_AMBIGUOUS, ox_lease_owner := None, ox_lease_until := None,
    ox_next_attempt_at := nxt, ox_last_outcome := Some oc, ox_updated_at := t,
    ox_revision := ox_revision r + 1\<rparr>"
  from assms(2) have delay: "0 \<le> delay" "delay \<le> RECONCILIATION_MAX_BACKOFF"
    and upd: "st_outbox st' = update_where (claimed_row c) ?f (st_outbox st)"
    by (auto simp: reconcile_unknown_def outcome_simps count_def delay_def nxt_def oc_def budget_def)
  have "0 \<le> reconciliation_delay delay count" "reconciliation_delay delay count \<le> RECONCILIATION_MAX_BACKOFF"
    using delay(1) by (simp_all add: reconciliation_delay_def RECONCILIATION_MAX_BACKOFF_def seconds_def)
  then have "0 \<le> dt_diff nxt t" "dt_diff nxt t \<le> RECONCILIATION_MAX_BACKOFF"
    by (simp_all add: nxt_def dt_diff_def)
  note w = wait [OF _ count_def oc_def this]
  have "?f row = unleased OX_AMBIGUOUS (ox_effect_attempt_id row) (ox_attempt_number row) nxt oc
      (ox_actor_principal_id row) t row"
    by (cases row) (simp add: unleased_def)
  with w r(3) have "outbox_move row (?f row)" by simp
  then show ?thesis
    unfolding upd by (metis (no_types, lifting) moved_rows_update only_claimed_row r(1,4) assms(3))
qed

lemma reconcile_moves:
  assumes "reconcile_ambiguous c oc i actor t nid nrt st = Inr (x, st')" and "outbox_ok st"
  shows "moved_rows (st_outbox st) (st_outbox st')"
proof -
  have wk: "well_keyed st" using assms(2) by (simp add: outbox_ok_def)
  from assms(1) show ?thesis
  proof (rule reconcile_cases)
    fix row a result st2 cur fin st3 final
    assume c: "require_outbox_claim c {OX_AMBIGUOUS_CLAIMED} (Some t) st = Inr row"
        "get_effect_attempt st (oc_namespace c) (oc_effect_attempt_id c) = Inr a"
        "ro_kind oc \<noteq> RK_STILL_UNKNOWN"
        "final = (if ro_kind oc = RK_CONFIRMED_APPLIED then OX_COMPLETED else OX_TERMINAL_FAILED)"
        "complete_attempt a (if ro_kind oc = RK_CONFIRMED_APPLIED then EA_SUCCEEDED else EA_FAILED)
           (if ro_kind oc = RK_CONFIRMED_APPLIED then AR_SUCCEEDED else AR_NOT_EXECUTED)
           (ro_safe_projection oc) (ro_result_digest oc) i (oc_namespace c) actor t st
           = Inr (result, st2)"
        "retry_step nid (ro_kind oc = RK_CONFIRMED_ABSENT) row a final actor t st2 cur fin st3"
        "st' = st3\<lparr>st_outbox := update_where (claimed_row c)
          (finish_row fin cur t (LO_RECONCILED (ro_kind oc))) (st_outbox st3)\<rparr>"
    note r = require_outbox_claim_row [OF c(1)] and a = claimed_attempt [OF assms(2) c(1,2)]
    let ?f = "finish_row fin cur t (LO_RECONCILED (ro_kind oc))"
    have upd: "st_outbox st' = update_where (claimed_row c) ?f (st_outbox st)"
      using complete_attempt_rows [OF c(5)] retry_step_rows [OF c(6)] by (simp add: c(7) rows_of_eq)
    have f: "?f q = unleased fin (ea_effect_attempt_id cur) (ea_attempt_number cur) t
        (LO_RECONCILED (ro_kind oc)) (ox_actor_principal_id q) t q" for q
      by (simp add: finish_row_def unleased_def)
    have "outbox_move row (?f row)"
      unfolding f using retry_number [OF c(6)]
    proof (elim disjE conjE)
      assume "cur = a" "fin = final"
      with settle [of row "ro_kind oc" final] r(3) c(3,4) a
      show "outbox_move row (unleased fin (ea_effect_attempt_id cur) (ea_attempt_number cur) t
          (LO_RECONCILED (ro_kind oc)) (ox_actor_principal_id row) t row)" by simp
    next
      assume "ro_kind oc = RK_CONFIRMED_ABSENT" "fin = OX_RETRY"
        "ea_attempt_number a < ox_maximum_attempts row"
        "ea_attempt_number cur = ea_attempt_number a + 1"
      with settle_retry [of row] r(3) a
      show "outbox_move row (unleased fin (ea_effect_attempt_id cur) (ea_attempt_number cur) t
          (LO_RECONCILED (ro_kind oc)) (ox_actor_principal_id row) t row)" by simp
    qed
    then show ?thesis
      unfolding upd by (metis moved_rows_update only_claimed_row r(1,4) wk)
  qed (blast intro: unknown_moves [OF _ _ wk])
qed

text \<open>A row as the approval commit creates it.\<close>

definition fresh_row :: "outbox_row \<Rightarrow> bool" where
  "fresh_row r \<longleftrightarrow> ox_state r = OX_PENDING \<and> ox_attempt_number r = 1 \<and> ox_fencing_token r = 0 \<and>
     ox_lease_owner r = None \<and> ox_last_outcome r = None"

definition rows_refine :: "outbox_row list \<Rightarrow> outbox_row list \<Rightarrow> bool" where
  "rows_refine rows rows' \<longleftrightarrow> (\<exists>moved new. rows' = moved @ new \<and> moved_rows rows moved \<and>
     length new \<le> 1 \<and> (\<forall>r \<in> set new. fresh_row r))"

lemma rows_refineI: "moved_rows rows rows' \<Longrightarrow> rows_refine rows rows'"
  unfolding rows_refine_def by (intro exI [of _ rows'] exI [of _ "[]"]) simp

lemma rows_refine_same: "rows' = rows \<Longrightarrow> rows_refine rows rows'"
  by (simp add: rows_refineI)

lemma step_refines:
  assumes "store_step st st'" and ok: "outbox_ok st"
  shows "rows_refine (st_outbox st) (st_outbox st')"
proof -
  have wk: "well_keyed st" using ok by (simp add: outbox_ok_def)
  from assms(1) show ?thesis
  proof cases
    case (do_bootstrap n ps pf md fw a c t x)
    then show ?thesis using bootstrap_effect(2) [OF do_bootstrap] by (simp add: rows_of_eq rows_refineI)
  next
    case (do_ingest_event e key tid y)
    then show ?thesis using ingest_event_rows [OF do_ingest_event] by (auto intro: rows_refine_same)
  next
    case (do_ingest_timer o' key tid z)
    then show ?thesis using ingest_timer_rows [OF do_ingest_timer] by (auto intro: rows_refine_same)
  next
    case (do_claim_trigger n owner now lease tc)
    then show ?thesis
      using claim_trigger_effect(4) [OF do_claim_trigger] by (auto intro: rows_refine_same)
  next
    case (do_materialize claim wid aid actor t wa)
    then show ?thesis using materialize_outbox [OF do_materialize] by (auto intro: rows_refine_same)
  next
    case (do_claim_agenda n owner now lease ac)
    then show ?thesis using claim_agenda_rows [OF do_claim_agenda] by (auto intro: rows_refine_same)
  next
    case (do_release_agenda gl u)
    then show ?thesis
      using release_agenda_rows [OF do_release_agenda] by (auto intro: rows_refine_same)
  next
    case (do_commit_decision gl sem u)
    then show ?thesis
      using commit_decision_rows [OF do_commit_decision] by (auto intro: rows_refine_same)
  next
    case (do_commit_approval n mid v d aid oid actor t w)
    then show ?thesis
    proof (rule commit_approval_cases)
      fix p m d' att auth assume "approval_written n p d aid oid actor t st att st'"
      from approval_written_outbox [OF this] show ?thesis
      proof (elim disjE exE conjE)
        fix a assume "st_outbox st' = st_outbox st @ [first_outbox_row n p d a oid actor t]"
        then show ?thesis
          unfolding rows_refine_def
          by (intro exI [of _ "st_outbox st"] exI [of _ "[first_outbox_row n p d a oid actor t]"])
            (simp add: fresh_row_def first_outbox_row_def)
      qed (simp add: rows_refineI)
    qed (simp add: rows_refineI)
  next
    case (do_claim_outbox n owner now lease ox)
    then show ?thesis
      unfolding claim_outbox_def by (intro rows_refineI claim_moves [OF _ wk]) (auto intro: take)
  next
    case (do_claim_ambiguous n owner now lease ox)
    then show ?thesis
      unfolding claim_ambiguous_def
      by (intro rows_refineI claim_moves [OF _ wk]) (auto intro: take_ambiguous)
  next
    case (do_mark_started oc t att)
    then show ?thesis by (intro rows_refineI mark_started_moves [OF _ wk])
  next
    case (do_finalize oc out i actor t nid res)
    then show ?thesis unfolding finalize_dispatch_def by (intro rows_refineI finalize_moves [OF _ ok])
  next
    case (do_recover n now actor rid k)
    then show ?thesis
      by (rule recover_cases) (auto intro!: rows_refineI intro: finalize_moves [OF _ ok])
  next
    case (do_reconcile oc rec i actor t nid nrt ores)
    then show ?thesis by (intro rows_refineI reconcile_moves [OF _ ok])
  qed
qed

text \<open>A row of an earlier store, found again later, with the moves between.\<close>

lemma refine_later:
  assumes "rows_refine rows rows'" and "r \<in> set rows"
  shows "\<exists>r' \<in> set rows'. outbox_move\<^sup>*\<^sup>* r r'"
proof -
  from assms(1) obtain moved new where m: "rows' = moved @ new"
      "list_all2 (\<lambda>r r'. r' = r \<or> outbox_move r r') rows moved"
    unfolding rows_refine_def moved_rows_def by blast
  from assms(2) obtain i where i: "i < length rows" "rows ! i = r" by (auto simp: in_set_conv_nth)
  with m(2) have "moved ! i = r \<or> outbox_move r (moved ! i)" "moved ! i \<in> set moved"
    by (auto simp: list_all2_conv_all_nth)
  with m(1) show ?thesis by (intro bexI [of _ "moved ! i"]) auto
qed

lemma later_row:
  assumes "store_step\<^sup>*\<^sup>* st st'" and "outbox_ok st" and "r \<in> set (st_outbox st)"
  shows "\<exists>r' \<in> set (st_outbox st'). outbox_move\<^sup>*\<^sup>* r r'"
  using assms
proof (induction rule: rtranclp_induct)
  case (step s1 s2)
  then obtain r1 where r1: "r1 \<in> set (st_outbox s1)" "outbox_move\<^sup>*\<^sup>* r r1" by blast
  have "outbox_ok s1" using steps_keep_ok [OF step(1,4)] .
  from refine_later [OF step_refines [OF step(2) this] r1(1)] r1(2) show ?case
    by (meson rtranclp_trans)
qed auto

section \<open>What the machine keeps\<close>

definition finished :: "outbox_row \<Rightarrow> bool" where
  "finished r \<longleftrightarrow> ox_state r \<in> {OX_COMPLETED, OX_TERMINAL_FAILED}"

lemma moves_keep:
  "outbox_move r r' \<Longrightarrow> outbox_ident r' = outbox_ident r \<and> approval_ident r' = approval_ident r \<and>
     ox_proposal_id r' = ox_proposal_id r \<and> ox_maximum_attempts r' = ox_maximum_attempts r \<and>
     ox_effect_idempotency_key r' = ox_effect_idempotency_key r \<and>
     ox_fencing_token r \<le> ox_fencing_token r' \<and> ox_attempt_number r \<le> ox_attempt_number r' \<and>
     ox_revision r' = ox_revision r + 1"
  by (induction rule: outbox_move.induct)
    (auto simp: leased_def unleased_def outbox_ident_def approval_ident_def)

lemma no_move_from_finished: "finished r \<Longrightarrow> \<not> outbox_move r r'"
  by (auto simp: finished_def elim: outbox_move.cases)

text \<open>The reconciliation counter of a row is within its budget, and reaches it only to stop.\<close>

definition counter_ok :: "outbox_row \<Rightarrow> bool" where
  "counter_ok r \<longleftrightarrow> (case ox_last_outcome r of
      Some (LO_WAIT n) \<Rightarrow> 1 \<le> n \<and> n < budget r
    | Some (LO_STOPPED n) \<Rightarrow> n = budget r \<and> ox_state r = OX_AMBIGUOUS
    | _ \<Rightarrow> True)"

lemma budget_move: "outbox_move r r' \<Longrightarrow> budget r' = budget r"
  using moves_keep [of r r'] by (simp add: budget_def)

lemma move_counter:
  assumes "outbox_move r r'" and "1 \<le> ox_maximum_attempts r" and "counter_ok r"
  shows "counter_ok r'"
proof -
  have b: "1 \<le> budget r" using assms(2) by (simp add: budget_def RECONCILIATION_MAX_CALLS_def)
  note keep = budget_move [OF assms(1)]
  from assms(1,3) b keep show ?thesis
    by cases (auto simp: counter_ok_def leased_def unleased_def split: option.splits
        last_outcome.splits)
qed

lemma step_counters:
  assumes "store_step st st'" and ok: "outbox_ok st" and "\<forall>r \<in> set (st_outbox st). counter_ok r"
  shows "\<forall>r \<in> set (st_outbox st'). counter_ok r"
proof
  fix r' assume r': "r' \<in> set (st_outbox st')"
  from step_refines [OF assms(1) ok] obtain moved new where m: "st_outbox st' = moved @ new"
      "list_all2 (\<lambda>r r'. r' = r \<or> outbox_move r r') (st_outbox st) moved" "\<forall>r \<in> set new. fresh_row r"
    unfolding rows_refine_def moved_rows_def by blast
  show "counter_ok r'"
  proof (cases "r' \<in> set new")
    case True
    with m(3) show ?thesis by (simp add: fresh_row_def counter_ok_def)
  next
    case False
    with r' m(1) obtain i where i: "i < length moved" "moved ! i = r'" by (auto simp: in_set_conv_nth)
    with m(2) have r: "st_outbox st ! i \<in> set (st_outbox st)"
        "r' = st_outbox st ! i \<or> outbox_move (st_outbox st ! i) r'"
      by (auto simp: list_all2_conv_all_nth)
    from ok r(1) have "1 \<le> ox_maximum_attempts (st_outbox st ! i)"
      by (auto simp: outbox_ok_def row_attempted_def)
    with r assms(3) move_counter show ?thesis by metis
  qed
qed

lemma steps_counters:
  assumes "store_step\<^sup>*\<^sup>* st st'" and "outbox_ok st" and "\<forall>r \<in> set (st_outbox st). counter_ok r"
  shows "\<forall>r \<in> set (st_outbox st'). counter_ok r"
  using assms
proof (induction rule: rtranclp_induct)
  case (step s1 s2)
  then show ?case using step_counters [OF step(2) steps_keep_ok [OF step(1,4)]] by blast
qed auto

end
