(* ===== verification/AttemptUse.thy ===== *)
theory AttemptUse
  imports OutboxMoves
begin

text \<open>
  An effect attempt of a proposal is used once it has left its planned state.  No operation of the store makes a
  used attempt planned again, and only an unused attempt can be started.
\<close>

definition used :: "store \<Rightarrow> Namespace \<Rightarrow> string \<Rightarrow> string \<Rightarrow> bool" where
  "used st n i q \<longleftrightarrow> (\<exists>a. st_records st (n, RT_EFFECT_ATTEMPT, i) = Some (DEffectAttempt a) \<and>
     ea_state a \<noteq> EA_PLANNED \<and> ea_proposal_id a = q)"

lemma used_grows: "used st n i q \<Longrightarrow> grows T st st' \<Longrightarrow> RT_EFFECT_ATTEMPT \<notin> T \<Longrightarrow> used st' n i q"
  unfolding used_def using grows_keeps by blast

lemma result_states_used: "result_states kind = (rs, as, os) \<Longrightarrow> as \<noteq> EA_PLANNED"
  by (cases kind) auto

lemma complete_used:
  assumes "sound st" and "get_effect_attempt st n j = Inr a" and "s \<noteq> EA_PLANNED"
    and "complete_attempt a s rs pr dg k n actor t st = Inr (result, st2)"
    and "grows {} st2 st3" and "st_records st' = st_records st3" and "used st m i q"
  shows "used st' m i q"
proof -
  from assms(2) have a: "st_records st (n, RT_EFFECT_ATTEMPT, j) = Some (DEffectAttempt a)"
    by (simp add: get_effect_attempt_iff)
  from complete_attempt_records [OF assms(1) a assms(4)] assms(3,7) a have "used st2 m i q"
    by (cases "(m, i) = (n, j)") (auto simp: used_def)
  then have "used st3 m i q" using assms(5) by (auto intro: used_grows)
  with assms(6) show ?thesis by (simp add: used_def)
qed

lemma finalize_used:
  assumes "finalize_dispatch_in_transaction c oc i actor t nid req st = Inr (x, st')"
    and "sound st" and "used st m k q"
  shows "used st' m k q"
  using assms(1)
proof (rule finalize_cases)
  fix row a rs as os st2 cur fin st3
  assume c: "get_effect_attempt st (oc_namespace c) (oc_effect_attempt_id c) = Inr a"
      "result_states (co_kind oc) = (rs, as, os)"
      "complete_attempt a as rs (co_safe_projection oc) (co_result_digest oc) i
         (oc_namespace c) actor t st = Inr (x, st2)"
      "retry_step nid (co_kind oc \<in> {CO_KNOWN_NOT_EXECUTED, CO_RETRYABLE_FAILURE}) row a os
         actor t st2 cur fin st3"
      "st' = st3\<lparr>st_outbox := update_where (claimed_row c)
        (\<lambda>r. (finish_row fin cur t (LO_CHANNEL (co_kind oc)) r)
           \<lparr>ox_actor_principal_id := pr_principal_id actor\<rparr>) (st_outbox st3)\<rparr>"
  show "used st' m k q"
    by (rule complete_used [OF assms(2) c(1) result_states_used [OF c(2)] c(3)
          retry_step_grows [OF c(4) grows_refl] _ assms(3)]) (simp add: c(5))
qed

lemma reconcile_used:
  assumes "reconcile_ambiguous c oc i actor t nid nrt st = Inr (x, st')"
    and "sound st" and "used st m k q"
  shows "used st' m k q"
  using assms(1)
proof (rule reconcile_cases)
  fix row a result st2 cur fin st3 final
  assume c: "get_effect_attempt st (oc_namespace c) (oc_effect_attempt_id c) = Inr a"
      "complete_attempt a (if ro_kind oc = RK_CONFIRMED_APPLIED then EA_SUCCEEDED else EA_FAILED)
         (if ro_kind oc = RK_CONFIRMED_APPLIED then AR_SUCCEEDED else AR_NOT_EXECUTED)
         (ro_safe_projection oc) (ro_result_digest oc) i (oc_namespace c) actor t st
         = Inr (result, st2)"
      "retry_step nid (ro_kind oc = RK_CONFIRMED_ABSENT) row a final actor t st2 cur fin st3"
      "st' = st3\<lparr>st_outbox := update_where (claimed_row c)
        (finish_row fin cur t (LO_RECONCILED (ro_kind oc))) (st_outbox st3)\<rparr>"
  show "used st' m k q"
    by (rule complete_used [OF assms(2) c(1) _ c(2) retry_step_grows [OF c(3) grows_refl] _ assms(3)])
      (simp_all add: c(4))
next
  fix row assume "reconcile_unknown c row t nrt st = Inr (x, st')"
  from reconcile_unknown_effect(2) [OF this] assms(3) show "used st' m k q" by (simp add: used_def)
qed

text \<open>Starting: the attempt was planned and is used from then on.\<close>

lemma mark_started_use:
  assumes "mark_dispatch_started c t st = Inr (x, st')" and ok: "outbox_ok st"
  shows "\<not> used st (oc_namespace c) (oc_effect_attempt_id c) q"
    "used st' (oc_namespace c) (oc_effect_attempt_id c) (ea_proposal_id x)"
    "ea_namespace x = oc_namespace c" "ea_effect_attempt_id x = oc_effect_attempt_id c"
    "used st m k q \<Longrightarrow> used st' m k q"
proof -
  have sound: "sound st" using ok by (simp add: outbox_ok_def well_keyed_def)
  from assms(1) obtain row a st1 where c: "require_outbox_claim c {OX_CLAIMED} None st = Inr row"
      "get_effect_attempt st (oc_namespace c) (oc_effect_attempt_id c) = Inr a"
      "EffectAttempt_init (a\<lparr>ea_state := EA_STARTED, ea_occurred_at := t,
         ea_revision := ea_revision a + 1\<rparr>) = Inr x"
      "update_record (ea_revision a) (DEffectAttempt x) st = Inr st1"
      "st_records st' = st_records st1"
    by (auto simp: mark_dispatch_started_def outcome_simps)
  note row = require_outbox_claim_row [OF c(1)]
  have rec: "st_records st (oc_namespace c, RT_EFFECT_ATTEMPT, oc_effect_attempt_id c)
      = Some (DEffectAttempt a)"
    using c(2) by (simp add: get_effect_attempt_iff)
  from update_attempt [OF sound rec, where s = EA_STARTED and actor = "ea_actor a" and t = t
      and v = "ea_revision a + 1" and b = x] c(3,4)
  have b: "st_records st1 = (st_records st)((oc_namespace c, RT_EFFECT_ATTEMPT,
        oc_effect_attempt_id c) \<mapsto> DEffectAttempt x)" "ea_state x = EA_STARTED"
      "ea_namespace x = oc_namespace c" "ea_effect_attempt_id x = oc_effect_attempt_id c"
      "ea_proposal_id x = ea_proposal_id a"
    by simp_all
  have "row_attempted st row" using ok row(1) by (simp add: outbox_ok_def)
  with rec row show "\<not> used st (oc_namespace c) (oc_effect_attempt_id c) q"
    by (auto simp: used_def row_attempted_def)
  show "used st' (oc_namespace c) (oc_effect_attempt_id c) (ea_proposal_id x)" "used st m k q \<Longrightarrow> used st' m k q"
    using b rec by (auto simp: used_def c(5))
  show "ea_namespace x = oc_namespace c" "ea_effect_attempt_id x = oc_effect_attempt_id c"
    by (rule b)+
qed

lemma step_used:
  assumes "store_step st st'" and ok: "outbox_ok st" and u: "used st m k q"
  shows "used st' m k q"
proof -
  have sound: "sound st" using ok by (simp add: outbox_ok_def well_keyed_def)
  have quiet: "used st' m k q" if "grows T st st'" "T \<subseteq> {RT_AGENDA_ITEM, RT_WAKE_CYCLE}" for T
    using used_grows [OF u that(1)] that(2) by auto
  from assms(1) show ?thesis
  proof cases
    case (do_bootstrap n ps pf md fw a c t x)
    then show ?thesis using bootstrap_effect(1) [OF do_bootstrap, of "{}"] by (auto intro: quiet)
  next
    case (do_ingest_event e key tid y)
    then show ?thesis using ingest_event_grows [OF do_ingest_event, of "{}"] by (auto intro: quiet)
  next
    case (do_ingest_timer o' key tid z)
    then show ?thesis using ingest_timer_grows [OF do_ingest_timer, of "{}"] by (auto intro: quiet)
  next
    case (do_claim_trigger n owner now lease tc)
    then show ?thesis
      using claim_trigger_effect(1) [OF do_claim_trigger, of "{}"] by (auto intro: quiet)
  next
    case (do_materialize claim wid aid actor t wa)
    then show ?thesis using materialize_grows [OF do_materialize] by (auto intro: quiet)
  next
    case (do_claim_agenda n owner now lease ac)
    then show ?thesis using claim_agenda_grows [OF do_claim_agenda] by (auto intro: quiet)
  next
    case (do_release_agenda gl u)
    then show ?thesis using release_agenda_grows [OF do_release_agenda] by (auto intro: quiet)
  next
    case (do_commit_decision gl sem u)
    then show ?thesis using commit_decision_grows [OF do_commit_decision] by (auto intro: quiet)
  next
    case (do_commit_approval n mid v d aid oid actor t w)
    then show ?thesis using commit_approval_grows [OF do_commit_approval] by (auto intro: quiet)
  next
    case (do_claim_outbox n owner now lease ox)
    then show ?thesis
      using claim_outbox_effect(2) u unfolding claim_outbox_def used_def by metis
  next
    case (do_claim_ambiguous n owner now lease ox)
    then show ?thesis
      using claim_outbox_effect(2) u unfolding claim_ambiguous_def used_def by metis
  next
    case (do_mark_started oc t att)
    then show ?thesis by (rule mark_started_use(5) [OF _ ok u])
  next
    case (do_finalize oc out i actor t nid res)
    then show ?thesis unfolding finalize_dispatch_def by (rule finalize_used [OF _ sound u])
  next
    case (do_recover n now actor rid k)
    then show ?thesis by (rule recover_cases) (use u sound in \<open>auto intro: finalize_used\<close>)
  next
    case (do_reconcile oc rec i actor t nid nrt ores)
    then show ?thesis by (rule reconcile_used [OF _ sound u])
  qed
qed

lemma steps_used:
  "store_step\<^sup>*\<^sup>* st st' \<Longrightarrow> outbox_ok st \<Longrightarrow> used st m k q \<Longrightarrow> used st' m k q"
proof (induction rule: rtranclp_induct)
  case (step s1 s2)
  then show ?case using step_used [OF step(2) steps_keep_ok [OF step(1,4)]] by blast
qed auto

text \<open>What is on record when an attempt is started.\<close>

lemma require_outbox_claim_binding:
  "require_outbox_claim c states at st = Inr row \<Longrightarrow> ox_proposal_id row = oc_proposal_id c \<and>
     ox_approval_decision_id row = oc_approval_decision_id c \<and>
     ox_effect_idempotency_key row = oc_effect_idempotency_key c"
  by (auto simp: require_outbox_claim_def outcome_simps split: option.splits)

lemma started_approved:
  assumes "mark_dispatch_started c t st = Inr (a, st')" and "outbox_ok st"
  shows "\<exists>d p. st_records st (oc_namespace c, RT_HUMAN_APPROVAL, ea_approval_decision_id a)
        = Some (DHumanApproval d) \<and>
      st_records st (oc_namespace c, RT_EFFECT_PROPOSAL, oc_proposal_id c)
        = Some (DEffectProposal p) \<and>
      ha_choice d = APPROVE \<and> pr_kind (ha_author d) = HUMAN \<and>
      ha_proposal_id d = oc_proposal_id c \<and> ha_proposal_revision d = ep_revision p \<and>
      ha_proposal_payload_digest d = ep_payload_digest p \<and>
      ha_proposal_digest d = ep_proposal_digest p \<and>
      ec_idempotency_key (ep_constraints p) = oc_effect_idempotency_key c \<and>
      ea_proposal_id a = oc_proposal_id c \<and>
      ea_approval_decision_id a = oc_approval_decision_id c \<and>
      1 \<le> ea_attempt_number a \<and> ea_attempt_number a \<le> ec_maximum_attempts (ep_constraints p)"
proof -
  from assms(1) obtain row b where c: "require_outbox_claim c {OX_CLAIMED} None st = Inr row"
      "get_effect_attempt st (oc_namespace c) (oc_effect_attempt_id c) = Inr b"
      "EffectAttempt_init (b\<lparr>ea_state := EA_STARTED, ea_occurred_at := t,
         ea_revision := ea_revision b + 1\<rparr>) = Inr a"
    by (auto simp: mark_dispatch_started_def outcome_simps)
  note row = require_outbox_claim_row [OF c(1)] and bound = require_outbox_claim_binding [OF c(1)]
  have a: "a = b\<lparr>ea_state := EA_STARTED, ea_occurred_at := t, ea_revision := ea_revision b + 1\<rparr>"
    by (rule EffectAttempt_init_ok [OF c(3)])
  have "row_approved st row" "row_attempted st row"
    using assms(2) row(1) by (simp_all add: outbox_ok_def)
  with row bound c(2) show ?thesis
    unfolding a by (auto simp: row_approved_def row_attempted_def get_effect_attempt_iff)
qed

end
