(* ===== verification/World.thy ===== *)
theory World
  imports OutboxStore
begin

text \<open>
  What a service runs in: the store, the clock and the other ports of
  \<^verbatim>\<open>application/ports.py\<close>, and actions, which may raise but keep what they committed before.

  A port that is not the store is an argument of the services.  The clock is a function from
  the number of earlier readings to the instant it shows, so that two readings may differ.
  The state of the ports and the tables of later migrations are the further fields of the
  world.  The effects handed to the channel are recorded in their order; no code reads them.
\<close>

record world =
  wd_store :: store
  wd_readings :: nat
  wd_applied :: "ChannelEffect list"

type_synonym ('z, 'a) action = "'z world_scheme \<Rightarrow> 'a result \<times> 'z world_scheme"

definition liftA :: "'a result \<Rightarrow> ('z, 'a) action" where
  "liftA r w = (r, w)"

definition returnA :: "'a \<Rightarrow> ('z, 'a) action" where
  "returnA x = liftA (Inr x)"

definition bindA :: "('z, 'a) action \<Rightarrow> ('a \<Rightarrow> ('z, 'b) action) \<Rightarrow> ('z, 'b) action" where
  "bindA m f w = (case m w of (Inl e, w') \<Rightarrow> (Inl e, w') | (Inr x, w') \<Rightarrow> f x w')"

text \<open>\<open>guardA cs k\<close>: the checks in order, then \<open>k\<close>.\<close>

definition guardA :: "unit result list \<Rightarrow> ('z, 'a) action \<Rightarrow> ('z, 'a) action" where
  "guardA cs k = bindA (liftA (check_all cs)) (\<lambda>_. k)"

text \<open>\<^verbatim>\<open>try: m except ...: h\<close>; the handler starts from what \<open>m\<close> left.\<close>

definition tryA :: "('z, 'a) action \<Rightarrow> (exc \<Rightarrow> ('z, 'a) action) \<Rightarrow> ('z, 'a) action" where
  "tryA m h w = (case m w of (Inl e, w') \<Rightarrow> h e w' | (Inr x, w') \<Rightarrow> (Inr x, w'))"

text \<open>An operation of the store in its transaction, and a reading of the store.\<close>

definition transact :: "(store \<Rightarrow> ('a \<times> store) result) \<Rightarrow> ('z, 'a) action" where
  "transact body w = (case transaction body (wd_store w) of (r, st) \<Rightarrow> (r, w\<lparr>wd_store := st\<rparr>))"

definition readA :: "(store \<Rightarrow> 'a result) \<Rightarrow> ('z, 'a) action" where
  "readA f w = (f (wd_store w), w)"

section \<open>The ports\<close>

record 'z ports =
  pt_clock :: "nat \<Rightarrow> datetime"
  pt_derive :: "string \<Rightarrow> string list \<Rightarrow> string result"
  pt_hit :: "string \<Rightarrow> unit result"
  pt_decide :: "IntelligenceRequest \<Rightarrow> ('z, SemanticDecision) action"
  pt_apply :: "ChannelEffect \<Rightarrow> ('z, ChannelOutcome) action"
  pt_reconcile :: "string \<Rightarrow> string \<Rightarrow> ('z, ReconciliationOutcome) action"
  pt_authorize :: "(EffectProposal \<Rightarrow> HumanApprovalDecision \<Rightarrow> ('z, unit) action) option"

definition nowA :: "'z ports \<Rightarrow> ('z, datetime) action" where
  "nowA p w = (Inr (pt_clock p (wd_readings w)), w\<lparr>wd_readings := wd_readings w + 1\<rparr>)"

definition deriveA :: "'z ports \<Rightarrow> string \<Rightarrow> string list \<Rightarrow> ('z, string) action" where
  "deriveA p kind parts = liftA (pt_derive p kind parts)"

text \<open>A checkpoint is a place where a run may be interrupted: the port may raise.\<close>

definition hitA :: "'z ports \<Rightarrow> string \<Rightarrow> ('z, unit) action" where
  "hitA p checkpoint = liftA (pt_hit p checkpoint)"

definition applyA :: "'z ports \<Rightarrow> ChannelEffect \<Rightarrow> ('z, ChannelOutcome) action" where
  "applyA p effect w = pt_apply p effect (w\<lparr>wd_applied := wd_applied w @ [effect]\<rparr>)"

section \<open>Running an action\<close>

lemma bindA_eq:
  "bindA m f w = (case fst (m w) of Inl e \<Rightarrow> (Inl e, snd (m w)) | Inr x \<Rightarrow> f x (snd (m w)))"
  by (cases "m w") (auto simp: bindA_def split: sum.splits)

lemma tryA_eq:
  "tryA m h w = (case fst (m w) of Inl e \<Rightarrow> h e (snd (m w)) | Inr x \<Rightarrow> (Inr x, snd (m w)))"
  by (cases "m w") (auto simp: tryA_def split: sum.splits)

lemma liftA_simps [simp]: "liftA r w = (r, w)" "returnA x w = (Inr x, w)"
  by (simp_all add: liftA_def returnA_def)

lemma transact_eq:
  "transact body w = (case body (wd_store w) of Inl e \<Rightarrow> (Inl e, w)
     | Inr (x, st) \<Rightarrow> (Inr x, w\<lparr>wd_store := st\<rparr>))"
  by (auto simp: transact_def transaction_def split: sum.splits prod.splits)

lemma guardA_eq: "guardA cs k w = (case check_all cs of Inl e \<Rightarrow> (Inl e, w) | Inr u \<Rightarrow> k w)"
  by (cases "check_all cs") (simp_all add: guardA_def bindA_eq)

text \<open>Running one step of a concrete action.\<close>

lemma bindA_run: "m w = (Inr x, w') \<Longrightarrow> bindA m f w = f x w'"
  and bindA_stop: "m w = (Inl e, w') \<Longrightarrow> bindA m f w = (Inl e, w')"
  by (simp_all add: bindA_def)

lemma transact_run: "body (wd_store w) = Inr (x, st) \<Longrightarrow> transact body w = (Inr x, w\<lparr>wd_store := st\<rparr>)"
  by (simp add: transact_eq)

lemma guardA_run: "check_all cs = Inr u \<Longrightarrow> guardA cs k w = k w"
  by (simp add: guardA_eq)

text \<open>A run that returns, taken apart.\<close>

lemma bindA_returns:
  "bindA m f w = (Inr y, w') \<longleftrightarrow> (\<exists>x w1. m w = (Inr x, w1) \<and> f x w1 = (Inr y, w'))"
  by (cases "m w"; cases "fst (m w)") (auto simp: bindA_def)

lemma guardA_returns: "guardA cs k w = (Inr y, w') \<longleftrightarrow> check_all cs = Inr () \<and> k w = (Inr y, w')"
  by (cases "check_all cs") (simp_all add: guardA_eq)

lemma liftA_returns: "liftA r w = (Inr y, w') \<longleftrightarrow> r = Inr y \<and> w' = w"
  and returnA_returns: "returnA x w = (Inr y, w') \<longleftrightarrow> y = x \<and> w' = w"
  and readA_returns: "readA f w = (Inr z, w') \<longleftrightarrow> f (wd_store w) = Inr z \<and> w' = w"
  by (auto simp: readA_def)

lemma transact_returns:
  "transact body w = (Inr y, w') \<longleftrightarrow>
     (\<exists>st. body (wd_store w) = Inr (y, st) \<and> w' = w\<lparr>wd_store := st\<rparr>)"
  by (auto simp: transact_eq split: sum.splits)

lemma nowA_returns:
  "nowA p w = (Inr t, w') \<longleftrightarrow> t = pt_clock p (wd_readings w) \<and>
     w' = w\<lparr>wd_readings := wd_readings w + 1\<rparr>"
  by (auto simp: nowA_def)

lemmas run_returns = bindA_returns guardA_returns liftA_returns returnA_returns readA_returns
  transact_returns nowA_returns

end
