(* ===== verification/Services.thy ===== *)
theory Services
  imports World
begin

text \<open>
  \<^verbatim>\<open>application/services.py\<close>: bootstrap, events, timers, the wake cycle, approvals and the
  dispatcher, over the store and the ports.  A service object is the record of its
  configuration, its \<^verbatim>\<open>__init__\<close> the check of that record.
\<close>

section \<open>Bootstrap, events and timers\<close>

definition initialize ::
  "'z ports \<Rightarrow> RequestPrincipalContext \<Rightarrow> Principal list \<Rightarrow> Profile \<Rightarrow> Mandate \<Rightarrow> FiniteWork \<Rightarrow> string
     \<Rightarrow> ('z, bool) action" where
  "initialize p context principals profile mandate work correlation_id =
     guardA
       [require_authoritative_human_role (rc_principal context) {TENANT_ADMIN} [],
        require_exact (rc_namespace context) (pf_namespace profile),
        require_exact (rc_namespace context) (md_namespace mandate),
        require_exact (rc_namespace context) (fw_namespace work)]
     (bindA (nowA p) (\<lambda>now.
      transact (bootstrap (rc_namespace context) principals profile mandate work
        (rc_principal context) correlation_id now)))"

definition submit_event ::
  "'z ports \<Rightarrow> RequestPrincipalContext \<Rightarrow> InputEventRequest \<Rightarrow> string
     \<Rightarrow> ('z, InputEvent \<times> bool) action" where
  "submit_event p context request idempotency_key =
     guardA [raise_if (idempotency_key = [])
       (ValidationError ''event idempotency identity is required'')]
     (bindA (nowA p) (\<lambda>now.
      bindA (liftA (InputEvent_init
        \<lparr>ev_namespace = rc_namespace context, ev_event_id = ir_event_id request,
         ev_event_type = ir_event_type request, ev_state = EV_ACCEPTED,
         ev_safe_projection = ir_safe_projection request,
         ev_payload_digest = ir_payload_digest request, ev_actor = rc_principal context,
         ev_correlation_id = ir_correlation_id request,
         ev_causation_id = ir_causation_id request, ev_occurred_at = now, ev_revision = 1,
         ev_schema_version = SCHEMA_VERSION, ev_policy_id = ir_policy_id request,
         ev_policy_revision = ir_policy_revision request\<rparr>)) (\<lambda>event.
      bindA (deriveA p ''trigger'' [ir_event_id request, idempotency_key]) (\<lambda>trigger_id.
      transact (ingest_event event idempotency_key trigger_id)))))"

definition TimerService_init :: "Principal \<Rightarrow> Principal result" where
  "TimerService_init actor = checks
     [raise_if (pr_kind actor \<noteq> SERVICE)
        (ValidationError ''timer scheduler must be a service principal'')]
     (Inr actor)"

definition schedule_timer ::
  "'z ports \<Rightarrow> Principal \<Rightarrow> Namespace \<Rightarrow> TimerScheduleRequest
     \<Rightarrow> ('z, TimerOccurrence \<times> bool) action" where
  "schedule_timer p actor namespace request =
     guardA [require_same_tenant namespace (pr_namespace actor)]
     (bindA (nowA p) (\<lambda>occurred_at.
      bindA (liftA (TimerOccurrence_init
        \<lparr>tm_namespace = namespace, tm_timer_id = tq_timer_id request,
         tm_occurrence_id = tq_occurrence_id request, tm_state = TM_SCHEDULED,
         tm_due_at = tq_due_at request, tm_safe_projection = tq_safe_projection request,
         tm_actor = actor, tm_correlation_id = tq_correlation_id request,
         tm_causation_id = tq_causation_id request, tm_occurred_at = occurred_at,
         tm_revision = 1, tm_schema_version = SCHEMA_VERSION,
         tm_policy_id = tq_policy_id request,
         tm_policy_revision = tq_policy_revision request\<rparr>)) (\<lambda>occurrence.
      bindA (deriveA p ''timer-trigger'' [tq_timer_id request, tq_occurrence_id request,
        tq_idempotency_key request]) (\<lambda>trigger_id.
      transact (ingest_timer occurrence (tq_idempotency_key request) trigger_id)))))"

section \<open>Wake cycles\<close>

record WakeService =
  ws_service_principal :: Principal
  ws_model_principal :: Principal
  ws_mandate_id :: string
  ws_owner_id :: string
  ws_lease_duration :: timedelta
  ws_max_items :: int
  ws_max_decisions :: int

definition WakeService_init :: "WakeService \<Rightarrow> WakeService result" where
  "WakeService_init s = checks
     [raise_if (pr_kind (ws_service_principal s) \<noteq> SERVICE)
        (ValidationError ''wake actor must be a service principal''),
      raise_if (pr_kind (ws_model_principal s) \<noteq> MODEL)
        (ValidationError ''intelligence actor must be a model principal''),
      raise_if (ws_max_items s < 1 \<or> ws_max_decisions s < 1)
        (ValidationError ''wake bounds must be positive'')]
     (Inr s)"

definition materialize_next ::
  "'z ports \<Rightarrow> WakeService \<Rightarrow> Namespace \<Rightarrow> ('z, (string \<times> string) option) action" where
  "materialize_next p s namespace =
     bindA (nowA p) (\<lambda>now.
     bindA (transact (claim_trigger namespace (ws_owner_id s) now
       (dt_add now (ws_lease_duration s)))) (\<lambda>claimed.
     case claimed of None \<Rightarrow> returnA None | Some claim \<Rightarrow>
     bindA (hitA p ''trigger_claimed'') (\<lambda>_.
     bindA (deriveA p ''wake'' [tc_trigger_id claim, int_text (tc_fencing_token claim)])
       (\<lambda>wake_id.
     bindA (if tc_source_record_type claim = ''input_event''
         then deriveA p ''agenda'' [tc_source_id claim]
         else deriveA p ''agenda'' [''timer'', tc_source_id claim]) (\<lambda>agenda_id.
     bindA (transact (materialize_agenda claim wake_id agenda_id (ws_service_principal s) now))
       (\<lambda>(wake, agenda).
     bindA (hitA p ''agenda_materialized'') (\<lambda>_.
     returnA (Some (wk_wake_cycle_id wake, ag_agenda_item_id agenda)))))))))"

definition deterministic_noop :: "IntelligenceRequest \<Rightarrow> SemanticDecision option result" where
  "deterministic_noop request =
     (if take 5 (ag_title (iq_agenda_item request)) \<noteq> ''noop:'' then Inr None
      else bindR (Decision_init
        \<lparr>dc_namespace = iq_namespace request, dc_decision_id = iq_decision_id request,
         dc_wake_cycle_id = wk_wake_cycle_id (iq_wake_cycle request),
         dc_agenda_item_id = ag_agenda_item_id (iq_agenda_item request),
         dc_kind = NO_ACTION,
         dc_rationale = ''Deterministic application policy completed an explicit no-op.'',
         dc_proposed_effect_id = None, dc_actor = iq_model_principal request,
         dc_correlation_id = ag_correlation_id (iq_agenda_item request),
         dc_causation_id = ag_agenda_item_id (iq_agenda_item request),
         dc_occurred_at = iq_occurred_at request, dc_revision = 1,
         dc_schema_version = SCHEMA_VERSION, dc_policy_id = iq_policy_id request,
         dc_policy_revision = iq_policy_revision request\<rparr>) (\<lambda>decision.
      bindR (SemanticDecision_init
        \<lparr>sd_outcome = SO_NO_OP, sd_decision = decision, sd_proposal = None,
         sd_request_id = iq_request_id request, sd_schema_version = SCHEMA_VERSION\<rparr>)
        (\<lambda>semantic. Inr (Some semantic))))"

text \<open>The request for one claimed item; \<open>now\<close> is the reading the item was claimed at.\<close>

definition build_request ::
  "'z ports \<Rightarrow> WakeService \<Rightarrow> Namespace \<Rightarrow> AgendaClaim \<Rightarrow> datetime
     \<Rightarrow> ('z, IntelligenceRequest) action" where
  "build_request p s namespace claim now =
     (let item = gl_agenda_item claim in
     bindA (deriveA p ''request'' [ag_agenda_item_id item, int_text (gl_claimed_generation claim)])
       (\<lambda>request_id.
     bindA (readA (\<lambda>st. get_wake_cycle st namespace (ag_wake_cycle_id item))) (\<lambda>wake.
     bindA (readA (\<lambda>st. get_mandate st namespace (ws_mandate_id s))) (\<lambda>mandate.
     bindA (deriveA p ''decision'' [request_id]) (\<lambda>decision_id.
     bindA (deriveA p ''proposal'' [request_id]) (\<lambda>proposal_id.
     bindA (deriveA p ''effect'' [request_id]) (\<lambda>effect_key.
     liftA (IntelligenceRequest_init
       \<lparr>iq_namespace = namespace, iq_request_id = request_id, iq_wake_cycle = wake,
        iq_agenda_item = item, iq_mandate = mandate,
        iq_model_principal = ws_model_principal s, iq_decision_id = decision_id,
        iq_proposal_id = proposal_id, iq_effect_idempotency_key = effect_key,
        iq_occurred_at = now, iq_proposal_valid_until = dt_add now (hours 1),
        iq_schema_version = SCHEMA_VERSION, iq_policy_id = wk_policy_id wake,
        iq_policy_revision = wk_policy_revision wake\<rparr>))))))))"

text \<open>The decision that records a failed adapter, and its commit.\<close>

definition commit_failure ::
  "'z ports \<Rightarrow> AgendaClaim \<Rightarrow> IntelligenceRequest \<Rightarrow> string \<Rightarrow> string \<Rightarrow> ('z, unit) action" where
  "commit_failure p claim request category digest =
     bindA (liftA (Decision_init
       \<lparr>dc_namespace = iq_namespace request, dc_decision_id = iq_decision_id request,
        dc_wake_cycle_id = wk_wake_cycle_id (iq_wake_cycle request),
        dc_agenda_item_id = ag_agenda_item_id (iq_agenda_item request),
        dc_kind = DEFER_ITEM,
        dc_rationale = ''Optional intelligence failure stopped after one bounded attempt: ''
          @ ''category='' @ category @ '' digest='' @ digest @ ''.'',
        dc_proposed_effect_id = None, dc_actor = iq_model_principal request,
        dc_correlation_id = ag_correlation_id (iq_agenda_item request),
        dc_causation_id = ag_agenda_item_id (iq_agenda_item request),
        dc_occurred_at = iq_occurred_at request, dc_revision = 1,
        dc_schema_version = SCHEMA_VERSION, dc_policy_id = iq_policy_id request,
        dc_policy_revision = iq_policy_revision request\<rparr>)) (\<lambda>decision.
     bindA (liftA (SemanticDecision_init
       \<lparr>sd_outcome = SO_WAIT, sd_decision = decision, sd_proposal = None,
        sd_request_id = iq_request_id request, sd_schema_version = SCHEMA_VERSION\<rparr>))
       (\<lambda>semantic.
     bindA (transact (commit_semantic_decision claim semantic)) (\<lambda>_.
     hitA p ''adapter_failure_committed'')))"

definition decide_and_commit ::
  "'z ports \<Rightarrow> AgendaClaim \<Rightarrow> IntelligenceRequest \<Rightarrow> ('z, unit) action" where
  "decide_and_commit p claim request =
     bindA (liftA (deterministic_noop request)) (\<lambda>noop.
     bindA (case noop of Some semantic \<Rightarrow> returnA semantic | None \<Rightarrow> pt_decide p request)
       (\<lambda>semantic.
     bindA (hitA p ''decision_produced'') (\<lambda>_.
     bindA (transact (commit_semantic_decision claim semantic)) (\<lambda>_.
     hitA p ''decision_committed''))))"

definition decide_item ::
  "'z ports \<Rightarrow> AgendaClaim \<Rightarrow> IntelligenceRequest \<Rightarrow> ('z, unit) action" where
  "decide_item p claim request = tryA (decide_and_commit p claim request)
     (\<lambda>e. case e of
        ExternalAdapterError category digest \<Rightarrow> commit_failure p claim request category digest
      | _ \<Rightarrow> bindA (transact (release_agenda claim)) (\<lambda>_. liftA (Inl e)))"

text \<open>
  The loop.  \<open>left\<close> is \<^verbatim>\<open>max_items - selected\<close>; every further round selects one item.  In
  every round that goes on, one decision was committed, so \<open>decisions\<close> is \<open>selected\<close>.
\<close>

primrec run_items ::
  "'z ports \<Rightarrow> WakeService \<Rightarrow> Namespace \<Rightarrow> nat \<Rightarrow> nat \<Rightarrow> nat \<Rightarrow> ('z, nat \<times> nat) action" where
  "run_items p s namespace 0 selected decisions = returnA (selected, decisions)"
| "run_items p s namespace (Suc left) selected decisions =
     (if \<not> int decisions < ws_max_decisions s then returnA (selected, decisions)
      else
      bindA (nowA p) (\<lambda>now.
      bindA (transact (claim_agenda namespace (ws_owner_id s) now
        (dt_add now (ws_lease_duration s)))) (\<lambda>claimed.
      case claimed of None \<Rightarrow> returnA (selected, decisions) | Some claim \<Rightarrow>
      bindA (hitA p ''agenda_claimed'') (\<lambda>_.
      bindA (build_request p s namespace claim now) (\<lambda>request.
      bindA (decide_item p claim request) (\<lambda>_.
      run_items p s namespace left (selected + 1) (decisions + 1)))))))"

definition run_wake :: "'z ports \<Rightarrow> WakeService \<Rightarrow> Namespace \<Rightarrow> ('z, WakeRunResult) action" where
  "run_wake p s namespace =
     bindA (run_items p s namespace (nat (ws_max_items s)) 0 0) (\<lambda>(selected, decisions).
     bindA (readA (\<lambda>st. Inr (pending_agenda_count namespace st))) (\<lambda>pending.
     returnA \<lparr>wr_selected_count = selected, wr_decision_count = decisions,
       wr_pending_count = pending,
       wr_outcome = (if pending > 0 then ''bounded_pending'' else ''terminal'')\<rparr>))"

section \<open>Approvals\<close>

record ApprovalService =
  as_service_principal :: Principal
  as_approval_validity :: timedelta

definition ApprovalService_init :: "ApprovalService \<Rightarrow> ApprovalService result" where
  "ApprovalService_init s = checks
     [raise_if (pr_kind (as_service_principal s) \<noteq> SERVICE)
        (ValidationError ''approval attempt actor must be a service principal''),
      raise_if (as_approval_validity s \<le> 0)
        (ValidationError ''approval validity policy must be positive'')]
     (Inr s)"

text \<open>\<^verbatim>\<open>replay_binding\<close> and \<^verbatim>\<open>request_binding\<close> agree.\<close>

definition replay_bound :: "HumanApprovalDecision \<Rightarrow> ApprovalRequest \<Rightarrow> Principal \<Rightarrow> bool" where
  "replay_bound existing request author \<longleftrightarrow>
     ha_approval_decision_id existing = aq_approval_decision_id request \<and>
     ha_proposal_id existing = aq_proposal_id request \<and>
     ha_proposal_revision existing = aq_proposal_revision request \<and>
     ha_proposal_payload_digest existing = aq_proposal_payload_digest request \<and>
     ha_proposal_digest existing = aq_proposal_digest request \<and>
     ha_choice existing = aq_choice request \<and>
     ha_idempotency_key existing = aq_idempotency_key request \<and>
     ha_author existing = author"

definition decision_of_request ::
  "ApprovalService \<Rightarrow> RequestPrincipalContext \<Rightarrow> ApprovalRequest \<Rightarrow> EffectProposal \<Rightarrow> datetime
     \<Rightarrow> HumanApprovalDecision" where
  "decision_of_request s context request proposal now =
     \<lparr>ha_namespace = rc_namespace context,
      ha_approval_decision_id = aq_approval_decision_id request,
      ha_proposal_id = aq_proposal_id request,
      ha_proposal_revision = aq_proposal_revision request,
      ha_proposal_payload_digest = aq_proposal_payload_digest request,
      ha_proposal_digest = aq_proposal_digest request, ha_choice = aq_choice request,
      ha_author = rc_principal context, ha_idempotency_key = aq_idempotency_key request,
      ha_correlation_id = ep_correlation_id proposal,
      ha_causation_id = ep_proposal_id proposal, ha_occurred_at = now,
      ha_valid_until = min (dt_add now (as_approval_validity s))
        (ec_valid_until (ep_constraints proposal)),
      ha_revision = 1, ha_schema_version = SCHEMA_VERSION\<rparr>"

definition decide_approval ::
  "'z ports \<Rightarrow> ApprovalService \<Rightarrow> RequestPrincipalContext \<Rightarrow> string \<Rightarrow> int \<Rightarrow> ApprovalRequest
     \<Rightarrow> ('z, HumanApprovalDecision \<times> string option \<times> bool) action" where
  "decide_approval p s context mandate_id expected_mandate_revision request =
     guardA [raise_if (pr_kind (rc_principal context) \<noteq> HUMAN)
       (PermissionDeniedError ''approval requires a durable human principal'')]
     (bindA (readA (\<lambda>st. get_approval_replay st (rc_namespace context) (aq_idempotency_key request)))
        (\<lambda>replay.
      case replay of
        Some (existing, attempt) \<Rightarrow>
          guardA [raise_if (\<not> replay_bound existing request (rc_principal context))
            (ConflictError ''approval idempotency replay drifted'')]
          (returnA (existing, map_option ea_effect_attempt_id attempt, False))
      | None \<Rightarrow>
          bindA (nowA p) (\<lambda>now.
          bindA (readA (\<lambda>st. get_proposal st (rc_namespace context) (aq_proposal_id request)))
            (\<lambda>proposal.
          guardA
            [raise_if (now < ep_occurred_at proposal)
               (PermissionDeniedError ''approval cannot precede the proposal''),
             raise_if (now > ec_valid_until (ep_constraints proposal))
               (PermissionDeniedError ''proposal validity has expired'')]
          (bindA (liftA (HumanApprovalDecision_init
             (decision_of_request s context request proposal now))) (\<lambda>decision.
           bindA (deriveA p ''attempt''
             [ha_proposal_id decision, int_text (ha_proposal_revision decision), ''1''])
             (\<lambda>attempt_id.
           bindA (deriveA p ''outbox'' [ha_proposal_id decision]) (\<lambda>outbox_id.
           bindA (nowA p) (\<lambda>occurred_at.
           bindA (transact (commit_approval_and_attempt (rc_namespace context) mandate_id
             expected_mandate_revision decision attempt_id outbox_id (as_service_principal s)
             occurred_at)) (\<lambda>(stored, attempt, created).
           returnA (stored, map_option ea_effect_attempt_id attempt, created)))))))))))"

section \<open>Dispatch and reconciliation\<close>

record DispatchService =
  ds_result_actor :: Principal
  ds_owner_id :: string
  ds_mandate_id :: string
  ds_lease_duration :: timedelta
  ds_reconciliation_backoff :: timedelta

definition DispatchService_init :: "DispatchService \<Rightarrow> DispatchService result" where
  "DispatchService_init s = checks
     [raise_if (pr_kind (ds_result_actor s) \<noteq> SERVICE)
        (ValidationError ''result actor must be a service principal''),
      raise_if (ds_reconciliation_backoff s < 0 \<or> ds_reconciliation_backoff s > seconds 30)
        (ValidationError ''reconciliation backoff must be between zero and 30 seconds'')]
     (Inr s)"

definition validate_exact_effect ::
  "'z ports \<Rightarrow> DispatchService \<Rightarrow> Namespace \<Rightarrow> OutboxClaim \<Rightarrow> ('z, DispatchBundle) action" where
  "validate_exact_effect p s namespace claim =
     bindA (readA (load_dispatch_bundle claim (ds_mandate_id s))) (\<lambda>bundle.
     bindA (readA (\<lambda>st. get_mandate st namespace (ds_mandate_id s))) (\<lambda>mandate.
     guardA
       [raise_if (ep_mandate_id (bd_proposal bundle) \<noteq> Some (md_mandate_id mandate))
          (PermissionDeniedError ''proposal mandate identity is stale''),
        raise_if (ep_mandate_revision (bd_proposal bundle) \<noteq> Some (md_revision mandate))
          (PermissionDeniedError ''proposal mandate revision is stale''),
        raise_if (bd_effect_idempotency_key bundle \<noteq>
            ec_idempotency_key (ep_constraints (bd_proposal bundle)))
          (PermissionDeniedError ''effect idempotency identity drifted''),
        raise_if (ha_author (bd_approval bundle) \<noteq> bd_approver bundle)
          (PermissionDeniedError ''approval principal binding drifted''),
        authorize_effect_proposal (bd_proposal bundle) mandate (md_revision mandate)]
     (bindA (nowA p) (\<lambda>evaluated_at.
      guardA [chk (authorize_human_approval (bd_proposal bundle) (bd_approval bundle)
        evaluated_at default_approval_context)]
      (bindA (case pt_authorize p of None \<Rightarrow> returnA ()
         | Some authorize \<Rightarrow> authorize (bd_proposal bundle) (bd_approval bundle)) (\<lambda>_.
       guardA [raise_if (ea_attempt_number (bd_attempt bundle) > bd_maximum_attempts bundle)
         (PermissionDeniedError ''effect attempt limit was exceeded'')]
       (returnA bundle)))))))"

definition require_live_claim :: "OutboxClaim \<Rightarrow> datetime \<Rightarrow> unit result" where
  "require_live_claim claim evaluated_at = raise_if (oc_lease_until claim < evaluated_at)
     (ConflictError ''outbox claim lease expired during provider I/O'')"

fun ChannelOutcomeKind_value :: "ChannelOutcomeKind \<Rightarrow> string" where
  "ChannelOutcomeKind_value CO_SUCCEEDED = ''succeeded''"
| "ChannelOutcomeKind_value CO_KNOWN_NOT_EXECUTED = ''known_not_executed''"
| "ChannelOutcomeKind_value CO_RETRYABLE_FAILURE = ''retryable_failure''"
| "ChannelOutcomeKind_value CO_PERMANENT_FAILURE = ''permanent_failure''"
| "ChannelOutcomeKind_value CO_AMBIGUOUS = ''ambiguous''"

fun ReconciliationKind_value :: "ReconciliationKind \<Rightarrow> string" where
  "ReconciliationKind_value RK_CONFIRMED_APPLIED = ''confirmed_applied''"
| "ReconciliationKind_value RK_CONFIRMED_ABSENT = ''confirmed_absent''"
| "ReconciliationKind_value RK_STILL_UNKNOWN = ''still_unknown''"

definition nothing_dispatched :: DispatchResult where
  "nothing_dispatched = \<lparr>dr_dispatched = False, dr_outcome = None, dr_action_result_id = None\<rparr>"

definition dispatch_once ::
  "'z ports \<Rightarrow> DispatchService \<Rightarrow> Namespace \<Rightarrow> ('z, DispatchResult) action" where
  "dispatch_once p s namespace =
     bindA (nowA p) (\<lambda>now.
     bindA (transact (claim_outbox namespace (ds_owner_id s) now
       (dt_add now (ds_lease_duration s)))) (\<lambda>claimed.
     case claimed of None \<Rightarrow> returnA nothing_dispatched | Some claim \<Rightarrow>
     bindA (hitA p ''outbox_claimed'') (\<lambda>_.
     bindA (validate_exact_effect p s namespace claim) (\<lambda>bundle.
     bindA (transact (mark_dispatch_started claim now)) (\<lambda>started.
     bindA (hitA p ''dispatch_started'') (\<lambda>_.
     bindA (liftA (ChannelEffect_init
       \<lparr>ce_proposal = bd_proposal bundle, ce_attempt = started,
        ce_effect_idempotency_key = bd_effect_idempotency_key bundle,
        ce_effect_schema_version = SCHEMA_VERSION\<rparr>)) (\<lambda>effect.
     bindA (applyA p effect) (\<lambda>outcome.
     bindA (hitA p ''channel_returned'') (\<lambda>_.
     bindA (if co_kind outcome \<in> {CO_KNOWN_NOT_EXECUTED, CO_RETRYABLE_FAILURE} \<and>
           oc_attempt_number claim < bd_maximum_attempts bundle
         then bindA (deriveA p ''attempt'' [oc_proposal_id claim, int_text (oc_attempt_number claim + 1)])
           (\<lambda>i. returnA (Some i))
         else returnA None) (\<lambda>next_attempt_id.
     bindA (deriveA p ''result'' [oc_effect_attempt_id claim, ChannelOutcomeKind_value (co_kind outcome)])
       (\<lambda>result_id.
     bindA (nowA p) (\<lambda>occurred_at.
     bindA (transact (finalize_dispatch claim outcome result_id (ds_result_actor s) occurred_at
       next_attempt_id)) (\<lambda>result.
     bindA (hitA p ''dispatch_finalized'') (\<lambda>_.
     returnA \<lparr>dr_dispatched = True, dr_outcome = Some (co_kind outcome),
       dr_action_result_id = Some (ar_action_result_id result)\<rparr>))))))))))))))"

text \<open>\<^verbatim>\<open>datetime.isoformat()\<close> of a UTC value: microseconds are shown only when there are some.\<close>

definition iso_text :: "datetime \<Rightarrow> string" where
  "iso_text d = (let t = iso_micros (micros d)
     in (if micros d mod 1000000 = 0 then take 19 t else t) @ ''+00:00'')"

definition recover_expired ::
  "'z ports \<Rightarrow> DispatchService \<Rightarrow> Namespace \<Rightarrow> ('z, int) action" where
  "recover_expired p s namespace =
     bindA (nowA p) (\<lambda>now.
     bindA (deriveA p ''result'' [''expired-dispatch'', iso_text now]) (\<lambda>result_id.
     transact (recover_expired_dispatches namespace now (ds_result_actor s) result_id)))"

fun mapped_outcome :: "ReconciliationKind \<Rightarrow> ChannelOutcomeKind" where
  "mapped_outcome RK_CONFIRMED_APPLIED = CO_SUCCEEDED"
| "mapped_outcome RK_CONFIRMED_ABSENT = CO_KNOWN_NOT_EXECUTED"
| "mapped_outcome RK_STILL_UNKNOWN = CO_AMBIGUOUS"

definition reconcile_once ::
  "'z ports \<Rightarrow> DispatchService \<Rightarrow> Namespace \<Rightarrow> ('z, DispatchResult) action" where
  "reconcile_once p s namespace =
     bindA (nowA p) (\<lambda>now.
     bindA (transact (claim_ambiguous namespace (ds_owner_id s) now
       (dt_add now (ds_lease_duration s)))) (\<lambda>claimed.
     case claimed of None \<Rightarrow> returnA nothing_dispatched | Some claim \<Rightarrow>
     bindA (nowA p) (\<lambda>t1. guardA [require_live_claim claim t1]
     (bindA (validate_exact_effect p s namespace claim) (\<lambda>bundle.
     bindA (nowA p) (\<lambda>t2. guardA [require_live_claim claim t2]
     (bindA (pt_reconcile p (bd_effect_idempotency_key bundle)
       (ep_proposal_digest (bd_proposal bundle))) (\<lambda>outcome.
     bindA (nowA p) (\<lambda>returned_at. guardA [require_live_claim claim returned_at]
     (bindA (if ro_kind outcome = RK_CONFIRMED_ABSENT
         then bindA (validate_exact_effect p s namespace claim) (\<lambda>again.
           if oc_attempt_number claim < bd_maximum_attempts again
           then bindA (deriveA p ''attempt''
             [oc_proposal_id claim, int_text (oc_attempt_number claim + 1)])
             (\<lambda>i. returnA (Some i))
           else returnA None)
         else returnA None) (\<lambda>next_attempt_id.
     bindA (nowA p) (\<lambda>finalized_at. guardA [require_live_claim claim finalized_at]
     (bindA (deriveA p ''result''
       [oc_effect_attempt_id claim, ReconciliationKind_value (ro_kind outcome)]) (\<lambda>result_id.
     bindA (transact (reconcile_ambiguous claim outcome result_id (ds_result_actor s)
       finalized_at next_attempt_id
       (Some (dt_add finalized_at (ds_reconciliation_backoff s))))) (\<lambda>result.
     returnA \<lparr>dr_dispatched = True, dr_outcome = Some (mapped_outcome (ro_kind outcome)),
       dr_action_result_id = map_option ar_action_result_id result\<rparr>)))))))))))))))"

definition rejection_decision_creates_no_attempt :: "ApprovalChoice \<Rightarrow> bool" where
  "rejection_decision_creates_no_attempt choice = (choice = REJECT)"

section \<open>The worker\<close>

text \<open>\<^verbatim>\<open>worker/runtime.py\<close>.\<close>

record WorkerOutcome =
  wo_trigger_materialized :: bool
  wo_wake :: WakeRunResult
  wo_dispatch :: DispatchResult

definition run_once ::
  "'z ports \<Rightarrow> WakeService \<Rightarrow> DispatchService \<Rightarrow> Namespace \<Rightarrow> ('z, WorkerOutcome) action" where
  "run_once p ws ds namespace =
     bindA (materialize_next p ws namespace) (\<lambda>materialized.
     bindA (run_wake p ws namespace) (\<lambda>wake.
     bindA (dispatch_once p ds namespace) (\<lambda>dispatch.
     returnA \<lparr>wo_trigger_materialized = (materialized \<noteq> None), wo_wake = wake,
       wo_dispatch = dispatch\<rparr>)))"

end
