(* ===== verification/Adapters.thy ===== *)
theory Adapters
  imports Services
begin

text \<open>
  The adapters that need no network: \<^verbatim>\<open>adapters/system/deterministic.py\<close>,
  \<^verbatim>\<open>adapters/channel/reference.py\<close> and \<^verbatim>\<open>adapters/intelligence/deterministic.py\<close>, and the
  ports they make together.
\<close>

section \<open>Clock, identifiers, entropy\<close>

record FixedClock =
  fc_value :: datetime

definition FixedClock_init :: "FixedClock \<Rightarrow> FixedClock result" where
  "FixedClock_init c = checks [chk (require_utc (fc_value c) ''fixed clock value'')] (Inr c)"

definition fixed_now :: "FixedClock \<Rightarrow> nat \<Rightarrow> datetime" where
  "fixed_now c n = fc_value c"

record StableHashIdentifier =
  sh_namespace :: string

definition StableHashIdentifier_init :: "StableHashIdentifier \<Rightarrow> StableHashIdentifier result" where
  "StableHashIdentifier_init i =
     checks [chk (require_stable_id (sh_namespace i) ''identifier namespace'')] (Inr i)"

text \<open>\<^verbatim>\<open>n.to_bytes(8, "big")\<close>, and a value framed by its length.\<close>

definition bytes8 :: "nat \<Rightarrow> 8 word list" where
  "bytes8 n = map (\<lambda>i. word_of_int (int n div 256 ^ i)) [7, 6, 5, 4, 3, 2, 1, 0]"

definition framed :: "string \<Rightarrow> 8 word list" where
  "framed value = bytes8 (length (utf8 value)) @ utf8 value"

definition derive :: "StableHashIdentifier \<Rightarrow> string \<Rightarrow> string list \<Rightarrow> string result" where
  "derive i kind parts = checks
     [chk (require_stable_id kind ''identifier kind''),
      raise_if (parts = [] \<or> [] \<in> set parts)
        (ValueError ''identifier derivation requires explicit non-empty parts'')]
     (Inr (kind @ '':'' @ take 32 (sha256_hex (concat (map framed (sh_namespace i # kind # parts))))))"

record FixedEntropy =
  fe_value :: "8 word list"

definition token_bytes :: "FixedEntropy \<Rightarrow> int \<Rightarrow> 8 word list result" where
  "token_bytes e n = checks
     [raise_if (n < 1 \<or> int (length (fe_value e)) < n)
        (ValueError ''requested entropy length is unavailable'')]
     (Inr (take (nat n) (fe_value e)))"

section \<open>The reference channel\<close>

text \<open>\<^verbatim>\<open>json.dumps\<close> of a string with its default \<^verbatim>\<open>ensure_ascii\<close>.\<close>

definition ascii_char_text :: "char \<Rightarrow> string" where
  "ascii_char_text c =
     (if of_char c > (127 :: int) then CHR 0x5C # ''u'' @ hex_text 4 (of_char c) else escape_char c)"

definition ascii_string_text :: "string \<Rightarrow> string" where
  "ascii_string_text s = CHR 0x22 # concat (map ascii_char_text s) @ [CHR 0x22]"

definition reference_digest :: "string \<Rightarrow> string \<Rightarrow> string" where
  "reference_digest kind effect_key = ''sha256:'' @ sha256_hex (utf8
     (''{'' @ ascii_string_text ''effect_key'' @ '':'' @ ascii_string_text effect_key @ '','' @
      ascii_string_text ''kind'' @ '':'' @ ascii_string_text kind @ ''}''))"

record ReferenceChannel =
  rf_outcomes :: "ChannelOutcomeKind list"
  rf_reconciliation :: ReconciliationKind
  rf_call_count :: nat
  rf_reconciliation_count :: nat
  rf_observed_effect_keys :: "string list"

definition default_channel :: ReferenceChannel where
  "default_channel = \<lparr>rf_outcomes = [CO_SUCCEEDED], rf_reconciliation = RK_STILL_UNKNOWN,
     rf_call_count = 0, rf_reconciliation_count = 0, rf_observed_effect_keys = []\<rparr>"

text \<open>With no outcomes the position is \<open>-1\<close> and the tuple access raises.\<close>

definition channel_apply ::
  "ReferenceChannel \<Rightarrow> ChannelEffect \<Rightarrow> ChannelOutcome result \<times> ReferenceChannel" where
  "channel_apply c effect =
     (if rf_outcomes c = [] then (Inl (IndexError ''tuple index out of range''), c)
      else
        let position = min (rf_call_count c) (length (rf_outcomes c) - 1);
            kind = rf_outcomes c ! position;
            key = ce_effect_idempotency_key effect;
            c' = c\<lparr>rf_call_count := rf_call_count c + 1,
              rf_observed_effect_keys := rf_observed_effect_keys c @ [key]\<rparr>
        in (bindR (FrozenJsonObject_init [(''adapter'', JStr ''reference''),
              (''outcome'', JStr (ChannelOutcomeKind_value kind))]) (\<lambda>projection.
            ChannelOutcome_init \<lparr>co_kind = kind, co_safe_projection = projection,
              co_result_digest = reference_digest (ChannelOutcomeKind_value kind) key,
              co_schema_version = SCHEMA_VERSION\<rparr>), c'))"

definition channel_reconcile ::
  "ReferenceChannel \<Rightarrow> string \<Rightarrow> ReconciliationOutcome result \<times> ReferenceChannel" where
  "channel_reconcile c effect_idempotency_key =
     (let kind = rf_reconciliation c;
          c' = c\<lparr>rf_reconciliation_count := rf_reconciliation_count c + 1\<rparr>
      in (bindR (FrozenJsonObject_init [(''adapter'', JStr ''reference''),
            (''reconciliation'', JStr (ReconciliationKind_value kind))]) (\<lambda>projection.
          ReconciliationOutcome_init \<lparr>ro_kind = kind, ro_safe_projection = projection,
            ro_result_digest = reference_digest (ReconciliationKind_value kind)
              effect_idempotency_key,
            ro_schema_version = SCHEMA_VERSION\<rparr>), c'))"

section \<open>Deterministic intelligence\<close>

text \<open>A Mandate has at least one boundary, and a boundary at least one kind and action.\<close>

definition deterministic_proposal :: "IntelligenceRequest \<Rightarrow> EffectProposal result" where
  "deterministic_proposal request =
     (let boundary = hd (md_effect_boundaries (iq_mandate request));
          item = iq_agenda_item request in
      bindR (EffectDestination_init \<lparr>ed_kind = hd (eb_allowed_destination_kinds boundary),
        ed_target = ''synthetic-target''\<rparr>) (\<lambda>destination.
      bindR (FrozenJsonObject_init [(''body'', JStr ''Synthetic deterministic work update.'')])
        (\<lambda>payload.
      bindR (FrozenJsonObject_init [(''content_class'', JStr ''synthetic_update''),
        (''work_id'', opt_json JStr (ag_work_id item))]) (\<lambda>projection.
      bindR (EffectConstraints_init \<lparr>ec_boundary_id = eb_boundary_id boundary,
        ec_idempotency_key = iq_effect_idempotency_key request,
        ec_valid_until = iq_proposal_valid_until request, ec_maximum_attempts = 3,
        ec_parameters = eb_constraints boundary\<rparr>) (\<lambda>constraints.
      EffectProposal_init
        \<lparr>ep_namespace = iq_namespace request, ep_proposal_id = iq_proposal_id request,
         ep_decision_id = iq_decision_id request, ep_effect_kind = eb_effect_kind boundary,
         ep_destination = destination, ep_action = hd (eb_allowed_actions boundary),
         ep_payload = payload, ep_safe_projection = projection, ep_constraints = constraints,
         ep_state = EP_PENDING_APPROVAL, ep_actor = iq_model_principal request,
         ep_correlation_id = ag_correlation_id item, ep_causation_id = iq_decision_id request,
         ep_occurred_at = iq_occurred_at request, ep_revision = 1,
         ep_schema_version = SCHEMA_VERSION,
         ep_mandate_id = Some (md_mandate_id (iq_mandate request)),
         ep_mandate_revision = Some (md_revision (iq_mandate request)),
         ep_policy_id = iq_policy_id request, ep_policy_revision = iq_policy_revision request,
         ep_payload_digest = [], ep_proposal_digest = []\<rparr>)))))"

definition deterministic_decision :: "IntelligenceRequest \<Rightarrow> Decision result" where
  "deterministic_decision request = Decision_init
     \<lparr>dc_namespace = iq_namespace request, dc_decision_id = iq_decision_id request,
      dc_wake_cycle_id = wk_wake_cycle_id (iq_wake_cycle request),
      dc_agenda_item_id = ag_agenda_item_id (iq_agenda_item request), dc_kind = PROPOSE_EFFECT,
      dc_rationale = ''Synthetic finite work deterministically requires one reference effect.'',
      dc_proposed_effect_id = Some (iq_proposal_id request), dc_actor = iq_model_principal request,
      dc_correlation_id = ag_correlation_id (iq_agenda_item request),
      dc_causation_id = ag_agenda_item_id (iq_agenda_item request),
      dc_occurred_at = iq_occurred_at request, dc_revision = 1,
      dc_schema_version = SCHEMA_VERSION, dc_policy_id = iq_policy_id request,
      dc_policy_revision = iq_policy_revision request\<rparr>"

text \<open>The decision and the new \<^verbatim>\<open>call_count\<close>.\<close>

definition deterministic_decide ::
  "nat \<Rightarrow> IntelligenceRequest \<Rightarrow> SemanticDecision result \<times> nat" where
  "deterministic_decide call_count request =
     (if pr_kind (iq_model_principal request) \<noteq> MODEL
      then (Inl (ValueError ''deterministic intelligence requires a model principal''), call_count)
      else (bindR (deterministic_decision request) (\<lambda>decision.
        bindR (deterministic_proposal request) (\<lambda>proposal.
        SemanticDecision_init \<lparr>sd_outcome = SO_PROPOSAL, sd_decision = decision,
          sd_proposal = Some proposal, sd_request_id = iq_request_id request,
          sd_schema_version = SCHEMA_VERSION\<rparr>)), call_count + 1))"

section \<open>The deterministic ports\<close>

record det_world = world +
  dw_channel :: ReferenceChannel
  dw_decide_count :: nat

definition det_decide :: "IntelligenceRequest \<Rightarrow> det_world \<Rightarrow> SemanticDecision result \<times> det_world" where
  "det_decide request w = (case deterministic_decide (dw_decide_count w) request of
     (r, n) \<Rightarrow> (r, w\<lparr>dw_decide_count := n\<rparr>))"

definition det_apply :: "ChannelEffect \<Rightarrow> det_world \<Rightarrow> ChannelOutcome result \<times> det_world" where
  "det_apply effect w = (case channel_apply (dw_channel w) effect of
     (r, c) \<Rightarrow> (r, w\<lparr>dw_channel := c\<rparr>))"

definition det_reconcile ::
  "string \<Rightarrow> string \<Rightarrow> det_world \<Rightarrow> ReconciliationOutcome result \<times> det_world" where
  "det_reconcile effect_idempotency_key binding_digest w =
     (case channel_reconcile (dw_channel w) effect_idempotency_key of
        (r, c) \<Rightarrow> (r, w\<lparr>dw_channel := c\<rparr>))"

definition det_ports ::
  "FixedClock \<Rightarrow> StableHashIdentifier \<Rightarrow> (string \<Rightarrow> unit result)
     \<Rightarrow> \<lparr>dw_channel :: ReferenceChannel, dw_decide_count :: nat\<rparr> ports" where
  "det_ports clock identifiers checkpoint =
     \<lparr>pt_clock = fixed_now clock, pt_derive = derive identifiers, pt_hit = checkpoint,
      pt_decide = det_decide, pt_apply = det_apply, pt_reconcile = det_reconcile,
      pt_authorize = None\<rparr>"

definition noop_checkpoint :: "string \<Rightarrow> unit result" where
  "noop_checkpoint checkpoint = Inr ()"

end
