(* ===== verification/ServiceFacts.thy ===== *)
theory ServiceFacts
  imports AttemptUse Adapters
begin

text \<open>
  What the services keep, whatever the ports do in between: the invariant of the outbox, and
  that an effect attempt is handed to the channel at most once and only approved.
\<close>

section \<open>Laws of actions\<close>

definition obeys :: "('z world_scheme \<Rightarrow> 'z world_scheme \<Rightarrow> bool) \<Rightarrow> ('z, 'a) action \<Rightarrow> bool" where
  "obeys R m \<longleftrightarrow> (\<forall>w. R w (snd (m w)))"

text \<open>
  A relation between worlds that every combinator preserves: an action obeys it, whether it
  returns or raises, as soon as its parts do.
\<close>

locale action_law =
  fixes R :: "'z world_scheme \<Rightarrow> 'z world_scheme \<Rightarrow> bool"
  assumes law_refl: "R w w" and law_trans: "R w1 w2 \<Longrightarrow> R w2 w3 \<Longrightarrow> R w1 w3"
    and law_readings: "R w (w\<lparr>wd_readings := n\<rparr>)"
begin

lemma obeys_lift: "obeys R (liftA r)" "obeys R (returnA x)" "obeys R (readA f)"
  by (simp_all add: obeys_def readA_def law_refl)

lemma obeys_ports: "obeys R (nowA p)" "obeys R (deriveA p k parts)" "obeys R (hitA p c)"
  by (simp_all add: obeys_def nowA_def deriveA_def hitA_def law_refl law_readings)

lemma bind_at:
  assumes "R w (snd (m w))" and "\<And>x w'. m w = (Inr x, w') \<Longrightarrow> R w' (snd (f x w'))"
  shows "R w (snd (bindA m f w))"
  using assms
  by (cases "m w"; cases "fst (m w)") (auto simp: bindA_def intro: law_trans)

lemma obeys_bind: "obeys R m \<Longrightarrow> (\<And>x. obeys R (f x)) \<Longrightarrow> obeys R (bindA m f)"
  by (auto simp: obeys_def intro!: bind_at)

lemma obeys_try: "obeys R m \<Longrightarrow> (\<And>e. obeys R (h e)) \<Longrightarrow> obeys R (tryA m h)"
  by (auto simp: obeys_def tryA_eq intro: law_trans split: sum.splits)

lemma obeys_guard: "obeys R k \<Longrightarrow> obeys R (guardA cs k)"
  by (auto simp: guardA_def intro!: obeys_bind obeys_lift)

lemma obeys_transact:
  assumes "\<And>w x st'. body (wd_store w) = Inr (x, st') \<Longrightarrow> R w (w\<lparr>wd_store := st'\<rparr>)"
  shows "obeys R (transact body)"
  unfolding obeys_def transact_eq
proof
  fix w show "R w (snd (case body (wd_store w) of Inl e \<Rightarrow> (Inl e, w)
      | Inr (x, st) \<Rightarrow> (Inr x, w\<lparr>wd_store := st\<rparr>)))"
    using assms law_refl by (auto split: sum.splits prod.splits)
qed

lemma obeys_option:
  "obeys R m \<Longrightarrow> (\<And>x. obeys R (f x)) \<Longrightarrow> obeys R (case v of None \<Rightarrow> m | Some x \<Rightarrow> f x)"
  by (auto split: option.splits)

lemma obeys_prod: "(\<And>a b. obeys R (f a b)) \<Longrightarrow> obeys R (case v of (a, b) \<Rightarrow> f a b)"
  by (auto split: prod.splits)

lemma obeys_if: "obeys R m \<Longrightarrow> obeys R k \<Longrightarrow> obeys R (if c then m else k)"
  by auto

lemmas obeys_intros = obeys_lift obeys_ports obeys_bind obeys_try obeys_guard obeys_option
  obeys_prod obeys_if

end

section \<open>The invariant of the world\<close>

definition applied_ident :: "ChannelEffect \<Rightarrow> Namespace \<times> string" where
  "applied_ident e = (ea_namespace (ce_attempt e), ea_effect_attempt_id (ce_attempt e))"

text \<open>A human decision on record approves exactly the proposal on record that the effect carries.\<close>

definition effect_approved :: "store \<Rightarrow> ChannelEffect \<Rightarrow> bool" where
  "effect_approved st e \<longleftrightarrow> (let p = ce_proposal e in
     st_records st (ep_namespace p, RT_EFFECT_PROPOSAL, ep_proposal_id p) = Some (DEffectProposal p) \<and>
     ce_effect_idempotency_key e = ec_idempotency_key (ep_constraints p) \<and>
     ea_namespace (ce_attempt e) = ep_namespace p \<and> ea_proposal_id (ce_attempt e) = ep_proposal_id p \<and>
     (\<exists>d. st_records st (ep_namespace p, RT_HUMAN_APPROVAL, ea_approval_decision_id (ce_attempt e))
         = Some (DHumanApproval d) \<and>
       ha_choice d = APPROVE \<and> pr_kind (ha_author d) = HUMAN \<and>
       ha_proposal_id d = ep_proposal_id p \<and> ha_proposal_revision d = ep_revision p \<and>
       ha_proposal_payload_digest d = ep_payload_digest p \<and>
       ha_proposal_digest d = ep_proposal_digest p))"

definition world_ok :: "'z world_scheme \<Rightarrow> bool" where
  "world_ok w \<longleftrightarrow> outbox_ok (wd_store w) \<and> distinct (map applied_ident (wd_applied w)) \<and>
     (\<forall>e \<in> set (wd_applied w). effect_approved (wd_store w) e \<and>
       used (wd_store w) (ea_namespace (ce_attempt e)) (ea_effect_attempt_id (ce_attempt e))
         (ep_proposal_id (ce_proposal e)))"

text \<open>
  The law of every service, and of every port that runs beside other processes: the store
  moves by steps, no recorded effect is lost, and the invariant is kept.
\<close>

definition keeps :: "'z world_scheme \<Rightarrow> 'z world_scheme \<Rightarrow> bool" where
  "keeps w w' \<longleftrightarrow> (world_ok w \<longrightarrow> store_step\<^sup>*\<^sup>* (wd_store w) (wd_store w') \<and> world_ok w' \<and>
     (\<exists>more. wd_applied w' = wd_applied w @ more))"

lemma effect_approved_steps:
  assumes "effect_approved st e" and "store_step\<^sup>*\<^sup>* st st'"
  shows "effect_approved st' e"
proof -
  have "st_records st' (n, t, i) = Some r"
    if "st_records st (n, t, i) = Some r" "t \<in> {RT_EFFECT_PROPOSAL, RT_HUMAN_APPROVAL}" for n t i r
    using grows_keeps [OF steps_grow [OF assms(2)] that(1)] that(2) by (auto simp: mutable_types_def)
  with assms(1) show ?thesis
    unfolding effect_approved_def Let_def by blast
qed

lemma world_ok_steps:
  assumes "world_ok w" and "store_step\<^sup>*\<^sup>* (wd_store w) st'"
  shows "world_ok (w\<lparr>wd_store := st'\<rparr>)"
  using assms steps_keep_ok effect_approved_steps steps_used
  unfolding world_ok_def by simp blast

lemma keeps_step: "store_step (wd_store w) st' \<Longrightarrow> keeps w (w\<lparr>wd_store := st'\<rparr>)"
  unfolding keeps_def by (auto intro: world_ok_steps)

lemma world_ok_readings [simp]: "world_ok (w\<lparr>wd_readings := n\<rparr>) = world_ok w"
  by (simp add: world_ok_def)

interpretation keeping: action_law keeps
proof
  show "keeps w w" for w :: "'a world_scheme" by (simp add: keeps_def)
  show "keeps w1 w2 \<Longrightarrow> keeps w2 w3 \<Longrightarrow> keeps w1 w3" for w1 w2 w3 :: "'a world_scheme"
    unfolding keeps_def by (metis append_assoc rtranclp_trans)
  show "keeps w (w\<lparr>wd_readings := n\<rparr>)" for w :: "'a world_scheme" and n
    by (simp add: keeps_def)
qed

definition keeping_ports :: "'z ports \<Rightarrow> bool" where
  "keeping_ports p \<longleftrightarrow> (\<forall>r. obeys keeps (pt_decide p r)) \<and> (\<forall>e. obeys keeps (pt_apply p e)) \<and>
     (\<forall>k d. obeys keeps (pt_reconcile p k d)) \<and>
     (\<forall>a. pt_authorize p = Some a \<longrightarrow> (\<forall>q d. obeys keeps (a q d)))"

text \<open>Transactions of the store.\<close>

lemma store_keeps:
  assumes "\<And>st x st'. body st = Inr (x, st') \<Longrightarrow> store_step st st'"
  shows "obeys keeps (transact body)"
  by (rule keeping.obeys_transact) (blast intro: keeps_step assms)

lemma transactions_keep:
  "obeys keeps (transact (bootstrap n ps pf md fw a c t))"
  "obeys keeps (transact (ingest_event e key tid))"
  "obeys keeps (transact (ingest_timer o' key tid))"
  "obeys keeps (transact (claim_trigger n owner now lease))"
  "obeys keeps (transact (materialize_agenda tc wid aid actor t))"
  "obeys keeps (transact (claim_agenda n owner now lease))"
  "obeys keeps (transact (release_agenda gl))"
  "obeys keeps (transact (commit_semantic_decision gl sem))"
  "obeys keeps (transact (commit_approval_and_attempt n mid v d eid oid actor t))"
  "obeys keeps (transact (claim_outbox n owner now lease))"
  "obeys keeps (transact (claim_ambiguous n owner now lease))"
  "obeys keeps (transact (mark_dispatch_started oc t))"
  "obeys keeps (transact (finalize_dispatch oc out i actor t nid))"
  "obeys keeps (transact (recover_expired_dispatches n now actor rid))"
  "obeys keeps (transact (reconcile_ambiguous oc rec i actor t nid nrt))"
  by (rule store_keeps, erule store_step.intros)+

lemmas keep_intros = keeping.obeys_intros transactions_keep

section \<open>The services\<close>

lemma initialize_keeps: "obeys keeps (initialize p context ps pf md fw c)"
  unfolding initialize_def by (intro keep_intros)

lemma submit_event_keeps: "obeys keeps (submit_event p context request key)"
  unfolding submit_event_def by (intro keep_intros)

lemma schedule_timer_keeps: "obeys keeps (schedule_timer p actor n request)"
  unfolding schedule_timer_def by (intro keep_intros)

lemma materialize_next_keeps: "obeys keeps (materialize_next p s n)"
  unfolding materialize_next_def by (intro keep_intros)

lemma build_request_keeps: "obeys keeps (build_request p s n claim now)"
  unfolding build_request_def Let_def by (intro keep_intros)

lemma decide_item_keeps:
  assumes "keeping_ports p" shows "obeys keeps (decide_item p claim request)"
proof -
  have decide: "obeys keeps (pt_decide p r)" for r using assms by (simp add: keeping_ports_def)
  have fail: "obeys keeps (commit_failure p claim request c d)" for c d
    unfolding commit_failure_def by (intro keep_intros)
  have "obeys keeps (decide_and_commit p claim request)"
    unfolding decide_and_commit_def by (intro keep_intros decide)
  moreover have "obeys keeps (case e of ExternalAdapterError c d \<Rightarrow> commit_failure p claim request c d
      | _ \<Rightarrow> bindA (transact (release_agenda claim)) (\<lambda>_. liftA (Inl e)))" for e
    by (cases e) (auto intro!: keep_intros fail)
  ultimately show ?thesis
    unfolding decide_item_def by (intro keeping.obeys_try)
qed

lemma run_items_keeps:
  "keeping_ports p \<Longrightarrow> obeys keeps (run_items p s n left selected decisions)"
  by (induction left arbitrary: selected decisions)
    (auto intro!: keep_intros build_request_keeps decide_item_keeps)

lemma run_wake_keeps: "keeping_ports p \<Longrightarrow> obeys keeps (run_wake p s n)"
  unfolding run_wake_def by (intro keep_intros run_items_keeps)

lemma decide_approval_keeps: "obeys keeps (decide_approval p s context m v request)"
  unfolding decide_approval_def by (intro keep_intros)

lemma validate_keeps: "keeping_ports p \<Longrightarrow> obeys keeps (validate_exact_effect p s n claim)"
  unfolding validate_exact_effect_def
  by (cases "pt_authorize p") (auto intro!: keep_intros simp: keeping_ports_def)

lemma recover_expired_keeps: "obeys keeps (recover_expired p s n)"
  unfolding recover_expired_def by (intro keep_intros)

lemma reconcile_once_keeps:
  assumes "keeping_ports p" shows "obeys keeps (reconcile_once p s n)"
proof -
  have "obeys keeps (pt_reconcile p k d)" for k d using assms by (simp add: keeping_ports_def)
  with validate_keeps [OF assms] show ?thesis
    unfolding reconcile_once_def by (intro keep_intros)
qed

text \<open>The dispatch itself: the started attempt is handed over with the approved proposal.\<close>

lemma validate_bundle:
  assumes "validate_exact_effect p s n claim w = (Inr bundle, w')"
  shows "load_dispatch_bundle claim (ds_mandate_id s) (wd_store w) = Inr bundle"
  using assms
  by (auto simp: validate_exact_effect_def bindA_eq guardA_eq readA_def split: sum.splits)

lemma bundle_contents:
  "load_dispatch_bundle c m st = Inr b \<Longrightarrow>
     st_records st (oc_namespace c, RT_EFFECT_PROPOSAL, oc_proposal_id c)
       = Some (DEffectProposal (bd_proposal b)) \<and>
     bd_effect_idempotency_key b = oc_effect_idempotency_key c"
  by (auto simp: load_dispatch_bundle_def outcome_simps get_proposal_iff
      dest!: DispatchBundle_init_ok require_outbox_claim_binding)

lemma apply_keeps:
  assumes p: "keeping_ports p" and ok: "world_ok w1"
    and start: "mark_dispatch_started c now (wd_store w1) = Inr (started, st2)"
    and recd: "st_records (wd_store w1) (oc_namespace c, RT_EFFECT_PROPOSAL, oc_proposal_id c)
      = Some (DEffectProposal (ce_proposal e))"
    and e: "ce_attempt e = started" "ce_effect_idempotency_key e = oc_effect_idempotency_key c"
  shows "keeps (w1\<lparr>wd_store := st2\<rparr>) (snd (applyA p e (w1\<lparr>wd_store := st2\<rparr>)))"
proof -
  let ?w2 = "w1\<lparr>wd_store := st2\<rparr>" and ?w3 = "w1\<lparr>wd_store := st2, wd_applied := wd_applied w1 @ [e]\<rparr>"
  have ok1: "outbox_ok (wd_store w1)" using ok by (simp add: world_ok_def)
  have step: "store_step\<^sup>*\<^sup>* (wd_store w1) st2" using start by (blast intro: do_mark_started)
  note uses = mark_started_use [OF start ok1]
  have key: "ep_namespace (ce_proposal e) = oc_namespace c" "ep_proposal_id (ce_proposal e) = oc_proposal_id c"
    using sound_keyed [OF _ recd] ok1 by (simp_all add: record_key_def outbox_ok_def well_keyed_def)
  have "effect_approved (wd_store w1) e"
    using started_approved [OF start ok1] recd key e uses(3)
    by (auto simp: effect_approved_def Let_def)
  then have approved: "effect_approved st2 e" by (rule effect_approved_steps [OF _ step])
  have "applied_ident e \<notin> applied_ident ` set (wd_applied w1)"
    using ok uses(1) uses(3,4) e(1) by (auto simp: world_ok_def applied_ident_def)
  moreover have "used st2 (ea_namespace started) (ea_effect_attempt_id started) (ep_proposal_id (ce_proposal e))"
    using uses(2-4) started_approved [OF start ok1] key by auto
  ultimately have "world_ok ?w3"
    using world_ok_steps [OF ok step] approved e(1) by (simp add: world_ok_def)
  then have "keeps ?w2 ?w3" by (simp add: keeps_def)
  moreover have "keeps ?w3 (snd (pt_apply p e ?w3))"
    using p by (simp add: keeping_ports_def obeys_def)
  ultimately show ?thesis
    by (auto simp: applyA_def intro: keeping.law_trans)
qed

lemma dispatch_claim_keeps:
  assumes p: "keeping_ports p" and rest: "\<And>b x. obeys keeps (rest b x)"
  shows "obeys keeps (bindA (validate_exact_effect p s n claim) (\<lambda>bundle.
     bindA (transact (mark_dispatch_started claim now)) (\<lambda>started.
     bindA (hitA p h) (\<lambda>_.
     bindA (liftA (ChannelEffect_init
       \<lparr>ce_proposal = bd_proposal bundle, ce_attempt = started,
        ce_effect_idempotency_key = bd_effect_idempotency_key bundle,
        ce_effect_schema_version = SCHEMA_VERSION\<rparr>)) (\<lambda>effect.
     bindA (applyA p effect) (rest bundle))))))"
  unfolding obeys_def
proof
  fix w
  show "keeps w (snd (bindA (validate_exact_effect p s n claim) (\<lambda>bundle.
     bindA (transact (mark_dispatch_started claim now)) (\<lambda>started.
     bindA (hitA p h) (\<lambda>_.
     bindA (liftA (ChannelEffect_init
       \<lparr>ce_proposal = bd_proposal bundle, ce_attempt = started,
        ce_effect_idempotency_key = bd_effect_idempotency_key bundle,
        ce_effect_schema_version = SCHEMA_VERSION\<rparr>)) (\<lambda>effect.
     bindA (applyA p effect) (rest bundle))))) w))"
  proof (cases "world_ok w")
    case True
    show ?thesis
    proof (rule keeping.bind_at)
      show "keeps w (snd (validate_exact_effect p s n claim w))"
        using validate_keeps [OF p] by (simp add: obeys_def)
      fix bd w1 assume v: "validate_exact_effect p s n claim w = (Inr bd, w1)"
      have k: "keeps w w1" using validate_keeps [OF p, of s n claim] v by (auto simp: obeys_def dest: spec [of _ w])
      with True have w1: "world_ok w1" "store_step\<^sup>*\<^sup>* (wd_store w) (wd_store w1)" by (auto simp: keeps_def)
      note b = bundle_contents [OF validate_bundle [OF v]]
      have recd: "st_records (wd_store w1) (oc_namespace claim, RT_EFFECT_PROPOSAL,
          oc_proposal_id claim) = Some (DEffectProposal (bd_proposal bd))"
        using b grows_keeps [OF steps_grow [OF w1(2)]] by (auto simp: mutable_types_def)
      show "keeps w1 (snd (bindA (transact (mark_dispatch_started claim now)) (\<lambda>started.
         bindA (hitA p h) (\<lambda>_.
         bindA (liftA (ChannelEffect_init
           \<lparr>ce_proposal = bd_proposal bd, ce_attempt = started,
            ce_effect_idempotency_key = bd_effect_idempotency_key bd,
            ce_effect_schema_version = SCHEMA_VERSION\<rparr>)) (\<lambda>effect.
         bindA (applyA p effect) (rest bd)))) w1))"
      proof (rule keeping.bind_at)
        show "keeps w1 (snd (transact (mark_dispatch_started claim now) w1))"
          using transactions_keep(12) unfolding obeys_def by blast
        fix started w2 assume "transact (mark_dispatch_started claim now) w1 = (Inr started, w2)"
        then obtain st2 where st2: "mark_dispatch_started claim now (wd_store w1) = Inr (started, st2)"
            "w2 = w1\<lparr>wd_store := st2\<rparr>"
          by (auto simp: transact_eq split: sum.splits)
        show "keeps w2 (snd (bindA (hitA p h) (\<lambda>_.
           bindA (liftA (ChannelEffect_init
             \<lparr>ce_proposal = bd_proposal bd, ce_attempt = started,
              ce_effect_idempotency_key = bd_effect_idempotency_key bd,
              ce_effect_schema_version = SCHEMA_VERSION\<rparr>)) (\<lambda>effect.
           bindA (applyA p effect) (rest bd))) w2))"
        proof (intro keeping.bind_at)
          fix u w3 e w4 assume "hitA p h w2 = (Inr u, w3)"
            and "liftA (ChannelEffect_init \<lparr>ce_proposal = bd_proposal bd, ce_attempt = started,
              ce_effect_idempotency_key = bd_effect_idempotency_key bd,
              ce_effect_schema_version = SCHEMA_VERSION\<rparr>) w3 = (Inr e, w4)"
          then have w4: "w4 = w2" and e: "ce_proposal e = bd_proposal bd" "ce_attempt e = started"
              "ce_effect_idempotency_key e = oc_effect_idempotency_key claim"
            using b by (auto simp: hitA_def ChannelEffect_init_def outcome_simps)
          show "keeps w4 (snd (applyA p e w4))"
            unfolding w4 st2(2) by (rule apply_keeps [OF p w1(1) st2(1) _ e(2,3)]) (simp add: e recd)
        qed (use rest in \<open>auto simp: obeys_def hitA_def keeping.law_refl\<close>)
      qed
    qed
  qed (simp add: keeps_def)
qed

lemma dispatch_once_keeps:
  assumes "keeping_ports p" shows "obeys keeps (dispatch_once p s n)"
  unfolding dispatch_once_def by (intro keep_intros dispatch_claim_keeps assms)

lemma run_once_keeps: "keeping_ports p \<Longrightarrow> obeys keeps (run_once p ws ds n)"
  unfolding run_once_def
  by (intro keep_intros materialize_next_keeps run_wake_keeps dispatch_once_keeps)

end
