(* ===== verification/OutboxFacts.thy ===== *)
theory OutboxFacts
  imports AttemptUse
begin

text \<open>
  What the outbox invariant and the row machine mean: no effect is dispatched without its
  approval, one row per proposal, bounded attempts and reconciliation, final states stay.
\<close>

section \<open>A backed row\<close>

text \<open>A store whose records are all at their first revision, each with its audit row, is sound.\<close>

lemma seeded_sound:
  assumes "st_records st = map_of kvs" and "\<forall>(k, r) \<in> set kvs. record_key r = k \<and> record_revision r = 1"
    and "distinct (map audit_key (st_audit st))"
    and "audit_key ` set (st_audit st) = (\<lambda>k. (k, 1)) ` fst ` set kvs"
  shows "sound st"
  unfolding sound_def
proof (intro conjI allI)
  fix k
  have revisions: "audit_revisions st k = (if k \<in> fst ` set kvs then {1} else {})"
    unfolding audit_revisions_def assms(4) by auto
  show "revisions_match (st_records st k) k (audit_revisions st k)"
  proof (cases "map_of kvs k")
    case None
    then have "k \<notin> fst ` set kvs" by (simp add: map_of_eq_None_iff)
    with None revisions assms(1) show ?thesis by simp
  next
    case (Some r)
    then have "(k, r) \<in> set kvs" by (rule map_of_SomeD)
    with assms(2) have r: "record_key r = k" "record_revision r = 1" "k \<in> fst ` set kvs"
      by (auto simp: rev_image_eqI)
    have "\<exists>first. 1 \<le> first \<and> first \<le> (1::int) \<and> {1} = {first..1}"
      by (rule exI [of _ 1]) simp
    with Some r revisions assms(1) show ?thesis by simp
  qed
qed (rule assms(3))

definition acme_attempt :: "EffectAttemptState \<Rightarrow> int \<Rightarrow> int \<Rightarrow> EffectAttempt" where
  "acme_attempt s t revision =
     \<lparr>ea_namespace = acme_colleague, ea_effect_attempt_id = ''x1'', ea_proposal_id = ''p1'',
      ea_proposal_revision = 1, ea_approval_decision_id = ''a1'', ea_attempt_number = 1,
      ea_state = s, ea_actor = acme_principal ''svc'' SERVICE [], ea_correlation_id = ''corr'',
      ea_causation_id = ''a1'', ea_occurred_at = utc t, ea_revision = revision,
      ea_schema_version = SCHEMA_VERSION\<rparr>"

definition seed_audit :: "RecordType \<Rightarrow> string \<Rightarrow> audit_row" where
  "seed_audit t i = \<lparr>au_namespace = acme_colleague, au_audit_id = ''seed:'' @ i, au_record_type = t,
     au_record_id = i, au_record_revision = 1, au_actor_principal_id = ''svc'',
     au_correlation_id = ''corr'', au_causation_id = None, au_occurred_at = utc 0\<rparr>"

definition acme_backed :: "outbox_row \<Rightarrow> store" where
  "acme_backed row = empty_store
     \<lparr>st_records := [(acme_colleague, RT_EFFECT_PROPOSAL, ''p1'') \<mapsto> DEffectProposal acme_proposal,
        (acme_colleague, RT_HUMAN_APPROVAL, ''a1'') \<mapsto> DHumanApproval acme_approval,
        (acme_colleague, RT_EFFECT_ATTEMPT, ''x1'') \<mapsto> DEffectAttempt (acme_attempt EA_PLANNED 0 1)],
      st_audit := [seed_audit RT_EFFECT_PROPOSAL ''p1'', seed_audit RT_HUMAN_APPROVAL ''a1'',
        seed_audit RT_EFFECT_ATTEMPT ''x1''],
      st_ledger := [(acme_colleague, LK_PROPOSAL_APPROVAL, proposal_binding acme_proposal)
        \<mapsto> (RT_HUMAN_APPROVAL, ''a1'')],
      st_outbox := [row]\<rparr>"

definition acme_dispatching :: store where
  "acme_dispatching = acme_backed (acme_leased ''w1'' 10 1 acme_row)
     \<lparr>st_records := (st_records (acme_backed acme_row))((acme_colleague, RT_EFFECT_ATTEMPT, ''x1'')
        \<mapsto> DEffectAttempt (acme_attempt EA_STARTED 11 2)),
      st_audit := st_audit (acme_backed acme_row) @
        [(seed_audit RT_EFFECT_ATTEMPT ''x1'')\<lparr>au_audit_id := audit_id RT_EFFECT_ATTEMPT ''x1'' 2,
          au_record_revision := 2, au_causation_id := Some ''a1'', au_occurred_at := utc 11\<rparr>],
      st_outbox := [(acme_leased ''w1'' 10 1 acme_row)\<lparr>ox_state := OX_DISPATCHING,
        ox_updated_at := utc 11, ox_revision := 3\<rparr>]\<rparr>"

lemma acme_backed_claim:
  "claim_outbox acme_colleague ''w1'' (utc 10) (utc 20) (acme_backed acme_row) =
     Inr (Some (acme_outbox_claim ''w1'' 10 1), acme_backed (acme_leased ''w1'' 10 1 acme_row))"
  by (simp add: acme_outbox_defs acme_backed_def ok_simps)

lemma acme_seed_prefix: "''seed:'' @ i \<noteq> audit_id t j v"
  by (simp add: audit_id_def)

lemma acme_backed_start:
  "mark_dispatch_started (acme_outbox_claim ''w1'' 10 1) (utc 11)
     (acme_backed (acme_leased ''w1'' 10 1 acme_row)) =
   Inr (acme_attempt EA_STARTED 11 2, acme_dispatching)"
  by (simp add: mark_dispatch_started_def require_outbox_claim_def acme_outbox_defs
      acme_backed_def acme_dispatching_def acme_attempt_def get_effect_attempt_def get_record_def
      EffectAttempt_init_def update_record_def insert_audit_def record_key_def ok_simps
      claimed_row_def seed_audit_def acme_seed_prefix [unfolded append.simps])

lemma acme_backed_ok: "outbox_ok (acme_backed acme_row)"
proof -
  have "sound (acme_backed acme_row)"
    unfolding sound_def
    by (auto simp: acme_backed_def empty_store_def audit_key_def seed_audit_def audit_revisions_def
        record_key_def acme_proposal_def acme_proposal_fields_def acme_approval_def acme_attempt_def)
  moreover have "row_approved (acme_backed acme_row) acme_row"
    by (simp add: row_approved_def acme_backed_def acme_row_def acme_approval_def
        acme_proposal_def acme_proposal_fields_def acme_principal_def)
  moreover have "row_attempted (acme_backed acme_row) acme_row"
    by (simp add: row_attempted_def acme_backed_def acme_row_def acme_attempt_def)
  ultimately show ?thesis
    by (simp add: outbox_ok_def well_keyed_def) (simp add: acme_backed_def empty_store_def)
qed

lemma acme_dispatched: "store_step\<^sup>*\<^sup>* (acme_backed acme_row) (acme_backed (acme_leased ''w1'' 10 1 acme_row))"
  by (rule r_into_rtranclp, rule do_claim_outbox, rule acme_backed_claim)

lemma acme_dispatched_more: "store_step\<^sup>*\<^sup>* (acme_backed acme_row) acme_dispatching"
  by (rule rtranclp.rtrancl_into_rtrancl [OF acme_dispatched], rule do_mark_started,
      rule acme_backed_start)

section \<open>The properties\<close>

text \<open>C3. No effect is dispatched without its approval: in every history from a store whose outbox
  is in order (the empty one is), an attempt that is marked as started belongs to a proposal on
  record that a human has approved - by ID, revision, payload digest and complete digest - and
  its number is within the proposal's attempts.\<close>

theorem dispatch_is_approved:
  assumes "outbox_ok st0" and "store_step\<^sup>*\<^sup>* st0 st"
    and "mark_dispatch_started c t st = Inr (a, st')"
  shows "\<exists>d p. st_records st (oc_namespace c, RT_HUMAN_APPROVAL, ea_approval_decision_id a)
        = Some (DHumanApproval d) \<and>
      st_records st (oc_namespace c, RT_EFFECT_PROPOSAL, ea_proposal_id a)
        = Some (DEffectProposal p) \<and>
      ha_choice d = APPROVE \<and> pr_kind (ha_author d) = HUMAN \<and>
      ha_proposal_id d = ea_proposal_id a \<and> ha_proposal_revision d = ep_revision p \<and>
      ha_proposal_payload_digest d = ep_payload_digest p \<and>
      ha_proposal_digest d = ep_proposal_digest p \<and>
      1 \<le> ea_attempt_number a \<and> ea_attempt_number a \<le> ec_maximum_attempts (ep_constraints p)"
  using started_approved [OF assms(3) steps_keep_ok [OF assms(2,1)]] by auto

theorem dispatch_is_approved_witness:
  "\<exists>d p. st_records (acme_backed (acme_leased ''w1'' 10 1 acme_row))
       (acme_colleague, RT_HUMAN_APPROVAL, ''a1'') = Some (DHumanApproval d) \<and>
     st_records (acme_backed (acme_leased ''w1'' 10 1 acme_row))
       (acme_colleague, RT_EFFECT_PROPOSAL, ''p1'') = Some (DEffectProposal p) \<and>
     ha_choice d = APPROVE \<and> pr_kind (ha_author d) = HUMAN \<and> 1 \<le> ec_maximum_attempts (ep_constraints p)"
  using dispatch_is_approved [OF acme_backed_ok acme_dispatched acme_backed_start]
  by (auto simp: acme_outbox_claim_def acme_attempt_def)

text \<open>C19. Every outbox row stays backed: whatever the store does, each row has its approving human
  decision, its proposal and its current attempt on record, the attempt's number and state are
  the row's, the number is within the limit, and no two rows share an attempt or an approval.\<close>

theorem outbox_rows_backed:
  assumes "outbox_ok st0" and "store_step\<^sup>*\<^sup>* st0 st"
  shows "(\<forall>r \<in> set (st_outbox st). row_approved st r \<and> row_attempted st r) \<and>
    distinct (map attempt_ident (st_outbox st)) \<and> distinct (map approval_ident (st_outbox st))"
  using steps_keep_ok [OF assms(2,1)] by (simp add: outbox_ok_def)

theorem outbox_rows_backed_witness:
  "row_attempted acme_dispatching ((acme_leased ''w1'' 10 1 acme_row)\<lparr>ox_state := OX_DISPATCHING,
     ox_updated_at := utc 11, ox_revision := 3\<rparr>)"
  using outbox_rows_backed [OF acme_backed_ok acme_dispatched_more]
  by (simp add: acme_dispatching_def)

text \<open>C21. A proposal is executed under one outbox row only: two rows of a namespace that name the
  same proposal are the same row.\<close>

theorem one_row_per_proposal:
  assumes "outbox_ok st0" and "store_step\<^sup>*\<^sup>* st0 st"
    and "q \<in> set (st_outbox st)" "r \<in> set (st_outbox st)"
    and "ox_namespace q = ox_namespace r" "ox_proposal_id q = ox_proposal_id r"
  shows "q = r"
proof -
  note ok = steps_keep_ok [OF assms(2,1)]
  with assms(3,4) have "row_approved st q" "row_approved st r"
    by (auto simp: outbox_ok_def)
  with assms(5,6) have "approval_ident q = approval_ident r"
    by (auto simp: row_approved_def approval_ident_def)
  with ok assms(3,4) show ?thesis
    by (auto simp: outbox_ok_def distinct_map inj_on_def)
qed

theorem one_row_per_proposal_witness:
  "(THE r. r \<in> set (st_outbox acme_dispatching) \<and> ox_proposal_id r = ''p1'') =
     (acme_leased ''w1'' 10 1 acme_row)\<lparr>ox_state := OX_DISPATCHING, ox_updated_at := utc 11,
       ox_revision := 3\<rparr>"
proof (rule the_equality)
  let ?r = "(acme_leased ''w1'' 10 1 acme_row)\<lparr>ox_state := OX_DISPATCHING,
    ox_updated_at := utc 11, ox_revision := 3\<rparr>"
  show r: "?r \<in> set (st_outbox acme_dispatching) \<and> ox_proposal_id ?r = ''p1''"
    by (simp add: acme_dispatching_def acme_leased_def acme_row_def)
  fix q assume "q \<in> set (st_outbox acme_dispatching) \<and> ox_proposal_id q = ''p1''"
  with one_row_per_proposal [OF acme_backed_ok acme_dispatched_more, of q ?r] r show "q = ?r"
    by (auto simp: acme_dispatching_def)
qed

text \<open>C6. The handlers of the store implement the row machine: a step of the store leaves every
  outbox row as it is or makes one move of the machine with it - the lease, dispatch, outcome,
  retry and reconciliation moves and no others - and adds at most one row, fresh.\<close>

theorem outbox_refines_machine:
  assumes "outbox_ok st" and "store_step st st'"
  shows "rows_refine (st_outbox st) (st_outbox st')"
  by (rule step_refines [OF assms(2,1)])

theorem outbox_refines_machine_witness:
  "rows_refine [acme_row] [acme_leased ''w1'' 10 1 acme_row]"
  using outbox_refines_machine [OF acme_backed_ok do_claim_outbox [OF acme_backed_claim]]
  by (simp add: acme_backed_def)

text \<open>A row whose effect has succeeded, for the witness below.\<close>

definition acme_settled_row :: outbox_row where
  "acme_settled_row = acme_row\<lparr>ox_state := OX_COMPLETED, ox_last_outcome := Some (LO_CHANNEL CO_SUCCEEDED),
     ox_fencing_token := 1, ox_revision := 4\<rparr>"

definition acme_settled :: store where
  "acme_settled = (acme_backed acme_settled_row)
     \<lparr>st_records := (st_records (acme_backed acme_settled_row))
        ((acme_colleague, RT_EFFECT_ATTEMPT, ''x1'') \<mapsto> DEffectAttempt (acme_attempt EA_SUCCEEDED 12 1))\<rparr>"

lemma acme_settled_ok: "outbox_ok acme_settled"
proof -
  have "sound acme_settled"
    unfolding sound_def
    by (auto simp: acme_settled_def acme_backed_def empty_store_def audit_key_def seed_audit_def
        audit_revisions_def record_key_def acme_proposal_def acme_proposal_fields_def
        acme_approval_def acme_attempt_def)
  moreover have "row_approved acme_settled acme_settled_row"
    by (simp add: row_approved_def acme_settled_def acme_settled_row_def acme_backed_def acme_row_def
        acme_approval_def acme_proposal_def acme_proposal_fields_def acme_principal_def)
  moreover have "row_attempted acme_settled acme_settled_row"
    by (simp add: row_attempted_def acme_settled_def acme_settled_row_def acme_backed_def
        acme_row_def acme_attempt_def)
  ultimately show ?thesis
    by (simp add: outbox_ok_def well_keyed_def)
      (simp add: acme_settled_def acme_backed_def empty_store_def)
qed

lemma acme_settled_claim:
  "claim_outbox acme_colleague ''w1'' (utc 10) (utc 20) acme_settled = Inr (None, acme_settled)"
  by (simp add: acme_outbox_defs acme_settled_def acme_settled_row_def acme_backed_def ok_simps)

text \<open>C20. Outcomes are final: a row that is completed or has failed for good, or whose
  reconciliation was stopped, is never touched again.\<close>

theorem finished_rows_final:
  assumes "outbox_ok st" and "store_step\<^sup>*\<^sup>* st st'" and "r \<in> set (st_outbox st)"
    and "finished r \<or> (ox_state r = OX_AMBIGUOUS \<and> reconciliation_stopped (ox_last_outcome r))"
  shows "r \<in> set (st_outbox st')"
proof -
  from later_row [OF assms(2,1,3)] obtain r' where r': "r' \<in> set (st_outbox st')"
      "outbox_move\<^sup>*\<^sup>* r r'" by blast
  have "\<not> outbox_move r x" for x
    using assms(4) no_move_from_finished by (auto elim: outbox_move.cases)
  with r'(2) have "r' = r" by (auto elim: converse_rtranclpE)
  with r'(1) show ?thesis by simp
qed

theorem finished_rows_final_witness:
  "acme_settled_row \<in> set (st_outbox acme_settled)"
proof (rule finished_rows_final [OF acme_settled_ok])
  show "store_step\<^sup>*\<^sup>* acme_settled acme_settled"
    by (rule r_into_rtranclp, rule do_claim_outbox, rule acme_settled_claim)
qed (simp_all add: acme_settled_def acme_settled_row_def acme_backed_def finished_def)

text \<open>C15. Reconciliation gives up: when every row starts without a reconciliation outcome (as the
  approval commit creates it), then in every later store the recorded number of reconciliation
  calls of a row is at most its maximum of attempts and at most eight, the call that reaches the
  limit stops the row, and a stopped row is not claimable for reconciliation any more.\<close>

theorem reconciliation_bounded:
  assumes "outbox_ok st" and "\<forall>r \<in> set (st_outbox st). ox_last_outcome r = None"
    and "store_step\<^sup>*\<^sup>* st st'" and "r \<in> set (st_outbox st')"
  shows "reconciliation_count (ox_last_outcome r) \<le> min (ox_maximum_attempts r) 8 \<and>
    (reconciliation_stopped (ox_last_outcome r) \<longleftrightarrow>
       reconciliation_count (ox_last_outcome r) = min (ox_maximum_attempts r) 8) \<and>
    (reconciliation_stopped (ox_last_outcome r) \<longrightarrow>
       \<not> outbox_claimable n now {OX_AMBIGUOUS, OX_AMBIGUOUS_CLAIMED} True r)"
proof -
  have counters: "\<forall>r \<in> set (st_outbox st). counter_ok r"
    using assms(2) by (simp add: counter_ok_def)
  have "counter_ok r"
    using steps_counters [OF assms(3,1) counters] assms(4) by blast
  moreover have "1 \<le> budget r"
    using steps_keep_ok [OF assms(3,1)] assms(4)
    by (auto simp: outbox_ok_def row_attempted_def budget_def RECONCILIATION_MAX_CALLS_def)
  moreover have "min (ox_maximum_attempts r) 8 = budget r"
    by (simp add: budget_def RECONCILIATION_MAX_CALLS_def)
  ultimately show ?thesis
    by (auto simp: counter_ok_def outbox_claimable_def split: option.splits last_outcome.splits)
qed

theorem reconciliation_bounded_witness:
  "reconciliation_count (ox_last_outcome (acme_leased ''w1'' 10 1 acme_row)) \<le> 3"
  using reconciliation_bounded [OF acme_backed_ok _ acme_dispatched, of "acme_leased ''w1'' 10 1 acme_row"]
  by (simp add: acme_backed_def acme_row_def acme_leased_def)

end
