(* ===== verification/AttemptCount.thy ===== *)
theory AttemptCount
  imports AttemptUse
begin

text \<open>
  The attempts of a proposal are numbered: each attempt on record belongs to the outbox row of its
  proposal, its number is at most the row's, and no two attempts of a proposal share a number.
  A proposal therefore never has more attempts than its maximum.
\<close>

section \<open>Attempts and rows, reduced to their numbers\<close>

definition attempt_facts :: "store \<Rightarrow> (Namespace \<times> string \<times> string \<times> int) set" where
  "attempt_facts st = {(n, i, q, k). \<exists>a. st_records st (n, RT_EFFECT_ATTEMPT, i)
     = Some (DEffectAttempt a) \<and> ea_proposal_id a = q \<and> ea_attempt_number a = k}"

definition row_fact :: "outbox_row \<Rightarrow> Namespace \<times> string \<times> string \<times> int" where
  "row_fact r = (ox_namespace r, ox_effect_attempt_id r, ox_proposal_id r, ox_attempt_number r)"

definition numbered ::
  "(Namespace \<times> string \<times> string \<times> int) set \<Rightarrow> (Namespace \<times> string \<times> string \<times> int) set \<Rightarrow> bool" where
  "numbered A R \<longleftrightarrow>
     (\<forall>n i q k. (n, i, q, k) \<in> A \<longrightarrow>
        (\<exists>j m. (n, j, q, m) \<in> R \<and> 1 \<le> k \<and> k \<le> m \<and> (k = m \<longrightarrow> i = j))) \<and>
     (\<forall>n i j q k. (n, i, q, k) \<in> A \<longrightarrow> (n, j, q, k) \<in> A \<longrightarrow> i = j)"

definition attempts_ok :: "store \<Rightarrow> bool" where
  "attempts_ok st \<longleftrightarrow> numbered (attempt_facts st) (row_fact ` set (st_outbox st))"

lemma attempt_row:
  assumes "attempts_ok st" and "(n, i, q, k) \<in> attempt_facts st"
  obtains r where "r \<in> set (st_outbox st)" "ox_namespace r = n" "ox_proposal_id r = q"
    "1 \<le> k" "k \<le> ox_attempt_number r"
proof -
  from assms obtain j m where m: "(n, j, q, m) \<in> row_fact ` set (st_outbox st)" "1 \<le> k" "k \<le> m"
    unfolding attempts_ok_def numbered_def by blast
  then obtain r where "r \<in> set (st_outbox st)" "row_fact r = (n, j, q, m)" by auto
  with m show thesis by (intro that [of r]) (auto simp: row_fact_def)
qed

lemma attempts_ok_empty: "attempts_ok empty_store"
  by (simp add: attempts_ok_def numbered_def attempt_facts_def empty_store_def)

lemma numbered_fresh:
  assumes "numbered A R" and "\<And>j k. (n, j, q, k) \<notin> A"
  shows "numbered (insert (n, i, q, 1) A) (insert (n, i, q, 1) R)"
  using assms unfolding numbered_def by (auto; blast)

lemma numbered_retry:
  assumes "numbered A R" and "\<And>j m'. (n, j, q, m') \<in> R \<Longrightarrow> m' = m" and "1 \<le> m"
    and "\<And>x. x \<in> R \<Longrightarrow> x \<noteq> (n, i, q, m) \<Longrightarrow> x \<in> R'" and "(n, i', q, m + 1) \<in> R'"
  shows "numbered (insert (n, i', q, m + 1) A) R'"
  unfolding numbered_def
proof (intro conjI allI impI)
  have below: "k \<le> m" if "(n, j, q, k) \<in> A" for j k
    using assms(1,2) that unfolding numbered_def by blast
  fix n0 i0 q0 k0
  {
    assume "(n0, i0, q0, k0) \<in> insert (n, i', q, m + 1) A"
    then consider "(n0, i0, q0, k0) = (n, i', q, m + 1)"
      | "(n0, i0, q0, k0) \<in> A" "(n0, q0) = (n, q)" | "(n0, i0, q0, k0) \<in> A" "(n0, q0) \<noteq> (n, q)"
      by auto
    then show "\<exists>j m. (n0, j, q0, m) \<in> R' \<and> 1 \<le> k0 \<and> k0 \<le> m \<and> (k0 = m \<longrightarrow> i0 = j)"
    proof cases
      case 1
      with assms(3,5) show ?thesis by auto
    next
      case 2
      with below [of i0 k0] assms(1) have "k0 \<le> m" "1 \<le> k0" unfolding numbered_def by auto
      with 2 assms(5) show ?thesis by (intro exI [of _ i'] exI [of _ "m + 1"]) auto
    next
      case 3
      with assms(1) obtain j m' where "(n0, j, q0, m') \<in> R" "1 \<le> k0" "k0 \<le> m'" "k0 = m' \<longrightarrow> i0 = j"
        unfolding numbered_def by blast
      with 3 assms(4) [of "(n0, j, q0, m')"] show ?thesis by blast
    qed
  next
    fix j0 assume "(n0, i0, q0, k0) \<in> insert (n, i', q, m + 1) A" "(n0, j0, q0, k0) \<in> insert (n, i', q, m + 1) A"
    with below assms(1) show "i0 = j0" unfolding numbered_def by (auto dest: below)
  }
qed

section \<open>Operations\<close>

definition attempts_same :: "store \<Rightarrow> store \<Rightarrow> bool" where
  "attempts_same st st' \<longleftrightarrow> attempt_facts st' = attempt_facts st"

lemma same_refl [simp]: "attempts_same st st"
  by (simp add: attempts_same_def)

lemma attempt_facts_rows [simp]:
  "attempt_facts (st\<lparr>st_triggers := a\<rparr>) = attempt_facts st"
  "attempt_facts (st\<lparr>st_timer_triggers := b\<rparr>) = attempt_facts st"
  "attempt_facts (st\<lparr>st_agenda := c\<rparr>) = attempt_facts st"
  "attempt_facts (st\<lparr>st_outbox := d\<rparr>) = attempt_facts st"
  "attempt_facts (st\<lparr>st_ledger := l\<rparr>) = attempt_facts st"
  by (simp_all add: attempt_facts_def)

lemma attempts_same_rows [simp]:
  "attempts_same st (st'\<lparr>st_triggers := a\<rparr>) = attempts_same st st'"
  "attempts_same st (st'\<lparr>st_timer_triggers := b\<rparr>) = attempts_same st st'"
  "attempts_same st (st'\<lparr>st_agenda := c\<rparr>) = attempts_same st st'"
  "attempts_same (st\<lparr>st_agenda := c\<rparr>) st' = attempts_same st st'"
  by (simp_all add: attempts_same_def)

lemma writes_same:
  "writes b rec st st' \<Longrightarrow> fst (record_identity rec) \<noteq> RT_EFFECT_ATTEMPT \<Longrightarrow> attempts_same st st'"
  by (auto simp: attempts_same_def attempt_facts_def writes_def record_key_def)

lemma same_insert: "insert_record rec st1 = Inr st2 \<Longrightarrow> attempts_same st st1 \<Longrightarrow>
    fst (record_identity rec) \<noteq> RT_EFFECT_ATTEMPT \<Longrightarrow> attempts_same st st2"
  and same_insert_as: "insert_record_as ac c cs t rec st1 = Inr st2 \<Longrightarrow> attempts_same st st1 \<Longrightarrow>
    fst (record_identity rec) \<noteq> RT_EFFECT_ATTEMPT \<Longrightarrow> attempts_same st st2"
  and same_update: "update_record v rec st1 = Inr st2 \<Longrightarrow> attempts_same st st1 \<Longrightarrow>
    fst (record_identity rec) \<noteq> RT_EFFECT_ATTEMPT \<Longrightarrow> attempts_same st st2"
  and same_ledger: "insert_ledger n kd k' t' i st1 = Inr st2 \<Longrightarrow> attempts_same st st1 \<Longrightarrow>
    attempts_same st st2"
  using writes_same unfolding attempts_same_def
  by (metis insert_record_writes, metis insert_record_as_writes, metis update_record_writes)
    (auto simp: insert_ledger_result)

lemmas same_chain = same_insert same_update same_ledger

lemma principals_same: "insert_principals n a c t ps st1 = Inr st2 \<Longrightarrow> attempts_same st st1 \<Longrightarrow>
    attempts_same st st2"
proof (induction ps arbitrary: st1)
  case (Cons p ps)
  then obtain st' where "insert_record_as (Some a) (Some c) None (Some t) (DPrincipal p) st1 = Inr st'"
      "insert_principals n a c t ps st' = Inr st2"
    by (auto simp: bindR_eq_Inr split: if_splits)
  with Cons show ?case by (metis same_insert_as record_identity.simps(1) fst_conv RecordType.distinct)
qed simp

lemma same_ok:
  "attempts_ok st \<Longrightarrow> attempts_same st st' \<Longrightarrow> map row_fact (st_outbox st') = map row_fact (st_outbox st)
     \<Longrightarrow> attempts_ok st'"
  by (simp add: attempts_ok_def attempts_same_def) (metis list.set_map)

lemma bootstrap_same: "bootstrap n ps pf md fw a c t st = Inr (x, st') \<Longrightarrow> attempts_same st st'"
  by (auto simp: bootstrap_def outcome_simps wrong_type_def same_refl
      split: option.splits domain_record.splits if_splits
      elim!: same_chain same_insert_as principals_same)

lemma ingest_event_same: "ingest_event e key tid st = Inr (y, st') \<Longrightarrow> attempts_same st st'"
  by (auto simp: ingest_event_def outcome_simps split: option.splits if_splits elim!: same_chain)

lemma ingest_timer_same: "ingest_timer o' key tid st = Inr (z, st') \<Longrightarrow> attempts_same st st'"
  by (auto simp: ingest_timer_def outcome_simps split: option.splits if_splits elim!: same_chain)

lemma complete_trigger_same:
  "complete_trigger claim st1 = Inr st2 \<Longrightarrow> attempts_same st st2 = attempts_same st st1"
  using complete_trigger_effect(2) by (simp add: attempts_same_def attempt_facts_def)

lemma materialize_same:
  "materialize_agenda claim wid aid actor t st = Inr (wa, st') \<Longrightarrow> attempts_same st st'"
  by (auto simp: materialize_agenda_def outcome_simps complete_trigger_same
      split: option.splits elim!: same_chain)

lemma claim_agenda_same: "claim_agenda n owner now lease st = Inr (ac, st') \<Longrightarrow> attempts_same st st'"
  by (auto simp: claim_agenda_def outcome_simps split: option.splits elim!: same_chain)

lemma release_agenda_same: "release_agenda gl st = Inr (u, st') \<Longrightarrow> attempts_same st st'"
  by (auto simp: release_agenda_def outcome_simps split: option.splits elim!: same_chain)

lemma commit_decision_same:
  "commit_semantic_decision gl sem st = Inr (v, st') \<Longrightarrow> attempts_same st st'"
  by (auto simp: commit_semantic_decision_def outcome_simps split: option.splits elim!: same_chain)

text \<open>A row keeps its numbers under a claim or a start.\<close>

lemma claim_row_facts:
  assumes "claim_outbox_state src tgt ex n owner now lease st = Inr (x, st')"
  shows "map row_fact (st_outbox st') = map row_fact (st_outbox st)"
  using assms
  by (auto simp: claim_outbox_state_def outcome_simps row_fact_def
      intro!: update_where_map split: option.splits)

lemma update_attempt_facts:
  assumes "st_records st (n, RT_EFFECT_ATTEMPT, i) = Some (DEffectAttempt a)"
    and "st_records st' = (st_records st)((n, RT_EFFECT_ATTEMPT, i) \<mapsto> DEffectAttempt b)"
    and "ea_proposal_id b = ea_proposal_id a" "ea_attempt_number b = ea_attempt_number a"
  shows "attempt_facts st' = attempt_facts st"
proof -
  have "(\<exists>c. st_records st' (m, RT_EFFECT_ATTEMPT, j) = Some (DEffectAttempt c) \<and>
      ea_proposal_id c = q \<and> ea_attempt_number c = k) \<longleftrightarrow>
    (\<exists>c. st_records st (m, RT_EFFECT_ATTEMPT, j) = Some (DEffectAttempt c) \<and>
      ea_proposal_id c = q \<and> ea_attempt_number c = k)" for m j q k
    using assms by (cases "(m, j) = (n, i)") auto
  then show ?thesis by (simp add: attempt_facts_def)
qed

lemma insert_attempt_facts:
  assumes "st_records st (n, RT_EFFECT_ATTEMPT, i) = None"
    and "st_records st' = (st_records st)((n, RT_EFFECT_ATTEMPT, i) \<mapsto> DEffectAttempt a)"
  shows "attempt_facts st' =
    insert (n, i, ea_proposal_id a, ea_attempt_number a) (attempt_facts st)"
  using assms by (auto simp: attempt_facts_def split: if_splits)

lemma proposal_row_unique:
  assumes "outbox_ok st" "q \<in> set (st_outbox st)" "r \<in> set (st_outbox st)"
    and "ox_namespace q = ox_namespace r" "ox_proposal_id q = ox_proposal_id r"
  shows "q = r"
proof -
  from assms(1-3) have "row_approved st q" "row_approved st r" by (auto simp: outbox_ok_def)
  with assms(4,5) have "approval_ident q = approval_ident r"
    by (auto simp: row_approved_def approval_ident_def)
  with assms(1-3) show ?thesis by (auto simp: outbox_ok_def distinct_map inj_on_def)
qed

lemma mark_started_counts:
  assumes "mark_dispatch_started c t st = Inr (x, st')" and "outbox_ok st" and "attempts_ok st"
  shows "attempts_ok st'"
proof -
  have sound: "sound st" using assms(2) by (simp add: outbox_ok_def well_keyed_def)
  from assms(1) obtain a st1 where c:
      "get_effect_attempt st (oc_namespace c) (oc_effect_attempt_id c) = Inr a"
      "EffectAttempt_init (a\<lparr>ea_state := EA_STARTED, ea_occurred_at := t,
         ea_revision := ea_revision a + 1\<rparr>) = Inr x"
      "update_record (ea_revision a) (DEffectAttempt x) st = Inr st1"
      "st' = st1\<lparr>st_outbox := update_where (claimed_row c) (\<lambda>r. r\<lparr>ox_state := OX_DISPATCHING,
        ox_updated_at := t, ox_revision := ox_revision r + 1\<rparr>) (st_outbox st1)\<rparr>"
    by (auto simp: mark_dispatch_started_def outcome_simps)
  have rec: "st_records st (oc_namespace c, RT_EFFECT_ATTEMPT, oc_effect_attempt_id c)
      = Some (DEffectAttempt a)"
    using c(1) by (simp add: get_effect_attempt_iff)
  from update_attempt [OF sound rec, where s = EA_STARTED and actor = "ea_actor a" and t = t
      and v = "ea_revision a + 1" and b = x] c(2,3)
  have "attempt_facts st1 = attempt_facts st" by (intro update_attempt_facts [OF rec, of _ x]) auto
  moreover have "map row_fact (st_outbox st') = map row_fact (st_outbox st)"
    using c(3,4) by (auto simp: rows_of_eq row_fact_def intro!: update_where_map dest!: row_dests)
  ultimately show ?thesis
    using assms(3) by (auto intro: same_ok simp: attempts_same_def c(4))
qed

lemma finish_counts:
  assumes ok: "outbox_ok st" and counted: "attempts_ok st"
    and req: "require_outbox_claim c states at st = Inr row"
    and att: "get_effect_attempt st (oc_namespace c) (oc_effect_attempt_id c) = Inr a"
    and comp: "complete_attempt a s rs pr dg j (oc_namespace c) actor t st = Inr (result, st2)"
    and retry: "retry_step nid absent row a os actor t st2 cur fin st3"
    and st': "st' = st3\<lparr>st_outbox := update_where (claimed_row c) f (st_outbox st3)\<rparr>"
    and f: "\<And>r. ox_namespace (f r) = ox_namespace r" "\<And>r. ox_proposal_id (f r) = ox_proposal_id r"
      "\<And>r. ox_attempt_number (f r) = ea_attempt_number cur"
      "\<And>r. ox_effect_attempt_id (f r) = ea_effect_attempt_id cur"
  shows "attempts_ok st'"
proof -
  note row = require_outbox_claim_row [OF req]
  have sound: "sound st" and wk: "well_keyed st" using ok by (simp_all add: outbox_ok_def well_keyed_def)
  have ra: "st_records st (oc_namespace c, RT_EFFECT_ATTEMPT, oc_effect_attempt_id c)
      = Some (DEffectAttempt a)"
    using att by (simp add: get_effect_attempt_iff)
  have key: "ea_namespace a = oc_namespace c" "ea_effect_attempt_id a = oc_effect_attempt_id c"
    using sound_keyed [OF sound ra] by (simp_all add: record_key_def)
  have "row_attempted st row" using ok row(1) by (simp add: outbox_ok_def)
  with ra row have a: "ea_attempt_number a = ox_attempt_number row" "1 \<le> ox_attempt_number row"
      "ea_proposal_id a = ox_proposal_id row"
    by (auto simp: row_attempted_def)
  from complete_attempt_records [OF sound ra comp] obtain b where
    b: "st_records st2 (oc_namespace c, RT_EFFECT_ATTEMPT, oc_effect_attempt_id c)
        = Some (DEffectAttempt b)" "ea_attempt_number b = ea_attempt_number a"
      "ea_proposal_id b = ea_proposal_id a"
    and others: "\<And>m k. (m, k) \<noteq> (oc_namespace c, oc_effect_attempt_id c) \<Longrightarrow>
      st_records st2 (m, RT_EFFECT_ATTEMPT, k) = st_records st (m, RT_EFFECT_ATTEMPT, k)"
    by auto
  have facts2: "attempt_facts st2 = attempt_facts st"
  proof -
    have "(\<exists>d. st_records st2 (m, RT_EFFECT_ATTEMPT, k) = Some (DEffectAttempt d) \<and>
        ea_proposal_id d = q \<and> ea_attempt_number d = v) \<longleftrightarrow>
      (\<exists>d. st_records st (m, RT_EFFECT_ATTEMPT, k) = Some (DEffectAttempt d) \<and>
        ea_proposal_id d = q \<and> ea_attempt_number d = v)" for m k q v
      using b ra others [of m k] by (cases "(m, k) = (oc_namespace c, oc_effect_attempt_id c)") auto
    then show ?thesis by (simp add: attempt_facts_def)
  qed
  have rows3: "st_outbox st3 = st_outbox st"
    using complete_attempt_rows [OF comp] retry_step_rows [OF retry] by (simp add: rows_of_eq)
  have upd: "st_outbox st' = update_where (claimed_row c) f (st_outbox st)"
    by (simp add: st' rows3)
  have only: "r = row" if "r \<in> set (st_outbox st)" "claimed_row c r" for r
    by (rule only_claimed_row [OF wk row(1,4) that])
  from retry show ?thesis
    unfolding retry_step_def
  proof (elim disjE exE conjE)
    assume "cur = a" "st3 = st2"
    then have "map row_fact (st_outbox st') = map row_fact (st_outbox st)"
      unfolding upd using only f key a row(5) by (auto simp: row_fact_def intro!: update_where_map)
    moreover have "attempts_same st st'" using facts2 \<open>st3 = st2\<close> by (simp add: attempts_same_def st')
    ultimately show ?thesis using counted by (blast intro: same_ok)
  next
    fix i assume "create_retry_attempt a i actor t st2 = Inr (cur, st3)"
    then have ins: "insert_record (DEffectAttempt cur) st2 = Inr st3"
      and cur: "ea_namespace cur = oc_namespace c" "ea_proposal_id cur = ea_proposal_id a"
        "ea_attempt_number cur = ea_attempt_number a + 1"
      by (auto simp: create_retry_result key dest!: EffectAttempt_init_ok)
    let ?n = "oc_namespace c" and ?q = "ox_proposal_id row" and ?m = "ox_attempt_number row"
      and ?i = "ea_effect_attempt_id cur"
    from insert_record_writes [OF ins] have w: "st_records st2 (?n, RT_EFFECT_ATTEMPT, ?i) = None"
        "st_records st3 = (st_records st2)((?n, RT_EFFECT_ATTEMPT, ?i) \<mapsto> DEffectAttempt cur)"
      by (auto simp: writes_def record_key_def cur)
    have facts: "attempt_facts st' = insert (?n, ?i, ?q, ?m + 1) (attempt_facts st)"
      using insert_attempt_facts [OF w] cur a by (simp add: facts2 st')
    have img: "row_fact ` set (st_outbox st') =
        (\<lambda>r. row_fact (if claimed_row c r then f r else r)) ` set (st_outbox st)"
      unfolding upd set_update_where image_image ..
    have fact: "row_fact (f row) = (?n, ?i, ?q, ?m + 1)"
      using f cur a row(6) by (simp add: row_fact_def)
    have "numbered (insert (?n, ?i, ?q, ?m + 1) (attempt_facts st)) (row_fact ` set (st_outbox st'))"
    proof (rule numbered_retry)
      show "numbered (attempt_facts st) (row_fact ` set (st_outbox st))"
        using counted by (simp add: attempts_ok_def)
      show "m' = ?m" if "(?n, j', ?q, m') \<in> row_fact ` set (st_outbox st)" for j' m'
        using that proposal_row_unique [OF ok _ row(1)] row(6) by (force simp: row_fact_def)
      show "1 \<le> ?m" by (rule a(2))
      show "x \<in> row_fact ` set (st_outbox st')"
        if "x \<in> row_fact ` set (st_outbox st)" "x \<noteq> (?n, oc_effect_attempt_id c, ?q, ?m)" for x
      proof -
        from that(1) obtain r where r: "r \<in> set (st_outbox st)" "x = row_fact r" by auto
        with that(2) row(5,6) have "r \<noteq> row" by (auto simp: row_fact_def)
        with r only show ?thesis unfolding img by (intro image_eqI [of _ _ r]) auto
      qed
      show "(?n, ?i, ?q, ?m + 1) \<in> row_fact ` set (st_outbox st')"
        unfolding img fact [symmetric] using row(1,4) by (intro image_eqI [of _ _ row]) auto
    qed
    with facts show ?thesis by (simp add: attempts_ok_def)
  qed
qed

lemma finalize_counts:
  assumes "finalize_dispatch_in_transaction c oc i actor t nid req st = Inr (x, st')"
    and "outbox_ok st" and "attempts_ok st"
  shows "attempts_ok st'"
  using assms(1)
  by (rule finalize_cases) (erule finish_counts [OF assms(2,3)], assumption+, simp_all)

lemma reconcile_counts:
  assumes "reconcile_ambiguous c oc i actor t nid nrt st = Inr (x, st')"
    and "outbox_ok st" and "attempts_ok st"
  shows "attempts_ok st'"
  using assms(1)
proof (rule reconcile_cases)
  fix row assume u: "reconcile_unknown c row t nrt st = Inr (x, st')"
  then have "map row_fact (st_outbox st') = map row_fact (st_outbox st)"
    by (auto simp: reconcile_unknown_def outcome_simps row_fact_def intro!: update_where_map)
  with reconcile_unknown_effect(2) [OF u] assms(3) show ?thesis
    by (auto intro: same_ok simp: attempts_same_def attempt_facts_def)
next
  fix row a result st2 cur fin st3 final
  assume c: "require_outbox_claim c {OX_AMBIGUOUS_CLAIMED} (Some t) st = Inr row"
      "get_effect_attempt st (oc_namespace c) (oc_effect_attempt_id c) = Inr a"
      "complete_attempt a (if ro_kind oc = RK_CONFIRMED_APPLIED then EA_SUCCEEDED else EA_FAILED)
         (if ro_kind oc = RK_CONFIRMED_APPLIED then AR_SUCCEEDED else AR_NOT_EXECUTED)
         (ro_safe_projection oc) (ro_result_digest oc) i (oc_namespace c) actor t st
         = Inr (result, st2)"
      "retry_step nid (ro_kind oc = RK_CONFIRMED_ABSENT) row a final actor t st2 cur fin st3"
      "st' = st3\<lparr>st_outbox := update_where (claimed_row c)
        (finish_row fin cur t (LO_RECONCILED (ro_kind oc))) (st_outbox st3)\<rparr>"
  show ?thesis
    by (rule finish_counts [OF assms(2,3) c(1-5)]) simp_all
qed

lemma approval_counts:
  assumes ok: "outbox_ok st" and counted: "attempts_ok st"
    and written: "approval_written n p d aid oid actor t st att st'"
    and p: "get_proposal st n (ha_proposal_id d) = Inr p" and n: "n = ha_namespace d"
    and unbound: "ledger_lookup st n LK_PROPOSAL_APPROVAL (proposal_binding p) = None"
  shows "attempts_ok st'"
proof -
  from written obtain st1 st2 st3 where w: "insert_record (DHumanApproval d) st = Inr st1"
      "insert_ledger n LK_APPROVAL (ha_idempotency_key d) RT_HUMAN_APPROVAL
         (ha_approval_decision_id d) st1 = Inr st2"
      "insert_ledger n LK_PROPOSAL_APPROVAL (proposal_binding p) RT_HUMAN_APPROVAL
         (ha_approval_decision_id d) st2 = Inr st3"
    unfolding approval_written_def by blast
  then have same3: "attempts_same st st3" by (auto elim!: same_chain)
  have rows3: "st_outbox st3 = st_outbox st" using w by (auto simp: rows_of_eq dest!: row_dests)
  from approval_written_outbox [OF written] show ?thesis
  proof (elim disjE exE conjE)
    assume "att = None" and rows: "st_outbox st' = st_outbox st"
    with written w have "st' = st3" by (auto simp: approval_written_def)
    with same3 rows counted show ?thesis by (auto intro: same_ok)
  next
    fix a assume a: "att = Some a"
      and rows: "st_outbox st' = st_outbox st @ [first_outbox_row n p d a oid actor t]"
    from written w a obtain st4 st5 where v: "EffectAttempt_init (first_attempt n p d aid actor t) = Inr a"
        "insert_record (DEffectAttempt a) st3 = Inr st4"
        "insert_outbox (first_outbox_row n p d a oid actor t) st4 = Inr st5"
        "insert_ledger n LK_EFFECT (ec_idempotency_key (ep_constraints p)) RT_EFFECT_ATTEMPT
          (ea_effect_attempt_id a) st5 = Inr st'"
      unfolding approval_written_def by auto
    have fa: "a = first_attempt n p d aid actor t" by (rule EffectAttempt_init_ok [OF v(1)])
    from insert_record_writes [OF v(2)] have "st_records st3 (n, RT_EFFECT_ATTEMPT, aid) = None"
        "st_records st4 = (st_records st3)((n, RT_EFFECT_ATTEMPT, aid) \<mapsto> DEffectAttempt a)"
      by (auto simp: writes_def record_key_def fa first_attempt_def)
    from insert_attempt_facts [OF this] same3 v(3,4)
    have facts: "attempt_facts st' = insert (n, aid, ep_proposal_id p, 1) (attempt_facts st)"
      by (auto simp: attempts_same_def insert_outbox_result insert_ledger_result fa first_attempt_def)
    have row: "row_fact (first_outbox_row n p d a oid actor t) = (n, aid, ep_proposal_id p, 1)"
      by (simp add: row_fact_def first_outbox_row_def fa first_attempt_def)
    have recd: "st_records st (n, RT_EFFECT_PROPOSAL, ha_proposal_id d) = Some (DEffectProposal p)"
      using p by (simp add: get_proposal_iff)
    have key: "ep_proposal_id p = ha_proposal_id d"
      using sound_keyed [OF _ recd] ok by (simp add: record_key_def outbox_ok_def well_keyed_def)
    have none: "(n, j, ep_proposal_id p, k) \<notin> attempt_facts st" for j k
    proof
      assume "(n, j, ep_proposal_id p, k) \<in> attempt_facts st"
      from attempt_row [OF counted this] obtain r where r: "r \<in> set (st_outbox st)"
          "ox_namespace r = n" "ox_proposal_id r = ep_proposal_id p" by blast
      with ok have "row_approved st r" by (simp add: outbox_ok_def)
      with r recd key unbound show False by (auto simp: row_approved_def ledger_lookup_def)
    qed
    from counted numbered_fresh [OF _ none] show ?thesis
      unfolding attempts_ok_def facts by (simp add: rows row)
  qed
qed

section \<open>Every step\<close>

lemma step_counts:
  assumes "store_step st st'" and ok: "outbox_ok st" and counted: "attempts_ok st"
  shows "attempts_ok st'"
proof -
  note quiet = same_ok [OF counted]
  from assms(1) show ?thesis
  proof cases
    case (do_bootstrap n ps pf md fw a c t x)
    then show ?thesis
      using bootstrap_effect(2) [OF do_bootstrap] by (auto intro!: quiet bootstrap_same simp: rows_of_eq)
  next
    case (do_ingest_event e key tid y)
    then show ?thesis using ingest_event_rows [OF do_ingest_event] by (auto intro!: quiet ingest_event_same)
  next
    case (do_ingest_timer o' key tid z)
    then show ?thesis using ingest_timer_rows [OF do_ingest_timer] by (auto intro!: quiet ingest_timer_same)
  next
    case (do_claim_trigger n owner now lease tc)
    then show ?thesis
      using claim_trigger_effect(2,4) [OF do_claim_trigger]
      by (auto intro!: quiet simp: attempts_same_def attempt_facts_def)
  next
    case (do_materialize claim wid aid actor t wa)
    then show ?thesis using materialize_outbox [OF do_materialize] by (auto intro!: quiet materialize_same)
  next
    case (do_claim_agenda n owner now lease ac)
    then show ?thesis using claim_agenda_rows [OF do_claim_agenda] by (auto intro!: quiet claim_agenda_same)
  next
    case (do_release_agenda gl u)
    then show ?thesis
      using release_agenda_rows [OF do_release_agenda] by (auto intro!: quiet release_agenda_same)
  next
    case (do_commit_decision gl sem u)
    then show ?thesis
      using commit_decision_rows [OF do_commit_decision] by (auto intro!: quiet commit_decision_same)
  next
    case (do_commit_approval n mid v d aid oid actor t w)
    then show ?thesis
      by (auto elim!: commit_approval_cases intro: approval_counts [OF ok counted] counted)
  next
    case (do_claim_outbox n owner now lease ox)
    then show ?thesis
      unfolding claim_outbox_def
      by (auto intro!: quiet claim_row_facts dest: claim_outbox_effect(2)
          simp: attempts_same_def attempt_facts_def)
  next
    case (do_claim_ambiguous n owner now lease ox)
    then show ?thesis
      unfolding claim_ambiguous_def
      by (auto intro!: quiet claim_row_facts dest: claim_outbox_effect(2)
          simp: attempts_same_def attempt_facts_def)
  next
    case (do_mark_started oc t att)
    then show ?thesis by (rule mark_started_counts [OF _ ok counted])
  next
    case (do_finalize oc out i actor t nid res)
    then show ?thesis unfolding finalize_dispatch_def by (rule finalize_counts [OF _ ok counted])
  next
    case (do_recover n now actor rid k)
    then show ?thesis by (rule recover_cases) (use ok counted in \<open>auto intro: finalize_counts\<close>)
  next
    case (do_reconcile oc rec i actor t nid nrt ores)
    then show ?thesis by (rule reconcile_counts [OF _ ok counted])
  qed
qed

lemma steps_count: "store_step\<^sup>*\<^sup>* st st' \<Longrightarrow> outbox_ok st \<Longrightarrow> attempts_ok st \<Longrightarrow> attempts_ok st'"
proof (induction rule: rtranclp_induct)
  case (step s1 s2)
  then show ?case using step_counts [OF step(2) steps_keep_ok [OF step(1,4)]] by blast
qed auto

text \<open>Attempts of one proposal are at most as many as it allows.\<close>

lemma attempts_bounded:
  assumes ok: "outbox_ok st" and counted: "attempts_ok st" and "finite I"
    and p: "st_records st (n, RT_EFFECT_PROPOSAL, q) = Some (DEffectProposal p)"
    and I: "\<And>i. i \<in> I \<Longrightarrow> \<exists>k. (n, i, q, k) \<in> attempt_facts st"
  shows "int (card I) \<le> max 0 (ec_maximum_attempts (ep_constraints p))"
proof -
  define num where "num i = (SOME k. (n, i, q, k) \<in> attempt_facts st)" for i
  have num: "(n, i, q, num i) \<in> attempt_facts st" if "i \<in> I" for i
    unfolding num_def using I [OF that] by (rule someI_ex)
  have "inj_on num I"
    using num counted unfolding attempts_ok_def numbered_def inj_on_def by metis
  moreover have "num ` I \<subseteq> {1..ec_maximum_attempts (ep_constraints p)}"
  proof
    fix k assume "k \<in> num ` I"
    then obtain i where "i \<in> I" "k = num i" by blast
    with num have "(n, i, q, k) \<in> attempt_facts st" by simp
    from attempt_row [OF counted this] obtain r where r: "r \<in> set (st_outbox st)"
        "ox_namespace r = n" "ox_proposal_id r = q" "1 \<le> k" "k \<le> ox_attempt_number r" by blast
    with ok have "row_approved st r" "row_attempted st r" by (simp_all add: outbox_ok_def)
    with r p show "k \<in> {1..ec_maximum_attempts (ep_constraints p)}"
      by (auto simp: row_approved_def row_attempted_def)
  qed
  ultimately have "card I \<le> card {1..ec_maximum_attempts (ep_constraints p)}"
    by (metis card_inj_on_le finite_atLeastAtMost_int)
  then show ?thesis by simp
qed

end
