(* ===== verification/ServiceRuns.thy ===== *)
theory ServiceRuns
  imports ServiceFacts OutboxFacts AttemptCount
begin

text \<open>
  Histories of service calls, by any services over any ports that keep the law, and what
  holds in all of them.
\<close>

section \<open>Histories\<close>

inductive service_call :: "'z world_scheme \<Rightarrow> 'z world_scheme \<Rightarrow> bool" where
  by_initialize: "service_call w (snd (initialize p cx ps pf md fw c w))"
| by_event: "service_call w (snd (submit_event p cx er key w))"
| by_timer: "service_call w (snd (schedule_timer p actor n tr w))"
| by_materialize: "service_call w (snd (materialize_next p ws n w))"
| by_wake: "keeping_ports p \<Longrightarrow> service_call w (snd (run_wake p ws n w))"
| by_approval: "service_call w (snd (decide_approval p apr cx m v ar w))"
| by_dispatch: "keeping_ports p \<Longrightarrow> service_call w (snd (dispatch_once p ds n w))"
| by_recovery: "service_call w (snd (recover_expired p ds n w))"
| by_reconciliation: "keeping_ports p \<Longrightarrow> service_call w (snd (reconcile_once p ds n w))"
| by_worker: "keeping_ports p \<Longrightarrow> service_call w (snd (run_once p ws ds n w))"

lemma call_keeps: "service_call w w' \<Longrightarrow> keeps w w'"
proof (induction rule: service_call.induct)
  case (by_initialize w p cx ps pf md fw c)
  then show ?case using initialize_keeps unfolding obeys_def by blast
next
  case (by_event w p cx er key)
  then show ?case using submit_event_keeps unfolding obeys_def by blast
next
  case (by_timer w p actor n tr)
  then show ?case using schedule_timer_keeps unfolding obeys_def by blast
next
  case (by_materialize w p ws n)
  then show ?case using materialize_next_keeps unfolding obeys_def by blast
next
  case (by_wake p w ws n)
  then show ?case using run_wake_keeps unfolding obeys_def by blast
next
  case (by_approval w p apr cx m v ar)
  then show ?case using decide_approval_keeps unfolding obeys_def by blast
next
  case (by_dispatch p w ds n)
  then show ?case using dispatch_once_keeps unfolding obeys_def by blast
next
  case (by_recovery w p ds n)
  then show ?case using recover_expired_keeps unfolding obeys_def by blast
next
  case (by_reconciliation p w ds n)
  then show ?case using reconcile_once_keeps unfolding obeys_def by blast
next
  case (by_worker p w ws ds n)
  then show ?case using run_once_keeps unfolding obeys_def by blast
qed

lemma calls_keep: "service_call\<^sup>*\<^sup>* w w' \<Longrightarrow> keeps w w'"
  by (induction rule: rtranclp_induct)
    (auto intro: keeping.law_refl keeping.law_trans [OF _ call_keeps])

text \<open>The ports that are in the repository keep the law.\<close>

lemma det_ports_keep: "keeping_ports (det_ports clock identifiers checkpoint)"
proof -
  have same: "keeps w (f w)" if "wd_store (f w) = wd_store w" "wd_applied (f w) = wd_applied w"
    for f and w :: det_world
    using that by (simp add: keeps_def world_ok_def)
  show ?thesis
    by (auto simp: keeping_ports_def det_ports_def obeys_def det_decide_def det_apply_def
        det_reconcile_def split: prod.splits intro!: same)
qed

section \<open>A concrete dispatch\<close>

definition acme_ready :: store where
  "acme_ready = (acme_backed acme_row)
     \<lparr>st_records := (st_records (acme_backed acme_row))
        ((acme_colleague, RT_MANDATE, ''mandate'') \<mapsto> DMandate acme_mandate,
         (pr_namespace (acme_principal ''root'' HUMAN [TENANT_ADMIN]), RT_PRINCIPAL, ''root'')
            \<mapsto> DPrincipal (acme_principal ''root'' HUMAN [TENANT_ADMIN])),
      st_audit := st_audit (acme_backed acme_row) @
        [seed_audit RT_MANDATE ''mandate'',
         (seed_audit RT_PRINCIPAL ''root'')
            \<lparr>au_namespace := pr_namespace (acme_principal ''root'' HUMAN [TENANT_ADMIN])\<rparr>]\<rparr>"

lemma acme_ready_ok: "outbox_ok acme_ready"
proof -
  let ?root = "acme_principal ''root'' HUMAN [TENANT_ADMIN]"
  have "sound acme_ready"
  proof (rule seeded_sound)
    show "st_records acme_ready = map_of
      [((pr_namespace ?root, RT_PRINCIPAL, ''root''), DPrincipal ?root),
       ((acme_colleague, RT_MANDATE, ''mandate''), DMandate acme_mandate),
       ((acme_colleague, RT_EFFECT_ATTEMPT, ''x1''), DEffectAttempt (acme_attempt EA_PLANNED 0 1)),
       ((acme_colleague, RT_HUMAN_APPROVAL, ''a1''), DHumanApproval acme_approval),
       ((acme_colleague, RT_EFFECT_PROPOSAL, ''p1''), DEffectProposal acme_proposal)]"
      by (simp add: acme_ready_def acme_backed_def empty_store_def)
  qed (auto simp: acme_ready_def acme_backed_def audit_key_def seed_audit_def record_key_def
      acme_proposal_def acme_proposal_fields_def acme_approval_def acme_attempt_def
      acme_mandate_def acme_defs)
  moreover have "row_approved acme_ready acme_row" "row_attempted acme_ready acme_row"
    by (simp_all add: row_approved_def row_attempted_def acme_ready_def acme_backed_def acme_row_def
        acme_approval_def acme_proposal_def acme_proposal_fields_def acme_principal_def acme_attempt_def)
  ultimately show ?thesis
    by (simp add: outbox_ok_def well_keyed_def)
      (simp add: acme_ready_def acme_backed_def empty_store_def)
qed

definition acme_dispatcher :: DispatchService where
  "acme_dispatcher = \<lparr>ds_result_actor = acme_principal ''svc'' SERVICE [], ds_owner_id = ''w1'',
     ds_mandate_id = ''mandate'', ds_lease_duration = 10, ds_reconciliation_backoff = 0\<rparr>"

text \<open>The deterministic ports at a fixed time, interrupted when the channel has returned.\<close>

definition acme_ports :: "\<lparr>dw_channel :: ReferenceChannel, dw_decide_count :: nat\<rparr> ports" where
  "acme_ports = det_ports \<lparr>fc_value = utc 10\<rparr> \<lparr>sh_namespace = ''p3''\<rparr>
     (\<lambda>checkpoint. if checkpoint = ''channel_returned'' then Inl (ValueError ''stopped'') else Inr ())"

definition acme_world :: "store \<Rightarrow> det_world" where
  "acme_world st = \<lparr>wd_store = st, wd_readings = 0, wd_applied = [],
     dw_channel = default_channel, dw_decide_count = 0\<rparr>"

definition acme_effect :: ChannelEffect where
  "acme_effect = \<lparr>ce_proposal = acme_proposal, ce_attempt = acme_attempt EA_STARTED 10 2,
     ce_effect_idempotency_key = ''k1'', ce_effect_schema_version = SCHEMA_VERSION\<rparr>"

lemma acme_ready_authorized:
  "authorize_effect_proposal acme_proposal acme_mandate 1 = Inr ()"
  "chk (authorize_human_approval acme_proposal acme_approval (utc 10) default_approval_context) = Inr ()"
proof -
  show "authorize_effect_proposal acme_proposal acme_mandate 1 = Inr ()"
    by (simp add: authorize_effect_proposal_def acme_proposal_def acme_proposal_fields_def
        acme_mandate_def acme_boundary_def acme_defs authorize_constraint_parameters_def
        typed_constraint_values_def ok_simps)
  show "chk (authorize_human_approval acme_proposal acme_approval (utc 10) default_approval_context) = Inr ()"
    by (simp add: authorize_human_approval_def ApprovalAuthorization_init_def acme_approval_def
        acme_proposal_def acme_proposal_fields_def acme_defs default_approval_context_def ok_simps
        acme_id_defs minutes_def seconds_def hours_def SCHEMA_VERSION_def)
qed

lemma acme_ready_bundle:
  "load_dispatch_bundle (acme_outbox_claim ''w1'' 10 1) ''mandate''
     (acme_ready\<lparr>st_outbox := [acme_leased ''w1'' 10 1 acme_row]\<rparr>) =
   Inr \<lparr>bd_proposal = acme_proposal, bd_approval = acme_approval,
     bd_attempt = acme_attempt EA_PLANNED 0 1,
     bd_approver = acme_principal ''root'' HUMAN [TENANT_ADMIN],
     bd_effect_idempotency_key = ''k1'', bd_maximum_attempts = 3, bd_schema_version = SCHEMA_VERSION\<rparr>"
  by (simp add: load_dispatch_bundle_def require_outbox_claim_def acme_outbox_defs acme_ready_def
      acme_backed_def get_proposal_def get_approval_def get_effect_attempt_def get_principal_def
      get_mandate_def get_record_def principal_namespace_def bindings_valid_def acme_proposal_def
      acme_proposal_fields_def acme_approval_def acme_attempt_def acme_mandate_def
      DispatchBundle_init_def ok_simps)

text \<open>The run, step by step.\<close>

lemma acme_ports_run:
  "bindA (nowA acme_ports) f w = f (utc 10) (w\<lparr>wd_readings := wd_readings w + 1\<rparr>)"
  "bindA (hitA acme_ports c) g w =
     (if c = ''channel_returned'' then (Inl (ValueError ''stopped''), w) else g () w)"
  by (simp_all add: bindA_def nowA_def hitA_def acme_ports_def det_ports_def fixed_now_def)

lemma acme_ready_claim:
  "claim_outbox acme_colleague ''w1'' (utc 10) (utc 20) acme_ready =
     Inr (Some (acme_outbox_claim ''w1'' 10 1),
       acme_ready\<lparr>st_outbox := [acme_leased ''w1'' 10 1 acme_row]\<rparr>)"
  by (simp add: acme_outbox_defs acme_ready_def acme_backed_def ok_simps)

lemma acme_ready_start:
  "\<exists>st. mark_dispatch_started (acme_outbox_claim ''w1'' 10 1) (utc 10)
     (acme_ready\<lparr>st_outbox := [acme_leased ''w1'' 10 1 acme_row]\<rparr>) =
   Inr (acme_attempt EA_STARTED 10 2, st)"
  by (simp add: mark_dispatch_started_def require_outbox_claim_def acme_outbox_defs
      acme_ready_def acme_backed_def acme_attempt_def get_effect_attempt_def get_record_def
      EffectAttempt_init_def update_record_def insert_audit_def record_key_def ok_simps
      claimed_row_def seed_audit_def acme_seed_prefix [unfolded append.simps] acme_mandate_def)

lemma acme_validate:
  assumes "wd_store w = acme_ready\<lparr>st_outbox := [acme_leased ''w1'' 10 1 acme_row]\<rparr>"
  shows "bindA (validate_exact_effect acme_ports acme_dispatcher acme_colleague
      (acme_outbox_claim ''w1'' 10 1)) f w = f
     \<lparr>bd_proposal = acme_proposal, bd_approval = acme_approval,
      bd_attempt = acme_attempt EA_PLANNED 0 1,
      bd_approver = acme_principal ''root'' HUMAN [TENANT_ADMIN],
      bd_effect_idempotency_key = ''k1'', bd_maximum_attempts = 3,
      bd_schema_version = SCHEMA_VERSION\<rparr> (w\<lparr>wd_readings := wd_readings w + 1\<rparr>)"
proof (rule bindA_run)
  have mandate: "get_mandate (wd_store w) acme_colleague ''mandate'' = Inr acme_mandate"
    using assms by (simp add: get_mandate_def get_record_def acme_ready_def)
  have fields: "ep_mandate_id acme_proposal = Some ''mandate''" "ep_mandate_revision acme_proposal = Some 1"
      "ec_idempotency_key (ep_constraints acme_proposal) = ''k1''"
      "md_mandate_id acme_mandate = ''mandate''" "md_revision acme_mandate = 1"
      "ha_author acme_approval = acme_principal ''root'' HUMAN [TENANT_ADMIN]"
      "ea_attempt_number (acme_attempt EA_PLANNED 0 1) = 1"
    by (simp_all add: acme_proposal_def acme_proposal_fields_def acme_mandate_def acme_approval_def
        acme_attempt_def)
  have authorize: "pt_authorize acme_ports = None" by (simp add: acme_ports_def det_ports_def)
  have lifted: "bindA (returnA x) g v = g x v" for x g v by (simp add: bindA_run)
  show "validate_exact_effect acme_ports acme_dispatcher acme_colleague
      (acme_outbox_claim ''w1'' 10 1) w = (Inr
     \<lparr>bd_proposal = acme_proposal, bd_approval = acme_approval,
      bd_attempt = acme_attempt EA_PLANNED 0 1,
      bd_approver = acme_principal ''root'' HUMAN [TENANT_ADMIN],
      bd_effect_idempotency_key = ''k1'', bd_maximum_attempts = 3,
      bd_schema_version = SCHEMA_VERSION\<rparr>, w\<lparr>wd_readings := wd_readings w + 1\<rparr>)"
    unfolding validate_exact_effect_def
    by (subst bindA_run [where w' = w], simp add: readA_def assms acme_ready_bundle acme_dispatcher_def)
      (subst bindA_run [where w' = w], simp add: readA_def mandate acme_dispatcher_def,
        simp add: guardA_run acme_ready_authorized fields acme_ports_run authorize lifted)
qed

lemma acme_dispatch_applies:
  "wd_applied (snd (dispatch_once acme_ports acme_dispatcher acme_colleague (acme_world acme_ready)))
     = [acme_effect]"
proof -
  have effect: "ChannelEffect_init \<lparr>ce_proposal = acme_proposal,
      ce_attempt = acme_attempt EA_STARTED 10 2, ce_effect_idempotency_key = ''k1'',
      ce_effect_schema_version = SCHEMA_VERSION\<rparr> = Inr acme_effect"
    by (simp add: ChannelEffect_init_def acme_effect_def acme_proposal_def acme_proposal_fields_def
        acme_attempt_def acme_defs acme_id_defs ok_simps SCHEMA_VERSION_def)
  have applied: "wd_applied (snd (bindA (applyA acme_ports e)
      (\<lambda>x. bindA (hitA acme_ports ''channel_returned'') (g x)) w)) = wd_applied w @ [e]" for e g w
    by (simp add: bindA_eq [of "applyA acme_ports e"] acme_ports_run applyA_def split: sum.splits)
      (simp add: acme_ports_def det_ports_def det_apply_def split: prod.splits)
  from acme_ready_start obtain st2 where start: "mark_dispatch_started (acme_outbox_claim ''w1'' 10 1)
      (utc 10) (acme_ready\<lparr>st_outbox := [acme_leased ''w1'' 10 1 acme_row]\<rparr>) =
      Inr (acme_attempt EA_STARTED 10 2, st2)" by blast
  have started: "bindA (transact (mark_dispatch_started (acme_outbox_claim ''w1'' 10 1) (utc 10))) f w
      = f (acme_attempt EA_STARTED 10 2) (w\<lparr>wd_store := st2\<rparr>)"
    if "wd_store w = acme_ready\<lparr>st_outbox := [acme_leased ''w1'' 10 1 acme_row]\<rparr>" for f w
    by (rule bindA_run [OF transact_run]) (simp add: that start)
  have claimed: "bindA (transact (claim_outbox acme_colleague ''w1'' (utc 10) (utc 20))) f w
      = f (Some (acme_outbox_claim ''w1'' 10 1))
          (w\<lparr>wd_store := acme_ready\<lparr>st_outbox := [acme_leased ''w1'' 10 1 acme_row]\<rparr>\<rparr>)"
    if "wd_store w = acme_ready" for f w
    by (rule bindA_run [OF transact_run]) (simp add: that acme_ready_claim)
  have lifted: "bindA (liftA (Inr x)) f w = f x w" for x f w by (simp add: bindA_run)
  have config: "ds_owner_id acme_dispatcher = ''w1''" "ds_lease_duration acme_dispatcher = 10"
    by (simp_all add: acme_dispatcher_def)
  show ?thesis
    by (simp add: dispatch_once_def acme_ports_run config claimed acme_validate started lifted effect
        applied acme_world_def)
qed

section \<open>The properties\<close>

text \<open>C1. No attempt is handed to the channel twice, and only approved effects are: in every
  history of service calls, by any number of services over ports that may interleave the work
  of others, may fail and may be interrupted anywhere, the attempts given to the channel are
  pairwise different, and each carries a proposal on record that a human decision on record
  approves by ID, revision and both digests, under the proposal's own idempotency key.\<close>

theorem attempts_dispatched_once:
  assumes "outbox_ok (wd_store w)" and "wd_applied w = []" and "service_call\<^sup>*\<^sup>* w w'"
  shows "distinct (map applied_ident (wd_applied w')) \<and>
    (\<forall>e \<in> set (wd_applied w'). effect_approved (wd_store w') e)"
  using calls_keep [OF assms(3)] assms(1,2) by (simp add: keeps_def world_ok_def)

theorem attempts_dispatched_once_witness:
  "let w = snd (dispatch_once acme_ports acme_dispatcher acme_colleague (acme_world acme_ready))
   in wd_applied w = [acme_effect] \<and> effect_approved (wd_store w) acme_effect"
proof -
  let ?w = "acme_world acme_ready" and ?d = "dispatch_once acme_ports acme_dispatcher acme_colleague"
  have "keeping_ports acme_ports" unfolding acme_ports_def by (rule det_ports_keep)
  then have "service_call\<^sup>*\<^sup>* ?w (snd (?d ?w))" by (blast intro: by_dispatch)
  with attempts_dispatched_once [of ?w] acme_ready_ok acme_dispatch_applies
  have "effect_approved (wd_store (snd (?d ?w))) acme_effect" by (simp add: acme_world_def)
  then show ?thesis by (simp add: acme_dispatch_applies Let_def)
qed

lemma acme_ready_counted: "attempts_ok acme_ready"
proof -
  have facts: "attempt_facts acme_ready = {(acme_colleague, ''x1'', ''p1'', 1)}"
    by (auto simp: attempt_facts_def acme_ready_def acme_backed_def acme_attempt_def
        empty_store_def split: if_splits)
  have row: "row_fact acme_row = (acme_colleague, ''x1'', ''p1'', 1)"
    by (simp add: row_fact_def acme_row_def)
  show ?thesis
    unfolding attempts_ok_def facts by (simp add: row acme_ready_def acme_backed_def numbered_def)
qed

text \<open>C2. An effect is handed to the channel at most as often as its proposal allows: in every
  history of service calls, including retries, recoveries and reconciliations, the number of times
  a proposal was given to the channel is at most its maximum of attempts.\<close>

theorem dispatches_bounded:
  assumes "outbox_ok (wd_store w)" and "attempts_ok (wd_store w)" and "wd_applied w = []"
    and "service_call\<^sup>*\<^sup>* w w'"
    and "st_records (wd_store w') (n, RT_EFFECT_PROPOSAL, i) = Some (DEffectProposal p)"
  shows "int (length (filter (\<lambda>e. ep_namespace (ce_proposal e) = n \<and> ep_proposal_id (ce_proposal e) = i)
    (wd_applied w'))) \<le> max 0 (ec_maximum_attempts (ep_constraints p))"
proof -
  let ?es = "filter (\<lambda>e. ep_namespace (ce_proposal e) = n \<and> ep_proposal_id (ce_proposal e) = i)
    (wd_applied w')" and ?id = "\<lambda>e. ea_effect_attempt_id (ce_attempt e)"
  have k: "world_ok w'" "store_step\<^sup>*\<^sup>* (wd_store w) (wd_store w')"
    using calls_keep [OF assms(4)] assms(1,3) by (simp_all add: keeps_def world_ok_def)
  have e: "ea_namespace (ce_attempt e) = n \<and> used (wd_store w') n (?id e) i" if "e \<in> set ?es" for e
    using k(1) that by (auto simp: world_ok_def effect_approved_def Let_def)
  have "inj_on applied_ident (set ?es)" "distinct ?es"
    using k(1) by (auto simp: world_ok_def distinct_map intro: inj_on_subset)
  with e have "inj_on ?id (set ?es)" unfolding inj_on_def applied_ident_def by simp
  from card_image [OF this] have card: "card (?id ` set ?es) = length ?es"
    unfolding distinct_card [OF \<open>distinct ?es\<close>] .
  have "int (card (?id ` set ?es)) \<le> max 0 (ec_maximum_attempts (ep_constraints p))"
  proof (rule attempts_bounded [OF _ _ _ assms(5)])
    show "outbox_ok (wd_store w')" using k(1) by (simp add: world_ok_def)
    show "attempts_ok (wd_store w')" by (rule steps_count [OF k(2) assms(1,2)])
    fix j assume "j \<in> ?id ` set ?es"
    with e show "\<exists>k. (n, j, i, k) \<in> attempt_facts (wd_store w')"
      by (fastforce simp: attempt_facts_def used_def)
  qed simp
  with card show ?thesis by simp
qed

theorem dispatches_bounded_witness:
  "length (filter (\<lambda>e. ep_namespace (ce_proposal e) = acme_colleague \<and>
       ep_proposal_id (ce_proposal e) = ''p1'') (wd_applied (snd (dispatch_once acme_ports acme_dispatcher acme_colleague
       (acme_world acme_ready))))) \<le> 3"
proof -
  let ?w = "acme_world acme_ready" and ?d = "dispatch_once acme_ports acme_dispatcher acme_colleague"
  have calls: "service_call\<^sup>*\<^sup>* ?w (snd (?d ?w))"
    unfolding acme_ports_def by (blast intro: by_dispatch det_ports_keep)
  have "store_step\<^sup>*\<^sup>* (wd_store ?w) (wd_store (snd (?d ?w)))"
    using calls_keep [OF calls] acme_ready_ok by (simp add: keeps_def world_ok_def acme_world_def)
  from grows_keeps [OF steps_grow [OF this], of acme_colleague RT_EFFECT_PROPOSAL "''p1''"]
  have "st_records (wd_store (snd (?d ?w))) (acme_colleague, RT_EFFECT_PROPOSAL, ''p1'')
      = Some (DEffectProposal acme_proposal)"
    by (simp add: acme_world_def acme_ready_def acme_backed_def mutable_types_def)
  from dispatches_bounded [OF _ _ _ calls this] acme_ready_ok acme_ready_counted show ?thesis
    by (simp add: acme_world_def acme_proposal_def acme_proposal_fields_def)
qed

end
