(* ===== verification/Replays.thy ===== *)
theory Replays
  imports ServiceRuns
begin

text \<open>
  Requests that are repeated: the same approval request or event submission, at any later time,
  returns what the first one stored and changes nothing.
\<close>

lemma ledger_later:
  assumes "store_step\<^sup>*\<^sup>* st st'" and "st_ledger st k = Some v"
  shows "st_ledger st' k = Some v"
  using steps_grow [OF assms(1)] assms(2) unfolding grows_def map_le_def by (metis domI)

lemma record_later:
  assumes "store_step\<^sup>*\<^sup>* st st'" and "st_records st (n, t, i) = Some r" and "t \<notin> mutable_types"
  shows "st_records st' (n, t, i) = Some r"
  by (rule grows_keeps [OF steps_grow [OF assms(1)] assms(2,3)])

section \<open>Approvals\<close>

lemma get_approval_iff:
  "get_approval st n i = Inr d \<longleftrightarrow> st_records st (n, RT_HUMAN_APPROVAL, i) = Some (DHumanApproval d)"
  by (auto simp: get_approval_def get_record_def bindR_eq_Inr wrong_type_def
      split: option.splits domain_record.splits)

text \<open>The approval is on record under its idempotency key.\<close>

definition approval_stored :: "store \<Rightarrow> Namespace \<Rightarrow> string \<Rightarrow> HumanApprovalDecision \<Rightarrow> bool" where
  "approval_stored st n key d \<longleftrightarrow> (\<exists>i. ledger_lookup st n LK_APPROVAL key = Some i \<and>
     st_records st (n, RT_HUMAN_APPROVAL, i) = Some (DHumanApproval d))"

lemma approval_stored_later:
  assumes "approval_stored st n key d" and "store_step\<^sup>*\<^sup>* st st'"
  shows "approval_stored st' n key d"
proof -
  from assms(1) obtain t i where "st_ledger st (n, LK_APPROVAL, key) = Some (t, i)"
      "st_records st (n, RT_HUMAN_APPROVAL, i) = Some (DHumanApproval d)"
    by (auto simp: approval_stored_def ledger_lookup_def)
  from ledger_later [OF assms(2) this(1)] record_later [OF assms(2) this(2)] show ?thesis
    by (simp add: approval_stored_def ledger_lookup_def mutable_types_def)
qed

lemma stored_replay:
  assumes "approval_stored st n key d" and "outbox_ok st"
  shows "\<exists>att. get_approval_replay st n key = Inr (Some (d, att))"
proof -
  from assms(1) obtain i where i: "ledger_lookup st n LK_APPROVAL key = Some i" "get_approval st n i = Inr d"
    by (auto simp: approval_stored_def get_approval_iff)
  have "\<exists>att. attempt_of_approval st n (ha_approval_decision_id d) = Inr att"
  proof (cases "find (\<lambda>r. ox_namespace r = n \<and>
      ox_approval_decision_id r = ha_approval_decision_id d) (st_outbox st)")
    case (Some r)
    then have "row_attempted st r" "ox_namespace r = n"
      using assms(2) by (auto simp: outbox_ok_def dest!: find_Some_in)
    then obtain a where "get_effect_attempt st n (ox_effect_attempt_id r) = Inr a"
      by (auto simp: row_attempted_def get_effect_attempt_iff)
    with Some show ?thesis by (simp add: attempt_of_approval_def)
  qed (simp add: attempt_of_approval_def)
  with i show ?thesis by (auto simp: get_approval_replay_def)
qed

lemma commit_stored:
  assumes "commit_approval_and_attempt n mid v d aid oid actor t st = Inr ((d', att, created), st')"
    and "ledger_lookup st n LK_APPROVAL (ha_idempotency_key d) = None"
  shows "d' = d \<and> approval_stored st' n (ha_idempotency_key d) d"
  using assms(1)
proof (rule commit_approval_cases)
  fix existing att' assume "ledger_lookup st n LK_APPROVAL (ha_idempotency_key d) \<noteq> None"
  with assms(2) show ?thesis by simp
next
  fix p m d1 att' auth assume x: "(d', att, created) = (d, att', True)" "n = ha_namespace d"
    and written: "approval_written n p d aid oid actor t st att' st'"
  from written obtain st1 st2 st3 where w: "insert_record (DHumanApproval d) st = Inr st1"
      "insert_ledger n LK_APPROVAL (ha_idempotency_key d) RT_HUMAN_APPROVAL
         (ha_approval_decision_id d) st1 = Inr st2"
      "insert_ledger n LK_PROPOSAL_APPROVAL (proposal_binding p) RT_HUMAN_APPROVAL
         (ha_approval_decision_id d) st2 = Inr st3"
    and rest: "st' = st3 \<or> (\<exists>a st4 st5. insert_record (DEffectAttempt a) st3 = Inr st4 \<and>
      insert_outbox (first_outbox_row n p d a oid actor t) st4 = Inr st5 \<and>
      insert_ledger n LK_EFFECT (ec_idempotency_key (ep_constraints p)) RT_EFFECT_ATTEMPT
        (ea_effect_attempt_id a) st5 = Inr st')"
    unfolding approval_written_def by blast
  from rest have g: "grows {} st3 st'" by (auto simp: insert_outbox_result elim!: chain)
  from w have "st_ledger st3 (n, LK_APPROVAL, ha_idempotency_key d)
        = Some (RT_HUMAN_APPROVAL, ha_approval_decision_id d)"
      "st_records st3 (n, RT_HUMAN_APPROVAL, ha_approval_decision_id d) = Some (DHumanApproval d)"
    using insert_record_writes [OF w(1)] x(2)
    by (auto simp: insert_ledger_result writes_def record_key_def)
  note here = this
  have "st_ledger st' (n, LK_APPROVAL, ha_idempotency_key d)
        = Some (RT_HUMAN_APPROVAL, ha_approval_decision_id d)"
    using g here(1) unfolding grows_def map_le_def by (metis domI)
  moreover have "st_records st' (n, RT_HUMAN_APPROVAL, ha_approval_decision_id d)
      = Some (DHumanApproval d)"
    by (rule grows_keeps [OF g here(2)]) simp
  ultimately show ?thesis using x by (simp add: approval_stored_def ledger_lookup_def)
qed

text \<open>What a returned decision leaves behind.\<close>

lemma replay_stored:
  "get_approval_replay st n key = Inr (Some (d, att)) \<Longrightarrow> approval_stored st n key d"
  "get_approval_replay st n key = Inr None \<Longrightarrow> ledger_lookup st n LK_APPROVAL key = None"
  by (auto simp: get_approval_replay_def approval_stored_def get_approval_iff bindR_eq_Inr
      split: option.splits)

lemma decision_init_ok: "HumanApprovalDecision_init d = Inr d' \<Longrightarrow> d' = d"
  by (simp add: HumanApprovalDecision_init_def checks_ok)

lemma decide_approval_stored:
  assumes "decide_approval p s cx m v request w = (Inr (d, att, created), w')"
  shows "pr_kind (rc_principal cx) = HUMAN \<and>
    approval_stored (wd_store w') (rc_namespace cx) (aq_idempotency_key request) d \<and>
    replay_bound d request (rc_principal cx)"
proof (cases "get_approval_replay (wd_store w) (rc_namespace cx) (aq_idempotency_key request)")
  case (Inr replay)
  show ?thesis
  proof (cases replay)
    case None
    from assms Inr None obtain q t t2 d1 aid oid st2 b where c: "pr_kind (rc_principal cx) = HUMAN"
        "HumanApprovalDecision_init (decision_of_request s cx request q t) = Inr d1"
        "commit_approval_and_attempt (rc_namespace cx) m v d1
           aid oid (as_service_principal s) t2 (wd_store w) = Inr ((d, b, created), st2)"
        "wd_store w' = st2"
      unfolding decide_approval_def
      by (clarsimp simp: run_returns deriveA_def raise_if_ok bindR_eq_Inr)
    note c = c [unfolded decision_init_ok [OF c(2)]]
    have key: "ha_idempotency_key (decision_of_request s cx request q t) = aq_idempotency_key request"
      by (simp add: decision_of_request_def)
    have "d = decision_of_request s cx request q t \<and>
        approval_stored (wd_store w') (rc_namespace cx) (aq_idempotency_key request) d"
      using commit_stored [OF c(3)] replay_stored(2) [OF Inr [unfolded None]] c(4) by (simp add: key)
    moreover have "replay_bound (decision_of_request s cx request q t) request (rc_principal cx)"
      by (simp add: replay_bound_def decision_of_request_def)
    ultimately show ?thesis using c(1) by (elim conjE) (simp only: simp_thms)
  next
    case (Some r)
    with assms Inr show ?thesis
      by (cases r) (auto simp: decide_approval_def run_returns raise_if_ok bindR_eq_Inr
          intro: replay_stored(1))
  qed
qed (use assms in \<open>simp add: decide_approval_def guardA_eq bindA_eq readA_def split: sum.splits\<close>)

definition acme_decided :: store where
  "acme_decided = acme_ready\<lparr>st_ledger := (st_ledger acme_ready)
     ((acme_colleague, LK_APPROVAL, ha_idempotency_key acme_approval) \<mapsto> (RT_HUMAN_APPROVAL, ''a1''))\<rparr>"

definition acme_request :: ApprovalRequest where
  "acme_request = \<lparr>aq_approval_decision_id = ''a1'', aq_proposal_id = ''p1'', aq_proposal_revision = 1,
     aq_proposal_payload_digest = ha_proposal_payload_digest acme_approval,
     aq_proposal_digest = ha_proposal_digest acme_approval, aq_choice = APPROVE,
     aq_idempotency_key = ha_idempotency_key acme_approval, aq_schema_version = SCHEMA_VERSION\<rparr>"

definition acme_human :: RequestPrincipalContext where
  "acme_human = \<lparr>rc_namespace = acme_colleague, rc_principal = ha_author acme_approval,
     rc_schema_version = SCHEMA_VERSION\<rparr>"

definition acme_approver :: ApprovalService where
  "acme_approver = \<lparr>as_service_principal = acme_principal ''svc'' SERVICE [], as_approval_validity = 60\<rparr>"

lemma acme_decided_ok: "outbox_ok acme_decided"
proof -
  have "outbox_ok acme_decided = outbox_ok acme_ready"
    by (simp add: acme_decided_def outbox_ok_def well_keyed_def sound_def row_approved_def row_attempted_def)
  then show ?thesis using acme_ready_ok by simp
qed

lemma acme_decision_replayed:
  "decide_approval acme_ports acme_approver acme_human ''mandate'' 1 acme_request (acme_world acme_decided)
     = (Inr (acme_approval, Some ''x1'', False), acme_world acme_decided)"
  by (simp add: decide_approval_def guardA_eq bindA_eq readA_def raise_if_def get_approval_replay_def
      acme_human_def acme_request_def acme_decided_def acme_ready_def acme_backed_def ledger_lookup_def
      get_approval_def get_record_def acme_world_def attempt_of_approval_def acme_row_def
      acme_approval_def replay_bound_def get_effect_attempt_def acme_attempt_def acme_principal_def)

text \<open>C4. Deciding an approval is idempotent for ever: when an approval request has returned a
  decision, then at any later time, whatever the store did in between, the same request by the
  same principal returns the same decision, marked as not created, and changes nothing.\<close>

theorem approval_idempotent:
  assumes "decide_approval p s cx m v request w = (Inr (d, att, created), w1)"
    and "outbox_ok (wd_store w1)" and "store_step\<^sup>*\<^sup>* (wd_store w1) (wd_store w2)"
  shows "\<exists>att'. decide_approval p' s' cx m' v' request w2 = (Inr (d, att', False), w2)"
proof -
  note first = decide_approval_stored [OF assms(1)]
  have "approval_stored (wd_store w2) (rc_namespace cx) (aq_idempotency_key request) d"
    using first approval_stored_later [OF _ assms(3)] by blast
  from stored_replay [OF this steps_keep_ok [OF assms(3,2)]] first show ?thesis
    by (auto simp: decide_approval_def guardA_eq bindA_eq readA_def raise_if_def)
qed

theorem approval_idempotent_witness:
  "\<exists>att. decide_approval acme_ports acme_approver acme_human ''other'' 7 acme_request (acme_world acme_decided)
     = (Inr (acme_approval, att, False), acme_world acme_decided)"
  by (rule approval_idempotent [OF acme_decision_replayed])
    (simp_all add: acme_world_def acme_decided_ok)

end
