(* ===== verification/WakeRuns.thy ===== *)
theory WakeRuns
  imports Replays
begin

text \<open>
  What a run of the wake service that returns has done: it stayed within its bounds and left
  no claimable item behind unless a bound stopped it.
\<close>

text \<open>\<open>exhausted\<close>: at some reading of the clock no item of the namespace could be claimed.\<close>

definition exhausted :: "'z ports \<Rightarrow> Namespace \<Rightarrow> store \<Rightarrow> bool" where
  "exhausted p n st \<longleftrightarrow>
     (\<exists>k. \<forall>r \<in> set (st_agenda st). \<not> agenda_claimable n (pt_clock p k) r)"

lemma claim_agenda_none:
  "claim_agenda n owner now lease st = Inr (None, st') \<Longrightarrow>
     st' = st \<and> (\<forall>r \<in> set (st_agenda st). \<not> agenda_claimable n now r)"
  by (auto simp: claim_agenda_def Let_def bindR_eq_Inr checks_ok select_first_None split: option.splits)

lemma run_items_stops:
  assumes "run_items p s n left selected decisions w = (Inr (i, j), w')"
  shows "selected \<le> i \<and> i \<le> selected + left \<and> i + decisions = j + selected \<and>
    int j \<le> max (int decisions) (ws_max_decisions s) \<and>
    (i = selected + left \<or> ws_max_decisions s \<le> int j \<or> exhausted p n (wd_store w'))"
  using assms
proof (induction left arbitrary: selected decisions w)
  case (Suc left)
  show ?case
  proof (cases "int decisions < ws_max_decisions s")
    case True
    with Suc.prems obtain claimed st where claim: "claim_agenda n (ws_owner_id s)
          (pt_clock p (wd_readings w)) (dt_add (pt_clock p (wd_readings w)) (ws_lease_duration s))
          (wd_store w) = Inr (claimed, st)"
      by (auto simp: run_returns)
    show ?thesis
    proof (cases claimed)
      case None
      with Suc.prems True claim have "i = selected" "j = decisions" "wd_store w' = st"
        by (auto simp: run_returns)
      moreover have "exhausted p n st"
        using claim_agenda_none [OF claim [unfolded None]] by (auto simp: exhausted_def)
      ultimately show ?thesis using True by simp
    next
      case (Some x)
      with Suc.prems True claim obtain w2 where
          "run_items p s n left (selected + 1) (decisions + 1) w2 = (Inr (i, j), w')"
        by (auto simp: run_returns)
      from Suc.IH [OF this] True show ?thesis by auto
    qed
  qed (use Suc.prems in \<open>auto simp: returnA_def\<close>)
qed (auto simp: returnA_def)


definition acme_waker :: WakeService where
  "acme_waker = \<lparr>ws_service_principal = acme_principal ''svc'' SERVICE [],
     ws_model_principal = acme_principal ''model'' MODEL [], ws_mandate_id = ''mandate'',
     ws_owner_id = ''w1'', ws_lease_duration = 10, ws_max_items = 4, ws_max_decisions = 2\<rparr>"


end
