(* ===== verification/AgentPackage.thy ===== *)
theory AgentPackage
  imports Digests
begin

text \<open>
  \<^verbatim>\<open>core/agent_package.py\<close>: the bounded, inert description of an agent that a package carries,
  its canonical JSON and its exact parser.  A parsed value is a \<open>json\<close>; a value the constructors
  take is already of its Python type.
\<close>

definition AGENT_PACKAGE_SCHEMA :: string where
  "AGENT_PACKAGE_SCHEMA = ''dc-agent/v1''"

definition AGENT_PACKAGE_SCHEMA_VERSION :: int where
  "AGENT_PACKAGE_SCHEMA_VERSION = 1"

definition RUNTIME_API_VERSION :: string where
  "RUNTIME_API_VERSION = ''1''"

definition PACKAGE_MAX_BYTES :: nat where
  "PACKAGE_MAX_BYTES = 65536"

definition PROMPT_MAX_CHARACTERS :: nat where
  "PROMPT_MAX_CHARACTERS = 8192"

definition WORKFLOW_MAX_NODES :: nat where
  "WORKFLOW_MAX_NODES = 32"

definition WORKFLOW_MAX_DEPTH :: nat where
  "WORKFLOW_MAX_DEPTH = 8"

definition WORKFLOW_MAX_STEPS :: nat where
  "WORKFLOW_MAX_STEPS = 16"

definition WORKFLOW_MAX_BRANCHES :: nat where
  "WORKFLOW_MAX_BRANCHES = 2"

definition LOCALES :: "string list" where
  "LOCALES = [''en-US'', ''zh-TW'']"

lemmas package_bounds = PACKAGE_MAX_BYTES_def PROMPT_MAX_CHARACTERS_def WORKFLOW_MAX_NODES_def
  WORKFLOW_MAX_DEPTH_def WORKFLOW_MAX_STEPS_def WORKFLOW_MAX_BRANCHES_def

text \<open>\<open>numeric_part\<close> is \<^verbatim>\<open>0|[1-9][0-9]{0,8}\<close>; a version is three of them between dots.\<close>

definition numeric_char :: "char \<Rightarrow> bool" where
  "numeric_char c = (c \<in> set ''0123456789'')"

fun numeric_part :: "string \<Rightarrow> bool" where
  "numeric_part [] = False"
| "numeric_part (c # cs) = (if c = CHR ''0'' then cs = []
     else numeric_char c \<and> list_all numeric_char cs \<and> length cs \<le> 8)"

fun dot_parts :: "string \<Rightarrow> string list" where
  "dot_parts [] = [[]]"
| "dot_parts (c # cs) = (if c = CHR ''.'' then [] # dot_parts cs
     else case dot_parts cs of [] \<Rightarrow> [[c]] | p # ps \<Rightarrow> (c # p) # ps)"

definition matches_version :: "string \<Rightarrow> bool" where
  "matches_version v = (length (dot_parts v) = 3 \<and> list_all numeric_part (dot_parts v))"

datatype PackageSource = OFFICIAL_BUILTIN | LOCAL_SOURCE | GITHUB_RELEASE

datatype WorkflowStepType = INSTRUCTION_STEP | CONDITION_STEP | PROPOSE_EFFECT_STEP | COMPLETE_STEP

fun WorkflowStepType_value :: "WorkflowStepType \<Rightarrow> string" where
  "WorkflowStepType_value INSTRUCTION_STEP = ''instruction''"
| "WorkflowStepType_value CONDITION_STEP = ''condition''"
| "WorkflowStepType_value PROPOSE_EFFECT_STEP = ''propose_effect''"
| "WorkflowStepType_value COMPLETE_STEP = ''complete''"

definition ALLOWED_CAPABILITIES :: "string list" where
  "ALLOWED_CAPABILITIES = [''read_work'', ''manage_work'', ''propose_reference_message'',
     ''propose_internal_record'', ''notify_human'', ''read_audit'']"

definition ALLOWED_PREDICATES :: "string list" where
  "ALLOWED_PREDICATES = [''work_is_pending'', ''approval_is_required'', ''effect_is_allowed'']"

definition ALLOWED_EFFECT_KINDS :: "string list" where
  "ALLOWED_EFFECT_KINDS = [''reference_message'', ''internal_record'', ''notification'']"

section \<open>Reading parsed JSON\<close>

definition json_mapping :: "json \<Rightarrow> string \<Rightarrow> string list \<Rightarrow> frozen_json result" where
  "json_mapping value field keys =
     (case value of
        JObj entries \<Rightarrow>
          if set (map fst entries) \<noteq> set keys
          then Inl (CoreInvariantError (field @ '' has unknown or missing fields''))
          else Inr entries
      | _ \<Rightarrow> Inl (CoreInvariantError (field @ '' must be an object'')))"

definition json_string :: "json \<Rightarrow> string \<Rightarrow> nat \<Rightarrow> string result" where
  "json_string value field maximum =
     (case value of
        JStr s \<Rightarrow>
          if strip s = [] \<or> s \<noteq> strip s
          then Inl (CoreInvariantError (field @ '' must be an exact non-empty string''))
          else if length s > maximum
          then Inl (CoreInvariantError (field @ '' exceeds its fixed bound''))
          else Inr s
      | _ \<Rightarrow> Inl (CoreInvariantError (field @ '' must be an exact non-empty string'')))"

definition json_sequence :: "json \<Rightarrow> string \<Rightarrow> json list result" where
  "json_sequence value field =
     (case value of
        JList items \<Rightarrow> Inr items
      | _ \<Rightarrow> Inl (CoreInvariantError (field @ '' must be an array'')))"

text \<open>\<^verbatim>\<open>raw[key]\<close>, after \<^verbatim>\<open>_mapping\<close> has checked the keys.\<close>

definition json_item :: "frozen_json \<Rightarrow> string \<Rightarrow> json result" where
  "json_item raw key =
     (case map_of raw key of None \<Rightarrow> Inl (KeyError key) | Some v \<Rightarrow> Inr v)"

text \<open>
  \<^verbatim>\<open>_canonical_value\<close>.  The only exception is the one for a float, so the entries may be
  visited in their own order before they are sorted.
\<close>

fun canonical_value :: "json \<Rightarrow> json result" where
  "canonical_value JNull = Inr JNull"
| "canonical_value (JBool b) = Inr (JBool b)"
| "canonical_value (JInt i) = Inr (JInt i)"
| "canonical_value (JStr s) = Inr (JStr s)"
| "canonical_value (JFloat x) =
     Inl (CoreInvariantError ''canonical package JSON does not accept floating-point values'')"
| "canonical_value (JObj entries) =
     bindR (mapR (\<lambda>(key, value). bindR (canonical_value value) (\<lambda>v. Inr (key, v))) entries)
       (\<lambda>es. Inr (JObj (sort_key fst es)))"
| "canonical_value (JList items) = bindR (mapR canonical_value items) (\<lambda>xs. Inr (JList xs))"

definition canonical_json_bytes :: "json \<Rightarrow> 8 word list result" where
  "canonical_json_bytes value =
     bindR (canonical_value value) (\<lambda>canonical. Inr (utf8 (json_text canonical)))"

definition sha256_digest :: "8 word list \<Rightarrow> string" where
  "sha256_digest value = ''sha256:'' @ sha256_hex value"

section \<open>Display and workflow\<close>

record LocalizedDisplay =
  ld_name :: string
  ld_summary :: string

definition LocalizedDisplay_init :: "LocalizedDisplay \<Rightarrow> LocalizedDisplay result" where
  "LocalizedDisplay_init d =
     bindR (json_string (JStr (ld_name d)) ''display.name'' 128) (\<lambda>name.
     bindR (json_string (JStr (ld_summary d)) ''display.summary'' 512) (\<lambda>summary.
     Inr (d\<lparr>ld_name := name, ld_summary := summary\<rparr>)))"

definition LocalizedDisplay_to_data :: "LocalizedDisplay \<Rightarrow> json" where
  "LocalizedDisplay_to_data d = JObj [(''name'', JStr (ld_name d)), (''summary'', JStr (ld_summary d))]"

record WorkflowStep =
  ws_step_id :: string
  ws_step_type :: WorkflowStepType
  ws_prompt :: "string option"
  ws_next_step :: "string option"
  ws_predicate :: "string option"
  ws_on_true :: "string option"
  ws_on_false :: "string option"
  ws_effect_kind :: "string option"

definition allowed :: "string list \<Rightarrow> string option \<Rightarrow> bool" where
  "allowed values v = (case v of None \<Rightarrow> False | Some s \<Rightarrow> s \<in> set values)"

fun WorkflowStep_bindings :: "WorkflowStepType \<Rightarrow> WorkflowStep \<Rightarrow> unit result list" where
  "WorkflowStep_bindings INSTRUCTION_STEP s =
     [raise_if (ws_prompt s \<noteq> Some ''primary'' \<or> ws_next_step s = None)
        (CoreInvariantError ''instruction step binding is incomplete''),
      raise_if (ws_predicate s \<noteq> None \<or> ws_on_true s \<noteq> None \<or> ws_on_false s \<noteq> None \<or>
          ws_effect_kind s \<noteq> None)
        (CoreInvariantError ''instruction step has forbidden fields''),
      opt_chk (\<lambda>t. require_stable_id t ''workflow next step'') (ws_next_step s)]"
| "WorkflowStep_bindings CONDITION_STEP s =
     [raise_if (\<not> allowed ALLOWED_PREDICATES (ws_predicate s) \<or> ws_on_true s = None \<or>
          ws_on_false s = None \<or> ws_on_true s = ws_on_false s)
        (CoreInvariantError ''condition step binding is unsupported''),
      raise_if (ws_prompt s \<noteq> None \<or> ws_next_step s \<noteq> None \<or> ws_effect_kind s \<noteq> None)
        (CoreInvariantError ''condition step has forbidden fields''),
      opt_chk (\<lambda>t. require_stable_id t ''workflow true branch'') (ws_on_true s),
      opt_chk (\<lambda>t. require_stable_id t ''workflow false branch'') (ws_on_false s)]"
| "WorkflowStep_bindings PROPOSE_EFFECT_STEP s =
     [raise_if (\<not> allowed ALLOWED_EFFECT_KINDS (ws_effect_kind s) \<or> ws_next_step s = None)
        (CoreInvariantError ''effect proposal step binding is unsupported''),
      raise_if (ws_prompt s \<noteq> None \<or> ws_predicate s \<noteq> None \<or> ws_on_true s \<noteq> None \<or>
          ws_on_false s \<noteq> None)
        (CoreInvariantError ''effect proposal step has forbidden fields''),
      opt_chk (\<lambda>t. require_stable_id t ''workflow next step'') (ws_next_step s)]"
| "WorkflowStep_bindings COMPLETE_STEP s =
     [raise_if (ws_prompt s \<noteq> None \<or> ws_next_step s \<noteq> None \<or> ws_predicate s \<noteq> None \<or>
          ws_on_true s \<noteq> None \<or> ws_on_false s \<noteq> None \<or> ws_effect_kind s \<noteq> None)
        (CoreInvariantError ''complete step must be terminal'')]"

definition WorkflowStep_init :: "WorkflowStep \<Rightarrow> WorkflowStep result" where
  "WorkflowStep_init s = checks
     (chk (require_stable_id (ws_step_id s) ''workflow step id'') #
      WorkflowStep_bindings (ws_step_type s) s)
     (Inr s)"

text \<open>A condition step that was constructed has both branches, so the \<^verbatim>\<open>assert\<close> holds.\<close>

definition outgoing :: "WorkflowStep \<Rightarrow> string list" where
  "outgoing s =
     (if ws_step_type s = CONDITION_STEP
      then (case (ws_on_true s, ws_on_false s) of (Some a, Some b) \<Rightarrow> [a, b] | _ \<Rightarrow> [])
      else case ws_next_step s of None \<Rightarrow> [] | Some t \<Rightarrow> [t])"

definition json_opt :: "string option \<Rightarrow> json" where
  "json_opt v = (case v of None \<Rightarrow> JNull | Some s \<Rightarrow> JStr s)"

definition WorkflowStep_to_data :: "WorkflowStep \<Rightarrow> json" where
  "WorkflowStep_to_data s = JObj
     ([(''id'', JStr (ws_step_id s)), (''type'', JStr (WorkflowStepType_value (ws_step_type s)))] @
      (case ws_step_type s of
         INSTRUCTION_STEP \<Rightarrow>
           [(''prompt'', json_opt (ws_prompt s)), (''next'', json_opt (ws_next_step s))]
       | CONDITION_STEP \<Rightarrow>
           [(''predicate'', json_opt (ws_predicate s)), (''on_true'', json_opt (ws_on_true s)),
            (''on_false'', json_opt (ws_on_false s))]
       | PROPOSE_EFFECT_STEP \<Rightarrow>
           [(''effect_kind'', json_opt (ws_effect_kind s)), (''next'', json_opt (ws_next_step s))]
       | COMPLETE_STEP \<Rightarrow> []))"

record DeclarativeWorkflow =
  dw_entrypoint :: string
  dw_steps :: "WorkflowStep list"

text \<open>
  The nested function \<^verbatim>\<open>walk\<close> and its loop over the targets.  The two sets it closes over are
  threaded; a walk that returns has removed what it added to \<open>visiting\<close>.
\<close>

type_synonym walk_state = "string set \<times> string set"

function walk :: "(string \<rightharpoonup> WorkflowStep) \<Rightarrow> string \<Rightarrow> nat \<Rightarrow> nat \<Rightarrow> walk_state \<Rightarrow> walk_state result"
  and walk_each :: "(string \<rightharpoonup> WorkflowStep) \<Rightarrow> string list \<Rightarrow> nat \<Rightarrow> nat \<Rightarrow> walk_state \<Rightarrow> walk_state result"
where
  "walk by_id step_id depth traversed (visiting, reachable) =
     (if depth > WORKFLOW_MAX_DEPTH \<or> traversed > WORKFLOW_MAX_STEPS
      then Inl (CoreInvariantError ''workflow path exceeds the fixed bound'')
      else if step_id \<in> visiting
      then Inl (CoreInvariantError ''workflow cycle or recursion is forbidden'')
      else case by_id step_id of None \<Rightarrow> Inl (KeyError step_id) | Some step \<Rightarrow>
        if outgoing step = [] \<and> ws_step_type step \<noteq> COMPLETE_STEP
        then Inl (CoreInvariantError ''workflow path does not terminate'')
        else bindR (walk_each by_id (outgoing step) (depth + 1) (traversed + 1)
               (insert step_id visiting, insert step_id reachable))
             (\<lambda>(visiting, reachable). Inr (visiting - {step_id}, reachable)))"
| "walk_each by_id [] depth traversed st = Inr st"
| "walk_each by_id (target # targets) depth traversed st =
     bindR (walk by_id target depth traversed st) (\<lambda>st.
       walk_each by_id targets depth traversed st)"
  by pat_completeness auto

termination
  by (relation "(\<lambda>v. case v of Inl (b, i, d, t, st) \<Rightarrow> 10 - d | Inr (b, is, d, t, st) \<Rightarrow> 10 - d) <*mlex*>
      (\<lambda>v. case v of Inl (b, i, d, t, st) \<Rightarrow> 0 | Inr (b, is, d, t, st) \<Rightarrow> Suc (length is)) <*mlex*> {}")
    (auto simp: mlex_prod_def WORKFLOW_MAX_DEPTH_def wf_mlex)

declare walk.simps [simp del]

definition workflow_by_id :: "WorkflowStep list \<Rightarrow> string \<rightharpoonup> WorkflowStep" where
  "workflow_by_id steps = map_of (rev (by_key ws_step_id steps))"

definition DeclarativeWorkflow_init :: "DeclarativeWorkflow \<Rightarrow> DeclarativeWorkflow result" where
  "DeclarativeWorkflow_init w =
     (let steps = dw_steps w; ids = map ws_step_id steps in checks
        [chk (require_stable_id (dw_entrypoint w) ''workflow entrypoint''),
         raise_if (\<not> (1 \<le> length steps \<and> length steps \<le> WORKFLOW_MAX_NODES))
           (CoreInvariantError ''workflow node count is outside the fixed bound''),
         raise_if (has_dup ids \<or> dw_entrypoint w \<notin> set ids)
           (CoreInvariantError ''workflow identities are duplicate or incomplete''),
         raise_if (list_ex (\<lambda>s. length (outgoing s) > WORKFLOW_MAX_BRANCHES) steps)
           (CoreInvariantError ''workflow branch count exceeds the fixed bound''),
         raise_if (list_ex (\<lambda>s. list_ex (\<lambda>t. t \<notin> set ids) (outgoing s)) steps)
           (CoreInvariantError ''workflow target is unknown'')]
        (bindR (walk (workflow_by_id steps) (dw_entrypoint w) 1 1 ({}, {})) (\<lambda>(visiting, reachable).
         checks
           [raise_if (reachable \<noteq> set ids)
              (CoreInvariantError ''workflow contains unreachable steps'')]
           (Inr w))))"

definition DeclarativeWorkflow_to_data :: "DeclarativeWorkflow \<Rightarrow> json" where
  "DeclarativeWorkflow_to_data w = JObj
     [(''entrypoint'', JStr (dw_entrypoint w)),
      (''steps'', JList (map WorkflowStep_to_data (dw_steps w)))]"

section \<open>The package\<close>

record AgentPackage =
  pk_package_id :: string
  pk_version :: string
  pk_display_en_us :: LocalizedDisplay
  pk_display_zh_tw :: LocalizedDisplay
  pk_prompt_en_us :: string
  pk_prompt_zh_tw :: string
  pk_requested_capabilities :: "string list"
  pk_workflow :: DeclarativeWorkflow
  pk_content_digest :: string
  pk_schema :: string
  pk_schema_version :: int
  pk_runtime_api :: string

definition AgentPackage_metadata_data :: "AgentPackage \<Rightarrow> json" where
  "AgentPackage_metadata_data p = JObj
     [(''package_id'', JStr (pk_package_id p)), (''version'', JStr (pk_version p)),
      (''runtime_api'', JStr (pk_runtime_api p)),
      (''display'', JObj
         [(''en-US'', LocalizedDisplay_to_data (pk_display_en_us p)),
          (''zh-TW'', LocalizedDisplay_to_data (pk_display_zh_tw p))])]"

definition AgentPackage_content_data :: "AgentPackage \<Rightarrow> json" where
  "AgentPackage_content_data p = JObj
     [(''prompts'', JObj [(''en-US'', JStr (pk_prompt_en_us p)), (''zh-TW'', JStr (pk_prompt_zh_tw p))]),
      (''requested_capabilities'', JList (map JStr (pk_requested_capabilities p))),
      (''workflow'', DeclarativeWorkflow_to_data (pk_workflow p))]"

definition AgentPackage_to_data :: "AgentPackage \<Rightarrow> json" where
  "AgentPackage_to_data p = JObj
     [(''schema'', JStr (pk_schema p)), (''schema_version'', JInt (pk_schema_version p)),
      (''metadata'', AgentPackage_metadata_data p), (''content'', AgentPackage_content_data p),
      (''content_digest'', JStr (pk_content_digest p))]"

definition require_prompt :: "string \<Rightarrow> string \<Rightarrow> unit result" where
  "require_prompt prompt locale_name =
     raise_if (strip prompt = [] \<or> length prompt > PROMPT_MAX_CHARACTERS)
       (CoreInvariantError (locale_name @ '' prompt must be inert bounded text''))"

definition AgentPackage_init :: "AgentPackage \<Rightarrow> AgentPackage result" where
  "AgentPackage_init p = checks
     [chk (require_stable_id (pk_package_id p) ''package_id''),
      raise_if (\<not> matches_version (pk_version p))
        (CoreInvariantError ''package version must be canonical MAJOR.MINOR.PATCH''),
      raise_if (pk_schema p \<noteq> AGENT_PACKAGE_SCHEMA \<or> pk_schema_version p \<noteq> AGENT_PACKAGE_SCHEMA_VERSION)
        (CoreInvariantError ''AgentPackage schema is unsupported''),
      raise_if (pk_runtime_api p \<noteq> RUNTIME_API_VERSION)
        (CoreInvariantError ''AgentPackage runtime API is unsupported''),
      require_prompt (pk_prompt_en_us p) ''en-US'', require_prompt (pk_prompt_zh_tw p) ''zh-TW'',
      raise_if (pk_requested_capabilities p = [] \<or> length (pk_requested_capabilities p) > 16)
        (CoreInvariantError ''requested capabilities are empty or exceed the fixed bound''),
      raise_if (has_dup (pk_requested_capabilities p) \<or>
          list_ex (\<lambda>c. c \<notin> set ALLOWED_CAPABILITIES) (pk_requested_capabilities p))
        (CoreInvariantError ''requested capability is duplicate or unsupported''),
      chk (require_digest (pk_content_digest p) ''content_digest'')]
     (bindR (canonical_json_bytes (AgentPackage_content_data p)) (\<lambda>content.
      checks
        [raise_if (pk_content_digest p \<noteq> sha256_digest content)
           (CoreInvariantError ''package manifest and content digest do not match'')]
        (bindR (canonical_json_bytes (AgentPackage_to_data p)) (\<lambda>data.
         checks
           [raise_if (length data > PACKAGE_MAX_BYTES)
              (CoreInvariantError ''canonical package exceeds the fixed byte bound'')]
           (Inr p)))))"

definition package_digest :: "AgentPackage \<Rightarrow> string result" where
  "package_digest p =
     bindR (canonical_json_bytes (AgentPackage_to_data p)) (\<lambda>data. Inr (sha256_digest data))"

section \<open>The parser\<close>

definition localized_display :: "json \<Rightarrow> string \<Rightarrow> LocalizedDisplay result" where
  "localized_display value locale_name =
     (let field = ''metadata.display.'' @ locale_name in
      bindR (json_mapping value field [''name'', ''summary'']) (\<lambda>raw.
      bindR (json_item raw ''name'') (\<lambda>n.
      bindR (json_string n (field @ ''.name'') 128) (\<lambda>name.
      bindR (json_item raw ''summary'') (\<lambda>u.
      bindR (json_string u (field @ ''.summary'') 512) (\<lambda>summary.
      LocalizedDisplay_init \<lparr>ld_name = name, ld_summary = summary\<rparr>))))))"

definition step_type_of :: "string \<Rightarrow> WorkflowStepType option" where
  "step_type_of value = find (\<lambda>t. WorkflowStepType_value t = value)
     [INSTRUCTION_STEP, CONDITION_STEP, PROPOSE_EFFECT_STEP, COMPLETE_STEP]"

fun step_keys :: "WorkflowStepType \<Rightarrow> string list" where
  "step_keys INSTRUCTION_STEP = [''id'', ''type'', ''prompt'', ''next'']"
| "step_keys CONDITION_STEP = [''id'', ''type'', ''predicate'', ''on_true'', ''on_false'']"
| "step_keys PROPOSE_EFFECT_STEP = [''id'', ''type'', ''effect_kind'', ''next'']"
| "step_keys COMPLETE_STEP = [''id'', ''type'']"

definition json_text_item :: "frozen_json \<Rightarrow> string \<Rightarrow> string \<Rightarrow> nat \<Rightarrow> string result" where
  "json_text_item raw key field maximum =
     bindR (json_item raw key) (\<lambda>v. json_string v field maximum)"

definition bare_step :: "string \<Rightarrow> WorkflowStepType \<Rightarrow> WorkflowStep" where
  "bare_step i t = \<lparr>ws_step_id = i, ws_step_type = t, ws_prompt = None, ws_next_step = None,
     ws_predicate = None, ws_on_true = None, ws_on_false = None, ws_effect_kind = None\<rparr>"

definition step_of_mapping :: "WorkflowStepType \<Rightarrow> frozen_json \<Rightarrow> WorkflowStep result" where
  "step_of_mapping t raw =
     bindR (json_text_item raw ''id'' ''workflow step id'' 128) (\<lambda>step_id.
     case t of
       INSTRUCTION_STEP \<Rightarrow>
         bindR (json_text_item raw ''prompt'' ''workflow prompt selector'' 32) (\<lambda>prompt.
         bindR (json_text_item raw ''next'' ''workflow next step'' 128) (\<lambda>next_step.
         WorkflowStep_init ((bare_step step_id t)
           \<lparr>ws_prompt := Some prompt, ws_next_step := Some next_step\<rparr>)))
     | CONDITION_STEP \<Rightarrow>
         bindR (json_text_item raw ''predicate'' ''workflow predicate'' 64) (\<lambda>predicate.
         bindR (json_text_item raw ''on_true'' ''workflow true branch'' 128) (\<lambda>on_true.
         bindR (json_text_item raw ''on_false'' ''workflow false branch'' 128) (\<lambda>on_false.
         WorkflowStep_init ((bare_step step_id t)
           \<lparr>ws_predicate := Some predicate, ws_on_true := Some on_true, ws_on_false := Some on_false\<rparr>))))
     | PROPOSE_EFFECT_STEP \<Rightarrow>
         bindR (json_text_item raw ''effect_kind'' ''workflow effect kind'' 64) (\<lambda>effect_kind.
         bindR (json_text_item raw ''next'' ''workflow next step'' 128) (\<lambda>next_step.
         WorkflowStep_init ((bare_step step_id t)
           \<lparr>ws_effect_kind := Some effect_kind, ws_next_step := Some next_step\<rparr>)))
     | COMPLETE_STEP \<Rightarrow> WorkflowStep_init (bare_step step_id t))"

definition workflow_step :: "json \<Rightarrow> WorkflowStep result" where
  "workflow_step value =
     (case value of
        JObj entries \<Rightarrow>
          (case map_of entries ''type'' of
             Some (JStr type_text) \<Rightarrow>
               (case step_type_of type_text of
                  None \<Rightarrow> Inl (CoreInvariantError ''workflow step type is unsupported'')
                | Some t \<Rightarrow> bindR (json_mapping value ''workflow step'' (step_keys t)) (step_of_mapping t))
           | _ \<Rightarrow> Inl (CoreInvariantError ''workflow step must be an object with an explicit type''))
      | _ \<Rightarrow> Inl (CoreInvariantError ''workflow step must be an object with an explicit type''))"

text \<open>The schema and its version, compared as Python does: a boolean is not an \<^verbatim>\<open>int\<close> here.\<close>

definition schema_supported :: "json \<Rightarrow> json \<Rightarrow> bool" where
  "schema_supported schema version =
     (schema = JStr AGENT_PACKAGE_SCHEMA \<and> version = JInt AGENT_PACKAGE_SCHEMA_VERSION)"

definition agent_package_from_mapping :: "json \<Rightarrow> AgentPackage result" where
  "agent_package_from_mapping value =
     bindR (json_mapping value ''AgentPackage''
       [''schema'', ''schema_version'', ''metadata'', ''content'', ''content_digest'']) (\<lambda>root.
     bindR (json_item root ''schema'') (\<lambda>schema.
     bindR (json_item root ''schema_version'') (\<lambda>version.
     checks
       [raise_if (\<not> schema_supported schema version)
          (CoreInvariantError ''AgentPackage schema or version is unsupported'')]
     (bindR (json_item root ''metadata'') (\<lambda>m.
      bindR (json_mapping m ''metadata'' [''package_id'', ''version'', ''runtime_api'', ''display'']) (\<lambda>metadata.
      bindR (json_item metadata ''display'') (\<lambda>d.
      bindR (json_mapping d ''metadata.display'' LOCALES) (\<lambda>display.
      bindR (json_item root ''content'') (\<lambda>c.
      bindR (json_mapping c ''content'' [''prompts'', ''requested_capabilities'', ''workflow'']) (\<lambda>content.
      bindR (json_item content ''prompts'') (\<lambda>ps.
      bindR (json_mapping ps ''content.prompts'' LOCALES) (\<lambda>prompts.
      bindR (json_item content ''requested_capabilities'') (\<lambda>cs.
      bindR (json_sequence cs ''requested_capabilities'') (\<lambda>capability_values.
      bindR (mapR (\<lambda>v. json_string v ''requested capability'' 64) capability_values) (\<lambda>capabilities.
      bindR (json_item content ''workflow'') (\<lambda>wf.
      bindR (json_mapping wf ''workflow'' [''entrypoint'', ''steps'']) (\<lambda>workflow.
      bindR (json_item workflow ''steps'') (\<lambda>ss.
      bindR (json_sequence ss ''workflow.steps'') (\<lambda>step_values.
      bindR (mapR workflow_step step_values) (\<lambda>steps.
      bindR (json_text_item metadata ''package_id'' ''package_id'' 128) (\<lambda>package_id.
      bindR (json_text_item metadata ''version'' ''version'' 32) (\<lambda>version_text.
      bindR (json_text_item metadata ''runtime_api'' ''runtime_api'' 16) (\<lambda>runtime_api.
      bindR (json_item display ''en-US'') (\<lambda>den.
      bindR (localized_display den ''en-US'') (\<lambda>display_en_us.
      bindR (json_item display ''zh-TW'') (\<lambda>dzh.
      bindR (localized_display dzh ''zh-TW'') (\<lambda>display_zh_tw.
      bindR (json_text_item prompts ''en-US'' ''en-US prompt'' PROMPT_MAX_CHARACTERS) (\<lambda>prompt_en_us.
      bindR (json_text_item prompts ''zh-TW'' ''zh-TW prompt'' PROMPT_MAX_CHARACTERS) (\<lambda>prompt_zh_tw.
      bindR (json_text_item workflow ''entrypoint'' ''workflow entrypoint'' 128) (\<lambda>entrypoint.
      bindR (DeclarativeWorkflow_init \<lparr>dw_entrypoint = entrypoint, dw_steps = steps\<rparr>) (\<lambda>flow.
      bindR (json_text_item root ''content_digest'' ''content_digest'' 71) (\<lambda>content_digest.
      AgentPackage_init
        \<lparr>pk_package_id = package_id, pk_version = version_text, pk_display_en_us = display_en_us,
         pk_display_zh_tw = display_zh_tw, pk_prompt_en_us = prompt_en_us,
         pk_prompt_zh_tw = prompt_zh_tw, pk_requested_capabilities = capabilities,
         pk_workflow = flow, pk_content_digest = content_digest, pk_schema = AGENT_PACKAGE_SCHEMA,
         pk_schema_version = AGENT_PACKAGE_SCHEMA_VERSION, pk_runtime_api = runtime_api\<rparr>))))))))))))))))))))))))))))))))"

end
