(* ===== verification/PackageWorkflow.thy ===== *)
theory PackageWorkflow
  imports AgentPackage Namespaces
begin

text \<open>
  The workflow check of a package against the graph of its steps: what \<^verbatim>\<open>walk\<close> accepts, and
  that every path through an accepted workflow completes.
\<close>

section \<open>The graph of the steps\<close>

definition flow :: "(string \<rightharpoonup> WorkflowStep) \<Rightarrow> (string \<times> string) set" where
  "flow b = {(x, y). \<exists>s. b x = Some s \<and> y \<in> set (outgoing s)}"

definition reached :: "(string \<rightharpoonup> WorkflowStep) \<Rightarrow> string \<Rightarrow> string set" where
  "reached b x = (flow b)\<^sup>* `` {x}"

text \<open>\<open>short_from b x d\<close>: a path of \<open>d\<close> steps that has come to \<open>x\<close> stays within the depth.\<close>

definition short_from :: "(string \<rightharpoonup> WorkflowStep) \<Rightarrow> string \<Rightarrow> nat \<Rightarrow> bool" where
  "short_from b x d \<longleftrightarrow> (\<forall>k y. (x, y) \<in> flow b ^^ k \<longrightarrow> d + k \<le> WORKFLOW_MAX_DEPTH)"

definition completes :: "(string \<rightharpoonup> WorkflowStep) \<Rightarrow> string \<Rightarrow> bool" where
  "completes b y \<longleftrightarrow> (\<exists>s. b y = Some s \<and> (outgoing s = [] \<longrightarrow> ws_step_type s = COMPLETE_STEP))"

definition walkable :: "(string \<rightharpoonup> WorkflowStep) \<Rightarrow> string \<Rightarrow> nat \<Rightarrow> string set \<Rightarrow> bool" where
  "walkable b x d V \<longleftrightarrow> short_from b x d \<and> reached b x \<inter> V = {} \<and> (\<forall>y \<in> reached b x. completes b y)"

lemma reached_refl [simp]: "x \<in> reached b x"
  by (simp add: reached_def)

lemma reached_step:
  assumes "b x = Some s"
  shows "reached b x = insert x (\<Union>y \<in> set (outgoing s). reached b y)"
proof -
  have "(x, z) \<in> (flow b)\<^sup>* \<longleftrightarrow> z = x \<or> (\<exists>y \<in> set (outgoing s). (y, z) \<in> (flow b)\<^sup>*)" for z
    using assms by (subst rtrancl_eq_or_trancl) (auto simp: trancl_unfold_left flow_def)
  then show ?thesis by (auto simp: reached_def)
qed

lemma short_from_step:
  assumes "b x = Some s"
  shows "short_from b x d \<longleftrightarrow> d \<le> WORKFLOW_MAX_DEPTH \<and> (\<forall>y \<in> set (outgoing s). short_from b y (d + 1))"
proof
  assume short: "short_from b x d"
  have "d \<le> WORKFLOW_MAX_DEPTH"
    using short unfolding short_from_def by (metis add_0_right relpow_0_I)
  moreover have "short_from b y (d + 1)" if "y \<in> set (outgoing s)" for y
    unfolding short_from_def
  proof (intro allI impI)
    fix k z assume "(y, z) \<in> flow b ^^ k"
    then have "(x, z) \<in> flow b ^^ Suc k" using assms that by (intro relpow_Suc_I2) (auto simp: flow_def)
    with short show "d + 1 + k \<le> WORKFLOW_MAX_DEPTH" unfolding short_from_def by fastforce
  qed
  ultimately show "d \<le> WORKFLOW_MAX_DEPTH \<and> (\<forall>y \<in> set (outgoing s). short_from b y (d + 1))" by blast
next
  assume r: "d \<le> WORKFLOW_MAX_DEPTH \<and> (\<forall>y \<in> set (outgoing s). short_from b y (d + 1))"
  show "short_from b x d" unfolding short_from_def
  proof (intro allI impI)
    fix k z assume path: "(x, z) \<in> flow b ^^ k"
    show "d + k \<le> WORKFLOW_MAX_DEPTH"
    proof (cases k)
      case (Suc j)
      with path obtain y where "(x, y) \<in> flow b" "(y, z) \<in> flow b ^^ j" by (blast dest: relpow_Suc_D2)
      with assms r Suc show ?thesis unfolding short_from_def by (fastforce simp: flow_def)
    qed (use r in simp)
  qed
qed

lemma short_from_acyclic:
  assumes "short_from b x d" shows "(x, x) \<notin> (flow b)\<^sup>+"
proof
  assume "(x, x) \<in> (flow b)\<^sup>+"
  then obtain n where n: "0 < n" "(x, x) \<in> flow b ^^ n" by (auto simp: trancl_power)
  have "(x, x) \<in> flow b ^^ (n * m)" for m
    by (induction m) (use n(2) in \<open>auto simp: relpow_add relcomp_unfold\<close>)
  then have "d + n * Suc WORKFLOW_MAX_DEPTH \<le> WORKFLOW_MAX_DEPTH"
    using assms unfolding short_from_def by blast
  moreover have "Suc WORKFLOW_MAX_DEPTH \<le> n * Suc WORKFLOW_MAX_DEPTH"
    using mult_le_mono1 [of 1 n "Suc WORKFLOW_MAX_DEPTH"] n(1) by (simp only: mult_1)
  ultimately show False by (meson add_leD2 le_trans not_less_eq_eq order_refl)
qed

lemma walkable_step:
  assumes "b x = Some s"
  shows "walkable b x d V \<longleftrightarrow> d \<le> WORKFLOW_MAX_DEPTH \<and> x \<notin> V \<and>
    (outgoing s = [] \<longrightarrow> ws_step_type s = COMPLETE_STEP) \<and>
    (\<forall>y \<in> set (outgoing s). walkable b y (d + 1) (insert x V))"
proof -
  have "x \<notin> reached b y" if "short_from b x d" "y \<in> set (outgoing s)" for y
  proof
    assume "x \<in> reached b y"
    with that(2) assms have "(x, x) \<in> (flow b)\<^sup>+"
      by (auto simp: reached_def flow_def intro: rtrancl_into_trancl2)
    with short_from_acyclic [OF that(1)] show False ..
  qed
  then show ?thesis
    unfolding walkable_def reached_step [of b x, OF assms] short_from_step [of b x, OF assms]
    using assms by (auto simp: completes_def)
qed

lemma walkable_None: "b x = None \<Longrightarrow> \<not> walkable b x d V"
  by (auto simp: walkable_def completes_def intro!: bexI [of _ x])

lemma walk_iff:
  "d = t \<Longrightarrow> walk b x d t st = Inr st' \<longleftrightarrow>
     walkable b x d (fst st) \<and> st' = (fst st, snd st \<union> reached b x)"
  and walk_each_iff:
  "d = t \<Longrightarrow> walk_each b xs d t st = Inr st' \<longleftrightarrow>
     (\<forall>x \<in> set xs. walkable b x d (fst st)) \<and> st' = (fst st, snd st \<union> (\<Union>x \<in> set xs. reached b x))"
proof (induction b x d t st and b xs d t st arbitrary: st' and st' rule: walk_walk_each.induct)
  case (1 b x d t V R)
  show ?case
  proof (cases "b x")
    case None
    then show ?thesis by (simp add: walk.simps walkable_None)
  next
    case (Some s)
    consider "d \<le> WORKFLOW_MAX_DEPTH" "x \<notin> V" "outgoing s = [] \<longrightarrow> ws_step_type s = COMPLETE_STEP"
      | "\<not> (d \<le> WORKFLOW_MAX_DEPTH \<and> x \<notin> V \<and> (outgoing s = [] \<longrightarrow> ws_step_type s = COMPLETE_STEP))"
      by blast
    then show ?thesis
    proof cases
      case 1
      then have "\<not> (WORKFLOW_MAX_DEPTH < d \<or> WORKFLOW_MAX_STEPS < t)" "d + 1 = t + 1"
        using "1.prems" by (auto simp: package_bounds)
      moreover have "\<not> (outgoing s = [] \<and> ws_step_type s \<noteq> COMPLETE_STEP)" using 1(3) by blast
      ultimately have IH: "walk_each b (outgoing s) (Suc t) (Suc t) (insert x V, insert x R) = Inr st2 \<longleftrightarrow>
          (\<forall>y \<in> set (outgoing s). walkable b y (Suc t) (insert x V)) \<and>
          st2 = (insert x V, insert x R \<union> (\<Union>y \<in> set (outgoing s). reached b y))" for st2
        using "1.IH" 1(2) Some "1.prems" by simp
      show ?thesis
        unfolding walkable_step [of b x, OF Some] walk.simps reached_step [of b x, OF Some]
        using 1 "1.prems" Some by (auto simp: IH bindR_eq_Inr package_bounds)
    qed (auto simp: walk.simps walkable_step [of b x, OF Some] Some "1.prems")
  qed
next
  case (3 b x xs d t st)
  note first = "3.IH"(1) [OF "3.prems"]
  let ?s1 = "(fst st, snd st \<union> reached b x)"
  show ?case
  proof (cases "walkable b x d (fst st)")
    case True
    then have "walk b x d t st = Inr ?s1" by (simp add: first)
    with "3.IH"(2) [OF this "3.prems"] True show ?thesis by (simp add: Un_assoc)
  qed (simp add: bindR_eq_Inr first)
qed (auto simp: prod_eq_iff)

section \<open>Constructed steps and workflows\<close>

lemma WorkflowStep_init_eq: "WorkflowStep_init s = Inr s' \<Longrightarrow> s' = s"
  by (simp add: WorkflowStep_init_def checks_ok)

interpretation workflow_step: replayable WorkflowStep_init
  by unfold_locales (use WorkflowStep_init_eq in fastforce)

lemma valid_step_outgoing:
  assumes "workflow_step.valid s"
  shows "length (outgoing s) \<le> WORKFLOW_MAX_BRANCHES" and "outgoing s = [] \<longleftrightarrow> ws_step_type s = COMPLETE_STEP"
  using assms
  by (cases "ws_step_type s"; auto simp: workflow_step.valid_def WorkflowStep_init_def outgoing_def
      checks_ok ok_simps WORKFLOW_MAX_BRANCHES_def)+

text \<open>The edges of a workflow as its steps list them.\<close>

definition edges_of :: "WorkflowStep list \<Rightarrow> (string \<times> string) set" where
  "edges_of steps = {(ws_step_id s, t) | s t. s \<in> set steps \<and> t \<in> set (outgoing s)}"

lemma workflow_by_id_iff:
  "distinct (map ws_step_id steps) \<Longrightarrow>
     workflow_by_id steps i = Some s \<longleftrightarrow> s \<in> set steps \<and> ws_step_id s = i"
  unfolding workflow_by_id_def using map_of_by_key [of ws_step_id steps i s]
  by (subst map_of_eq_Some_iff) (auto simp: by_key_def rev_map [symmetric] o_def)

lemma flow_by_id: "distinct (map ws_step_id steps) \<Longrightarrow> flow (workflow_by_id steps) = edges_of steps"
  by (auto simp: flow_def edges_of_def workflow_by_id_iff)

lemma DeclarativeWorkflow_init_iff:
  assumes "\<forall>s \<in> set (dw_steps w). workflow_step.valid s"
  shows "DeclarativeWorkflow_init w = Inr w' \<longleftrightarrow> w' = w \<and> matches_id (dw_entrypoint w) \<and>
    dw_steps w \<noteq> [] \<and> length (dw_steps w) \<le> WORKFLOW_MAX_NODES \<and> distinct (map ws_step_id (dw_steps w)) \<and>
    (edges_of (dw_steps w))\<^sup>* `` {dw_entrypoint w} = ws_step_id ` set (dw_steps w) \<and>
    (\<forall>k x. (dw_entrypoint w, x) \<in> edges_of (dw_steps w) ^^ k \<longrightarrow> k < WORKFLOW_MAX_DEPTH)"
    (is "?L \<longleftrightarrow> ?R")
proof (cases "distinct (map ws_step_id (dw_steps w))")
  case True
  let ?b = "workflow_by_id (dw_steps w)" and ?e = "dw_entrypoint w" and ?ids = "ws_step_id ` set (dw_steps w)"
  have completes: "completes ?b x \<longleftrightarrow> x \<in> ?ids" for x
    using assms valid_step_outgoing(2) by (auto simp: completes_def workflow_by_id_iff [OF True])
  have branches: "\<not> list_ex (\<lambda>s. length (outgoing s) > WORKFLOW_MAX_BRANCHES) (dw_steps w)"
    using assms valid_step_outgoing(1) by (fastforce simp: list_ex_iff)
  have short: "short_from ?b ?e 1 \<longleftrightarrow> (\<forall>k x. (?e, x) \<in> edges_of (dw_steps w) ^^ k \<longrightarrow> k < WORKFLOW_MAX_DEPTH)"
    by (auto simp: short_from_def flow_by_id [OF True] Suc_le_eq)
  have reach: "reached ?b ?e = (edges_of (dw_steps w))\<^sup>* `` {?e}"
    by (simp add: reached_def flow_by_id [OF True])
  have known: "t \<in> ?ids" if all: "(edges_of (dw_steps w))\<^sup>* `` {?e} = ?ids"
    and s: "s \<in> set (dw_steps w)" "t \<in> set (outgoing s)" for s t
  proof -
    from all s(1) have "(?e, ws_step_id s) \<in> (edges_of (dw_steps w))\<^sup>*" by blast
    moreover from s have "(ws_step_id s, t) \<in> edges_of (dw_steps w)" by (auto simp: edges_of_def)
    ultimately show ?thesis using all by (blast intro: rtrancl_into_rtrancl)
  qed
  have "?L \<longleftrightarrow> w' = w \<and> matches_id ?e \<and> dw_steps w \<noteq> [] \<and> length (dw_steps w) \<le> WORKFLOW_MAX_NODES \<and>
      ?e \<in> ?ids \<and> (\<forall>s \<in> set (dw_steps w). \<forall>t \<in> set (outgoing s). t \<in> ?ids) \<and>
      walkable ?b ?e 1 {} \<and> reached ?b ?e = ?ids"
    using True branches
    by (auto simp: DeclarativeWorkflow_init_def Let_def ok_simps walk_iff list_ex_iff Suc_le_eq)
  also have "\<dots> \<longleftrightarrow> ?R"
    using True known reached_refl [of ?e ?b]
    by (auto simp: walkable_def completes short [unfolded One_nat_def] reach)
  finally show ?thesis .
qed (auto simp: DeclarativeWorkflow_init_def Let_def ok_simps)

interpretation declarative_workflow: replayable DeclarativeWorkflow_init
  by unfold_locales (auto simp: DeclarativeWorkflow_init_def Let_def ok_simps)

section \<open>The properties\<close>

definition acme_step :: "string \<Rightarrow> string \<Rightarrow> WorkflowStep" where
  "acme_step i next_id = (bare_step i INSTRUCTION_STEP)\<lparr>ws_prompt := Some ''primary'', ws_next_step := Some next_id\<rparr>"

definition acme_flow :: DeclarativeWorkflow where
  "acme_flow = \<lparr>dw_entrypoint = ''ask'', dw_steps =
     [acme_step ''ask'' ''check'',
      (bare_step ''check'' CONDITION_STEP)\<lparr>ws_predicate := Some ''effect_is_allowed'',
        ws_on_true := Some ''send'', ws_on_false := Some ''end''\<rparr>,
      (bare_step ''send'' PROPOSE_EFFECT_STEP)\<lparr>ws_effect_kind := Some ''notification'',
        ws_next_step := Some ''end''\<rparr>,
      bare_step ''end'' COMPLETE_STEP]\<rparr>"

lemmas acme_flow_defs = acme_flow_def acme_step_def bare_step_def outgoing_def

lemma acme_flow_steps: "\<forall>s \<in> set (dw_steps acme_flow). workflow_step.valid s"
  by (simp add: acme_flow_defs workflow_step.valid_def WorkflowStep_init_def ok_simps
      id_head_def id_tail_def allowed_def ALLOWED_PREDICATES_def ALLOWED_EFFECT_KINDS_def)

lemma edges_of_simps: "edges_of [] = {}"
  "edges_of (s # ss) = Pair (ws_step_id s) ` set (outgoing s) \<union> edges_of ss"
  by (auto simp: edges_of_def)

lemma acme_flow_edges: "edges_of (dw_steps acme_flow) =
    {(''ask'', ''check''), (''check'', ''send''), (''check'', ''end''), (''send'', ''end'')}"
  by (simp add: acme_flow_defs edges_of_simps insert_commute)

lemma acme_flow_accepted: "DeclarativeWorkflow_init acme_flow = Inr acme_flow"
  by (simp add: DeclarativeWorkflow_init_def acme_flow_defs ok_simps id_head_def id_tail_def
      package_bounds walk.simps workflow_by_id_def by_key_def insert_commute)

text \<open>C32. The workflow check accepts exactly the finite, connected, bounded graphs: given
  constructed steps, \<open>DeclarativeWorkflow\<close> returns if and only if the entry point is a stable ID,
  there are 1 to 32 steps with distinct IDs, the steps reachable from the entry point are exactly
  the declared ones, and no path from it has eight edges or more (so there is no cycle).\<close>

theorem workflow_accepted_iff:
  assumes "\<forall>s \<in> set (dw_steps w). workflow_step.valid s"
  shows "returns (DeclarativeWorkflow_init w) \<longleftrightarrow> matches_id (dw_entrypoint w) \<and>
    dw_steps w \<noteq> [] \<and> length (dw_steps w) \<le> WORKFLOW_MAX_NODES \<and> distinct (map ws_step_id (dw_steps w)) \<and>
    (edges_of (dw_steps w))\<^sup>* `` {dw_entrypoint w} = ws_step_id ` set (dw_steps w) \<and>
    (\<forall>k x. (dw_entrypoint w, x) \<in> edges_of (dw_steps w) ^^ k \<longrightarrow> k < WORKFLOW_MAX_DEPTH)"
  using DeclarativeWorkflow_init_iff [OF assms] by (auto simp: returns_iff)

theorem workflow_accepted_iff_witness:
  "(edges_of (dw_steps acme_flow))\<^sup>* `` {''ask''} = {''ask'', ''check'', ''send'', ''end''}"
  using workflow_accepted_iff [OF acme_flow_steps]
  by (simp add: acme_flow_accepted) (simp add: acme_flow_defs)

text \<open>C33. Every run through an accepted workflow ends in a complete step: whatever branches are
  taken, after at most seven moves from the entry point there is no further move, and a step
  without a further move is a declared complete step.\<close>

theorem workflow_runs_complete:
  assumes "\<forall>s \<in> set (dw_steps w). workflow_step.valid s" and "returns (DeclarativeWorkflow_init w)"
    and "(dw_entrypoint w, x) \<in> edges_of (dw_steps w) ^^ k"
  shows "k \<le> 7 \<and> (\<exists>s \<in> set (dw_steps w). ws_step_id s = x \<and>
    (ws_step_type s = COMPLETE_STEP \<longleftrightarrow> (\<nexists>y. (x, y) \<in> edges_of (dw_steps w))))"
proof -
  from assms(2) DeclarativeWorkflow_init_iff [OF assms(1)]
  have w: "distinct (map ws_step_id (dw_steps w))"
      "(edges_of (dw_steps w))\<^sup>* `` {dw_entrypoint w} = ws_step_id ` set (dw_steps w)"
      "k < WORKFLOW_MAX_DEPTH"
    using assms(3) by (auto simp: returns_iff)
  from assms(3) have "(dw_entrypoint w, x) \<in> (edges_of (dw_steps w))\<^sup>*" by (rule relpow_imp_rtrancl)
  with w(2) have "x \<in> ws_step_id ` set (dw_steps w)" by blast
  then obtain s where s: "s \<in> set (dw_steps w)" "ws_step_id s = x" by blast
  have "(\<nexists>y. (x, y) \<in> edges_of (dw_steps w)) \<longleftrightarrow> outgoing s = []"
    using s w(1) by (cases "outgoing s") (fastforce simp: edges_of_def distinct_map inj_on_def)+
  with s w(3) assms(1) valid_step_outgoing(2) show ?thesis by (auto simp: WORKFLOW_MAX_DEPTH_def)
qed

theorem workflow_runs_complete_witness:
  "\<exists>s \<in> set (dw_steps acme_flow). ws_step_id s = ''end'' \<and> ws_step_type s = COMPLETE_STEP"
proof -
  have path: "(dw_entrypoint acme_flow, ''end'') \<in> edges_of (dw_steps acme_flow) ^^ 2"
    unfolding acme_flow_edges by (auto simp: acme_flow_def numeral_2_eq_2 relcomp_unfold)
  from workflow_runs_complete [OF acme_flow_steps _ path]
  show ?thesis by (auto simp: acme_flow_accepted acme_flow_edges)
qed

end
