(* ===== verification/PackageRoundTrip.thy ===== *)
theory PackageRoundTrip
  imports PackageWorkflow
begin

text \<open>
  Writing a package as JSON and parsing it again: what survives the exact parser.
\<close>

lemma json_string_ok [ok_simps]:
  "json_string v f m = Inr s \<longleftrightarrow> v = JStr s \<and> s \<noteq> [] \<and> strip s = s \<and> length s \<le> m"
  by (auto simp: json_string_def split: json.splits if_splits)

interpretation localized_display: replayable LocalizedDisplay_init
  by unfold_locales (auto simp: LocalizedDisplay_init_def ok_simps)

interpretation agent_package: replayable AgentPackage_init
  by unfold_locales (auto simp: AgentPackage_init_def ok_simps)

text \<open>A package whose parts were constructed before it was.\<close>

definition constructed :: "AgentPackage \<Rightarrow> bool" where
  "constructed p \<longleftrightarrow> agent_package.valid p \<and> localized_display.valid (pk_display_en_us p) \<and>
     localized_display.valid (pk_display_zh_tw p) \<and> declarative_workflow.valid (pk_workflow p) \<and>
     (\<forall>s \<in> set (dw_steps (pk_workflow p)). workflow_step.valid s)"

section \<open>Texts without white space\<close>

lemma numeric_no_space: "numeric_char c \<Longrightarrow> \<not> py_space c"
  by (auto simp: numeric_char_def py_space_def)

lemma zero_dot_no_space [simp]: "\<not> py_space (CHR ''0'')" "\<not> py_space (CHR ''.'')"
  by (simp_all add: py_space_def)

lemma hex_no_space: "hex_char c \<Longrightarrow> \<not> py_space c"
  by (auto simp: hex_char_def py_space_def)

lemma stable_id_text:
  assumes "matches_id s" shows "json_string (JStr s) f 128 = Inr s"
proof (cases s)
  case (Cons c cs)
  with assms have "list_all (\<lambda>c. \<not> py_space c) s"
    by (auto simp: list_all_iff id_tail_no_space id_tail_def)
  with Cons assms show ?thesis by (auto simp: ok_simps strip_no_space)
qed (use assms in simp)

lemma dot_parts_Cons: "dot_parts s \<noteq> []"
  by (induction s) (auto split: list.splits)

lemma dot_parts_length: "length s + 1 = sum_list (map length (dot_parts s)) + length (dot_parts s)"
  by (induction s) (auto simp: dot_parts_Cons split: list.splits)

lemma dot_parts_set: "set s \<subseteq> insert (CHR ''.'') (\<Union> (set ` set (dot_parts s)))"
proof (induction s)
  case (Cons c s)
  then show ?case by (cases "dot_parts s") (auto simp: dot_parts_Cons)
qed simp

lemma numeric_part_text: "numeric_part p \<Longrightarrow> length p \<le> 9 \<and> list_all (\<lambda>c. \<not> py_space c) p"
proof (cases p)
  case (Cons c cs)
  moreover assume "numeric_part p"
  ultimately have "numeric_char c \<or> p = ''0''" "list_all numeric_char cs" "length cs \<le> 8"
    by (auto split: if_splits)
  with Cons show ?thesis by (auto simp: list_all_iff numeric_no_space)
qed simp

lemma version_text:
  assumes "matches_version v" shows "json_string (JStr v) f 32 = Inr v"
proof -
  obtain a b c where p: "dot_parts v = [a, b, c]" "numeric_part a" "numeric_part b" "numeric_part c"
    using assms by (auto simp: matches_version_def numeral_3_eq_3 length_Suc_conv)
  note n = p(2-4) [THEN numeric_part_text]
  have "\<not> py_space x" if "x \<in> set v" for x
    using dot_parts_set [of v] that n p(1) by (auto simp: list_all_iff py_space_def)
  then have "strip v = v" by (intro strip_no_space) (simp add: list_all_iff)
  moreover have "length v \<le> 32" using dot_parts_length [of v] n p(1) by simp
  moreover have "v \<noteq> []" using p(1) by auto
  ultimately show ?thesis by (simp add: ok_simps)
qed

lemma digest_text:
  assumes "matches_sha256 d" shows "json_string (JStr d) f 71 = Inr d"
proof -
  from assms have d: "take 7 d = ''sha256:''" "length (drop 7 d) = 64" "list_all hex_char (drop 7 d)"
    by (simp_all add: matches_sha256_def)
  have "list_all (\<lambda>c. \<not> py_space c) (take 7 d)" unfolding d(1) by (simp add: py_space_def)
  moreover have "list_all (\<lambda>c. \<not> py_space c) (drop 7 d)"
    using d(3) by (auto simp: list_all_iff hex_no_space)
  ultimately have "list_all (\<lambda>c. \<not> py_space c) (take 7 d @ drop 7 d)" by (simp only: list_all_append)
  then have "strip d = d" by (simp only: append_take_drop_id strip_no_space)
  moreover have "d \<noteq> []" "length d \<le> 71" using d(2) by auto
  ultimately show ?thesis by (simp add: ok_simps)
qed

section \<open>Parsing what was written\<close>

lemma json_text_item_ok: "json_text_item raw k f m = (case map_of raw k of
    None \<Rightarrow> Inl (KeyError k) | Some v \<Rightarrow> json_string v f m)"
  by (simp add: json_text_item_def json_item_def split: option.splits)

lemma localized_display_roundtrip:
  assumes "localized_display.valid d"
  shows "localized_display (LocalizedDisplay_to_data d) l = Inr d"
proof -
  from assms have "json_string (JStr (ld_name d)) f 128 = Inr (ld_name d)"
      "json_string (JStr (ld_summary d)) f 512 = Inr (ld_summary d)" for f
    by (auto simp: localized_display.valid_def LocalizedDisplay_init_def ok_simps)
  with assms show ?thesis
    by (cases d) (simp add: localized_display_def LocalizedDisplay_to_data_def json_mapping_def json_item_def
        localized_display.valid_def)
qed

lemma step_type_of_value [simp]:
  "step_type_of ''instruction'' = Some INSTRUCTION_STEP" "step_type_of ''condition'' = Some CONDITION_STEP"
  "step_type_of ''propose_effect'' = Some PROPOSE_EFFECT_STEP" "step_type_of ''complete'' = Some COMPLETE_STEP"
  by (simp_all add: step_type_of_def)

lemma allowed_text:
  assumes "allowed values v" and "values = ALLOWED_PREDICATES \<or> values = ALLOWED_EFFECT_KINDS"
  shows "\<exists>s. v = Some s \<and> (\<forall>f. json_string (JStr s) f 64 = Inr s)"
  using assms
  by (auto simp: allowed_def ALLOWED_PREDICATES_def ALLOWED_EFFECT_KINDS_def ok_simps strip_def lstrip_def
      py_space_def split: option.splits)

lemma workflow_step_roundtrip:
  assumes "workflow_step.valid s" shows "workflow_step (WorkflowStep_to_data s) = Inr s"
proof -
  from assms have i: "matches_id (ws_step_id s)"
    by (auto simp: workflow_step.valid_def WorkflowStep_init_def ok_simps)
  have primary: "json_string (JStr ''primary'') f 32 = Inr ''primary''" for f
    by (simp add: ok_simps strip_def lstrip_def py_space_def)
  note read = workflow_step_def WorkflowStep_to_data_def json_mapping_def step_of_mapping_def
    json_text_item_ok json_opt_def bare_step_def
  show ?thesis
  proof (cases "ws_step_type s")
    case INSTRUCTION_STEP
    with assms obtain n where n: "ws_prompt s = Some ''primary''" "ws_next_step s = Some n" "matches_id n"
        "ws_predicate s = None" "ws_on_true s = None" "ws_on_false s = None" "ws_effect_kind s = None"
      by (auto simp: workflow_step.valid_def WorkflowStep_init_def ok_simps)
    with assms show ?thesis
      using INSTRUCTION_STEP n i by (cases s) (simp add: read primary stable_id_text workflow_step.valid_def)
  next
    case CONDITION_STEP
    with assms obtain q a b where n: "ws_predicate s = Some q" "\<And>f. json_string (JStr q) f 64 = Inr q"
        "ws_on_true s = Some a" "matches_id a" "ws_on_false s = Some b" "matches_id b"
        "ws_prompt s = None" "ws_next_step s = None" "ws_effect_kind s = None"
      by (auto simp: workflow_step.valid_def WorkflowStep_init_def ok_simps dest!: allowed_text)
    with assms show ?thesis
      using CONDITION_STEP n i by (cases s) (simp add: read stable_id_text workflow_step.valid_def)
  next
    case PROPOSE_EFFECT_STEP
    with assms obtain q n where n: "ws_effect_kind s = Some q" "\<And>f. json_string (JStr q) f 64 = Inr q"
        "ws_next_step s = Some n" "matches_id n"
        "ws_prompt s = None" "ws_predicate s = None" "ws_on_true s = None" "ws_on_false s = None"
      by (auto simp: workflow_step.valid_def WorkflowStep_init_def ok_simps dest!: allowed_text)
    with assms show ?thesis
      using PROPOSE_EFFECT_STEP n i by (cases s) (simp add: read stable_id_text workflow_step.valid_def)
  next
    case COMPLETE_STEP
    with assms have "s = bare_step (ws_step_id s) COMPLETE_STEP"
      by (auto simp: workflow_step.valid_def WorkflowStep_init_def ok_simps bare_step_def)
    with assms show ?thesis
      using COMPLETE_STEP i by (cases s) (simp add: read stable_id_text workflow_step.valid_def)
  qed
qed

lemma allowed_capability:
  assumes "c \<in> set ALLOWED_CAPABILITIES" shows "json_string (JStr c) f 64 = Inr c"
  using assms
  by (auto simp: ALLOWED_CAPABILITIES_def ok_simps strip_def lstrip_def py_space_def)

lemma mapR_map: "mapR f (map g xs) = mapR (\<lambda>x. f (g x)) xs"
  by (induction xs) auto

lemma runtime_api_text: "json_string (JStr ''1'') f 16 = Inr ''1''"
  by (simp add: ok_simps strip_def lstrip_def py_space_def)

lemma package_parts:
  assumes "constructed p"
  shows "matches_id (pk_package_id p)" and "matches_version (pk_version p)"
    and "pk_schema p = AGENT_PACKAGE_SCHEMA" and "pk_schema_version p = AGENT_PACKAGE_SCHEMA_VERSION"
    and "pk_runtime_api p = ''1''" and "matches_sha256 (pk_content_digest p)"
    and "mapR (\<lambda>v. json_string v f 64) (map JStr (pk_requested_capabilities p))
      = Inr (pk_requested_capabilities p)"
    and "length (pk_prompt_en_us p) \<le> PROMPT_MAX_CHARACTERS" and "length (pk_prompt_zh_tw p) \<le> PROMPT_MAX_CHARACTERS"
    and "strip (pk_prompt_en_us p) \<noteq> []" and "strip (pk_prompt_zh_tw p) \<noteq> []"
    and "matches_id (dw_entrypoint (pk_workflow p))"
proof -
  from assms have i: "AgentPackage_init p = Inr p" "DeclarativeWorkflow_init (pk_workflow p) = Inr (pk_workflow p)"
    by (simp_all add: constructed_def agent_package.valid_def declarative_workflow.valid_def)
  from i(1) show "matches_id (pk_package_id p)" "matches_version (pk_version p)"
    "pk_schema p = AGENT_PACKAGE_SCHEMA" "pk_schema_version p = AGENT_PACKAGE_SCHEMA_VERSION"
    "pk_runtime_api p = ''1''" "matches_sha256 (pk_content_digest p)"
    "length (pk_prompt_en_us p) \<le> PROMPT_MAX_CHARACTERS" "length (pk_prompt_zh_tw p) \<le> PROMPT_MAX_CHARACTERS"
    "strip (pk_prompt_en_us p) \<noteq> []" "strip (pk_prompt_zh_tw p) \<noteq> []"
    by (auto simp: AgentPackage_init_def ok_simps require_prompt_def RUNTIME_API_VERSION_def)
  from i(1) have "\<forall>c \<in> set (pk_requested_capabilities p). c \<in> set ALLOWED_CAPABILITIES"
    by (auto simp: AgentPackage_init_def ok_simps list_ex_iff)
  then show "mapR (\<lambda>v. json_string v f 64) (map JStr (pk_requested_capabilities p))
      = Inr (pk_requested_capabilities p)"
    unfolding mapR_map by (intro mapR_ok_fix) (auto simp: allowed_capability)
  from i(2) show "matches_id (dw_entrypoint (pk_workflow p))"
    by (auto simp: DeclarativeWorkflow_init_def Let_def ok_simps)
qed

lemma package_parse_eq:
  assumes "constructed p"
  shows "agent_package_from_mapping (AgentPackage_to_data p) =
    bindR (json_string (JStr (pk_prompt_en_us p)) ''en-US prompt'' PROMPT_MAX_CHARACTERS) (\<lambda>_.
    bindR (json_string (JStr (pk_prompt_zh_tw p)) ''zh-TW prompt'' PROMPT_MAX_CHARACTERS) (\<lambda>_. Inr p))"
proof -
  note parts = package_parts [OF assms]
  have steps: "mapR workflow_step (map WorkflowStep_to_data (dw_steps (pk_workflow p))) = Inr (dw_steps (pk_workflow p))"
    using assms unfolding mapR_map by (intro mapR_ok_fix) (auto simp: constructed_def workflow_step_roundtrip)
  have flow: "DeclarativeWorkflow_init \<lparr>dw_entrypoint = dw_entrypoint (pk_workflow p),
      dw_steps = dw_steps (pk_workflow p)\<rparr> = Inr (pk_workflow p)"
    using assms by (cases "pk_workflow p") (simp add: constructed_def declarative_workflow.valid_def)
  have displays: "localized_display (LocalizedDisplay_to_data (pk_display_en_us p)) l = Inr (pk_display_en_us p)"
      "localized_display (LocalizedDisplay_to_data (pk_display_zh_tw p)) l = Inr (pk_display_zh_tw p)" for l
    using assms by (auto simp: constructed_def localized_display_roundtrip)
  have whole: "AgentPackage_init
      \<lparr>pk_package_id = pk_package_id p, pk_version = pk_version p, pk_display_en_us = pk_display_en_us p,
       pk_display_zh_tw = pk_display_zh_tw p, pk_prompt_en_us = pk_prompt_en_us p,
       pk_prompt_zh_tw = pk_prompt_zh_tw p, pk_requested_capabilities = pk_requested_capabilities p,
       pk_workflow = pk_workflow p, pk_content_digest = pk_content_digest p, pk_schema = AGENT_PACKAGE_SCHEMA,
       pk_schema_version = AGENT_PACKAGE_SCHEMA_VERSION, pk_runtime_api = ''1''\<rparr> = Inr p"
    using assms parts(3-5) by (cases p) (simp add: constructed_def agent_package.valid_def)
  note prompt = json_string_ok [THEN iffD1]
  show ?thesis
    by (simp add: agent_package_from_mapping_def AgentPackage_to_data_def json_mapping_def json_item_def
        json_text_item_ok AgentPackage_metadata_data_def AgentPackage_content_data_def
        DeclarativeWorkflow_to_data_def LOCALES_def schema_supported_def json_sequence_def parts steps flow
        displays stable_id_text version_text digest_text runtime_api_text checks_def)
      (cases "json_string (JStr (pk_prompt_en_us p)) ''en-US prompt'' PROMPT_MAX_CHARACTERS";
        cases "json_string (JStr (pk_prompt_zh_tw p)) ''zh-TW prompt'' PROMPT_MAX_CHARACTERS";
        auto simp: whole dest!: prompt)
qed

section \<open>The property\<close>

definition acme_content :: "AgentPackage" where
  "acme_content = \<lparr>pk_package_id = ''notifier'', pk_version = ''1.0.0'',
     pk_display_en_us = \<lparr>ld_name = ''Notifier'', ld_summary = ''Sends notices.''\<rparr>,
     pk_display_zh_tw = \<lparr>ld_name = ''Notifier'', ld_summary = ''Sends notices.''\<rparr>,
     pk_prompt_en_us = ''Notify.'', pk_prompt_zh_tw = ''Notify.'',
     pk_requested_capabilities = [''notify_human''], pk_workflow = acme_flow,
     pk_content_digest = [], pk_schema = AGENT_PACKAGE_SCHEMA,
     pk_schema_version = AGENT_PACKAGE_SCHEMA_VERSION, pk_runtime_api = RUNTIME_API_VERSION\<rparr>"

definition acme_content_bytes :: "8 word list" where
  "acme_content_bytes = projr (canonical_json_bytes (AgentPackage_content_data acme_content))"

definition acme_package :: AgentPackage where
  "acme_package = acme_content\<lparr>pk_content_digest := sha256_digest acme_content_bytes\<rparr>"

lemma sha256_digest_format [simp]: "matches_sha256 (sha256_digest m)"
  by (auto simp: sha256_digest_def matches_sha256_def sha256_hex_def word_hex_def hex_text_hex split: prod.splits)

lemma digest_length: "matches_sha256 d \<Longrightarrow> length d = 71"
  by (auto simp: matches_sha256_def)

lemma utf8_length: "length (utf8 s) \<le> 2 * length s"
  by (induction s) (auto simp: utf8_def utf8_char_def Let_def)

lemma escape_length: "length (concat (map escape_char s)) \<le> 6 * length s"
  by (induction s) (auto simp: escape_char_def Let_def)

lemma plain_text_length:
  assumes "list_all (\<lambda>c. escape_char c = [c]) s" shows "length (string_text s) = length s + 2"
proof -
  from assms have "concat (map escape_char s) = s" by (induction s) auto
  then show ?thesis by (simp add: string_text_def)
qed

lemma acme_canonical:
  "\<exists>v. canonical_value (AgentPackage_content_data acme_content) = Inr v"
  by (simp add: AgentPackage_content_data_def acme_content_def DeclarativeWorkflow_to_data_def acme_flow_defs
      WorkflowStep_to_data_def json_opt_def)

lemma acme_package_small:
  "\<exists>data. canonical_json_bytes (AgentPackage_to_data acme_package) = Inr data \<and> length data \<le> PACKAGE_MAX_BYTES"
proof -
  define d where "d = sha256_digest acme_content_bytes"
  have d: "length (string_text d) \<le> 428"
    using escape_length [of d] digest_length [of d] by (simp add: string_text_def d_def)
  obtain v where v: "canonical_value (AgentPackage_to_data acme_package) = Inr v" "length (json_text v) \<le> 2000"
    using d
    by (simp add: AgentPackage_to_data_def acme_package_def d_def [symmetric] AgentPackage_content_data_def
        AgentPackage_metadata_data_def acme_content_def DeclarativeWorkflow_to_data_def acme_flow_defs
        LocalizedDisplay_to_data_def WorkflowStep_to_data_def json_opt_def)
      (simp add: plain_text_length escape_char_def AGENT_PACKAGE_SCHEMA_def RUNTIME_API_VERSION_def
        AGENT_PACKAGE_SCHEMA_VERSION_def int_text_def decimal.simps)
  then show ?thesis
    using utf8_length [of "json_text v"] by (simp add: canonical_json_bytes_def PACKAGE_MAX_BYTES_def)
qed


lemma acme_package_constructed: "constructed acme_package"
proof -
  obtain v where "canonical_value (AgentPackage_content_data acme_package) = Inr v"
      "acme_content_bytes = utf8 (json_text v)"
    using acme_canonical
    by (auto simp: acme_content_bytes_def canonical_json_bytes_def AgentPackage_content_data_def acme_package_def)
  then have content: "canonical_json_bytes (AgentPackage_content_data acme_package) = Inr acme_content_bytes"
    by (simp add: canonical_json_bytes_def)
  have "AgentPackage_init acme_package = Inr acme_package"
    unfolding AgentPackage_init_def content bindR_Inr
    using acme_package_small
    by (auto simp: acme_package_def acme_content_def ok_simps id_head_def id_tail_def matches_version_def
        numeric_char_def AGENT_PACKAGE_SCHEMA_def RUNTIME_API_VERSION_def AGENT_PACKAGE_SCHEMA_VERSION_def
        require_prompt_def strip_def lstrip_def py_space_def PROMPT_MAX_CHARACTERS_def ALLOWED_CAPABILITIES_def)
  moreover have "LocalizedDisplay_init \<lparr>ld_name = ''Notifier'', ld_summary = ''Sends notices.''\<rparr>
      = Inr \<lparr>ld_name = ''Notifier'', ld_summary = ''Sends notices.''\<rparr>"
    by (simp add: LocalizedDisplay_init_def json_string_def strip_def lstrip_def py_space_def)
  ultimately show ?thesis
    using acme_flow_steps acme_flow_accepted
    by (simp add: constructed_def agent_package.valid_def localized_display.valid_def
        declarative_workflow.valid_def acme_package_def acme_content_def)
qed


end
