(* ===== verification/Deployments.thy ===== *)
theory Deployments
  imports AgentPackage Authority Policy
begin

text \<open>
  \<^verbatim>\<open>core/deployment.py\<close> and \<^verbatim>\<open>application/p11_contracts.py\<close>: package trust, deployment drafts,
  the deployment of a colleague and its lifecycle, and the requests about them.
\<close>

section \<open>States\<close>

datatype PackageTrustState = UNTRUSTED | TRUSTED | REVOKED | LEGACY_PRESERVED

fun PackageTrustState_value :: "PackageTrustState \<Rightarrow> string" where
  "PackageTrustState_value UNTRUSTED = ''untrusted''"
| "PackageTrustState_value TRUSTED = ''trusted''"
| "PackageTrustState_value REVOKED = ''revoked''"
| "PackageTrustState_value LEGACY_PRESERVED = ''legacy_preserved''"

datatype PackageInstallState = NOT_INSTALLED | INSTALLED

datatype AttestationVerification = ATTEST_NOT_APPLICABLE | ATTEST_VERIFIED | ATTEST_FAILED | ATTEST_UNAVAILABLE

datatype DeploymentLifecycle = DL_DRAFT | DL_ACTIVE | DL_PAUSED | DL_BLOCKED | DL_RETIRED

fun DeploymentLifecycle_value :: "DeploymentLifecycle \<Rightarrow> string" where
  "DeploymentLifecycle_value DL_DRAFT = ''draft''"
| "DeploymentLifecycle_value DL_ACTIVE = ''active''"
| "DeploymentLifecycle_value DL_PAUSED = ''paused''"
| "DeploymentLifecycle_value DL_BLOCKED = ''blocked''"
| "DeploymentLifecycle_value DL_RETIRED = ''retired''"

definition all_lifecycles :: "DeploymentLifecycle list" where
  "all_lifecycles = [DL_DRAFT, DL_ACTIVE, DL_PAUSED, DL_BLOCKED, DL_RETIRED]"

datatype DeploymentDraftKind = DK_CREATE | DK_UPGRADE | DK_ROLLBACK

fun DeploymentDraftKind_value :: "DeploymentDraftKind \<Rightarrow> string" where
  "DeploymentDraftKind_value DK_CREATE = ''create''"
| "DeploymentDraftKind_value DK_UPGRADE = ''upgrade''"
| "DeploymentDraftKind_value DK_ROLLBACK = ''rollback''"

datatype DeploymentDraftState = DD_DRAFT | DD_REVIEWED | DD_CONFIRMED | DD_STALE | DD_CANCELLED

fun ALLOWED_LIFECYCLE_TRANSITIONS :: "DeploymentLifecycle \<Rightarrow> DeploymentLifecycle set" where
  "ALLOWED_LIFECYCLE_TRANSITIONS DL_DRAFT = {DL_ACTIVE, DL_RETIRED}"
| "ALLOWED_LIFECYCLE_TRANSITIONS DL_ACTIVE = {DL_PAUSED, DL_BLOCKED, DL_RETIRED}"
| "ALLOWED_LIFECYCLE_TRANSITIONS DL_PAUSED = {DL_ACTIVE, DL_BLOCKED, DL_RETIRED}"
| "ALLOWED_LIFECYCLE_TRANSITIONS DL_BLOCKED = {DL_PAUSED, DL_RETIRED}"
| "ALLOWED_LIFECYCLE_TRANSITIONS DL_RETIRED = {}"

section \<open>Attestations and package records\<close>

record GitHubAttestation =
  gh_verification :: AttestationVerification
  gh_artifact_digest :: string
  gh_signer :: string
  gh_signer_digest :: string
  gh_repository :: string
  gh_workflow :: string
  gh_build_identity :: string
  gh_source_ref :: string
  gh_source_digest :: string
  gh_predicate_type :: string
  gh_verified_at :: datetime

definition attestation_metadata :: "string \<Rightarrow> string \<Rightarrow> unit result" where
  "attestation_metadata value field = raise_if (strip value = [] \<or> length value > 512)
     (CoreInvariantError (field @ '' must be bounded attestation metadata''))"

definition GitHubAttestation_init :: "GitHubAttestation \<Rightarrow> GitHubAttestation result" where
  "GitHubAttestation_init a = checks
     [chk (require_digest (gh_artifact_digest a) ''artifact_digest''),
      chk (require_digest (gh_signer_digest a) ''signer_digest''),
      attestation_metadata (gh_signer a) ''signer'',
      attestation_metadata (gh_repository a) ''repository'',
      attestation_metadata (gh_workflow a) ''workflow'',
      attestation_metadata (gh_build_identity a) ''build_identity'',
      attestation_metadata (gh_source_ref a) ''source_ref'',
      attestation_metadata (gh_source_digest a) ''source_digest'',
      attestation_metadata (gh_predicate_type a) ''predicate_type'',
      chk (require_utc (gh_verified_at a) ''verified_at'')]
     (Inr a)"

record PackageRecord =
  pc_namespace :: Namespace
  pc_package :: AgentPackage
  pc_package_digest :: string
  pc_archive_digest :: string
  pc_source :: PackageSource
  pc_trust_state :: PackageTrustState
  pc_install_state :: PackageInstallState
  pc_attestation :: "GitHubAttestation option"
  pc_created_by :: Principal
  pc_created_at :: datetime
  pc_updated_at :: datetime
  pc_correlation_id :: string
  pc_causation_id :: string
  pc_revision :: int
  pc_schema_version :: int

definition attestation_binding :: "PackageRecord \<Rightarrow> unit result list" where
  "attestation_binding r =
     (if pc_source r = GITHUB_RELEASE
      then [raise_if (map_option gh_verification (pc_attestation r) \<noteq> Some ATTEST_VERIFIED)
              (CoreInvariantError ''GitHub Release package requires verified provenance''),
            raise_if (map_option gh_artifact_digest (pc_attestation r) \<noteq> Some (pc_archive_digest r))
              (CoreInvariantError ''attestation does not bind the exact archive'')]
      else [raise_if (pc_attestation r \<noteq> None)
              (CoreInvariantError ''non-GitHub package cannot carry GitHub attestation'')])"

definition PackageRecord_init :: "PackageRecord \<Rightarrow> PackageRecord result" where
  "PackageRecord_init r = checks
     [chk (require_schema_version (pc_schema_version r)),
      raise_if (ns_scope (pc_namespace r) \<noteq> TENANT)
        (CoreInvariantError ''package record requires a tenant namespace''),
      chk (require_digest (pc_package_digest r) ''package_digest''),
      chk (require_digest (pc_archive_digest r) ''archive_digest'')]
     (bindR (package_digest (pc_package r)) (\<lambda>digest. checks
        ([raise_if (digest \<noteq> pc_package_digest r)
            (CoreInvariantError ''package record digest binding is invalid'')] @
         attestation_binding r @
         [raise_if (pr_kind (pc_created_by r) \<notin> {HUMAN, SERVICE})
            (AuthorizationError ''package creator principal kind is unsupported''),
          require_same_tenant (pc_namespace r) (pr_namespace (pc_created_by r)),
          chk (require_utc (pc_created_at r) ''created_at''),
          chk (require_utc (pc_updated_at r) ''updated_at''),
          raise_if (pc_updated_at r < pc_created_at r)
            (CoreInvariantError ''package update precedes creation''),
          chk (require_stable_id (pc_correlation_id r) ''correlation_id''),
          chk (require_stable_id (pc_causation_id r) ''causation_id''),
          chk (require_revision (pc_revision r) ''revision'')])
        (Inr r)))"

section \<open>Drafts and deployments\<close>

record DeploymentDraft =
  dd_namespace :: Namespace
  dd_draft_id :: string
  dd_kind :: DeploymentDraftKind
  dd_package_id :: string
  dd_package_version :: string
  dd_package_digest :: string
  dd_profile :: Profile
  dd_mandate :: Mandate
  dd_policy :: ColleaguePolicy
  dd_base_deployment_revision :: int
  dd_permission_diff :: frozen_json
  dd_canonical_digest :: string
  dd_state :: DeploymentDraftState
  dd_author :: Principal
  dd_created_at :: datetime
  dd_updated_at :: datetime
  dd_correlation_id :: string
  dd_causation_id :: string
  dd_revision :: int
  dd_schema_version :: int

definition DeploymentDraft_init :: "DeploymentDraft \<Rightarrow> DeploymentDraft result" where
  "DeploymentDraft_init d = checks
     [chk (require_schema_version (dd_schema_version d)),
      require_colleague (dd_namespace d),
      chk (require_stable_id (dd_draft_id d) ''deployment draft id''),
      chk (require_stable_id (dd_package_id d) ''package_id''),
      raise_if (dd_package_version d = []) (CoreInvariantError ''package version is missing''),
      chk (require_digest (dd_package_digest d) ''package_digest''),
      require_exact (dd_namespace d) (pf_namespace (dd_profile d)),
      require_exact (dd_namespace d) (md_namespace (dd_mandate d)),
      require_exact (dd_namespace d) (cp_namespace (dd_policy d)),
      raise_if (cp_mandate_id (dd_policy d) \<noteq> md_mandate_id (dd_mandate d))
        (CoreInvariantError ''deployment Policy does not bind its Mandate''),
      raise_if (dd_base_deployment_revision d < 0)
        (CoreInvariantError ''base deployment revision must be non-negative''),
      chk (require_digest (dd_canonical_digest d) ''canonical_digest''),
      raise_if (pr_kind (dd_author d) \<noteq> HUMAN)
        (AuthorizationError ''deployment draft author must be HUMAN''),
      require_same_tenant (dd_namespace d) (pr_namespace (dd_author d)),
      chk (require_utc (dd_created_at d) ''created_at''),
      chk (require_utc (dd_updated_at d) ''updated_at''),
      raise_if (dd_updated_at d < dd_created_at d)
        (CoreInvariantError ''deployment draft update precedes creation''),
      chk (require_stable_id (dd_correlation_id d) ''correlation_id''),
      chk (require_stable_id (dd_causation_id d) ''causation_id''),
      chk (require_revision (dd_revision d) ''revision'')]
     (Inr d)"

record ColleagueDeployment =
  dp_namespace :: Namespace
  dp_deployment_id :: string
  dp_package_id :: string
  dp_package_version :: string
  dp_package_digest :: string
  dp_profile_id :: string
  dp_profile_revision :: int
  dp_mandate_id :: string
  dp_mandate_revision :: int
  dp_policy_id :: "string option"
  dp_policy_revision :: "int option"
  dp_lifecycle :: DeploymentLifecycle
  dp_execution_host_id :: string
  dp_legacy_manual :: bool
  dp_legacy_policy_unconfirmed :: bool
  dp_updated_by :: Principal
  dp_created_at :: datetime
  dp_updated_at :: datetime
  dp_correlation_id :: string
  dp_causation_id :: string
  dp_revision :: int
  dp_schema_version :: int

text \<open>The reserved \<^verbatim>\<open>future_connection_slot\<close> can only be \<^verbatim>\<open>None\<close> and has no field.\<close>

definition ColleagueDeployment_init :: "ColleagueDeployment \<Rightarrow> ColleagueDeployment result" where
  "ColleagueDeployment_init d = checks
     [chk (require_schema_version (dp_schema_version d)),
      require_colleague (dp_namespace d),
      chk (require_stable_id (dp_deployment_id d) ''deployment_id''),
      raise_if (ns_scope_id (dp_namespace d) \<noteq> Some (dp_deployment_id d))
        (CoreInvariantError ''deployment namespace and identity differ''),
      chk (require_stable_id (dp_package_id d) ''package_id''),
      chk (require_stable_id (dp_profile_id d) ''profile_id''),
      chk (require_stable_id (dp_mandate_id d) ''mandate_id''),
      chk (require_stable_id (dp_execution_host_id d) ''execution_host_id''),
      raise_if (dp_package_version d = [])
        (CoreInvariantError ''deployment package version is missing''),
      chk (require_digest (dp_package_digest d) ''package_digest''),
      chk (require_revision (dp_profile_revision d) ''profile_revision''),
      chk (require_revision (dp_mandate_revision d) ''mandate_revision''),
      raise_if ((dp_policy_id d = None) \<noteq> (dp_policy_revision d = None))
        (CoreInvariantError ''deployment Policy binding is partial''),
      opt_chk (\<lambda>i. require_stable_id i ''policy_id'') (dp_policy_id d),
      opt_chk (\<lambda>v. require_revision v ''policy_revision'') (dp_policy_revision d),
      raise_if (dp_legacy_policy_unconfirmed d \<and> \<not> dp_legacy_manual d)
        (CoreInvariantError ''only a legacy deployment may lack a confirmed Policy''),
      raise_if (pr_kind (dp_updated_by d) \<notin> {HUMAN, SERVICE})
        (AuthorizationError ''deployment actor kind is unsupported''),
      require_same_tenant (dp_namespace d) (pr_namespace (dp_updated_by d)),
      chk (require_utc (dp_created_at d) ''created_at''),
      chk (require_utc (dp_updated_at d) ''updated_at''),
      raise_if (dp_updated_at d < dp_created_at d)
        (CoreInvariantError ''deployment update precedes creation''),
      chk (require_stable_id (dp_correlation_id d) ''correlation_id''),
      chk (require_stable_id (dp_causation_id d) ''causation_id''),
      chk (require_revision (dp_revision d) ''revision'')]
     (Inr d)"

record LifecycleTransitionResult =
  lt_deployment :: ColleagueDeployment
  lt_accepted :: bool
  lt_result :: string
  lt_active_count :: int
  lt_active_limit :: int
  lt_schema_version :: int

definition LifecycleTransitionResult_init ::
  "LifecycleTransitionResult \<Rightarrow> LifecycleTransitionResult result" where
  "LifecycleTransitionResult_init r = checks
     [chk (require_schema_version (lt_schema_version r)),
      raise_if (lt_result r \<notin> {''transition_applied'', ''active_deployment_limit_reached''})
        (CoreInvariantError ''lifecycle result is unsupported''),
      raise_if (\<not> (0 \<le> lt_active_count r \<and> lt_active_count r \<le> lt_active_limit r))
        (CoreInvariantError ''active deployment count is invalid'')]
     (Inr r)"

section \<open>Requests\<close>

record GitHubAttestationPolicy =
  gp_repository :: string
  gp_signer_workflow :: string
  gp_signer_digest :: string
  gp_source_ref :: string
  gp_source_digest :: string
  gp_build_identity :: string

definition GitHubAttestationPolicy_init :: "GitHubAttestationPolicy \<Rightarrow> GitHubAttestationPolicy result" where
  "GitHubAttestationPolicy_init p = checks
     [chk (require_text (gp_repository p) ''repository'' 512),
      chk (require_text (gp_signer_workflow p) ''signer_workflow'' 512),
      chk (require_text (gp_source_ref p) ''source_ref'' 512),
      chk (require_text (gp_build_identity p) ''build_identity'' 512),
      chk (require_digest (gp_signer_digest p) ''signer_digest''),
      chk (require_digest (gp_source_digest p) ''source_digest'')]
     (Inr p)"

record PackageInspection =
  pi_package :: AgentPackage
  pi_package_digest :: string
  pi_archive_digest :: string
  pi_compressed_size :: int
  pi_uncompressed_size :: int
  pi_schema_version :: int

definition PackageInspection_init :: "PackageInspection \<Rightarrow> PackageInspection result" where
  "PackageInspection_init i = checks
     [chk (require_schema_version (pi_schema_version i)),
      chk (require_digest (pi_package_digest i) ''package_digest''),
      chk (require_digest (pi_archive_digest i) ''archive_digest'')]
     (bindR (package_digest (pi_package i)) (\<lambda>digest. checks
        [raise_if (digest \<noteq> pi_package_digest i) (ValueError ''inspection digest binding is invalid''),
         raise_if (min (pi_compressed_size i) (pi_uncompressed_size i) < 1)
           (ValueError ''inspection sizes must be positive'')]
        (Inr i)))"

record PackageRegistrationRequest =
  rr_archive :: "8 word list"
  rr_source :: PackageSource
  rr_expected_archive_digest :: string
  rr_attestation_bundle :: "8 word list option"
  rr_github_policy :: "GitHubAttestationPolicy option"

definition PackageRegistrationRequest_init ::
  "PackageRegistrationRequest \<Rightarrow> PackageRegistrationRequest result" where
  "PackageRegistrationRequest_init r =
     (let github = (rr_source r = GITHUB_RELEASE);
          supplied = (rr_attestation_bundle r \<noteq> None, rr_github_policy r \<noteq> None)
      in checks
        [raise_if (rr_archive r = []) (ValueError ''package archive is required''),
         chk (require_digest (rr_expected_archive_digest r) ''expected_archive_digest''),
         raise_if ((github \<and> supplied \<noteq> (True, True)) \<or> (\<not> github \<and> supplied \<noteq> (False, False)))
           (ValueError ''GitHub source requires an exact offline attestation binding'')]
        (Inr r))"

record DeploymentCreationRequest =
  cq_deployment_id :: string
  cq_package_id :: string
  cq_package_version :: string
  cq_package_digest :: string
  cq_display_name :: string
  cq_description :: string
  cq_mission :: string
  cq_service_relationship :: string
  cq_granted_capabilities :: "string list"
  cq_timezone :: string
  cq_idempotency_key :: string

definition DeploymentCreationRequest_init ::
  "DeploymentCreationRequest \<Rightarrow> DeploymentCreationRequest result" where
  "DeploymentCreationRequest_init r = checks
     [chk (require_stable_id (cq_deployment_id r) ''deployment_id''),
      chk (require_stable_id (cq_package_id r) ''package_id''),
      chk (require_stable_id (cq_idempotency_key r) ''idempotency_key''),
      chk (require_text_default (cq_package_version r) ''package_version''),
      chk (require_text_default (cq_display_name r) ''display_name''),
      chk (require_text_default (cq_description r) ''description''),
      chk (require_text_default (cq_mission r) ''mission''),
      chk (require_text_default (cq_service_relationship r) ''service_relationship''),
      chk (require_text_default (cq_timezone r) ''timezone''),
      chk (require_digest (cq_package_digest r) ''package_digest''),
      raise_if (has_dup (cq_granted_capabilities r))
        (ValueError ''granted capabilities must be unique'')]
     (Inr (r\<lparr>cq_granted_capabilities := sort (cq_granted_capabilities r)\<rparr>))"

record ExactDraftConfirmation =
  xc_expected_revision :: int
  xc_expected_canonical_digest :: string
  xc_idempotency_key :: string

definition ExactDraftConfirmation_init :: "ExactDraftConfirmation \<Rightarrow> ExactDraftConfirmation result" where
  "ExactDraftConfirmation_init r = checks
     [chk (require_revision (xc_expected_revision r) ''expected_revision''),
      chk (require_digest (xc_expected_canonical_digest r) ''expected_canonical_digest''),
      chk (require_stable_id (xc_idempotency_key r) ''idempotency_key'')]
     (Inr r)"

record ExactLifecycleRequest =
  xl_target :: string
  xl_expected_revision :: int
  xl_expected_package_digest :: string
  xl_idempotency_key :: string

definition ExactLifecycleRequest_init :: "ExactLifecycleRequest \<Rightarrow> ExactLifecycleRequest result" where
  "ExactLifecycleRequest_init r = checks
     [chk (require_text (xl_target r) ''target'' 32),
      chk (require_revision (xl_expected_revision r) ''expected_revision''),
      chk (require_digest (xl_expected_package_digest r) ''expected_package_digest''),
      chk (require_stable_id (xl_idempotency_key r) ''idempotency_key'')]
     (Inr r)"

record ExactRebindingRequest =
  xr_package_id :: string
  xr_package_version :: string
  xr_package_digest :: string
  xr_expected_deployment_revision :: int
  xr_idempotency_key :: string

definition ExactRebindingRequest_init :: "ExactRebindingRequest \<Rightarrow> ExactRebindingRequest result" where
  "ExactRebindingRequest_init r = checks
     [chk (require_stable_id (xr_package_id r) ''package_id''),
      chk (require_text (xr_package_version r) ''package_version'' 32),
      chk (require_digest (xr_package_digest r) ''package_digest''),
      chk (require_revision (xr_expected_deployment_revision r) ''expected_deployment_revision''),
      chk (require_stable_id (xr_idempotency_key r) ''idempotency_key'')]
     (Inr r)"

definition sorted_strings :: "string list \<Rightarrow> json" where
  "sorted_strings xs = JList (map JStr (sort (remdups xs)))"

text \<open>\<^verbatim>\<open>permission_diff\<close>; the set differences of the source are filters of the lists here.\<close>

definition permission_diff :: "AgentPackage \<Rightarrow> string list \<Rightarrow> frozen_json \<Rightarrow> frozen_json result" where
  "permission_diff package granted_capabilities binding =
     (let requested = pk_requested_capabilities package; granted = granted_capabilities
      in FrozenJsonObject_init
        [(''requested'', sorted_strings requested), (''granted'', sorted_strings granted),
         (''admin_extra'', sorted_strings (filter (\<lambda>c. c \<notin> set requested) granted)),
         (''not_granted'', sorted_strings (filter (\<lambda>c. c \<notin> set granted) requested)),
         (''binding'', JObj binding)])"

section \<open>Constructors that can be replayed\<close>

interpretation github_attestation: replayable GitHubAttestation_init
  by unfold_locales (auto simp: GitHubAttestation_init_def ok_simps)

interpretation package_record: replayable PackageRecord_init
  by unfold_locales (auto simp: PackageRecord_init_def ok_simps)

interpretation deployment_draft: replayable DeploymentDraft_init
  by unfold_locales (auto simp: DeploymentDraft_init_def ok_simps)

interpretation colleague_deployment: replayable ColleagueDeployment_init
  by unfold_locales (auto simp: ColleagueDeployment_init_def ok_simps)

interpretation deployment_creation: replayable DeploymentCreationRequest_init
  by unfold_locales (auto simp: DeploymentCreationRequest_init_def ok_simps sort_key_id_if_sorted)

lemma deployment_init_eq:
  "DeploymentDraft_init d = Inr d' \<Longrightarrow> d' = d" "ColleagueDeployment_init p = Inr p' \<Longrightarrow> p' = p"
  "PackageRecord_init r = Inr r' \<Longrightarrow> r' = r" "LifecycleTransitionResult_init t = Inr t' \<Longrightarrow> t' = t"
  by (auto simp: DeploymentDraft_init_def ColleagueDeployment_init_def PackageRecord_init_def
      LifecycleTransitionResult_init_def checks_ok bindR_eq_Inr)

end
