(* ===== verification/SessionContracts.thy ===== *)
theory SessionContracts
  imports Authority Work
begin

text \<open>
  \<^verbatim>\<open>application/p4_contracts.py\<close>: bootstrap credentials, authenticated sessions, the runtime
  context of a colleague, evaluation observations, and the requests of the first colleague.
\<close>

record BootstrapRecord =
  br_tenant_id :: string
  br_credential_id :: string
  br_token_digest :: string
  br_issued_at :: datetime
  br_expires_at :: datetime
  br_retrieved_at :: "datetime option"
  br_consumed_at :: "datetime option"
  br_revision :: int
  br_schema_version :: int

definition BootstrapRecord_init :: "BootstrapRecord \<Rightarrow> BootstrapRecord result" where
  "BootstrapRecord_init r = checks
     [chk (require_schema_version (br_schema_version r)),
      chk (require_stable_id (br_tenant_id r) ''tenant_id''),
      chk (require_stable_id (br_credential_id r) ''credential_id''),
      chk (require_digest (br_token_digest r) ''token_digest''),
      chk (require_utc (br_issued_at r) ''issued_at''),
      chk (require_utc (br_expires_at r) ''expires_at''),
      raise_if (br_expires_at r \<le> br_issued_at r)
        (ValueError ''bootstrap expiry must follow issue time''),
      opt_chk (\<lambda>t. require_utc t ''retrieved_at'') (br_retrieved_at r),
      opt_chk (\<lambda>t. require_utc t ''consumed_at'') (br_consumed_at r),
      raise_if (br_consumed_at r \<noteq> None \<and> br_retrieved_at r = None)
        (ValueError ''bootstrap exchange requires prior local retrieval'')]
     (Inr r)"

record AuthenticatedSession =
  se_tenant_id :: string
  se_session_id :: string
  se_principal :: Principal
  se_credential_digest :: string
  se_csrf_digest :: string
  se_active_colleague_id :: "string option"
  se_created_at :: "datetime option"
  se_expires_at :: "datetime option"
  se_revision :: int
  se_role_revision :: int
  se_membership_revision :: int
  se_schema_version :: int

definition AuthenticatedSession_init :: "AuthenticatedSession \<Rightarrow> AuthenticatedSession result" where
  "AuthenticatedSession_init s = checks
     [chk (require_schema_version (se_schema_version s)),
      chk (require_stable_id (se_tenant_id s) ''tenant_id''),
      chk (require_stable_id (se_session_id s) ''session_id''),
      chk (require_digest (se_credential_digest s) ''credential_digest''),
      chk (require_digest (se_csrf_digest s) ''csrf_digest''),
      raise_if (ns_tenant_id (pr_namespace (se_principal s)) \<noteq> se_tenant_id s)
        (ValueError ''session principal crosses tenant namespace''),
      opt_chk (\<lambda>i. require_stable_id i ''active_colleague_id'') (se_active_colleague_id s),
      opt_chk (\<lambda>t. require_utc t ''created_at'') (se_created_at s),
      opt_chk (\<lambda>t. require_utc t ''expires_at'') (se_expires_at s),
      raise_if (case (se_created_at s, se_expires_at s) of
          (Some c, Some e) \<Rightarrow> e \<le> c | _ \<Rightarrow> False)
        (ValueError ''session expiry must follow creation''),
      chk (require_revision (se_revision s) ''revision''),
      chk (require_revision (se_role_revision s) ''role_revision''),
      chk (require_revision (se_membership_revision s) ''membership_revision'')]
     (Inr s)"

text \<open>\<^verbatim>\<open>AuthenticatedSession.colleague_namespace\<close>.\<close>

definition session_colleague :: "AuthenticatedSession \<Rightarrow> Namespace result" where
  "session_colleague s =
     (case se_active_colleague_id s of
        None \<Rightarrow> Inl (ValueError ''session has no active colleague namespace'')
      | Some i \<Rightarrow> colleague_namespace (se_tenant_id s) i)"

record SessionGrant =
  sg_session :: AuthenticatedSession
  sg_session_credential :: string
  sg_csrf_token :: string

record ServiceRuntimeContext =
  sx_namespace :: Namespace
  sx_model_principal :: Principal
  sx_service_principal :: Principal
  sx_mandate_id :: string
  sx_mandate_revision :: int
  sx_schema_version :: int
  sx_policy_id :: "string option"
  sx_policy_revision :: "int option"

definition ServiceRuntimeContext_init :: "ServiceRuntimeContext \<Rightarrow> ServiceRuntimeContext result" where
  "ServiceRuntimeContext_init c = checks
     [chk (require_schema_version (sx_schema_version c)),
      require_colleague (sx_namespace c),
      require_same_tenant (sx_namespace c) (pr_namespace (sx_model_principal c)),
      require_same_tenant (sx_namespace c) (pr_namespace (sx_service_principal c)),
      raise_if (pr_kind (sx_model_principal c) \<noteq> MODEL)
        (ValueError ''runtime model principal kind is invalid''),
      raise_if (pr_kind (sx_service_principal c) \<noteq> SERVICE)
        (ValueError ''runtime service principal kind is invalid''),
      raise_if (pr_roles (sx_model_principal c) \<noteq> [] \<or> pr_roles (sx_service_principal c) \<noteq> [])
        (ValueError ''runtime principals cannot carry human roles''),
      chk (require_stable_id (sx_mandate_id c) ''mandate_id''),
      chk (require_revision (sx_mandate_revision c) ''mandate_revision''),
      raise_if ((sx_policy_id c = None) \<noteq> (sx_policy_revision c = None))
        (ValueError ''runtime policy binding must be complete''),
      opt_chk (\<lambda>i. require_stable_id i ''policy_id'') (sx_policy_id c),
      opt_chk (\<lambda>v. require_revision v ''policy_revision'') (sx_policy_revision c)]
     (Inr c)"

record EvaluationObservation =
  eo_namespace :: Namespace
  eo_observation_id :: string
  eo_metric :: string
  eo_value :: int
  eo_opportunity_id :: string
  eo_source :: string
  eo_evidence_class :: string
  eo_scenario_version :: string
  eo_policy_version :: string
  eo_correlation_id :: string
  eo_causation_id :: string
  eo_observed_at :: datetime
  eo_revision :: int
  eo_schema_version :: int

definition EvaluationObservation_init :: "EvaluationObservation \<Rightarrow> EvaluationObservation result" where
  "EvaluationObservation_init x = checks
     [chk (require_schema_version (eo_schema_version x)),
      require_colleague (eo_namespace x),
      chk (require_stable_id (eo_observation_id x) ''observation_id''),
      chk (require_stable_id (eo_metric x) ''metric''),
      chk (require_stable_id (eo_opportunity_id x) ''opportunity_id''),
      chk (require_stable_id (eo_source x) ''source''),
      chk (require_stable_id (eo_evidence_class x) ''evidence_class''),
      chk (require_stable_id (eo_scenario_version x) ''scenario_version''),
      chk (require_stable_id (eo_policy_version x) ''policy_version''),
      chk (require_stable_id (eo_correlation_id x) ''correlation_id''),
      chk (require_stable_id (eo_causation_id x) ''causation_id''),
      raise_if (eo_metric x \<notin> {''rebrief_turns'', ''wrong_memory_rate'',
          ''unnecessary_interruption_rate'', ''human_intervention_count''})
        (ValueError ''evaluation observation metric is unsupported''),
      raise_if (eo_value x < 0) (ValueError ''evaluation observation value must be non-negative''),
      raise_if (eo_metric x \<in> {''wrong_memory_rate'', ''unnecessary_interruption_rate''} \<and>
          eo_value x \<notin> {0, 1})
        (ValueError ''rate evaluation observation must be binary''),
      raise_if (eo_evidence_class x \<notin> {''synthetic'', ''offline''})
        (ValueError ''evaluation observation evidence class is unsupported''),
      chk (require_utc (eo_observed_at x) ''observed_at''),
      chk (require_revision (eo_revision x) ''revision'')]
     (Inr x)"

record ProposalCandidateObservation =
  po_namespace :: Namespace
  po_observation_id :: string
  po_candidate_id :: string
  po_boundary_id :: string
  po_outcome :: string
  po_source :: string
  po_evidence_class :: string
  po_scenario_version :: string
  po_policy_version :: string
  po_correlation_id :: string
  po_causation_id :: string
  po_observed_at :: datetime
  po_revision :: int
  po_schema_version :: int

definition ProposalCandidateObservation_init ::
  "ProposalCandidateObservation \<Rightarrow> ProposalCandidateObservation result" where
  "ProposalCandidateObservation_init x = checks
     [chk (require_schema_version (po_schema_version x)),
      require_colleague (po_namespace x),
      chk (require_stable_id (po_observation_id x) ''observation_id''),
      chk (require_stable_id (po_candidate_id x) ''candidate_id''),
      chk (require_stable_id (po_boundary_id x) ''boundary_id''),
      chk (require_stable_id (po_outcome x) ''outcome''),
      chk (require_stable_id (po_source x) ''source''),
      chk (require_stable_id (po_evidence_class x) ''evidence_class''),
      chk (require_stable_id (po_scenario_version x) ''scenario_version''),
      chk (require_stable_id (po_policy_version x) ''policy_version''),
      chk (require_stable_id (po_correlation_id x) ''correlation_id''),
      chk (require_stable_id (po_causation_id x) ''causation_id''),
      raise_if (po_outcome x \<noteq> ''governance_rejected_before_proposal'')
        (ValueError ''proposal candidate outcome is unsupported''),
      raise_if (po_evidence_class x \<noteq> ''synthetic'')
        (ValueError ''proposal candidate evidence must be synthetic''),
      chk (require_utc (po_observed_at x) ''observed_at''),
      chk (require_revision (po_revision x) ''revision'')]
     (Inr x)"

record InitialColleagueRequest =
  ir_display_name :: string
  ir_role_description :: string
  ir_service_relationship :: string
  ir_mission :: string
  ir_timezone :: string
  ir_working_context :: string
  ir_working_hours :: string
  ir_working_style :: string
  ir_responsibilities :: "string list"
  ir_capabilities :: "string list"
  ir_constraints :: "string list"
  ir_effect_kind :: string
  ir_destination_kind :: string
  ir_action :: string
  ir_effect_constraints :: frozen_json
  ir_idempotency_key :: string

definition nonempty_texts :: "string list \<Rightarrow> string \<Rightarrow> unit result" where
  "nonempty_texts values name =
     raise_if (values = [] \<or> list_ex (\<lambda>item. strip item = []) values)
       (ValueError (name @ '' must contain non-empty text''))"

definition InitialColleagueRequest_init :: "InitialColleagueRequest \<Rightarrow> InitialColleagueRequest result" where
  "InitialColleagueRequest_init r = checks
     [chk (require_text_default (ir_display_name r) ''display_name''),
      chk (require_text_default (ir_role_description r) ''role_description''),
      chk (require_text_default (ir_service_relationship r) ''service_relationship''),
      chk (require_text_default (ir_mission r) ''mission''),
      chk (require_text_default (ir_timezone r) ''timezone''),
      chk (require_text_default (ir_working_context r) ''working_context''),
      chk (require_text_default (ir_working_hours r) ''working_hours''),
      chk (require_text_default (ir_working_style r) ''working_style''),
      nonempty_texts (ir_responsibilities r) ''responsibilities'',
      nonempty_texts (ir_capabilities r) ''capabilities'',
      nonempty_texts (ir_constraints r) ''constraints'',
      chk (require_stable_id (ir_effect_kind r) ''effect_kind''),
      chk (require_stable_id (ir_destination_kind r) ''destination_kind''),
      chk (require_stable_id (ir_action r) ''action''),
      chk (require_stable_id (ir_idempotency_key r) ''idempotency_key'')]
     (Inr r)"

record WorkAssignmentRequest =
  wq_title :: string
  wq_description :: string
  wq_responsibility_id :: string
  wq_idempotency_key :: string

definition WorkAssignmentRequest_init :: "WorkAssignmentRequest \<Rightarrow> WorkAssignmentRequest result" where
  "WorkAssignmentRequest_init r = checks
     [chk (require_text_default (wq_title r) ''title''),
      chk (require_text_default (wq_description r) ''description''),
      chk (require_stable_id (wq_responsibility_id r) ''responsibility_id''),
      chk (require_stable_id (wq_idempotency_key r) ''idempotency_key'')]
     (Inr r)"

record MutationReplay =
  mr_request_digest :: string
  mr_result :: frozen_json

definition MutationReplay_init :: "MutationReplay \<Rightarrow> MutationReplay result" where
  "MutationReplay_init r = checks
     [chk (require_digest (mr_request_digest r) ''request_digest'')] (Inr r)"

lemma session_init_eq:
  "BootstrapRecord_init b = Inr b' \<Longrightarrow> b' = b" "AuthenticatedSession_init s = Inr s' \<Longrightarrow> s' = s"
  "MutationReplay_init r = Inr r' \<Longrightarrow> r' = r"
  by (auto simp: BootstrapRecord_init_def AuthenticatedSession_init_def MutationReplay_init_def checks_ok)

interpretation bootstrap_record: replayable BootstrapRecord_init
  by unfold_locales (use session_init_eq(1) in fastforce)

interpretation authenticated_session: replayable AuthenticatedSession_init
  by unfold_locales (use session_init_eq(2) in fastforce)

end
