(* ===== verification/SessionStore.thy ===== *)
theory SessionStore
  imports OutboxStore SessionContracts Governance
begin

text \<open>
  \<^verbatim>\<open>adapters/sqlite/p4_store.py\<close> over the tables of the migrations 004, 005 and the session
  columns of 007: one-time bootstrap credentials, authenticated sessions, mutation replays, the
  first colleague and its work, evaluation observations, and the readouts of the Studio.

  Each store class of the program extends the one before; here each state record extends the one
  before, and \<open>rt\<close> is the runtime store all of them contain.  Rows of a table hold the values their
  constructor read back; constraints a constructor enforces are not repeated.
\<close>

section \<open>Tables\<close>

record session_row =
  sr_session :: AuthenticatedSession
  sr_revoked_at :: "datetime option"
  sr_revoked_reason :: "string option"

text \<open>
  \<^verbatim>\<open>result_json\<close>: the public JSON of a P4 mutation, or the storage form of the value an atomic P6
  operation returned, which only that operation reads back.
\<close>

datatype replay_value =
    RV_JSON frozen_json
  | RV_SESSION AuthenticatedSession
  | RV_CREDENTIAL GovernanceCredential
  | RV_MEMBERSHIP Membership

record replay_row =
  ry_tenant_id :: string
  ry_principal_id :: string
  ry_session_id :: string
  ry_action :: string
  ry_idempotency_key :: string
  ry_request_digest :: string
  ry_result :: replay_value

record p4_store =
  rt :: store
  p4_bootstraps :: "BootstrapRecord list"
  p4_sessions :: "session_row list"
  p4_replays :: "replay_row list"
  p4_observations :: "EvaluationObservation list"
  p4_candidates :: "ProposalCandidateObservation list"

text \<open>A statement on the tables of the runtime store.\<close>

definition on_rt :: "(store \<Rightarrow> store result) \<Rightarrow> 'z p4_store_scheme \<Rightarrow> 'z p4_store_scheme result" where
  "on_rt f st = bindR (f (rt st)) (\<lambda>s. Inr (st\<lparr>rt := s\<rparr>))"

text \<open>Keys of the rows of a namespace and a record type, as \<^verbatim>\<open>ORDER BY record_id\<close> lists them.\<close>

definition record_ids :: "store \<Rightarrow> Namespace \<Rightarrow> RecordType \<Rightarrow> string list" where
  "record_ids st ns t = sorted_list_of_set {i. st_records st (ns, t, i) \<noteq> None}"

definition list_records :: "'z p4_store_scheme \<Rightarrow> Namespace \<Rightarrow> RecordType \<Rightarrow> domain_record list" where
  "list_records st ns t = map (\<lambda>i. the (st_records (rt st) (ns, t, i))) (record_ids (rt st) ns t)"

section \<open>Stored principals\<close>

text \<open>\<^verbatim>\<open>to_storage_json\<close> of a principal: the \<^verbatim>\<open>payload_json\<close> of its row.\<close>

definition encode_enum :: "string \<Rightarrow> string \<Rightarrow> json" where
  "encode_enum class_name value = JObj [(''$enum'', JStr class_name), (''value'', JStr value)]"

definition encode_dataclass :: "string \<Rightarrow> (string \<times> json) list \<Rightarrow> json" where
  "encode_dataclass class_name entries =
     JObj [(''$dataclass'', JStr class_name), (''fields'', JObj entries)]"

definition encode_namespace :: "Namespace \<Rightarrow> json" where
  "encode_namespace ns = encode_dataclass ''Namespace''
     [(''tenant_id'', JStr (ns_tenant_id ns)),
      (''scope'', encode_enum ''NamespaceScope'' (NamespaceScope_value (ns_scope ns))),
      (''scope_id'', case ns_scope_id ns of None \<Rightarrow> JNull | Some i \<Rightarrow> JStr i)]"

definition encode_principal :: "Principal \<Rightarrow> json" where
  "encode_principal p = encode_dataclass ''Principal''
     [(''namespace'', encode_namespace (pr_namespace p)),
      (''principal_id'', JStr (pr_principal_id p)),
      (''kind'', encode_enum ''PrincipalKind'' (PrincipalKind_value (pr_kind p))),
      (''roles'', JObj [(''$tuple'',
         JList (map (\<lambda>r. encode_enum ''HumanRole'' (HumanRole_value r)) (pr_roles p)))]),
      (''revision'', JInt (pr_revision p)),
      (''schema_version'', JInt (pr_schema_version p))]"

text \<open>The SQL operator \<^verbatim>\<open>LIKE '%p%'\<close>, which ignores the case of ASCII letters.\<close>

definition ascii_lower :: "char \<Rightarrow> char" where
  "ascii_lower c = (let n = of_char c :: nat in if 65 \<le> n \<and> n \<le> 90 then char_of (n + 32) else c)"

fun contains_text :: "string \<Rightarrow> string \<Rightarrow> bool" where
  "contains_text p [] = (p = [])"
| "contains_text p (c # cs) = (take (length p) (c # cs) = p \<or> contains_text p cs)"

definition sql_like :: "string \<Rightarrow> string \<Rightarrow> bool" where
  "sql_like p s = contains_text (map ascii_lower p) (map ascii_lower s)"

definition human_pattern :: string where
  "human_pattern = CHR 0x22 # ''kind'' @ [CHR 0x22] @ '':'' @ [CHR 0x22] @ ''human'' @ [CHR 0x22]"

text \<open>Whether the count of human principals of the tenant is not zero.\<close>

definition human_counted :: "store \<Rightarrow> string \<Rightarrow> bool" where
  "human_counted st tenant_id =
     (\<exists>ns i p. st_records st (ns, RT_PRINCIPAL, i) = Some (DPrincipal p) \<and>
        ns_tenant_id ns = tenant_id \<and> sql_like human_pattern (json_text (encode_principal p)))"

definition profile_counted :: "store \<Rightarrow> string \<Rightarrow> bool" where
  "profile_counted st tenant_id =
     (\<exists>ns i. st_records st (ns, RT_PROFILE, i) \<noteq> None \<and> ns_tenant_id ns = tenant_id)"

section \<open>Bootstrap credentials\<close>

definition get_bootstrap :: "'z p4_store_scheme \<Rightarrow> string \<Rightarrow> BootstrapRecord option result" where
  "get_bootstrap st tenant_id =
     (case find (\<lambda>b. br_tenant_id b = tenant_id \<and> br_credential_id b = ''bootstrap-initial'')
         (p4_bootstraps st) of
        None \<Rightarrow> Inr None
      | Some b \<Rightarrow> bindR (BootstrapRecord_init b) (\<lambda>b. Inr (Some b)))"

definition create_bootstrap ::
  "BootstrapRecord \<Rightarrow> 'z p4_store_scheme \<Rightarrow> (bool \<times> 'z p4_store_scheme) result" where
  "create_bootstrap b st =
     (if \<exists>x \<in> set (p4_bootstraps st). br_tenant_id x = br_tenant_id b \<and>
           br_credential_id x = ''bootstrap-initial''
      then Inr (False, st)
      else checks
        [chk (require_utc (br_issued_at b) ''datetime''),
         chk (require_utc (br_expires_at b) ''datetime''),
         raise_if (\<exists>x \<in> set (p4_bootstraps st).
             (br_tenant_id x, br_credential_id x) = (br_tenant_id b, br_credential_id b) \<or>
             br_token_digest x = br_token_digest b)
           (IntegrityError ''p4_bootstrap_credentials'')]
        (Inr (True, st\<lparr>p4_bootstraps :=
           p4_bootstraps st @ [b\<lparr>br_retrieved_at := None, br_consumed_at := None\<rparr>]\<rparr>)))"

definition bootstrap_of_token ::
  "'z p4_store_scheme \<Rightarrow> string \<Rightarrow> string \<Rightarrow> exc \<Rightarrow> BootstrapRecord result" where
  "bootstrap_of_token st tenant_id token_digest refusal =
     (case find (\<lambda>b. br_tenant_id b = tenant_id \<and> br_token_digest b = token_digest)
         (p4_bootstraps st) of
        None \<Rightarrow> Inl refusal
      | Some b \<Rightarrow> BootstrapRecord_init b)"

text \<open>The conditional \<^verbatim>\<open>UPDATE\<close> of one bootstrap row, which must change exactly one row.\<close>

definition update_bootstrap ::
  "(BootstrapRecord \<Rightarrow> bool) \<Rightarrow> (BootstrapRecord \<Rightarrow> BootstrapRecord) \<Rightarrow> BootstrapRecord \<Rightarrow> string
     \<Rightarrow> exc \<Rightarrow> 'z p4_store_scheme \<Rightarrow> 'z p4_store_scheme result" where
  "update_bootstrap P f b tenant_id lost st =
     (let P' = (\<lambda>x. br_tenant_id x = tenant_id \<and> br_credential_id x = br_credential_id b \<and>
          br_revision x = br_revision b \<and> P x)
      in checks
        [raise_if (row_count P' (p4_bootstraps st) \<noteq> 1) lost]
        (Inr (st\<lparr>p4_bootstraps := update_where P'
           (\<lambda>x. (f x)\<lparr>br_revision := br_revision x + 1\<rparr>) (p4_bootstraps st)\<rparr>)))"

definition claim_bootstrap_retrieval_body ::
  "string \<Rightarrow> string \<Rightarrow> datetime \<Rightarrow> 'z p4_store_scheme \<Rightarrow> (unit \<times> 'z p4_store_scheme) result" where
  "claim_bootstrap_retrieval_body tenant_id token_digest occurred_at st =
     bindR (bootstrap_of_token st tenant_id token_digest
       (PermissionDeniedError ''bootstrap retrieval was refused'')) (\<lambda>b. checks
       [raise_if (br_retrieved_at b \<noteq> None \<or> br_consumed_at b \<noteq> None)
          (ConflictError ''bootstrap token has already been retrieved''),
        raise_if (occurred_at \<ge> br_expires_at b)
          (PermissionDeniedError ''bootstrap token has expired''),
        chk (require_utc occurred_at ''datetime'')]
       (bindR (update_bootstrap (\<lambda>x. br_retrieved_at x = None \<and> br_consumed_at x = None)
          (\<lambda>x. x\<lparr>br_retrieved_at := Some occurred_at\<rparr>) b tenant_id
          (ConflictError ''bootstrap retrieval lost its atomic claim'') st) (\<lambda>st. Inr ((), st))))"

text \<open>The read after the commit may raise although the row was claimed.\<close>

definition claim_bootstrap_retrieval ::
  "string \<Rightarrow> string \<Rightarrow> datetime \<Rightarrow> 'z p4_store_scheme \<Rightarrow> BootstrapRecord result \<times> 'z p4_store_scheme"
where
  "claim_bootstrap_retrieval tenant_id token_digest occurred_at st =
     (case transaction (claim_bootstrap_retrieval_body tenant_id token_digest occurred_at) st of
        (Inl e, st) \<Rightarrow> (Inl e, st)
      | (Inr _, st) \<Rightarrow> (bindR (get_bootstrap st tenant_id) (\<lambda>claimed.
           case claimed of
             None \<Rightarrow> Inl (ConflictError ''bootstrap retrieval state disappeared'')
           | Some b \<Rightarrow> Inr b), st))"

section \<open>Sessions\<close>

definition principal_key :: "string \<Rightarrow> string \<Rightarrow> record_key" where
  "principal_key tenant_id principal_id =
     (\<lparr>ns_tenant_id = tenant_id, ns_scope = PRINCIPAL, ns_scope_id = Some principal_id\<rparr>,
      RT_PRINCIPAL, principal_id)"

abbreviation sr_tenant :: "session_row \<Rightarrow> string" where
  "sr_tenant r \<equiv> se_tenant_id (sr_session r)"

abbreviation sr_principal_id :: "session_row \<Rightarrow> string" where
  "sr_principal_id r \<equiv> pr_principal_id (se_principal (sr_session r))"

definition session_key :: "AuthenticatedSession \<Rightarrow> string \<times> string \<times> string" where
  "session_key s = (se_tenant_id s, pr_principal_id (se_principal s), se_session_id s)"

text \<open>\<^verbatim>\<open>INSERT INTO p4_sessions\<close> under its keys and its foreign key.\<close>

definition insert_session ::
  "AuthenticatedSession \<Rightarrow> 'z p4_store_scheme \<Rightarrow> 'z p4_store_scheme result" where
  "insert_session s st = checks
     [raise_if (se_created_at s = None \<or> se_expires_at s = None) AssertionError,
      raise_if ((\<exists>r \<in> set (p4_sessions st). session_key (sr_session r) = session_key s \<or>
            se_credential_digest (sr_session r) = se_credential_digest s) \<or>
          st_records (rt st)
            (principal_key (se_tenant_id s) (pr_principal_id (se_principal s))) = None)
        (IntegrityError ''p4_sessions'')]
     (Inr (st\<lparr>p4_sessions := p4_sessions st @
        [\<lparr>sr_session = s, sr_revoked_at = None, sr_revoked_reason = None\<rparr>]\<rparr>))"

text \<open>
  \<^verbatim>\<open>_session_from_row\<close>: the row holds the ID of the principal, and the principal is read as it is
  now.
\<close>

definition session_from_row :: "'z p4_store_scheme \<Rightarrow> session_row \<Rightarrow> AuthenticatedSession result" where
  "session_from_row st r =
     bindR (get_principal (rt st) (sr_tenant r) (sr_principal_id r)) (\<lambda>p.
       AuthenticatedSession_init ((sr_session r)\<lparr>se_principal := p\<rparr>))"

definition live_session :: "'z p4_store_scheme \<Rightarrow> string \<Rightarrow> session_row option" where
  "live_session st credential_digest =
     find (\<lambda>r. se_credential_digest (sr_session r) = credential_digest \<and> sr_revoked_at r = None)
       (p4_sessions st)"

text \<open>A missing expiry fails the assertion; the column is never null.\<close>

definition session_expired :: "AuthenticatedSession \<Rightarrow> datetime \<Rightarrow> bool result" where
  "session_expired s evaluated_at =
     (case se_expires_at s of None \<Rightarrow> Inl AssertionError | Some t \<Rightarrow> Inr (evaluated_at \<ge> t))"

definition get_session ::
  "string \<Rightarrow> datetime \<Rightarrow> 'z p4_store_scheme \<Rightarrow> AuthenticatedSession result" where
  "get_session credential_digest evaluated_at st =
     (case live_session st credential_digest of
        None \<Rightarrow> Inl (PermissionDeniedError ''authenticated session was refused'')
      | Some r \<Rightarrow>
          bindR (session_from_row st r) (\<lambda>s.
          bindR (session_expired s evaluated_at) (\<lambda>expired.
            if expired then Inl (PermissionDeniedError ''authenticated session has expired'')
            else Inr s)))"

text \<open>\<^verbatim>\<open>UPDATE p4_sessions SET active_colleague_id = ..., revision = revision + 1\<close>.\<close>

definition set_session_colleague ::
  "AuthenticatedSession \<Rightarrow> string \<Rightarrow> string \<Rightarrow> 'z p4_store_scheme \<Rightarrow> 'z p4_store_scheme result" where
  "set_session_colleague s colleague_id lost st =
     (let P = (\<lambda>r. session_key (sr_session r) = session_key s \<and>
          se_revision (sr_session r) = se_revision s)
      in checks
        [raise_if (row_count P (p4_sessions st) \<noteq> 1) (ConflictError lost)]
        (Inr (st\<lparr>p4_sessions := update_where P (\<lambda>r. r\<lparr>sr_session := (sr_session r)
           \<lparr>se_active_colleague_id := Some colleague_id,
            se_revision := se_revision (sr_session r) + 1\<rparr>\<rparr>) (p4_sessions st)\<rparr>)))"

definition has_profile :: "'z p4_store_scheme \<Rightarrow> Namespace \<Rightarrow> bool" where
  "has_profile st ns = (\<exists>i. st_records (rt st) (ns, RT_PROFILE, i) \<noteq> None)"

definition set_active_colleague ::
  "AuthenticatedSession \<Rightarrow> string \<Rightarrow> 'z p4_store_scheme
     \<Rightarrow> (AuthenticatedSession \<times> 'z p4_store_scheme) result" where
  "set_active_colleague s colleague_id st =
     bindR (colleague_namespace (se_tenant_id s) colleague_id) (\<lambda>ns. checks
       [raise_if (\<not> has_profile st ns)
          (NotFoundError ''active colleague namespace was not found'')]
       (bindR (set_session_colleague s colleague_id ''session namespace binding is stale'' st) (\<lambda>st.
        bindR (AuthenticatedSession_init (s\<lparr>se_active_colleague_id := Some colleague_id,
           se_revision := se_revision s + 1\<rparr>)) (\<lambda>s. Inr (s, st)))))"

section \<open>The first human\<close>

definition bootstrap_admin :: "string \<Rightarrow> Principal \<Rightarrow> AuthenticatedSession \<Rightarrow> string \<Rightarrow> unit result" where
  "bootstrap_admin tenant_id p s refusal = check_all
     [raise_if (pr_kind p \<noteq> HUMAN \<or> pr_roles p \<noteq> [TENANT_ADMIN])
        (PermissionDeniedError ''bootstrap may create only the first tenant Admin''),
      raise_if (ns_tenant_id (pr_namespace p) \<noteq> tenant_id \<or> se_principal s \<noteq> p)
        (PermissionDeniedError refusal)]"

definition consume_bootstrap ::
  "string \<Rightarrow> string \<Rightarrow> Principal \<Rightarrow> AuthenticatedSession \<Rightarrow> datetime \<Rightarrow> 'z p4_store_scheme
     \<Rightarrow> (AuthenticatedSession \<times> 'z p4_store_scheme) result" where
  "consume_bootstrap tenant_id token_digest p s occurred_at st = checks
     [bootstrap_admin tenant_id p s
        ''bootstrap authority binding crossed tenant or principal'']
     (bindR (bootstrap_of_token st tenant_id token_digest
       (PermissionDeniedError ''bootstrap exchange was refused'')) (\<lambda>b. checks
       [raise_if (br_retrieved_at b = None)
          (PermissionDeniedError ''bootstrap token was not retrieved locally''),
        raise_if (br_consumed_at b \<noteq> None) (ConflictError ''bootstrap token replay was refused''),
        raise_if (occurred_at \<ge> br_expires_at b)
          (PermissionDeniedError ''bootstrap token has expired''),
        raise_if (human_counted (rt st) tenant_id)
          (ConflictError ''the first durable human principal already exists'')]
       (bindR (on_rt (insert_record_as (Some p) (Some ''correlation:bootstrap'')
          (Some (br_credential_id b)) (Some occurred_at) (DPrincipal p)) st) (\<lambda>st.
        bindR (update_bootstrap (\<lambda>x. br_consumed_at x = None)
          (\<lambda>x. x\<lparr>br_consumed_at := Some occurred_at\<rparr>) b tenant_id
          (ConflictError ''bootstrap exchange lost its atomic claim'') st) (\<lambda>st.
        bindR (insert_session (s\<lparr>se_tenant_id := tenant_id, se_active_colleague_id := None,
          se_revision := 1, se_role_revision := 1, se_membership_revision := 1\<rparr>) st) (\<lambda>st.
        Inr (s, st)))))))"

section \<open>Mutation replays\<close>

definition find_replay ::
  "'z p4_store_scheme \<Rightarrow> string \<Rightarrow> string \<Rightarrow> string \<Rightarrow> string \<Rightarrow> replay_row option" where
  "find_replay st tenant_id principal_id action key =
     find (\<lambda>r. (ry_tenant_id r, ry_principal_id r, ry_action r, ry_idempotency_key r) =
       (tenant_id, principal_id, action, key)) (p4_replays st)"

text \<open>\<^verbatim>\<open>INSERT INTO p4_mutation_replay\<close> under its key and the foreign key of its session.\<close>

definition insert_replay ::
  "AuthenticatedSession \<Rightarrow> string \<Rightarrow> string \<Rightarrow> string \<Rightarrow> replay_value \<Rightarrow> 'z p4_store_scheme
     \<Rightarrow> 'z p4_store_scheme result" where
  "insert_replay s action key request_digest result st =
     (let i = pr_principal_id (se_principal s) in
      if find_replay st (se_tenant_id s) i action key \<noteq> None \<or>
         \<not> (\<exists>r \<in> set (p4_sessions st). session_key (sr_session r) = session_key s)
      then Inl (IntegrityError ''p4_mutation_replay'')
      else Inr (st\<lparr>p4_replays := p4_replays st @
        [\<lparr>ry_tenant_id = se_tenant_id s, ry_principal_id = i, ry_session_id = se_session_id s,
          ry_action = action, ry_idempotency_key = key, ry_request_digest = request_digest,
          ry_result = result\<rparr>]\<rparr>))"

definition get_mutation_replay ::
  "AuthenticatedSession \<Rightarrow> string \<Rightarrow> string \<Rightarrow> 'z p4_store_scheme \<Rightarrow> MutationReplay option result" where
  "get_mutation_replay s action key st =
     (case find_replay st (se_tenant_id s) (pr_principal_id (se_principal s)) action key of
        None \<Rightarrow> Inr None
      | Some r \<Rightarrow> (case ry_result r of
          RV_JSON j \<Rightarrow> bindR (MutationReplay_init \<lparr>mr_request_digest = ry_request_digest r,
            mr_result = j\<rparr>) (\<lambda>m. Inr (Some m))
        | _ \<Rightarrow> Inl (ConflictError ''mutation replay result shape is invalid'')))"

definition record_mutation_replay ::
  "AuthenticatedSession \<Rightarrow> string \<Rightarrow> string \<Rightarrow> MutationReplay \<Rightarrow> datetime \<Rightarrow> 'z p4_store_scheme
     \<Rightarrow> (unit \<times> 'z p4_store_scheme) result" where
  "record_mutation_replay s action key replay occurred_at st = checks
     [chk (require_utc occurred_at ''datetime'')]
     (case insert_replay s action key (mr_request_digest replay) (RV_JSON (mr_result replay)) st of
        Inl _ \<Rightarrow> Inl (ConflictError ''duplicate mutation replay identity'')
      | Inr st \<Rightarrow> Inr ((), st))"

end
