(* ===== verification/StudioStore.thy ===== *)
theory StudioStore
  imports SessionStore
begin

text \<open>
  The rest of \<^verbatim>\<open>adapters/sqlite/p4_store.py\<close>: the first colleague, the assignment of work,
  evaluation observations, and the readouts for the worker and the Studio.
\<close>

section \<open>The first colleague\<close>

primrec insert_runtime_principals ::
  "Principal \<Rightarrow> string \<Rightarrow> string \<Rightarrow> datetime \<Rightarrow> Principal list \<Rightarrow> store \<Rightarrow> store result" where
  "insert_runtime_principals actor correlation_id profile_id occurred_at [] st = Inr st"
| "insert_runtime_principals actor correlation_id profile_id occurred_at (p # ps) st =
     (if pr_kind p \<notin> {MODEL, SERVICE}
      then Inl (PermissionDeniedError ''runtime principals cannot be human'')
      else bindR (insert_record_as (Some actor) (Some correlation_id) (Some profile_id)
             (Some occurred_at) (DPrincipal p) st)
           (insert_runtime_principals actor correlation_id profile_id occurred_at ps))"

text \<open>A repeated request must name the stored Profile and Mandate, times aside.\<close>

definition initial_colleague_replay ::
  "store \<Rightarrow> Namespace \<Rightarrow> Profile \<Rightarrow> Mandate \<Rightarrow> string \<Rightarrow> bool result" where
  "initial_colleague_replay st ns profile mandate profile_id =
     bindR (get_profile st ns profile_id) (\<lambda>existing_profile.
     bindR (get_mandate st ns (md_mandate_id mandate)) (\<lambda>existing_mandate.
     bindR (Profile_init (profile\<lparr>pf_updated_at := pf_updated_at existing_profile\<rparr>)) (\<lambda>p.
     bindR (Mandate_init (mandate\<lparr>md_effective_at := md_effective_at existing_mandate\<rparr>)) (\<lambda>m.
       if p \<noteq> existing_profile \<or> m \<noteq> existing_mandate
       then Inl (ConflictError ''initial colleague idempotency replay drifted'')
       else Inr False))))"

definition create_initial_colleague ::
  "Namespace \<Rightarrow> Profile \<Rightarrow> Mandate \<Rightarrow> Principal list \<Rightarrow> Principal \<Rightarrow> string \<Rightarrow> datetime \<Rightarrow> string
     \<Rightarrow> 'z p4_store_scheme \<Rightarrow> (bool \<times> 'z p4_store_scheme) result" where
  "create_initial_colleague ns profile mandate runtime_principals actor correlation_id occurred_at
     key st = checks
     [require_exact ns (pf_namespace profile),
      require_exact ns (md_namespace mandate),
      raise_if (pr_kind actor \<noteq> HUMAN \<or> TENANT_ADMIN \<notin> set (pr_roles actor))
        (PermissionDeniedError ''initial colleague requires a durable tenant Admin'')]
     (case ledger_lookup (rt st) ns LK_P4_INITIAL_COLLEAGUE key of
        Some profile_id \<Rightarrow>
          bindR (initial_colleague_replay (rt st) ns profile mandate profile_id) (\<lambda>b. Inr (b, st))
      | None \<Rightarrow> checks
          [raise_if (profile_counted (rt st) (ns_tenant_id ns))
             (ConflictError ''P4 supports exactly one initial colleague'')]
          (bindR (get_record (rt st) (pr_namespace actor) RT_PRINCIPAL (pr_principal_id actor))
            (\<lambda>durable_actor. checks
            [raise_if (durable_actor \<noteq> DPrincipal actor)
               (PermissionDeniedError ''initial colleague actor binding drifted'')]
            (bindR (on_rt (insert_runtime_principals actor correlation_id (pf_profile_id profile)
               occurred_at runtime_principals) st) (\<lambda>st.
             bindR (on_rt (insert_record_as None (Some correlation_id) None None
               (DProfile profile)) st) (\<lambda>st.
             bindR (on_rt (insert_record_as None (Some correlation_id) None None
               (DMandate mandate)) st) (\<lambda>st.
             checks [chk (require_utc occurred_at ''datetime'')]
             (bindR (on_rt (insert_ledger ns LK_P4_INITIAL_COLLEAGUE key RT_PROFILE
               (pf_profile_id profile)) st) (\<lambda>st. Inr (True, st))))))))))"

section \<open>Work\<close>

text \<open>
  \<^verbatim>\<open>assign_work\<close> calls the method \<^verbatim>\<open>_authorize_work_assignment\<close>, which the store of P6 overrides:
  it is the first argument.
\<close>

definition assign_work_with ::
  "('z p4_store_scheme \<Rightarrow> FiniteWork \<Rightarrow> unit result) \<Rightarrow> FiniteWork \<Rightarrow> string \<Rightarrow> 'z p4_store_scheme
     \<Rightarrow> ((FiniteWork \<times> bool) \<times> 'z p4_store_scheme) result" where
  "assign_work_with authorize work key st = checks
     [authorize st work]
     (case ledger_lookup (rt st) (fw_namespace work) LK_P4_WORK key of
        Some work_id \<Rightarrow>
          bindR (get_work (rt st) (fw_namespace work) work_id) (\<lambda>existing.
          bindR (FiniteWork_init (work\<lparr>fw_created_at := fw_created_at existing,
            fw_updated_at := fw_updated_at existing\<rparr>)) (\<lambda>normalized.
            if normalized \<noteq> existing
            then Inl (ConflictError ''work idempotency replay drifted'')
            else Inr ((existing, False), st)))
      | None \<Rightarrow>
          bindR (get_mandate (rt st) (fw_namespace work) (fw_mandate_id work)) (\<lambda>mandate. checks
            [raise_if (md_revision mandate \<noteq> fw_mandate_revision work)
               (PermissionDeniedError ''finite work Mandate revision is stale''),
             raise_if (\<not> set (fw_responsibility_ids work) \<subseteq>
                 rd_responsibility_id ` set (md_responsibilities mandate))
               (PermissionDeniedError ''finite work responsibility is outside the Mandate'')]
            (bindR (on_rt (insert_record (DFiniteWork work)) st) (\<lambda>st.
             bindR (on_rt (insert_ledger (fw_namespace work) LK_P4_WORK key RT_FINITE_WORK
               (fw_work_id work)) st) (\<lambda>st. Inr ((work, True), st))))))"

definition assign_work ::
  "FiniteWork \<Rightarrow> string \<Rightarrow> 'z p4_store_scheme \<Rightarrow> ((FiniteWork \<times> bool) \<times> 'z p4_store_scheme) result" where
  "assign_work = assign_work_with (\<lambda>_ _. Inr ())"

section \<open>Readouts of the worker\<close>

text \<open>\<^verbatim>\<open>first_principal\<close>: a principal's row is listed under its ID, which is its namespace too.\<close>

definition tenant_principals :: "'z p4_store_scheme \<Rightarrow> string \<Rightarrow> Principal list" where
  "tenant_principals st tenant_id =
     [p. i \<leftarrow> sorted_list_of_set {i. st_records (rt st) (principal_key tenant_id i) \<noteq> None},
         DPrincipal p \<leftarrow> [the (st_records (rt st) (principal_key tenant_id i))]]"

definition first_principal ::
  "string \<Rightarrow> PrincipalKind \<Rightarrow> 'z p4_store_scheme \<Rightarrow> Principal result" where
  "first_principal tenant_id kind st =
     (case find (\<lambda>p. pr_kind p = kind) (tenant_principals st tenant_id) of
        None \<Rightarrow> Inl (NotFoundError ''required durable principal kind was not found'')
      | Some p \<Rightarrow> Inr p)"

definition outbox_ready :: "datetime \<Rightarrow> outbox_row \<Rightarrow> bool" where
  "outbox_ready now r =
     (ox_next_attempt_at r \<le> now \<and>
      (ox_state r \<in> {OX_PENDING, OX_RETRY} \<or>
       ox_state r \<in> {OX_AMBIGUOUS, OX_AMBIGUOUS_CLAIMED} \<and>
         (case ox_lease_until r of None \<Rightarrow> True | Some t \<Rightarrow> t < now) \<and>
         (case ox_last_outcome r of Some (LO_STOPPED n) \<Rightarrow> False | _ \<Rightarrow> True)))"

definition namespace_columns :: "Namespace \<Rightarrow> string \<times> string \<times> string" where
  "namespace_columns ns = (ns_tenant_id ns, NamespaceScope_value (ns_scope ns),
     case ns_scope_id ns of None \<Rightarrow> [] | Some i \<Rightarrow> i)"

definition pending_namespaces :: "datetime \<Rightarrow> 'z p4_store_scheme \<Rightarrow> Namespace list result" where
  "pending_namespaces now st = checks
     [chk (require_utc now ''datetime'')]
     (mapR Namespace_init (sort_key namespace_columns (remdups
       (map tr_namespace (filter (\<lambda>r. tr_state r = TR_PENDING) (st_triggers (rt st))) @
        map tr_namespace (filter (\<lambda>r. tr_state r = TR_PENDING) (st_timer_triggers (rt st))) @
        map ox_namespace (filter (outbox_ready now) (st_outbox (rt st)))))))"

definition resolve_runtime_context ::
  "Namespace \<Rightarrow> string \<Rightarrow> string \<Rightarrow> string \<Rightarrow> 'z p4_store_scheme \<Rightarrow> ServiceRuntimeContext result" where
  "resolve_runtime_context ns model_principal_id service_principal_id mandate_id st = checks
     [require_colleague ns]
     (bindR (get_principal (rt st) (ns_tenant_id ns) model_principal_id) (\<lambda>model.
      bindR (get_principal (rt st) (ns_tenant_id ns) service_principal_id) (\<lambda>service.
      bindR (get_mandate (rt st) ns mandate_id) (\<lambda>mandate. checks
        [raise_if (pr_kind model \<noteq> MODEL \<or> pr_kind service \<noteq> SERVICE)
           (PermissionDeniedError ''runtime principal kind binding was refused''),
         raise_if (pr_principal_id model \<noteq> model_principal_id \<or>
             pr_principal_id service \<noteq> service_principal_id)
           (PermissionDeniedError ''runtime principal identity binding was refused'')]
        (ServiceRuntimeContext_init \<lparr>sx_namespace = ns, sx_model_principal = model,
           sx_service_principal = service, sx_mandate_id = md_mandate_id mandate,
           sx_mandate_revision = md_revision mandate, sx_schema_version = SCHEMA_VERSION,
           sx_policy_id = None, sx_policy_revision = None\<rparr>)))))"

section \<open>Evaluation observations\<close>

definition record_evaluation_observation ::
  "EvaluationObservation \<Rightarrow> 'z p4_store_scheme \<Rightarrow> (bool \<times> 'z p4_store_scheme) result" where
  "record_evaluation_observation x st =
     (case find (\<lambda>y. eo_namespace y = eo_namespace x \<and>
           eo_observation_id y = eo_observation_id x) (p4_observations st) of
        Some y \<Rightarrow> bindR (EvaluationObservation_init y) (\<lambda>existing.
          if existing \<noteq> x
          then Inl (ConflictError ''evaluation observation identity was rebound'')
          else Inr (False, st))
      | None \<Rightarrow>
          if \<exists>y \<in> set (p4_observations st).
               (eo_namespace y, eo_metric y, eo_opportunity_id y, eo_source y) =
               (eo_namespace x, eo_metric x, eo_opportunity_id x, eo_source x)
          then Inl (ConflictError ''evaluation opportunity was already observed'')
          else Inr (True, st\<lparr>p4_observations := p4_observations st @ [x]\<rparr>))"

definition list_evaluation_observations ::
  "Namespace \<Rightarrow> 'z p4_store_scheme \<Rightarrow> EvaluationObservation list result" where
  "list_evaluation_observations ns st =
     mapR EvaluationObservation_init
       (sort_key (\<lambda>x. (eo_metric x, eo_observed_at x, eo_observation_id x))
         (filter (\<lambda>x. eo_namespace x = ns) (p4_observations st)))"

definition record_proposal_candidate_observation ::
  "ProposalCandidateObservation \<Rightarrow> 'z p4_store_scheme \<Rightarrow> (bool \<times> 'z p4_store_scheme) result" where
  "record_proposal_candidate_observation x st =
     (case find (\<lambda>y. po_namespace y = po_namespace x \<and> po_candidate_id y = po_candidate_id x)
         (p4_candidates st) of
        Some y \<Rightarrow> bindR (ProposalCandidateObservation_init y) (\<lambda>existing.
          if existing \<noteq> x
          then Inl (ConflictError ''proposal candidate observation was rebound'')
          else Inr (False, st))
      | None \<Rightarrow>
          if \<exists>y \<in> set (p4_candidates st).
               (po_namespace y, po_observation_id y) = (po_namespace x, po_observation_id x)
          then Inl (IntegrityError ''p4_proposal_candidate_observations'')
          else Inr (True, st\<lparr>p4_candidates := p4_candidates st @ [x]\<rparr>))"

definition list_proposal_candidate_observations ::
  "Namespace \<Rightarrow> 'z p4_store_scheme \<Rightarrow> ProposalCandidateObservation list result" where
  "list_proposal_candidate_observations ns st =
     mapR ProposalCandidateObservation_init
       (sort_key po_candidate_id (filter (\<lambda>x. po_namespace x = ns) (p4_candidates st)))"

text \<open>How many candidates there are and how many became proposals, with their correlations.\<close>

definition proposal_candidate_counts ::
  "Namespace \<Rightarrow> 'z p4_store_scheme \<Rightarrow> (int \<times> int \<times> string list) result" where
  "proposal_candidate_counts ns st =
     bindR (list_proposal_candidate_observations ns st) (\<lambda>xs.
       Inr (int (length xs),
         int (length (filter (\<lambda>x. st_records (rt st) (ns, RT_EFFECT_PROPOSAL, po_candidate_id x)
           \<noteq> None) xs)),
         sort (remdups (map po_correlation_id xs))))"

section \<open>The Studio\<close>

record StudioSnapshot =
  ss_namespace :: Namespace
  ss_profile :: Profile
  ss_mandate :: Mandate
  ss_work :: "FiniteWork list"
  ss_events :: "InputEvent list"
  ss_timers :: "TimerOccurrence list"
  ss_wakes :: "WakeCycle list"
  ss_agenda :: "AgendaItem list"
  ss_decisions :: "Decision list"
  ss_proposals :: "EffectProposal list"
  ss_approvals :: "HumanApprovalDecision list"
  ss_attempts :: "EffectAttempt list"
  ss_results :: "ActionResult list"
  ss_schema_version :: int

definition StudioSnapshot_init :: "StudioSnapshot \<Rightarrow> StudioSnapshot result" where
  "StudioSnapshot_init s =
     (let exact = (\<lambda>nss. check_all (map (require_exact (ss_namespace s)) nss)) in checks
        [chk (require_schema_version (ss_schema_version s)),
         require_exact (ss_namespace s) (pf_namespace (ss_profile s)),
         require_exact (ss_namespace s) (md_namespace (ss_mandate s)),
         exact (map fw_namespace (ss_work s)), exact (map ev_namespace (ss_events s)),
         exact (map tm_namespace (ss_timers s)), exact (map wk_namespace (ss_wakes s)),
         exact (map ag_namespace (ss_agenda s)), exact (map dc_namespace (ss_decisions s)),
         exact (map ep_namespace (ss_proposals s)), exact (map ha_namespace (ss_approvals s)),
         exact (map ea_namespace (ss_attempts s)), exact (map ar_namespace (ss_results s))]
        (Inr s))"

text \<open>The codec returns a record of the type its row names, and raises for any other.\<close>

definition studio_snapshot :: "Namespace \<Rightarrow> 'z p4_store_scheme \<Rightarrow> StudioSnapshot result" where
  "studio_snapshot ns st =
     bindR (mapR (\<lambda>r. case r of DProfile x \<Rightarrow> Inr x | _ \<Rightarrow> wrong_type)
        (list_records st ns RT_PROFILE)) (\<lambda>profiles.
      bindR (mapR (\<lambda>r. case r of DMandate x \<Rightarrow> Inr x | _ \<Rightarrow> wrong_type)
        (list_records st ns RT_MANDATE)) (\<lambda>mandates.
      if length profiles \<noteq> 1 \<or> length mandates \<noteq> 1
      then Inl (NotFoundError ''initial colleague snapshot is incomplete'')
      else
      bindR (mapR (\<lambda>r. case r of DFiniteWork x \<Rightarrow> Inr x | _ \<Rightarrow> wrong_type)
        (list_records st ns RT_FINITE_WORK)) (\<lambda>work.
      bindR (mapR (\<lambda>r. case r of DInputEvent x \<Rightarrow> Inr x | _ \<Rightarrow> wrong_type)
        (list_records st ns RT_INPUT_EVENT)) (\<lambda>events.
      bindR (mapR (\<lambda>r. case r of DTimerOccurrence x \<Rightarrow> Inr x | _ \<Rightarrow> wrong_type)
        (list_records st ns RT_TIMER_OCCURRENCE)) (\<lambda>timers.
      bindR (mapR (\<lambda>r. case r of DWakeCycle x \<Rightarrow> Inr x | _ \<Rightarrow> wrong_type)
        (list_records st ns RT_WAKE_CYCLE)) (\<lambda>wakes.
      bindR (mapR (\<lambda>r. case r of DAgendaItem x \<Rightarrow> Inr x | _ \<Rightarrow> wrong_type)
        (list_records st ns RT_AGENDA_ITEM)) (\<lambda>agenda.
      bindR (mapR (\<lambda>r. case r of DDecision x \<Rightarrow> Inr x | _ \<Rightarrow> wrong_type)
        (list_records st ns RT_DECISION)) (\<lambda>decisions.
      bindR (mapR (\<lambda>r. case r of DEffectProposal x \<Rightarrow> Inr x | _ \<Rightarrow> wrong_type)
        (list_records st ns RT_EFFECT_PROPOSAL)) (\<lambda>proposals.
      bindR (mapR (\<lambda>r. case r of DHumanApproval x \<Rightarrow> Inr x | _ \<Rightarrow> wrong_type)
        (list_records st ns RT_HUMAN_APPROVAL)) (\<lambda>approvals.
      bindR (mapR (\<lambda>r. case r of DEffectAttempt x \<Rightarrow> Inr x | _ \<Rightarrow> wrong_type)
        (list_records st ns RT_EFFECT_ATTEMPT)) (\<lambda>attempts.
      bindR (mapR (\<lambda>r. case r of DActionResult x \<Rightarrow> Inr x | _ \<Rightarrow> wrong_type)
        (list_records st ns RT_ACTION_RESULT)) (\<lambda>results.
      StudioSnapshot_init \<lparr>ss_namespace = ns, ss_profile = hd profiles, ss_mandate = hd mandates,
        ss_work = work, ss_events = events, ss_timers = timers, ss_wakes = wakes,
        ss_agenda = agenda, ss_decisions = decisions, ss_proposals = proposals,
        ss_approvals = approvals, ss_attempts = attempts, ss_results = results,
        ss_schema_version = SCHEMA_VERSION\<rparr>))))))))))))"

end
