(* ===== verification/Builder.thy ===== *)
theory Builder
  imports Authority Policy
begin

text \<open>
  \<^verbatim>\<open>core/builder.py\<close>: the revisioned draft of a colleague's Profile, Mandate and policy, with its
  explicit defaults and the reviewable difference from its base.
\<close>

datatype DraftLifecycle = DRAFT_OPEN | DRAFT_REVIEWABLE | DRAFT_CONFIRMED | DRAFT_CANCELLED | DRAFT_STALE

datatype DiffSection = SECTION_PROFILE | SECTION_MANDATE | SECTION_POLICY

datatype DiffClassification =
  DIFF_ADDED | DIFF_REMOVED | DIFF_CHANGED | DIFF_NARROWED | DIFF_EXPANDED | DIFF_UNCHANGED

datatype DefaultSource = P5_SYSTEM_DEFAULT

record ExplicitDefault =
  xd_path :: string
  xd_value :: frozen_json
  xd_source :: DefaultSource

definition ExplicitDefault_init :: "ExplicitDefault \<Rightarrow> ExplicitDefault result" where
  "ExplicitDefault_init d =
     bindR (require_text (xd_path d) ''default path'' 256) (\<lambda>path. Inr (d\<lparr>xd_path := path\<rparr>))"

record DraftDiffItem =
  di_section :: DiffSection
  di_path :: string
  di_classification :: DiffClassification
  di_before :: frozen_json
  di_after :: frozen_json
  di_authoritative :: bool

definition DraftDiffItem_init :: "DraftDiffItem \<Rightarrow> DraftDiffItem result" where
  "DraftDiffItem_init d =
     bindR (require_text (di_path d) ''diff path'' 256) (\<lambda>path. checks
       [raise_if (di_section d = SECTION_PROFILE \<and> di_authoritative d)
          (AuthorizationError ''Profile diff cannot be authoritative'')]
       (Inr (d\<lparr>di_path := path\<rparr>)))"

record ColleagueDraft =
  df_namespace :: Namespace
  df_draft_id :: string
  df_revision :: int
  df_base_profile_id :: string
  df_base_profile_revision :: int
  df_base_mandate_id :: string
  df_base_mandate_revision :: int
  df_base_policy_id :: "string option"
  df_base_policy_revision :: int
  df_proposed_profile :: Profile
  df_proposed_mandate :: Mandate
  df_proposed_policy :: ColleaguePolicy
  df_explicit_defaults :: "ExplicitDefault list"
  df_diff :: "DraftDiffItem list"
  df_canonical_digest :: string
  df_state :: DraftLifecycle
  df_author :: Principal
  df_created_at :: datetime
  df_updated_at :: datetime
  df_correlation_id :: string
  df_causation_id :: string
  df_schema_version :: int

definition draft_base_policy :: "ColleagueDraft \<Rightarrow> unit result" where
  "draft_base_policy d =
     (case df_base_policy_id d of
        None \<Rightarrow> raise_if (df_base_policy_revision d \<noteq> 0)
          (CoreInvariantError ''missing base policy ID requires revision zero'')
      | Some i \<Rightarrow> check_all
          [chk (require_stable_id i ''base_policy_id''),
           raise_if (df_base_policy_revision d = 0)
             (CoreInvariantError ''a base policy ID requires a positive revision'')])"

definition ColleagueDraft_init :: "ColleagueDraft \<Rightarrow> ColleagueDraft result" where
  "ColleagueDraft_init d = checks
     [chk (require_schema_version (df_schema_version d)),
      require_colleague (df_namespace d),
      chk (require_stable_id (df_draft_id d) ''draft_id''),
      chk (require_revision (df_revision d) ''revision''),
      chk (require_stable_id (df_base_profile_id d) ''base_profile_id''),
      chk (require_revision (df_base_profile_revision d) ''base_profile_revision''),
      chk (require_stable_id (df_base_mandate_id d) ''base_mandate_id''),
      chk (require_revision (df_base_mandate_revision d) ''base_mandate_revision''),
      raise_if (df_base_policy_revision d < 0)
        (CoreInvariantError ''base_policy_revision must be a non-negative integer''),
      draft_base_policy d,
      require_exact (df_namespace d) (pf_namespace (df_proposed_profile d)),
      require_exact (df_namespace d) (md_namespace (df_proposed_mandate d)),
      require_exact (df_namespace d) (cp_namespace (df_proposed_policy d)),
      raise_if (pf_profile_id (df_proposed_profile d) \<noteq> df_base_profile_id d)
        (CoreInvariantError ''proposed Profile must retain its base identity''),
      raise_if (md_mandate_id (df_proposed_mandate d) \<noteq> df_base_mandate_id d)
        (CoreInvariantError ''proposed Mandate must retain its base identity''),
      raise_if (df_base_policy_id d \<notin> {None, Some (cp_policy_id (df_proposed_policy d))})
        (CoreInvariantError ''proposed policy must retain its base identity''),
      raise_if (pf_revision (df_proposed_profile d) \<noteq> df_base_profile_revision d + 1)
        (CoreInvariantError ''proposed Profile revision must follow its base''),
      raise_if (md_revision (df_proposed_mandate d) \<noteq> df_base_mandate_revision d + 1)
        (CoreInvariantError ''proposed Mandate revision must follow its base''),
      raise_if (cp_revision (df_proposed_policy d) \<noteq> df_base_policy_revision d + 1)
        (CoreInvariantError ''proposed policy revision must follow its base''),
      raise_if (df_diff d = []) (CoreInvariantError ''draft diff must contain typed records''),
      raise_if (has_dup (map xd_path (df_explicit_defaults d)))
        (CoreInvariantError ''explicit default paths must be unique''),
      raise_if (has_dup (map (\<lambda>i. (di_section i, di_path i)) (df_diff d)))
        (CoreInvariantError ''draft diff paths must be unique within each section''),
      chk (require_digest (df_canonical_digest d) ''canonical_digest''),
      raise_if (pr_kind (df_author d) \<noteq> HUMAN)
        (AuthorizationError ''a colleague draft requires a human author''),
      require_same_tenant (df_namespace d) (pr_namespace (df_author d)),
      chk (require_utc (df_created_at d) ''created_at''),
      chk (require_utc (df_updated_at d) ''updated_at''),
      raise_if (df_updated_at d < df_created_at d)
        (CoreInvariantError ''draft update cannot precede creation''),
      chk (require_stable_id (df_correlation_id d) ''correlation_id''),
      chk (require_stable_id (df_causation_id d) ''causation_id'')]
     (Inr d)"

lemma ColleagueDraft_init_eq: "ColleagueDraft_init d = Inr d' \<Longrightarrow> d' = d"
  by (simp add: ColleagueDraft_init_def checks_ok)

interpretation explicit_default: replayable ExplicitDefault_init
  by unfold_locales (auto simp: ExplicitDefault_init_def ok_simps)

interpretation draft_diff_item: replayable DraftDiffItem_init
  by unfold_locales (auto simp: DraftDiffItem_init_def ok_simps)

interpretation colleague_draft: replayable ColleagueDraft_init
  by unfold_locales (use ColleagueDraft_init_eq in fastforce)

end
