(* ===== verification/DraftStore.thy ===== *)
theory DraftStore
  imports StudioStore Builder
begin

text \<open>
  The builder half of \<^verbatim>\<open>adapters/sqlite/p5_store.py\<close> over the tables of the migration 006:
  revisioned drafts with their audit trail, the staleness of a draft against the active records,
  and its life from an open draft to review, cancellation or staleness.

  A draft's row holds the draft; the indexed columns repeat fields of it and are not kept.  An
  operation that marks a draft stale commits that and raises afterwards.
\<close>

section \<open>Tables\<close>

record draft_audit_row =
  da_namespace :: Namespace
  da_audit_id :: string
  da_draft_id :: string
  da_draft_revision :: int
  da_state :: DraftLifecycle
  da_action :: string
  da_actor_principal_id :: string
  da_correlation_id :: string
  da_causation_id :: string
  da_occurred_at :: datetime

record ConfirmationResult =
  cf_draft_id :: string
  cf_draft_revision :: int
  cf_profile_revision :: int
  cf_mandate_revision :: int
  cf_policy_revision :: int
  cf_canonical_digest :: string
  cf_replayed :: bool
  cf_schema_version :: int

record confirmation_row =
  cw_namespace :: Namespace
  cw_confirmation_id :: string
  cw_idempotency_key :: string
  cw_request_digest :: string
  cw_result :: ConfirmationResult
  cw_actor_principal_id :: string
  cw_occurred_at :: datetime
  cw_correlation_id :: string

record budget_row =
  bg_namespace :: Namespace
  bg_policy_id :: string
  bg_policy_revision :: int
  bg_period :: WakeBudgetPeriod
  bg_bucket_start :: datetime
  bg_consumed_count :: int
  bg_updated_at :: datetime
  bg_revision :: int

record consumption_row =
  cm_namespace :: Namespace
  cm_occurrence_key :: string
  cm_policy_id :: string
  cm_policy_revision :: int
  cm_period :: WakeBudgetPeriod
  cm_bucket_start :: datetime
  cm_trigger_class :: DurableTriggerKind
  cm_source_id :: string
  cm_consumed_at :: datetime

record run_state_row =
  rn_namespace :: Namespace
  rn_policy_id :: string
  rn_policy_revision :: int
  rn_state :: PolicyRunState
  rn_reason :: string
  rn_actor_principal_id :: string
  rn_correlation_id :: string
  rn_causation_id :: string
  rn_updated_at :: datetime
  rn_revision :: int

record p5_store = p4_store +
  p5_drafts :: "ColleagueDraft list"
  p5_confirmations :: "confirmation_row list"
  p5_draft_audit :: "draft_audit_row list"
  p5_outcomes :: "PolicyEnforcementRecord list"
  p5_budgets :: "budget_row list"
  p5_consumptions :: "consumption_row list"
  p5_run_states :: "run_state_row list"
  p5_escalations :: "EscalationRecord list"

section \<open>Authority and active records\<close>

definition require_durable_admin :: "'z p5_store_scheme \<Rightarrow> Principal \<Rightarrow> unit result" where
  "require_durable_admin st actor = checks
     [raise_if (pr_kind actor \<noteq> HUMAN \<or> TENANT_ADMIN \<notin> set (pr_roles actor))
        (PermissionDeniedError ''P5 builder mutation requires a durable tenant Admin'')]
     (bindR (get_record (rt st) (pr_namespace actor) RT_PRINCIPAL (pr_principal_id actor)) (\<lambda>r.
       raise_if (r \<noteq> DPrincipal actor)
         (PermissionDeniedError ''P5 builder actor binding drifted'')))"

definition profiles_of :: "'z p4_store_scheme \<Rightarrow> Namespace \<Rightarrow> Profile list result" where
  "profiles_of st ns = mapR (\<lambda>r. case r of DProfile x \<Rightarrow> Inr x | _ \<Rightarrow> wrong_type)
     (list_records st ns RT_PROFILE)"

definition mandates_of :: "'z p4_store_scheme \<Rightarrow> Namespace \<Rightarrow> Mandate list result" where
  "mandates_of st ns = mapR (\<lambda>r. case r of DMandate x \<Rightarrow> Inr x | _ \<Rightarrow> wrong_type)
     (list_records st ns RT_MANDATE)"

definition active_configuration ::
  "Namespace \<Rightarrow> 'z p5_store_scheme \<Rightarrow> (Profile \<times> Mandate) result" where
  "active_configuration ns st =
     bindR (profiles_of st ns) (\<lambda>profiles.
     bindR (mandates_of st ns) (\<lambda>mandates. checks
       [raise_if (length profiles \<noteq> 1 \<or> length mandates \<noteq> 1)
          (NotFoundError ''active colleague configuration is incomplete'')]
       (Inr (hd profiles, hd mandates))))"

definition get_active_policy ::
  "Namespace \<Rightarrow> 'z p5_store_scheme \<Rightarrow> ColleaguePolicy option result" where
  "get_active_policy ns st =
     bindR (mapR (\<lambda>r. case r of DColleaguePolicy x \<Rightarrow> Inr x | _ \<Rightarrow> wrong_type)
       (list_records st ns RT_COLLEAGUE_POLICY)) (\<lambda>policies. checks
       [raise_if (length policies > 1)
          (ConflictError ''multiple active colleague policies were refused'')]
       (Inr (case policies of [] \<Rightarrow> None | p # _ \<Rightarrow> Some p)))"

definition run_state_of :: "'z p5_store_scheme \<Rightarrow> Namespace \<Rightarrow> run_state_row option" where
  "run_state_of st ns = find (\<lambda>r. rn_namespace r = ns) (p5_run_states st)"

definition get_runtime_policy_state ::
  "Namespace \<Rightarrow> 'z p5_store_scheme \<Rightarrow> (ColleaguePolicy option \<times> PolicyRunState option) result" where
  "get_runtime_policy_state ns st =
     bindR (get_active_policy ns st) (\<lambda>policy. Inr (policy,
       case run_state_of st ns of Some r \<Rightarrow> Some (rn_state r) | None \<Rightarrow> map_option cp_run_state policy))"

section \<open>Drafts\<close>

definition find_draft :: "'z p5_store_scheme \<Rightarrow> Namespace \<Rightarrow> string \<Rightarrow> ColleagueDraft option" where
  "find_draft st ns draft_id =
     find (\<lambda>d. df_namespace d = ns \<and> df_draft_id d = draft_id) (p5_drafts st)"

definition get_draft :: "Namespace \<Rightarrow> string \<Rightarrow> 'z p5_store_scheme \<Rightarrow> ColleagueDraft result" where
  "get_draft ns draft_id st =
     (case find_draft st ns draft_id of
        None \<Rightarrow> Inl (NotFoundError ''namespaced colleague draft was not found'')
      | Some d \<Rightarrow> ColleagueDraft_init d)"

definition list_drafts :: "Namespace \<Rightarrow> 'z p5_store_scheme \<Rightarrow> ColleagueDraft list result" where
  "list_drafts ns st = mapR ColleagueDraft_init
     (sort_key (\<lambda>d. (df_created_at d, df_draft_id d))
       (filter (\<lambda>d. df_namespace d = ns) (p5_drafts st)))"

definition draft_audit_id :: "string \<Rightarrow> int \<Rightarrow> string \<Rightarrow> string" where
  "draft_audit_id draft_id revision action =
     ''draft-audit:'' @ take 32 (sha256_hex (utf8
       (draft_id @ [CHR 0x00] @ int_text revision @ [CHR 0x00] @ action)))"

definition insert_draft_audit ::
  "ColleagueDraft \<Rightarrow> string \<Rightarrow> Principal \<Rightarrow> datetime \<Rightarrow> 'z p5_store_scheme \<Rightarrow> 'z p5_store_scheme result"
where
  "insert_draft_audit d action actor occurred_at st =
     (let row = \<lparr>da_namespace = df_namespace d,
            da_audit_id = draft_audit_id (df_draft_id d) (df_revision d) action,
            da_draft_id = df_draft_id d, da_draft_revision = df_revision d, da_state = df_state d,
            da_action = action, da_actor_principal_id = pr_principal_id actor,
            da_correlation_id = df_correlation_id d, da_causation_id = df_causation_id d,
            da_occurred_at = occurred_at\<rparr>
      in checks
        [chk (require_utc occurred_at ''datetime''),
         raise_if ((\<exists>a \<in> set (p5_draft_audit st). da_namespace a = df_namespace d \<and>
              da_audit_id a = da_audit_id row) \<or>
            find_draft st (df_namespace d) (df_draft_id d) = None)
           (IntegrityError ''p5_draft_audit'')]
        (Inr (st\<lparr>p5_draft_audit := p5_draft_audit st @ [row]\<rparr>)))"

definition write_draft :: "ColleagueDraft \<Rightarrow> 'z p5_store_scheme \<Rightarrow> 'z p5_store_scheme" where
  "write_draft d st = st\<lparr>p5_drafts := update_where
     (\<lambda>x. df_namespace x = df_namespace d \<and> df_draft_id x = df_draft_id d) (\<lambda>_. d) (p5_drafts st)\<rparr>"

definition current_revisions ::
  "'z p5_store_scheme \<Rightarrow> ColleagueDraft \<Rightarrow> (int \<times> int \<times> int) result" where
  "current_revisions st d =
     bindR (get_profile (rt st) (df_namespace d) (pf_profile_id (df_proposed_profile d))) (\<lambda>profile.
     bindR (get_mandate (rt st) (df_namespace d) (md_mandate_id (df_proposed_mandate d))) (\<lambda>mandate.
     case st_records (rt st)
         (df_namespace d, RT_COLLEAGUE_POLICY, cp_policy_id (df_proposed_policy d)) of
       None \<Rightarrow> Inr (pf_revision profile, md_revision mandate, 0)
     | Some (DColleaguePolicy p) \<Rightarrow> Inr (pf_revision profile, md_revision mandate, cp_revision p)
     | Some _ \<Rightarrow> wrong_type))"

definition base_revisions :: "ColleagueDraft \<Rightarrow> int \<times> int \<times> int" where
  "base_revisions d =
     (df_base_profile_revision d, df_base_mandate_revision d, df_base_policy_revision d)"

definition mark_stale ::
  "ColleagueDraft \<Rightarrow> Principal \<Rightarrow> datetime \<Rightarrow> 'z p5_store_scheme \<Rightarrow> 'z p5_store_scheme result" where
  "mark_stale d actor occurred_at st =
     bindR (ColleagueDraft_init (d\<lparr>df_state := DRAFT_STALE, df_updated_at := occurred_at\<rparr>)) (\<lambda>stale.
       insert_draft_audit stale ''stale_refused'' actor occurred_at (write_draft stale st))"

text \<open>
  The methods call \<^verbatim>\<open>self._require_admin\<close>, which P6 overrides: it is the first argument.
\<close>

definition create_draft_with ::
  "('z p5_store_scheme \<Rightarrow> Principal \<Rightarrow> unit result) \<Rightarrow> ColleagueDraft \<Rightarrow> 'z p5_store_scheme
     \<Rightarrow> ((ColleagueDraft \<times> bool) \<times> 'z p5_store_scheme) result" where
  "create_draft_with require_admin d st = checks
     [require_admin st (df_author d)]
     (case find_draft st (df_namespace d) (df_draft_id d) of
        Some existing \<Rightarrow> bindR (ColleagueDraft_init existing) (\<lambda>x. Inr ((x, False), st))
      | None \<Rightarrow>
          bindR (current_revisions st d) (\<lambda>current. checks
            [raise_if (current \<noteq> base_revisions d)
               (StaleConflictError ''draft base revisions are stale'')]
            (bindR (insert_draft_audit d ''created'' (df_author d) (df_created_at d)
               (st\<lparr>p5_drafts := p5_drafts st @ [d]\<rparr>)) (\<lambda>st. Inr ((d, True), st)))))"

text \<open>An operation that commits a refusal raises it after the commit: no value stands for it.\<close>

definition raise_after :: "exc \<Rightarrow> 'a option result \<times> 's \<Rightarrow> 'a result \<times> 's" where
  "raise_after e run = (case run of
      (Inl e', st) \<Rightarrow> (Inl e', st)
    | (Inr None, st) \<Rightarrow> (Inl e, st)
    | (Inr (Some x), st) \<Rightarrow> (Inr x, st))"

abbreviation unless_stale :: "'a option result \<times> 's \<Rightarrow> 'a result \<times> 's" where
  "unless_stale \<equiv> raise_after (StaleConflictError ''draft base revisions are stale'')"

definition update_draft_body ::
  "('z p5_store_scheme \<Rightarrow> Principal \<Rightarrow> unit result) \<Rightarrow> ColleagueDraft \<Rightarrow> int \<Rightarrow> 'z p5_store_scheme
     \<Rightarrow> (ColleagueDraft option \<times> 'z p5_store_scheme) result" where
  "update_draft_body require_admin d expected_revision st = checks
     [require_admin st (df_author d)]
     (bindR (get_draft (df_namespace d) (df_draft_id d) st) (\<lambda>existing. checks
       [raise_if (df_revision existing \<noteq> expected_revision \<or>
            df_revision d \<noteq> expected_revision + 1)
          (StaleConflictError ''draft optimistic revision conflict''),
        raise_if (df_state existing \<notin> {DRAFT_OPEN, DRAFT_REVIEWABLE})
          (StaleConflictError ''terminal colleague draft cannot be updated''),
        raise_if (base_revisions existing \<noteq> base_revisions d)
          (StaleConflictError ''draft base identity cannot be rebound'')]
       (bindR (current_revisions st existing) (\<lambda>current.
         if current \<noteq> base_revisions existing
         then bindR (mark_stale existing (df_author d) (df_updated_at d) st) (\<lambda>st. Inr (None, st))
         else bindR (insert_draft_audit d ''updated'' (df_author d) (df_updated_at d)
                (write_draft d st)) (\<lambda>st. Inr (Some d, st))))))"

definition update_draft_with ::
  "('z p5_store_scheme \<Rightarrow> Principal \<Rightarrow> unit result) \<Rightarrow> ColleagueDraft \<Rightarrow> int \<Rightarrow> 'z p5_store_scheme
     \<Rightarrow> ColleagueDraft result \<times> 'z p5_store_scheme" where
  "update_draft_with require_admin d expected_revision st =
     unless_stale (transaction (update_draft_body require_admin d expected_revision) st)"

definition transition_draft_body ::
  "('z p5_store_scheme \<Rightarrow> Principal \<Rightarrow> unit result) \<Rightarrow> Namespace \<Rightarrow> string \<Rightarrow> int \<Rightarrow> Principal
     \<Rightarrow> datetime \<Rightarrow> DraftLifecycle \<Rightarrow> string \<Rightarrow> 'z p5_store_scheme
     \<Rightarrow> (ColleagueDraft option \<times> 'z p5_store_scheme) result" where
  "transition_draft_body require_admin ns draft_id expected_revision actor occurred_at target action
     st =
     (let move = (\<lambda>d. bindR (ColleagueDraft_init
            (d\<lparr>df_state := target, df_updated_at := occurred_at\<rparr>)) (\<lambda>r.
          bindR (insert_draft_audit r action actor occurred_at (write_draft r st))
            (\<lambda>st. Inr (Some r, st))))
      in checks
     [require_admin st actor]
     (bindR (get_draft ns draft_id st) (\<lambda>d. checks
       [raise_if (df_revision d \<noteq> expected_revision)
          (StaleConflictError ''draft optimistic revision conflict'')]
       (if target = DRAFT_REVIEWABLE
        then checks
          [raise_if (df_state d \<noteq> DRAFT_OPEN)
             (StaleConflictError ''only an editable draft can become reviewable'')]
          (bindR (current_revisions st d) (\<lambda>current.
             if current \<noteq> base_revisions d
             then bindR (mark_stale d actor occurred_at st) (\<lambda>st. Inr (None, st))
             else if list_all (\<lambda>i. di_classification i = DIFF_UNCHANGED) (df_diff d)
             then Inl (ValidationError ''review requires at least one explicit change'')
             else move d))
        else checks
          [raise_if (df_state d \<notin> {DRAFT_OPEN, DRAFT_REVIEWABLE})
             (StaleConflictError ''terminal colleague draft cannot transition'')]
          (move d)))))"

definition review_draft_with ::
  "('z p5_store_scheme \<Rightarrow> Principal \<Rightarrow> unit result) \<Rightarrow> Namespace \<Rightarrow> string \<Rightarrow> int \<Rightarrow> Principal
     \<Rightarrow> datetime \<Rightarrow> 'z p5_store_scheme \<Rightarrow> ColleagueDraft result \<times> 'z p5_store_scheme" where
  "review_draft_with require_admin ns draft_id expected_revision actor occurred_at st =
     unless_stale (transaction (transition_draft_body require_admin ns draft_id expected_revision
       actor occurred_at DRAFT_REVIEWABLE ''reviewed'') st)"

definition cancel_draft_with ::
  "('z p5_store_scheme \<Rightarrow> Principal \<Rightarrow> unit result) \<Rightarrow> Namespace \<Rightarrow> string \<Rightarrow> int \<Rightarrow> Principal
     \<Rightarrow> datetime \<Rightarrow> 'z p5_store_scheme \<Rightarrow> ColleagueDraft result \<times> 'z p5_store_scheme" where
  "cancel_draft_with require_admin ns draft_id expected_revision actor occurred_at st =
     unless_stale (transaction (transition_draft_body require_admin ns draft_id expected_revision
       actor occurred_at DRAFT_CANCELLED ''cancelled'') st)"

end
