(* ===== verification/PolicyStore.thy ===== *)
theory PolicyStore
  imports DraftStore
begin

text \<open>
  The policy half of \<^verbatim>\<open>adapters/sqlite/p5_store.py\<close>: policy outcomes and escalations, the run
  state of a colleague, the confirmation of a reviewed draft, the admission of a trigger under
  the policy and its wake budget, and the revalidation of a semantic decision.
\<close>

section \<open>Values\<close>

fun PolicyStage_value :: "PolicyStage \<Rightarrow> string" where
  "PolicyStage_value STAGE_TRIGGER = ''trigger''"
| "PolicyStage_value STAGE_PRE_WAKE = ''pre_wake''"
| "PolicyStage_value STAGE_POST_MODEL = ''post_model''"
| "PolicyStage_value STAGE_APPROVAL = ''approval''"
| "PolicyStage_value STAGE_DISPATCH = ''dispatch''"
| "PolicyStage_value STAGE_STOP = ''stop''"
| "PolicyStage_value STAGE_ESCALATION = ''escalation''"

fun PolicyOutcomeKind_value :: "PolicyOutcomeKind \<Rightarrow> string" where
  "PolicyOutcomeKind_value PO_ALLOWED = ''allowed''"
| "PolicyOutcomeKind_value PO_STALE_POLICY = ''stale_policy''"
| "PolicyOutcomeKind_value PO_DISALLOWED_TRIGGER = ''disallowed_trigger''"
| "PolicyOutcomeKind_value PO_OUTSIDE_HOURS_DEFER = ''outside_hours_defer''"
| "PolicyOutcomeKind_value PO_OUTSIDE_HOURS_NO_OP = ''outside_hours_no_op''"
| "PolicyOutcomeKind_value PO_OUTSIDE_HOURS_STOP = ''outside_hours_stop''"
| "PolicyOutcomeKind_value PO_OUTSIDE_HOURS_ESCALATE = ''outside_hours_escalate''"
| "PolicyOutcomeKind_value PO_PROACTIVITY_SUPPRESSED = ''proactivity_suppressed''"
| "PolicyOutcomeKind_value PO_NOTIFICATION_SUPPRESSED = ''notification_suppressed''"
| "PolicyOutcomeKind_value PO_INTERRUPTION_SUPPRESSED = ''interruption_suppressed''"
| "PolicyOutcomeKind_value PO_BUDGET_EXHAUSTED = ''budget_exhausted''"
| "PolicyOutcomeKind_value PO_DUPLICATE_TRIGGER = ''duplicate_trigger''"
| "PolicyOutcomeKind_value PO_REPEATED_FAILURE_STOP = ''repeated_failure_stop''"
| "PolicyOutcomeKind_value PO_REPEATED_FAILURE_ESCALATE = ''repeated_failure_escalate''"
| "PolicyOutcomeKind_value PO_FINITE_WORK_TERMINAL_STOP = ''finite_work_terminal_stop''"
| "PolicyOutcomeKind_value PO_BLOCKED_WORK_ESCALATE = ''blocked_work_escalate''"
| "PolicyOutcomeKind_value PO_STOPPED = ''stopped''"
| "PolicyOutcomeKind_value PO_EXPLICIT_RESUME = ''explicit_resume''"

fun EscalationCondition_value :: "EscalationCondition \<Rightarrow> string" where
  "EscalationCondition_value ESC_OUTSIDE_HOURS = ''outside_hours''"
| "EscalationCondition_value ESC_BUDGET_EXHAUSTED = ''budget_exhausted''"
| "EscalationCondition_value ESC_REPEATED_FAILURE = ''repeated_failure''"
| "EscalationCondition_value ESC_BLOCKED_WORK = ''blocked_work''"

text \<open>\<^verbatim>\<open>"policy-outcome:" + sha256(...).hexdigest()[:32]\<close>.\<close>

definition policy_outcome_id :: "string \<Rightarrow> string" where
  "policy_outcome_id material = ''policy-outcome:'' @ take 32 (sha256_hex (utf8 material))"

section \<open>Outcomes and escalations\<close>

text \<open>A row keeps the ID of its actor, who is read as the principal is now.\<close>

definition outcome_from_row ::
  "'z p5_store_scheme \<Rightarrow> PolicyEnforcementRecord \<Rightarrow> PolicyEnforcementRecord result" where
  "outcome_from_row st r =
     bindR (get_principal (rt st) (ns_tenant_id (pe_namespace r)) (pr_principal_id (pe_actor r)))
       (\<lambda>actor. PolicyEnforcementRecord_init (r\<lparr>pe_actor := actor\<rparr>))"

definition find_outcome ::
  "'z p5_store_scheme \<Rightarrow> Namespace \<Rightarrow> string \<Rightarrow> PolicyEnforcementRecord option" where
  "find_outcome st ns outcome_id =
     find (\<lambda>r. pe_namespace r = ns \<and> pe_outcome_id r = outcome_id) (p5_outcomes st)"

definition insert_policy_outcome ::
  "PolicyEnforcementRecord \<Rightarrow> 'z p5_store_scheme \<Rightarrow> (bool \<times> 'z p5_store_scheme) result" where
  "insert_policy_outcome r st =
     (case find_outcome st (pe_namespace r) (pe_outcome_id r) of
        Some row \<Rightarrow> bindR (outcome_from_row st row) (\<lambda>existing.
          if existing \<noteq> r then Inl (ConflictError ''policy outcome identity was rebound'')
          else Inr (False, st))
      | None \<Rightarrow> Inr (True, st\<lparr>p5_outcomes := p5_outcomes st @ [r]\<rparr>))"

definition escalation_from_row ::
  "'z p5_store_scheme \<Rightarrow> EscalationRecord \<Rightarrow> EscalationRecord result" where
  "escalation_from_row st r =
     bindR (get_principal (rt st) (ns_tenant_id (es_namespace r)) (pr_principal_id (es_actor r)))
       (\<lambda>actor. EscalationRecord_init (r\<lparr>es_actor := actor\<rparr>))"

definition insert_escalation ::
  "EscalationRecord \<Rightarrow> 'z p5_store_scheme \<Rightarrow> (bool \<times> 'z p5_store_scheme) result" where
  "insert_escalation r st =
     (case find (\<lambda>x. es_namespace x = es_namespace r \<and> es_escalation_id x = es_escalation_id r)
         (p5_escalations st) of
        Some row \<Rightarrow> bindR (escalation_from_row st row) (\<lambda>existing.
          if existing \<noteq> r then Inl (ConflictError ''escalation identity was rebound'')
          else Inr (False, st))
      | None \<Rightarrow> Inr (True, st\<lparr>p5_escalations := p5_escalations st @ [r]\<rparr>))"

definition record_policy_outcome ::
  "PolicyEnforcementRecord \<Rightarrow> EscalationRecord option \<Rightarrow> 'z p5_store_scheme
     \<Rightarrow> (bool \<times> 'z p5_store_scheme) result" where
  "record_policy_outcome r escalation st =
     bindR (insert_policy_outcome r st) (\<lambda>(created, st).
       case escalation of
         None \<Rightarrow> Inr (created, st)
       | Some e \<Rightarrow> checks [require_exact (pe_namespace r) (es_namespace e)]
           (bindR (insert_escalation e st) (\<lambda>(_, st). Inr (created, st))))"

section \<open>The run state\<close>

definition upsert_run_state ::
  "ColleaguePolicy \<Rightarrow> Principal \<Rightarrow> string \<Rightarrow> string \<Rightarrow> datetime \<Rightarrow> string \<Rightarrow> 'z p5_store_scheme
     \<Rightarrow> 'z p5_store_scheme result" where
  "upsert_run_state policy actor correlation_id causation_id occurred_at reason st =
     (let ns = cp_namespace policy;
          row = (\<lambda>revision. \<lparr>rn_namespace = ns, rn_policy_id = cp_policy_id policy,
            rn_policy_revision = cp_revision policy, rn_state = cp_run_state policy,
            rn_reason = reason, rn_actor_principal_id = pr_principal_id actor,
            rn_correlation_id = correlation_id, rn_causation_id = causation_id,
            rn_updated_at = occurred_at, rn_revision = revision\<rparr>)
      in checks
        [chk (require_utc occurred_at ''datetime'')]
        (Inr (st\<lparr>p5_run_states :=
          (case run_state_of st ns of
             None \<Rightarrow> p5_run_states st @ [row 1]
           | Some r \<Rightarrow> update_where (\<lambda>x. rn_namespace x = ns) (\<lambda>_. row (rn_revision r + 1))
               (p5_run_states st))\<rparr>)))"

definition policy_stopped :: "'z p5_store_scheme \<Rightarrow> ColleaguePolicy \<Rightarrow> Namespace \<Rightarrow> bool" where
  "policy_stopped st policy ns =
     (cp_run_state policy = RUN_STOPPED \<or>
      (case run_state_of st ns of None \<Rightarrow> False | Some r \<Rightarrow> rn_state r = RUN_STOPPED))"

text \<open>Which revision of the policy lifts the stop that was recorded for a reason.\<close>

definition explicit_resume_change ::
  "string \<Rightarrow> ColleaguePolicy \<Rightarrow> ColleaguePolicy \<Rightarrow> string option" where
  "explicit_resume_change reason current proposed =
     (let dropped = (\<lambda>c. c \<in> set (cp_stop_conditions current) \<and>
          c \<notin> set (cp_stop_conditions proposed)) in
      if cp_run_state current = RUN_STOPPED \<and> cp_run_state proposed = RUN_ACTIVE
      then Some ''admin_run_state_activated''
      else if cp_run_state proposed \<noteq> RUN_ACTIVE then None
      else if reason = ''budget_exhausted''
      then (if dropped STOP_BUDGET_EXHAUSTED then Some ''budget_stop_condition_removed''
            else if wb_period (cp_wake_budget current) \<noteq> wb_period (cp_wake_budget proposed)
            then Some ''wake_budget_period_changed''
            else if wb_limit (cp_wake_budget proposed) > wb_limit (cp_wake_budget current)
            then Some ''wake_budget_limit_increased'' else None)
      else if reason = ''outside_hours_stop''
      then (if cp_outside_hours proposed \<noteq> OUTSIDE_STOP then Some ''outside_hours_stop_removed''
            else if cp_timezone current \<noteq> cp_timezone proposed \<or>
                cp_weekly_windows current \<noteq> cp_weekly_windows proposed
            then Some ''working_hours_changed'' else None)
      else if reason = PolicyOutcomeKind_value PO_REPEATED_FAILURE_STOP
      then (if dropped STOP_REPEATED_FAILURE
            then Some ''repeated_failure_stop_condition_removed''
            else if cp_failure_limit proposed > cp_failure_limit current
            then Some ''failure_limit_increased'' else None)
      else if reason = PolicyOutcomeKind_value PO_FINITE_WORK_TERMINAL_STOP
      then (if dropped STOP_FINITE_WORK_TERMINAL
            then Some ''finite_work_stop_condition_removed'' else None)
      else None)"

definition draft_requests_explicit_resume :: "ColleagueDraft \<Rightarrow> bool" where
  "draft_requests_explicit_resume d =
     list_ex (\<lambda>i. di_section i = SECTION_POLICY \<and> di_path i = ''explicit_resume'' \<and>
       di_classification i = DIFF_EXPANDED \<and> di_after i = [(''value'', JBool True)]) (df_diff d)"

definition record_explicit_resume ::
  "ColleagueDraft \<Rightarrow> ColleaguePolicy \<Rightarrow> Principal \<Rightarrow> datetime \<Rightarrow> string \<Rightarrow> string \<Rightarrow> 'z p5_store_scheme
     \<Rightarrow> 'z p5_store_scheme result" where
  "record_explicit_resume d policy actor occurred_at previous_stop_reason resume_change st =
     (let projection =
        [(''outcome'', JStr (PolicyOutcomeKind_value PO_EXPLICIT_RESUME)),
         (''stage'', JStr (PolicyStage_value STAGE_STOP)),
         (''previous_stop_reason'', JStr previous_stop_reason),
         (''resume_change'', JStr resume_change),
         (''draft_id'', JStr (df_draft_id d)), (''draft_revision'', JInt (df_revision d))] in
      bindR (FrozenJsonObject_init projection) (\<lambda>safe.
      bindR (PolicyEnforcementRecord_init \<lparr>pe_namespace = cp_namespace policy,
          pe_outcome_id = policy_outcome_id (df_draft_id d @ [CHR 0x00] @ int_text (df_revision d) @
            [CHR 0x00] @ ''explicit_resume''),
          pe_policy_id = cp_policy_id policy, pe_policy_revision = cp_revision policy,
          pe_mandate_id = cp_mandate_id policy, pe_mandate_revision = cp_mandate_revision policy,
          pe_stage = STAGE_STOP, pe_outcome = PO_EXPLICIT_RESUME, pe_trigger_class = None,
          pe_source_id = Some (df_draft_id d), pe_actor = actor,
          pe_correlation_id = df_correlation_id d, pe_causation_id = df_draft_id d,
          pe_occurred_at = occurred_at, pe_safe_projection = safe,
          pe_payload_digest = canonical_digest (JObj projection),
          pe_schema_version = SCHEMA_VERSION\<rparr>) (\<lambda>r.
      bindR (insert_policy_outcome r st) (\<lambda>(_, st). Inr st))))"

section \<open>Confirmation of a draft\<close>

definition same_profile_content :: "Profile \<Rightarrow> Profile \<Rightarrow> bool" where
  "same_profile_content l r =
     ((pf_display_name l, pf_description l, pf_presentation l) =
      (pf_display_name r, pf_description r, pf_presentation r))"

definition same_mandate_content :: "Mandate \<Rightarrow> Mandate \<Rightarrow> bool" where
  "same_mandate_content l r =
     ((md_mission l, md_service_relationship l, md_responsibilities l, md_capabilities l,
       md_constraints l, md_working_context l, md_effect_boundaries l) =
      (md_mission r, md_service_relationship r, md_responsibilities r, md_capabilities r,
       md_constraints r, md_working_context r, md_effect_boundaries r))"

definition same_policy_content :: "ColleaguePolicy \<Rightarrow> ColleaguePolicy \<Rightarrow> bool" where
  "same_policy_content l r =
     (l\<lparr>cp_namespace := cp_namespace r, cp_policy_id := cp_policy_id r,
        cp_revision := cp_revision r, cp_issued_by := cp_issued_by r,
        cp_effective_at := cp_effective_at r, cp_schema_version := cp_schema_version r\<rparr> = r)"

definition ConfirmationResult_init :: "ConfirmationResult \<Rightarrow> ConfirmationResult result" where
  "ConfirmationResult_init r = checks
     [chk (require_schema_version (cf_schema_version r)),
      chk (require_stable_id (cf_draft_id r) ''draft_id''),
      chk (require_revision (cf_draft_revision r) ''draft_revision''),
      chk (require_revision (cf_profile_revision r) ''profile_revision''),
      chk (require_revision (cf_mandate_revision r) ''mandate_revision''),
      chk (require_revision (cf_policy_revision r) ''policy_revision''),
      chk (require_digest (cf_canonical_digest r) ''canonical_digest'')]
     (Inr r)"

text \<open>The three records after the confirmation; each changed one gets the next revision.\<close>

definition apply_profile ::
  "bool \<Rightarrow> Profile \<Rightarrow> ColleagueDraft \<Rightarrow> Principal \<Rightarrow> datetime \<Rightarrow> 'z p5_store_scheme
     \<Rightarrow> (Profile \<times> 'z p5_store_scheme) result" where
  "apply_profile changed current d actor occurred_at st =
     (if \<not> changed then Inr (current, st)
      else bindR (Profile_init ((df_proposed_profile d)\<lparr>pf_revision := pf_revision current + 1,
          pf_updated_by := actor, pf_updated_at := occurred_at\<rparr>)) (\<lambda>p.
        bindR (on_rt (update_record (pf_revision current) (DProfile p)) st) (\<lambda>st. Inr (p, st))))"

definition apply_mandate ::
  "bool \<Rightarrow> Mandate \<Rightarrow> ColleagueDraft \<Rightarrow> Principal \<Rightarrow> datetime \<Rightarrow> 'z p5_store_scheme
     \<Rightarrow> (Mandate \<times> 'z p5_store_scheme) result" where
  "apply_mandate changed current d actor occurred_at st =
     (if \<not> changed then Inr (current, st)
      else bindR (Mandate_init ((df_proposed_mandate d)\<lparr>md_revision := md_revision current + 1,
          md_issued_by := actor, md_effective_at := occurred_at\<rparr>)) (\<lambda>m.
        bindR (on_rt (update_record (md_revision current) (DMandate m)) st) (\<lambda>st. Inr (m, st))))"

definition apply_policy ::
  "zoneinfo \<Rightarrow> bool \<Rightarrow> ColleaguePolicy option \<Rightarrow> Mandate \<Rightarrow> ColleagueDraft \<Rightarrow> Principal \<Rightarrow> datetime
     \<Rightarrow> 'z p5_store_scheme \<Rightarrow> (ColleaguePolicy \<times> 'z p5_store_scheme) result" where
  "apply_policy zones changed current mandate d actor occurred_at st =
     (if \<not> changed
      then (case current of None \<Rightarrow> Inl AssertionError | Some p \<Rightarrow> Inr (p, st))
      else bindR (ColleaguePolicy_init zones ((df_proposed_policy d)
          \<lparr>cp_mandate_id := md_mandate_id mandate, cp_mandate_revision := md_revision mandate,
           cp_revision := (case current of None \<Rightarrow> 0 | Some p \<Rightarrow> cp_revision p) + 1,
           cp_issued_by := actor, cp_effective_at := occurred_at\<rparr>)) (\<lambda>p.
        bindR (case current of
            None \<Rightarrow> on_rt (insert_record_as None (Some (df_correlation_id d))
              (Some (df_draft_id d)) None (DColleaguePolicy p)) st
          | Some c \<Rightarrow> on_rt (update_record (cp_revision c) (DColleaguePolicy p)) st)
          (\<lambda>st. Inr (p, st))))"

text \<open>
  The run state after a confirmation.  A stop stays unless the draft asks for an explicit resume
  and revises the policy that stopped the colleague.
\<close>

definition settle_run_state ::
  "zoneinfo \<Rightarrow> bool \<Rightarrow> ColleaguePolicy option \<Rightarrow> ColleaguePolicy \<Rightarrow> ColleagueDraft \<Rightarrow> Principal
     \<Rightarrow> datetime \<Rightarrow> 'z p5_store_scheme \<Rightarrow> 'z p5_store_scheme result" where
  "settle_run_state zones policy_changed current applied d actor occurred_at st =
     (let upsert = (\<lambda>p reason. upsert_run_state p actor (df_correlation_id d) (df_draft_id d)
          occurred_at reason st) in
      case run_state_of st (df_namespace d) of
        None \<Rightarrow> upsert applied
          (if cp_run_state applied = RUN_STOPPED then ''explicit_admin_stop''
           else ''policy_initialized'')
      | Some run \<Rightarrow>
        if rn_state run = RUN_STOPPED then
          (case current of
             None \<Rightarrow> Inl (ConflictError ''durable stopped state has no active policy'')
           | Some c \<Rightarrow>
             (let change = explicit_resume_change (rn_reason run) c applied;
                  requested = draft_requests_explicit_resume d in
              if requested \<and> change = None
              then Inl (ValidationError ''explicit resume must revise the applicable stop policy'')
              else if requested \<and> policy_changed
              then bindR (upsert applied ''explicit_resume'') (\<lambda>st.
                record_explicit_resume d applied actor occurred_at (rn_reason run) (the change) st)
              else if policy_changed
              then bindR (ColleaguePolicy_init zones (applied\<lparr>cp_run_state := RUN_STOPPED\<rparr>))
                (\<lambda>p. upsert p (rn_reason run))
              else Inr st))
        else if policy_changed then upsert applied
          (if cp_run_state applied = RUN_STOPPED then ''explicit_admin_stop''
           else ''policy_revision_confirmed'')
        else Inr st)"

definition insert_confirmation :: "confirmation_row \<Rightarrow> 'z p5_store_scheme \<Rightarrow> 'z p5_store_scheme result"
where
  "insert_confirmation row st =
     (if (\<exists>x \<in> set (p5_confirmations st). cw_namespace x = cw_namespace row \<and>
           (cw_confirmation_id x = cw_confirmation_id row \<or>
            cw_idempotency_key x = cw_idempotency_key row)) \<or>
         find_draft st (cw_namespace row) (cf_draft_id (cw_result row)) = None
      then Inl (IntegrityError ''p5_draft_confirmations'')
      else Inr (st\<lparr>p5_confirmations := p5_confirmations st @ [row]\<rparr>))"

record confirm_request =
  cx_namespace :: Namespace
  cx_draft_id :: string
  cx_draft_revision :: int
  cx_base_revisions :: "int \<times> int \<times> int"
  cx_canonical_digest :: string
  cx_actor :: Principal
  cx_idempotency_key :: string
  cx_request_digest :: string
  cx_confirmation_id :: string
  cx_occurred_at :: datetime
  cx_change_decision_id :: "string option"

text \<open>The part of the transaction for a draft whose base is current and authorised.\<close>

definition apply_draft ::
  "zoneinfo \<Rightarrow> confirm_request \<Rightarrow> ColleagueDraft \<Rightarrow> 'z p5_store_scheme
     \<Rightarrow> (ConfirmationResult \<times> 'z p5_store_scheme) result" where
  "apply_draft zones q d st =
     (let ns = cx_namespace q; actor = cx_actor q; now = cx_occurred_at q in
      bindR (get_profile (rt st) ns (pf_profile_id (df_proposed_profile d))) (\<lambda>profile.
      bindR (get_mandate (rt st) ns (md_mandate_id (df_proposed_mandate d))) (\<lambda>mandate.
      bindR (get_active_policy ns st) (\<lambda>policy.
      let profile_changed = (\<not> same_profile_content profile (df_proposed_profile d));
          mandate_changed = (\<not> same_mandate_content mandate (df_proposed_mandate d));
          policy_changed = (case policy of None \<Rightarrow> True
            | Some p \<Rightarrow> \<not> same_policy_content p (df_proposed_policy d))
      in checks
        [raise_if (\<not> profile_changed \<and> \<not> mandate_changed \<and> \<not> policy_changed)
           (ValidationError ''confirmation requires an explicit change'')]
      (bindR (apply_profile profile_changed profile d actor now st) (\<lambda>(profile', st).
       bindR (apply_mandate mandate_changed mandate d actor now st) (\<lambda>(mandate', st).
       bindR (apply_policy zones policy_changed policy mandate' d actor now st) (\<lambda>(policy', st).
       bindR (ColleagueDraft_init (d\<lparr>df_state := DRAFT_CONFIRMED, df_updated_at := now\<rparr>))
         (\<lambda>confirmed.
       bindR (insert_draft_audit confirmed ''confirmed'' actor now (write_draft confirmed st)) (\<lambda>st.
       bindR (settle_run_state zones policy_changed policy policy' d actor now st) (\<lambda>st.
       bindR (ConfirmationResult_init \<lparr>cf_draft_id = df_draft_id d,
           cf_draft_revision = df_revision d, cf_profile_revision = pf_revision profile',
           cf_mandate_revision = md_revision mandate', cf_policy_revision = cp_revision policy',
           cf_canonical_digest = df_canonical_digest d, cf_replayed = False,
           cf_schema_version = SCHEMA_VERSION\<rparr>) (\<lambda>r.
       bindR (insert_confirmation \<lparr>cw_namespace = ns, cw_confirmation_id = cx_confirmation_id q,
           cw_idempotency_key = cx_idempotency_key q, cw_request_digest = cx_request_digest q,
           cw_result = r, cw_actor_principal_id = pr_principal_id actor, cw_occurred_at = now,
           cw_correlation_id = df_correlation_id d\<rparr> st) (\<lambda>st. Inr (r, st))))))))))))))"

text \<open>
  \<^verbatim>\<open>self._require_admin\<close> and \<^verbatim>\<open>self._authorize_draft_confirmation\<close> are overridden by P6: they are
  the first two arguments.
\<close>

definition confirm_draft_body ::
  "('z p5_store_scheme \<Rightarrow> Principal \<Rightarrow> unit result)
     \<Rightarrow> (ColleagueDraft \<Rightarrow> Principal \<Rightarrow> string option \<Rightarrow> datetime \<Rightarrow> 'z p5_store_scheme
         \<Rightarrow> 'z p5_store_scheme result)
     \<Rightarrow> zoneinfo \<Rightarrow> confirm_request \<Rightarrow> 'z p5_store_scheme
     \<Rightarrow> (ConfirmationResult option \<times> 'z p5_store_scheme) result" where
  "confirm_draft_body require_admin authorize zones q st =
     (let ns = cx_namespace q; actor = cx_actor q; now = cx_occurred_at q in checks
       [require_admin st actor]
       (case find (\<lambda>x. cw_namespace x = ns \<and> cw_idempotency_key x = cx_idempotency_key q)
           (p5_confirmations st) of
          Some row \<Rightarrow>
            if cw_request_digest row \<noteq> cx_request_digest q
            then Inl (ReplayConflictError ''confirmation idempotency key was rebound'')
            else bindR (ConfirmationResult_init ((cw_result row)\<lparr>cf_replayed := True\<rparr>))
              (\<lambda>r. Inr (Some r, st))
        | None \<Rightarrow>
            bindR (get_draft ns (cx_draft_id q) st) (\<lambda>d. checks
              [raise_if (\<not> (df_revision d = cx_draft_revision q \<and>
                  base_revisions d = cx_base_revisions q \<and>
                  df_canonical_digest d = cx_canonical_digest q))
                 (StaleConflictError ''exact draft confirmation binding is stale''),
               raise_if (df_state d \<noteq> DRAFT_REVIEWABLE)
                 (StaleConflictError ''only an exact reviewable draft can be confirmed'')]
              (bindR (current_revisions st d) (\<lambda>current.
                 if current \<noteq> cx_base_revisions q
                 then bindR (mark_stale d actor now st) (\<lambda>st. Inr (None, st))
                 else bindR (authorize d actor (cx_change_decision_id q) now st) (\<lambda>st.
                   bindR (apply_draft zones q d st) (\<lambda>(r, st). Inr (Some r, st))))))))"

definition confirm_draft_with ::
  "('z p5_store_scheme \<Rightarrow> Principal \<Rightarrow> unit result)
     \<Rightarrow> (ColleagueDraft \<Rightarrow> Principal \<Rightarrow> string option \<Rightarrow> datetime \<Rightarrow> 'z p5_store_scheme
         \<Rightarrow> 'z p5_store_scheme result)
     \<Rightarrow> zoneinfo \<Rightarrow> confirm_request \<Rightarrow> 'z p5_store_scheme
     \<Rightarrow> ConfirmationResult result \<times> 'z p5_store_scheme" where
  "confirm_draft_with require_admin authorize zones q st =
     unless_stale (transaction (confirm_draft_body require_admin authorize zones q) st)"

end
