(* ===== verification/AdmissionStore.thy ===== *)
theory AdmissionStore
  imports PolicyStore
begin

text \<open>
  The runtime half of \<^verbatim>\<open>adapters/sqlite/p5_store.py\<close>: the admission of a trigger under the active
  policy with its wake budget, the revalidation of a semantic decision before it is stored, and
  the policy binding of proposals and of the runtime context.
\<close>

section \<open>Admission\<close>

record PolicyAdmission =
  pa_accepted :: bool
  pa_outcome :: PolicyOutcomeKind
  pa_budget_count :: int
  pa_budget_limit :: int
  pa_record :: PolicyEnforcementRecord
  pa_escalation :: "EscalationRecord option"
  pa_schema_version :: int

definition PolicyAdmission_init :: "PolicyAdmission \<Rightarrow> PolicyAdmission result" where
  "PolicyAdmission_init a = checks
     [chk (require_schema_version (pa_schema_version a)),
      raise_if (pa_budget_count a < 0)
        (ValueError ''policy admission budget count must be non-negative''),
      raise_if (pa_budget_limit a < 1)
        (ValueError ''policy admission budget limit must be positive'')]
     (Inr a)"

record admission_request =
  am_policy :: ColleaguePolicy
  am_trigger_class :: DurableTriggerKind
  am_source_id :: string
  am_occurrence_key :: string
  am_actor :: Principal
  am_correlation_id :: string
  am_causation_id :: string
  am_outcome_id :: string
  am_escalation_id :: string
  am_occurred_at :: datetime

definition record_for_admission ::
  "admission_request \<Rightarrow> PolicyOutcomeKind \<Rightarrow> PolicyEnforcementRecord result" where
  "record_for_admission q outcome =
     (let p = am_policy q; o_value = JStr (PolicyOutcomeKind_value outcome);
          stage = JStr (PolicyStage_value STAGE_PRE_WAKE) in
      bindR (FrozenJsonObject_init [(''outcome'', o_value), (''stage'', stage)]) (\<lambda>safe.
      PolicyEnforcementRecord_init \<lparr>pe_namespace = cp_namespace p, pe_outcome_id = am_outcome_id q,
        pe_policy_id = cp_policy_id p, pe_policy_revision = cp_revision p,
        pe_mandate_id = cp_mandate_id p, pe_mandate_revision = cp_mandate_revision p,
        pe_stage = STAGE_PRE_WAKE, pe_outcome = outcome,
        pe_trigger_class = Some (am_trigger_class q), pe_source_id = Some (am_source_id q),
        pe_actor = am_actor q, pe_correlation_id = am_correlation_id q,
        pe_causation_id = am_causation_id q, pe_occurred_at = am_occurred_at q,
        pe_safe_projection = safe,
        pe_payload_digest = canonical_digest (JObj
          [(''outcome'', o_value), (''policy_id'', JStr (cp_policy_id p)),
           (''policy_revision'', JInt (cp_revision p)), (''source_id'', JStr (am_source_id q)),
           (''stage'', stage)]),
        pe_schema_version = SCHEMA_VERSION\<rparr>))"

definition budget_count :: "'z p5_store_scheme \<Rightarrow> ColleaguePolicy \<Rightarrow> int" where
  "budget_count st p = sum_list (map bg_consumed_count
     (filter (\<lambda>b. bg_namespace b = cp_namespace p \<and> bg_policy_id b = cp_policy_id p \<and>
       bg_policy_revision b = cp_revision p) (p5_budgets st)))"

definition trigger_work ::
  "'z p5_store_scheme \<Rightarrow> ColleaguePolicy \<Rightarrow> string \<Rightarrow> FiniteWork option result" where
  "trigger_work st p work_id =
     (case st_records (rt st) (cp_namespace p, RT_FINITE_WORK, work_id) of
        None \<Rightarrow> Inr None
      | Some (DFiniteWork w) \<Rightarrow> Inr (Some w)
      | Some _ \<Rightarrow> wrong_type)"

text \<open>The failures since the last other result, latest first.\<close>

definition deterministic_failure_streak ::
  "'z p5_store_scheme \<Rightarrow> ColleaguePolicy \<Rightarrow> nat result" where
  "deterministic_failure_streak st p =
     bindR (mapR (\<lambda>r. case r of DActionResult x \<Rightarrow> Inr x | _ \<Rightarrow> wrong_type)
       (list_records st (cp_namespace p) RT_ACTION_RESULT)) (\<lambda>results.
     Inr (length (takeWhile
       (\<lambda>r. ar_state r \<in> {AR_FAILED, AR_RETRYABLE_FAILURE, AR_PERMANENT_FAILURE})
       (rev (sort_key (\<lambda>r. (ar_occurred_at r, ar_action_result_id r)) results)))))"

fun outside_hours_outcome :: "OutsideHoursOutcome \<Rightarrow> PolicyOutcomeKind" where
  "outside_hours_outcome OUTSIDE_DEFER = PO_OUTSIDE_HOURS_DEFER"
| "outside_hours_outcome OUTSIDE_NO_OP = PO_OUTSIDE_HOURS_NO_OP"
| "outside_hours_outcome OUTSIDE_STOP = PO_OUTSIDE_HOURS_STOP"
| "outside_hours_outcome OUTSIDE_ESCALATE = PO_OUTSIDE_HOURS_ESCALATE"

definition condition_outcome ::
  "ColleaguePolicy \<Rightarrow> FiniteWork option \<Rightarrow> nat \<Rightarrow> PolicyOutcomeKind" where
  "condition_outcome p work failure_streak =
     (let failing = (int failure_streak \<ge> cp_failure_limit p) in
      if failing \<and> STOP_REPEATED_FAILURE \<in> set (cp_stop_conditions p) then PO_REPEATED_FAILURE_STOP
      else if failing \<and> ESC_REPEATED_FAILURE \<in> set (cp_escalation_conditions p)
      then PO_REPEATED_FAILURE_ESCALATE
      else if (\<exists>w. work = Some w \<and> fw_state w \<in> {COMPLETED, CANCELLED}) \<and>
        STOP_FINITE_WORK_TERMINAL \<in> set (cp_stop_conditions p) then PO_FINITE_WORK_TERMINAL_STOP
      else if (\<exists>w. work = Some w \<and> fw_state w = BLOCKED) \<and>
        ESC_BLOCKED_WORK \<in> set (cp_escalation_conditions p) then PO_BLOCKED_WORK_ESCALATE
      else PO_ALLOWED)"

text \<open>The outcome before the budget is looked at; \<open>PO_ALLOWED\<close> goes on to the budget.\<close>

definition policy_outcome ::
  "zoneinfo \<Rightarrow> admission_request \<Rightarrow> 'z p5_store_scheme \<Rightarrow> PolicyOutcomeKind result" where
  "policy_outcome zones q st =
     (let p = am_policy q in
      bindR (get_active_policy (cp_namespace p) st) (\<lambda>active.
      if active \<noteq> Some p then Inr PO_STALE_POLICY
      else if policy_stopped st p (cp_namespace p) then Inr PO_STOPPED
      else if am_trigger_class q \<notin> set (cp_allowed_triggers p) then Inr PO_DISALLOWED_TRIGGER
      else if cp_proactivity p = PROACTIVITY_DISABLED then Inr PO_PROACTIVITY_SUPPRESSED
      else bindR (within_working_hours zones p (am_occurred_at q)) (\<lambda>within.
        if \<not> within then Inr (outside_hours_outcome (cp_outside_hours p))
        else bindR (trigger_work st p (am_causation_id q)) (\<lambda>work.
          bindR (deterministic_failure_streak st p) (\<lambda>streak.
          Inr (condition_outcome p work streak))))))"

definition budget_key :: "ColleaguePolicy \<Rightarrow> datetime \<Rightarrow> budget_row \<Rightarrow> bool" where
  "budget_key p bucket b =
     ((bg_namespace b, bg_policy_id b, bg_policy_revision b, bg_period b, bg_bucket_start b) =
      (cp_namespace p, cp_policy_id p, cp_revision p, wb_period (cp_wake_budget p), bucket))"

definition consume_budget ::
  "admission_request \<Rightarrow> 'z p5_store_scheme \<Rightarrow> (PolicyOutcomeKind \<times> 'z p5_store_scheme) result" where
  "consume_budget q st =
     (let p = am_policy q; now = am_occurred_at q in
      bindR (budget_bucket_start (wb_period (cp_wake_budget p)) now) (\<lambda>bucket.
      let counter = find (budget_key p bucket) (p5_budgets st);
          used = (case counter of None \<Rightarrow> 0 | Some b \<Rightarrow> bg_consumed_count b) in
      if \<exists>c \<in> set (p5_consumptions st). cm_namespace c = cp_namespace p \<and>
           cm_occurrence_key c = am_occurrence_key q
      then Inr (PO_DUPLICATE_TRIGGER, st)
      else if used \<ge> wb_limit (cp_wake_budget p) then Inr (PO_BUDGET_EXHAUSTED, st)
      else Inr (PO_ALLOWED, st
        \<lparr>p5_budgets := (case counter of
            None \<Rightarrow> p5_budgets st @ [\<lparr>bg_namespace = cp_namespace p,
              bg_policy_id = cp_policy_id p, bg_policy_revision = cp_revision p,
              bg_period = wb_period (cp_wake_budget p), bg_bucket_start = bucket,
              bg_consumed_count = 1, bg_updated_at = now, bg_revision = 1\<rparr>]
          | Some _ \<Rightarrow> update_where (budget_key p bucket)
              (\<lambda>b. b\<lparr>bg_consumed_count := bg_consumed_count b + 1, bg_updated_at := now,
                bg_revision := bg_revision b + 1\<rparr>) (p5_budgets st)),
         p5_consumptions := p5_consumptions st @ [\<lparr>cm_namespace = cp_namespace p,
            cm_occurrence_key = am_occurrence_key q, cm_policy_id = cp_policy_id p,
            cm_policy_revision = cp_revision p, cm_period = wb_period (cp_wake_budget p),
            cm_bucket_start = bucket, cm_trigger_class = am_trigger_class q,
            cm_source_id = am_source_id q, cm_consumed_at = now\<rparr>]\<rparr>)))"

definition stop_reason :: "ColleaguePolicy \<Rightarrow> PolicyOutcomeKind \<Rightarrow> string option" where
  "stop_reason p outcome =
     (if outcome = PO_OUTSIDE_HOURS_STOP then Some ''outside_hours_stop''
      else if outcome \<in> {PO_REPEATED_FAILURE_STOP, PO_FINITE_WORK_TERMINAL_STOP}
      then Some (PolicyOutcomeKind_value outcome)
      else if outcome = PO_BUDGET_EXHAUSTED \<and> STOP_BUDGET_EXHAUSTED \<in> set (cp_stop_conditions p)
      then Some ''budget_exhausted'' else None)"

definition escalation_condition ::
  "ColleaguePolicy \<Rightarrow> PolicyOutcomeKind \<Rightarrow> EscalationCondition option" where
  "escalation_condition p outcome =
     (let on = (\<lambda>c. if c \<in> set (cp_escalation_conditions p) then Some c else None) in
      case outcome of
        PO_OUTSIDE_HOURS_ESCALATE \<Rightarrow> Some ESC_OUTSIDE_HOURS
      | PO_BUDGET_EXHAUSTED \<Rightarrow> on ESC_BUDGET_EXHAUSTED
      | PO_REPEATED_FAILURE_STOP \<Rightarrow> on ESC_REPEATED_FAILURE
      | PO_REPEATED_FAILURE_ESCALATE \<Rightarrow> on ESC_REPEATED_FAILURE
      | PO_BLOCKED_WORK_ESCALATE \<Rightarrow> Some ESC_BLOCKED_WORK
      | _ \<Rightarrow> None)"

definition stop_colleague ::
  "zoneinfo \<Rightarrow> admission_request \<Rightarrow> string option \<Rightarrow> 'z p5_store_scheme \<Rightarrow> 'z p5_store_scheme result"
where
  "stop_colleague zones q reason st =
     (case reason of None \<Rightarrow> Inr st
      | Some why \<Rightarrow> bindR (ColleaguePolicy_init zones ((am_policy q)\<lparr>cp_run_state := RUN_STOPPED\<rparr>))
          (\<lambda>p. upsert_run_state p (am_actor q) (am_correlation_id q) (am_source_id q)
            (am_occurred_at q) why st))"

definition raise_escalation ::
  "admission_request \<Rightarrow> EscalationCondition option \<Rightarrow> 'z p5_store_scheme
     \<Rightarrow> (EscalationRecord option \<times> 'z p5_store_scheme) result" where
  "raise_escalation q condition st =
     (case condition of None \<Rightarrow> Inr (None, st)
      | Some c \<Rightarrow> bindR (EscalationRecord_init \<lparr>es_namespace = cp_namespace (am_policy q),
            es_escalation_id = am_escalation_id q, es_policy_id = cp_policy_id (am_policy q),
            es_policy_revision = cp_revision (am_policy q), es_condition = c,
            es_safe_summary = ''Typed policy condition: '' @ EscalationCondition_value c,
            es_actor = am_actor q, es_correlation_id = am_correlation_id q,
            es_causation_id = am_source_id q, es_occurred_at = am_occurred_at q,
            es_revision = 1, es_schema_version = SCHEMA_VERSION\<rparr>) (\<lambda>e.
          bindR (insert_escalation e st) (\<lambda>(_, st). Inr (Some e, st))))"

definition admission ::
  "admission_request \<Rightarrow> PolicyEnforcementRecord \<Rightarrow> EscalationRecord option \<Rightarrow> 'z p5_store_scheme
     \<Rightarrow> (PolicyAdmission \<times> 'z p5_store_scheme) result" where
  "admission q r escalation st =
     bindR (PolicyAdmission_init \<lparr>pa_accepted = (pe_outcome r = PO_ALLOWED),
       pa_outcome = pe_outcome r, pa_budget_count = budget_count st (am_policy q),
       pa_budget_limit = wb_limit (cp_wake_budget (am_policy q)), pa_record = r,
       pa_escalation = escalation, pa_schema_version = SCHEMA_VERSION\<rparr>) (\<lambda>a. Inr (a, st))"

text \<open>A trigger that has an outcome on record gets it again, with an escalation of its source.\<close>

definition replay_admission ::
  "admission_request \<Rightarrow> PolicyEnforcementRecord \<Rightarrow> 'z p5_store_scheme
     \<Rightarrow> (PolicyAdmission \<times> 'z p5_store_scheme) result" where
  "replay_admission q row st =
     bindR (outcome_from_row st row) (\<lambda>r.
     bindR (case select_first (\<lambda>e. es_namespace e = cp_namespace (am_policy q) \<and>
           es_causation_id e = am_source_id q) (\<lambda>e. (es_occurred_at e, es_escalation_id e))
           (p5_escalations st) of
         None \<Rightarrow> Inr None
       | Some e \<Rightarrow> bindR (escalation_from_row st e) (\<lambda>e. Inr (Some e))) (\<lambda>escalation.
     admission q r escalation st))"

definition admit_trigger ::
  "zoneinfo \<Rightarrow> admission_request \<Rightarrow> 'z p5_store_scheme \<Rightarrow> (PolicyAdmission \<times> 'z p5_store_scheme) result"
where
  "admit_trigger zones q st =
     (case find_outcome st (cp_namespace (am_policy q)) (am_outcome_id q) of
        Some row \<Rightarrow> replay_admission q row st
      | None \<Rightarrow>
          bindR (policy_outcome zones q st) (\<lambda>first.
          bindR (if first = PO_ALLOWED then consume_budget q st else Inr (first, st))
            (\<lambda>(outcome, st).
          bindR (record_for_admission q outcome) (\<lambda>r.
          bindR (insert_policy_outcome r st) (\<lambda>(_, st).
          bindR (stop_colleague zones q (stop_reason (am_policy q) outcome) st) (\<lambda>st.
          bindR (raise_escalation q (escalation_condition (am_policy q) outcome) st)
            (\<lambda>(escalation, st). admission q r escalation st)))))))"

section \<open>Revalidation\<close>

definition wake_trigger_class :: "WakeCycle \<Rightarrow> DurableTriggerKind" where
  "wake_trigger_class w =
     (if wk_trigger_timer_occurrence_ids w \<noteq> [] then TRIGGER_TIMER else TRIGGER_EVENT)"

definition stopped_outcome ::
  "AgendaClaim \<Rightarrow> Decision \<Rightarrow> ColleaguePolicy \<Rightarrow> 'z p5_store_scheme \<Rightarrow> 'z p5_store_scheme result" where
  "stopped_outcome claim d p st =
     (if \<exists>r \<in> set (p5_outcomes st). pe_namespace r = gl_namespace claim \<and>
           pe_correlation_id r = dc_correlation_id d \<and> pe_causation_id r = dc_agenda_item_id d \<and>
           pe_outcome r = PO_STOPPED
      then Inr st
      else bindR (get_wake_cycle (rt st) (gl_namespace claim) (dc_wake_cycle_id d)) (\<lambda>wake.
        let projection =
          [(''outcome'', JStr (PolicyOutcomeKind_value PO_STOPPED)),
           (''stage'', JStr (PolicyStage_value STAGE_POST_MODEL)),
           (''persistence_revalidation'', JBool True)] in
        bindR (FrozenJsonObject_init projection) (\<lambda>safe.
        bindR (PolicyEnforcementRecord_init \<lparr>pe_namespace = cp_namespace p,
            pe_outcome_id = policy_outcome_id (dc_decision_id d @ [CHR 0x00] @
              ''proposal-persistence'' @ [CHR 0x00] @ ''stopped''),
            pe_policy_id = cp_policy_id p, pe_policy_revision = cp_revision p,
            pe_mandate_id = cp_mandate_id p, pe_mandate_revision = cp_mandate_revision p,
            pe_stage = STAGE_POST_MODEL, pe_outcome = PO_STOPPED,
            pe_trigger_class = Some (wake_trigger_class wake),
            pe_source_id = wk_causation_id wake, pe_actor = dc_actor d,
            pe_correlation_id = dc_correlation_id d, pe_causation_id = dc_agenda_item_id d,
            pe_occurred_at = dc_occurred_at d, pe_safe_projection = safe,
            pe_payload_digest = canonical_digest (JObj projection),
            pe_schema_version = SCHEMA_VERSION\<rparr>) (\<lambda>r.
        bindR (insert_policy_outcome r st) (\<lambda>(_, st). Inr st)))))"

definition prepare_semantic_decision ::
  "AgendaClaim \<Rightarrow> SemanticDecision \<Rightarrow> 'z p5_store_scheme
     \<Rightarrow> (SemanticDecision \<times> 'z p5_store_scheme) result" where
  "prepare_semantic_decision claim semantic st =
     bindR (get_active_policy (gl_namespace claim) st) (\<lambda>active.
     case active of
       None \<Rightarrow> Inr (semantic, st)
     | Some p \<Rightarrow>
       if \<not> policy_stopped st p (gl_namespace claim) then Inr (semantic, st)
       else bindR (stopped_outcome claim (sd_decision semantic) p st) (\<lambda>st.
         if sd_proposal semantic = None then Inr (semantic, st)
         else bindR (Decision_init ((sd_decision semantic)\<lparr>dc_kind := NO_ACTION,
             dc_rationale :=
               ''Durable stopped state was revalidated before proposal persistence.'',
             dc_proposed_effect_id := None, dc_policy_id := Some (cp_policy_id p),
             dc_policy_revision := Some (cp_revision p)\<rparr>)) (\<lambda>d.
           bindR (SemanticDecision_init \<lparr>sd_outcome = SO_NO_OP, sd_decision = d,
             sd_proposal = None, sd_request_id = sd_request_id semantic,
             sd_schema_version = SCHEMA_VERSION\<rparr>) (\<lambda>semantic. Inr (semantic, st)))))"

text \<open>\<^verbatim>\<open>commit_semantic_decision\<close> with the revalidation between the claim check and the rest.\<close>

definition commit_governed_decision ::
  "AgendaClaim \<Rightarrow> SemanticDecision \<Rightarrow> 'z p5_store_scheme \<Rightarrow> (unit \<times> 'z p5_store_scheme) result" where
  "commit_governed_decision claim semantic st =
     bindR (require_agenda_claim claim (rt st)) (\<lambda>_.
     bindR (prepare_semantic_decision claim semantic st) (\<lambda>(semantic, st).
     bindR (commit_semantic_decision claim semantic (rt st)) (\<lambda>(_, s). Inr ((), st\<lparr>rt := s\<rparr>))))"

definition require_current_proposal_policy ::
  "EffectProposal \<Rightarrow> 'z p5_store_scheme \<Rightarrow> ColleaguePolicy option result" where
  "require_current_proposal_policy p st =
     bindR (get_active_policy (ep_namespace p) st) (\<lambda>active.
     case active of
       None \<Rightarrow>
         if ep_policy_id p = None \<and> ep_policy_revision p = None then Inr None
         else Inl (PermissionDeniedError ''proposal policy binding is stale'')
     | Some a \<Rightarrow> checks
         [raise_if ((ep_policy_id p, ep_policy_revision p) \<noteq>
              (Some (cp_policy_id a), Some (cp_revision a)))
            (PermissionDeniedError ''proposal policy binding is stale''),
          raise_if ((ep_mandate_id p, ep_mandate_revision p) \<noteq>
              (Some (cp_mandate_id a), Some (cp_mandate_revision a)))
            (PermissionDeniedError ''proposal Mandate/policy binding is stale''),
          raise_if (policy_stopped st a (ep_namespace p))
            (PermissionDeniedError ''stopped policy refused proposal use'')]
         (Inr (Some a)))"

definition resolve_policy_context ::
  "Namespace \<Rightarrow> string \<Rightarrow> string \<Rightarrow> string \<Rightarrow> 'z p5_store_scheme \<Rightarrow> ServiceRuntimeContext result" where
  "resolve_policy_context ns model_principal_id service_principal_id mandate_id st =
     bindR (resolve_runtime_context ns model_principal_id service_principal_id mandate_id st)
       (\<lambda>base.
     bindR (get_active_policy ns st) (\<lambda>active.
     case active of
       None \<Rightarrow> Inr base
     | Some p \<Rightarrow> checks
         [raise_if ((cp_mandate_id p, cp_mandate_revision p) \<noteq>
              (sx_mandate_id base, sx_mandate_revision base))
            (PermissionDeniedError ''runtime Mandate/policy binding is stale'')]
         (ServiceRuntimeContext_init (base\<lparr>sx_policy_id := Some (cp_policy_id p),
            sx_policy_revision := Some (cp_revision p)\<rparr>))))"

section \<open>The Studio\<close>

datatype PolicyStatus = POLICY_CONFIRMED | POLICY_LEGACY_UNCONFIRMED

record P5StudioSnapshot =
  s5_profile :: Profile
  s5_mandate :: Mandate
  s5_policy :: "ColleaguePolicy option"
  s5_policy_status :: PolicyStatus
  s5_drafts :: "ColleagueDraft list"
  s5_policy_outcomes :: "PolicyEnforcementRecord list"
  s5_escalations :: "EscalationRecord list"
  s5_budget_count :: int
  s5_run_state :: "PolicyRunState option"
  s5_schema_version :: int

definition P5StudioSnapshot_init :: "P5StudioSnapshot \<Rightarrow> P5StudioSnapshot result" where
  "P5StudioSnapshot_init s = checks
     [chk (require_schema_version (s5_schema_version s)),
      require_exact (pf_namespace (s5_profile s)) (md_namespace (s5_mandate s)),
      opt_chk (\<lambda>p. require_exact (pf_namespace (s5_profile s)) (cp_namespace p)) (s5_policy s),
      raise_if ((s5_policy s = None) \<noteq> (s5_policy_status s = POLICY_LEGACY_UNCONFIRMED))
        (ValueError ''legacy policy status must match policy absence'')]
     (Inr s)"

definition p5_studio_snapshot :: "Namespace \<Rightarrow> 'z p5_store_scheme \<Rightarrow> P5StudioSnapshot result" where
  "p5_studio_snapshot ns st =
     bindR (active_configuration ns st) (\<lambda>(profile, mandate).
     bindR (get_active_policy ns st) (\<lambda>policy.
     bindR (list_drafts ns st) (\<lambda>drafts.
     bindR (mapR (outcome_from_row st) (sort_key (\<lambda>r. (pe_occurred_at r, pe_outcome_id r))
       (filter (\<lambda>r. pe_namespace r = ns) (p5_outcomes st)))) (\<lambda>outcomes.
     bindR (mapR (escalation_from_row st) (sort_key (\<lambda>r. (es_occurred_at r, es_escalation_id r))
       (filter (\<lambda>r. es_namespace r = ns) (p5_escalations st)))) (\<lambda>escalations.
     P5StudioSnapshot_init \<lparr>s5_profile = profile, s5_mandate = mandate, s5_policy = policy,
       s5_policy_status = (if policy = None then POLICY_LEGACY_UNCONFIRMED else POLICY_CONFIRMED),
       s5_drafts = drafts, s5_policy_outcomes = outcomes, s5_escalations = escalations,
       s5_budget_count = (case policy of None \<Rightarrow> 0 | Some p \<Rightarrow> budget_count st p),
       s5_run_state = map_option rn_state (run_state_of st ns),
       s5_schema_version = SCHEMA_VERSION\<rparr>)))))"

end
