(* ===== verification/GovernanceStore.thy ===== *)
theory GovernanceStore
  imports AdmissionStore
begin

text \<open>
  The base of \<^verbatim>\<open>adapters/sqlite/p6_store.py\<close> over the tables of the migration 007: memberships,
  the authority check every governed operation starts with, the governance audit, governed
  sessions, and the bootstrap of the first Admin.
\<close>

section \<open>Tables\<close>

record governance_audit_row =
  ga_namespace :: Namespace
  ga_audit_id :: string
  ga_record_type :: string
  ga_record_id :: string
  ga_record_revision :: int
  ga_action :: string
  ga_result :: string
  ga_actor_principal_id :: string
  ga_actor_kind :: PrincipalKind
  ga_authority_revision :: string
  ga_correlation_id :: string
  ga_causation_id :: string
  ga_occurred_at :: datetime
  ga_safe_digest :: string
  ga_safe_projection :: "(string \<times> json) list"

text \<open>\<^verbatim>\<open>p6_bootstrap_transitions\<close>: its only transition is \<^verbatim>\<open>transition:second-admin\<close>.\<close>

record transition_row =
  tn_tenant_id :: string
  tn_available :: bool
  tn_active_credential_id :: "string option"
  tn_consumed_principal_id :: "string option"
  tn_created_by_principal_id :: string
  tn_updated_at :: datetime
  tn_revision :: int

record effect_binding_row =
  eb_namespace :: Namespace
  eb_approval_decision_id :: string
  eb_principal_id :: string
  eb_principal_revision :: int
  eb_role_revision :: int
  eb_membership_revision :: int
  eb_proposal_id :: string
  eb_proposal_revision :: int
  eb_proposal_digest :: string
  eb_valid_until :: datetime
  eb_consumed_at :: datetime

record p6_store = p5_store +
  p6_memberships :: "Membership list"
  p6_transitions :: "transition_row list"
  p6_credentials :: "GovernanceCredential list"
  p6_proposals :: "ChangeProposal list"
  p6_decisions :: "ChangeDecision list"
  p6_bindings :: "effect_binding_row list"
  p6_audit :: "governance_audit_row list"

section \<open>Authority\<close>

text \<open>A row keeps the ID of the issuer, who is read as the principal is now.\<close>

definition membership_from_row :: "'z p6_store_scheme \<Rightarrow> Membership \<Rightarrow> Membership result" where
  "membership_from_row st m =
     bindR (get_principal (rt st) (ns_tenant_id (mb_namespace m)) (pr_principal_id (mb_issued_by m)))
       (\<lambda>issuer. Membership_init (m\<lparr>mb_issued_by := issuer\<rparr>))"

definition find_membership :: "'z p6_store_scheme \<Rightarrow> string \<Rightarrow> string \<Rightarrow> Membership option" where
  "find_membership st tenant_id principal_id =
     find (\<lambda>m. ns_tenant_id (mb_namespace m) = tenant_id \<and> mb_principal_id m = principal_id)
       (p6_memberships st)"

definition membership_for_principal ::
  "'z p6_store_scheme \<Rightarrow> string \<Rightarrow> string \<Rightarrow> Membership result" where
  "membership_for_principal st tenant_id principal_id =
     (case find_membership st tenant_id principal_id of
        None \<Rightarrow> Inl (PermissionDeniedError ''governance authority was refused'')
      | Some m \<Rightarrow> membership_from_row st m)"

definition require_current_membership ::
  "'z p6_store_scheme \<Rightarrow> Principal \<Rightarrow> AuthorizationAction \<Rightarrow> Namespace \<Rightarrow> Membership result" where
  "require_current_membership st actor action ns =
     (let tenant_id = ns_tenant_id (pr_namespace actor) in
      bindR (get_principal (rt st) tenant_id (pr_principal_id actor)) (\<lambda>current.
      bindR (membership_for_principal st tenant_id (pr_principal_id actor)) (\<lambda>m. checks
        [raise_if (current \<noteq> actor)
           (PermissionDeniedError ''governance principal binding was refused'')]
        (case authorize_action current m action ns of
           Inl _ \<Rightarrow> Inl (PermissionDeniedError ''governance authority was refused'')
         | Inr _ \<Rightarrow> Inr m))))"

text \<open>The overrides of \<^verbatim>\<open>_require_admin\<close> and \<^verbatim>\<open>_authorize_work_assignment\<close>.\<close>

definition require_draft_manager :: "'z p6_store_scheme \<Rightarrow> Principal \<Rightarrow> unit result" where
  "require_draft_manager st actor =
     bindR (tenant_namespace (ns_tenant_id (pr_namespace actor))) (\<lambda>ns.
       chk (require_current_membership st actor MANAGE_DRAFT ns))"

definition authorize_work_assignment :: "'z p6_store_scheme \<Rightarrow> FiniteWork \<Rightarrow> unit result" where
  "authorize_work_assignment st work =
     chk (require_current_membership st (fw_actor work) ASSIGN_WORK (fw_namespace work))"

definition authority_text :: "Membership \<Rightarrow> string" where
  "authority_text m = ''role:'' @ int_text (mb_role_revision m) @ '':member:'' @
     int_text (mb_membership_revision m)"

section \<open>The governance audit\<close>

record governance_note =
  gn_namespace :: Namespace
  gn_record_type :: string
  gn_record_id :: string
  gn_record_revision :: int
  gn_action :: string
  gn_result :: string
  gn_actor :: Principal
  gn_authority_revision :: string
  gn_correlation_id :: string
  gn_causation_id :: string
  gn_occurred_at :: datetime
  gn_safe_projection :: "(string \<times> json) list"

definition governance_audit_id :: "governance_note \<Rightarrow> string" where
  "governance_audit_id n = ''audit:p6:'' @ take 32 (sha256_hex (utf8 (json_text (JObj
     [(''record_type'', JStr (gn_record_type n)), (''record_id'', JStr (gn_record_id n)),
      (''record_revision'', JInt (gn_record_revision n)), (''action'', JStr (gn_action n))]))))"

definition governance_audit_row_of :: "governance_note \<Rightarrow> governance_audit_row" where
  "governance_audit_row_of n =
     \<lparr>ga_namespace = gn_namespace n, ga_audit_id = governance_audit_id n,
      ga_record_type = gn_record_type n, ga_record_id = gn_record_id n,
      ga_record_revision = gn_record_revision n, ga_action = gn_action n,
      ga_result = gn_result n, ga_actor_principal_id = pr_principal_id (gn_actor n),
      ga_actor_kind = pr_kind (gn_actor n), ga_authority_revision = gn_authority_revision n,
      ga_correlation_id = gn_correlation_id n, ga_causation_id = gn_causation_id n,
      ga_occurred_at = gn_occurred_at n,
      ga_safe_digest = canonical_digest (JObj
        [(''namespace'', namespace_envelope (gn_namespace n)),
         (''record_type'', JStr (gn_record_type n)), (''record_id'', JStr (gn_record_id n)),
         (''record_revision'', JInt (gn_record_revision n)), (''action'', JStr (gn_action n)),
         (''result'', JStr (gn_result n)),
         (''authority_revision'', JStr (gn_authority_revision n)),
         (''safe_projection'', JObj (gn_safe_projection n))]),
      ga_safe_projection = gn_safe_projection n\<rparr>"

definition insert_governance_audit ::
  "governance_note \<Rightarrow> 'z p6_store_scheme \<Rightarrow> 'z p6_store_scheme result" where
  "insert_governance_audit n st =
     (let row = governance_audit_row_of n in checks
        [chk (require_utc (gn_occurred_at n) ''datetime''),
         raise_if ((\<exists>a \<in> set (p6_audit st). ga_namespace a = ga_namespace row \<and>
              (ga_audit_id a = ga_audit_id row \<or>
               (ga_record_type a, ga_record_id a, ga_record_revision a, ga_action a) =
               (ga_record_type row, ga_record_id row, ga_record_revision row, ga_action row))) \<or>
             ga_record_revision row \<le> 0)
           (IntegrityError ''p6_governance_audit'')]
        (Inr (st\<lparr>p6_audit := p6_audit st @ [row]\<rparr>)))"

section \<open>Memberships and sessions\<close>

definition insert_membership :: "Membership \<Rightarrow> 'z p6_store_scheme \<Rightarrow> 'z p6_store_scheme result" where
  "insert_membership m st =
     (let t = ns_tenant_id (mb_namespace m) in checks
        [raise_if (find_membership st t (mb_principal_id m) \<noteq> None \<or>
            st_records (rt st) (principal_key t (mb_principal_id m)) = None)
           (IntegrityError ''p6_memberships'')]
        (Inr (st\<lparr>p6_memberships := p6_memberships st @ [m]\<rparr>)))"

definition active_admins :: "'z p6_store_scheme \<Rightarrow> string \<Rightarrow> Membership list" where
  "active_admins st tenant_id = filter (\<lambda>m. ns_tenant_id (mb_namespace m) = tenant_id \<and>
     mb_status m = MEMBER_ACTIVE \<and> mb_roles m = [TENANT_ADMIN]) (p6_memberships st)"

text \<open>A session stays good only for the role and membership revisions it was issued for.\<close>

definition governed_session ::
  "string \<Rightarrow> datetime \<Rightarrow> 'z p6_store_scheme \<Rightarrow> (AuthenticatedSession \<times> Membership) result" where
  "governed_session credential_digest evaluated_at st =
     (let refused = PermissionDeniedError ''authenticated session was refused'' in
      case live_session st credential_digest of
        None \<Rightarrow> Inl refused
      | Some r \<Rightarrow>
          bindR (session_from_row st r) (\<lambda>s.
          bindR (session_expired s evaluated_at) (\<lambda>expired. checks
            [raise_if expired refused]
          (bindR (membership_for_principal st (se_tenant_id s) (pr_principal_id (se_principal s)))
            (\<lambda>m. checks
            [raise_if (mb_status m \<noteq> MEMBER_ACTIVE \<or>
                se_role_revision s \<noteq> mb_role_revision m \<or>
                se_membership_revision s \<noteq> mb_membership_revision m \<or>
                pr_roles (se_principal s) \<noteq> mb_roles m \<or>
                pr_revision (se_principal s) \<noteq> mb_role_revision m) refused]
            (if se_active_colleague_id s = None then Inr (s, m)
             else bindR (session_colleague s) (\<lambda>ns.
                  bindR (allows_namespace m ns) (\<lambda>allowed.
                    if allowed then Inr (s, m) else Inl refused))))))))"

text \<open>The session's row is live, reads as the given session, and carries current authority.\<close>

definition session_is_current ::
  "'z p6_store_scheme \<Rightarrow> AuthenticatedSession \<Rightarrow> Membership \<Rightarrow> string \<Rightarrow> unit result" where
  "session_is_current st s m refusal =
     (case find (\<lambda>r. session_key (sr_session r) = session_key s \<and> sr_revoked_at r = None)
         (p4_sessions st) of
        None \<Rightarrow> Inl (PermissionDeniedError refusal)
      | Some r \<Rightarrow> bindR (session_from_row st r) (\<lambda>x.
          raise_if (x \<noteq> s \<or> se_role_revision s \<noteq> mb_role_revision m \<or>
              se_membership_revision s \<noteq> mb_membership_revision m)
            (PermissionDeniedError refusal)))"

definition set_active_colleague_replay ::
  "AuthenticatedSession \<Rightarrow> string \<Rightarrow> string \<Rightarrow> string \<Rightarrow> datetime \<Rightarrow> 'z p6_store_scheme
     \<Rightarrow> (AuthenticatedSession \<times> 'z p6_store_scheme) result" where
  "set_active_colleague_replay s colleague_id key request_digest occurred_at st =
     (let action = ''p6:set-active-colleague:atomic'' in
      bindR (colleague_namespace (se_tenant_id s) colleague_id) (\<lambda>ns.
      bindR (require_current_membership st (se_principal s) READ_COLLEAGUE ns) (\<lambda>m.
      case find_replay st (se_tenant_id s) (pr_principal_id (se_principal s)) action key of
        Some r \<Rightarrow>
          if ry_request_digest r \<noteq> request_digest
          then Inl (ReplayConflictError ''active colleague idempotency key was rebound'')
          else (case ry_result r of RV_SESSION x \<Rightarrow> Inr (x, st) | _ \<Rightarrow> wrong_type)
      | None \<Rightarrow> checks
          [session_is_current st s m ''session namespace binding was refused'',
           raise_if (\<not> has_profile st ns)
             (NotFoundError ''active colleague namespace was not found'')]
          (bindR (set_session_colleague s colleague_id
             ''session namespace binding lost its atomic claim'' st) (\<lambda>st.
           bindR (AuthenticatedSession_init (s\<lparr>se_active_colleague_id := Some colleague_id,
             se_revision := se_revision s + 1\<rparr>)) (\<lambda>updated. checks
           [chk (require_utc occurred_at ''datetime'')]
           (bindR (insert_replay s action key request_digest (RV_SESSION updated) st) (\<lambda>st.
             Inr (updated, st)))))))))"

section \<open>The first Admin\<close>

definition removeprefix :: "string \<Rightarrow> string \<Rightarrow> string" where
  "removeprefix p s = (if take (length p) s = p then drop (length p) s else s)"

definition first_membership :: "Principal \<Rightarrow> string \<Rightarrow> datetime \<Rightarrow> Membership" where
  "first_membership p credential_id occurred_at =
     \<lparr>mb_namespace = pr_namespace p,
      mb_membership_id = ''membership:'' @ removeprefix ''human:'' (pr_principal_id p),
      mb_principal_id = pr_principal_id p, mb_roles = pr_roles p, mb_colleague_ids = [''*''],
      mb_status = MEMBER_ACTIVE, mb_role_revision = 1, mb_membership_revision = 1,
      mb_issued_by = p, mb_created_at = occurred_at, mb_updated_at = occurred_at,
      mb_correlation_id = ''correlation:bootstrap'', mb_causation_id = credential_id,
      mb_revision = 1, mb_schema_version = SCHEMA_VERSION\<rparr>"

definition insert_transition ::
  "string \<Rightarrow> string \<Rightarrow> datetime \<Rightarrow> 'z p6_store_scheme \<Rightarrow> 'z p6_store_scheme result" where
  "insert_transition tenant_id principal_id occurred_at st = checks
     [chk (require_utc occurred_at ''datetime''),
      raise_if (\<exists>t \<in> set (p6_transitions st). tn_tenant_id t = tenant_id)
        (IntegrityError ''p6_bootstrap_transitions'')]
     (Inr (st\<lparr>p6_transitions := p6_transitions st @ [\<lparr>tn_tenant_id = tenant_id,
        tn_available = True, tn_active_credential_id = None, tn_consumed_principal_id = None,
        tn_created_by_principal_id = principal_id, tn_updated_at = occurred_at,
        tn_revision = 1\<rparr>]\<rparr>))"

definition consume_governed_bootstrap ::
  "string \<Rightarrow> string \<Rightarrow> Principal \<Rightarrow> AuthenticatedSession \<Rightarrow> datetime \<Rightarrow> 'z p6_store_scheme
     \<Rightarrow> (AuthenticatedSession \<times> 'z p6_store_scheme) result" where
  "consume_governed_bootstrap tenant_id token_digest p s occurred_at st = checks
     [bootstrap_admin tenant_id p s ''bootstrap authority binding was refused'']
     (bindR (AuthenticatedSession_init (s\<lparr>se_role_revision := 1, se_membership_revision := 1\<rparr>))
       (\<lambda>governed.
      bindR (bootstrap_of_token st tenant_id token_digest
       (PermissionDeniedError ''bootstrap exchange was refused'')) (\<lambda>b. checks
       [raise_if (br_retrieved_at b = None \<or> occurred_at \<ge> br_expires_at b)
          (PermissionDeniedError ''bootstrap exchange was refused''),
        raise_if (br_consumed_at b \<noteq> None)
          (ConflictError ''bootstrap exchange replay was refused''),
        raise_if (human_counted (rt st) tenant_id)
          (ConflictError ''the first durable human principal already exists'')]
       (bindR (on_rt (insert_record_as (Some p) (Some ''correlation:bootstrap'')
          (Some (br_credential_id b)) (Some occurred_at) (DPrincipal p)) st) (\<lambda>st.
        bindR (Membership_init (first_membership p (br_credential_id b) occurred_at)) (\<lambda>m.
        bindR (insert_membership m st) (\<lambda>st.
        bindR (insert_transition tenant_id (pr_principal_id p) occurred_at st) (\<lambda>st.
        bindR (update_bootstrap (\<lambda>x. br_consumed_at x = None)
          (\<lambda>x. x\<lparr>br_consumed_at := Some occurred_at\<rparr>) b tenant_id
          (ConflictError ''bootstrap exchange lost its atomic claim'') st) (\<lambda>st.
        bindR (insert_session (governed\<lparr>se_tenant_id := tenant_id,
          se_active_colleague_id := None, se_revision := 1\<rparr>) st) (\<lambda>st.
        bindR (tenant_namespace tenant_id) (\<lambda>ns.
        bindR (insert_governance_audit \<lparr>gn_namespace = ns, gn_record_type = ''membership'',
            gn_record_id = mb_membership_id m, gn_record_revision = 1,
            gn_action = ''bootstrap_admin_created'', gn_result = ''created'', gn_actor = p,
            gn_authority_revision = ''role:1:member:1'',
            gn_correlation_id = mb_correlation_id m, gn_causation_id = mb_causation_id m,
            gn_occurred_at = occurred_at,
            gn_safe_projection = [(''role'', JStr (HumanRole_value TENANT_ADMIN))]\<rparr> st) (\<lambda>st.
        Inr (governed, st)))))))))))))"

end
