(* ===== verification/ChangeStore.thy ===== *)
theory ChangeStore
  imports GovernanceStore
begin

text \<open>
  The change operations of \<^verbatim>\<open>adapters/sqlite/p6_store.py\<close>: a change is proposed by one Admin,
  decided by another, and applied once, to a draft, a membership or an Admin enrollment.
\<close>

section \<open>Proposals\<close>

definition find_proposal :: "'z p6_store_scheme \<Rightarrow> Namespace \<Rightarrow> string \<Rightarrow> ChangeProposal option" where
  "find_proposal st ns proposal_id =
     find (\<lambda>p. ch_namespace p = ns \<and> ch_proposal_id p = proposal_id) (p6_proposals st)"

definition get_change_proposal ::
  "Namespace \<Rightarrow> string \<Rightarrow> 'z p6_store_scheme \<Rightarrow> ChangeProposal result" where
  "get_change_proposal ns proposal_id st =
     (case find_proposal st ns proposal_id of
        None \<Rightarrow> Inl (NotFoundError ''governance change was not found'')
      | Some p \<Rightarrow> ChangeProposal_init p)"

definition find_change_proposal_replay ::
  "Namespace \<Rightarrow> string \<Rightarrow> string \<Rightarrow> 'z p6_store_scheme \<Rightarrow> ChangeProposal option result" where
  "find_change_proposal_replay ns proposer_id key st =
     (case find (\<lambda>p. ch_namespace p = ns \<and> ch_proposer_principal_id p = proposer_id \<and>
         ch_idempotency_key p = key) (p6_proposals st) of
        None \<Rightarrow> Inr None
      | Some p \<Rightarrow> bindR (ChangeProposal_init p) (\<lambda>p. Inr (Some p)))"

definition list_change_proposals ::
  "Namespace \<Rightarrow> 'z p6_store_scheme \<Rightarrow> ChangeProposal list result" where
  "list_change_proposals ns st = mapR ChangeProposal_init
     (sort_key (\<lambda>p. (ch_issued_at p, ch_proposal_id p))
       (filter (\<lambda>p. ch_namespace p = ns) (p6_proposals st)))"

definition same_change_proposal_request :: "ChangeProposal \<Rightarrow> ChangeProposal \<Rightarrow> bool" where
  "same_change_proposal_request stored requested =
     ((ch_namespace stored, ch_change_kind stored, ch_proposer_principal_id stored,
       ch_idempotency_key stored, ch_target_id stored) =
      (ch_namespace requested, ch_change_kind requested, ch_proposer_principal_id requested,
       ch_idempotency_key requested, ch_target_id requested) \<and>
      (if ch_change_kind stored = CHANGE_DRAFT
       then (ch_target_revision stored, ch_canonical_digest stored) =
            (ch_target_revision requested, ch_canonical_digest requested)
       else (ch_proposed_role stored, ch_proposed_status stored, ch_proposed_colleague_ids stored) =
            (ch_proposed_role requested, ch_proposed_status requested,
             ch_proposed_colleague_ids requested)))"

definition proposal_bases :: "ChangeProposal \<Rightarrow> int \<times> int \<times> int" where
  "proposal_bases p =
     (ch_base_profile_revision p, ch_base_mandate_revision p, ch_base_policy_revision p)"

text \<open>What the proposal must fit: the reviewable draft, or the digest of the change it names.\<close>

definition proposal_fits_draft :: "'z p6_store_scheme \<Rightarrow> ChangeProposal \<Rightarrow> unit result" where
  "proposal_fits_draft st p =
     (case find_draft st (ch_namespace p) (ch_target_id p) of
        None \<Rightarrow> Inl (NotFoundError ''governance target was not found'')
      | Some row \<Rightarrow> bindR (ColleagueDraft_init row) (\<lambda>d.
          raise_if (df_state d \<noteq> DRAFT_REVIEWABLE \<or> df_revision d \<noteq> ch_target_revision p \<or>
              df_canonical_digest d \<noteq> ch_canonical_digest p \<or> base_revisions d \<noteq> proposal_bases p)
            (StaleConflictError ''exact draft change proposal is stale'')))"

definition change_digest_of :: "ChangeProposal \<Rightarrow> string result" where
  "change_digest_of p = governance_change_digest (ch_change_kind p) (ch_target_id p)
     (ch_target_revision p) (ch_proposed_role p) (ch_proposed_status p) (ch_proposed_colleague_ids p)"

definition proposal_fits_change :: "'z p6_store_scheme \<Rightarrow> ChangeProposal \<Rightarrow> unit result" where
  "proposal_fits_change st p =
     bindR (change_digest_of p) (\<lambda>expected. check_all
       [raise_if (expected \<noteq> ch_canonical_digest p)
          (StaleConflictError ''governance change digest was refused''),
        (if ch_change_kind p = CHANGE_MEMBERSHIP
         then bindR (membership_for_principal st (ns_tenant_id (ch_namespace p)) (ch_target_id p))
           (\<lambda>target. check_all
           [raise_if (mb_membership_revision target \<noteq> ch_target_revision p)
              (StaleConflictError ''membership change base is stale''),
            raise_if (ch_proposed_role p = None \<or> ch_proposed_status p = None)
              (PermissionDeniedError ''membership change binding is incomplete'')])
         else raise_if (ch_proposed_role p \<noteq> Some TENANT_ADMIN \<or>
             ch_proposed_status p \<noteq> Some MEMBER_ACTIVE \<or> ch_proposed_colleague_ids p \<noteq> [''*''])
           (PermissionDeniedError ''Admin enrollment authority was refused''))])"

definition insert_proposal :: "ChangeProposal \<Rightarrow> 'z p6_store_scheme \<Rightarrow> 'z p6_store_scheme result" where
  "insert_proposal p st =
     (if \<exists>x \<in> set (p6_proposals st). ch_namespace x = ch_namespace p \<and>
           (ch_proposal_id x = ch_proposal_id p \<or>
            (ch_proposer_principal_id x, ch_idempotency_key x) =
            (ch_proposer_principal_id p, ch_idempotency_key p))
      then Inl (IntegrityError ''p6_change_proposals'')
      else Inr (st\<lparr>p6_proposals := p6_proposals st @
        [p\<lparr>ch_decision_id := None, ch_consumed_at := None\<rparr>]\<rparr>))"

definition change_note ::
  "ChangeProposal \<Rightarrow> string \<Rightarrow> string \<Rightarrow> Principal \<Rightarrow> Membership \<Rightarrow> string \<Rightarrow> datetime
     \<Rightarrow> (string \<times> json) list \<Rightarrow> governance_note" where
  "change_note p action result actor m causation_id occurred_at projection =
     \<lparr>gn_namespace = ch_namespace p, gn_record_type = ''change_proposal'',
      gn_record_id = ch_proposal_id p, gn_record_revision = ch_revision p, gn_action = action,
      gn_result = result, gn_actor = actor, gn_authority_revision = authority_text m,
      gn_correlation_id = ch_correlation_id p, gn_causation_id = causation_id,
      gn_occurred_at = occurred_at, gn_safe_projection = projection\<rparr>"

definition kind_projection :: "ChangeProposal \<Rightarrow> (string \<times> json) list" where
  "kind_projection p = [(''change_kind'', JStr (ChangeKind_value (ch_change_kind p)))]"

definition create_change_proposal ::
  "ChangeProposal \<Rightarrow> 'z p6_store_scheme \<Rightarrow> (ChangeProposal \<times> 'z p6_store_scheme) result" where
  "create_change_proposal p st =
     bindR (get_principal (rt st) (ns_tenant_id (ch_namespace p)) (ch_proposer_principal_id p))
       (\<lambda>proposer.
     bindR (require_current_membership st proposer PROPOSE_CHANGE (ch_namespace p)) (\<lambda>m. checks
       [raise_if (ch_proposer_role_revision p \<noteq> mb_role_revision m \<or>
            ch_proposer_membership_revision p \<noteq> mb_membership_revision m \<or>
            ch_state p \<noteq> CH_PENDING)
          (PermissionDeniedError ''change proposer binding was refused'')]
       (bindR (find_change_proposal_replay (ch_namespace p) (ch_proposer_principal_id p)
          (ch_idempotency_key p) st) (\<lambda>existing.
        case existing of
          Some stored \<Rightarrow>
            if \<not> same_change_proposal_request stored p
            then Inl (ReplayConflictError ''change proposal idempotency key was rebound'')
            else Inr (stored, st)
        | None \<Rightarrow> checks
            [if ch_change_kind p = CHANGE_DRAFT then proposal_fits_draft st p
             else proposal_fits_change st p]
            (bindR (insert_proposal p st) (\<lambda>st.
             bindR (insert_governance_audit (change_note p ''change_proposed'' ''pending'' proposer m
               (ch_causation_id p) (ch_issued_at p)
               (kind_projection p @ [(''target_revision'', JInt (ch_target_revision p)),
                 (''canonical_digest'', JStr (ch_canonical_digest p))])) st) (\<lambda>st.
             Inr (p, st))))))))"

text \<open>The conditional updates of a proposal's row, which count its revision.\<close>

definition proposal_at :: "ChangeProposal \<Rightarrow> ChangeState set \<Rightarrow> ChangeProposal \<Rightarrow> bool" where
  "proposal_at p states r = (ch_namespace r = ch_namespace p \<and> ch_proposal_id r = ch_proposal_id p \<and>
     ch_revision r = ch_revision p \<and> ch_state r \<in> states)"

definition update_proposal ::
  "ChangeProposal \<Rightarrow> ChangeState set \<Rightarrow> (ChangeProposal \<Rightarrow> ChangeProposal) \<Rightarrow> 'z p6_store_scheme
     \<Rightarrow> 'z p6_store_scheme" where
  "update_proposal p states f st = st\<lparr>p6_proposals := update_where (proposal_at p states)
     (\<lambda>r. (f r)\<lparr>ch_revision := ch_revision r + 1\<rparr>) (p6_proposals st)\<rparr>"

section \<open>Decisions\<close>

definition same_change_decision_request :: "ChangeDecision \<Rightarrow> ChangeDecision \<Rightarrow> bool" where
  "same_change_decision_request stored requested =
     ((cd_namespace stored, cd_approver_principal_id stored, cd_idempotency_key stored,
       cd_proposal_id stored, cd_proposal_revision stored, cd_proposal_digest stored,
       cd_choice stored) =
      (cd_namespace requested, cd_approver_principal_id requested, cd_idempotency_key requested,
       cd_proposal_id requested, cd_proposal_revision requested, cd_proposal_digest requested,
       cd_choice requested))"

definition find_change_decision_replay ::
  "Namespace \<Rightarrow> string \<Rightarrow> string \<Rightarrow> 'z p6_store_scheme \<Rightarrow> ChangeDecision option result" where
  "find_change_decision_replay ns approver_id key st =
     (case find (\<lambda>d. cd_namespace d = ns \<and> cd_approver_principal_id d = approver_id \<and>
         cd_idempotency_key d = key) (p6_decisions st) of
        None \<Rightarrow> Inr None
      | Some d \<Rightarrow> bindR (ChangeDecision_init d) (\<lambda>d. Inr (Some d)))"

definition list_change_decisions ::
  "Namespace \<Rightarrow> 'z p6_store_scheme \<Rightarrow> ChangeDecision list result" where
  "list_change_decisions ns st = mapR ChangeDecision_init
     (sort_key (\<lambda>d. (cd_occurred_at d, cd_decision_id d))
       (filter (\<lambda>d. cd_namespace d = ns) (p6_decisions st)))"

definition insert_decision :: "ChangeDecision \<Rightarrow> 'z p6_store_scheme \<Rightarrow> 'z p6_store_scheme result" where
  "insert_decision d st =
     (if (\<exists>x \<in> set (p6_decisions st). cd_namespace x = cd_namespace d \<and>
           (cd_decision_id x = cd_decision_id d \<or> cd_proposal_id x = cd_proposal_id d \<or>
            (cd_approver_principal_id x, cd_idempotency_key x) =
            (cd_approver_principal_id d, cd_idempotency_key d))) \<or>
         find_proposal st (cd_namespace d) (cd_proposal_id d) = None
      then Inl (IntegrityError ''p6_change_decisions'')
      else Inr (st\<lparr>p6_decisions := p6_decisions st @ [d\<lparr>cd_consumed_at := None\<rparr>]\<rparr>))"

text \<open>\<open>None\<close>: the proposal had expired, and its new state is committed.\<close>

definition commit_change_decision ::
  "ChangeProposal \<Rightarrow> ChangeDecision \<Rightarrow> Principal \<Rightarrow> Membership \<Rightarrow> 'z p6_store_scheme
     \<Rightarrow> ((ChangeProposal \<times> ChangeDecision) option \<times> 'z p6_store_scheme) result" where
  "commit_change_decision p d approver m st =
     (if cd_occurred_at d \<ge> ch_expires_at p
      then bindR (ChangeProposal_init (p\<lparr>ch_state := CH_EXPIRED, ch_revision := ch_revision p + 1\<rparr>))
        (\<lambda>expired.
        bindR (insert_governance_audit (change_note expired ''change_expired'' ''expired'' approver m
          (ch_proposal_id p) (cd_occurred_at d) (kind_projection p))
          (update_proposal p {CH_PENDING} (\<lambda>r. r\<lparr>ch_state := CH_EXPIRED\<rparr>) st)) (\<lambda>st.
        Inr (None, st)))
      else
       (let state = (if cd_choice d = CHANGE_APPROVE then CH_APPROVED else CH_REJECTED) in
        bindR (insert_decision d st) (\<lambda>st.
        bindR (ChangeProposal_init (p\<lparr>ch_state := state, ch_decision_id := Some (cd_decision_id d),
          ch_revision := ch_revision p + 1\<rparr>)) (\<lambda>decided.
        bindR (insert_governance_audit \<lparr>gn_namespace = ch_namespace p,
            gn_record_type = ''change_decision'', gn_record_id = cd_decision_id d,
            gn_record_revision = cd_revision d, gn_action = ''change_decided'',
            gn_result = (if cd_choice d = CHANGE_APPROVE then ''approve'' else ''reject''),
            gn_actor = approver, gn_authority_revision = authority_text m,
            gn_correlation_id = cd_correlation_id d, gn_causation_id = cd_causation_id d,
            gn_occurred_at = cd_occurred_at d,
            gn_safe_projection = [(''proposal_id'', JStr (ch_proposal_id p)),
              (''proposal_digest'', JStr (ch_canonical_digest p))]\<rparr>
          (update_proposal p {CH_PENDING}
            (\<lambda>r. r\<lparr>ch_state := state, ch_decision_id := Some (cd_decision_id d)\<rparr>) st)) (\<lambda>st.
        Inr (Some (decided, d), st))))))"

definition decide_change_body ::
  "ChangeProposal \<Rightarrow> ChangeDecision \<Rightarrow> 'z p6_store_scheme
     \<Rightarrow> ((ChangeProposal \<times> ChangeDecision) option \<times> 'z p6_store_scheme) result" where
  "decide_change_body p d st =
     bindR (get_change_proposal (ch_namespace p) (ch_proposal_id p) st) (\<lambda>current.
     bindR (get_principal (rt st) (ns_tenant_id (cd_namespace d)) (cd_approver_principal_id d))
       (\<lambda>approver.
     bindR (require_current_membership st approver DECIDE_CHANGE (ch_namespace p)) (\<lambda>m. checks
       [raise_if (ch_proposer_principal_id p = pr_principal_id approver)
          (PermissionDeniedError ''change proposer cannot approve their own change'')]
       (bindR (find_change_decision_replay (ch_namespace p) (pr_principal_id approver)
          (cd_idempotency_key d) st) (\<lambda>existing.
        case existing of
          Some stored \<Rightarrow>
            if \<not> same_change_decision_request stored d
            then Inl (ReplayConflictError ''change decision idempotency key was rebound'')
            else Inr (Some (current, stored), st)
        | None \<Rightarrow> checks
            [raise_if (current \<noteq> p) (StaleConflictError ''change proposal binding is stale''),
             raise_if (cd_namespace d \<noteq> ch_namespace p \<or> cd_proposal_id d \<noteq> ch_proposal_id p \<or>
                 cd_proposal_revision d \<noteq> ch_revision p \<or>
                 cd_proposal_digest d \<noteq> ch_canonical_digest p \<or>
                 cd_approver_role_revision d \<noteq> mb_role_revision m \<or>
                 cd_approver_membership_revision d \<noteq> mb_membership_revision m \<or>
                 cd_occurred_at d < ch_issued_at p \<or> cd_valid_until d > ch_expires_at p)
               (StaleConflictError ''exact change decision binding is stale''),
             raise_if (ch_state p \<noteq> CH_PENDING)
               (ConflictError ''change proposal already has a terminal decision'')]
            (commit_change_decision p d approver m st))))))"

definition decide_change ::
  "ChangeProposal \<Rightarrow> ChangeDecision \<Rightarrow> 'z p6_store_scheme
     \<Rightarrow> (ChangeProposal \<times> ChangeDecision) result \<times> 'z p6_store_scheme" where
  "decide_change p d st =
     raise_after (PermissionDeniedError ''change proposal validity expired'')
       (transaction (decide_change_body p d) st)"

section \<open>Expiry and staleness\<close>

definition expire_change_proposal ::
  "ChangeProposal \<Rightarrow> Principal \<Rightarrow> datetime \<Rightarrow> 'z p6_store_scheme
     \<Rightarrow> (ChangeProposal \<times> 'z p6_store_scheme) result" where
  "expire_change_proposal p actor occurred_at st =
     bindR (require_current_membership st actor DECIDE_CHANGE (ch_namespace p)) (\<lambda>m. checks
       [raise_if (ch_state p \<noteq> CH_PENDING \<or> occurred_at < ch_expires_at p)
          (ConflictError ''change proposal is not expirable''),
        raise_if (row_count (proposal_at p {CH_PENDING}) (p6_proposals st) \<noteq> 1)
          (ConflictError ''change expiry lost its atomic claim'')]
       (bindR (ChangeProposal_init (p\<lparr>ch_state := CH_EXPIRED, ch_revision := ch_revision p + 1\<rparr>))
         (\<lambda>expired.
        bindR (insert_governance_audit (change_note expired ''change_expired'' ''expired'' actor m
          (ch_proposal_id p) occurred_at (kind_projection p))
          (update_proposal p {CH_PENDING} (\<lambda>r. r\<lparr>ch_state := CH_EXPIRED\<rparr>) st)) (\<lambda>st.
        Inr (expired, st)))))"

definition mark_change_proposal_stale ::
  "ChangeProposal \<Rightarrow> Principal \<Rightarrow> datetime \<Rightarrow> 'z p6_store_scheme
     \<Rightarrow> (ChangeProposal \<times> 'z p6_store_scheme) result" where
  "mark_change_proposal_stale p actor occurred_at st =
     (let refused = ConflictError ''change proposal stale-state claim was refused'' in
      bindR (require_current_membership st actor APPLY_CHANGE (ch_namespace p)) (\<lambda>m.
      bindR (case find_proposal st (ch_namespace p) (ch_proposal_id p) of
          None \<Rightarrow> Inl refused | Some row \<Rightarrow> ChangeProposal_init row) (\<lambda>current. checks
        [raise_if (current \<noteq> p) refused,
         raise_if (ch_state p \<notin> {CH_PENDING, CH_APPROVED})
           (ConflictError ''change proposal is already terminal''),
         raise_if (row_count (proposal_at p {CH_PENDING, CH_APPROVED}) (p6_proposals st) \<noteq> 1)
           (ConflictError ''change stale-state update lost its atomic claim'')]
        (bindR (ChangeProposal_init (p\<lparr>ch_state := CH_STALE, ch_revision := ch_revision p + 1\<rparr>))
          (\<lambda>stale.
         bindR (insert_governance_audit (change_note stale ''change_stale'' ''stale'' actor m
           (ch_proposal_id p) occurred_at (kind_projection p))
           (update_proposal p {CH_PENDING, CH_APPROVED} (\<lambda>r. r\<lparr>ch_state := CH_STALE\<rparr>) st)) (\<lambda>st.
         Inr (stale, st)))))))"

section \<open>Use of an approved change\<close>

text \<open>Both people must still be the active Admins they were when they proposed and decided.\<close>

definition change_people_current ::
  "'z p6_store_scheme \<Rightarrow> ChangeProposal \<Rightarrow> ChangeDecision \<Rightarrow> unit result" where
  "change_people_current st p d =
     (let t = ns_tenant_id (ch_namespace p) in
      bindR (get_principal (rt st) t (ch_proposer_principal_id p)) (\<lambda>proposer.
      bindR (membership_for_principal st t (ch_proposer_principal_id p)) (\<lambda>pm.
      bindR (get_principal (rt st) t (cd_approver_principal_id d)) (\<lambda>approver.
      bindR (membership_for_principal st t (cd_approver_principal_id d)) (\<lambda>am.
        raise_if (pr_principal_id proposer = pr_principal_id approver \<or>
            mb_status pm \<noteq> MEMBER_ACTIVE \<or> mb_status am \<noteq> MEMBER_ACTIVE \<or>
            pr_revision proposer \<noteq> ch_proposer_role_revision p \<or>
            mb_role_revision pm \<noteq> ch_proposer_role_revision p \<or>
            mb_membership_revision pm \<noteq> ch_proposer_membership_revision p \<or>
            pr_revision approver \<noteq> cd_approver_role_revision d \<or>
            mb_role_revision am \<noteq> cd_approver_role_revision d \<or>
            mb_membership_revision am \<noteq> cd_approver_membership_revision d \<or>
            TENANT_ADMIN \<notin> set (pr_roles proposer) \<or> TENANT_ADMIN \<notin> set (pr_roles approver))
          (PermissionDeniedError ''change principal authority became stale''))))))"

definition validated_change_approval ::
  "'z p6_store_scheme \<Rightarrow> ChangeProposal \<Rightarrow> string \<Rightarrow> Principal \<Rightarrow> datetime
     \<Rightarrow> (ChangeDecision \<times> Membership) result" where
  "validated_change_approval st p decision_id actor occurred_at =
     bindR (require_current_membership st actor APPLY_CHANGE (ch_namespace p)) (\<lambda>m. checks
       [raise_if (ch_state p \<noteq> CH_APPROVED \<or> ch_decision_id p \<noteq> Some decision_id \<or>
            occurred_at \<ge> ch_expires_at p \<or> ch_consumed_at p \<noteq> None)
          (PermissionDeniedError ''approved change is stale or expired'')]
       (case find (\<lambda>d. cd_namespace d = ch_namespace p \<and> cd_decision_id d = decision_id \<and>
           cd_proposal_id d = ch_proposal_id p) (p6_decisions st) of
          None \<Rightarrow> Inl (PermissionDeniedError ''change decision was not found'')
        | Some row \<Rightarrow> bindR (ChangeDecision_init row) (\<lambda>d. checks
            [raise_if (cd_choice d \<noteq> CHANGE_APPROVE \<or>
                 cd_proposal_revision d \<noteq> ch_revision p - 1 \<or>
                 cd_proposal_digest d \<noteq> ch_canonical_digest p \<or> cd_consumed_at d \<noteq> None \<or>
                 occurred_at > cd_valid_until d)
               (PermissionDeniedError ''approved change decision is stale or expired''),
             change_people_current st p d]
            (Inr (d, m)))))"

definition decision_at :: "ChangeProposal \<Rightarrow> ChangeDecision \<Rightarrow> ChangeDecision \<Rightarrow> bool" where
  "decision_at p d r = (cd_namespace r = ch_namespace p \<and> cd_decision_id r = cd_decision_id d \<and>
     cd_revision r = cd_revision d \<and> cd_consumed_at r = None)"

definition consume_change_rows ::
  "ChangeProposal \<Rightarrow> ChangeDecision \<Rightarrow> datetime \<Rightarrow> 'z p6_store_scheme \<Rightarrow> 'z p6_store_scheme result"
where
  "consume_change_rows p d occurred_at st =
     (let target = (\<lambda>r. proposal_at p {CH_APPROVED} r \<and> ch_consumed_at r = None) in checks
        [chk (require_utc occurred_at ''datetime''),
         raise_if (row_count target (p6_proposals st) \<noteq> 1 \<or>
             row_count (decision_at p d) (p6_decisions st) \<noteq> 1)
           (ConflictError ''change approval consumption lost its atomic claim'')]
        (Inr (st\<lparr>p6_proposals := update_where target (\<lambda>r. r\<lparr>ch_state := CH_APPLIED,
             ch_consumed_at := Some occurred_at, ch_revision := ch_revision r + 1\<rparr>) (p6_proposals st),
           p6_decisions := update_where (decision_at p d) (\<lambda>r. r\<lparr>
             cd_consumed_at := Some occurred_at, cd_revision := cd_revision r + 1\<rparr>)
             (p6_decisions st)\<rparr>)))"

text \<open>The note of an applied change carries the revision its row has now.\<close>

definition applied_note ::
  "ChangeProposal \<Rightarrow> string \<Rightarrow> Principal \<Rightarrow> Membership \<Rightarrow> string \<Rightarrow> datetime
     \<Rightarrow> (string \<times> json) list \<Rightarrow> governance_note" where
  "applied_note p action actor m decision_id occurred_at projection =
     (change_note p action ''applied'' actor m decision_id occurred_at projection)
       \<lparr>gn_record_revision := ch_revision p + 1\<rparr>"

end
