(* ===== verification/ChangeApply.thy ===== *)
theory ChangeApply
  imports ChangeStore
begin

text \<open>
  The operations of \<^verbatim>\<open>adapters/sqlite/p6_store.py\<close> that use an approved change, a draft's
  confirmation, a membership change and an Admin enrollment, and the binding of an effect approval
  to the authority of its approver.
\<close>

section \<open>Drafts\<close>

definition authority_changed :: "ColleagueDraft \<Rightarrow> bool" where
  "authority_changed d = list_ex (\<lambda>i. di_section i \<in> {SECTION_MANDATE, SECTION_POLICY} \<and>
     di_classification i \<noteq> DIFF_UNCHANGED) (df_diff d)"

definition authorize_draft_confirmation ::
  "ColleagueDraft \<Rightarrow> Principal \<Rightarrow> string option \<Rightarrow> datetime \<Rightarrow> 'z p6_store_scheme
     \<Rightarrow> 'z p6_store_scheme result" where
  "authorize_draft_confirmation d actor change_decision_id occurred_at st =
     (if \<not> authority_changed d
      then bindR (require_current_membership st actor APPLY_CHANGE (df_namespace d)) (\<lambda>_. checks
        [raise_if (change_decision_id \<noteq> None)
           (PermissionDeniedError ''Profile-only change cannot consume unrelated approval'')]
        (Inr st))
      else case change_decision_id of
        None \<Rightarrow> Inl (PermissionDeniedError ''authority change requires a separate Admin approval'')
      | Some decision_id \<Rightarrow>
        (case find (\<lambda>p. ch_namespace p = df_namespace d \<and> ch_decision_id p = Some decision_id)
             (p6_proposals st) of
           None \<Rightarrow> Inl (PermissionDeniedError ''authority change approval was refused'')
         | Some row \<Rightarrow> bindR (ChangeProposal_init row) (\<lambda>p. checks
             [raise_if (ch_change_kind p \<noteq> CHANGE_DRAFT \<or> ch_target_id p \<noteq> df_draft_id d \<or>
                ch_target_revision p \<noteq> df_revision d \<or>
                ch_canonical_digest p \<noteq> df_canonical_digest d \<or>
                proposal_bases p \<noteq> base_revisions d)
                (StaleConflictError ''authority change approval does not bind this draft'')]
             (bindR (validated_change_approval st p decision_id actor occurred_at)
               (\<lambda>(decision, m).
              bindR (consume_change_rows p decision occurred_at st) (\<lambda>st.
              insert_governance_audit ((applied_note p ''change_applied'' actor m
                (cd_decision_id decision) occurred_at [(''change_kind'', JStr ''draft''),
                  (''canonical_digest'', JStr (ch_canonical_digest p))])
                \<lparr>gn_namespace := df_namespace d\<rparr>) st))))))"

text \<open>The builder's operations, with the overrides of this class.\<close>

definition create_draft ::
  "ColleagueDraft \<Rightarrow> 'z p6_store_scheme \<Rightarrow> ((ColleagueDraft \<times> bool) \<times> 'z p6_store_scheme) result" where
  "create_draft = create_draft_with require_draft_manager"

definition update_draft ::
  "ColleagueDraft \<Rightarrow> int \<Rightarrow> 'z p6_store_scheme \<Rightarrow> ColleagueDraft result \<times> 'z p6_store_scheme" where
  "update_draft = update_draft_with require_draft_manager"

definition review_draft ::
  "Namespace \<Rightarrow> string \<Rightarrow> int \<Rightarrow> Principal \<Rightarrow> datetime \<Rightarrow> 'z p6_store_scheme
     \<Rightarrow> ColleagueDraft result \<times> 'z p6_store_scheme" where
  "review_draft = review_draft_with require_draft_manager"

definition cancel_draft ::
  "Namespace \<Rightarrow> string \<Rightarrow> int \<Rightarrow> Principal \<Rightarrow> datetime \<Rightarrow> 'z p6_store_scheme
     \<Rightarrow> ColleagueDraft result \<times> 'z p6_store_scheme" where
  "cancel_draft = cancel_draft_with require_draft_manager"

definition confirm_draft ::
  "zoneinfo \<Rightarrow> confirm_request \<Rightarrow> 'z p6_store_scheme \<Rightarrow> ConfirmationResult result \<times> 'z p6_store_scheme"
where
  "confirm_draft = confirm_draft_with require_draft_manager authorize_draft_confirmation"

section \<open>Memberships\<close>

text \<open>\<^verbatim>\<open>UPDATE p4_sessions SET revoked_at\<close>: every live session of a principal.\<close>

definition revoke_sessions ::
  "string \<Rightarrow> string \<Rightarrow> datetime \<Rightarrow> string \<Rightarrow> 'z p6_store_scheme \<Rightarrow> 'z p6_store_scheme" where
  "revoke_sessions tenant_id principal_id occurred_at reason st = st\<lparr>p4_sessions := update_where
     (\<lambda>r. sr_tenant r = tenant_id \<and> sr_principal_id r = principal_id \<and> sr_revoked_at r = None)
     (\<lambda>r. r\<lparr>sr_revoked_at := Some occurred_at, sr_revoked_reason := Some reason,
        sr_session := (sr_session r)\<lparr>se_revision := se_revision (sr_session r) + 1\<rparr>\<rparr>)
     (p4_sessions st)\<rparr>"

text \<open>The role of a principal is written to its record, which is audited like any other.\<close>

definition update_principal_role ::
  "Principal \<Rightarrow> Principal \<Rightarrow> Principal \<Rightarrow> string \<Rightarrow> string \<Rightarrow> datetime \<Rightarrow> store \<Rightarrow> store result" where
  "update_principal_role current updated actor correlation_id decision_id occurred_at st =
     (let key = principal_key (ns_tenant_id (pr_namespace current)) (pr_principal_id current) in checks
        [chk (require_utc occurred_at ''datetime''),
         raise_if (\<not> (case st_records st key of
             None \<Rightarrow> False | Some old \<Rightarrow> record_revision old = pr_revision current))
           (ConflictError ''principal role update lost its atomic claim'')]
        (insert_audit (DPrincipal updated) actor correlation_id (Some decision_id) occurred_at
          (st\<lparr>st_records := (st_records st)(key \<mapsto> DPrincipal updated)\<rparr>)))"

definition membership_at :: "Membership \<Rightarrow> string \<Rightarrow> Membership \<Rightarrow> bool" where
  "membership_at target tenant_id r = (ns_tenant_id (mb_namespace r) = tenant_id \<and>
     mb_principal_id r = mb_principal_id target \<and>
     mb_membership_revision r = mb_membership_revision target \<and> mb_revision r = mb_revision target)"

text \<open>The new columns of the membership, on its row and on the value the row was read as.\<close>

definition changed_membership ::
  "ChangeProposal \<Rightarrow> HumanRole \<Rightarrow> MembershipStatus \<Rightarrow> int \<Rightarrow> Membership \<Rightarrow> string \<Rightarrow> datetime
     \<Rightarrow> Membership \<Rightarrow> Membership" where
  "changed_membership p role status role_revision target decision_id occurred_at m =
     m\<lparr>mb_roles := [role], mb_colleague_ids := ch_proposed_colleague_ids p, mb_status := status,
       mb_role_revision := role_revision,
       mb_membership_revision := mb_membership_revision target + 1,
       mb_updated_at := occurred_at, mb_correlation_id := ch_correlation_id p,
       mb_causation_id := decision_id, mb_revision := mb_revision m + 1\<rparr>"

definition removes_admin :: "Principal \<Rightarrow> HumanRole \<Rightarrow> MembershipStatus \<Rightarrow> bool" where
  "removes_admin current role status = (TENANT_ADMIN \<in> set (pr_roles current) \<and>
     (role \<noteq> TENANT_ADMIN \<or> status = MEMBER_REVOKED))"

text \<open>The part of the transaction after the checks of the approval and of the target.\<close>

definition write_membership_change ::
  "ChangeProposal \<Rightarrow> ChangeDecision \<Rightarrow> Membership \<Rightarrow> AuthenticatedSession \<Rightarrow> string \<Rightarrow> string
     \<Rightarrow> datetime \<Rightarrow> Membership \<Rightarrow> HumanRole \<Rightarrow> MembershipStatus \<Rightarrow> 'z p6_store_scheme
     \<Rightarrow> (Membership \<times> 'z p6_store_scheme) result" where
  "write_membership_change p d am s key request_digest occurred_at target role status st =
     (let t = ns_tenant_id (ch_namespace p); actor = se_principal s in
      bindR (get_principal (rt st) t (mb_principal_id target)) (\<lambda>current.
      let role_changed = (pr_roles current \<noteq> [role]);
          role_revision = mb_role_revision target + (if role_changed then 1 else 0);
          change = changed_membership p role status role_revision target (cd_decision_id d)
            occurred_at
      in checks
        [raise_if (removes_admin current role status \<and> length (active_admins st t) \<le> 2)
           (PermissionDeniedError ''membership change would break two-person governance'')]
      (bindR (Principal_init (current\<lparr>pr_roles := [role], pr_revision := role_revision\<rparr>))
         (\<lambda>updated_principal.
       bindR (if role_changed
           then on_rt (update_principal_role current updated_principal actor (ch_correlation_id p)
             (cd_decision_id d) occurred_at) st
           else Inr st) (\<lambda>st. checks
       [chk (require_utc occurred_at ''datetime''),
        raise_if (row_count (membership_at target t) (p6_memberships st) \<noteq> 1)
          (ConflictError ''membership update lost its atomic claim'')]
      (bindR (consume_change_rows p d occurred_at
         (revoke_sessions t (mb_principal_id target) occurred_at ''membership_revision_changed''
           (st\<lparr>p6_memberships := update_where (membership_at target t) change
              (p6_memberships st)\<rparr>))) (\<lambda>st.
       bindR (Membership_init (change target)) (\<lambda>updated.
       bindR (principal_namespace t (mb_principal_id target)) (\<lambda>ns.
       bindR (insert_governance_audit \<lparr>gn_namespace = ns, gn_record_type = ''membership'',
           gn_record_id = mb_membership_id target, gn_record_revision = mb_revision updated,
           gn_action = ''membership_changed'', gn_result = MembershipStatus_value status,
           gn_actor = actor, gn_authority_revision = authority_text am,
           gn_correlation_id = ch_correlation_id p, gn_causation_id = cd_decision_id d,
           gn_occurred_at = occurred_at,
           gn_safe_projection = [(''role'', JStr (HumanRole_value role)),
             (''scope_count'', JInt (int (length (ch_proposed_colleague_ids p)))),
             (''membership_revision'', JInt (mb_membership_revision target + 1))]\<rparr> st) (\<lambda>st.
       bindR (insert_replay (s\<lparr>se_tenant_id := t\<rparr>) ''p6:apply-membership'' key request_digest
         (RV_MEMBERSHIP updated) st) (\<lambda>st. Inr (updated, st))))))))))))"

definition apply_membership_change ::
  "ChangeProposal \<Rightarrow> string \<Rightarrow> AuthenticatedSession \<Rightarrow> string \<Rightarrow> string \<Rightarrow> datetime
     \<Rightarrow> 'z p6_store_scheme \<Rightarrow> (Membership \<times> 'z p6_store_scheme) result" where
  "apply_membership_change p decision_id s key request_digest occurred_at st =
     (let t = ns_tenant_id (ch_namespace p); actor = se_principal s;
          stale = StaleConflictError ''membership change proposal is stale'' in checks
       [raise_if (ch_change_kind p \<noteq> CHANGE_MEMBERSHIP)
          (PermissionDeniedError ''change kind was refused'')]
     (bindR (require_current_membership st actor APPLY_CHANGE (ch_namespace p)) (\<lambda>_.
      case find_replay st t (pr_principal_id actor) ''p6:apply-membership'' key of
        Some r \<Rightarrow>
          if ry_request_digest r \<noteq> request_digest
          then Inl (ReplayConflictError ''membership apply idempotency key was rebound'')
          else (case ry_result r of RV_MEMBERSHIP m \<Rightarrow> Inr (m, st) | _ \<Rightarrow> wrong_type)
      | None \<Rightarrow>
          bindR (case find_proposal st (ch_namespace p) (ch_proposal_id p) of
              None \<Rightarrow> Inl stale | Some row \<Rightarrow> ChangeProposal_init row) (\<lambda>current. checks
            [raise_if (current \<noteq> p) stale]
          (bindR (validated_change_approval st p decision_id actor occurred_at) (\<lambda>(d, am).
           bindR (membership_for_principal st t (ch_target_id p)) (\<lambda>target.
           bindR (governance_change_digest (ch_change_kind p) (mb_principal_id target)
             (mb_membership_revision target) (ch_proposed_role p) (ch_proposed_status p)
             (ch_proposed_colleague_ids p)) (\<lambda>expected_digest.
           case (ch_proposed_role p, ch_proposed_status p) of
             (Some role, Some status) \<Rightarrow>
               if mb_membership_revision target \<noteq> ch_target_revision p \<or>
                  ch_canonical_digest p \<noteq> expected_digest
               then Inl (StaleConflictError ''membership change target is stale'')
               else write_membership_change p d am s key request_digest occurred_at target role
                 status st
           | _ \<Rightarrow> Inl (StaleConflictError ''membership change target is stale'')))))))))"

section \<open>Admin enrollment\<close>

definition consume_admin_enrollment_authority ::
  "string \<Rightarrow> HumanRole \<Rightarrow> string list \<Rightarrow> Principal \<Rightarrow> datetime \<Rightarrow> 'z p6_store_scheme
     \<Rightarrow> 'z p6_store_scheme result" where
  "consume_admin_enrollment_authority decision_id role colleague_ids actor occurred_at st =
     (case find (\<lambda>p. ch_namespace p = \<lparr>ns_tenant_id = ns_tenant_id (pr_namespace actor),
            ns_scope = TENANT, ns_scope_id = None\<rparr> \<and> ch_decision_id p = Some decision_id)
          (p6_proposals st) of
        None \<Rightarrow> Inl (PermissionDeniedError ''Admin enrollment change was not found'')
      | Some row \<Rightarrow>
          bindR (ChangeProposal_init row) (\<lambda>p.
          bindR (governance_change_digest CHANGE_ADMIN_ENROLLMENT (ch_target_id p)
            (ch_target_revision p) (Some role) (Some MEMBER_ACTIVE) colleague_ids) (\<lambda>expected. checks
            [raise_if (ch_change_kind p \<noteq> CHANGE_ADMIN_ENROLLMENT \<or>
               ch_proposed_role p \<noteq> Some role \<or> ch_proposed_status p \<noteq> Some MEMBER_ACTIVE \<or>
               ch_proposed_colleague_ids p \<noteq> colleague_ids \<or> ch_canonical_digest p \<noteq> expected)
               (PermissionDeniedError ''Admin enrollment change binding was refused'')]
          (bindR (validated_change_approval st p decision_id actor occurred_at) (\<lambda>(d, m).
           bindR (consume_change_rows p d occurred_at st) (\<lambda>st.
           insert_governance_audit (applied_note p ''admin_enrollment_authority_applied'' actor m
             (cd_decision_id d) occurred_at [(''role'', JStr (HumanRole_value role)),
               (''scope_count'', JInt (int (length colleague_ids)))]) st)))))) "

definition consume_admin_enrollment_change ::
  "string \<Rightarrow> HumanRole \<Rightarrow> string list \<Rightarrow> Principal \<Rightarrow> datetime \<Rightarrow> 'z p6_store_scheme
     \<Rightarrow> (unit \<times> 'z p6_store_scheme) result" where
  "consume_admin_enrollment_change decision_id role colleague_ids actor occurred_at st =
     bindR (consume_admin_enrollment_authority decision_id role colleague_ids actor occurred_at st)
       (\<lambda>st. Inr ((), st))"

section \<open>Effect approvals\<close>

definition bind_effect_approval_authority ::
  "Namespace \<Rightarrow> EffectProposal \<Rightarrow> HumanApprovalDecision \<Rightarrow> Principal \<Rightarrow> datetime
     \<Rightarrow> 'z p6_store_scheme \<Rightarrow> 'z p6_store_scheme result" where
  "bind_effect_approval_authority ns p d approver occurred_at st =
     bindR (require_current_membership st approver DECIDE_EFFECT ns) (\<lambda>m. checks
       [chk (require_utc occurred_at ''datetime''),
        raise_if (\<exists>b \<in> set (p6_bindings st). eb_namespace b = ns \<and>
            eb_approval_decision_id b = ha_approval_decision_id d)
          (IntegrityError ''p6_effect_approval_bindings'')]
       (insert_governance_audit \<lparr>gn_namespace = ns, gn_record_type = ''effect_approval_binding'',
          gn_record_id = ha_approval_decision_id d, gn_record_revision = 1,
          gn_action = ''effect_decision_bound'',
          gn_result = (if ha_choice d = APPROVE then ''approve'' else ''reject''),
          gn_actor = approver, gn_authority_revision = authority_text m,
          gn_correlation_id = ha_correlation_id d, gn_causation_id = ha_proposal_id d,
          gn_occurred_at = occurred_at,
          gn_safe_projection = [(''proposal_id'', JStr (ep_proposal_id p)),
            (''proposal_revision'', JInt (ep_revision p)),
            (''proposal_digest'', JStr (ep_proposal_digest p))]\<rparr>
        (st\<lparr>p6_bindings := p6_bindings st @ [\<lparr>eb_namespace = ns,
          eb_approval_decision_id = ha_approval_decision_id d,
          eb_principal_id = pr_principal_id approver, eb_principal_revision = pr_revision approver,
          eb_role_revision = mb_role_revision m, eb_membership_revision = mb_membership_revision m,
          eb_proposal_id = ep_proposal_id p, eb_proposal_revision = ep_revision p,
          eb_proposal_digest = ep_proposal_digest p, eb_valid_until = ha_valid_until d,
          eb_consumed_at = occurred_at\<rparr>]\<rparr>)))"

text \<open>
  \<^verbatim>\<open>commit_approval_and_attempt\<close> of this class.  The binding stands between the checks of the
  approver and the rest; those checks are repeated, without effect, by the method of the base
  class.
\<close>

definition approval_parties ::
  "Namespace \<Rightarrow> string \<Rightarrow> HumanApprovalDecision \<Rightarrow> store \<Rightarrow> (EffectProposal \<times> Principal) result" where
  "approval_parties ns mandate_id d st =
     bindR (get_proposal st ns (ha_proposal_id d)) (\<lambda>p.
     bindR (get_mandate st ns mandate_id) (\<lambda>mandate.
     bindR (get_principal st (ns_tenant_id ns) (pr_principal_id (ha_author d))) (\<lambda>approver. checks
       [raise_if (approver \<noteq> ha_author d)
          (PermissionDeniedError ''approval durable principal binding drifted''),
        raise_if (ep_mandate_id p \<noteq> Some (md_mandate_id mandate))
          (PermissionDeniedError ''proposal names a different Mandate''),
        raise_if (ep_mandate_revision p \<noteq> Some (md_revision mandate))
          (PermissionDeniedError ''proposal Mandate revision is stale'')]
       (Inr (p, approver)))))"

definition commit_governed_approval ::
  "Namespace \<Rightarrow> string \<Rightarrow> int \<Rightarrow> HumanApprovalDecision \<Rightarrow> string \<Rightarrow> string \<Rightarrow> Principal
     \<Rightarrow> datetime \<Rightarrow> 'z p6_store_scheme
     \<Rightarrow> ((HumanApprovalDecision \<times> EffectAttempt option \<times> bool) \<times> 'z p6_store_scheme) result" where
  "commit_governed_approval ns mandate_id expected_mandate_revision d effect_attempt_id outbox_id
     service_actor occurred_at st = checks
     [require_exact ns (ha_namespace d)]
     (bindR (if ledger_lookup (rt st) ns LK_APPROVAL (ha_idempotency_key d) \<noteq> None then Inr st
        else bindR (approval_parties ns mandate_id d (rt st)) (\<lambda>(p, approver).
          bind_effect_approval_authority ns p d approver occurred_at st)) (\<lambda>st.
      bindR (commit_approval_and_attempt ns mandate_id expected_mandate_revision d
        effect_attempt_id outbox_id service_actor occurred_at (rt st)) (\<lambda>(r, s).
      Inr (r, st\<lparr>rt := s\<rparr>))))"

definition require_current_effect_approval ::
  "Namespace \<Rightarrow> string \<Rightarrow> datetime \<Rightarrow> 'z p6_store_scheme \<Rightarrow> unit result" where
  "require_current_effect_approval ns approval_decision_id evaluated_at st =
     (let refused = PermissionDeniedError ''effect approval authority was refused'' in
      case find (\<lambda>b. eb_namespace b = ns \<and> eb_approval_decision_id b = approval_decision_id)
          (p6_bindings st) of
        None \<Rightarrow> Inl refused
      | Some b \<Rightarrow> checks [raise_if (evaluated_at > eb_valid_until b) refused]
          (bindR (get_principal (rt st) (ns_tenant_id ns) (eb_principal_id b)) (\<lambda>p.
           bindR (membership_for_principal st (ns_tenant_id ns) (eb_principal_id b)) (\<lambda>m.
           let stale = PermissionDeniedError ''effect approval authority became stale'' in checks
             [raise_if (pr_kind p \<noteq> HUMAN \<or> pr_revision p \<noteq> eb_principal_revision b \<or>
                mb_status m \<noteq> MEMBER_ACTIVE \<or> mb_role_revision m \<noteq> eb_role_revision b \<or>
                mb_membership_revision m \<noteq> eb_membership_revision b) stale]
             (bindR (allows_namespace m ns) (\<lambda>allowed.
               raise_if (\<not> allowed \<or> set (mb_roles m) \<inter> {TENANT_ADMIN, COLLEAGUE_USER} = {})
                 stale))))))"

end
