(* ===== verification/CredentialStore.thy ===== *)
theory CredentialStore
  imports ChangeApply
begin

text \<open>
  The credential operations of \<^verbatim>\<open>adapters/sqlite/p6_store.py\<close>: a one-time credential for the
  enrollment of a new human or the recovery of an existing one is authorised, retrieved once, and
  consumed once, or it is revoked or expires.
\<close>

section \<open>Rows\<close>

definition find_credential ::
  "'z p6_store_scheme \<Rightarrow> string \<Rightarrow> string \<Rightarrow> GovernanceCredential option" where
  "find_credential st tenant_id credential_id =
     find (\<lambda>c. ns_tenant_id (gc_namespace c) = tenant_id \<and> gc_credential_id c = credential_id)
       (p6_credentials st)"

definition find_governance_credential ::
  "string \<Rightarrow> string \<Rightarrow> 'z p6_store_scheme \<Rightarrow> GovernanceCredential option result" where
  "find_governance_credential tenant_id credential_id st =
     (case find_credential st tenant_id credential_id of
        None \<Rightarrow> Inr None
      | Some c \<Rightarrow> bindR (GovernanceCredential_init c) (\<lambda>c. Inr (Some c)))"

definition credential_by_digest ::
  "string \<Rightarrow> CredentialKind \<Rightarrow> 'z p6_store_scheme \<Rightarrow> GovernanceCredential result" where
  "credential_by_digest token_digest kind st =
     (case find (\<lambda>c. gc_token_digest c = Some token_digest \<and> gc_kind c = kind) (p6_credentials st) of
        None \<Rightarrow> Inl (PermissionDeniedError ''governance credential was refused'')
      | Some c \<Rightarrow> GovernanceCredential_init c)"

text \<open>
  \<^verbatim>\<open>INSERT INTO p6_governance_credentials\<close>: a new row has no token and no times, which its checks
  allow only in a state that needs none.
\<close>

definition insert_credential ::
  "GovernanceCredential \<Rightarrow> 'z p6_store_scheme \<Rightarrow> 'z p6_store_scheme result" where
  "insert_credential c st = checks
     [raise_if (find_credential st (ns_tenant_id (gc_namespace c)) (gc_credential_id c) \<noteq> None \<or>
         gc_state c \<notin> {CR_AUTHORIZED, CR_EXPIRED})
        (IntegrityError ''p6_governance_credentials'')]
     (Inr (st\<lparr>p6_credentials := p6_credentials st @ [c\<lparr>gc_token_digest := None,
        gc_retrieved_at := None, gc_consumed_at := None, gc_revoked_at := None,
        gc_consumed_principal_id := None\<rparr>]\<rparr>))"

definition credential_at ::
  "GovernanceCredential \<Rightarrow> CredentialState set \<Rightarrow> GovernanceCredential \<Rightarrow> bool" where
  "credential_at c states r = (ns_tenant_id (gc_namespace r) = ns_tenant_id (gc_namespace c) \<and>
     gc_credential_id r = gc_credential_id c \<and> gc_revision r = gc_revision c \<and> gc_state r \<in> states)"

definition update_credential ::
  "(GovernanceCredential \<Rightarrow> bool) \<Rightarrow> (GovernanceCredential \<Rightarrow> GovernanceCredential)
     \<Rightarrow> 'z p6_store_scheme \<Rightarrow> 'z p6_store_scheme" where
  "update_credential P f st = st\<lparr>p6_credentials := update_where P
     (\<lambda>r. (f r)\<lparr>gc_revision := gc_revision r + 1\<rparr>) (p6_credentials st)\<rparr>"

definition any_state :: "CredentialState set" where
  "any_state = {CR_AUTHORIZED, CR_RETRIEVED, CR_CONSUMED, CR_REVOKED, CR_EXPIRED}"

fun CredentialKind_value :: "CredentialKind \<Rightarrow> string" where
  "CredentialKind_value ENROLLMENT = ''enrollment''"
| "CredentialKind_value RECOVERY = ''recovery''"

definition credential_note ::
  "GovernanceCredential \<Rightarrow> string \<Rightarrow> string \<Rightarrow> Principal \<Rightarrow> string \<Rightarrow> string \<Rightarrow> datetime
     \<Rightarrow> (string \<times> json) list \<Rightarrow> governance_note" where
  "credential_note c action result actor authority causation_id occurred_at projection =
     \<lparr>gn_namespace = gc_namespace c, gn_record_type = ''governance_credential'',
      gn_record_id = gc_credential_id c, gn_record_revision = gc_revision c, gn_action = action,
      gn_result = result, gn_actor = actor, gn_authority_revision = authority,
      gn_correlation_id = gc_correlation_id c, gn_causation_id = causation_id,
      gn_occurred_at = occurred_at, gn_safe_projection = projection\<rparr>"

definition credential_kind_projection :: "GovernanceCredential \<Rightarrow> (string \<times> json) list" where
  "credential_kind_projection c = [(''kind'', JStr (CredentialKind_value (gc_kind c)))]"

section \<open>Authorisation\<close>

definition same_enrollment_authorization ::
  "GovernanceCredential \<Rightarrow> GovernanceCredential \<Rightarrow> bool" where
  "same_enrollment_authorization stored requested =
     (gc_kind stored = ENROLLMENT \<and> gc_kind requested = ENROLLMENT \<and>
      (gc_namespace stored, gc_credential_id stored, gc_target_role stored, gc_colleague_ids stored,
       gc_bootstrap_transition stored, gc_change_decision_id stored,
       gc_issued_by_principal_id stored) =
      (gc_namespace requested, gc_credential_id requested, gc_target_role requested,
       gc_colleague_ids requested, gc_bootstrap_transition requested,
       gc_change_decision_id requested, gc_issued_by_principal_id requested))"

definition same_recovery_authorization ::
  "GovernanceCredential \<Rightarrow> GovernanceCredential \<Rightarrow> bool" where
  "same_recovery_authorization stored requested =
     (gc_kind stored = RECOVERY \<and> gc_kind requested = RECOVERY \<and>
      (gc_namespace stored, gc_credential_id stored, gc_target_principal_id stored,
       gc_issued_by_principal_id stored) =
      (gc_namespace requested, gc_credential_id requested, gc_target_principal_id requested,
       gc_issued_by_principal_id requested))"

definition find_transition :: "'z p6_store_scheme \<Rightarrow> string \<Rightarrow> transition_row option" where
  "find_transition st tenant_id = find (\<lambda>t. tn_tenant_id t = tenant_id) (p6_transitions st)"

text \<open>The second Admin: only while there is one, and with no other such credential open.\<close>

definition open_second_admin ::
  "GovernanceCredential \<Rightarrow> 'z p6_store_scheme \<Rightarrow> 'z p6_store_scheme result" where
  "open_second_admin c st =
     (let t = ns_tenant_id (gc_namespace c);
          refused = PermissionDeniedError ''second-Admin bootstrap transition was refused'' in
      case find_transition st t of
        None \<Rightarrow> Inl refused
      | Some row \<Rightarrow> checks
          [raise_if (\<not> tn_available row \<or> length (active_admins st t) \<noteq> 1 \<or>
              (\<exists>x \<in> set (p6_credentials st). ns_tenant_id (gc_namespace x) = t \<and>
                 gc_kind x = ENROLLMENT \<and> gc_bootstrap_transition x \<and>
                 gc_state x \<in> {CR_AUTHORIZED, CR_RETRIEVED}) \<or>
              gc_target_role c \<noteq> Some TENANT_ADMIN \<or> gc_colleague_ids c \<noteq> [''*'']) refused]
          (Inr (st\<lparr>p6_transitions := update_where
             (\<lambda>r. tn_tenant_id r = t \<and> tn_available r \<and> tn_revision r = tn_revision row)
             (\<lambda>r. r\<lparr>tn_active_credential_id := Some (gc_credential_id c),
                tn_updated_at := gc_issued_at c, tn_revision := tn_revision r + 1\<rparr>)
             (p6_transitions st)\<rparr>)))"

definition authorize_enrollment ::
  "GovernanceCredential \<Rightarrow> Membership \<Rightarrow> 'z p6_store_scheme
     \<Rightarrow> (GovernanceCredential \<times> 'z p6_store_scheme) result" where
  "authorize_enrollment c issuer_membership st =
     (let t = ns_tenant_id (gc_namespace c) in checks
       [raise_if (gc_kind c \<noteq> ENROLLMENT)
          (PermissionDeniedError ''credential purpose was refused'')]
     (case gc_target_role c of
        None \<Rightarrow> Inl (PermissionDeniedError ''enrollment role was refused'')
      | Some role \<Rightarrow>
          bindR (get_principal (rt st) t (gc_issued_by_principal_id c)) (\<lambda>issuer.
          bindR (require_current_membership st issuer MANAGE_CREDENTIAL (gc_namespace c)) (\<lambda>m. checks
            [raise_if (m \<noteq> issuer_membership)
               (PermissionDeniedError ''credential issuer binding was refused'')]
          (bindR (find_governance_credential t (gc_credential_id c) st) (\<lambda>existing.
           case existing of
             Some stored \<Rightarrow>
               if \<not> same_enrollment_authorization stored c
               then Inl (ReplayConflictError ''enrollment idempotency key was rebound'')
               else Inr (stored, st)
           | None \<Rightarrow>
               bindR (if gc_bootstrap_transition c then open_second_admin c st
                 else if role = TENANT_ADMIN
                 then (case gc_change_decision_id c of
                     None \<Rightarrow> Inl (PermissionDeniedError
                       ''Admin enrollment requires exact change approval'')
                   | Some decision_id \<Rightarrow> consume_admin_enrollment_authority decision_id role
                       (gc_colleague_ids c) issuer (gc_issued_at c) st)
                 else Inr st) (\<lambda>st.
               bindR (insert_credential c st) (\<lambda>st.
               bindR (insert_governance_audit (credential_note c ''enrollment_authorized''
                 ''authorized'' issuer (authority_text m) (gc_causation_id c) (gc_issued_at c)
                 (credential_kind_projection c @ [(''role'', JStr (HumanRole_value role)),
                   (''bootstrap_transition'', JBool (gc_bootstrap_transition c)),
                   (''scope_count'', JInt (int (length (gc_colleague_ids c))))])) st) (\<lambda>st.
               Inr (c, st))))))))))"

definition recovery_target_fits :: "Membership \<Rightarrow> GovernanceCredential \<Rightarrow> unit result" where
  "recovery_target_fits target c = check_all
     [raise_if (mb_status target \<noteq> MEMBER_ACTIVE)
        (PermissionDeniedError ''recovery target was refused''),
      raise_if (mb_colleague_ids target \<noteq> gc_colleague_ids c \<or>
          Some (mb_role_revision target) \<noteq> gc_target_role_revision c \<or>
          Some (mb_membership_revision target) \<noteq> gc_target_membership_revision c)
        (PermissionDeniedError ''recovery authority was rebound'')]"

definition authorize_recovery ::
  "GovernanceCredential \<Rightarrow> Membership \<Rightarrow> 'z p6_store_scheme
     \<Rightarrow> (GovernanceCredential \<times> 'z p6_store_scheme) result" where
  "authorize_recovery c issuer_membership st =
     (let t = ns_tenant_id (gc_namespace c);
          rebound = ReplayConflictError ''recovery idempotency key was rebound'' in checks
       [raise_if (gc_kind c \<noteq> RECOVERY)
          (PermissionDeniedError ''credential purpose was refused'')]
     (bindR (get_principal (rt st) t (gc_issued_by_principal_id c)) (\<lambda>issuer.
      case gc_target_principal_id c of
        None \<Rightarrow> Inl AssertionError
      | Some target_id \<Rightarrow>
          bindR (require_current_membership st issuer MANAGE_CREDENTIAL (gc_namespace c)) (\<lambda>m. checks
            [raise_if (m \<noteq> issuer_membership)
               (PermissionDeniedError ''credential issuer binding was refused'')]
          (bindR (membership_for_principal st t target_id) (\<lambda>target. checks
            [recovery_target_fits target c]
          (case insert_credential c st of
             Inl _ \<Rightarrow> bindR (find_governance_credential t (gc_credential_id c) st) (\<lambda>existing.
               case existing of
                 None \<Rightarrow> Inl rebound
               | Some stored \<Rightarrow>
                   if \<not> same_recovery_authorization stored c then Inl rebound else Inr (stored, st))
           | Inr st \<Rightarrow>
               bindR (insert_governance_audit ((credential_note c ''recovery_authorized''
                 ''authorized'' issuer (authority_text m) (gc_causation_id c) (gc_issued_at c)
                 [(''kind'', JStr ''recovery''),
                  (''scope_count'', JInt (int (length (mb_colleague_ids target))))])
                 \<lparr>gn_record_revision := 1\<rparr>) st) (\<lambda>st. Inr (c, st))))))))) "

section \<open>Retrieval, expiry and revocation\<close>

definition claim_credential_secret ::
  "string \<Rightarrow> string \<Rightarrow> datetime \<Rightarrow> 'z p6_store_scheme
     \<Rightarrow> (GovernanceCredential \<times> 'z p6_store_scheme) result" where
  "claim_credential_secret credential_id token_digest occurred_at st =
     (let rows = filter (\<lambda>c. gc_credential_id c = credential_id) (p6_credentials st) in checks
       [raise_if (length rows \<noteq> 1)
          (PermissionDeniedError ''credential retrieval was refused'')]
     (bindR (GovernanceCredential_init (hd rows)) (\<lambda>c.
      bindR (get_principal (rt st) (ns_tenant_id (gc_namespace c)) (gc_issued_by_principal_id c))
        (\<lambda>issuer. checks
       [raise_if (gc_state c \<noteq> CR_AUTHORIZED) (ConflictError ''credential retrieval was refused'')]
      (if occurred_at \<ge> gc_expires_at c
       then bindR (GovernanceCredential_init (c\<lparr>gc_state := CR_EXPIRED,
              gc_revision := gc_revision c + 1\<rparr>)) (\<lambda>expired.
         bindR (insert_governance_audit (credential_note expired ''credential_expired'' ''expired''
           issuer ''credential:expired'' (gc_credential_id c) occurred_at
           (credential_kind_projection c))
           (update_credential (credential_at c any_state) (\<lambda>r. r\<lparr>gc_state := CR_EXPIRED\<rparr>) st))
           (\<lambda>st. Inr (expired, st)))
       else
        (let target = (\<lambda>r. credential_at c {CR_AUTHORIZED} r \<and> gc_token_digest r = None) in checks
         [chk (require_utc occurred_at ''datetime''),
          raise_if (row_count target (p6_credentials st) \<noteq> 1)
            (ConflictError ''credential retrieval lost its atomic claim''),
          raise_if (\<exists>r \<in> set (p6_credentials st). gc_token_digest r = Some token_digest)
            (IntegrityError ''p6_governance_credentials'')]
         (bindR (GovernanceCredential_init (c\<lparr>gc_state := CR_RETRIEVED,
              gc_token_digest := Some token_digest, gc_retrieved_at := Some occurred_at,
              gc_revision := gc_revision c + 1\<rparr>)) (\<lambda>retrieved.
          bindR (insert_governance_audit (credential_note retrieved ''credential_retrieved''
            ''retrieved'' issuer ''credential:retrieved'' (gc_credential_id c) occurred_at
            (credential_kind_projection c))
            (update_credential target (\<lambda>r. r\<lparr>gc_state := CR_RETRIEVED,
               gc_token_digest := Some token_digest, gc_retrieved_at := Some occurred_at\<rparr>) st))
            (\<lambda>st. Inr (retrieved, st))))))))))"

definition expire_credential ::
  "GovernanceCredential \<Rightarrow> datetime \<Rightarrow> 'z p6_store_scheme
     \<Rightarrow> (GovernanceCredential \<times> 'z p6_store_scheme) result" where
  "expire_credential c occurred_at st =
     (let t = ns_tenant_id (gc_namespace c);
          refused = PermissionDeniedError ''credential expiry binding was refused'' in
      bindR (case find_credential st t (gc_credential_id c) of
          None \<Rightarrow> Inl refused | Some r \<Rightarrow> GovernanceCredential_init r) (\<lambda>current. checks
        [raise_if (current \<noteq> c) refused,
         raise_if (gc_state c \<noteq> CR_RETRIEVED \<or> occurred_at < gc_expires_at c)
           (PermissionDeniedError ''credential expiry was refused''),
         raise_if (row_count (credential_at c {CR_RETRIEVED}) (p6_credentials st) \<noteq> 1)
           (ConflictError ''credential expiry lost its atomic claim'')]
        (bindR (GovernanceCredential_init (c\<lparr>gc_state := CR_EXPIRED, gc_token_digest := None,
             gc_revision := gc_revision c + 1\<rparr>)) (\<lambda>expired.
         bindR (get_principal (rt st) t (gc_issued_by_principal_id c)) (\<lambda>issuer.
         bindR (insert_governance_audit (credential_note expired ''credential_expired'' ''expired''
           issuer ''credential:expired'' (gc_credential_id c) occurred_at
           (credential_kind_projection c))
           (update_credential (credential_at c {CR_RETRIEVED})
             (\<lambda>r. r\<lparr>gc_state := CR_EXPIRED, gc_token_digest := None\<rparr>) st)) (\<lambda>st.
         Inr (expired, st)))))))"

definition revoke_credential ::
  "AuthenticatedSession \<Rightarrow> string \<Rightarrow> string \<Rightarrow> string \<Rightarrow> datetime \<Rightarrow> 'z p6_store_scheme
     \<Rightarrow> (GovernanceCredential \<times> 'z p6_store_scheme) result" where
  "revoke_credential s credential_id key request_digest occurred_at st =
     (let actor = se_principal s; t = se_tenant_id s; action = ''p6:revoke-credential:atomic'' in
      bindR (tenant_namespace t) (\<lambda>ns.
      bindR (require_current_membership st actor MANAGE_CREDENTIAL ns) (\<lambda>m.
      case find_replay st t (pr_principal_id actor) action key of
        Some r \<Rightarrow>
          if ry_request_digest r \<noteq> request_digest
          then Inl (ReplayConflictError ''credential revoke idempotency key was rebound'')
          else (case ry_result r of RV_CREDENTIAL c \<Rightarrow> Inr (c, st) | _ \<Rightarrow> wrong_type)
      | None \<Rightarrow> checks
          [session_is_current st s m ''credential revoke session binding was refused'']
          (case find_credential st t credential_id of
             None \<Rightarrow> Inl (NotFoundError ''governance credential was not found'')
           | Some row \<Rightarrow> bindR (GovernanceCredential_init row) (\<lambda>c. checks
               [raise_if (gc_state c \<notin> {CR_AUTHORIZED, CR_RETRIEVED})
                  (ConflictError ''credential cannot be revoked''),
                chk (require_utc occurred_at ''datetime''),
                raise_if (row_count (credential_at c any_state) (p6_credentials st) \<noteq> 1)
                  (ConflictError ''credential revoke lost its atomic claim'')]
               (bindR (GovernanceCredential_init (c\<lparr>gc_state := CR_REVOKED,
                  gc_token_digest := None, gc_revoked_at := Some occurred_at,
                  gc_revision := gc_revision c + 1\<rparr>)) (\<lambda>revoked.
                bindR (insert_governance_audit (credential_note revoked ''credential_revoked''
                  ''revoked'' actor (authority_text m) (gc_credential_id c) occurred_at
                  (credential_kind_projection c))
                  (update_credential (credential_at c any_state)
                    (\<lambda>r. r\<lparr>gc_state := CR_REVOKED, gc_revoked_at := Some occurred_at,
                       gc_token_digest := None\<rparr>) st)) (\<lambda>st.
                bindR (insert_replay s action key request_digest (RV_CREDENTIAL revoked) st) (\<lambda>st.
                Inr (revoked, st))))))))))"

section \<open>Consumption\<close>

definition enrollment_fits ::
  "GovernanceCredential \<Rightarrow> Principal \<Rightarrow> Membership \<Rightarrow> AuthenticatedSession \<Rightarrow> datetime \<Rightarrow> bool" where
  "enrollment_fits c p m s occurred_at =
     (gc_state c = CR_RETRIEVED \<and> gc_retrieved_at c \<noteq> None \<and> occurred_at < gc_expires_at c \<and>
      gc_target_role c \<noteq> None \<and>
      ns_tenant_id (pr_namespace p) = ns_tenant_id (gc_namespace c) \<and>
      pr_roles p = [the (gc_target_role c)] \<and> mb_roles m = pr_roles p \<and>
      mb_colleague_ids m = gc_colleague_ids c \<and> mb_role_revision m = 1 \<and>
      mb_membership_revision m = 1 \<and> mb_status m = MEMBER_ACTIVE \<and>
      se_role_revision s = 1 \<and> se_membership_revision s = 1)"

definition second_admin_ready :: "'z p6_store_scheme \<Rightarrow> GovernanceCredential \<Rightarrow> bool" where
  "second_admin_ready st c =
     (case find_transition st (ns_tenant_id (gc_namespace c)) of
        None \<Rightarrow> False
      | Some t \<Rightarrow> tn_available t \<and> tn_active_credential_id t = Some (gc_credential_id c) \<and>
          length (active_admins st (ns_tenant_id (gc_namespace c))) = 1)"

definition close_second_admin ::
  "GovernanceCredential \<Rightarrow> string \<Rightarrow> datetime \<Rightarrow> 'z p6_store_scheme \<Rightarrow> 'z p6_store_scheme result"
where
  "close_second_admin c principal_id occurred_at st =
     (let target = (\<lambda>r. tn_tenant_id r = ns_tenant_id (gc_namespace c) \<and> tn_available r \<and>
          tn_active_credential_id r = Some (gc_credential_id c)) in checks
        [raise_if (row_count target (p6_transitions st) \<noteq> 1)
           (ConflictError ''second-Admin transition lost its atomic claim'')]
        (Inr (st\<lparr>p6_transitions := update_where target (\<lambda>r. r\<lparr>tn_available := False,
           tn_consumed_principal_id := Some principal_id, tn_updated_at := occurred_at,
           tn_revision := tn_revision r + 1\<rparr>) (p6_transitions st)\<rparr>)))"

text \<open>The conditional update that consumes a retrieved credential.\<close>

definition consume_credential_row ::
  "GovernanceCredential \<Rightarrow> string \<Rightarrow> string \<Rightarrow> datetime \<Rightarrow> string \<Rightarrow> 'z p6_store_scheme
     \<Rightarrow> 'z p6_store_scheme result" where
  "consume_credential_row c token_digest principal_id occurred_at lost st =
     (let target = (\<lambda>r. credential_at c {CR_RETRIEVED} r \<and> gc_token_digest r = Some token_digest)
      in checks
        [raise_if (row_count target (p6_credentials st) \<noteq> 1) (ConflictError lost)]
        (Inr (update_credential target (\<lambda>r. r\<lparr>gc_state := CR_CONSUMED,
           gc_consumed_at := Some occurred_at, gc_consumed_principal_id := Some principal_id\<rparr>) st)))"

definition consumed_credential ::
  "GovernanceCredential \<Rightarrow> string \<Rightarrow> datetime \<Rightarrow> GovernanceCredential result" where
  "consumed_credential c principal_id occurred_at = GovernanceCredential_init
     (c\<lparr>gc_state := CR_CONSUMED, gc_consumed_at := Some occurred_at,
        gc_consumed_principal_id := Some principal_id, gc_revision := gc_revision c + 1\<rparr>)"

definition consume_enrollment ::
  "string \<Rightarrow> Principal \<Rightarrow> Membership \<Rightarrow> AuthenticatedSession \<Rightarrow> datetime \<Rightarrow> 'z p6_store_scheme
     \<Rightarrow> ((GovernanceCredential \<times> Membership \<times> AuthenticatedSession) \<times> 'z p6_store_scheme) result"
where
  "consume_enrollment token_digest p m s occurred_at st =
     (let refused = PermissionDeniedError ''enrollment exchange was refused'';
          lost = ''enrollment atomic consumption lost its claim'' in checks
       [raise_if (pr_kind p \<noteq> HUMAN \<or> se_principal s \<noteq> p)
          (PermissionDeniedError ''enrollment principal binding was refused''),
        require_exact (pr_namespace p) (mb_namespace m)]
     (case find (\<lambda>c. gc_token_digest c = Some token_digest \<and> gc_kind c = ENROLLMENT)
          (p6_credentials st) of
        None \<Rightarrow> Inl refused
      | Some row \<Rightarrow> bindR (GovernanceCredential_init row) (\<lambda>c. checks
          [raise_if (\<not> enrollment_fits c p m s occurred_at) refused]
        (bindR (get_principal (rt st) (ns_tenant_id (gc_namespace c))
            (gc_issued_by_principal_id c)) (\<lambda>issuer. checks
          [raise_if (mb_issued_by m \<noteq> issuer)
             (PermissionDeniedError ''enrollment issuer binding was refused''),
           raise_if (gc_bootstrap_transition c \<and> \<not> second_admin_ready st c)
             (PermissionDeniedError ''second-Admin transition was refused'')]
        (bindR (on_integrity (ConflictError lost)
           (bindR (on_rt (insert_record_as (Some issuer) (Some (gc_correlation_id c))
              (Some (gc_credential_id c)) (Some occurred_at) (DPrincipal p)) st) (\<lambda>st.
            bindR (insert_membership m st) (insert_session s)))) (\<lambda>st.
         bindR (consume_credential_row c token_digest (pr_principal_id p) occurred_at lost st) (\<lambda>st.
         bindR (if gc_bootstrap_transition c
           then close_second_admin c (pr_principal_id p) occurred_at st else Inr st) (\<lambda>st.
         bindR (consumed_credential c (pr_principal_id p) occurred_at) (\<lambda>consumed.
         bindR (insert_governance_audit (credential_note consumed ''enrollment_consumed''
           ''consumed'' p ''role:1:member:1'' (gc_credential_id c) occurred_at
           [(''role'', JStr (HumanRole_value (the (gc_target_role c)))),
            (''bootstrap_transition'', JBool (gc_bootstrap_transition c))]) st) (\<lambda>st.
         Inr ((consumed, m, s), st))))))))))))"

definition recovery_fits ::
  "GovernanceCredential \<Rightarrow> Membership \<Rightarrow> Principal \<Rightarrow> AuthenticatedSession \<Rightarrow> unit result" where
  "recovery_fits c m p s =
     (let refused = PermissionDeniedError ''recovery authority binding was refused'' in checks
       [raise_if (mb_status m \<noteq> MEMBER_ACTIVE \<or> mb_colleague_ids m \<noteq> gc_colleague_ids c \<or>
          Some (mb_role_revision m) \<noteq> gc_target_role_revision c \<or>
          Some (mb_membership_revision m) \<noteq> gc_target_membership_revision c \<or>
          se_principal s \<noteq> p \<or> se_role_revision s \<noteq> mb_role_revision m \<or>
          se_membership_revision s \<noteq> mb_membership_revision m) refused]
       (if se_active_colleague_id s = None then Inr ()
        else bindR (session_colleague s) (\<lambda>ns.
          bindR (allows_namespace m ns) (\<lambda>allowed. raise_if (\<not> allowed) refused))))"

definition consume_recovery ::
  "string \<Rightarrow> AuthenticatedSession \<Rightarrow> datetime \<Rightarrow> 'z p6_store_scheme
     \<Rightarrow> ((GovernanceCredential \<times> Membership \<times> AuthenticatedSession) \<times> 'z p6_store_scheme) result"
where
  "consume_recovery token_digest s occurred_at st =
     (let refused = PermissionDeniedError ''recovery exchange was refused'' in
      case find (\<lambda>c. gc_token_digest c = Some token_digest \<and> gc_kind c = RECOVERY)
          (p6_credentials st) of
        None \<Rightarrow> Inl refused
      | Some row \<Rightarrow> bindR (GovernanceCredential_init row) (\<lambda>c.
          let t = ns_tenant_id (gc_namespace c) in
          case gc_target_principal_id c of None \<Rightarrow> Inl refused | Some target_id \<Rightarrow> checks
          [raise_if (gc_state c \<noteq> CR_RETRIEVED \<or> gc_retrieved_at c = None \<or>
             occurred_at \<ge> gc_expires_at c) refused]
        (bindR (membership_for_principal st t target_id) (\<lambda>m.
         bindR (get_principal (rt st) t target_id) (\<lambda>p. checks
          [recovery_fits c m p s, chk (require_utc occurred_at ''datetime'')]
        (bindR (insert_session s
           (revoke_sessions t (pr_principal_id p) occurred_at ''recovery_rotation'' st)) (\<lambda>st.
         bindR (consume_credential_row c token_digest (pr_principal_id p) occurred_at
           ''recovery atomic consumption lost its claim'' st) (\<lambda>st.
         bindR (consumed_credential c (pr_principal_id p) occurred_at) (\<lambda>consumed.
         bindR (insert_governance_audit (credential_note consumed ''recovery_consumed'' ''rotated'' p
           (authority_text m) (gc_credential_id c) occurred_at
           [(''old_sessions_revoked'', JBool True)]) st) (\<lambda>st.
         Inr ((consumed, m, s), st)))))))))))"

end
