(* ===== verification/RowMachine.thy ===== *)
theory RowMachine
  imports StoreFrame
begin

text \<open>
  Tables whose rows change one move at a time: the contract of such a table, and what follows
  from it for whole histories.  The governance tables interpret it.
\<close>

lemma list_all2_member:
  assumes "list_all2 R xs ys" and "x \<in> set xs"
  obtains y where "y \<in> set ys" and "R x y"
proof -
  from assms have "\<exists>y \<in> set ys. R x y"
    by (induction rule: list_all2_induct) auto
  with that show ?thesis by blast
qed

section \<open>Tables that evolve\<close>

text \<open>Every row stays or makes one move, and fresh rows come at the end.\<close>

definition evolves :: "('r \<Rightarrow> 'k) \<Rightarrow> ('r \<Rightarrow> 'r \<Rightarrow> bool) \<Rightarrow> 'r list \<Rightarrow> 'r list \<Rightarrow> bool" where
  "evolves key move rows rows' \<longleftrightarrow>
     (\<exists>old new. rows' = old @ new \<and> list_all2 (\<lambda>r r'. r' = r \<or> move r r') rows old \<and>
        distinct (map key new) \<and> key ` set new \<inter> key ` set rows = {})"

lemma evolves_refl [simp, intro]: "evolves key move rows rows"
  unfolding evolves_def by (intro exI [of _ rows] exI [of _ "[]"]) (simp add: list_all2_refl)

lemma evolves_append:
  "key r \<notin> key ` set rows \<Longrightarrow> evolves key move rows (rows @ [r])"
  unfolding evolves_def by (intro exI [of _ rows] exI [of _ "[r]"]) (simp add: list_all2_refl)

lemma moves_update_where:
  "(\<And>r. r \<in> set rows \<Longrightarrow> P r \<Longrightarrow> move r (f r)) \<Longrightarrow>
     list_all2 (\<lambda>r r'. r' = r \<or> move r r') rows (update_where P f rows)"
  by (induction rows) (auto simp: update_where_def)

lemma evolves_update:
  assumes "\<And>r. r \<in> set rows \<Longrightarrow> P r \<Longrightarrow> move r (f r)"
  shows "evolves key move rows (update_where P f rows)"
  unfolding evolves_def
  by (intro exI [of _ "update_where P f rows"] exI [of _ "[]"]) (simp add: moves_update_where assms)

lemma moved_keys:
  assumes "list_all2 (\<lambda>r r'. r' = r \<or> move r r') rows old"
    and "\<And>r r'. move r r' \<Longrightarrow> key r' = key r"
  shows "map key old = map key rows"
  using assms(1) by (induction rule: list_all2_induct) (auto simp: assms(2))

lemma evolves_update_append:
  assumes "\<And>r. r \<in> set rows \<Longrightarrow> P r \<Longrightarrow> move r (f r)" and "key q \<notin> key ` set rows"
  shows "evolves key move rows (update_where P f rows @ [q])"
  unfolding evolves_def
  by (intro exI [of _ "update_where P f rows"] exI [of _ "[q]"])
    (simp add: moves_update_where assms)

section \<open>Histories of a table\<close>

locale row_machine =
  fixes step :: "'s \<Rightarrow> 's \<Rightarrow> bool" and rows :: "'s \<Rightarrow> 'r list" and key :: "'r \<Rightarrow> 'k"
    and move :: "'r \<Rightarrow> 'r \<Rightarrow> bool"
  assumes step_evolves: "step s s' \<Longrightarrow> distinct (map key (rows s)) \<Longrightarrow>
      evolves key move (rows s) (rows s')"
    and move_key: "move r r' \<Longrightarrow> key r' = key r"
begin

lemma step_distinct:
  assumes "step s s'" and "distinct (map key (rows s))"
  shows "distinct (map key (rows s'))"
proof -
  from step_evolves [OF assms] obtain old new where
    rows': "rows s' = old @ new" and old: "list_all2 (\<lambda>r r'. r' = r \<or> move r r') (rows s) old"
    and new: "distinct (map key new)" "key ` set new \<inter> key ` set (rows s) = {}"
    unfolding evolves_def by blast
  have keys: "map key old = map key (rows s)"
    by (rule moved_keys [where move = move, OF old move_key])
  show ?thesis
    unfolding rows' map_append distinct_append keys
    using assms(2) new by (simp add: Int_commute)
qed

lemma steps_distinct:
  "step\<^sup>*\<^sup>* s s' \<Longrightarrow> distinct (map key (rows s)) \<Longrightarrow> distinct (map key (rows s'))"
  by (induction rule: rtranclp_induct) (auto intro: step_distinct)

lemma step_row:
  assumes "step s s'" and "distinct (map key (rows s))" and "r \<in> set (rows s)"
  shows "\<exists>r' \<in> set (rows s'). move\<^sup>*\<^sup>* r r'"
proof -
  from step_evolves [OF assms(1,2)] obtain old new where
    rows': "rows s' = old @ new" and old: "list_all2 (\<lambda>r r'. r' = r \<or> move r r') (rows s) old"
    unfolding evolves_def by blast
  from old assms(3) obtain r' where "r' \<in> set old" "r' = r \<or> move r r'"
    by (rule list_all2_member)
  then show ?thesis
    unfolding rows' by auto
qed

text \<open>A row is never lost, and what it becomes is reached by moves.\<close>

lemma steps_row:
  "step\<^sup>*\<^sup>* s s' \<Longrightarrow> distinct (map key (rows s)) \<Longrightarrow> r \<in> set (rows s) \<Longrightarrow>
     \<exists>r' \<in> set (rows s'). move\<^sup>*\<^sup>* r r'"
proof (induction rule: rtranclp_induct)
  case (step s1 s2)
  then obtain r1 where r1: "r1 \<in> set (rows s1)" "move\<^sup>*\<^sup>* r r1" by blast
  from step_row [OF step(2) steps_distinct [OF step(1,4)] r1(1)] r1(2) show ?case
    by (meson rtranclp_trans)
qed blast

lemma moves_key: "move\<^sup>*\<^sup>* r r' \<Longrightarrow> key r' = key r"
  by (induction rule: rtranclp_induct) (auto dest: move_key)

lemma same_key_row:
  "distinct (map key (rows s)) \<Longrightarrow> q \<in> set (rows s) \<Longrightarrow> r \<in> set (rows s) \<Longrightarrow> key q = key r \<Longrightarrow> q = r"
  by (auto simp: distinct_map inj_on_def)

lemma row_moves:
  assumes "step\<^sup>*\<^sup>* s s'" and "distinct (map key (rows s))" and "r \<in> set (rows s)"
    and "q \<in> set (rows s')" and "key q = key r"
  shows "move\<^sup>*\<^sup>* r q"
proof -
  from steps_row [OF assms(1-3)] obtain r' where "r' \<in> set (rows s')" "move\<^sup>*\<^sup>* r r'" by blast
  with same_key_row [OF steps_distinct [OF assms(1,2)] assms(4)] assms(5) moves_key show ?thesis
    by metis
qed

text \<open>A row without moves is never changed again.\<close>

lemma final_row:
  assumes "step\<^sup>*\<^sup>* s s'" and "distinct (map key (rows s))" and "r \<in> set (rows s)"
    and "\<And>r'. \<not> move r r'"
  shows "r \<in> set (rows s')"
proof -
  from steps_row [OF assms(1-3)] obtain r' where "r' \<in> set (rows s')" "move\<^sup>*\<^sup>* r r'" by blast
  moreover from \<open>move\<^sup>*\<^sup>* r r'\<close> have "r' = r"
    by (cases rule: converse_rtranclpE) (auto simp: assms(4))
  ultimately show ?thesis by simp
qed

text \<open>What every move keeps of a row, all histories keep.\<close>

lemma kept_row:
  assumes "step\<^sup>*\<^sup>* s s'" and "distinct (map key (rows s))" and "r \<in> set (rows s)" and "Q r"
    and "\<And>a b. move a b \<Longrightarrow> Q a \<Longrightarrow> Q b"
  shows "\<exists>r' \<in> set (rows s'). key r' = key r \<and> Q r'"
proof -
  from steps_row [OF assms(1-3)] obtain r' where r': "r' \<in> set (rows s')" "move\<^sup>*\<^sup>* r r'" by blast
  from r'(2) have "Q r'"
    by (induction rule: rtranclp_induct) (auto simp: assms(4) intro: assms(5))
  with r' moves_key show ?thesis by blast
qed

end

end
