(* ===== verification/GovernanceFrame.thy ===== *)
theory GovernanceFrame
  imports CredentialStore RowMachine StoreSteps
begin

text \<open>
  What the statements and operations of the P4, P5 and P6 stores write: each returns its state
  with the named columns replaced, and \<open>governance\<close> collects the tables the operations of P4 and
  P5 leave alone.
\<close>

section \<open>Statements\<close>

lemma case_option_Inr:
  "(case x of None \<Rightarrow> Inl e | Some a \<Rightarrow> f a) = Inr y \<longleftrightarrow> (\<exists>a. x = Some a \<and> f a = Inr y)"
  by (cases x) auto

lemma find_SomeD: "find P xs = Some x \<Longrightarrow> x \<in> set xs \<and> P x"
  by (auto simp: find_Some_iff)

lemma on_rt_result: "on_rt f st = Inr st' \<longleftrightarrow> (\<exists>s. f (rt st) = Inr s \<and> st' = st\<lparr>rt := s\<rparr>)"
  by (auto simp: on_rt_def outcome_simps)

lemma insert_session_result:
  "insert_session s st = Inr st' \<Longrightarrow>
     st' = st\<lparr>p4_sessions := p4_sessions st @
       [\<lparr>sr_session = s, sr_revoked_at = None, sr_revoked_reason = None\<rparr>]\<rparr> \<and>
     (\<forall>r \<in> set (p4_sessions st). session_key (sr_session r) \<noteq> session_key s \<and>
       se_credential_digest (sr_session r) \<noteq> se_credential_digest s) \<and>
     st_records (rt st) (principal_key (se_tenant_id s) (pr_principal_id (se_principal s))) \<noteq> None"
  by (auto simp: insert_session_def outcome_simps)

lemma set_session_colleague_result:
  "set_session_colleague s c m st = Inr st' \<Longrightarrow>
     st' = st\<lparr>p4_sessions := update_where (\<lambda>r. session_key (sr_session r) = session_key s \<and>
         se_revision (sr_session r) = se_revision s)
       (\<lambda>r. r\<lparr>sr_session := (sr_session r)\<lparr>se_active_colleague_id := Some c,
            se_revision := se_revision (sr_session r) + 1\<rparr>\<rparr>) (p4_sessions st)\<rparr>"
  by (auto simp: set_session_colleague_def outcome_simps)

lemma insert_replay_result:
  "insert_replay s a k d v st = Inr st' \<Longrightarrow> \<exists>row. st' = st\<lparr>p4_replays := p4_replays st @ [row]\<rparr>"
  by (auto simp: insert_replay_def Let_def split: if_splits)

lemma update_bootstrap_result:
  "update_bootstrap P f b t e st = Inr st' \<Longrightarrow> \<exists>rows. st' = st\<lparr>p4_bootstraps := rows\<rparr>"
  by (auto simp: update_bootstrap_def outcome_simps)

lemma insert_membership_result:
  "insert_membership m st = Inr st' \<Longrightarrow> st' = st\<lparr>p6_memberships := p6_memberships st @ [m]\<rparr> \<and>
     find_membership st (ns_tenant_id (mb_namespace m)) (mb_principal_id m) = None"
  by (auto simp: insert_membership_def outcome_simps)

lemma insert_transition_result:
  "insert_transition t i now st = Inr st' \<Longrightarrow>
     st' = st\<lparr>p6_transitions := p6_transitions st @ [\<lparr>tn_tenant_id = t, tn_available = True,
       tn_active_credential_id = None, tn_consumed_principal_id = None,
       tn_created_by_principal_id = i, tn_updated_at = now, tn_revision = 1\<rparr>]\<rparr> \<and>
     t \<notin> tn_tenant_id ` set (p6_transitions st)"
  by (auto simp: insert_transition_def outcome_simps)

lemma insert_governance_audit_result:
  "insert_governance_audit n st = Inr st' \<Longrightarrow> \<exists>row. st' = st\<lparr>p6_audit := p6_audit st @ [row]\<rparr>"
  by (auto simp: insert_governance_audit_def outcome_simps)

lemma insert_proposal_result:
  "insert_proposal p st = Inr st' \<Longrightarrow>
     st' = st\<lparr>p6_proposals := p6_proposals st @ [p\<lparr>ch_decision_id := None, ch_consumed_at := None\<rparr>]\<rparr> \<and>
     (\<forall>x \<in> set (p6_proposals st). (ch_namespace x, ch_proposal_id x) \<noteq> (ch_namespace p, ch_proposal_id p))"
  by (auto simp: insert_proposal_def split: if_splits)

lemma insert_decision_result:
  "insert_decision d st = Inr st' \<Longrightarrow>
     st' = st\<lparr>p6_decisions := p6_decisions st @ [d\<lparr>cd_consumed_at := None\<rparr>]\<rparr> \<and>
     (\<forall>x \<in> set (p6_decisions st). (cd_namespace x, cd_decision_id x) \<noteq> (cd_namespace d, cd_decision_id d) \<and>
       (cd_namespace x, cd_proposal_id x) \<noteq> (cd_namespace d, cd_proposal_id d))"
  by (auto simp: insert_decision_def split: if_splits)

lemma consume_change_rows_result:
  "consume_change_rows p d now st = Inr st' \<Longrightarrow>
     st' = st\<lparr>p6_proposals := update_where (\<lambda>r. proposal_at p {CH_APPROVED} r \<and> ch_consumed_at r = None)
         (\<lambda>r. r\<lparr>ch_state := CH_APPLIED, ch_consumed_at := Some now,
            ch_revision := ch_revision r + 1\<rparr>) (p6_proposals st),
       p6_decisions := update_where (decision_at p d) (\<lambda>r. r\<lparr>cd_consumed_at := Some now,
            cd_revision := cd_revision r + 1\<rparr>) (p6_decisions st)\<rparr> \<and>
     row_count (\<lambda>r. proposal_at p {CH_APPROVED} r \<and> ch_consumed_at r = None) (p6_proposals st) = 1 \<and>
     row_count (decision_at p d) (p6_decisions st) = 1"
  by (auto simp: consume_change_rows_def outcome_simps)

lemma insert_credential_result:
  "insert_credential c st = Inr st' \<Longrightarrow>
     st' = st\<lparr>p6_credentials := p6_credentials st @ [c\<lparr>gc_token_digest := None,
        gc_retrieved_at := None, gc_consumed_at := None, gc_revoked_at := None,
        gc_consumed_principal_id := None\<rparr>]\<rparr> \<and>
     gc_state c \<in> {CR_AUTHORIZED, CR_EXPIRED} \<and>
     find_credential st (ns_tenant_id (gc_namespace c)) (gc_credential_id c) = None"
  by (auto simp: insert_credential_def outcome_simps)

lemma consume_credential_row_result:
  "consume_credential_row c d i now m st = Inr st' \<Longrightarrow>
     st' = update_credential (\<lambda>r. credential_at c {CR_RETRIEVED} r \<and> gc_token_digest r = Some d)
       (\<lambda>r. r\<lparr>gc_state := CR_CONSUMED, gc_consumed_at := Some now,
          gc_consumed_principal_id := Some i\<rparr>) st"
  by (auto simp: consume_credential_row_def outcome_simps)

lemma close_second_admin_result:
  "close_second_admin c i now st = Inr st' \<Longrightarrow>
     st' = st\<lparr>p6_transitions := update_where (\<lambda>r. tn_tenant_id r = ns_tenant_id (gc_namespace c) \<and>
         tn_available r \<and> tn_active_credential_id r = Some (gc_credential_id c))
       (\<lambda>r. r\<lparr>tn_available := False, tn_consumed_principal_id := Some i, tn_updated_at := now,
          tn_revision := tn_revision r + 1\<rparr>) (p6_transitions st)\<rparr> \<and>
     (\<exists>r \<in> set (p6_transitions st). tn_tenant_id r = ns_tenant_id (gc_namespace c) \<and> tn_available r)"
  by (auto simp: close_second_admin_def outcome_simps row_count_def filter_empty_conv
      dest!: arg_cong [where f = "\<lambda>n. 0 < n"])

lemma transaction_cases:
  "transaction f st = (r, st') \<Longrightarrow>
     (\<exists>x. f st = Inr (x, st') \<and> r = Inr x) \<or> (\<exists>e. f st = Inl e \<and> r = Inl e \<and> st' = st)"
  by (auto simp: transaction_def split: sum.splits prod.splits)

lemma raise_after_cases:
  "raise_after e run = (r, st') \<Longrightarrow> \<exists>r0. run = (r0, st')"
  by (auto simp: raise_after_def split: prod.splits sum.splits option.splits)

lemma committed_cases:
  "raise_after e (transaction f st) = (r, st') \<Longrightarrow> st' = st \<or> (\<exists>x. f st = Inr (x, st'))"
  by (auto dest!: raise_after_cases transaction_cases)

section \<open>The frame\<close>

definition governance ::
  "'z p6_store_scheme \<Rightarrow> session_row list \<times> Membership list \<times> transition_row list \<times>
     GovernanceCredential list \<times> ChangeProposal list \<times> ChangeDecision list" where
  "governance st = (p4_sessions st, p6_memberships st, p6_transitions st, p6_credentials st,
     p6_proposals st, p6_decisions st)"

definition keeps_principals :: "store \<Rightarrow> store \<Rightarrow> bool" where
  "keeps_principals s s' \<longleftrightarrow> (\<forall>n i r. st_records s (n, RT_PRINCIPAL, i) = Some r \<longrightarrow>
     st_records s' (n, RT_PRINCIPAL, i) = Some r) \<and>
     (\<forall>k r. st_records s' k = Some r \<longrightarrow> st_records s k = Some r \<or> record_key r = k)"

lemma keeps_principals_refl [simp]: "keeps_principals s s"
  by (simp add: keeps_principals_def)

lemma keeps_principals_trans:
  "keeps_principals s s1 \<Longrightarrow> keeps_principals s1 s2 \<Longrightarrow> keeps_principals s s2"
  unfolding keeps_principals_def by blast

lemma grows_keeps_principals: "grows T s s' \<Longrightarrow> RT_PRINCIPAL \<notin> T \<Longrightarrow> keeps_principals s s'"
  unfolding keeps_principals_def
  by (intro conjI allI impI, erule (2) grows_keeps, erule (1) grows_keys)

lemma keeps_principalsD:
  "keeps_principals s s' \<Longrightarrow> st_records s (n, RT_PRINCIPAL, i) = Some r \<Longrightarrow>
     st_records s' (n, RT_PRINCIPAL, i) = Some r"
  "keeps_principals s s' \<Longrightarrow> st_records s' k = Some q \<Longrightarrow> st_records s k = Some q \<or> record_key q = k"
  unfolding keeps_principals_def by blast+

definition untouched :: "'z p6_store_scheme \<Rightarrow> 'z p6_store_scheme \<Rightarrow> bool" where
  "untouched st st' \<longleftrightarrow> governance st' = governance st \<and> keeps_principals (rt st) (rt st')"

lemma untouched_refl [simp]: "untouched st st"
  by (simp add: untouched_def)

lemma untouched_trans: "untouched st st1 \<Longrightarrow> untouched st1 st2 \<Longrightarrow> untouched st st2"
  unfolding untouched_def by (metis keeps_principals_trans)

lemma untouched_fields [simp]:
  "untouched st (st\<lparr>p4_bootstraps := a\<rparr>)" "untouched st (st\<lparr>p4_replays := b\<rparr>)"
  "untouched st (st\<lparr>p4_observations := c\<rparr>)" "untouched st (st\<lparr>p4_candidates := d\<rparr>)"
  "untouched st (st\<lparr>p5_drafts := e\<rparr>)" "untouched st (st\<lparr>p5_confirmations := f\<rparr>)"
  "untouched st (st\<lparr>p5_draft_audit := g\<rparr>)" "untouched st (st\<lparr>p5_outcomes := h\<rparr>)"
  "untouched st (st\<lparr>p5_budgets := i\<rparr>)" "untouched st (st\<lparr>p5_consumptions := j\<rparr>)"
  "untouched st (st\<lparr>p5_run_states := k\<rparr>)" "untouched st (st\<lparr>p5_escalations := l\<rparr>)"
  "untouched st (st\<lparr>p6_bindings := m\<rparr>)" "untouched st (st\<lparr>p6_audit := n\<rparr>)"
  by (simp_all add: untouched_def governance_def)

lemma untouched_rt [simp]: "untouched st (st\<lparr>rt := s\<rparr>) = keeps_principals (rt st) s"
  by (simp add: untouched_def governance_def)

named_theorems untouched_rules \<open>statements that leave the governance tables alone\<close>

lemma insert_record_untouched [untouched_rules]:
  "on_rt (insert_record_as a c k t r) st = Inr st' \<Longrightarrow> untouched st st'"
  "on_rt (insert_record r) st = Inr st' \<Longrightarrow> untouched st st'"
  "on_rt (insert_ledger n kind key ty i) st = Inr st' \<Longrightarrow> untouched st st'"
  by (auto simp: on_rt_result intro!: grows_keeps_principals [where T = "{}"]
      intro: insert_record_as_grows insert_record_grows insert_ledger_grows)

lemma update_record_untouched [untouched_rules]:
  "on_rt (update_record n (DProfile x)) st = Inr st' \<Longrightarrow> untouched st st'"
  "on_rt (update_record n (DMandate y)) st = Inr st' \<Longrightarrow> untouched st st'"
  "on_rt (update_record n (DColleaguePolicy z)) st = Inr st' \<Longrightarrow> untouched st st'"
  by (auto simp: on_rt_result intro!: grows_keeps_principals
      [where T = "{RT_PROFILE, RT_MANDATE, RT_COLLEAGUE_POLICY}"] update_record_grows)

lemma insert_audits_untouched [untouched_rules]:
  "insert_governance_audit n st = Inr st' \<Longrightarrow> untouched st st'"
  "insert_draft_audit d a p now st = Inr st' \<Longrightarrow> untouched st st'"
  "insert_replay s ac k dg v st = Inr st' \<Longrightarrow> untouched st st'"
  "update_bootstrap P f b t e st = Inr st' \<Longrightarrow> untouched st st'"
  "insert_confirmation row st = Inr st' \<Longrightarrow> untouched st st'"
  "upsert_run_state po p ci ca now why st = Inr st' \<Longrightarrow> untouched st st'"
  by (auto dest!: insert_governance_audit_result insert_replay_result update_bootstrap_result
      simp: insert_draft_audit_def insert_confirmation_def upsert_run_state_def outcome_simps
      split: if_splits option.splits)

lemma write_draft_untouched [simp]: "untouched st (write_draft d st)"
  by (simp add: write_draft_def)

lemma mark_stale_untouched [untouched_rules]:
  "mark_stale d p now st = Inr st' \<Longrightarrow> untouched st st'"
  unfolding mark_stale_def
  by (auto simp: outcome_simps intro: untouched_trans [OF write_draft_untouched] untouched_rules)

lemma insert_outcome_untouched [untouched_rules]:
  "insert_policy_outcome r st = Inr (x, st') \<Longrightarrow> untouched st st'"
  "insert_escalation e st = Inr (y, st') \<Longrightarrow> untouched st st'"
  by (auto simp: insert_policy_outcome_def insert_escalation_def outcome_simps
      split: option.splits if_splits)

section \<open>Operations of P4 and P5\<close>

lemma create_bootstrap_untouched: "create_bootstrap b st = Inr (x, st') \<Longrightarrow> untouched st st'"
  by (auto simp: create_bootstrap_def outcome_simps split: if_splits)

lemma claim_bootstrap_untouched:
  assumes "claim_bootstrap_retrieval t d now st = (r, st')" shows "untouched st st'"
proof -
  have "st' = st \<or> (\<exists>x. claim_bootstrap_retrieval_body t d now st = Inr (x, st'))"
    using assms by (auto simp: claim_bootstrap_retrieval_def transaction_def
        split: prod.splits sum.splits)
  then show ?thesis
    by (auto simp: claim_bootstrap_retrieval_body_def outcome_simps intro: untouched_rules)
qed

lemma record_replay_untouched:
  "record_mutation_replay s a k r now st = Inr (x, st') \<Longrightarrow> untouched st st'"
  by (auto simp: record_mutation_replay_def outcome_simps split: sum.splits intro: untouched_rules)

lemma insert_runtime_principals_grows:
  "insert_runtime_principals a c i now ps s = Inr s' \<Longrightarrow> grows T s s'"
  by (induction ps arbitrary: s)
    (auto simp: outcome_simps split: if_splits intro: grows_trans insert_record_as_grows)

lemma insert_runtime_principals_untouched [untouched_rules]:
  "on_rt (insert_runtime_principals a c i now ps) st = Inr st' \<Longrightarrow> untouched st st'"
  by (auto simp: on_rt_result
      intro!: grows_keeps_principals [where T = "{}"] insert_runtime_principals_grows)

lemma initial_colleague_untouched:
  "create_initial_colleague n pf md ps a c now k st = Inr (x, st') \<Longrightarrow> untouched st st'"
  by (auto simp: create_initial_colleague_def outcome_simps split: option.splits
      dest!: untouched_rules intro: untouched_trans)

lemma assign_work_untouched:
  "assign_work_with f w k st = Inr (x, st') \<Longrightarrow> untouched st st'"
  by (auto simp: assign_work_with_def outcome_simps split: option.splits if_splits
      dest!: untouched_rules intro: untouched_trans)

lemma observations_untouched:
  "record_evaluation_observation eo st = Inr (x, st') \<Longrightarrow> untouched st st'"
  "record_proposal_candidate_observation po st = Inr (y, st') \<Longrightarrow> untouched st st'"
  by (auto simp: record_evaluation_observation_def record_proposal_candidate_observation_def
      outcome_simps split: option.splits if_splits)

lemma create_draft_untouched: "create_draft d st = Inr (x, st') \<Longrightarrow> untouched st st'"
  by (auto simp: create_draft_def create_draft_with_def outcome_simps split: option.splits
      dest!: untouched_rules intro: untouched_trans [OF untouched_fields(5)])

lemma update_draft_untouched:
  assumes "update_draft d v st = (r, st')" shows "untouched st st'"
proof -
  from assms have "st' = st \<or> (\<exists>x. update_draft_body require_draft_manager d v st = Inr (x, st'))"
    unfolding update_draft_def update_draft_with_def by (rule committed_cases)
  then show ?thesis
    by (auto simp: update_draft_body_def outcome_simps split: if_splits
        dest!: untouched_rules intro: untouched_trans [OF write_draft_untouched])
qed

lemma transition_draft_untouched:
  "transition_draft_body f n i v a now tg ac st = Inr (x, st') \<Longrightarrow> untouched st st'"
  by (auto simp: transition_draft_body_def outcome_simps split: if_splits
      dest!: untouched_rules intro: untouched_trans [OF write_draft_untouched])

lemma move_draft_untouched:
  "review_draft n i v a now st = (r, st') \<Longrightarrow> untouched st st'"
  "cancel_draft n i v a now st = (r, st') \<Longrightarrow> untouched st st'"
  unfolding review_draft_def cancel_draft_def review_draft_with_def cancel_draft_with_def
  by (auto dest!: committed_cases transition_draft_untouched)

lemma record_outcome_untouched: "record_policy_outcome r e st = Inr (x, st') \<Longrightarrow> untouched st st'"
  by (auto simp: record_policy_outcome_def outcome_simps split: option.splits
      dest!: untouched_rules intro: untouched_trans)

lemma consume_budget_untouched: "consume_budget q st = Inr (x, st') \<Longrightarrow> untouched st st'"
  by (auto simp: consume_budget_def outcome_simps untouched_def governance_def split: if_splits)

lemma admit_trigger_untouched:
  assumes "admit_trigger z q st = Inr (x, st')" shows "untouched st st'"
proof -
  have "untouched s s'" if "stop_colleague z q r s = Inr s'" for r s s'
    using that by (auto simp: stop_colleague_def outcome_simps split: option.splits
        intro: untouched_rules)
  moreover have "untouched s s'" if "raise_escalation q c s = Inr (e, s')" for c e s s'
    using that by (auto simp: raise_escalation_def outcome_simps split: option.splits
        dest!: untouched_rules)
  moreover have "s' = s" if "admission q r e s = Inr (a, s')" for r e a s s'
    using that by (auto simp: admission_def outcome_simps)
  ultimately show ?thesis
    using assms unfolding admit_trigger_def replay_admission_def
    by (fastforce simp: outcome_simps split: option.splits if_splits
        dest!: untouched_rules consume_budget_untouched intro: untouched_trans)
qed

lemma governed_decision_untouched:
  assumes "commit_governed_decision c sem st = Inr (x, st')" shows "untouched st st'"
proof -
  have outcome: "untouched s s'" if "stopped_outcome c d p s = Inr s'" for d p s s'
    using that by (auto simp: stopped_outcome_def outcome_simps split: if_splits
        dest!: untouched_rules)
  have prepared: "untouched s s'" if "prepare_semantic_decision c sem s = Inr (m, s')" for m s s'
    using that unfolding prepare_semantic_decision_def
    by (auto simp: outcome_simps split: option.split_asm if_split_asm dest: outcome)
  have committed: "keeps_principals s s'" if "commit_semantic_decision c m s = Inr (u, s')" for m u s s'
    using that by (auto intro!: grows_keeps_principals [where T = mutable_types] step_grows
        do_commit_decision simp: mutable_types_def)
  show ?thesis
    using assms by (auto simp: commit_governed_decision_def outcome_simps
        dest!: prepared committed intro: untouched_trans)
qed

end
