(* ===== verification/GovernanceSteps.thy ===== *)
theory GovernanceSteps
  imports GovernanceFrame
begin

text \<open>
  The governed store as a state machine: one rule for every operation that commits, with any
  arguments a caller can construct, and a classification of what a step does to the governance
  tables.  A runtime step may be any step of the runtime store; the two runtime methods this class
  overrides have rules of their own as well.
\<close>

section \<open>The step relation\<close>

inductive gov_step :: "'z p6_store_scheme \<Rightarrow> 'z p6_store_scheme \<Rightarrow> bool" where
  do_runtime: "store_step (rt st) s \<Longrightarrow> gov_step st (st\<lparr>rt := s\<rparr>)"
| do_create_bootstrap: "create_bootstrap b st = Inr (x1, st') \<Longrightarrow> gov_step st st'"
| do_claim_bootstrap: "claim_bootstrap_retrieval t d now st = (r1, st') \<Longrightarrow> gov_step st st'"
| do_consume_bootstrap: "principal.valid p \<Longrightarrow>
    consume_governed_bootstrap t d p s now st = Inr (x2, st') \<Longrightarrow> gov_step st st'"
| do_record_replay: "record_mutation_replay s a k mr now st = Inr (x3, st') \<Longrightarrow> gov_step st st'"
| do_active_colleague: "set_active_colleague s i st = Inr (x4, st') \<Longrightarrow> gov_step st st'"
| do_active_colleague_replay:
    "set_active_colleague_replay s i k d now st = Inr (x5, st') \<Longrightarrow> gov_step st st'"
| do_initial_colleague:
    "create_initial_colleague n pf md ps a ci now k st = Inr (x6, st') \<Longrightarrow> gov_step st st'"
| do_assign_work:
    "assign_work_with authorize_work_assignment w k st = Inr (x7, st') \<Longrightarrow> gov_step st st'"
| do_observe: "record_evaluation_observation eo st = Inr (x8, st') \<Longrightarrow> gov_step st st'"
| do_candidate: "record_proposal_candidate_observation po st = Inr (x9, st') \<Longrightarrow> gov_step st st'"
| do_create_draft: "create_draft df st = Inr (x10, st') \<Longrightarrow> gov_step st st'"
| do_update_draft: "update_draft df v st = (r2, st') \<Longrightarrow> gov_step st st'"
| do_review_draft: "review_draft n i v a now st = (r3, st') \<Longrightarrow> gov_step st st'"
| do_cancel_draft: "cancel_draft n i v a now st = (r4, st') \<Longrightarrow> gov_step st st'"
| do_confirm_draft: "confirm_draft zones q st = (r5, st') \<Longrightarrow> gov_step st st'"
| do_record_outcome: "record_policy_outcome pe es st = Inr (x11, st') \<Longrightarrow> gov_step st st'"
| do_admit_trigger: "admit_trigger zones am st = Inr (x12, st') \<Longrightarrow> gov_step st st'"
| do_governed_decision: "commit_governed_decision gl sem st = Inr (x13, st') \<Longrightarrow> gov_step st st'"
| do_propose_change: "create_change_proposal ch st = Inr (x14, st') \<Longrightarrow> gov_step st st'"
| do_decide_change: "decide_change ch cd st = (r6, st') \<Longrightarrow> gov_step st st'"
| do_expire_change: "expire_change_proposal ch a now st = Inr (x15, st') \<Longrightarrow> gov_step st st'"
| do_stale_change: "mark_change_proposal_stale ch a now st = Inr (x16, st') \<Longrightarrow> gov_step st st'"
| do_apply_membership:
    "apply_membership_change ch i s k d now st = Inr (x17, st') \<Longrightarrow> gov_step st st'"
| do_enrollment_change:
    "consume_admin_enrollment_change i role ids a now st = Inr (x18, st') \<Longrightarrow> gov_step st st'"
| do_governed_approval:
    "commit_governed_approval n i v ha aid oid a now st = Inr (x19, st') \<Longrightarrow> gov_step st st'"
| do_authorize_enrollment: "authorize_enrollment gc m st = Inr (x20, st') \<Longrightarrow> gov_step st st'"
| do_authorize_recovery: "authorize_recovery gc m st = Inr (x21, st') \<Longrightarrow> gov_step st st'"
| do_claim_secret: "claim_credential_secret i d now st = Inr (x22, st') \<Longrightarrow> gov_step st st'"
| do_expire_credential: "expire_credential gc now st = Inr (x23, st') \<Longrightarrow> gov_step st st'"
| do_revoke_credential: "revoke_credential s i k d now st = Inr (x24, st') \<Longrightarrow> gov_step st st'"
| do_consume_enrollment: "principal.valid p \<Longrightarrow> membership.valid m \<Longrightarrow>
    consume_enrollment d p m s now st = Inr (x25, st') \<Longrightarrow> gov_step st st'"
| do_consume_recovery: "consume_recovery d s now st = Inr (x26, st') \<Longrightarrow> gov_step st st'"

section \<open>What a step does to the governance tables\<close>

text \<open>A row is read back through its constructor, which rewrites at most the listed scopes.\<close>

definition read_as :: "ChangeProposal \<Rightarrow> ChangeProposal \<Rightarrow> bool" where
  "read_as row p \<longleftrightarrow> (\<exists>ids. p = row\<lparr>ch_proposed_colleague_ids := ids\<rparr>)"

lemma ChangeProposal_init_read: "ChangeProposal_init row = Inr p \<Longrightarrow> read_as row p"
  by (auto simp: ChangeProposal_init_def read_as_def outcome_simps)

lemma ChangeDecision_init_same: "ChangeDecision_init row = Inr d \<Longrightarrow> d = row"
  by (auto simp: ChangeDecision_init_def outcome_simps)

lemma GovernanceCredential_init_same: "GovernanceCredential_init row = Inr c \<Longrightarrow> c = row"
  by (auto simp: GovernanceCredential_init_def outcome_simps)

lemma Membership_init_same: "Membership_init row = Inr m \<Longrightarrow> m = row"
  by (auto simp: Membership_init_def outcome_simps)

text \<open>An approved change whose two people are still the Admins they were.\<close>

definition approved_use :: "'z p6_store_scheme \<Rightarrow> ChangeProposal \<Rightarrow> ChangeDecision \<Rightarrow> bool" where
  "approved_use st p d \<longleftrightarrow> (\<exists>row \<in> set (p6_proposals st). read_as row p) \<and>
     (\<exists>i a now m. validated_change_approval st p i a now = Inr (d, m))"

definition used_proposals :: "ChangeProposal \<Rightarrow> datetime \<Rightarrow> ChangeProposal list \<Rightarrow> ChangeProposal list"
where
  "used_proposals p now = update_where (\<lambda>r. proposal_at p {CH_APPROVED} r \<and> ch_consumed_at r = None)
     (\<lambda>r. r\<lparr>ch_state := CH_APPLIED, ch_consumed_at := Some now, ch_revision := ch_revision r + 1\<rparr>)"

definition used_decisions ::
  "ChangeProposal \<Rightarrow> ChangeDecision \<Rightarrow> datetime \<Rightarrow> ChangeDecision list \<Rightarrow> ChangeDecision list" where
  "used_decisions p d now = update_where (decision_at p d)
     (\<lambda>r. r\<lparr>cd_consumed_at := Some now, cd_revision := cd_revision r + 1\<rparr>)"

definition retired_proposals ::
  "ChangeProposal \<Rightarrow> ChangeState set \<Rightarrow> ChangeState \<Rightarrow> ChangeProposal list \<Rightarrow> ChangeProposal list" where
  "retired_proposals p S s = update_where (proposal_at p S)
     (\<lambda>r. r\<lparr>ch_state := s, ch_revision := ch_revision r + 1\<rparr>)"

definition decided_proposals ::
  "ChangeProposal \<Rightarrow> ChangeDecision \<Rightarrow> ChangeProposal list \<Rightarrow> ChangeProposal list" where
  "decided_proposals p d = update_where (proposal_at p {CH_PENDING})
     (\<lambda>r. r\<lparr>ch_state := (if cd_choice d = CHANGE_APPROVE then CH_APPROVED else CH_REJECTED),
        ch_decision_id := Some (cd_decision_id d), ch_revision := ch_revision r + 1\<rparr>)"

definition revoked_rows :: "string \<Rightarrow> string \<Rightarrow> datetime \<Rightarrow> string \<Rightarrow> session_row list \<Rightarrow> session_row list"
where
  "revoked_rows t i now why = update_where
     (\<lambda>r. sr_tenant r = t \<and> sr_principal_id r = i \<and> sr_revoked_at r = None)
     (\<lambda>r. r\<lparr>sr_revoked_at := Some now, sr_revoked_reason := Some why,
        sr_session := (sr_session r)\<lparr>se_revision := se_revision (sr_session r) + 1\<rparr>\<rparr>)"

definition selected_rows :: "AuthenticatedSession \<Rightarrow> string \<Rightarrow> session_row list \<Rightarrow> session_row list" where
  "selected_rows s i = update_where (\<lambda>r. session_key (sr_session r) = session_key s \<and>
       se_revision (sr_session r) = se_revision s)
     (\<lambda>r. r\<lparr>sr_session := (sr_session r)\<lparr>se_active_colleague_id := Some i,
        se_revision := se_revision (sr_session r) + 1\<rparr>\<rparr>)"

definition fresh_session :: "'z p4_store_scheme \<Rightarrow> AuthenticatedSession \<Rightarrow> bool" where
  "fresh_session st s \<longleftrightarrow> (\<forall>r \<in> set (p4_sessions st). session_key (sr_session r) \<noteq> session_key s \<and>
     se_credential_digest (sr_session r) \<noteq> se_credential_digest s)"

abbreviation new_session :: "AuthenticatedSession \<Rightarrow> session_row" where
  "new_session s \<equiv> \<lparr>sr_session = s, sr_revoked_at = None, sr_revoked_reason = None\<rparr>"

definition cred_key :: "GovernanceCredential \<Rightarrow> string \<times> string" where
  "cred_key c = (ns_tenant_id (gc_namespace c), gc_credential_id c)"

definition member_key :: "Membership \<Rightarrow> string \<times> string" where
  "member_key m = (ns_tenant_id (mb_namespace m), mb_principal_id m)"

definition change_key :: "ChangeProposal \<Rightarrow> Namespace \<times> string" where
  "change_key p = (ch_namespace p, ch_proposal_id p)"

definition decision_key :: "ChangeDecision \<Rightarrow> Namespace \<times> string" where
  "decision_key d = (cd_namespace d, cd_decision_id d)"

text \<open>The life of a credential.\<close>

inductive cred_move :: "GovernanceCredential \<Rightarrow> GovernanceCredential \<Rightarrow> bool" where
  retrieve: "gc_state c = CR_AUTHORIZED \<Longrightarrow> gc_token_digest c = None \<Longrightarrow> now < gc_expires_at c \<Longrightarrow>
    cred_move c (c\<lparr>gc_state := CR_RETRIEVED, gc_token_digest := Some d, gc_retrieved_at := Some now,
      gc_revision := gc_revision c + 1\<rparr>)"
| expire_unread: "gc_state c = CR_AUTHORIZED \<Longrightarrow> gc_expires_at c \<le> now \<Longrightarrow>
    cred_move c (c\<lparr>gc_state := CR_EXPIRED, gc_revision := gc_revision c + 1\<rparr>)"
| expire: "gc_state c = CR_RETRIEVED \<Longrightarrow> gc_expires_at c \<le> now \<Longrightarrow>
    cred_move c (c\<lparr>gc_state := CR_EXPIRED, gc_token_digest := None,
      gc_revision := gc_revision c + 1\<rparr>)"
| revoke: "gc_state c \<in> {CR_AUTHORIZED, CR_RETRIEVED} \<Longrightarrow>
    cred_move c (c\<lparr>gc_state := CR_REVOKED, gc_revoked_at := Some now, gc_token_digest := None,
      gc_revision := gc_revision c + 1\<rparr>)"
| consume: "gc_state c = CR_RETRIEVED \<Longrightarrow> now < gc_expires_at c \<Longrightarrow>
    cred_move c (c\<lparr>gc_state := CR_CONSUMED, gc_consumed_at := Some now,
      gc_consumed_principal_id := Some i, gc_revision := gc_revision c + 1\<rparr>)"

text \<open>One credential of the table makes a move; a token it gets is new.\<close>

definition one_credential :: "GovernanceCredential list \<Rightarrow> GovernanceCredential list \<Rightarrow> bool" where
  "one_credential rows rows' \<longleftrightarrow> (\<exists>P f. rows' = update_where P f rows \<and>
     (\<forall>r \<in> set rows. P r \<longrightarrow> cred_move r (f r)) \<and>
     ((\<forall>r. gc_token_digest (f r) \<in> {None, gc_token_digest r}) \<or>
      (\<exists>d. (\<forall>r. gc_token_digest (f r) = Some d) \<and> Some d \<notin> gc_token_digest ` set rows \<and>
         row_count P rows = 1)))"

text \<open>The classification.\<close>

inductive governed :: "'z p6_store_scheme \<Rightarrow> 'z p6_store_scheme \<Rightarrow> bool" where
  g_same: "untouched st st' \<Longrightarrow> governed st st'"
| g_select: "keeps_principals (rt st) (rt st') \<Longrightarrow>
    governance st' = (selected_rows s i (p4_sessions st), p6_memberships st, p6_transitions st,
      p6_credentials st, p6_proposals st, p6_decisions st) \<Longrightarrow> governed st st'"
| g_first: "principal.valid p \<Longrightarrow> pr_roles p = [TENANT_ADMIN] \<Longrightarrow> m = first_membership p cid now \<Longrightarrow>
    member_key m \<notin> member_key ` set (p6_memberships st) \<Longrightarrow>
    tn_tenant_id tn = ns_tenant_id (pr_namespace p) \<Longrightarrow> tn_available tn \<Longrightarrow>
    tn_tenant_id tn \<notin> tn_tenant_id ` set (p6_transitions st) \<Longrightarrow> fresh_session st s \<Longrightarrow>
    keeps_principals (rt st) (rt st') \<Longrightarrow>
    st_records (rt st') (pr_namespace p, RT_PRINCIPAL, pr_principal_id p) = Some (DPrincipal p) \<Longrightarrow>
    governance st' = (p4_sessions st @ [new_session s], p6_memberships st @ [m],
      p6_transitions st @ [tn], p6_credentials st, p6_proposals st, p6_decisions st) \<Longrightarrow>
    governed st st'"
| g_propose: "change_key p \<notin> change_key ` set (p6_proposals st) \<Longrightarrow> ch_state p = CH_PENDING \<Longrightarrow>
    keeps_principals (rt st) (rt st') \<Longrightarrow>
    governance st' = (p4_sessions st, p6_memberships st, p6_transitions st, p6_credentials st,
      p6_proposals st @ [p\<lparr>ch_decision_id := None, ch_consumed_at := None\<rparr>], p6_decisions st) \<Longrightarrow>
    governed st st'"
| g_decide: "row \<in> set (p6_proposals st) \<Longrightarrow> read_as row p \<Longrightarrow> ch_state p = CH_PENDING \<Longrightarrow>
    get_principal (rt st) (ns_tenant_id (cd_namespace d)) (cd_approver_principal_id d) = Inr a \<Longrightarrow>
    require_current_membership st a DECIDE_CHANGE (ch_namespace p) = Inr m \<Longrightarrow>
    ch_proposer_principal_id p \<noteq> pr_principal_id a \<Longrightarrow> cd_namespace d = ch_namespace p \<Longrightarrow>
    cd_proposal_id d = ch_proposal_id p \<Longrightarrow> cd_proposal_digest d = ch_canonical_digest p \<Longrightarrow>
    decision_key d \<notin> decision_key ` set (p6_decisions st) \<Longrightarrow>
    keeps_principals (rt st) (rt st') \<Longrightarrow>
    governance st' = (p4_sessions st, p6_memberships st, p6_transitions st, p6_credentials st,
      decided_proposals p d (p6_proposals st), p6_decisions st @ [d\<lparr>cd_consumed_at := None\<rparr>]) \<Longrightarrow>
    governed st st'"
| g_retire: "(S, s) \<in> {({CH_PENDING}, CH_EXPIRED), ({CH_PENDING, CH_APPROVED}, CH_STALE)} \<Longrightarrow>
    keeps_principals (rt st) (rt st') \<Longrightarrow>
    governance st' = (p4_sessions st, p6_memberships st, p6_transitions st, p6_credentials st,
      retired_proposals p S s (p6_proposals st), p6_decisions st) \<Longrightarrow> governed st st'"
| g_apply: "approved_use st p d \<Longrightarrow> keeps_principals (rt st) (rt st') \<Longrightarrow>
    governance st' = (p4_sessions st, p6_memberships st, p6_transitions st, p6_credentials st,
      used_proposals p now (p6_proposals st), used_decisions p d now (p6_decisions st)) \<Longrightarrow>
    governed st st'"
| g_member: "approved_use st p d \<Longrightarrow> t = ns_tenant_id (ch_namespace p) \<Longrightarrow>
    membership_for_principal st t (ch_target_id p) = Inr target \<Longrightarrow>
    get_principal (rt st) t (mb_principal_id target) = Inr current \<Longrightarrow>
    \<not> (removes_admin current role status \<and> length (active_admins st t) \<le> 2) \<Longrightarrow>
    rr = mb_role_revision target + (if pr_roles current \<noteq> [role] then 1 else 0) \<Longrightarrow>
    st_records (rt st') = (if pr_roles current = [role] then st_records (rt st)
      else (st_records (rt st))(principal_key (ns_tenant_id (pr_namespace current))
        (pr_principal_id current) \<mapsto> DPrincipal (current\<lparr>pr_roles := [role], pr_revision := rr\<rparr>))) \<Longrightarrow>
    governance st' = (revoked_rows t (mb_principal_id target) now ''membership_revision_changed''
        (p4_sessions st),
      update_where (membership_at target t) (changed_membership p role status rr target
        (cd_decision_id d) now) (p6_memberships st),
      p6_transitions st, p6_credentials st, used_proposals p now (p6_proposals st),
      used_decisions p d now (p6_decisions st)) \<Longrightarrow> governed st st'"
| g_authorize: "gc_token_digest c = None \<Longrightarrow> gc_state c \<in> {CR_AUTHORIZED, CR_EXPIRED} \<Longrightarrow>
    cred_key c \<notin> cred_key ` set (p6_credentials st) \<Longrightarrow>
    trs = p6_transitions st \<or> trs = update_where (\<lambda>r. tn_tenant_id r = t \<and> tn_available r \<and>
      tn_revision r = v) (\<lambda>r. r\<lparr>tn_active_credential_id := Some i, tn_updated_at := now,
      tn_revision := tn_revision r + 1\<rparr>) (p6_transitions st) \<Longrightarrow>
    (prs, des) = (p6_proposals st, p6_decisions st) \<or> approved_use st p d \<and>
      (prs, des) = (used_proposals p now' (p6_proposals st), used_decisions p d now' (p6_decisions st)) \<Longrightarrow>
    keeps_principals (rt st) (rt st') \<Longrightarrow>
    governance st' = (p4_sessions st, p6_memberships st, trs, p6_credentials st @ [c], prs, des) \<Longrightarrow>
    governed st st'"
| g_credential: "(distinct (map cred_key (p6_credentials st)) \<Longrightarrow> one_credential (p6_credentials st) crs) \<Longrightarrow>
    keeps_principals (rt st) (rt st') \<Longrightarrow>
    governance st' = (p4_sessions st, p6_memberships st, p6_transitions st, crs, p6_proposals st,
      p6_decisions st) \<Longrightarrow> governed st st'"
| g_enroll: "(distinct (map cred_key (p6_credentials st)) \<Longrightarrow> one_credential (p6_credentials st) crs) \<Longrightarrow>
    principal.valid p \<Longrightarrow> membership.valid m \<Longrightarrow> pr_namespace p = mb_namespace m \<Longrightarrow>
    mb_roles m = pr_roles p \<Longrightarrow> fresh_session st s \<Longrightarrow>
    member_key m \<notin> member_key ` set (p6_memberships st) \<Longrightarrow>
    trs = p6_transitions st \<or> trs = update_where (\<lambda>r. tn_tenant_id r = t \<and> tn_available r \<and>
      tn_active_credential_id r = Some i) (\<lambda>r. r\<lparr>tn_available := False,
      tn_consumed_principal_id := Some (pr_principal_id p), tn_updated_at := now,
      tn_revision := tn_revision r + 1\<rparr>) (p6_transitions st) \<Longrightarrow>
    keeps_principals (rt st) (rt st') \<Longrightarrow>
    st_records (rt st') (pr_namespace p, RT_PRINCIPAL, pr_principal_id p) = Some (DPrincipal p) \<Longrightarrow>
    governance st' = (p4_sessions st @ [new_session s], p6_memberships st @ [m], trs, crs,
      p6_proposals st, p6_decisions st) \<Longrightarrow> governed st st'"
| g_recover: "(distinct (map cred_key (p6_credentials st)) \<Longrightarrow> one_credential (p6_credentials st) crs) \<Longrightarrow>
    fresh_session st s \<Longrightarrow> keeps_principals (rt st) (rt st') \<Longrightarrow>
    governance st' = (revoked_rows t i now ''recovery_rotation'' (p4_sessions st) @ [new_session s],
      p6_memberships st, p6_transitions st, crs, p6_proposals st, p6_decisions st) \<Longrightarrow>
    governed st st'"

section \<open>Every step is classified\<close>

lemma untouchedD:
  "untouched st st' \<Longrightarrow> governance st' = governance st \<and> keeps_principals (rt st) (rt st')"
  by (simp add: untouched_def)

text \<open>The tables after statements that replace columns, and after more that do not touch them.\<close>

lemma governance_after:
  "untouched st1 st' \<Longrightarrow> keeps_principals (rt st) (rt st1) \<Longrightarrow>
     governance st' = governance st1 \<and> keeps_principals (rt st) (rt st')"
  by (auto simp: untouched_def intro: keeps_principals_trans)

lemma active_colleague_governed:
  "set_active_colleague s i st = Inr (x, st') \<Longrightarrow> governed st st'"
  by (auto simp: set_active_colleague_def outcome_simps governance_def selected_rows_def
      dest!: set_session_colleague_result intro!: g_select [where s = s and i = i])

lemma active_colleague_replay_governed:
  assumes "set_active_colleague_replay s i k d now st = Inr (x, st')" shows "governed st st'"
proof -
  consider "st' = st"
    | st1 where "set_session_colleague s i ''session namespace binding lost its atomic claim'' st
        = Inr st1" "untouched st1 st'"
  proof (cases "find_replay st (se_tenant_id s) (pr_principal_id (se_principal s))
      ''p6:set-active-colleague:atomic'' k")
    case None
    with assms that(2) show ?thesis
      by (auto simp: set_active_colleague_replay_def outcome_simps dest!: insert_audits_untouched(3))
  next
    case (Some r)
    with assms that(1) show ?thesis
      by (cases "ry_result r") (auto simp: set_active_colleague_replay_def outcome_simps
          wrong_type_def split: if_split_asm)
  qed
  then show ?thesis
  proof cases
    case (2 st1)
    from governance_after [OF 2(2), of st] 2(1) show ?thesis
      by (auto simp: governance_def selected_rows_def dest!: set_session_colleague_result
          intro!: g_select [where s = s and i = i])
  qed (auto intro: g_same)
qed

lemma insert_principal_result:
  assumes "on_rt (insert_record_as a c k now (DPrincipal p)) st = Inr st1"
  shows "\<exists>s1. st1 = st\<lparr>rt := s1\<rparr> \<and> keeps_principals (rt st) s1 \<and>
    st_records s1 (pr_namespace p, RT_PRINCIPAL, pr_principal_id p) = Some (DPrincipal p) \<and>
    st_records (rt st) (pr_namespace p, RT_PRINCIPAL, pr_principal_id p) = None"
proof -
  from assms obtain s1 where s1: "insert_record_as a c k now (DPrincipal p) (rt st) = Inr s1"
      "st1 = st\<lparr>rt := s1\<rparr>"
    by (auto simp: on_rt_result)
  from insert_record_as_writes [OF s1(1)] have "writes None (DPrincipal p) (rt st) s1" .
  then show ?thesis
    using s1 grows_keeps_principals [OF insert_record_as_grows [OF s1(1), of "{}"]]
    by (auto simp: writes_def record_key_def)
qed

lemma first_membership_key:
  "member_key (first_membership p cid now) = (ns_tenant_id (pr_namespace p), pr_principal_id p)"
  by (simp add: member_key_def first_membership_def)

lemma find_membership_fresh:
  "find_membership st (ns_tenant_id (mb_namespace m)) (mb_principal_id m) = None \<longleftrightarrow>
     member_key m \<notin> member_key ` set (p6_memberships st)"
  by (auto simp: find_membership_def member_key_def find_None_iff image_iff)

lemma bootstrap_governed:
  assumes "consume_governed_bootstrap t d p s now st = Inr (x, st')" and "principal.valid p"
  shows "governed st st'"
proof -
  from assms(1) obtain b st1 st2 st3 st4 st5 s0 m where
    p: "pr_roles p = [TENANT_ADMIN]" "ns_tenant_id (pr_namespace p) = t"
    and s1: "on_rt (insert_record_as (Some p) (Some ''correlation:bootstrap'')
        (Some (br_credential_id b)) (Some now) (DPrincipal p)) st = Inr st1"
    and m: "Membership_init (first_membership p (br_credential_id b) now) = Inr m"
    and s2: "insert_membership m st1 = Inr st2"
    and s3: "insert_transition t (pr_principal_id p) now st2 = Inr st3"
    and s4: "update_bootstrap (\<lambda>x. br_consumed_at x = None) (\<lambda>x. x\<lparr>br_consumed_at := Some now\<rparr>) b t
        (ConflictError ''bootstrap exchange lost its atomic claim'') st3 = Inr st4"
    and s5: "insert_session s0 st4 = Inr st5" and s6: "untouched st5 st'"
    by (auto simp: consume_governed_bootstrap_def bootstrap_admin_def outcome_simps
        dest!: insert_audits_untouched(1))
  have m': "m = first_membership p (br_credential_id b) now"
    using m by (rule Membership_init_same)
  note r1 = insert_principal_result [OF s1] and r2 = insert_membership_result [OF s2]
    and r3 = insert_transition_result [OF s3] and r4 = update_bootstrap_result [OF s4]
    and r5 = insert_session_result [OF s5]
  have "governance st' = governance st5" "keeps_principals (rt st5) (rt st')"
    using s6 by (auto simp: untouched_def)
  with r1 r2 r3 r4 r5 have
    "keeps_principals (rt st) (rt st')"
    "st_records (rt st') (pr_namespace p, RT_PRINCIPAL, pr_principal_id p) = Some (DPrincipal p)"
    "governance st' = (p4_sessions st @ [new_session s0], p6_memberships st @ [m],
      p6_transitions st @ [\<lparr>tn_tenant_id = t, tn_available = True,
       tn_active_credential_id = None, tn_consumed_principal_id = None,
       tn_created_by_principal_id = pr_principal_id p, tn_updated_at = now, tn_revision = 1\<rparr>],
      p6_credentials st, p6_proposals st, p6_decisions st)"
    by (auto simp: governance_def intro: keeps_principals_trans keeps_principalsD)
  moreover have "member_key m \<notin> member_key ` set (p6_memberships st)"
    using r1 r2 find_membership_fresh [of st1 m] by auto
  moreover have "t \<notin> tn_tenant_id ` set (p6_transitions st)" "fresh_session st s0"
    using r1 r2 r3 r4 r5 by (auto simp: fresh_session_def)
  ultimately show ?thesis
    using assms(2) p m' by (intro g_first [where p = p and m = m]) auto
qed

lemma propose_governed:
  assumes "create_change_proposal p st = Inr (x, st')" shows "governed st st'"
proof -
  consider "st' = st" | st1 where "insert_proposal p st = Inr st1" "untouched st1 st'" "ch_state p = CH_PENDING"
  proof (cases "find_change_proposal_replay (ch_namespace p) (ch_proposer_principal_id p)
      (ch_idempotency_key p) st")
    case (Inl e)
    with assms show ?thesis by (auto simp: create_change_proposal_def outcome_simps)
  next
    case (Inr r)
    with assms that show ?thesis
      by (cases r) (auto simp: create_change_proposal_def outcome_simps split: if_split_asm
          dest!: insert_audits_untouched(1))
  qed
  then show ?thesis
  proof cases
    case (2 st1)
    note r = insert_proposal_result [OF 2(1)]
    with governance_after [OF 2(2), of st] 2(3) show ?thesis
      by (intro g_propose [where p = p]) (auto simp: governance_def change_key_def)
  qed (auto intro: g_same)
qed

lemma update_proposal_tables:
  "governance (update_proposal p S f st) = (p4_sessions st, p6_memberships st, p6_transitions st,
     p6_credentials st, update_where (proposal_at p S) (\<lambda>r. (f r)\<lparr>ch_revision := ch_revision r + 1\<rparr>)
       (p6_proposals st), p6_decisions st)"
  "rt (update_proposal p S f st) = rt st"
  by (simp_all add: update_proposal_def governance_def)

lemma retire_governed:
  assumes "untouched (update_proposal p S (\<lambda>r. r\<lparr>ch_state := s\<rparr>) st) st'"
    and "(S, s) \<in> {({CH_PENDING}, CH_EXPIRED), ({CH_PENDING, CH_APPROVED}, CH_STALE)}"
  shows "governed st st'"
  using governance_after [OF assms(1), of st] assms(2)
  by (intro g_retire [where p = p and S = S and s = s])
    (auto simp: update_proposal_tables retired_proposals_def)

lemma expire_governed: "expire_change_proposal p a now st = Inr (x, st') \<Longrightarrow> governed st st'"
  by (auto simp: expire_change_proposal_def outcome_simps dest!: insert_audits_untouched(1)
      intro: retire_governed)

lemma stale_governed: "mark_change_proposal_stale p a now st = Inr (x, st') \<Longrightarrow> governed st st'"
  by (auto simp: mark_change_proposal_stale_def outcome_simps dest!: insert_audits_untouched(1)
      intro: retire_governed)

lemma find_proposal_row:
  "find_proposal st n i = Some row \<Longrightarrow> row \<in> set (p6_proposals st) \<and> change_key row = (n, i)"
  by (auto simp: find_proposal_def change_key_def find_Some_iff)

lemma decision_of_change_body:
  assumes "decide_change_body p d st = Inr (x, st')"
  shows "st' = st \<or> (\<exists>row a m.
     row \<in> set (p6_proposals st) \<and> read_as row p \<and> ch_state p = CH_PENDING \<and>
     get_principal (rt st) (ns_tenant_id (cd_namespace d)) (cd_approver_principal_id d) = Inr a \<and>
     require_current_membership st a DECIDE_CHANGE (ch_namespace p) = Inr m \<and>
     ch_proposer_principal_id p \<noteq> pr_principal_id a \<and> cd_namespace d = ch_namespace p \<and>
     cd_proposal_id d = ch_proposal_id p \<and> cd_proposal_digest d = ch_canonical_digest p \<and>
     commit_change_decision p d a m st = Inr (x, st'))"
proof -
  from assms obtain current a m where
    c: "get_change_proposal (ch_namespace p) (ch_proposal_id p) st = Inr current"
    and a: "get_principal (rt st) (ns_tenant_id (cd_namespace d)) (cd_approver_principal_id d) = Inr a"
    and m: "require_current_membership st a DECIDE_CHANGE (ch_namespace p) = Inr m"
    and other: "ch_proposer_principal_id p \<noteq> pr_principal_id a"
    by (auto simp: decide_change_body_def outcome_simps)
  show ?thesis
  proof (cases "find_change_decision_replay (ch_namespace p) (pr_principal_id a)
      (cd_idempotency_key d) st")
    case (Inl e)
    with assms c a m show ?thesis by (auto simp: decide_change_body_def outcome_simps)
  next
    case (Inr r)
    from c obtain row where row: "find_proposal st (ch_namespace p) (ch_proposal_id p) = Some row"
        "ChangeProposal_init row = Inr current"
      by (auto simp: get_change_proposal_def split: option.split_asm)
    show ?thesis
    proof (cases r)
      case None
      with assms c a m Inr have "commit_change_decision p d a m st = Inr (x, st')" "current = p"
          "cd_namespace d = ch_namespace p" "cd_proposal_id d = ch_proposal_id p"
          "cd_proposal_digest d = ch_canonical_digest p" "ch_state p = CH_PENDING"
        by (auto simp: decide_change_body_def outcome_simps)
      with find_proposal_row [OF row(1)] ChangeProposal_init_read [OF row(2)] a m other
      show ?thesis by blast
    next
      case (Some stored)
      with assms c a m Inr show ?thesis
        by (auto simp: decide_change_body_def outcome_simps split: if_split_asm)
    qed
  qed
qed

lemma decide_governed:
  assumes "decide_change p d st = (r, st')" shows "governed st st'"
proof -
  from assms have "st' = st \<or> (\<exists>x. decide_change_body p d st = Inr (x, st'))"
    unfolding decide_change_def by (rule committed_cases)
  then consider "st' = st"
    | x row a m where "row \<in> set (p6_proposals st)" "read_as row p" "ch_state p = CH_PENDING"
      "get_principal (rt st) (ns_tenant_id (cd_namespace d)) (cd_approver_principal_id d) = Inr a"
      "require_current_membership st a DECIDE_CHANGE (ch_namespace p) = Inr m"
      "ch_proposer_principal_id p \<noteq> pr_principal_id a" "cd_namespace d = ch_namespace p"
      "cd_proposal_id d = ch_proposal_id p" "cd_proposal_digest d = ch_canonical_digest p"
      "commit_change_decision p d a m st = Inr (x, st')"
    by (auto dest!: decision_of_change_body)
  then show ?thesis
  proof cases
    case (2 x row a m)
    show ?thesis
    proof (cases "cd_occurred_at d \<ge> ch_expires_at p")
      case True
      with 2(10) show ?thesis
        by (auto simp: commit_change_decision_def outcome_simps dest!: insert_audits_untouched(1)
            intro: retire_governed)
    next
      case False
      with 2(10) obtain st1 where st1: "insert_decision d st = Inr st1"
          "untouched (update_proposal p {CH_PENDING} (\<lambda>r. r\<lparr>ch_state := (if cd_choice d = CHANGE_APPROVE
             then CH_APPROVED else CH_REJECTED), ch_decision_id := Some (cd_decision_id d)\<rparr>) st1) st'"
        by (auto simp: commit_change_decision_def outcome_simps dest!: insert_audits_untouched(1))
      note r = insert_decision_result [OF st1(1)]
      from governance_after [OF st1(2), of st] r have
        "governance st' = (p4_sessions st, p6_memberships st, p6_transitions st, p6_credentials st,
          decided_proposals p d (p6_proposals st), p6_decisions st @ [d\<lparr>cd_consumed_at := None\<rparr>])"
        "keeps_principals (rt st) (rt st')"
        by (auto simp: update_proposal_tables decided_proposals_def)
      moreover have "decision_key d \<notin> decision_key ` set (p6_decisions st)"
        using r by (auto simp: decision_key_def)
      ultimately show ?thesis
        using 2(1-9) by (intro g_decide [where p = p and d = d]) auto
    qed
  qed (auto intro: g_same)
qed

section \<open>Use of approved changes\<close>

lemma validated_decision:
  assumes "validated_change_approval st p i a now = Inr (d, m)"
  shows "d \<in> set (p6_decisions st)" "cd_decision_id d = i" "cd_namespace d = ch_namespace p"
    "cd_proposal_id d = ch_proposal_id p" "cd_choice d = CHANGE_APPROVE"
    "cd_proposal_digest d = ch_canonical_digest p" "cd_consumed_at d = None"
    "ch_state p = CH_APPROVED" "ch_decision_id p = Some i" "now < ch_expires_at p"
    "ch_consumed_at p = None" "now \<le> cd_valid_until d" "change_people_current st p d = Inr ()"
    "require_current_membership st a APPLY_CHANGE (ch_namespace p) = Inr m"
  using assms
  by (auto simp: validated_change_approval_def outcome_simps case_option_Inr not_le not_less
      dest!: find_SomeD ChangeDecision_init_same)

lemma used_tables:
  assumes "consume_change_rows p d now st = Inr st1"
  shows "governance st1 = (p4_sessions st, p6_memberships st, p6_transitions st, p6_credentials st,
      used_proposals p now (p6_proposals st), used_decisions p d now (p6_decisions st))"
    "rt st1 = rt st"
  using consume_change_rows_result [OF assms]
  by (simp_all add: governance_def used_proposals_def used_decisions_def)

lemma apply_governed:
  assumes "approved_use st p d" "consume_change_rows p d now st = Inr st1" "untouched st1 st'"
  shows "governed st st'"
  using governance_after [OF assms(3), of st] used_tables [OF assms(2)] assms(1)
  by (intro g_apply [where p = p and d = d and now = now]) auto

lemma authorize_draft_cases:
  assumes "authorize_draft_confirmation df a i now st = Inr st1"
  shows "(\<not> authority_changed df \<and> st1 = st) \<or>
    (\<exists>p d st0. approved_use st p d \<and> consume_change_rows p d now st = Inr st0 \<and> untouched st0 st1 \<and>
       ch_change_kind p = CHANGE_DRAFT \<and> ch_target_id p = df_draft_id df \<and>
       ch_namespace p = df_namespace df \<and> ch_target_revision p = df_revision df \<and>
       ch_canonical_digest p = df_canonical_digest df)"
proof (cases "authority_changed df")
  case True
  with assms obtain j row p d m st0 where
    row: "row \<in> set (p6_proposals st)" "ch_namespace row = df_namespace df"
    and p: "ChangeProposal_init row = Inr p" and v: "validated_change_approval st p j a now = Inr (d, m)"
    and st0: "consume_change_rows p d now st = Inr st0" "untouched st0 st1"
      "ch_change_kind p = CHANGE_DRAFT" "ch_target_id p = df_draft_id df"
      "ch_target_revision p = df_revision df" "ch_canonical_digest p = df_canonical_digest df"
    by (auto simp: authorize_draft_confirmation_def outcome_simps case_option_Inr
        dest!: find_SomeD insert_audits_untouched(1))
  moreover have "ch_namespace p = df_namespace df"
    using ChangeProposal_init_read [OF p] row by (auto simp: read_as_def)
  moreover have "approved_use st p d"
    using row v ChangeProposal_init_read [OF p] by (auto simp: approved_use_def)
  ultimately show ?thesis by blast
next
  case False
  with assms show ?thesis by (auto simp: authorize_draft_confirmation_def outcome_simps)
qed

lemma apply_draft_untouched:
  assumes "apply_draft z q d st = Inr (r, st')" shows "untouched st st'"
proof -
  have pf: "untouched s s'" if "apply_profile b c d a now s = Inr (x, s')" for b c a now x s s'
    using that by (auto simp: apply_profile_def outcome_simps split: if_split_asm dest!: untouched_rules)
  have md: "untouched s s'" if "apply_mandate b c d a now s = Inr (x, s')" for b c a now x s s'
    using that by (auto simp: apply_mandate_def outcome_simps split: if_split_asm dest!: untouched_rules)
  have po: "untouched s s'" if "apply_policy z b c m d a now s = Inr (x, s')" for b c m a now x s s'
    using that by (cases c) (auto simp: apply_policy_def outcome_simps split: if_split_asm
        dest!: untouched_rules)
  have rs: "untouched s s'" if "settle_run_state z b c x d a now s = Inr s'" for b c x a now s s'
    using that
    by (cases "run_state_of s (df_namespace d)"; cases c)
      (auto simp: settle_run_state_def record_explicit_resume_def outcome_simps split: if_split_asm
        dest!: untouched_rules intro: untouched_trans)
  have dr: "untouched s s'" if "insert_draft_audit c t a now (write_draft c s) = Inr s'" for c t a now s s'
    using that by (auto dest!: untouched_rules intro: untouched_trans [OF write_draft_untouched])
  show ?thesis
    using assms by (auto simp: apply_draft_def outcome_simps dest!: pf md po dr rs
        insert_audits_untouched(5)) (meson untouched_trans)+
qed

text \<open>A confirmation uses a change exactly when the draft says that authority changed.\<close>

lemma confirm_cases:
  assumes "confirm_draft z q st = (r, st')"
  shows "untouched st st' \<or> (\<exists>df st1 res. df \<in> set (p5_drafts st) \<and>
    authorize_draft_confirmation df (cx_actor q) (cx_change_decision_id q) (cx_occurred_at q) st
      = Inr st1 \<and> apply_draft z q df st1 = Inr (res, st'))"
proof -
  from assms have "st' = st \<or> (\<exists>x. confirm_draft_body require_draft_manager
      authorize_draft_confirmation z q st = Inr (x, st'))"
    unfolding confirm_draft_def confirm_draft_with_def by (rule committed_cases)
  then show ?thesis
  proof
    assume "\<exists>x. confirm_draft_body require_draft_manager authorize_draft_confirmation z q st = Inr (x, st')"
    then obtain x where x: "confirm_draft_body require_draft_manager authorize_draft_confirmation z q st
        = Inr (x, st')" by blast
    show ?thesis
    proof (cases "find (\<lambda>x. cw_namespace x = cx_namespace q \<and> cw_idempotency_key x = cx_idempotency_key q)
        (p5_confirmations st)")
      case None
      have same: "df \<in> set (p5_drafts st)" if "get_draft n i st = Inr df" for df n i
        using that ColleagueDraft_init_eq
        by (auto simp: get_draft_def find_draft_def case_option_Inr dest!: find_SomeD)
      from x None show ?thesis
        by (auto simp: confirm_draft_body_def outcome_simps split: if_split_asm
            dest!: untouched_rules same)
    next
      case (Some row)
      with x show ?thesis
        by (auto simp: confirm_draft_body_def outcome_simps split: if_split_asm)
    qed
  qed simp
qed

lemma confirm_governed: "confirm_draft z q st = (r, st') \<Longrightarrow> governed st st'"
  by (auto dest!: confirm_cases authorize_draft_cases apply_draft_untouched intro: g_same
      apply_governed untouched_trans)

lemma membership_read:
  assumes "membership_for_principal st t i = Inr m"
  obtains row issuer where "row \<in> set (p6_memberships st)" and "member_key row = (t, i)"
    and "m = row\<lparr>mb_issued_by := issuer\<rparr>"
proof -
  from assms obtain row issuer where r: "find_membership st t i = Some row"
      "Membership_init (row\<lparr>mb_issued_by := issuer\<rparr>) = Inr m"
    by (auto simp: membership_for_principal_def membership_from_row_def outcome_simps case_option_Inr)
  then have "row \<in> set (p6_memberships st)" "member_key row = (t, i)"
    by (auto simp: find_membership_def member_key_def dest!: find_SomeD)
  then show ?thesis
    using Membership_init_same [OF r(2)] by (rule that)
qed

lemma update_principal_role_result:
  "update_principal_role c u a k i now s = Inr s' \<Longrightarrow>
     st_records s' = (st_records s)(principal_key (ns_tenant_id (pr_namespace c)) (pr_principal_id c)
       \<mapsto> DPrincipal u)"
  by (auto simp: update_principal_role_def outcome_simps dest!: insert_audit_result)

lemma Principal_init_same: "Principal_init p = Inr q \<Longrightarrow> q = p"
  by (auto simp: Principal_init_def outcome_simps)

lemma write_membership_governed:
  assumes "write_membership_change p d am s k dg now target role status st = Inr (x, st')"
    and "approved_use st p d"
    and "membership_for_principal st (ns_tenant_id (ch_namespace p)) (ch_target_id p) = Inr target"
  shows "governed st st'"
proof -
  let ?t = "ns_tenant_id (ch_namespace p)"
  from assms(1) obtain current where c: "get_principal (rt st) ?t (mb_principal_id target) = Inr current"
    by (auto simp: write_membership_change_def outcome_simps)
  let ?rr = "mb_role_revision target + (if pr_roles current \<noteq> [role] then 1 else 0)"
  let ?up = "current\<lparr>pr_roles := [role], pr_revision := ?rr\<rparr>"
  from assms(1) c obtain st1 st2 where
    guard: "\<not> (removes_admin current role status \<and> length (active_admins st ?t) \<le> 2)"
    and st1: "(if pr_roles current \<noteq> [role] then on_rt (update_principal_role current ?up
        (se_principal s) (ch_correlation_id p) (cd_decision_id d) now) st else Inr st) = Inr st1"
    and st2: "consume_change_rows p d now (revoke_sessions ?t (mb_principal_id target) now
        ''membership_revision_changed'' (st1\<lparr>p6_memberships := update_where (membership_at target ?t)
          (changed_membership p role status ?rr target (cd_decision_id d) now) (p6_memberships st1)\<rparr>))
        = Inr st2"
    and st3: "governance st' = governance st2" "rt st' = rt st2"
    unfolding write_membership_change_def
    by (auto simp: outcome_simps governance_def simp del: if_not_P
        dest!: Principal_init_same insert_governance_audit_result insert_replay_result)
  have "governance st1 = governance st"
    "st_records (rt st1) = (if pr_roles current = [role] then st_records (rt st)
      else (st_records (rt st))(principal_key (ns_tenant_id (pr_namespace current))
        (pr_principal_id current) \<mapsto> DPrincipal ?up))"
    using st1 by (auto simp: on_rt_result governance_def dest: update_principal_role_result
        split: if_split_asm)
  with used_tables [OF st2] st3 guard c assms(2,3) show ?thesis
    by (intro g_member [where p = p and d = d and t = ?t and target = target and current = current
          and role = role and status = status and rr = ?rr and now = now])
      (auto simp: governance_def revoked_rows_def revoke_sessions_def)
qed

lemma membership_governed:
  assumes "apply_membership_change p i s k dg now st = Inr (x, st')" shows "governed st st'"
proof (cases "find_replay st (ns_tenant_id (ch_namespace p)) (pr_principal_id (se_principal s))
    ''p6:apply-membership'' k")
  case (Some r)
  with assms show ?thesis
    by (cases "ry_result r") (auto simp: apply_membership_change_def outcome_simps wrong_type_def
        split: if_split_asm intro: g_same)
next
  case None
  with assms obtain row d m target role status where
    row: "find_proposal st (ch_namespace p) (ch_proposal_id p) = Some row" "ChangeProposal_init row = Inr p"
    and v: "validated_change_approval st p i (se_principal s) now = Inr (d, m)"
    and t: "membership_for_principal st (ns_tenant_id (ch_namespace p)) (ch_target_id p) = Inr target"
    and w: "write_membership_change p d m s k dg now target role status st = Inr (x, st')"
    by (cases "ch_proposed_role p"; cases "ch_proposed_status p")
      (auto simp: apply_membership_change_def outcome_simps case_option_Inr split: if_split_asm)
  have "approved_use st p d"
    using find_proposal_row [OF row(1)] ChangeProposal_init_read [OF row(2)] v
    by (auto simp: approved_use_def)
  then show ?thesis using write_membership_governed w t by blast
qed

lemma enrollment_authority_cases:
  assumes "consume_admin_enrollment_authority i role ids a now st = Inr st'"
  obtains p d st1 where "approved_use st p d" and "consume_change_rows p d now st = Inr st1"
    and "untouched st1 st'"
proof -
  from assms obtain row p d m st1 where
    "row \<in> set (p6_proposals st)" "ChangeProposal_init row = Inr p"
    "validated_change_approval st p i a now = Inr (d, m)"
    and st1: "consume_change_rows p d now st = Inr st1" "untouched st1 st'"
    by (auto simp: consume_admin_enrollment_authority_def outcome_simps case_option_Inr
        dest!: find_SomeD insert_audits_untouched(1))
  then have "approved_use st p d"
    using ChangeProposal_init_read by (auto simp: approved_use_def)
  then show ?thesis using st1 by (rule that)
qed

lemma enrollment_change_governed:
  assumes "consume_admin_enrollment_change i role ids a now st = Inr (x, st')" shows "governed st st'"
  using assms by (auto simp: consume_admin_enrollment_change_def outcome_simps
      elim!: enrollment_authority_cases intro: apply_governed)

lemma approval_untouched:
  assumes "commit_governed_approval n i v ha aid oid a now st = Inr (x, st')" shows "untouched st st'"
proof -
  have bound: "untouched s s'" if "bind_effect_approval_authority n p ha ap now s = Inr s'" for p ap s s'
    using that by (auto simp: bind_effect_approval_authority_def outcome_simps untouched_def
        governance_def dest!: insert_governance_audit_result)
  have committed: "keeps_principals s s'"
    if "commit_approval_and_attempt n i v ha aid oid a now s = Inr (u, s')" for u s s'
    using that by (auto intro!: grows_keeps_principals [where T = mutable_types] step_grows
        do_commit_approval simp: mutable_types_def)
  from assms show ?thesis
    by (cases "ledger_lookup (rt st) n LK_APPROVAL (ha_idempotency_key ha)")
      (auto simp: commit_governed_approval_def outcome_simps dest!: bound committed
        intro: untouched_trans)
qed

section \<open>Credentials\<close>

lemma find_credential_fresh:
  "find_credential st (ns_tenant_id (gc_namespace c)) (gc_credential_id c) = None \<longleftrightarrow>
     cred_key c \<notin> cred_key ` set (p6_credentials st)"
  by (auto simp: find_credential_def cred_key_def find_None_iff image_iff)

lemma credential_at_same:
  "distinct (map cred_key rows) \<Longrightarrow> c \<in> set rows \<Longrightarrow> r \<in> set rows \<Longrightarrow> credential_at c S r \<Longrightarrow> r = c"
  by (auto simp: credential_at_def cred_key_def distinct_map inj_on_def)

lemma update_credential_tables:
  "governance (update_credential P f st) = (p4_sessions st, p6_memberships st, p6_transitions st,
     update_where P (\<lambda>r. (f r)\<lparr>gc_revision := gc_revision r + 1\<rparr>) (p6_credentials st),
     p6_proposals st, p6_decisions st)"
  "rt (update_credential P f st) = rt st"
  by (simp_all add: update_credential_def governance_def)

lemma credential_governed:
  assumes "untouched (update_credential P f st) st'"
    and "distinct (map cred_key (p6_credentials st)) \<Longrightarrow> one_credential (p6_credentials st)
      (update_where P (\<lambda>r. (f r)\<lparr>gc_revision := gc_revision r + 1\<rparr>) (p6_credentials st))"
  shows "governed st st'"
  using governance_after [OF assms(1), of st] assms(2)
  by (intro g_credential) (auto simp: update_credential_tables)

lemma one_credentialI:
  assumes "\<And>r. r \<in> set rows \<Longrightarrow> P r \<Longrightarrow> cred_move r (f r)"
    and "\<And>r. gc_token_digest (f r) \<in> {None, gc_token_digest r}"
  shows "one_credential rows (update_where P f rows)"
  using assms unfolding one_credential_def by blast

lemma authorize_cases:
  assumes "insert_credential c st1 = Inr st2" and "untouched st2 st'"
    and "keeps_principals (rt st) (rt st1)"
    and "governance st1 = (p4_sessions st, p6_memberships st, trs, p6_credentials st, prs, des)"
    and "trs = p6_transitions st \<or> trs = update_where (\<lambda>r. tn_tenant_id r = t \<and> tn_available r \<and>
      tn_revision r = v) (\<lambda>r. r\<lparr>tn_active_credential_id := Some i, tn_updated_at := now,
      tn_revision := tn_revision r + 1\<rparr>) (p6_transitions st)"
    and "(prs, des) = (p6_proposals st, p6_decisions st) \<or> approved_use st p d \<and>
      (prs, des) = (used_proposals p now' (p6_proposals st), used_decisions p d now' (p6_decisions st))"
  shows "governed st st'"
proof -
  let ?c = "c\<lparr>gc_token_digest := None, gc_retrieved_at := None, gc_consumed_at := None,
    gc_revoked_at := None, gc_consumed_principal_id := None\<rparr>"
  note r = insert_credential_result [OF assms(1)]
  from governance_after [OF assms(2), of st] assms(3,4) r have
    "governance st' = (p4_sessions st, p6_memberships st, trs, p6_credentials st @ [?c], prs, des)"
    "keeps_principals (rt st) (rt st')"
    by (auto simp: governance_def)
  moreover have "cred_key ?c \<notin> cred_key ` set (p6_credentials st)"
    using r assms(4) find_credential_fresh [of st1 c] by (auto simp: cred_key_def governance_def)
  ultimately show ?thesis
    using r assms(5,6)
    by (intro g_authorize [where c = ?c and trs = trs and t = t and v = v and i = i and now = now
          and prs = prs and des = des and p = p and d = d and now' = now']) auto
qed

lemma open_second_admin_result:
  assumes "open_second_admin c st = Inr st1"
  shows "\<exists>row. find_transition st (ns_tenant_id (gc_namespace c)) = Some row \<and> tn_available row \<and>
    length (active_admins st (ns_tenant_id (gc_namespace c))) = 1 \<and>
    st1 = st\<lparr>p6_transitions := update_where
      (\<lambda>r. tn_tenant_id r = ns_tenant_id (gc_namespace c) \<and> tn_available r \<and>
         tn_revision r = tn_revision row)
      (\<lambda>r. r\<lparr>tn_active_credential_id := Some (gc_credential_id c),
         tn_updated_at := gc_issued_at c, tn_revision := tn_revision r + 1\<rparr>)
      (p6_transitions st)\<rparr>"
  using assms by (cases "find_transition st (ns_tenant_id (gc_namespace c))")
    (auto simp: open_second_admin_def outcome_simps)

lemma authorize_enrollment_governed:
  assumes "authorize_enrollment c im st = Inr (x, st')" shows "governed st st'"
proof -
  from assms obtain role m issuer existing where role: "gc_target_role c = Some role"
    and e: "find_governance_credential (ns_tenant_id (gc_namespace c)) (gc_credential_id c) st = Inr existing"
    by (auto simp: authorize_enrollment_def outcome_simps case_option_Inr)
  show ?thesis
  proof (cases existing)
    case (Some stored)
    with assms role e show ?thesis
      by (auto simp: authorize_enrollment_def outcome_simps split: if_split_asm intro: g_same)
  next
    case None
    with assms role e obtain st1 st2 issuer where
      st1: "(if gc_bootstrap_transition c then open_second_admin c st
        else if role = TENANT_ADMIN then (case gc_change_decision_id c of
            None \<Rightarrow> Inl (PermissionDeniedError ''Admin enrollment requires exact change approval'')
          | Some i \<Rightarrow> consume_admin_enrollment_authority i role (gc_colleague_ids c) issuer
              (gc_issued_at c) st)
        else Inr st) = Inr st1"
      and st2: "insert_credential c st1 = Inr st2" "untouched st2 st'"
      by (auto simp: authorize_enrollment_def outcome_simps dest!: insert_audits_untouched(1))
    consider "gc_bootstrap_transition c" "open_second_admin c st = Inr st1"
      | i where "consume_admin_enrollment_authority i role (gc_colleague_ids c) issuer (gc_issued_at c) st
          = Inr st1"
      | "st1 = st"
      using st1
      by (cases "gc_bootstrap_transition c"; cases "role = TENANT_ADMIN";
          cases "gc_change_decision_id c") simp_all
    then show ?thesis
    proof cases
      case 1
      from open_second_admin_result [OF 1(2)] show ?thesis
        by (elim exE conjE, intro authorize_cases [OF st2, of st])
          (auto simp: governance_def intro: exI)
    next
      case 2
      from 2 obtain p d st0 where u: "approved_use st p d" "consume_change_rows p d (gc_issued_at c) st = Inr st0"
          "untouched st0 st1"
        by (rule enrollment_authority_cases)
      from governance_after [OF u(3), of st] used_tables [OF u(2)] u(1) show ?thesis
        by (intro authorize_cases [OF st2, of st, where p = p and d = d and now' = "gc_issued_at c"]) auto
    next
      case 3
      then show ?thesis
        by (intro authorize_cases [OF st2, of st]) (auto simp: governance_def)
    qed
  qed
qed

lemma authorize_recovery_governed:
  assumes "authorize_recovery c im st = Inr (x, st')" shows "governed st st'"
proof (cases "insert_credential c st")
  case (Inl e)
  with assms show ?thesis
    by (auto simp: authorize_recovery_def outcome_simps case_option_Inr split: if_split_asm intro: g_same)
next
  case (Inr st1)
  with assms have "untouched st1 st'"
    by (auto simp: authorize_recovery_def outcome_simps case_option_Inr dest!: insert_audits_untouched(1))
  with Inr show ?thesis
    by (intro authorize_cases [OF Inr, of st' st]) (auto simp: governance_def)
qed

lemma claim_secret_governed:
  assumes "claim_credential_secret i d now st = Inr (x, st')" shows "governed st st'"
proof -
  let ?rows = "filter (\<lambda>c. gc_credential_id c = i) (p6_credentials st)"
  from assms obtain c where c: "length ?rows = 1" "GovernanceCredential_init (hd ?rows) = Inr c"
    by (auto simp: claim_credential_secret_def outcome_simps)
  then have "c \<in> set ?rows"
    using GovernanceCredential_init_same [OF c(2)] by (cases ?rows) auto
  then have mem: "c \<in> set (p6_credentials st)" by simp
  from assms c have auth: "gc_state c = CR_AUTHORIZED"
    by (auto simp: claim_credential_secret_def outcome_simps)
  show ?thesis
  proof (cases "now \<ge> gc_expires_at c")
    case True
    with assms c have "untouched (update_credential (credential_at c any_state)
        (\<lambda>r. r\<lparr>gc_state := CR_EXPIRED\<rparr>) st) st'"
      by (auto simp: claim_credential_secret_def outcome_simps dest!: insert_audits_untouched(1))
    then show ?thesis
    proof (rule credential_governed)
      assume "distinct (map cred_key (p6_credentials st))"
      from credential_at_same [OF this mem] True auth
      show "one_credential (p6_credentials st) (update_where (credential_at c any_state)
          (\<lambda>r. (r\<lparr>gc_state := CR_EXPIRED\<rparr>)\<lparr>gc_revision := gc_revision r + 1\<rparr>) (p6_credentials st))"
        by (intro one_credentialI) (auto intro: expire_unread)
    qed
  next
    case False
    let ?P = "\<lambda>r. credential_at c {CR_AUTHORIZED} r \<and> gc_token_digest r = None"
    let ?f = "\<lambda>r. r\<lparr>gc_state := CR_RETRIEVED, gc_token_digest := Some d, gc_retrieved_at := Some now\<rparr>"
    from False assms c have one: "row_count ?P (p6_credentials st) = 1"
        "Some d \<notin> gc_token_digest ` set (p6_credentials st)" "untouched (update_credential ?P ?f st) st'"
      by (auto simp: claim_credential_secret_def outcome_simps dest!: insert_audits_untouched(1))
    from one(3) show ?thesis
    proof (rule credential_governed)
      assume dist: "distinct (map cred_key (p6_credentials st))"
      let ?g = "\<lambda>r. (?f r)\<lparr>gc_revision := gc_revision r + 1\<rparr>"
      have "cred_move r (?g r)" if "r \<in> set (p6_credentials st)" "?P r" for r
      proof -
        have "r = c" using credential_at_same [OF dist mem that(1)] that(2) by blast
        with that(2) False auth retrieve [of c now d] show ?thesis by (simp add: not_le)
      qed
      with one(1,2) show "one_credential (p6_credentials st) (update_where ?P ?g (p6_credentials st))"
        unfolding one_credential_def by (intro exI [of _ ?P] exI [of _ ?g]) auto
    qed
  qed
qed

lemma find_credential_row:
  "find_credential st t i = Some row \<Longrightarrow> row \<in> set (p6_credentials st) \<and> cred_key row = (t, i)"
  by (auto simp: find_credential_def cred_key_def dest!: find_SomeD)

lemma expire_credential_governed:
  assumes "expire_credential c now st = Inr (x, st')" shows "governed st st'"
proof -
  from assms have mem: "c \<in> set (p6_credentials st)"
    and c: "gc_state c = CR_RETRIEVED" "gc_expires_at c \<le> now"
    and u: "untouched (update_credential (credential_at c {CR_RETRIEVED})
        (\<lambda>r. r\<lparr>gc_state := CR_EXPIRED, gc_token_digest := None\<rparr>) st) st'"
    by (auto simp: expire_credential_def outcome_simps case_option_Inr
        dest!: insert_audits_untouched(1) find_credential_row GovernanceCredential_init_same)
  from u show ?thesis
  proof (rule credential_governed)
    assume "distinct (map cred_key (p6_credentials st))"
    from credential_at_same [OF this mem] c
    show "one_credential (p6_credentials st) (update_where (credential_at c {CR_RETRIEVED})
        (\<lambda>r. (r\<lparr>gc_state := CR_EXPIRED, gc_token_digest := None\<rparr>)\<lparr>gc_revision := gc_revision r + 1\<rparr>)
        (p6_credentials st))"
      by (intro one_credentialI) (auto intro: expire)
  qed
qed

lemma revoke_credential_governed:
  assumes "revoke_credential s i k dg now st = Inr (x, st')" shows "governed st st'"
proof (cases "find_replay st (se_tenant_id s) (pr_principal_id (se_principal s))
    ''p6:revoke-credential:atomic'' k")
  case (Some r)
  with assms show ?thesis
    by (cases "ry_result r") (auto simp: revoke_credential_def outcome_simps wrong_type_def
        split: if_split_asm intro: g_same)
next
  case None
  with assms obtain c where mem: "c \<in> set (p6_credentials st)"
    and c: "gc_state c \<in> {CR_AUTHORIZED, CR_RETRIEVED}"
    and u: "untouched (update_credential (credential_at c any_state) (\<lambda>r. r\<lparr>gc_state := CR_REVOKED,
        gc_revoked_at := Some now, gc_token_digest := None\<rparr>) st) st'"
    by (auto simp: revoke_credential_def outcome_simps case_option_Inr
        dest!: insert_audits_untouched(1,3) find_credential_row GovernanceCredential_init_same
        intro: untouched_trans)
  from u show ?thesis
  proof (rule credential_governed)
    assume dist: "distinct (map cred_key (p6_credentials st))"
    have "cred_move r ((r\<lparr>gc_state := CR_REVOKED, gc_revoked_at := Some now, gc_token_digest := None\<rparr>)
        \<lparr>gc_revision := gc_revision r + 1\<rparr>)"
      if "r \<in> set (p6_credentials st)" "credential_at c any_state r" for r
    proof -
      have "r = c" using credential_at_same [OF dist mem that] .
      with revoke [OF c, of now] show ?thesis by simp
    qed
    then show "one_credential (p6_credentials st) (update_where (credential_at c any_state)
        (\<lambda>r. (r\<lparr>gc_state := CR_REVOKED, gc_revoked_at := Some now, gc_token_digest := None\<rparr>)
          \<lparr>gc_revision := gc_revision r + 1\<rparr>) (p6_credentials st))"
      by (rule one_credentialI) auto
  qed
qed

lemma consume_credential_one:
  assumes "consume_credential_row c d i now lost st = Inr st1" and "c \<in> set (p6_credentials st)"
    and "gc_state c = CR_RETRIEVED" and "now < gc_expires_at c"
  obtains crs where "governance st1 = (p4_sessions st, p6_memberships st, p6_transitions st, crs,
      p6_proposals st, p6_decisions st)" and "rt st1 = rt st"
    and "distinct (map cred_key (p6_credentials st)) \<Longrightarrow> one_credential (p6_credentials st) crs"
proof -
  let ?P = "\<lambda>r. credential_at c {CR_RETRIEVED} r \<and> gc_token_digest r = Some d"
  let ?f = "\<lambda>r. (r\<lparr>gc_state := CR_CONSUMED, gc_consumed_at := Some now,
      gc_consumed_principal_id := Some i\<rparr>)\<lparr>gc_revision := gc_revision r + 1\<rparr>"
  note st1 = consume_credential_row_result [OF assms(1)]
  have "one_credential (p6_credentials st) (update_where ?P ?f (p6_credentials st))"
    if dist: "distinct (map cred_key (p6_credentials st))"
  proof (rule one_credentialI)
    fix r assume "r \<in> set (p6_credentials st)" "?P r"
    then have "r = c" using credential_at_same [OF dist assms(2)] by blast
    with consume [OF assms(3,4), of i] show "cred_move r (?f r)" by simp
  qed simp
  then show ?thesis
    by (intro that [of "update_where ?P ?f (p6_credentials st)"])
      (simp_all add: st1 update_credential_tables)
qed

lemma enrollment_governed:
  assumes "consume_enrollment d p m s now st = Inr (x, st')"
    and "principal.valid p" and "membership.valid m"
  shows "governed st st'"
proof -
  from assms(1) obtain c issuer st1 st2 st3 st4 st5 where
    ns: "pr_namespace p = mb_namespace m"
    and mem: "c \<in> set (p6_credentials st)"
    and c: "gc_state c = CR_RETRIEVED" "now < gc_expires_at c" "mb_roles m = pr_roles p"
    and s1: "on_rt (insert_record_as (Some issuer) (Some (gc_correlation_id c))
        (Some (gc_credential_id c)) (Some now) (DPrincipal p)) st = Inr st1"
    and s2: "insert_membership m st1 = Inr st2" and s3: "insert_session s st2 = Inr st3"
    and s4: "consume_credential_row c d (pr_principal_id p) now
        ''enrollment atomic consumption lost its claim'' st3 = Inr st4"
    and s5: "(if gc_bootstrap_transition c then close_second_admin c (pr_principal_id p) now st4
        else Inr st4) = Inr st5" and s6: "untouched st5 st'"
    by (auto simp: consume_enrollment_def outcome_simps case_option_Inr enrollment_fits_def
        require_exact_def dest!: insert_audits_untouched(1) find_SomeD GovernanceCredential_init_same)
  note r1 = insert_principal_result [OF s1] and r2 = insert_membership_result [OF s2]
    and r3 = insert_session_result [OF s3]
  have creds: "p6_credentials st3 = p6_credentials st" using r1 r2 r3 by auto
  obtain crs where
    r4: "governance st4 = (p4_sessions st3, p6_memberships st3, p6_transitions st3, crs,
      p6_proposals st3, p6_decisions st3)" "rt st4 = rt st3"
    and one: "distinct (map cred_key (p6_credentials st)) \<Longrightarrow> one_credential (p6_credentials st) crs"
    using consume_credential_one [OF s4] creds mem c(1,2) by metis
  obtain trs where r5: "governance st5 = (p4_sessions st4, p6_memberships st4, trs,
      p6_credentials st4, p6_proposals st4, p6_decisions st4)" "rt st5 = rt st4"
    and trs: "trs = p6_transitions st4 \<or> trs = update_where (\<lambda>r. tn_tenant_id r =
      ns_tenant_id (gc_namespace c) \<and> tn_available r \<and>
      tn_active_credential_id r = Some (gc_credential_id c)) (\<lambda>r. r\<lparr>tn_available := False,
      tn_consumed_principal_id := Some (pr_principal_id p), tn_updated_at := now,
      tn_revision := tn_revision r + 1\<rparr>) (p6_transitions st4)"
    using s5 by (auto simp: governance_def dest!: close_second_admin_result split: if_split_asm)
  have gov: "governance st' = (p4_sessions st @ [new_session s], p6_memberships st @ [m], trs, crs,
      p6_proposals st, p6_decisions st)" and tr4: "p6_transitions st4 = p6_transitions st"
    using r1 r2 r3 r4 r5 s6 by (auto simp: untouched_def governance_def)
  moreover have "keeps_principals (rt st) (rt st')"
    "st_records (rt st') (pr_namespace p, RT_PRINCIPAL, pr_principal_id p) = Some (DPrincipal p)"
    using r1 r2 r3 r4 r5 s6
    by (auto simp: untouched_def intro: keeps_principals_trans keeps_principalsD)
  moreover have "member_key m \<notin> member_key ` set (p6_memberships st)" "fresh_session st s"
    using r1 r2 r3 find_membership_fresh [of st1 m] by (auto simp: fresh_session_def)
  ultimately show ?thesis
    using assms(2,3) ns c(3) one trs
    by (intro g_enroll [where p = p and m = m and s = s and crs = crs and trs = trs]) auto
qed

lemma fresh_after_revocation:
  "fresh_session (revoke_sessions t i now why st) s \<Longrightarrow> fresh_session st s"
proof -
  let ?f = "\<lambda>r. (session_key (sr_session r), se_credential_digest (sr_session r))"
  have "map ?f (p4_sessions (revoke_sessions t i now why st)) = map ?f (p4_sessions st)"
    by (simp add: revoke_sessions_def update_where_map session_key_def)
  then have keys: "?f ` set (p4_sessions (revoke_sessions t i now why st)) = ?f ` set (p4_sessions st)"
    by (metis (no_types, lifting) set_map)
  assume "fresh_session (revoke_sessions t i now why st) s"
  then have "\<forall>k \<in> ?f ` set (p4_sessions st). fst k \<noteq> session_key s \<and> snd k \<noteq> se_credential_digest s"
    unfolding keys [symmetric] by (auto simp: fresh_session_def)
  then show ?thesis by (auto simp: fresh_session_def)
qed

lemma recovery_governed:
  assumes "consume_recovery d s now st = Inr (x, st')" shows "governed st st'"
proof -
  from assms obtain c and p :: Principal and st1 st2 where mem: "c \<in> set (p6_credentials st)"
    and c: "gc_state c = CR_RETRIEVED" "now < gc_expires_at c"
    and s1: "insert_session s (revoke_sessions (ns_tenant_id (gc_namespace c)) (pr_principal_id p) now
        ''recovery_rotation'' st) = Inr st1"
    and s2: "consume_credential_row c d (pr_principal_id p) now
        ''recovery atomic consumption lost its claim'' st1 = Inr st2" and s3: "untouched st2 st'"
    by (auto simp: consume_recovery_def outcome_simps case_option_Inr not_le
        dest!: insert_audits_untouched(1) find_SomeD GovernanceCredential_init_same)
  note r1 = insert_session_result [OF s1]
  have creds: "p6_credentials st1 = p6_credentials st" using r1 by (auto simp: revoke_sessions_def)
  obtain crs where
    r2: "governance st2 = (p4_sessions st1, p6_memberships st1, p6_transitions st1, crs,
      p6_proposals st1, p6_decisions st1)" "rt st2 = rt st1"
    and one: "distinct (map cred_key (p6_credentials st)) \<Longrightarrow> one_credential (p6_credentials st) crs"
    using consume_credential_one [OF s2] creds mem c by metis
  have "fresh_session st s"
    using r1 by - (rule fresh_after_revocation, auto simp: fresh_session_def)
  moreover have "governance st' = (revoked_rows (ns_tenant_id (gc_namespace c)) (pr_principal_id p) now
      ''recovery_rotation'' (p4_sessions st) @ [new_session s], p6_memberships st, p6_transitions st,
      crs, p6_proposals st, p6_decisions st)" "keeps_principals (rt st) (rt st')"
    using r1 r2 s3 by (auto simp: untouched_def governance_def revoke_sessions_def revoked_rows_def)
  ultimately show ?thesis
    using one by (intro g_recover [where crs = crs and s = s]) auto
qed

section \<open>The classification\<close>

lemma runtime_governed: "store_step (rt st) s \<Longrightarrow> governed st (st\<lparr>rt := s\<rparr>)"
  by (rule g_same) (auto intro: grows_keeps_principals [OF step_grows] simp: mutable_types_def)

lemmas step_untouched = create_bootstrap_untouched claim_bootstrap_untouched record_replay_untouched
  initial_colleague_untouched assign_work_untouched observations_untouched create_draft_untouched
  update_draft_untouched move_draft_untouched record_outcome_untouched admit_trigger_untouched
  governed_decision_untouched approval_untouched

lemmas step_governed = runtime_governed bootstrap_governed active_colleague_governed
  active_colleague_replay_governed confirm_governed propose_governed decide_governed expire_governed
  stale_governed membership_governed enrollment_change_governed authorize_enrollment_governed
  authorize_recovery_governed claim_secret_governed expire_credential_governed
  revoke_credential_governed enrollment_governed recovery_governed

lemma gov_step_governed: "gov_step st st' \<Longrightarrow> governed st st'"
  by (induction rule: gov_step.induct)
    (simp_all add: step_governed step_untouched [THEN g_same])

end
