(* ===== verification/GovernanceTables.thy ===== *)
theory GovernanceTables
  imports GovernanceSteps
begin

text \<open>
  The governance tables over any sequence of operations: each is a table whose rows change one
  move at a time (\<open>row_machine\<close>), and the invariants that join them.
\<close>

section \<open>The life of a row\<close>

inductive change_move :: "ChangeProposal \<Rightarrow> ChangeProposal \<Rightarrow> bool" where
  decided: "ch_state p = CH_PENDING \<Longrightarrow> s \<in> {CH_APPROVED, CH_REJECTED} \<Longrightarrow>
    change_move p (p\<lparr>ch_state := s, ch_decision_id := Some i, ch_revision := ch_revision p + 1\<rparr>)"
| retired: "ch_state p \<in> {CH_PENDING, CH_APPROVED} \<Longrightarrow> s \<in> {CH_EXPIRED, CH_STALE} \<Longrightarrow>
    change_move p (p\<lparr>ch_state := s, ch_revision := ch_revision p + 1\<rparr>)"
| applied: "ch_state p = CH_APPROVED \<Longrightarrow> ch_consumed_at p = None \<Longrightarrow>
    change_move p (p\<lparr>ch_state := CH_APPLIED, ch_consumed_at := Some now,
      ch_revision := ch_revision p + 1\<rparr>)"

inductive decision_move :: "ChangeDecision \<Rightarrow> ChangeDecision \<Rightarrow> bool" where
  consumed: "cd_consumed_at d = None \<Longrightarrow>
    decision_move d (d\<lparr>cd_consumed_at := Some now, cd_revision := cd_revision d + 1\<rparr>)"

inductive transition_move :: "transition_row \<Rightarrow> transition_row \<Rightarrow> bool" where
  offered: "tn_available r \<Longrightarrow> transition_move r (r\<lparr>tn_active_credential_id := Some i,
    tn_updated_at := now, tn_revision := tn_revision r + 1\<rparr>)"
| closed: "tn_available r \<Longrightarrow> transition_move r (r\<lparr>tn_available := False,
    tn_consumed_principal_id := Some p, tn_updated_at := now, tn_revision := tn_revision r + 1\<rparr>)"

inductive session_move :: "session_row \<Rightarrow> session_row \<Rightarrow> bool" where
  selected: "session_move r (r\<lparr>sr_session := (sr_session r)\<lparr>se_active_colleague_id := Some i,
    se_revision := se_revision (sr_session r) + 1\<rparr>\<rparr>)"
| revoked: "sr_revoked_at r = None \<Longrightarrow> session_move r (r\<lparr>sr_revoked_at := Some now,
    sr_revoked_reason := Some why,
    sr_session := (sr_session r)\<lparr>se_revision := se_revision (sr_session r) + 1\<rparr>\<rparr>)"

abbreviation session_digest :: "session_row \<Rightarrow> string" where
  "session_digest r \<equiv> se_credential_digest (sr_session r)"

section \<open>Each table after a step\<close>

lemma governed_credentials:
  "governed st st' \<Longrightarrow> p6_credentials st' = p6_credentials st \<or>
     (\<exists>c. p6_credentials st' = p6_credentials st @ [c] \<and> gc_token_digest c = None \<and>
        gc_state c \<in> {CR_AUTHORIZED, CR_EXPIRED} \<and> cred_key c \<notin> cred_key ` set (p6_credentials st)) \<or>
     (distinct (map cred_key (p6_credentials st)) \<longrightarrow>
        one_credential (p6_credentials st) (p6_credentials st'))"
  by (erule governed.cases) (simp_all add: untouched_def governance_def, blast?)

lemma one_credential_evolves:
  "one_credential rows rows' \<Longrightarrow> evolves cred_key cred_move rows rows'"
  unfolding one_credential_def by (auto intro: evolves_update)

lemma credentials_evolve:
  "governed st st' \<Longrightarrow> distinct (map cred_key (p6_credentials st)) \<Longrightarrow>
     evolves cred_key cred_move (p6_credentials st) (p6_credentials st')"
  by (drule governed_credentials) (auto intro: one_credential_evolves evolves_append)

lemma governed_sessions:
  "governed st st' \<Longrightarrow> p4_sessions st' = p4_sessions st \<or>
     (\<exists>s i. p4_sessions st' = selected_rows s i (p4_sessions st)) \<or>
     (\<exists>t i now why. p4_sessions st' = revoked_rows t i now why (p4_sessions st)) \<or>
     (\<exists>s rows. p4_sessions st' = rows @ [new_session s] \<and> fresh_session st s \<and>
        (rows = p4_sessions st \<or> (\<exists>t i now why. rows = revoked_rows t i now why (p4_sessions st))))"
  by (erule governed.cases) (simp_all add: untouched_def governance_def, blast+)

lemma sessions_evolve:
  assumes "governed st st'"
  shows "evolves session_digest session_move (p4_sessions st) (p4_sessions st')"
proof -
  have "evolves session_digest session_move (p4_sessions st)
      (revoked_rows t i now why (p4_sessions st))" for t i now why
    unfolding revoked_rows_def by (intro evolves_update) (auto intro: revoked)
  moreover have "evolves session_digest session_move (p4_sessions st)
      (revoked_rows t i now why (p4_sessions st) @ [new_session s])" if "fresh_session st s" for t i now why s
    unfolding revoked_rows_def using that
    by (intro evolves_update_append) (auto intro: revoked simp: fresh_session_def)
  moreover have "evolves session_digest session_move (p4_sessions st)
      (selected_rows s i (p4_sessions st))" for s i
    unfolding selected_rows_def by (rule evolves_update) (rule selected)
  moreover have "evolves session_digest session_move (p4_sessions st)
      (p4_sessions st @ [new_session s])" if "fresh_session st s" for s
    using that by (intro evolves_append) (auto simp: fresh_session_def)
  ultimately show ?thesis
    using governed_sessions [OF assms] by auto
qed


lemma governed_transitions:
  "governed st st' \<Longrightarrow> p6_transitions st' = p6_transitions st \<or>
     (\<exists>tn. p6_transitions st' = p6_transitions st @ [tn] \<and>
        tn_tenant_id tn \<notin> tn_tenant_id ` set (p6_transitions st)) \<or>
     (\<exists>t v i now. p6_transitions st' = update_where (\<lambda>r. tn_tenant_id r = t \<and> tn_available r \<and>
        tn_revision r = v) (\<lambda>r. r\<lparr>tn_active_credential_id := Some i, tn_updated_at := now,
        tn_revision := tn_revision r + 1\<rparr>) (p6_transitions st)) \<or>
     (\<exists>t i j now. p6_transitions st' = update_where (\<lambda>r. tn_tenant_id r = t \<and> tn_available r \<and>
        tn_active_credential_id r = Some i) (\<lambda>r. r\<lparr>tn_available := False,
        tn_consumed_principal_id := Some j, tn_updated_at := now,
        tn_revision := tn_revision r + 1\<rparr>) (p6_transitions st))"
  by (erule governed.cases) (simp_all add: untouched_def governance_def, blast+)

lemma transitions_evolve:
  assumes "governed st st'"
  shows "evolves tn_tenant_id transition_move (p6_transitions st) (p6_transitions st')"
proof -
  from governed_transitions [OF assms] consider "p6_transitions st' = p6_transitions st"
    | tn where "p6_transitions st' = p6_transitions st @ [tn]"
        "tn_tenant_id tn \<notin> tn_tenant_id ` set (p6_transitions st)"
    | t v i now where "p6_transitions st' = update_where (\<lambda>r. tn_tenant_id r = t \<and> tn_available r \<and>
        tn_revision r = v) (\<lambda>r. r\<lparr>tn_active_credential_id := Some i, tn_updated_at := now,
        tn_revision := tn_revision r + 1\<rparr>) (p6_transitions st)"
    | t i j now where "p6_transitions st' = update_where (\<lambda>r. tn_tenant_id r = t \<and> tn_available r \<and>
        tn_active_credential_id r = Some i) (\<lambda>r. r\<lparr>tn_available := False,
        tn_consumed_principal_id := Some j, tn_updated_at := now,
        tn_revision := tn_revision r + 1\<rparr>) (p6_transitions st)"
    by blast
  then show ?thesis
    by cases (auto intro: evolves_append evolves_update offered closed)
qed

text \<open>The changes and their decisions move together.\<close>

inductive changed :: "'z p6_store_scheme \<Rightarrow> 'z p6_store_scheme \<Rightarrow> bool" where
  c_same: "p6_proposals st' = p6_proposals st \<Longrightarrow> p6_decisions st' = p6_decisions st \<Longrightarrow>
    changed st st'"
| c_propose: "p6_proposals st' = p6_proposals st @ [p\<lparr>ch_decision_id := None, ch_consumed_at := None\<rparr>] \<Longrightarrow>
    p6_decisions st' = p6_decisions st \<Longrightarrow> ch_state p = CH_PENDING \<Longrightarrow>
    change_key p \<notin> change_key ` set (p6_proposals st) \<Longrightarrow> changed st st'"
| c_decide: "p6_proposals st' = decided_proposals p d (p6_proposals st) \<Longrightarrow>
    p6_decisions st' = p6_decisions st @ [d\<lparr>cd_consumed_at := None\<rparr>] \<Longrightarrow>
    row \<in> set (p6_proposals st) \<Longrightarrow> read_as row p \<Longrightarrow>
    get_principal (rt st) (ns_tenant_id (cd_namespace d)) (cd_approver_principal_id d) = Inr a \<Longrightarrow>
    ch_proposer_principal_id p \<noteq> pr_principal_id a \<Longrightarrow> cd_namespace d = ch_namespace p \<Longrightarrow>
    cd_proposal_id d = ch_proposal_id p \<Longrightarrow> cd_proposal_digest d = ch_canonical_digest p \<Longrightarrow>
    decision_key d \<notin> decision_key ` set (p6_decisions st) \<Longrightarrow> changed st st'"
| c_retire: "p6_proposals st' = retired_proposals p S s (p6_proposals st) \<Longrightarrow>
    p6_decisions st' = p6_decisions st \<Longrightarrow> S \<subseteq> {CH_PENDING, CH_APPROVED} \<Longrightarrow>
    s \<in> {CH_EXPIRED, CH_STALE} \<Longrightarrow> changed st st'"
| c_use: "p6_proposals st' = used_proposals p now (p6_proposals st) \<Longrightarrow>
    p6_decisions st' = used_decisions p d now (p6_decisions st) \<Longrightarrow> approved_use st p d \<Longrightarrow>
    changed st st'"

lemma governed_changed: "governed st st' \<Longrightarrow> changed st st'"
proof (induction rule: governed.induct)
  case (g_propose p st st')
  then show ?case by (intro c_propose [where p = p]) (simp_all add: governance_def)
next
  case (g_decide row st p d a m st')
  then show ?case
    by (intro c_decide [where p = p and d = d and row = row and a = a])
      (simp_all add: governance_def)
next
  case (g_retire S s st st' p)
  then show ?case by (intro c_retire [where p = p and S = S and s = s]) (auto simp: governance_def)
next
  case (g_apply st p d st' now)
  then show ?case
    by (intro c_use [where p = p and d = d and now = now]) (simp_all add: governance_def)
next
  case (g_member st p d t target current role status rr st' now)
  then show ?case
    by (intro c_use [where p = p and d = d and now = now]) (simp_all add: governance_def)
next
  case (g_authorize c st trs t v i now prs des p d now' st')
  from this(5) show ?case
  proof (elim disjE)
    assume "approved_use st p d \<and>
      (prs, des) = (used_proposals p now' (p6_proposals st), used_decisions p d now' (p6_decisions st))"
    with g_authorize(7) show ?thesis
      by (intro c_use [where p = p and d = d and now = now']) (simp_all add: governance_def)
  qed (use g_authorize(7) in \<open>auto simp: governance_def intro: c_same\<close>)
qed (auto simp: untouched_def governance_def intro: c_same)

lemma update_move:
  "(\<And>r. P r \<Longrightarrow> move r (f r)) \<Longrightarrow> evolves key move rows (update_where P f rows)"
  by (rule evolves_update) blast

lemma proposals_evolve:
  assumes "governed st st'"
  shows "evolves change_key change_move (p6_proposals st) (p6_proposals st')"
proof -
  have "evolves change_key change_move rows (rows @ [p\<lparr>ch_decision_id := None, ch_consumed_at := None\<rparr>])"
    if "change_key p \<notin> change_key ` set rows" for rows p
    using that by (intro evolves_append) (simp add: change_key_def)
  moreover have "evolves change_key change_move rows (decided_proposals p d rows)" for rows p d
    unfolding decided_proposals_def
    by (intro update_move decided) (auto simp: proposal_at_def)
  moreover have "evolves change_key change_move rows (retired_proposals p S s rows)"
    if "S \<subseteq> {CH_PENDING, CH_APPROVED}" "s \<in> {CH_EXPIRED, CH_STALE}" for rows p S s
    unfolding retired_proposals_def using that
    by (intro update_move retired) (auto simp: proposal_at_def)
  moreover have "evolves change_key change_move rows (used_proposals p now rows)" for rows p now
    unfolding used_proposals_def by (intro update_move applied) (auto simp: proposal_at_def)
  ultimately show ?thesis
    using governed_changed [OF assms] by (auto elim!: changed.cases intro: evolves_append)
qed

lemma decisions_evolve:
  assumes "governed st st'"
  shows "evolves decision_key decision_move (p6_decisions st) (p6_decisions st')"
proof -
  have "evolves decision_key decision_move rows (rows @ [d\<lparr>cd_consumed_at := None\<rparr>])"
    if "decision_key d \<notin> decision_key ` set rows" for rows d
    using that by (intro evolves_append) (simp add: decision_key_def)
  moreover have "evolves decision_key decision_move rows (used_decisions p d now rows)" for rows p d now
    unfolding used_decisions_def by (intro update_move consumed) (auto simp: decision_at_def)
  ultimately show ?thesis
    using governed_changed [OF assms] by (auto elim!: changed.cases intro: evolves_append)
qed

section \<open>The machines\<close>

interpretation credentials: row_machine gov_step p6_credentials cred_key cred_move
  by unfold_locales (auto intro: credentials_evolve gov_step_governed elim: cred_move.cases
      simp: cred_key_def)

interpretation sessions: row_machine gov_step p4_sessions session_digest session_move
  by unfold_locales (auto intro: sessions_evolve gov_step_governed elim: session_move.cases)

interpretation transitions: row_machine gov_step p6_transitions tn_tenant_id transition_move
  by unfold_locales (auto intro: transitions_evolve gov_step_governed elim: transition_move.cases)

interpretation changes: row_machine gov_step p6_proposals change_key change_move
  by unfold_locales (auto intro: proposals_evolve gov_step_governed elim!: change_move.cases
      simp: change_key_def)

interpretation decisions: row_machine gov_step p6_decisions decision_key decision_move
  by unfold_locales (auto intro: decisions_evolve gov_step_governed elim!: decision_move.cases
      simp: decision_key_def)

end
