(* ===== verification/GovernanceInv.thy ===== *)
theory GovernanceInv
  imports GovernanceTables
begin

text \<open>
  The invariant of the governed store: the rows of each table are told apart by their keys, no two
  credentials share a token, a membership has the roles its principal has, and every change that is
  approved or applied was approved by somebody else than its proposer.
\<close>

section \<open>Records and memberships\<close>

definition keyed :: "store \<Rightarrow> bool" where
  "keyed s \<longleftrightarrow> (\<forall>k r. st_records s k = Some r \<longrightarrow> record_key r = k)"

lemma keeps_keyed: "keeps_principals s s' \<Longrightarrow> keyed s \<Longrightarrow> keyed s'"
  unfolding keyed_def by (meson keeps_principalsD(2))

lemma record_key_principal: "record_key (DPrincipal p) = (pr_namespace p, RT_PRINCIPAL, pr_principal_id p)"
  by (simp add: record_key_def)

lemma get_principal_keyed:
  assumes "keyed s" and "get_principal s t i = Inr a"
  shows "st_records s (principal_key t i) = Some (DPrincipal a)"
    "principal_key (ns_tenant_id (pr_namespace a)) (pr_principal_id a) = principal_key t i"
    "pr_principal_id a = i"
proof -
  from assms(2) show rec: "st_records s (principal_key t i) = Some (DPrincipal a)"
    by (auto simp: get_principal_def principal_namespace_def Namespace_init_def get_record_def
        principal_key_def wrong_type_def outcome_simps split: option.splits domain_record.splits)
  with assms(1) have "record_key (DPrincipal a) = principal_key t i"
    unfolding keyed_def by blast
  then show "principal_key (ns_tenant_id (pr_namespace a)) (pr_principal_id a) = principal_key t i"
      "pr_principal_id a = i"
    by (auto simp: record_key_principal principal_key_def)
qed

lemma principal_valid_key:
  "principal.valid p \<Longrightarrow> (pr_namespace p, RT_PRINCIPAL, pr_principal_id p) =
     principal_key (ns_tenant_id (pr_namespace p)) (pr_principal_id p)"
  by (auto simp: principal.valid_def Principal_init_def require_principal_def principal_key_def
      outcome_simps)

lemma membership_valid_id:
  "membership.valid m \<Longrightarrow> ns_scope_id (mb_namespace m) = Some (mb_principal_id m)"
  by (auto simp: membership.valid_def Membership_init_def require_principal_def outcome_simps)

definition synced :: "'z p6_store_scheme \<Rightarrow> bool" where
  "synced st \<longleftrightarrow> (\<forall>m \<in> set (p6_memberships st). \<exists>p.
     st_records (rt st) (principal_key (ns_tenant_id (mb_namespace m)) (mb_principal_id m)) =
       Some (DPrincipal p) \<and> pr_roles p = mb_roles m)"

inductive membered :: "'z p6_store_scheme \<Rightarrow> 'z p6_store_scheme \<Rightarrow> bool" where
  m_same: "p6_memberships st' = p6_memberships st \<Longrightarrow> keeps_principals (rt st) (rt st') \<Longrightarrow>
    membered st st'"
| m_add: "p6_memberships st' = p6_memberships st @ [m] \<Longrightarrow>
    member_key m \<notin> member_key ` set (p6_memberships st) \<Longrightarrow> keeps_principals (rt st) (rt st') \<Longrightarrow>
    st_records (rt st') (principal_key (ns_tenant_id (mb_namespace m)) (mb_principal_id m)) =
      Some (DPrincipal p) \<Longrightarrow> pr_roles p = mb_roles m \<Longrightarrow> membered st st'"
| m_change: "approved_use st p d \<Longrightarrow> t = ns_tenant_id (ch_namespace p) \<Longrightarrow>
    membership_for_principal st t (ch_target_id p) = Inr target \<Longrightarrow>
    get_principal (rt st) t (mb_principal_id target) = Inr current \<Longrightarrow>
    \<not> (removes_admin current role status \<and> length (active_admins st t) \<le> 2) \<Longrightarrow>
    st_records (rt st') = (if pr_roles current = [role] then st_records (rt st)
      else (st_records (rt st))(principal_key (ns_tenant_id (pr_namespace current))
        (pr_principal_id current) \<mapsto> DPrincipal (current\<lparr>pr_roles := [role], pr_revision := rr\<rparr>))) \<Longrightarrow>
    p6_memberships st' = update_where (membership_at target t)
      (changed_membership p role status rr target i now) (p6_memberships st) \<Longrightarrow> membered st st'"

lemma governed_membered: "governed st st' \<Longrightarrow> membered st st'"
proof (induction rule: governed.induct)
  case (g_first p m cid now st tn s st')
  then show ?case
    by (intro m_add [where m = m and p = p])
      (auto simp: governance_def first_membership_def principal_valid_key)
next
  case (g_enroll st crs p m s trs t i now st')
  have "pr_principal_id p = mb_principal_id m"
    using arg_cong [OF principal_valid_key [OF g_enroll(2)], of "ns_scope_id \<circ> fst"]
      membership_valid_id [OF g_enroll(3)] g_enroll(4)
    by (simp add: principal_key_def)
  moreover from this have "(pr_namespace p, RT_PRINCIPAL, pr_principal_id p) =
      principal_key (ns_tenant_id (mb_namespace m)) (mb_principal_id m)"
    using principal_valid_key [OF g_enroll(2)] g_enroll(4) by simp
  ultimately show ?case
    using g_enroll(5,7,9,10,11) by (intro m_add [where m = m and p = p]) (simp_all add: governance_def)
next
  case (g_member st p d t target current role status rr st' now)
  then show ?case
    by (intro m_change [where p = p and d = d and t = t and target = target and current = current
          and role = role and status = status]) (simp_all add: governance_def)
qed (auto simp: untouched_def governance_def intro: m_same)

lemma membership_for_principal_row:
  assumes "membership_for_principal st t i = Inr target"
  obtains row where "row \<in> set (p6_memberships st)" and "ns_tenant_id (mb_namespace row) = t"
    and "mb_principal_id row = i" and "mb_principal_id target = i" and "membership_at target t row"
    and "mb_roles target = mb_roles row" and "mb_status target = mb_status row"
  using assms that
  by (auto simp: membership_for_principal_def membership_from_row_def case_option_Inr
      find_membership_def membership_at_def outcome_simps dest!: find_SomeD Membership_init_same)

lemma membership_at_key: "membership_at target t m \<Longrightarrow> member_key m = (t, mb_principal_id target)"
  by (simp add: membership_at_def member_key_def)

lemma changed_membership_key:
  "member_key (changed_membership p role status rr target i now m) = member_key m"
  by (simp add: changed_membership_def member_key_def)

lemma membered_distinct:
  "membered st st' \<Longrightarrow> distinct (map member_key (p6_memberships st)) \<Longrightarrow>
     distinct (map member_key (p6_memberships st'))"
  by (erule membered.cases) (auto simp: update_where_map changed_membership_key)

lemma membered_keyed: "membered st st' \<Longrightarrow> keyed (rt st) \<Longrightarrow> keyed (rt st')"
proof (induction rule: membered.induct)
  case (m_change st p d t target current role status st' rr i now)
  note key = get_principal_keyed [OF m_change(8,4)]
  have "record_key (DPrincipal current) = principal_key t (mb_principal_id target)"
    using m_change(8) key(1) unfolding keyed_def by blast
  then have "record_key (DPrincipal (current\<lparr>pr_roles := [role], pr_revision := rr\<rparr>)) =
      principal_key (ns_tenant_id (pr_namespace current)) (pr_principal_id current)"
    using key(2) by (simp add: record_key_principal)
  with m_change(6,8) show ?case
    by (simp add: keyed_def del: split_paired_All)
qed (auto intro: keeps_keyed)

lemma principal_key_inj: "principal_key t i = principal_key t' i' \<longleftrightarrow> t = t' \<and> i = i'"
  by (auto simp: principal_key_def)

lemma membered_synced:
  assumes "membered st st'" and "keyed (rt st)" and "synced st"
    and "distinct (map member_key (p6_memberships st))"
  shows "synced st'"
  using assms
proof (induction rule: membered.induct)
  case (m_same st' st)
  then show ?case unfolding synced_def by (metis keeps_principalsD(1) principal_key_def)
next
  case (m_add st' st m p)
  then show ?case unfolding synced_def
    by (auto simp: principal_key_def dest: keeps_principalsD(1)) (metis keeps_principalsD(1))
next
  case (m_change st p d t target current role status st' rr i now)
  note key = get_principal_keyed [OF m_change(8,4)]
  from m_change(3) obtain row where row: "row \<in> set (p6_memberships st)" "membership_at target t row"
    by (rule membership_for_principal_row)
  show ?case
    unfolding synced_def
  proof
    fix m' assume "m' \<in> set (p6_memberships st')"
    then obtain m where m: "m \<in> set (p6_memberships st)"
        "m' = (if membership_at target t m then changed_membership p role status rr target i now m else m)"
      unfolding m_change(7) set_update_where by blast
    have mk: "principal_key (ns_tenant_id (mb_namespace m')) (mb_principal_id m') =
        principal_key (ns_tenant_id (mb_namespace m)) (mb_principal_id m)"
      by (simp add: m(2) changed_membership_def)
    show "\<exists>q. st_records (rt st') (principal_key (ns_tenant_id (mb_namespace m')) (mb_principal_id m')) =
        Some (DPrincipal q) \<and> pr_roles q = mb_roles m'"
    proof (cases "membership_at target t m")
      case True
      then have "principal_key (ns_tenant_id (mb_namespace m)) (mb_principal_id m) =
          principal_key t (mb_principal_id target)" by (simp add: membership_at_def)
      with True key(1,2) show ?thesis
        unfolding mk m_change(6) by (simp add: m(2) changed_membership_def)
    next
      case False
      with row m(1) have "member_key m \<noteq> member_key row"
        using m_change(10) by (auto simp: distinct_map inj_on_def)
      then have "principal_key (ns_tenant_id (mb_namespace m)) (mb_principal_id m) \<noteq>
          principal_key t (mb_principal_id target)"
        using membership_at_key [OF row(2)] by (auto simp: member_key_def principal_key_inj)
      with False m(1) m_change(9) key(2) show ?thesis
        unfolding mk m_change(6) by (simp add: m(2) synced_def)
    qed
  qed
qed

section \<open>Tokens\<close>

definition tokens_unique :: "GovernanceCredential list \<Rightarrow> bool" where
  "tokens_unique rows \<longleftrightarrow> (\<forall>c \<in> set rows. \<forall>c' \<in> set rows. gc_token_digest c \<noteq> None \<longrightarrow>
     gc_token_digest c = gc_token_digest c' \<longrightarrow> cred_key c = cred_key c')"

lemma cred_move_key: "cred_move c c' \<Longrightarrow> cred_key c' = cred_key c"
  by (auto elim!: cred_move.cases simp: cred_key_def)

lemma row_count_one:
  "row_count P rows = 1 \<Longrightarrow> r \<in> set rows \<Longrightarrow> P r \<Longrightarrow> q \<in> set rows \<Longrightarrow> P q \<Longrightarrow> q = r"
proof -
  assume "row_count P rows = 1" and mem: "r \<in> set rows" "P r" "q \<in> set rows" "P q"
  then obtain x where "filter P rows = [x]"
    by (auto simp: row_count_def length_Suc_conv)
  then have "set (filter P rows) = {x}" by simp
  then have "\<And>z. z \<in> set rows \<and> P z \<longleftrightarrow> z = x" by auto
  with mem show "q = r" by metis
qed

lemma one_credential_tokens:
  assumes "one_credential rows rows'" and "tokens_unique rows"
  shows "tokens_unique rows'"
proof -
  from assms(1) obtain P f where rows': "rows' = update_where P f rows"
    and move: "\<And>r. r \<in> set rows \<Longrightarrow> P r \<Longrightarrow> cred_move r (f r)"
    and tok: "(\<forall>r. gc_token_digest (f r) \<in> {None, gc_token_digest r}) \<or>
      (\<exists>d. (\<forall>r. gc_token_digest (f r) = Some d) \<and> Some d \<notin> gc_token_digest ` set rows \<and>
         row_count P rows = 1)"
    unfolding one_credential_def by blast
  let ?g = "\<lambda>r. if P r then f r else r"
  have key: "cred_key (?g r) = cred_key r" if "r \<in> set rows" for r
    using move [OF that] cred_move_key by auto
  have "cred_key (?g r) = cred_key (?g q)" if mem: "r \<in> set rows" "q \<in> set rows"
    and same: "gc_token_digest (?g r) \<noteq> None" "gc_token_digest (?g r) = gc_token_digest (?g q)" for r q
    using tok
  proof (elim disjE exE conjE)
    assume "\<forall>r. gc_token_digest (f r) \<in> {None, gc_token_digest r}"
    then have "gc_token_digest (?g x) = None \<or> gc_token_digest (?g x) = gc_token_digest x" for x
      by simp
    from this [of r] this [of q] same
    have "gc_token_digest r \<noteq> None" "gc_token_digest r = gc_token_digest q" by auto
    with assms(2) mem show ?thesis unfolding key [OF mem(1)] key [OF mem(2)] tokens_unique_def by blast
  next
    fix d assume d: "\<forall>r. gc_token_digest (f r) = Some d" "Some d \<notin> gc_token_digest ` set rows"
      "row_count P rows = 1"
    show ?thesis
    proof (cases "P r")
      case True
      with d same mem have "P q" by (auto simp: image_iff split: if_splits)
      with row_count_one [OF d(3) mem(1) True mem(2)] show ?thesis by simp
    next
      case False
      then have r: "gc_token_digest (?g r) = gc_token_digest r" by simp
      have old: "gc_token_digest (?g q) \<in> gc_token_digest ` set rows"
        unfolding same(2) [symmetric] r using mem(1) by (rule imageI)
      have "\<not> P q"
      proof
        assume "P q"
        with d(1) have "gc_token_digest (?g q) = Some d" by simp
        with old d(2) show False by metis
      qed
      with r same have "gc_token_digest r \<noteq> None" "gc_token_digest r = gc_token_digest q" by auto
      with assms(2) mem show ?thesis
        unfolding key [OF mem(1)] key [OF mem(2)] tokens_unique_def by blast
    qed
  qed
  then show ?thesis
    unfolding tokens_unique_def rows' set_update_where by blast
qed

lemma governed_tokens:
  assumes "governed st st'" and "distinct (map cred_key (p6_credentials st))"
    and "tokens_unique (p6_credentials st)"
  shows "tokens_unique (p6_credentials st')"
proof -
  consider "p6_credentials st' = p6_credentials st"
    | c where "p6_credentials st' = p6_credentials st @ [c]" "gc_token_digest c = None"
    | "one_credential (p6_credentials st) (p6_credentials st')"
    using governed_credentials [OF assms(1)] assms(2) by (elim disjE exE conjE) simp_all
  then show ?thesis
  proof cases
    case (2 c)
    have "a \<in> set (p6_credentials st)"
      if "a \<in> set (p6_credentials st')" "gc_token_digest a \<noteq> None" for a
      using that 2 by auto
    with assms(3) show ?thesis unfolding tokens_unique_def by metis
  qed (use assms(3) in \<open>simp_all add: one_credential_tokens\<close>)
qed


section \<open>Approved changes\<close>

definition approves :: "ChangeDecision \<Rightarrow> ChangeProposal \<Rightarrow> bool" where
  "approves d q \<longleftrightarrow> cd_namespace d = ch_namespace q \<and> ch_decision_id q = Some (cd_decision_id d) \<and>
     cd_proposal_id d = ch_proposal_id q \<and> cd_choice d = CHANGE_APPROVE \<and>
     cd_proposal_digest d = ch_canonical_digest q \<and>
     cd_approver_principal_id d \<noteq> ch_proposer_principal_id q"

definition two_person :: "'z p6_store_scheme \<Rightarrow> bool" where
  "two_person st \<longleftrightarrow> (\<forall>q \<in> set (p6_proposals st). ch_state q \<in> {CH_APPROVED, CH_APPLIED} \<longrightarrow>
     (\<exists>d \<in> set (p6_decisions st). approves d q))"

lemma two_person_step:
  assumes "changed st st'" and "keyed (rt st)" and "two_person st"
    and dist: "distinct (map change_key (p6_proposals st))"
  shows "two_person st'"
  using assms(1-3) dist
proof (induction rule: changed.induct)
  case (c_same st' st)
  then show ?case by (simp add: two_person_def)
next
  case (c_propose st' st p)
  then show ?case by (simp add: two_person_def)
next
  case (c_decide st' p d st row a)
  note ap = get_principal_keyed(3) [OF c_decide(11,5)]
  show ?case
    unfolding two_person_def
  proof (intro ballI impI)
    fix q' assume "q' \<in> set (p6_proposals st')" and state: "ch_state q' \<in> {CH_APPROVED, CH_APPLIED}"
    then obtain q where q: "q \<in> set (p6_proposals st)"
      and q': "q' = (if proposal_at p {CH_PENDING} q then q\<lparr>ch_state := (if cd_choice d =
        CHANGE_APPROVE then CH_APPROVED else CH_REJECTED), ch_decision_id := Some (cd_decision_id d),
        ch_revision := ch_revision q + 1\<rparr> else q)"
      unfolding c_decide(1) decided_proposals_def set_update_where by blast
    show "\<exists>e \<in> set (p6_decisions st'). approves e q'"
    proof (cases "proposal_at p {CH_PENDING} q")
      case True
      then have "change_key q = change_key row"
        using c_decide(4) by (auto simp: proposal_at_def change_key_def read_as_def)
      with dist q c_decide(3) c_decide(13) have "q = row" by (auto simp: distinct_map inj_on_def)
      with c_decide(4) have "ch_proposer_principal_id p = ch_proposer_principal_id q"
          "ch_canonical_digest p = ch_canonical_digest q"
          "ch_namespace p = ch_namespace q" "ch_proposal_id p = ch_proposal_id q"
        by (auto simp: read_as_def)
      moreover have "cd_choice d = CHANGE_APPROVE"
        using state True by (auto simp: q' split: if_split_asm)
      ultimately have "approves (d\<lparr>cd_consumed_at := None\<rparr>) q'"
        using True c_decide(6-9) ap by (simp add: approves_def q')
      then show ?thesis by (simp add: c_decide(2))
    next
      case False
      with c_decide(12) q q' state show ?thesis by (auto simp: two_person_def c_decide(2))
    qed
  qed
next
  case (c_retire st' p S s st)
  have "q' \<in> set (p6_proposals st)" if "q' \<in> set (p6_proposals st')"
      "ch_state q' \<in> {CH_APPROVED, CH_APPLIED}" for q'
    using that c_retire(4) unfolding c_retire(1) retired_proposals_def set_update_where
    by (auto split: if_split_asm)
  with c_retire(2,6) show ?case by (auto simp: two_person_def)
next
  case (c_use st' p now st d)
  show ?case
    unfolding two_person_def
  proof (intro ballI impI)
    fix q' assume "q' \<in> set (p6_proposals st')" and state: "ch_state q' \<in> {CH_APPROVED, CH_APPLIED}"
    then obtain q where q: "q \<in> set (p6_proposals st)"
      and q0: "q' = (if proposal_at p {CH_APPROVED} q \<and> ch_consumed_at q = None
        then q\<lparr>ch_state := CH_APPLIED, ch_consumed_at := Some now, ch_revision := ch_revision q + 1\<rparr>
        else q)"
      unfolding c_use(1) used_proposals_def set_update_where by blast
    from q0 have q': "q' = q \<or> ch_state q = CH_APPROVED \<and> q' = q\<lparr>ch_state := CH_APPLIED,
        ch_consumed_at := Some now, ch_revision := ch_revision q + 1\<rparr>"
      by (simp add: proposal_at_def split: if_split_asm)
    then have "ch_state q \<in> {CH_APPROVED, CH_APPLIED}" using state by auto
    with c_use(5) q obtain e where e: "e \<in> set (p6_decisions st)" "approves e q"
      by (auto simp: two_person_def)
    let ?e = "if decision_at p d e then e\<lparr>cd_consumed_at := Some now, cd_revision := cd_revision e + 1\<rparr> else e"
    have "?e \<in> set (p6_decisions st')"
      unfolding c_use(2) used_decisions_def set_update_where using e(1) by blast
    moreover from e(2) q' have "approves ?e q'" by (auto simp: approves_def)
    ultimately show "\<exists>d \<in> set (p6_decisions st'). approves d q'" by blast
  qed
qed

section \<open>The invariant\<close>

definition governance_ok :: "'z p6_store_scheme \<Rightarrow> bool" where
  "governance_ok st \<longleftrightarrow> keyed (rt st) \<and> distinct (map member_key (p6_memberships st)) \<and> synced st \<and>
     distinct (map cred_key (p6_credentials st)) \<and> tokens_unique (p6_credentials st) \<and>
     distinct (map session_digest (p4_sessions st)) \<and>
     distinct (map tn_tenant_id (p6_transitions st)) \<and>
     distinct (map change_key (p6_proposals st)) \<and> distinct (map decision_key (p6_decisions st)) \<and>
     two_person st"

lemma governance_ok_step:
  assumes "gov_step st st'" and "governance_ok st" shows "governance_ok st'"
proof -
  note g = gov_step_governed [OF assms(1)]
  note m = governed_membered [OF g] and ok = assms(2) [unfolded governance_ok_def]
  show ?thesis
    unfolding governance_ok_def
    using ok membered_keyed [OF m] membered_distinct [OF m] membered_synced [OF m]
      credentials.step_distinct [OF assms(1)] governed_tokens [OF g] sessions.step_distinct [OF assms(1)]
      transitions.step_distinct [OF assms(1)] changes.step_distinct [OF assms(1)]
      decisions.step_distinct [OF assms(1)] two_person_step [OF governed_changed [OF g]]
    by blast
qed

lemma governance_ok_steps: "gov_step\<^sup>*\<^sup>* st st' \<Longrightarrow> governance_ok st \<Longrightarrow> governance_ok st'"
  by (induction rule: rtranclp_induct) (auto intro: governance_ok_step)

text \<open>The store the migrations create.\<close>

definition empty_p6 :: p6_store where
  "empty_p6 = \<lparr>rt = empty_store, p4_bootstraps = [], p4_sessions = [], p4_replays = [],
     p4_observations = [], p4_candidates = [], p5_drafts = [], p5_confirmations = [],
     p5_draft_audit = [], p5_outcomes = [], p5_budgets = [], p5_consumptions = [],
     p5_run_states = [], p5_escalations = [], p6_memberships = [], p6_transitions = [],
     p6_credentials = [], p6_proposals = [], p6_decisions = [], p6_bindings = [], p6_audit = []\<rparr>"

lemma governance_ok_empty: "governance_ok empty_p6"
  by (simp add: governance_ok_def empty_p6_def keyed_def synced_def tokens_unique_def two_person_def
      empty_store_def)

section \<open>The number of active Admins\<close>

lemma filter_update_ge:
  "(\<And>r. r \<in> set rows \<Longrightarrow> Q r \<Longrightarrow> P r \<Longrightarrow> Q (f r)) \<Longrightarrow>
     length (filter Q rows) \<le> length (filter Q (update_where P f rows))"
  by (induction rows) (auto simp: update_where_def intro: le_SucI)

lemma filter_update_loses_one:
  "length (filter P rows) \<le> 1 \<Longrightarrow>
     length (filter Q rows) \<le> Suc (length (filter Q (update_where P f rows)))"
proof (induction rows)
  case (Cons r rows)
  show ?case
  proof (cases "P r")
    case True
    with Cons.prems have "filter P rows = []" by simp
    then have "update_where P f rows = rows"
      by (induction rows) (auto simp: update_where_def split: if_split_asm)
    then show ?thesis by (simp add: update_where_def)
  next
    case False
    with Cons show ?thesis by (simp add: update_where_def)
  qed
qed simp

lemma filter_at_most_one:
  "distinct (map key rows) \<Longrightarrow> (\<And>a b. P a \<Longrightarrow> P b \<Longrightarrow> key b = key a) \<Longrightarrow>
     length (filter P rows) \<le> 1"
proof (induction rows)
  case (Cons r rows)
  show ?case
  proof (cases "P r")
    case True
    have "\<not> P q" if "q \<in> set rows" for q
    proof
      assume "P q"
      with True have "key q = key r" by (rule Cons.prems(2))
      with that Cons.prems(1) show False by (simp add: rev_image_eqI)
    qed
    then have "filter P rows = []" by (simp add: filter_empty_conv)
    then show ?thesis by simp
  next
    case False
    moreover have "length (filter P rows) \<le> 1"
      using Cons.prems(1) by (intro Cons.IH Cons.prems(2)) simp_all
    ultimately show ?thesis by simp
  qed
qed simp

lemma admins_kept:
  assumes "membered st st'" and "governance_ok st" and "2 \<le> length (active_admins st t)"
  shows "2 \<le> length (active_admins st' t)"
  using assms
proof (induction rule: membered.induct)
  case (m_same st' st)
  then show ?case by (simp add: active_admins_def)
next
  case (m_add st' st m p)
  then show ?case by (simp add: active_admins_def)
next
  case (m_change st p d t1 target current role status st' rr i now)
  let ?Q = "\<lambda>m. ns_tenant_id (mb_namespace m) = t \<and> mb_status m = MEMBER_ACTIVE \<and>
    mb_roles m = [TENANT_ADMIN]"
  let ?P = "membership_at target t1"
  let ?f = "changed_membership p role status rr target i now"
  note ok = m_change(8) [unfolded governance_ok_def]
  show ?case
  proof (cases "\<exists>m \<in> set (p6_memberships st). ?Q m \<and> ?P m \<and> \<not> ?Q (?f m)")
    case False
    then have "length (filter ?Q (p6_memberships st)) \<le> length (filter ?Q (p6_memberships st'))"
      unfolding m_change(7) by (intro filter_update_ge) blast
    with m_change(9) show ?thesis by (simp add: active_admins_def)
  next
    case True
    then obtain m where m: "m \<in> set (p6_memberships st)" "?Q m" "?P m" "\<not> ?Q (?f m)" by blast
    have t: "t1 = t" using m(2,3) by (auto simp: membership_at_def)
    obtain q where "st_records (rt st) (principal_key t (mb_principal_id target)) = Some (DPrincipal q)"
        "pr_roles q = [TENANT_ADMIN]"
      using ok m(1-3) unfolding synced_def membership_at_def by fastforce
    moreover have "st_records (rt st) (principal_key t (mb_principal_id target)) =
        Some (DPrincipal current)"
      using get_principal_keyed(1) [OF _ m_change(4)] ok t by blast
    ultimately have "removes_admin current role status"
      using m(2,4) by (cases status) (auto simp: removes_admin_def changed_membership_def)
    with m_change(5) t have three: "3 \<le> length (active_admins st t)" by auto
    have "length (filter ?P (p6_memberships st)) \<le> 1"
    proof (rule filter_at_most_one)
      show "distinct (map member_key (p6_memberships st))" using ok by blast
      show "member_key b = member_key a" if "?P a" "?P b" for a b
        using that by (simp add: membership_at_key)
    qed
    from filter_update_loses_one [OF this, of ?Q ?f] three m_change(7) show ?thesis
      by (simp add: active_admins_def)
  qed
qed

end
