(* ===== verification/GovernanceFacts.thy ===== *)
theory GovernanceFacts
  imports GovernanceInv
begin

text \<open>
  What the governed store promises over any sequence of operations: a change of authority takes two
  different Admins, two active Admins remain, a credential is good once, a revoked session is good
  no more.  A small tenant with two Admins, a user, an approved change and a retrieved credential
  exercises the statements.
\<close>

section \<open>A small tenant\<close>

definition acme_human :: "string \<Rightarrow> HumanRole \<Rightarrow> Principal" where
  "acme_human i role = acme_principal i HUMAN [role]"

definition acme_member :: "string \<Rightarrow> HumanRole \<Rightarrow> string list \<Rightarrow> Membership" where
  "acme_member i role ids =
     \<lparr>mb_namespace = pr_namespace (acme_human i role), mb_membership_id = ''m-'' @ i,
      mb_principal_id = i, mb_roles = [role], mb_colleague_ids = ids, mb_status = MEMBER_ACTIVE,
      mb_role_revision = 1, mb_membership_revision = 1,
      mb_issued_by = acme_human ''root'' TENANT_ADMIN, mb_created_at = utc 0, mb_updated_at = utc 0,
      mb_correlation_id = ''c'', mb_causation_id = ''c'', mb_revision = 1, mb_schema_version = 1\<rparr>"

definition acme_digest :: "char \<Rightarrow> string" where
  "acme_digest c = ''sha256:'' @ replicate 64 c"

definition acme_session :: "string \<Rightarrow> HumanRole \<Rightarrow> char \<Rightarrow> AuthenticatedSession" where
  "acme_session i role c =
     \<lparr>se_tenant_id = ''acme'', se_session_id = ''s-'' @ i @ [c], se_principal = acme_human i role,
      se_credential_digest = acme_digest c, se_csrf_digest = acme_digest c,
      se_active_colleague_id = None, se_created_at = Some (utc 0), se_expires_at = Some (utc 900),
      se_revision = 1, se_role_revision = 1, se_membership_revision = 1, se_schema_version = 1\<rparr>"

definition acme_credential :: GovernanceCredential where
  "acme_credential =
     \<lparr>gc_namespace = acme_tenant, gc_credential_id = ''k1'', gc_kind = RECOVERY,
      gc_state = CR_RETRIEVED, gc_target_principal_id = Some ''bob'',
      gc_target_role_revision = Some 1, gc_target_membership_revision = Some 1,
      gc_target_role = None, gc_colleague_ids = [''ada''], gc_bootstrap_transition = False,
      gc_issued_by_principal_id = ''root'', gc_issued_at = utc 1, gc_expires_at = utc 100,
      gc_correlation_id = ''c'', gc_causation_id = ''c'', gc_token_digest = Some (acme_digest CHR ''a''),
      gc_change_decision_id = None, gc_retrieved_at = Some (utc 2), gc_consumed_at = None,
      gc_revoked_at = None, gc_consumed_principal_id = None, gc_revision = 2,
      gc_schema_version = 1\<rparr>"

text \<open>Root proposed to revoke Bob, Eve approved.\<close>

definition revoke_bob_digest :: string where
  "revoke_bob_digest = (case governance_change_digest CHANGE_MEMBERSHIP ''bob'' 1
     (Some COLLEAGUE_USER) (Some MEMBER_REVOKED) [''ada''] of Inr d \<Rightarrow> d | Inl _ \<Rightarrow> [])"

definition acme_change :: ChangeProposal where
  "acme_change =
     \<lparr>ch_namespace = acme_tenant, ch_proposal_id = ''p1'', ch_change_kind = CHANGE_MEMBERSHIP,
      ch_target_id = ''bob'', ch_target_revision = 1, ch_canonical_digest = revoke_bob_digest,
      ch_base_profile_revision = 0, ch_base_mandate_revision = 0, ch_base_policy_revision = 0,
      ch_proposed_role = Some COLLEAGUE_USER, ch_proposed_status = Some MEMBER_REVOKED,
      ch_proposed_colleague_ids = [''ada''], ch_proposer_principal_id = ''root'',
      ch_proposer_role_revision = 1, ch_proposer_membership_revision = 1, ch_issued_at = utc 1,
      ch_expires_at = utc 100, ch_state = CH_APPROVED, ch_idempotency_key = ''i1'', ch_request_digest = acme_digest CHR ''0'',
      ch_correlation_id = ''c'', ch_causation_id = ''c'',
      ch_decision_id = Some ''d1'', ch_consumed_at = None, ch_revision = 2, ch_schema_version = 1\<rparr>"

definition acme_decision :: ChangeDecision where
  "acme_decision =
     \<lparr>cd_namespace = acme_tenant, cd_decision_id = ''d1'', cd_proposal_id = ''p1'',
      cd_proposal_revision = 1, cd_proposal_digest = revoke_bob_digest, cd_choice = CHANGE_APPROVE,
      cd_approver_principal_id = ''eve'', cd_approver_role_revision = 1,
      cd_approver_membership_revision = 1, cd_occurred_at = utc 2, cd_valid_until = utc 100,
      cd_idempotency_key = ''i2'', cd_request_digest = acme_digest CHR ''0'', cd_correlation_id = ''c'',
      cd_causation_id = ''p1'', cd_consumed_at = None, cd_revision = 1, cd_schema_version = 1\<rparr>"

definition acme_people :: "Principal list" where
  "acme_people = [acme_human ''root'' TENANT_ADMIN, acme_human ''eve'' TENANT_ADMIN,
     acme_human ''bob'' COLLEAGUE_USER]"

definition acme_records :: "record_key \<Rightarrow> domain_record option" where
  "acme_records = map_of (map (\<lambda>p. (principal_key ''acme'' (pr_principal_id p), DPrincipal p))
     acme_people)"

definition acme_governed :: p6_store where
  "acme_governed = empty_p6\<lparr>rt := empty_store\<lparr>st_records := acme_records\<rparr>,
     p4_sessions := [new_session (acme_session ''bob'' COLLEAGUE_USER CHR ''1''),
       new_session (acme_session ''root'' TENANT_ADMIN CHR ''3'')],
     p6_memberships := [acme_member ''root'' TENANT_ADMIN [''*''], acme_member ''eve'' TENANT_ADMIN [''*''],
       acme_member ''bob'' COLLEAGUE_USER [''ada'']],
     p6_credentials := [acme_credential], p6_proposals := [acme_change],
     p6_decisions := [acme_decision]\<rparr>"

lemmas acme_governance_defs = acme_defs acme_human_def acme_member_def
  acme_session_def acme_credential_def acme_change_def acme_decision_def acme_people_def

lemma revoke_bob: "governance_change_digest CHANGE_MEMBERSHIP ''bob'' 1 (Some COLLEAGUE_USER)
     (Some MEMBER_REVOKED) [''ada''] = Inr revoke_bob_digest"
  "matches_sha256 revoke_bob_digest"
  by (simp_all add: revoke_bob_digest_def governance_change_digest_def ok_simps id_head_def id_tail_def
      require_stable_id_def require_revision_def checks_def)

lemma acme_digest_inj: "acme_digest c = acme_digest c' \<longleftrightarrow> c = c'"
  by (simp add: acme_digest_def)

lemma acme_governed_ok: "governance_ok acme_governed"
  by (simp add: governance_ok_def acme_governed_def empty_p6_def acme_digest_inj keyed_def acme_records_def
      synced_def two_person_def tokens_unique_def approves_def acme_governance_defs record_key_def
      empty_store_def member_key_def cred_key_def change_key_def decision_key_def principal_key_def)


section \<open>Credentials\<close>

definition token_used :: "string \<Rightarrow> 'z p6_store_scheme \<Rightarrow> bool" where
  "token_used d st \<longleftrightarrow> (\<exists>c \<in> set (p6_credentials st). gc_token_digest c = Some d \<and> gc_state c = CR_CONSUMED)"

lemma consume_row_leaves:
  assumes "consume_credential_row c d i now m st = Inr st'" shows "token_used d st'"
proof -
  from assms obtain r where "r \<in> set (p6_credentials st)"
      "credential_at c {CR_RETRIEVED} r \<and> gc_token_digest r = Some d"
    by (force simp: consume_credential_row_def outcome_simps row_count_def length_Suc_conv
        filter_eq_Cons_iff)
  with consume_credential_row_result [OF assms] show ?thesis
    unfolding token_used_def
    by (intro bexI [of _ "(r\<lparr>gc_state := CR_CONSUMED, gc_consumed_at := Some now,
        gc_consumed_principal_id := Some i\<rparr>)\<lparr>gc_revision := gc_revision r + 1\<rparr>"])
      (simp_all add: update_credential_def set_update_where image_iff, blast?)
qed

lemma token_used_tables:
  "untouched st st' \<Longrightarrow> token_used d st' = token_used d st"
  "close_second_admin c i now st = Inr st' \<Longrightarrow> token_used d st' = token_used d st"
  by (auto simp: token_used_def untouched_def governance_def dest!: close_second_admin_result)

lemma consume_enrollment_leaves:
  assumes "consume_enrollment d p m s now st = Inr (x, st')" shows "token_used d st'"
proof -
  from assms obtain c st3 st4 st5 where
    s4: "consume_credential_row c d (pr_principal_id p) now
        ''enrollment atomic consumption lost its claim'' st3 = Inr st4"
    and s5: "(if gc_bootstrap_transition c then close_second_admin c (pr_principal_id p) now st4
        else Inr st4) = Inr st5" and s6: "untouched st5 st'"
    by (auto simp: consume_enrollment_def outcome_simps case_option_Inr
        dest!: insert_audits_untouched(1))
  from consume_row_leaves [OF s4] s5 show ?thesis
    by (auto simp: token_used_tables(1) [OF s6] split: if_split_asm dest: token_used_tables(2) [of _ _ _ _ _ d])
qed

lemma consume_recovery_leaves:
  assumes "consume_recovery d s now st = Inr (x, st')" shows "token_used d st'"
proof -
  from assms obtain c i st1 st2 where
    s2: "consume_credential_row c d i now ''recovery atomic consumption lost its claim'' st1 = Inr st2"
    and s3: "untouched st2 st'"
    by (auto simp: consume_recovery_def outcome_simps case_option_Inr
        dest!: insert_audits_untouched(1))
  from consume_row_leaves [OF s2] show ?thesis by (simp add: token_used_tables(1) [OF s3])
qed

lemma token_used_for_ever:
  assumes "gov_step\<^sup>*\<^sup>* st st'" and "governance_ok st" and "token_used d st" shows "token_used d st'"
proof -
  from assms(3) obtain c where c: "c \<in> set (p6_credentials st)" "gc_token_digest c = Some d"
      "gc_state c = CR_CONSUMED"
    by (auto simp: token_used_def)
  have "c \<in> set (p6_credentials st')"
    using assms(2) c by (intro credentials.final_row [OF assms(1)])
      (auto simp: governance_ok_def elim: cred_move.cases)
  with c(2,3) show ?thesis by (auto simp: token_used_def)
qed

lemma used_token_found:
  assumes "governance_ok st" and "token_used d st"
    and "find (\<lambda>c. gc_token_digest c = Some d \<and> gc_kind c = k) (p6_credentials st) = Some c"
  shows "gc_state c = CR_CONSUMED"
proof -
  from assms(2) obtain q where q: "q \<in> set (p6_credentials st)" "gc_token_digest q = Some d"
      "gc_state q = CR_CONSUMED"
    by (auto simp: token_used_def)
  from find_SomeD [OF assms(3)] have c: "c \<in> set (p6_credentials st)" "gc_token_digest c = Some d"
    by auto
  with q assms(1) have "cred_key c = cred_key q"
    unfolding governance_ok_def tokens_unique_def by (metis option.distinct(1))
  with c q assms(1) have "c = q"
    by (auto simp: governance_ok_def distinct_map inj_on_def)
  with q show ?thesis by simp
qed

lemma Inr_free: "(\<And>y. r \<noteq> Inr y) \<Longrightarrow> \<exists>e. r = Inl e"
  by (cases r) auto

lemma used_token_refused:
  assumes "governance_ok st" and "token_used d st"
  shows "\<exists>e. consume_enrollment d p m s now st = Inl e" "\<exists>e. consume_recovery d s now st = Inl e"
proof -
  show "\<exists>e. consume_enrollment d p m s now st = Inl e"
    using used_token_found [OF assms]
    by (intro Inr_free) (auto simp: consume_enrollment_def outcome_simps case_option_Inr
        enrollment_fits_def dest!: GovernanceCredential_init_same)
  show "\<exists>e. consume_recovery d s now st = Inl e"
    using used_token_found [OF assms]
    by (intro Inr_free) (auto simp: consume_recovery_def outcome_simps case_option_Inr
        dest!: GovernanceCredential_init_same)
qed

text \<open>
  C9.  A one-time credential is good once: after an exchange that committed, for an enrollment or a
  recovery, every later exchange with the same token is refused, whatever committed in between.
\<close>

theorem credential_single_use:
  assumes "governance_ok st" and "principal.valid p" and "membership.valid m"
    and "consume_enrollment d p m s now st = Inr (x, st1) \<or> consume_recovery d s now st = Inr (x, st1)"
    and "gov_step\<^sup>*\<^sup>* st1 st2"
  shows "(\<exists>e. consume_enrollment d p' m' s' now' st2 = Inl e) \<and> (\<exists>e. consume_recovery d s' now' st2 = Inl e)"
proof -
  have "gov_step st st1"
    using assms(2-4) by (auto intro: do_consume_enrollment do_consume_recovery)
  then have ok: "governance_ok st1" by (rule governance_ok_step) (rule assms(1))
  have "token_used d st1" using assms(4) by (auto dest: consume_enrollment_leaves consume_recovery_leaves)
  from token_used_for_ever [OF assms(5) ok this] used_token_refused
      [OF governance_ok_steps [OF assms(5) ok]]
  show ?thesis by blast
qed

text \<open>Bob, who lost his session, recovers with the credential root issued.\<close>

definition bob_again :: AuthenticatedSession where
  "bob_again = acme_session ''bob'' COLLEAGUE_USER CHR ''2''"

lemma get_principal_ok:
  assumes "st_records s (principal_key t i) = Some (DPrincipal a)" and "principal_namespace t i = Inr ns"
  shows "get_principal s t i = Inr a"
proof -
  from assms(2) have "ns = \<lparr>ns_tenant_id = t, ns_scope = PRINCIPAL, ns_scope_id = Some i\<rparr>"
    by (simp add: principal_namespace_def Namespace_init_ok)
  with assms show ?thesis by (simp add: get_principal_def get_record_def principal_key_def)
qed

lemma acme_namespaces: "i \<in> {''root'', ''eve'', ''bob''} \<Longrightarrow> \<exists>ns. principal_namespace ''acme'' i = Inr ns"
  by (auto simp: principal_namespace_def ok_simps id_head_def id_tail_def)

lemma acme_records_at:
  "acme_records (principal_key ''acme'' ''root'') = Some (DPrincipal (acme_human ''root'' TENANT_ADMIN))"
  "acme_records (principal_key ''acme'' ''eve'') = Some (DPrincipal (acme_human ''eve'' TENANT_ADMIN))"
  "acme_records (principal_key ''acme'' ''bob'') = Some (DPrincipal (acme_human ''bob'' COLLEAGUE_USER))"
  by (simp_all add: acme_records_def acme_people_def acme_human_def acme_principal_def principal_key_inj)

lemma acme_principals:
  assumes "st_records s = acme_records"
  shows "get_principal s ''acme'' ''root'' = Inr (acme_human ''root'' TENANT_ADMIN)"
    "get_principal s ''acme'' ''eve'' = Inr (acme_human ''eve'' TENANT_ADMIN)"
    "get_principal s ''acme'' ''bob'' = Inr (acme_human ''bob'' COLLEAGUE_USER)"
proof -
  from acme_namespaces [of "''root''"] acme_namespaces [of "''eve''"] acme_namespaces [of "''bob''"]
  obtain n1 n2 n3 where n: "principal_namespace ''acme'' ''root'' = Inr n1"
      "principal_namespace ''acme'' ''eve'' = Inr n2" "principal_namespace ''acme'' ''bob'' = Inr n3"
    by auto
  show "get_principal s ''acme'' ''root'' = Inr (acme_human ''root'' TENANT_ADMIN)"
    by (rule get_principal_ok [OF _ n(1)]) (simp add: assms acme_records_at)
  show "get_principal s ''acme'' ''eve'' = Inr (acme_human ''eve'' TENANT_ADMIN)"
    by (rule get_principal_ok [OF _ n(2)]) (simp add: assms acme_records_at)
  show "get_principal s ''acme'' ''bob'' = Inr (acme_human ''bob'' COLLEAGUE_USER)"
    by (rule get_principal_ok [OF _ n(3)]) (simp add: assms acme_records_at)
qed

lemma acme_digests: "matches_sha256 (acme_digest CHR ''a'')" "matches_sha256 (acme_digest CHR ''0'')"
    "matches_sha256 (acme_digest CHR ''1'')" "matches_sha256 (acme_digest CHR ''2'')"
  by (simp_all add: acme_digest_def matches_sha256_def list_all_iff hex_char_def)

lemma acme_credential_ok: "GovernanceCredential_init acme_credential = Inr acme_credential"
  by (simp add: GovernanceCredential_init_def acme_governance_defs acme_digests ok_simps id_head_def id_tail_def)

lemma acme_member_ok:
  "Membership_init (acme_member ''root'' TENANT_ADMIN [''*'']) = Inr (acme_member ''root'' TENANT_ADMIN [''*''])"
  "Membership_init (acme_member ''eve'' TENANT_ADMIN [''*'']) = Inr (acme_member ''eve'' TENANT_ADMIN [''*''])"
  "Membership_init (acme_member ''bob'' COLLEAGUE_USER [''ada'']) = Inr (acme_member ''bob'' COLLEAGUE_USER [''ada''])"
  by (simp_all add: Membership_init_def acme_governance_defs ok_simps id_head_def id_tail_def)


lemma acme_membership_bob:
  "rt st = rt acme_governed \<Longrightarrow> p6_memberships st = p6_memberships acme_governed \<Longrightarrow>
     membership_for_principal st ''acme'' ''bob'' = Inr (acme_member ''bob'' COLLEAGUE_USER [''ada''])"
  using acme_member_ok(3)
  by (simp add: membership_for_principal_def find_membership_def membership_from_row_def
      acme_governed_def acme_principals acme_member_def acme_human_def acme_principal_def)


lemma acme_consumed_ok:
  "consumed_credential acme_credential i (utc t) = Inr (acme_credential\<lparr>gc_state := CR_CONSUMED,
     gc_consumed_at := Some (utc t), gc_consumed_principal_id := Some i, gc_revision := 3\<rparr>)"
  if "matches_id i"
  using that by (simp add: consumed_credential_def GovernanceCredential_init_def acme_governance_defs
      acme_digests ok_simps id_head_def id_tail_def)

lemma acme_bob_id: "matches_id ''bob''"
  using ok_simps by (simp add: id_head_def id_tail_def)

lemma first_governance_audit:
  assumes "p6_audit st = []" and "1 \<le> gn_record_revision n" and "gn_occurred_at n = utc t"
  shows "\<exists>st'. insert_governance_audit n st = Inr st'"
  using assms by (simp add: insert_governance_audit_def governance_audit_row_of_def Let_def
      raise_if_def checks_def require_utc_def utc_def chk_def)

lemma acme_recovery:
  "\<exists>c st1. consume_recovery (acme_digest CHR ''a'') bob_again (utc 5) acme_governed =
     Inr ((c, acme_member ''bob'' COLLEAGUE_USER [''ada''], bob_again), st1)"
proof -
  have digests: "acme_digest CHR ''1'' \<noteq> acme_digest CHR ''2''"
      "acme_digest CHR ''3'' \<noteq> acme_digest CHR ''2''" by (simp_all add: acme_digest_def)
  have find: "find (\<lambda>c. gc_token_digest c = Some (acme_digest CHR ''a'') \<and> gc_kind c = RECOVERY)
      (p6_credentials acme_governed) = Some acme_credential"
    by (simp add: acme_governed_def acme_credential_def)
  have rt: "rt acme_governed = empty_store\<lparr>st_records := acme_records\<rparr>"
    by (simp add: acme_governed_def)
  have target: "gc_target_principal_id acme_credential = Some ''bob''"
      "ns_tenant_id (gc_namespace acme_credential) = ''acme''"
    by (simp_all add: acme_credential_def acme_tenant_def)
  have fits: "recovery_fits acme_credential (acme_member ''bob'' COLLEAGUE_USER [''ada''])
      (acme_human ''bob'' COLLEAGUE_USER) bob_again = Inr ()"
    by (simp add: recovery_fits_def acme_credential_def acme_member_def bob_again_def acme_session_def
        raise_if_def checks_def)
  have bob: "pr_principal_id (acme_human ''bob'' COLLEAGUE_USER) = ''bob''"
    by (simp add: acme_human_def acme_principal_def)
  have open_now: "gc_state acme_credential = CR_RETRIEVED" "gc_retrieved_at acme_credential = Some (utc 2)"
      "gc_expires_at acme_credential = utc 100"
    by (simp_all add: acme_credential_def)
  let ?st1 = "revoke_sessions ''acme'' ''bob'' (utc 5) ''recovery_rotation'' acme_governed"
  let ?st2 = "?st1\<lparr>p4_sessions := p4_sessions ?st1 @ [new_session bob_again]\<rparr>"
  have s2: "insert_session bob_again ?st1 = Inr ?st2"
    using digests acme_records_at(3)
    by (simp add: insert_session_def revoke_sessions_def acme_governed_def bob_again_def
        acme_session_def update_where_def session_key_def raise_if_def checks_def
        acme_human_def acme_principal_def)
  obtain st3 where s3: "consume_credential_row acme_credential (acme_digest CHR ''a'') ''bob'' (utc 5)
      ''recovery atomic consumption lost its claim'' ?st2 = Inr st3" and audit: "p6_audit st3 = []"
    by (simp add: consume_credential_row_def revoke_sessions_def acme_governed_def row_count_def
        credential_at_def acme_credential_def raise_if_def checks_def update_credential_def empty_p6_def)
  show ?thesis
    unfolding consume_recovery_def find
    by (simp add: acme_credential_ok target acme_membership_bob rt acme_principals fits acme_bob_id
        acme_consumed_ok open_now bob s2 s3)
      (use first_governance_audit [OF audit] in
        \<open>simp add: outcome_simps ok_simps acme_consumed_ok [OF acme_bob_id, of 5] credential_note_def\<close>)
qed

theorem credential_single_use_witness:
  "\<exists>x st1. consume_recovery (acme_digest CHR ''a'') bob_again (utc 5) acme_governed = Inr (x, st1) \<and>
     (\<exists>e. consume_recovery (acme_digest CHR ''a'') bob_again (utc 6) st1 = Inl e)"
proof -
  obtain x st1 where c: "consume_recovery (acme_digest CHR ''a'') bob_again (utc 5) acme_governed =
      Inr (x, st1)"
    using acme_recovery by blast
  have p: "principal.valid (acme_human ''bob'' COLLEAGUE_USER)"
    by (simp add: principal.valid_def acme_human_def acme_principal_def ok_simps id_head_def id_tail_def)
  have m: "membership.valid (acme_member ''bob'' COLLEAGUE_USER [''ada''])"
    by (simp add: membership.valid_def acme_member_ok)
  from credential_single_use [OF acme_governed_ok p m disjI2 [OF c] rtranclp.rtrancl_refl] c
  show ?thesis by blast
qed

section \<open>Sessions\<close>

lemma revoked_for_ever:
  assumes "gov_step\<^sup>*\<^sup>* st st'" and "governance_ok st" and "r \<in> set (p4_sessions st)"
    and "sr_revoked_at r \<noteq> None"
  shows "live_session st' (session_digest r) = None"
proof -
  have dist: "distinct (map session_digest (p4_sessions st))"
      "distinct (map session_digest (p4_sessions st'))"
    using assms(2) governance_ok_steps [OF assms(1,2)] by (auto simp: governance_ok_def)
  have kept: "sr_revoked_at b \<noteq> None" if "session_move a b" "sr_revoked_at a \<noteq> None" for a b
    using that by (auto elim: session_move.cases)
  obtain q where q: "q \<in> set (p4_sessions st')" "session_digest q = session_digest r"
      "sr_revoked_at q \<noteq> None"
    using sessions.kept_row [where Q = "\<lambda>r. sr_revoked_at r \<noteq> None", OF assms(1) dist(1) assms(3,4)]
      kept by blast
  have "sr_revoked_at x \<noteq> None"
    if "x \<in> set (p4_sessions st')" "session_digest x = session_digest r" for x
    using sessions.same_key_row [OF dist(2) that(1) q(1)] q that by auto
  then show ?thesis by (auto simp: live_session_def find_None_iff)
qed

lemma recovery_revokes:
  assumes "consume_recovery d s now st = Inr (x, st')" and "keyed (rt st)"
    and "r \<in> set (p4_sessions st)" and "sr_tenant r = ns_tenant_id (pr_namespace (se_principal s))"
    and "sr_principal_id r = pr_principal_id (se_principal s)"
  shows "\<exists>q \<in> set (p4_sessions st'). session_digest q = session_digest r \<and> sr_revoked_at q \<noteq> None"
proof -
  from assms(1) obtain c i m and p :: Principal and st1 st2 where
    p: "get_principal (rt st) (ns_tenant_id (gc_namespace c)) i = Inr p"
    and fits: "recovery_fits c m p s = Inr ()"
    and s1: "insert_session s (revoke_sessions (ns_tenant_id (gc_namespace c)) (pr_principal_id p) now
        ''recovery_rotation'' st) = Inr st1"
    and s2: "consume_credential_row c d (pr_principal_id p) now
        ''recovery atomic consumption lost its claim'' st1 = Inr st2" and s3: "untouched st2 st'"
    by (auto simp: consume_recovery_def outcome_simps case_option_Inr
        dest!: insert_audits_untouched(1))
  have sp: "se_principal s = p" using fits by (auto simp: recovery_fits_def outcome_simps)
  have key: "ns_tenant_id (pr_namespace p) = ns_tenant_id (gc_namespace c)"
    using get_principal_keyed(2) [OF assms(2) p] by (simp add: principal_key_inj)
  have "p4_sessions st' = p4_sessions st1"
    using s3 consume_credential_row_result [OF s2]
    by (auto simp: untouched_def governance_def update_credential_def)
  also have "\<dots> = revoked_rows (ns_tenant_id (gc_namespace c)) (pr_principal_id p) now
      ''recovery_rotation'' (p4_sessions st) @ [new_session s]"
    using insert_session_result [OF s1] by (simp add: revoke_sessions_def revoked_rows_def)
  finally have rows: "set (p4_sessions st') \<supseteq> set (revoked_rows (ns_tenant_id (gc_namespace c))
      (pr_principal_id p) now ''recovery_rotation'' (p4_sessions st))"
    by auto
  let ?q = "if sr_revoked_at r = None then r\<lparr>sr_revoked_at := Some now,
    sr_revoked_reason := Some ''recovery_rotation'',
    sr_session := (sr_session r)\<lparr>se_revision := se_revision (sr_session r) + 1\<rparr>\<rparr> else r"
  have "?q \<in> set (p4_sessions st')"
    using assms(3-5) rows by (auto simp: revoked_rows_def set_update_where image_iff sp key)
  then show ?thesis by (intro bexI [of _ ?q]) auto
qed

text \<open>
  C10.  A recovery ends every earlier session of its principal: once it has committed, the
  credential of such a session is refused by every later request, whatever committed in between.
\<close>

theorem recovery_ends_sessions:
  assumes "governance_ok st" and "consume_recovery d s now st = Inr (x, st1)"
    and "r \<in> set (p4_sessions st)" and "sr_tenant r = ns_tenant_id (pr_namespace (se_principal s))"
    and "sr_principal_id r = pr_principal_id (se_principal s)" and "gov_step\<^sup>*\<^sup>* st1 st2"
  shows "governed_session (se_credential_digest (sr_session r)) t st2 =
    Inl (PermissionDeniedError ''authenticated session was refused'')"
proof -
  have ok: "governance_ok st1"
    using assms(1,2) by (blast intro: governance_ok_step do_consume_recovery)
  obtain q where q: "q \<in> set (p4_sessions st1)" "session_digest q = session_digest r"
      "sr_revoked_at q \<noteq> None"
    using recovery_revokes [OF assms(2) _ assms(3-5)] assms(1) by (auto simp: governance_ok_def)
  from revoked_for_ever [OF assms(6) ok q(1,3)] q(2) show ?thesis
    by (simp add: governed_session_def)
qed

theorem recovery_ends_sessions_witness:
  "\<exists>x st1. consume_recovery (acme_digest CHR ''a'') bob_again (utc 5) acme_governed = Inr (x, st1) \<and>
     governed_session (acme_digest CHR ''1'') (utc 6) st1 =
       Inl (PermissionDeniedError ''authenticated session was refused'')"
proof -
  obtain x st1 where c: "consume_recovery (acme_digest CHR ''a'') bob_again (utc 5) acme_governed =
      Inr (x, st1)"
    using acme_recovery by blast
  let ?r = "new_session (acme_session ''bob'' COLLEAGUE_USER CHR ''1'')"
  have r: "?r \<in> set (p4_sessions acme_governed)" "sr_tenant ?r = ns_tenant_id (pr_namespace (se_principal bob_again))"
      "sr_principal_id ?r = pr_principal_id (se_principal bob_again)"
    by (simp_all add: acme_governed_def bob_again_def acme_session_def acme_human_def acme_principal_def)
  from recovery_ends_sessions [OF acme_governed_ok c r rtranclp.rtrancl_refl, of "utc 6"]
  have "governed_session (acme_digest CHR ''1'') (utc 6) st1 =
      Inl (PermissionDeniedError ''authenticated session was refused'')"
    by (simp add: acme_session_def)
  with c show ?thesis by blast
qed


section \<open>The first Admin\<close>

lemma transition_kept:
  assumes "gov_step\<^sup>*\<^sup>* st st'" and "governance_ok st" and "t \<in> tn_tenant_id ` set (p6_transitions st)"
  shows "t \<in> tn_tenant_id ` set (p6_transitions st')"
proof -
  from assms(3) obtain r where "r \<in> set (p6_transitions st)" "t = tn_tenant_id r" by blast
  with transitions.steps_row [OF assms(1)] assms(2) transitions.moves_key show ?thesis
    unfolding governance_ok_def by (metis image_eqI)
qed

lemma bootstrap_transition:
  assumes "consume_governed_bootstrap t d p s now st = Inr (x, st')"
  shows "t \<in> tn_tenant_id ` set (p6_transitions st')" "t \<notin> tn_tenant_id ` set (p6_transitions st)"
proof -
  from assms obtain b m s0 st1 st2 st3 st4 st5 where
    s1: "on_rt (insert_record_as (Some p) (Some ''correlation:bootstrap'')
        (Some (br_credential_id b)) (Some now) (DPrincipal p)) st = Inr st1"
    and s2: "insert_membership m st1 = Inr st2"
    and s3: "insert_transition t (pr_principal_id p) now st2 = Inr st3"
    and s4: "update_bootstrap (\<lambda>x. br_consumed_at x = None) (\<lambda>x. x\<lparr>br_consumed_at := Some now\<rparr>) b t
        (ConflictError ''bootstrap exchange lost its atomic claim'') st3 = Inr st4"
    and s5: "insert_session s0 st4 = Inr st5" and s6: "untouched st5 st'"
    by (auto simp: consume_governed_bootstrap_def outcome_simps dest!: insert_audits_untouched(1))
  from insert_principal_result [OF s1] insert_membership_result [OF s2] insert_transition_result [OF s3]
    update_bootstrap_result [OF s4] insert_session_result [OF s5] s6
  show "t \<in> tn_tenant_id ` set (p6_transitions st')" "t \<notin> tn_tenant_id ` set (p6_transitions st)"
    by (auto simp: untouched_def governance_def)
qed

text \<open>
  C11.  A tenant gets its first Admin once: after a bootstrap exchange that committed, no other for
  the tenant commits, with any token, principal and time, whatever committed in between.
\<close>

theorem first_admin_once:
  assumes "governance_ok st" and "principal.valid p"
    and "consume_governed_bootstrap t d p s now st = Inr (x, st1)" and "gov_step\<^sup>*\<^sup>* st1 st2"
  shows "\<exists>e. consume_governed_bootstrap t d' p' s' now' st2 = Inl e"
proof -
  have "governance_ok st1"
    using assms(1-3) by (blast intro: governance_ok_step do_consume_bootstrap)
  from transition_kept [OF assms(4) this bootstrap_transition(1) [OF assms(3)]]
  show ?thesis by (intro Inr_free) (auto dest!: bootstrap_transition(2))
qed

definition acme_bootstrap :: p6_store where
  "acme_bootstrap = empty_p6\<lparr>p4_bootstraps :=
     [\<lparr>br_tenant_id = ''acme'', br_credential_id = ''b1'', br_token_digest = acme_digest CHR ''a'',
       br_issued_at = utc 0, br_expires_at = utc 100, br_retrieved_at = Some (utc 1),
       br_consumed_at = None, br_revision = 2, br_schema_version = 1\<rparr>]\<rparr>"

lemma acme_bootstrap_ok: "governance_ok acme_bootstrap"
  using governance_ok_empty by (simp add: governance_ok_def acme_bootstrap_def synced_def two_person_def)

lemma acme_root_id: "matches_id ''root''" "matches_id ''acme''"
  by (simp_all add: id_head_def id_tail_def)

lemma acme_first_admin:
  "\<exists>x st1. consume_governed_bootstrap ''acme'' (acme_digest CHR ''a'') (acme_human ''root'' TENANT_ADMIN)
     (acme_session ''root'' TENANT_ADMIN CHR ''3'') (utc 5) acme_bootstrap = Inr (x, st1)"
proof -
  let ?p = "acme_human ''root'' TENANT_ADMIN" and ?s = "acme_session ''root'' TENANT_ADMIN CHR ''3''"
  let ?b = "hd (p4_bootstraps acme_bootstrap)"
  have d3: "matches_sha256 (acme_digest CHR ''3'')"
    by (simp add: acme_digest_def matches_sha256_def list_all_iff hex_char_def)
  have s: "AuthenticatedSession_init (?s\<lparr>se_role_revision := 1, se_membership_revision := 1\<rparr>) = Inr ?s"
    by (simp add: AuthenticatedSession_init_def acme_session_def acme_human_def acme_principal_def
        ok_simps d3 id_head_def id_tail_def)
  have admin: "bootstrap_admin ''acme'' ?p ?s ''bootstrap authority binding was refused'' = Inr ()"
    by (simp add: bootstrap_admin_def acme_session_def acme_human_def acme_principal_def ok_simps)
  have b: "bootstrap_of_token acme_bootstrap ''acme'' (acme_digest CHR ''a'') e = Inr ?b" for e
    by (simp add: bootstrap_of_token_def acme_bootstrap_def BootstrapRecord_init_def ok_simps acme_digests
        SCHEMA_VERSION_def id_head_def id_tail_def)
  have none: "\<not> human_counted (rt acme_bootstrap) ''acme''"
    by (simp add: human_counted_def acme_bootstrap_def empty_p6_def empty_store_def)
  obtain s1 where s1: "insert_record_as (Some ?p) (Some ''correlation:bootstrap'') (Some ''b1'')
      (Some (utc 5)) (DPrincipal ?p) (rt acme_bootstrap) = Inr s1"
      "st_records s1 (principal_key ''acme'' ''root'') = Some (DPrincipal ?p)"
    by (simp add: insert_record_as_def insert_audit_def record_key_def empty_store_def empty_p6_def
        acme_bootstrap_def acme_human_def acme_principal_def ok_simps principal_key_def on_integrity_def
        SCHEMA_VERSION_def)
  have m: "Membership_init (first_membership ?p ''b1'' (utc 5)) = Inr (first_membership ?p ''b1'' (utc 5))"
    by (simp add: Membership_init_def first_membership_def removeprefix_def acme_human_def
        acme_principal_def SCHEMA_VERSION_def ok_simps id_head_def id_tail_def)
  have ns: "principal_key ''acme'' (pr_principal_id ?p) = principal_key ''acme'' ''root''"
      "ns_tenant_id (pr_namespace ?p) = ''acme''" "pr_principal_id ?p = ''root''"
    by (simp_all add: acme_human_def acme_principal_def)
  let ?st1 = "acme_bootstrap\<lparr>rt := s1\<rparr>"
  let ?m = "first_membership ?p ''b1'' (utc 5)"
  let ?st2 = "?st1\<lparr>p6_memberships := [?m]\<rparr>"
  have s2: "insert_membership ?m ?st1 = Inr ?st2"
    by (simp add: insert_membership_def first_membership_def find_membership_def ns s1(2)
        acme_bootstrap_def empty_p6_def raise_if_def checks_def)
  obtain st3 where s3: "insert_transition ''acme'' ''root'' (utc 5) ?st2 = Inr st3"
      "p4_bootstraps st3 = p4_bootstraps acme_bootstrap" "p4_sessions st3 = []" "rt st3 = s1"
      "p6_audit st3 = []"
    by (simp add: insert_transition_def acme_bootstrap_def empty_p6_def ok_simps outcome_simps)
  obtain st4 where s4: "update_bootstrap (\<lambda>x. br_consumed_at x = None)
      (\<lambda>x. x\<lparr>br_consumed_at := Some (utc 5)\<rparr>) ?b ''acme''
      (ConflictError ''bootstrap exchange lost its atomic claim'') st3 = Inr st4"
      "p4_sessions st4 = []" "rt st4 = s1" "p6_audit st4 = []"
    by (simp add: update_bootstrap_def s3 acme_bootstrap_def row_count_def outcome_simps)
  obtain st5 where s5: "insert_session (?s\<lparr>se_tenant_id := ''acme'', se_active_colleague_id := None,
      se_revision := 1\<rparr>) st4 = Inr st5" "p6_audit st5 = []"
    by (simp add: insert_session_def s4 s1(2) acme_session_def ns outcome_simps)
  have t: "tenant_namespace ''acme'' = Inr acme_tenant"
    by (simp add: tenant_namespace_def ok_simps acme_tenant_def id_head_def id_tail_def)
  have fields: "br_credential_id ?b = ''b1''" "br_retrieved_at ?b = Some (utc 1)"
      "br_expires_at ?b = utc 100" "br_consumed_at ?b = None"
    by (simp_all add: acme_bootstrap_def)
  show ?thesis
    unfolding consume_governed_bootstrap_def
    using first_governance_audit [OF s5(2)]
    by (simp add: s admin b none fields s1 m ns s2 s3 s4 s5 t on_rt_def outcome_simps)
qed

theorem first_admin_once_witness:
  "\<exists>x st1. consume_governed_bootstrap ''acme'' (acme_digest CHR ''a'') (acme_human ''root'' TENANT_ADMIN)
     (acme_session ''root'' TENANT_ADMIN CHR ''3'') (utc 5) acme_bootstrap = Inr (x, st1) \<and>
   (\<exists>e. consume_governed_bootstrap ''acme'' (acme_digest CHR ''b'') (acme_human ''eve'' TENANT_ADMIN)
     (acme_session ''eve'' TENANT_ADMIN CHR ''4'') (utc 6) st1 = Inl e)"
proof -
  obtain x st1 where c: "consume_governed_bootstrap ''acme'' (acme_digest CHR ''a'')
      (acme_human ''root'' TENANT_ADMIN) (acme_session ''root'' TENANT_ADMIN CHR ''3'') (utc 5)
      acme_bootstrap = Inr (x, st1)"
    using acme_first_admin by blast
  have p: "principal.valid (acme_human ''root'' TENANT_ADMIN)"
    by (simp add: principal.valid_def acme_human_def acme_principal_def ok_simps id_head_def id_tail_def)
  from first_admin_once [OF acme_bootstrap_ok p c rtranclp.rtrancl_refl] c show ?thesis by blast
qed

section \<open>Two people\<close>

text \<open>
  C7.  Two-person governance is kept: a tenant that has two active Admins has two active Admins
  after any sequence of operations.
\<close>

theorem two_admins_remain:
  assumes "governance_ok st" and "2 \<le> length (active_admins st t)" and "gov_step\<^sup>*\<^sup>* st st'"
  shows "2 \<le> length (active_admins st' t)"
  using assms(3)
proof (induction rule: rtranclp_induct)
  case (step st1 st2)
  from governance_ok_steps [OF step(1) assms(1)] step(3)
    governed_membered [OF gov_step_governed [OF step(2)]]
  show ?case by (metis admins_kept)
qed (rule assms(2))

theorem two_admins_remain_witness:
  "length (active_admins acme_governed ''acme'') = 2 \<and>
   (\<exists>x st1. consume_recovery (acme_digest CHR ''a'') bob_again (utc 5) acme_governed = Inr (x, st1) \<and>
      2 \<le> length (active_admins st1 ''acme''))"
proof -
  have two: "length (active_admins acme_governed ''acme'') = 2"
    by (simp add: active_admins_def acme_governed_def acme_member_def acme_human_def acme_principal_def)
  obtain x st1 where c: "consume_recovery (acme_digest CHR ''a'') bob_again (utc 5) acme_governed =
      Inr (x, st1)"
    using acme_recovery by blast
  have "gov_step\<^sup>*\<^sup>* acme_governed st1" using c by (blast intro: do_consume_recovery)
  from two_admins_remain [OF acme_governed_ok _ this, of "''acme''"] two
  have "2 \<le> length (active_admins st1 ''acme'')" by simp
  with two c show ?thesis by blast
qed

lemma proposal_people:
  assumes "change_people_current st p d = Inr ()" and "synced st" and "keyed (rt st)"
    and "t = ns_tenant_id (ch_namespace p)"
  shows "\<exists>a \<in> set (p6_memberships st). \<exists>b \<in> set (p6_memberships st). member_key a \<noteq> member_key b \<and>
    mb_principal_id a = ch_proposer_principal_id p \<and> mb_principal_id b = cd_approver_principal_id d \<and>
    (\<forall>m \<in> {a, b}. ns_tenant_id (mb_namespace m) = t \<and> mb_status m = MEMBER_ACTIVE \<and>
       TENANT_ADMIN \<in> set (mb_roles m))"
proof -
  from assms(1,4) obtain x pm y am where
    x: "get_principal (rt st) t (ch_proposer_principal_id p) = Inr x"
    and pm: "membership_for_principal st t (ch_proposer_principal_id p) = Inr pm"
    and y: "get_principal (rt st) t (cd_approver_principal_id d) = Inr y"
    and am: "membership_for_principal st t (cd_approver_principal_id d) = Inr am"
    and guards: "pr_principal_id x \<noteq> pr_principal_id y" "mb_status pm = MEMBER_ACTIVE"
      "mb_status am = MEMBER_ACTIVE" "TENANT_ADMIN \<in> set (pr_roles x)" "TENANT_ADMIN \<in> set (pr_roles y)"
    by (auto simp: change_people_current_def outcome_simps)
  from pm obtain a where a: "a \<in> set (p6_memberships st)" "ns_tenant_id (mb_namespace a) = t"
      "mb_principal_id a = ch_proposer_principal_id p" "mb_status pm = mb_status a"
    by (rule membership_for_principal_row)
  from am obtain b where b: "b \<in> set (p6_memberships st)" "ns_tenant_id (mb_namespace b) = t"
      "mb_principal_id b = cd_approver_principal_id d" "mb_status am = mb_status b"
    by (rule membership_for_principal_row)
  have "mb_roles a = pr_roles x" "mb_roles b = pr_roles y"
    using assms(2) a b get_principal_keyed(1) [OF assms(3) x] get_principal_keyed(1) [OF assms(3) y]
    unfolding synced_def by fastforce+
  with a b guards get_principal_keyed(3) [OF assms(3) x] get_principal_keyed(3) [OF assms(3) y]
  show ?thesis
    by (intro bexI [of _ a] bexI [of _ b]) (auto simp: member_key_def)
qed

text \<open>
  C8.  The rights of a member change only by the will of two: when a committed operation leaves a
  member with other values than before, there was an approved change that names the member, its
  proposer and its approver are different people, and both are active Admins of the tenant at that
  moment.
\<close>

theorem rights_change_by_two:
  assumes "governance_ok st" and "gov_step st st'" and "m \<in> set (p6_memberships st)"
    and "m' \<in> set (p6_memberships st')" and "member_key m' = member_key m" and "m' \<noteq> m"
  shows "\<exists>p \<in> set (p6_proposals st). \<exists>d \<in> set (p6_decisions st). \<exists>a b.
    ch_state p = CH_APPROVED \<and> ch_target_id p = mb_principal_id m \<and> cd_choice d = CHANGE_APPROVE \<and> cd_proposal_id d = ch_proposal_id p \<and>
    cd_proposal_digest d = ch_canonical_digest p \<and>
    a \<in> set (p6_memberships st) \<and> b \<in> set (p6_memberships st) \<and> member_key a \<noteq> member_key b \<and>
    mb_principal_id a = ch_proposer_principal_id p \<and> mb_principal_id b = cd_approver_principal_id d \<and>
    (\<forall>x \<in> {a, b}. ns_tenant_id (mb_namespace x) = ns_tenant_id (mb_namespace m) \<and>
       mb_status x = MEMBER_ACTIVE \<and> TENANT_ADMIN \<in> set (mb_roles x))"
  using governed_membered [OF gov_step_governed [OF assms(2)]] assms(1,3-6)
proof (induction rule: membered.induct)
  case (m_same st' st)
  then show ?case by (auto simp: governance_ok_def distinct_map inj_on_def)
next
  case (m_add st' st n p)
  then have "m' \<in> set (p6_memberships st)" by (auto simp: image_iff)
  with m_add show ?case by (auto simp: governance_ok_def distinct_map inj_on_def)
next
  case (m_change st p d t target current role status st' rr i now)
  note ok = m_change(8) [unfolded governance_ok_def]
  obtain n where n: "n \<in> set (p6_memberships st)" "m' = (if membership_at target t n
      then changed_membership p role status rr target i now n else n)"
    using m_change(10) unfolding m_change(7) set_update_where by blast
  then have "member_key n = member_key m"
    using m_change(11) changed_membership_key by (auto split: if_split_asm)
  with n(1) m_change(9) ok have nm: "n = m" by (auto simp: distinct_map inj_on_def)
  with n m_change(12) have at: "membership_at target t m" by (auto split: if_split_asm)
  from m_change(3) have target: "mb_principal_id target = ch_target_id p"
    by (rule membership_for_principal_row)
  from m_change(1) obtain q j a0 w mm where q: "q \<in> set (p6_proposals st)" "read_as q p"
    and v: "validated_change_approval st p j a0 w = Inr (d, mm)"
    by (auto simp: approved_use_def)
  from q(2) have same: "ch_state p = ch_state q" "ch_target_id p = ch_target_id q"
      "ch_proposal_id p = ch_proposal_id q" "ch_canonical_digest p = ch_canonical_digest q"
      "ch_proposer_principal_id p = ch_proposer_principal_id q"
    by (auto simp: read_as_def)
  note vd = validated_decision [OF v]
  have mt: "ns_tenant_id (mb_namespace m) = t" "mb_principal_id m = ch_target_id p"
    using at target by (auto simp: membership_at_def)
  from proposal_people [OF vd(13) _ _ m_change(2)] ok obtain a b where
    "a \<in> set (p6_memberships st)" "b \<in> set (p6_memberships st)" "member_key a \<noteq> member_key b"
    "mb_principal_id a = ch_proposer_principal_id p" "mb_principal_id b = cd_approver_principal_id d"
    "\<forall>m \<in> {a, b}. ns_tenant_id (mb_namespace m) = t \<and> mb_status m = MEMBER_ACTIVE \<and>
       TENANT_ADMIN \<in> set (mb_roles m)"
    by blast
  then show ?case
    using vd(1,4,5,6,8) mt unfolding same
    by (intro bexI [OF _ q(1)] bexI [OF _ vd(1)] exI [of _ a] exI [of _ b]) simp
qed


lemma acme_root_membership:
  "rt st = rt acme_governed \<Longrightarrow> p6_memberships st = p6_memberships acme_governed \<Longrightarrow>
     membership_for_principal st ''acme'' ''root'' = Inr (acme_member ''root'' TENANT_ADMIN [''*''])"
  "rt st = rt acme_governed \<Longrightarrow> p6_memberships st = p6_memberships acme_governed \<Longrightarrow>
     membership_for_principal st ''acme'' ''eve'' = Inr (acme_member ''eve'' TENANT_ADMIN [''*''])"
  using acme_member_ok(1,2)
  by (simp_all add: membership_for_principal_def find_membership_def membership_from_row_def
      acme_governed_def acme_principals acme_member_def acme_human_def acme_principal_def)

lemma acme_change_ok: "ChangeProposal_init acme_change = Inr acme_change"
    "ChangeDecision_init acme_decision = Inr acme_decision"
  by (simp_all add: ChangeProposal_init_def ChangeDecision_init_def acme_change_def acme_decision_def
      acme_tenant_def ok_simps frozen_strings_def revoke_bob(2) acme_digests id_head_def id_tail_def)

lemma acme_approved:
  "validated_change_approval acme_governed acme_change ''d1'' (acme_human ''root'' TENANT_ADMIN) (utc 5) =
     Inr (acme_decision, acme_member ''root'' TENANT_ADMIN [''*''])"
proof -
  have rt: "rt acme_governed = empty_store\<lparr>st_records := acme_records\<rparr>"
    by (simp add: acme_governed_def)
  have auth: "authorize_action (acme_human ''root'' TENANT_ADMIN) (acme_member ''root'' TENANT_ADMIN [''*''])
      APPLY_CHANGE acme_tenant = Inr ()"
    by (simp add: authorize_action_ok acme_member_def acme_human_def acme_defs all_actions_def)
  have id: "ns_tenant_id (pr_namespace (acme_human ''root'' TENANT_ADMIN)) = ''acme''"
      "pr_principal_id (acme_human ''root'' TENANT_ADMIN) = ''root''"
    by (simp_all add: acme_human_def acme_principal_def)
  have m: "require_current_membership acme_governed (acme_human ''root'' TENANT_ADMIN) APPLY_CHANGE
      acme_tenant = Inr (acme_member ''root'' TENANT_ADMIN [''*''])"
    by (simp add: require_current_membership_def id rt acme_principals acme_root_membership auth)
  have people: "change_people_current acme_governed acme_change acme_decision = Inr ()"
    by (simp add: change_people_current_def acme_change_def acme_decision_def acme_tenant_def rt
        acme_principals acme_root_membership)
      (simp add: acme_human_def acme_principal_def acme_member_def raise_if_def)
  have find: "find (\<lambda>d. cd_namespace d = acme_tenant \<and> cd_decision_id d = ''d1'' \<and>
      cd_proposal_id d = ''p1'') (p6_decisions acme_governed) = Some acme_decision"
    by (simp add: acme_governed_def acme_decision_def)
  have c: "ch_namespace acme_change = acme_tenant" "ch_proposal_id acme_change = ''p1''"
    by (simp_all add: acme_change_def)
  show ?thesis
    unfolding validated_change_approval_def c
    by (simp add: m find acme_change_ok people)
      (simp add: acme_change_def acme_decision_def ok_simps)
qed


lemma acme_applied:
  "\<exists>m' st1. apply_membership_change acme_change ''d1'' (acme_session ''root'' TENANT_ADMIN CHR ''3'') ''k''
     (acme_digest CHR ''0'') (utc 5) acme_governed = Inr (m', st1) \<and>
   (\<exists>m \<in> set (p6_memberships st1). member_key m = (''acme'', ''bob'') \<and> mb_status m = MEMBER_REVOKED)"
proof -
  let ?bob = "acme_member ''bob'' COLLEAGUE_USER [''ada'']" and ?hb = "acme_human ''bob'' COLLEAGUE_USER"
  let ?root = "acme_human ''root'' TENANT_ADMIN"
  let ?s = "acme_session ''root'' TENANT_ADMIN CHR ''3''"
  have rt: "rt acme_governed = empty_store\<lparr>st_records := acme_records\<rparr>"
    by (simp add: acme_governed_def)
  have c: "ch_namespace acme_change = acme_tenant" "ch_proposal_id acme_change = ''p1''"
      "ch_change_kind acme_change = CHANGE_MEMBERSHIP" "ch_target_id acme_change = ''bob''"
      "ch_target_revision acme_change = 1" "ch_proposed_role acme_change = Some COLLEAGUE_USER"
      "ch_proposed_status acme_change = Some MEMBER_REVOKED"
      "ch_proposed_colleague_ids acme_change = [''ada'']"
      "ch_canonical_digest acme_change = revoke_bob_digest"
    by (simp_all add: acme_change_def)
  have actor: "se_principal ?s = ?root" "pr_principal_id ?root = ''root''" by
    (simp_all add: acme_session_def acme_human_def acme_principal_def)
  have t: "ns_tenant_id acme_tenant = ''acme''" by (simp add: acme_tenant_def)
  have m: "require_current_membership acme_governed ?root APPLY_CHANGE acme_tenant =
      Inr (acme_member ''root'' TENANT_ADMIN [''*''])"
    using validated_decision(14) [OF acme_approved] by (simp add: c)
  have replay: "find_replay acme_governed ''acme'' ''root'' ''p6:apply-membership'' ''k'' = None"
    by (simp add: find_replay_def acme_governed_def empty_p6_def)
  have row: "find_proposal acme_governed acme_tenant ''p1'' = Some acme_change"
    by (simp add: find_proposal_def acme_governed_def acme_change_def)
  have bob: "mb_principal_id ?bob = ''bob''" "mb_membership_revision ?bob = 1"
    by (simp_all add: acme_member_def)
  let ?ch = "changed_membership acme_change COLLEAGUE_USER MEMBER_REVOKED 1 ?bob ''d1'' (utc 5)"
  have fields: "pr_roles ?hb = [COLLEAGUE_USER]" "mb_role_revision ?bob = 1" "\<not> removes_admin ?hb COLLEAGUE_USER MEMBER_REVOKED"
      "cd_decision_id acme_decision = ''d1''" "ch_correlation_id acme_change = ''c''"
    by (simp_all add: acme_human_def acme_principal_def acme_member_def removes_admin_def acme_decision_def
        acme_change_def)
  have p: "Principal_init (?hb\<lparr>pr_roles := [COLLEAGUE_USER], pr_revision := 1\<rparr>) = Inr ?hb"
    by (simp add: acme_human_def acme_principal_def ok_simps id_head_def id_tail_def)
  let ?st1 = "revoke_sessions ''acme'' ''bob'' (utc 5) ''membership_revision_changed''
    (acme_governed\<lparr>p6_memberships := update_where (membership_at ?bob ''acme'') ?ch
       (p6_memberships acme_governed)\<rparr>)"
  have one: "row_count (membership_at ?bob ''acme'') (p6_memberships acme_governed) = 1"
    by (simp add: row_count_def membership_at_def acme_governed_def acme_member_def acme_human_def
        acme_principal_def)
  obtain st2 where s2: "consume_change_rows acme_change acme_decision (utc 5) ?st1 = Inr st2"
      "p6_audit st2 = []" "p4_replays st2 = []" "p6_memberships st2 = p6_memberships ?st1"
      "rt st2 = rt acme_governed" "new_session ?s \<in> set (p4_sessions st2)"
    by (simp add: consume_change_rows_def revoke_sessions_def acme_governed_def row_count_def update_where_def acme_session_def acme_human_def acme_principal_def
        proposal_at_def decision_at_def acme_change_def acme_decision_def empty_p6_def ok_simps outcome_simps)
  have m': "Membership_init (?ch ?bob) = Inr (?ch ?bob)"
    by (simp add: Membership_init_def changed_membership_def acme_governance_defs ok_simps id_head_def
        id_tail_def)
  have ns: "principal_namespace ''acme'' ''bob'' = Inr (pr_namespace ?hb)"
    by (simp add: principal_namespace_def acme_human_def acme_principal_def ok_simps id_head_def id_tail_def)
  have revoked: "?ch ?bob \<in> set (p6_memberships st2)" "member_key (?ch ?bob) = (''acme'', ''bob'')"
      "mb_status (?ch ?bob) = MEMBER_REVOKED" "mb_revision (?ch ?bob) = 2"
    by (simp_all add: s2(4) revoke_sessions_def acme_governed_def set_update_where changed_membership_def
        membership_at_def member_key_def acme_member_def acme_human_def acme_principal_def)
  have audit: "\<exists>st3. insert_governance_audit n st2 = Inr st3 \<and> p4_replays st3 = [] \<and>
      p6_memberships st3 = p6_memberships st2 \<and> new_session ?s \<in> set (p4_sessions st3)"
    if n: "1 \<le> gn_record_revision n" "gn_occurred_at n = utc 5" for n
  proof -
    obtain st3 where st3: "insert_governance_audit n st2 = Inr st3"
      using first_governance_audit [OF s2(2) n] by blast
    from insert_governance_audit_result [OF this] s2(3,6) have "p4_replays st3 = []"
        "p6_memberships st3 = p6_memberships st2" "new_session ?s \<in> set (p4_sessions st3)" by auto
    with st3 show ?thesis by blast
  qed
  have replayed: "\<exists>st3. insert_replay (?s\<lparr>se_tenant_id := ''acme''\<rparr>) ''p6:apply-membership'' ''k''
      (acme_digest CHR ''0'') v st = Inr st3 \<and> p6_memberships st3 = p6_memberships st"
    if "p4_replays st = []" "new_session ?s \<in> set (p4_sessions st)" for v st
    using that
    by (auto simp: insert_replay_def find_replay_def session_key_def acme_session_def Let_def
        intro!: bexI [of _ "new_session ?s"])
  let ?n = "\<lparr>gn_namespace = pr_namespace ?hb, gn_record_type = ''membership'',
    gn_record_id = mb_membership_id ?bob, gn_record_revision = mb_revision (?ch ?bob),
    gn_action = ''membership_changed'', gn_result = ''revoked'', gn_actor = ?root,
    gn_authority_revision = authority_text (acme_member ''root'' TENANT_ADMIN [''*'']),
    gn_correlation_id = ''c'', gn_causation_id = ''d1'', gn_occurred_at = utc 5,
    gn_safe_projection = [(''role'', JStr ''colleague_user''), (''scope_count'', JInt 1),
      (''membership_revision'', JInt 2)]\<rparr>"
  obtain st3 where s3: "insert_governance_audit ?n st2 = Inr st3" "p4_replays st3 = []"
      "p6_memberships st3 = p6_memberships st2" "new_session ?s \<in> set (p4_sessions st3)"
    using audit [of ?n] revoked(4) by auto
  obtain st4 where s4: "insert_replay (?s\<lparr>se_tenant_id := ''acme''\<rparr>) ''p6:apply-membership'' ''k''
      (acme_digest CHR ''0'') (RV_MEMBERSHIP (?ch ?bob)) st3 = Inr st4"
      "p6_memberships st4 = p6_memberships st3"
    using replayed [OF s3(2,4), of "RV_MEMBERSHIP (?ch ?bob)"] by auto
  have "apply_membership_change acme_change ''d1'' ?s ''k'' (acme_digest CHR ''0'') (utc 5) acme_governed =
      Inr (?ch ?bob, st4)"
    unfolding apply_membership_change_def
    by (simp add: c actor t m replay row acme_change_ok acme_approved acme_membership_bob rt bob revoke_bob
      write_membership_change_def acme_principals fields p one s2(1) m' ns)
      (simp add: Let_def s3(1) s4(1) require_utc_def chk_def checks_def)
  moreover have "?ch ?bob \<in> set (p6_memberships st4)" using revoked(1) by (simp add: s4(2) s3(3))
  ultimately show ?thesis using revoked(2,3) by blast
qed

theorem rights_change_by_two_witness:
  "\<exists>p \<in> set (p6_proposals acme_governed). ch_target_id p = ''bob'' \<and>
     ch_proposer_principal_id p = ''root'' \<and>
     (\<exists>d \<in> set (p6_decisions acme_governed). cd_approver_principal_id d = ''eve'' \<and>
        cd_proposal_digest d = ch_canonical_digest p)"
proof -
  obtain x st1 m' where a: "apply_membership_change acme_change ''d1''
      (acme_session ''root'' TENANT_ADMIN CHR ''3'') ''k'' (acme_digest CHR ''0'') (utc 5)
      acme_governed = Inr (x, st1)" and m': "m' \<in> set (p6_memberships st1)"
      "member_key m' = (''acme'', ''bob'')" "mb_status m' = MEMBER_REVOKED"
    using acme_applied by blast
  let ?m = "acme_member ''bob'' COLLEAGUE_USER [''ada'']"
  have m: "?m \<in> set (p6_memberships acme_governed)" "member_key m' = member_key ?m" "m' \<noteq> ?m"
    using m'(2,3) by (auto simp: acme_governed_def member_key_def acme_member_def acme_human_def
        acme_principal_def)
  from rights_change_by_two [OF acme_governed_ok do_apply_membership [OF a] m(1) m'(1) m(2,3)]
  obtain p d where "p \<in> set (p6_proposals acme_governed)" "d \<in> set (p6_decisions acme_governed)"
      "ch_target_id p = mb_principal_id ?m" "cd_proposal_digest d = ch_canonical_digest p"
    by blast
  then show ?thesis
    by (auto simp: acme_governed_def acme_change_def acme_decision_def)
qed

end
