(* ===== verification/PublicData.thy ===== *)
theory PublicData
  imports CredentialStore
begin

text \<open>
  \<^verbatim>\<open>core/serialization.py\<close>: the public form of every contract, without payload bytes and
  without secrets.  \<open>public_x\<close> is \<^verbatim>\<open>contract_to_public_data\<close> on a value of the contract \<open>x\<close>, with
  the fields \<^verbatim>\<open>_contract_items\<close> lists for it; a value of a wrong type has no public form.  Objects
  of one contract have the same keys in the same order, so their equality is that of the
  dictionaries.
\<close>

section \<open>Enumerations\<close>

fun OutsideHoursOutcome_value :: "OutsideHoursOutcome \<Rightarrow> string" where
  "OutsideHoursOutcome_value OUTSIDE_DEFER = ''defer''"
| "OutsideHoursOutcome_value OUTSIDE_NO_OP = ''no_op''"
| "OutsideHoursOutcome_value OUTSIDE_STOP = ''stop''"
| "OutsideHoursOutcome_value OUTSIDE_ESCALATE = ''escalate''"

fun Weekday_value :: "Weekday \<Rightarrow> string" where
  "Weekday_value MONDAY = ''monday''"
| "Weekday_value TUESDAY = ''tuesday''"
| "Weekday_value WEDNESDAY = ''wednesday''"
| "Weekday_value THURSDAY = ''thursday''"
| "Weekday_value FRIDAY = ''friday''"
| "Weekday_value SATURDAY = ''saturday''"
| "Weekday_value SUNDAY = ''sunday''"

fun AgendaItemState_value :: "AgendaItemState \<Rightarrow> string" where
  "AgendaItemState_value AG_PENDING = ''pending''"
| "AgendaItemState_value AG_SELECTED = ''selected''"
| "AgendaItemState_value AG_COMPLETED = ''completed''"
| "AgendaItemState_value AG_DEFERRED = ''deferred''"
| "AgendaItemState_value AG_CANCELLED = ''cancelled''"

fun ResponsibilityState_value :: "ResponsibilityState \<Rightarrow> string" where
  "ResponsibilityState_value ACTIVE = ''active''"
| "ResponsibilityState_value SUSPENDED = ''suspended''"
| "ResponsibilityState_value FULFILLED = ''fulfilled''"
| "ResponsibilityState_value RETIRED = ''retired''"

fun EffectAttemptState_value :: "EffectAttemptState \<Rightarrow> string" where
  "EffectAttemptState_value EA_PLANNED = ''planned''"
| "EffectAttemptState_value EA_STARTED = ''started''"
| "EffectAttemptState_value EA_SUCCEEDED = ''succeeded''"
| "EffectAttemptState_value EA_FAILED = ''failed''"
| "EffectAttemptState_value EA_AMBIGUOUS = ''ambiguous''"

fun WakeCycleState_value :: "WakeCycleState \<Rightarrow> string" where
  "WakeCycleState_value WK_PLANNED = ''planned''"
| "WakeCycleState_value WK_RUNNING = ''running''"
| "WakeCycleState_value WK_COMPLETED = ''completed''"
| "WakeCycleState_value WK_FAILED = ''failed''"
| "WakeCycleState_value WK_CANCELLED = ''cancelled''"

fun NotificationMode_value :: "NotificationMode \<Rightarrow> string" where
  "NotificationMode_value NOTIFICATION_ENABLED = ''enabled''"
| "NotificationMode_value NOTIFICATION_SUPPRESSED = ''suppressed''"

fun DraftLifecycle_value :: "DraftLifecycle \<Rightarrow> string" where
  "DraftLifecycle_value DRAFT_OPEN = ''draft''"
| "DraftLifecycle_value DRAFT_REVIEWABLE = ''reviewable''"
| "DraftLifecycle_value DRAFT_CONFIRMED = ''confirmed''"
| "DraftLifecycle_value DRAFT_CANCELLED = ''cancelled''"
| "DraftLifecycle_value DRAFT_STALE = ''stale''"

fun ChangeChoice_value :: "ChangeChoice \<Rightarrow> string" where
  "ChangeChoice_value CHANGE_APPROVE = ''approve''"
| "ChangeChoice_value CHANGE_REJECT = ''reject''"

fun DurableTriggerKind_value :: "DurableTriggerKind \<Rightarrow> string" where
  "DurableTriggerKind_value TRIGGER_EVENT = ''event''"
| "DurableTriggerKind_value TRIGGER_TIMER = ''timer''"

fun InputEventState_value :: "InputEventState \<Rightarrow> string" where
  "InputEventState_value EV_RECEIVED = ''received''"
| "InputEventState_value EV_ACCEPTED = ''accepted''"
| "InputEventState_value EV_REJECTED = ''rejected''"

fun ActionResultState_value :: "ActionResultState \<Rightarrow> string" where
  "ActionResultState_value AR_SUCCEEDED = ''succeeded''"
| "ActionResultState_value AR_FAILED = ''failed''"
| "ActionResultState_value AR_NOT_EXECUTED = ''not_executed''"
| "ActionResultState_value AR_RETRYABLE_FAILURE = ''retryable_failure''"
| "ActionResultState_value AR_PERMANENT_FAILURE = ''permanent_failure''"
| "ActionResultState_value AR_AMBIGUOUS = ''ambiguous''"

fun CredentialState_value :: "CredentialState \<Rightarrow> string" where
  "CredentialState_value CR_AUTHORIZED = ''authorized''"
| "CredentialState_value CR_RETRIEVED = ''retrieved''"
| "CredentialState_value CR_CONSUMED = ''consumed''"
| "CredentialState_value CR_REVOKED = ''revoked''"
| "CredentialState_value CR_EXPIRED = ''expired''"

fun DiffClassification_value :: "DiffClassification \<Rightarrow> string" where
  "DiffClassification_value DIFF_ADDED = ''added''"
| "DiffClassification_value DIFF_REMOVED = ''removed''"
| "DiffClassification_value DIFF_CHANGED = ''changed''"
| "DiffClassification_value DIFF_NARROWED = ''narrowed''"
| "DiffClassification_value DIFF_EXPANDED = ''expanded''"
| "DiffClassification_value DIFF_UNCHANGED = ''unchanged''"

fun PolicyRunState_value :: "PolicyRunState \<Rightarrow> string" where
  "PolicyRunState_value RUN_ACTIVE = ''active''"
| "PolicyRunState_value RUN_STOPPED = ''stopped''"

fun WakeBudgetPeriod_value :: "WakeBudgetPeriod \<Rightarrow> string" where
  "WakeBudgetPeriod_value PERIOD_HOUR = ''hour''"
| "WakeBudgetPeriod_value PERIOD_DAY = ''day''"
| "WakeBudgetPeriod_value PERIOD_WEEK = ''week''"

fun WorkState_value :: "WorkState \<Rightarrow> string" where
  "WorkState_value PLANNED = ''planned''"
| "WorkState_value READY = ''ready''"
| "WorkState_value IN_PROGRESS = ''in_progress''"
| "WorkState_value BLOCKED = ''blocked''"
| "WorkState_value COMPLETED = ''completed''"
| "WorkState_value CANCELLED = ''cancelled''"

fun InterruptionMode_value :: "InterruptionMode \<Rightarrow> string" where
  "InterruptionMode_value INTERRUPTION_NEVER = ''never''"
| "InterruptionMode_value INTERRUPTION_WORKING_HOURS_ONLY = ''working_hours_only''"
| "InterruptionMode_value INTERRUPTION_ALLOWED = ''allowed''"

fun StopCondition_value :: "StopCondition \<Rightarrow> string" where
  "StopCondition_value STOP_ADMIN_STOP = ''admin_stop''"
| "StopCondition_value STOP_BUDGET_EXHAUSTED = ''budget_exhausted''"
| "StopCondition_value STOP_REPEATED_FAILURE = ''repeated_failure''"
| "StopCondition_value STOP_FINITE_WORK_TERMINAL = ''finite_work_terminal''"

fun DiffSection_value :: "DiffSection \<Rightarrow> string" where
  "DiffSection_value SECTION_PROFILE = ''profile''"
| "DiffSection_value SECTION_MANDATE = ''mandate''"
| "DiffSection_value SECTION_POLICY = ''policy''"

fun DefaultSource_value :: "DefaultSource \<Rightarrow> string" where
  "DefaultSource_value P5_SYSTEM_DEFAULT = ''p5_system_default''"

fun ApprovalChoice_value :: "ApprovalChoice \<Rightarrow> string" where
  "ApprovalChoice_value APPROVE = ''approve''"
| "ApprovalChoice_value REJECT = ''reject''"

fun ChangeState_value :: "ChangeState \<Rightarrow> string" where
  "ChangeState_value CH_PENDING = ''pending''"
| "ChangeState_value CH_APPROVED = ''approved''"
| "ChangeState_value CH_REJECTED = ''rejected''"
| "ChangeState_value CH_EXPIRED = ''expired''"
| "ChangeState_value CH_STALE = ''stale''"
| "ChangeState_value CH_APPLIED = ''applied''"

fun DecisionKind_value :: "DecisionKind \<Rightarrow> string" where
  "DecisionKind_value PROPOSE_EFFECT = ''propose_effect''"
| "DecisionKind_value COMPLETE_ITEM = ''complete_item''"
| "DecisionKind_value DEFER_ITEM = ''defer_item''"
| "DecisionKind_value NO_ACTION = ''no_action''"

fun ProactivityMode_value :: "ProactivityMode \<Rightarrow> string" where
  "ProactivityMode_value PROACTIVITY_DISABLED = ''disabled''"
| "ProactivityMode_value PROACTIVITY_BOUNDED = ''bounded''"

fun TimerOccurrenceState_value :: "TimerOccurrenceState \<Rightarrow> string" where
  "TimerOccurrenceState_value TM_SCHEDULED = ''scheduled''"
| "TimerOccurrenceState_value TM_DUE = ''due''"

fun ObligationState_value :: "ObligationState \<Rightarrow> string" where
  "ObligationState_value OB_PENDING = ''pending''"
| "ObligationState_value OB_IN_PROGRESS = ''in_progress''"
| "ObligationState_value OB_SATISFIED = ''satisfied''"
| "ObligationState_value OB_WAIVED = ''waived''"
| "ObligationState_value OB_OVERDUE = ''overdue''"

section \<open>Contracts\<close>

definition public_datetime :: "datetime \<Rightarrow> json" where
  "public_datetime t = JStr (datetime_to_canonical_z t)"

definition public_list :: "('a \<Rightarrow> json) \<Rightarrow> 'a list \<Rightarrow> json" where
  "public_list f xs = JList (map f xs)"

definition public_namespace :: "Namespace \<Rightarrow> json" where
  "public_namespace v = JObj
     [(''tenant_id'', JStr (ns_tenant_id v)),
      (''scope'', JStr (NamespaceScope_value (ns_scope v))),
      (''scope_id'', opt_json JStr (ns_scope_id v))]"

definition public_audit_export_query :: "AuditExportQuery \<Rightarrow> json" where
  "public_audit_export_query v = JObj
     [(''namespace'', public_namespace (aq_namespace v)),
      (''start_at'', public_datetime (aq_start_at v)),
      (''end_at'', public_datetime (aq_end_at v)),
      (''record_types'', public_list JStr (aq_record_types v)), (''limit'', JInt (aq_limit v)),
      (''schema_version'', JInt (aq_schema_version v))]"

definition public_principal :: "Principal \<Rightarrow> json" where
  "public_principal v = JObj
     [(''namespace'', public_namespace (pr_namespace v)),
      (''principal_id'', JStr (pr_principal_id v)),
      (''kind'', JStr (PrincipalKind_value (pr_kind v))),
      (''roles'', public_list (JStr \<circ> HumanRole_value) (pr_roles v)),
      (''revision'', JInt (pr_revision v)), (''schema_version'', JInt (pr_schema_version v))]"

definition public_membership :: "Membership \<Rightarrow> json" where
  "public_membership v = JObj
     [(''namespace'', public_namespace (mb_namespace v)),
      (''membership_id'', JStr (mb_membership_id v)),
      (''principal_id'', JStr (mb_principal_id v)),
      (''roles'', public_list (JStr \<circ> HumanRole_value) (mb_roles v)),
      (''colleague_ids'', public_list JStr (mb_colleague_ids v)),
      (''status'', JStr (MembershipStatus_value (mb_status v))),
      (''role_revision'', JInt (mb_role_revision v)),
      (''membership_revision'', JInt (mb_membership_revision v)),
      (''issued_by'', public_principal (mb_issued_by v)),
      (''created_at'', public_datetime (mb_created_at v)),
      (''updated_at'', public_datetime (mb_updated_at v)),
      (''correlation_id'', JStr (mb_correlation_id v)),
      (''causation_id'', JStr (mb_causation_id v)), (''revision'', JInt (mb_revision v)),
      (''schema_version'', JInt (mb_schema_version v))]"

definition public_credential :: "GovernanceCredential \<Rightarrow> json" where
  "public_credential v = JObj
     [(''namespace'', public_namespace (gc_namespace v)),
      (''credential_id'', JStr (gc_credential_id v)),
      (''kind'', JStr (CredentialKind_value (gc_kind v))),
      (''state'', JStr (CredentialState_value (gc_state v))),
      (''target_principal_id'', opt_json JStr (gc_target_principal_id v)),
      (''target_role_revision'', opt_json JInt (gc_target_role_revision v)),
      (''target_membership_revision'', opt_json JInt (gc_target_membership_revision v)),
      (''target_role'', opt_json (JStr \<circ> HumanRole_value) (gc_target_role v)),
      (''colleague_ids'', public_list JStr (gc_colleague_ids v)),
      (''bootstrap_transition'', JBool (gc_bootstrap_transition v)),
      (''issued_by_principal_id'', JStr (gc_issued_by_principal_id v)),
      (''issued_at'', public_datetime (gc_issued_at v)),
      (''expires_at'', public_datetime (gc_expires_at v)),
      (''change_decision_id'', opt_json JStr (gc_change_decision_id v)),
      (''retrieved_at'', opt_json public_datetime (gc_retrieved_at v)),
      (''consumed_at'', opt_json public_datetime (gc_consumed_at v)),
      (''revoked_at'', opt_json public_datetime (gc_revoked_at v)),
      (''consumed_principal_id'', opt_json JStr (gc_consumed_principal_id v)),
      (''revision'', JInt (gc_revision v)), (''schema_version'', JInt (gc_schema_version v))]"

definition public_change_proposal :: "ChangeProposal \<Rightarrow> json" where
  "public_change_proposal v = JObj
     [(''namespace'', public_namespace (ch_namespace v)),
      (''proposal_id'', JStr (ch_proposal_id v)),
      (''change_kind'', JStr (ChangeKind_value (ch_change_kind v))),
      (''target_id'', JStr (ch_target_id v)),
      (''target_revision'', JInt (ch_target_revision v)),
      (''canonical_digest'', JStr (ch_canonical_digest v)),
      (''base_profile_revision'', JInt (ch_base_profile_revision v)),
      (''base_mandate_revision'', JInt (ch_base_mandate_revision v)),
      (''base_policy_revision'', JInt (ch_base_policy_revision v)),
      (''proposed_role'', opt_json (JStr \<circ> HumanRole_value) (ch_proposed_role v)),
      (''proposed_status'', opt_json (JStr \<circ> MembershipStatus_value) (ch_proposed_status v)),
      (''proposed_colleague_ids'', public_list JStr (ch_proposed_colleague_ids v)),
      (''proposer_principal_id'', JStr (ch_proposer_principal_id v)),
      (''proposer_role_revision'', JInt (ch_proposer_role_revision v)),
      (''proposer_membership_revision'', JInt (ch_proposer_membership_revision v)),
      (''issued_at'', public_datetime (ch_issued_at v)),
      (''expires_at'', public_datetime (ch_expires_at v)),
      (''state'', JStr (ChangeState_value (ch_state v))),
      (''decision_id'', opt_json JStr (ch_decision_id v)),
      (''consumed_at'', opt_json public_datetime (ch_consumed_at v)),
      (''revision'', JInt (ch_revision v)), (''correlation_id'', JStr (ch_correlation_id v)),
      (''causation_id'', JStr (ch_causation_id v)),
      (''schema_version'', JInt (ch_schema_version v))]"

definition public_change_decision :: "ChangeDecision \<Rightarrow> json" where
  "public_change_decision v = JObj
     [(''namespace'', public_namespace (cd_namespace v)),
      (''decision_id'', JStr (cd_decision_id v)), (''proposal_id'', JStr (cd_proposal_id v)),
      (''proposal_revision'', JInt (cd_proposal_revision v)),
      (''proposal_digest'', JStr (cd_proposal_digest v)),
      (''choice'', JStr (ChangeChoice_value (cd_choice v))),
      (''approver_principal_id'', JStr (cd_approver_principal_id v)),
      (''approver_role_revision'', JInt (cd_approver_role_revision v)),
      (''approver_membership_revision'', JInt (cd_approver_membership_revision v)),
      (''occurred_at'', public_datetime (cd_occurred_at v)),
      (''valid_until'', public_datetime (cd_valid_until v)),
      (''consumed_at'', opt_json public_datetime (cd_consumed_at v)),
      (''revision'', JInt (cd_revision v)), (''correlation_id'', JStr (cd_correlation_id v)),
      (''causation_id'', JStr (cd_causation_id v)),
      (''schema_version'', JInt (cd_schema_version v))]"

definition public_audit_export_record :: "AuditExportRecord \<Rightarrow> json" where
  "public_audit_export_record v = JObj
     [(''namespace'', public_namespace (ax_namespace v)),
      (''record_type'', JStr (ax_record_type v)), (''record_id'', JStr (ax_record_id v)),
      (''record_revision'', JInt (ax_record_revision v)), (''action'', JStr (ax_action v)),
      (''result'', JStr (ax_result v)),
      (''actor_principal_id'', JStr (ax_actor_principal_id v)),
      (''actor_kind'', JStr (PrincipalKind_value (ax_actor_kind v))),
      (''authority_revision'', JStr (ax_authority_revision v)),
      (''correlation_id'', JStr (ax_correlation_id v)),
      (''causation_id'', JStr (ax_causation_id v)),
      (''occurred_at'', public_datetime (ax_occurred_at v)),
      (''safe_digest'', JStr (ax_safe_digest v)),
      (''safe_projection'', JObj (ax_safe_projection v)),
      (''schema_version'', JInt (ax_schema_version v))]"

definition public_profile :: "Profile \<Rightarrow> json" where
  "public_profile v = JObj
     [(''namespace'', public_namespace (pf_namespace v)),
      (''profile_id'', JStr (pf_profile_id v)), (''display_name'', JStr (pf_display_name v)),
      (''description'', JStr (pf_description v)), (''presentation'', JObj (pf_presentation v)),
      (''revision'', JInt (pf_revision v)),
      (''updated_by'', public_principal (pf_updated_by v)),
      (''updated_at'', public_datetime (pf_updated_at v)),
      (''schema_version'', JInt (pf_schema_version v))]"

definition public_responsibility_definition :: "ResponsibilityDefinition \<Rightarrow> json" where
  "public_responsibility_definition v = JObj
     [(''responsibility_id'', JStr (rd_responsibility_id v)),
      (''description'', JStr (rd_description v)),
      (''obligations'', public_list JStr (rd_obligations v)),
      (''completion_conditions'', public_list JStr (rd_completion_conditions v))]"

definition public_capability_grant :: "CapabilityGrant \<Rightarrow> json" where
  "public_capability_grant v = JObj
     [(''capability_id'', JStr (cg_capability_id v)),
      (''description'', JStr (cg_description v))]"

definition public_constraint :: "Constraint \<Rightarrow> json" where
  "public_constraint v = JObj
     [(''constraint_id'', JStr (cn_constraint_id v)),
      (''description'', JStr (cn_description v))]"

definition public_effect_boundary :: "EffectBoundary \<Rightarrow> json" where
  "public_effect_boundary v = JObj
     [(''boundary_id'', JStr (eb_boundary_id v)),
      (''effect_kind'', JStr (EffectKind_value (eb_effect_kind v))),
      (''allowed_destination_kinds'', public_list JStr (eb_allowed_destination_kinds v)),
      (''allowed_actions'', public_list JStr (eb_allowed_actions v)),
      (''constraints'', JObj (eb_constraints v)),
      (''human_approval_required'', JBool (eb_human_approval_required v))]"

definition public_mandate :: "Mandate \<Rightarrow> json" where
  "public_mandate v = JObj
     [(''namespace'', public_namespace (md_namespace v)),
      (''mandate_id'', JStr (md_mandate_id v)), (''mission'', JStr (md_mission v)),
      (''service_relationship'', JStr (md_service_relationship v)),
      (''responsibilities'', public_list public_responsibility_definition (md_responsibilities v)),
      (''capabilities'', public_list public_capability_grant (md_capabilities v)),
      (''constraints'', public_list public_constraint (md_constraints v)),
      (''working_context'', JObj (md_working_context v)),
      (''effect_boundaries'', public_list public_effect_boundary (md_effect_boundaries v)),
      (''revision'', JInt (md_revision v)), (''issued_by'', public_principal (md_issued_by v)),
      (''effective_at'', public_datetime (md_effective_at v)),
      (''schema_version'', JInt (md_schema_version v))]"

definition public_weekly_window :: "WeeklyWindow \<Rightarrow> json" where
  "public_weekly_window v = JObj
     [(''weekday'', JStr (Weekday_value (ww_weekday v))),
      (''start_minute'', JInt (ww_start_minute v)), (''end_minute'', JInt (ww_end_minute v))]"

definition public_wake_budget :: "WakeBudget \<Rightarrow> json" where
  "public_wake_budget v = JObj
     [(''limit'', JInt (wb_limit v)),
      (''period'', JStr (WakeBudgetPeriod_value (wb_period v)))]"

definition public_policy :: "ColleaguePolicy \<Rightarrow> json" where
  "public_policy v = JObj
     [(''namespace'', public_namespace (cp_namespace v)),
      (''policy_id'', JStr (cp_policy_id v)), (''mandate_id'', JStr (cp_mandate_id v)),
      (''mandate_revision'', JInt (cp_mandate_revision v)),
      (''timezone'', JStr (cp_timezone v)),
      (''weekly_windows'', public_list public_weekly_window (cp_weekly_windows v)),
      (''allowed_triggers'', public_list (JStr \<circ> DurableTriggerKind_value) (cp_allowed_triggers v)),
      (''proactivity'', JStr (ProactivityMode_value (cp_proactivity v))),
      (''notification'', JStr (NotificationMode_value (cp_notification v))),
      (''interruption'', JStr (InterruptionMode_value (cp_interruption v))),
      (''wake_budget'', public_wake_budget (cp_wake_budget v)),
      (''outside_hours'', JStr (OutsideHoursOutcome_value (cp_outside_hours v))),
      (''stop_conditions'', public_list (JStr \<circ> StopCondition_value) (cp_stop_conditions v)),
      (''escalation_conditions'', public_list (JStr \<circ> EscalationCondition_value) (cp_escalation_conditions v)),
      (''failure_limit'', JInt (cp_failure_limit v)),
      (''run_state'', JStr (PolicyRunState_value (cp_run_state v))),
      (''revision'', JInt (cp_revision v)), (''issued_by'', public_principal (cp_issued_by v)),
      (''effective_at'', public_datetime (cp_effective_at v)),
      (''schema_version'', JInt (cp_schema_version v))]"

definition public_policy_enforcement_record :: "PolicyEnforcementRecord \<Rightarrow> json" where
  "public_policy_enforcement_record v = JObj
     [(''namespace'', public_namespace (pe_namespace v)),
      (''outcome_id'', JStr (pe_outcome_id v)), (''policy_id'', JStr (pe_policy_id v)),
      (''policy_revision'', JInt (pe_policy_revision v)),
      (''mandate_id'', JStr (pe_mandate_id v)),
      (''mandate_revision'', JInt (pe_mandate_revision v)),
      (''stage'', JStr (PolicyStage_value (pe_stage v))),
      (''outcome'', JStr (PolicyOutcomeKind_value (pe_outcome v))),
      (''trigger_class'', opt_json (JStr \<circ> DurableTriggerKind_value) (pe_trigger_class v)),
      (''source_id'', opt_json JStr (pe_source_id v)),
      (''actor'', public_principal (pe_actor v)),
      (''correlation_id'', JStr (pe_correlation_id v)),
      (''causation_id'', JStr (pe_causation_id v)),
      (''occurred_at'', public_datetime (pe_occurred_at v)),
      (''safe_projection'', JObj (pe_safe_projection v)),
      (''payload_digest'', JStr (pe_payload_digest v)),
      (''schema_version'', JInt (pe_schema_version v))]"

definition public_escalation_record :: "EscalationRecord \<Rightarrow> json" where
  "public_escalation_record v = JObj
     [(''namespace'', public_namespace (es_namespace v)),
      (''escalation_id'', JStr (es_escalation_id v)), (''policy_id'', JStr (es_policy_id v)),
      (''policy_revision'', JInt (es_policy_revision v)),
      (''condition'', JStr (EscalationCondition_value (es_condition v))),
      (''safe_summary'', JStr (es_safe_summary v)), (''actor'', public_principal (es_actor v)),
      (''correlation_id'', JStr (es_correlation_id v)),
      (''causation_id'', JStr (es_causation_id v)),
      (''occurred_at'', public_datetime (es_occurred_at v)),
      (''revision'', JInt (es_revision v)), (''schema_version'', JInt (es_schema_version v))]"

definition public_explicit_default :: "ExplicitDefault \<Rightarrow> json" where
  "public_explicit_default v = JObj
     [(''path'', JStr (xd_path v)), (''value'', JObj (xd_value v)),
      (''source'', JStr (DefaultSource_value (xd_source v)))]"

definition public_draft_diff_item :: "DraftDiffItem \<Rightarrow> json" where
  "public_draft_diff_item v = JObj
     [(''section'', JStr (DiffSection_value (di_section v))), (''path'', JStr (di_path v)),
      (''classification'', JStr (DiffClassification_value (di_classification v))),
      (''before'', JObj (di_before v)), (''after'', JObj (di_after v)),
      (''authoritative'', JBool (di_authoritative v))]"

definition public_draft :: "ColleagueDraft \<Rightarrow> json" where
  "public_draft v = JObj
     [(''namespace'', public_namespace (ColleagueDraft.df_namespace v)),
      (''draft_id'', JStr (ColleagueDraft.df_draft_id v)),
      (''revision'', JInt (ColleagueDraft.df_revision v)),
      (''base_profile_id'', JStr (ColleagueDraft.df_base_profile_id v)),
      (''base_profile_revision'', JInt (ColleagueDraft.df_base_profile_revision v)),
      (''base_mandate_id'', JStr (ColleagueDraft.df_base_mandate_id v)),
      (''base_mandate_revision'', JInt (ColleagueDraft.df_base_mandate_revision v)),
      (''base_policy_id'', opt_json JStr (ColleagueDraft.df_base_policy_id v)),
      (''base_policy_revision'', JInt (ColleagueDraft.df_base_policy_revision v)),
      (''proposed_profile'', public_profile (ColleagueDraft.df_proposed_profile v)),
      (''proposed_mandate'', public_mandate (ColleagueDraft.df_proposed_mandate v)),
      (''proposed_policy'', public_policy (ColleagueDraft.df_proposed_policy v)),
      (''explicit_defaults'', public_list public_explicit_default (ColleagueDraft.df_explicit_defaults v)),
      (''diff'', public_list public_draft_diff_item (ColleagueDraft.df_diff v)),
      (''canonical_digest'', JStr (ColleagueDraft.df_canonical_digest v)),
      (''state'', JStr (DraftLifecycle_value (ColleagueDraft.df_state v))),
      (''author'', public_principal (ColleagueDraft.df_author v)),
      (''created_at'', public_datetime (ColleagueDraft.df_created_at v)),
      (''updated_at'', public_datetime (ColleagueDraft.df_updated_at v)),
      (''correlation_id'', JStr (ColleagueDraft.df_correlation_id v)),
      (''causation_id'', JStr (ColleagueDraft.df_causation_id v)),
      (''schema_version'', JInt (ColleagueDraft.df_schema_version v))]"

definition public_identity_card :: "IdentityCard \<Rightarrow> json" where
  "public_identity_card v = JObj
     [(''namespace'', public_namespace (ic_namespace v)),
      (''profile_id'', JStr (ic_profile_id v)),
      (''profile_revision'', JInt (ic_profile_revision v)),
      (''display_name'', JStr (ic_display_name v)), (''description'', JStr (ic_description v)),
      (''mandate_id'', JStr (ic_mandate_id v)),
      (''mandate_revision'', JInt (ic_mandate_revision v)), (''mission'', JStr (ic_mission v)),
      (''responsibility_summaries'', public_list JStr (ic_responsibility_summaries v)),
      (''capability_summaries'', public_list JStr (ic_capability_summaries v)),
      (''schema_version'', JInt (ic_schema_version v))]"

definition public_mandate_authority_diff :: "MandateAuthorityDiff \<Rightarrow> json" where
  "public_mandate_authority_diff v = JObj
     [(''namespace'', public_namespace (MandateAuthorityDiff.df_namespace v)),
      (''mandate_id'', JStr (MandateAuthorityDiff.df_mandate_id v)),
      (''from_revision'', JInt (MandateAuthorityDiff.df_from_revision v)),
      (''to_revision'', JInt (MandateAuthorityDiff.df_to_revision v)),
      (''mission_changed'', JBool (MandateAuthorityDiff.df_mission_changed v)),
      (''service_relationship_changed'', JBool (MandateAuthorityDiff.df_service_relationship_changed v)),
      (''working_context_changed'', JBool (MandateAuthorityDiff.df_working_context_changed v)),
      (''added_responsibility_ids'', public_list JStr (fst (MandateAuthorityDiff.df_responsibility_ids v))),
      (''removed_responsibility_ids'', public_list JStr (fst (snd (MandateAuthorityDiff.df_responsibility_ids v)))),
      (''changed_responsibility_ids'', public_list JStr (snd (snd (MandateAuthorityDiff.df_responsibility_ids v)))),
      (''added_capability_ids'', public_list JStr (fst (MandateAuthorityDiff.df_capability_ids v))),
      (''removed_capability_ids'', public_list JStr (fst (snd (MandateAuthorityDiff.df_capability_ids v)))),
      (''changed_capability_ids'', public_list JStr (snd (snd (MandateAuthorityDiff.df_capability_ids v)))),
      (''added_constraint_ids'', public_list JStr (fst (MandateAuthorityDiff.df_constraint_ids v))),
      (''removed_constraint_ids'', public_list JStr (fst (snd (MandateAuthorityDiff.df_constraint_ids v)))),
      (''changed_constraint_ids'', public_list JStr (snd (snd (MandateAuthorityDiff.df_constraint_ids v)))),
      (''added_effect_boundary_ids'', public_list JStr (fst (MandateAuthorityDiff.df_effect_boundary_ids v))),
      (''removed_effect_boundary_ids'', public_list JStr (fst (snd (MandateAuthorityDiff.df_effect_boundary_ids v)))),
      (''changed_effect_boundary_ids'', public_list JStr (snd (snd (MandateAuthorityDiff.df_effect_boundary_ids v)))),
      (''schema_version'', JInt (MandateAuthorityDiff.df_schema_version v))]"

definition public_effect_destination :: "EffectDestination \<Rightarrow> json" where
  "public_effect_destination v = JObj
     [(''kind'', JStr (ed_kind v)), (''target'', JStr (ed_target v))]"

definition public_effect_constraints :: "EffectConstraints \<Rightarrow> json" where
  "public_effect_constraints v = JObj
     [(''boundary_id'', JStr (ec_boundary_id v)),
      (''idempotency_key'', JStr (ec_idempotency_key v)),
      (''valid_until'', public_datetime (ec_valid_until v)),
      (''maximum_attempts'', JInt (ec_maximum_attempts v)),
      (''parameters'', JObj (ec_parameters v))]"

definition public_effect_proposal :: "EffectProposal \<Rightarrow> json" where
  "public_effect_proposal v = JObj
     [(''namespace'', public_namespace (ep_namespace v)),
      (''proposal_id'', JStr (ep_proposal_id v)), (''decision_id'', JStr (ep_decision_id v)),
      (''effect_kind'', JStr (EffectKind_value (ep_effect_kind v))),
      (''destination'', public_effect_destination (ep_destination v)),
      (''action'', JStr (ep_action v)), (''safe_projection'', JObj (ep_safe_projection v)),
      (''constraints'', public_effect_constraints (ep_constraints v)),
      (''state'', JStr (EffectProposalState_value (ep_state v))),
      (''actor'', public_principal (ep_actor v)),
      (''correlation_id'', JStr (ep_correlation_id v)),
      (''causation_id'', JStr (ep_causation_id v)),
      (''occurred_at'', public_datetime (ep_occurred_at v)),
      (''revision'', JInt (ep_revision v)), (''schema_version'', JInt (ep_schema_version v)),
      (''mandate_id'', opt_json JStr (ep_mandate_id v)),
      (''mandate_revision'', opt_json JInt (ep_mandate_revision v)),
      (''policy_id'', opt_json JStr (ep_policy_id v)),
      (''policy_revision'', opt_json JInt (ep_policy_revision v)),
      (''payload_digest'', JStr (ep_payload_digest v)),
      (''proposal_digest'', JStr (ep_proposal_digest v))]"

definition public_human_approval_decision :: "HumanApprovalDecision \<Rightarrow> json" where
  "public_human_approval_decision v = JObj
     [(''namespace'', public_namespace (ha_namespace v)),
      (''approval_decision_id'', JStr (ha_approval_decision_id v)),
      (''proposal_id'', JStr (ha_proposal_id v)),
      (''proposal_revision'', JInt (ha_proposal_revision v)),
      (''proposal_payload_digest'', JStr (ha_proposal_payload_digest v)),
      (''proposal_digest'', JStr (ha_proposal_digest v)),
      (''choice'', JStr (ApprovalChoice_value (ha_choice v))),
      (''author'', public_principal (ha_author v)),
      (''idempotency_key'', JStr (ha_idempotency_key v)),
      (''correlation_id'', JStr (ha_correlation_id v)),
      (''causation_id'', JStr (ha_causation_id v)),
      (''occurred_at'', public_datetime (ha_occurred_at v)),
      (''valid_until'', public_datetime (ha_valid_until v)),
      (''revision'', JInt (ha_revision v)), (''schema_version'', JInt (ha_schema_version v))]"

definition public_effect_attempt :: "EffectAttempt \<Rightarrow> json" where
  "public_effect_attempt v = JObj
     [(''namespace'', public_namespace (ea_namespace v)),
      (''effect_attempt_id'', JStr (ea_effect_attempt_id v)),
      (''proposal_id'', JStr (ea_proposal_id v)),
      (''proposal_revision'', JInt (ea_proposal_revision v)),
      (''approval_decision_id'', JStr (ea_approval_decision_id v)),
      (''attempt_number'', JInt (ea_attempt_number v)),
      (''state'', JStr (EffectAttemptState_value (ea_state v))),
      (''actor'', public_principal (ea_actor v)),
      (''correlation_id'', JStr (ea_correlation_id v)),
      (''causation_id'', JStr (ea_causation_id v)),
      (''occurred_at'', public_datetime (ea_occurred_at v)),
      (''revision'', JInt (ea_revision v)), (''schema_version'', JInt (ea_schema_version v))]"

definition public_action_result :: "ActionResult \<Rightarrow> json" where
  "public_action_result v = JObj
     [(''namespace'', public_namespace (ar_namespace v)),
      (''action_result_id'', JStr (ar_action_result_id v)),
      (''effect_attempt_id'', JStr (ar_effect_attempt_id v)),
      (''state'', JStr (ActionResultState_value (ar_state v))),
      (''safe_projection'', JObj (ar_safe_projection v)),
      (''result_digest'', JStr (ar_result_digest v)),
      (''actor'', public_principal (ar_actor v)),
      (''correlation_id'', JStr (ar_correlation_id v)),
      (''causation_id'', JStr (ar_causation_id v)),
      (''occurred_at'', public_datetime (ar_occurred_at v)),
      (''revision'', JInt (ar_revision v)), (''schema_version'', JInt (ar_schema_version v))]"

definition public_input_event :: "InputEvent \<Rightarrow> json" where
  "public_input_event v = JObj
     [(''namespace'', public_namespace (ev_namespace v)), (''event_id'', JStr (ev_event_id v)),
      (''event_type'', JStr (ev_event_type v)),
      (''state'', JStr (InputEventState_value (ev_state v))),
      (''safe_projection'', JObj (ev_safe_projection v)),
      (''payload_digest'', JStr (ev_payload_digest v)),
      (''actor'', public_principal (ev_actor v)),
      (''correlation_id'', JStr (ev_correlation_id v)),
      (''causation_id'', opt_json JStr (ev_causation_id v)),
      (''occurred_at'', public_datetime (ev_occurred_at v)),
      (''revision'', JInt (ev_revision v)), (''schema_version'', JInt (ev_schema_version v)),
      (''policy_id'', opt_json JStr (ev_policy_id v)),
      (''policy_revision'', opt_json JInt (ev_policy_revision v))]"

definition public_timer_occurrence :: "TimerOccurrence \<Rightarrow> json" where
  "public_timer_occurrence v = JObj
     [(''namespace'', public_namespace (tm_namespace v)), (''timer_id'', JStr (tm_timer_id v)),
      (''occurrence_id'', JStr (tm_occurrence_id v)),
      (''state'', JStr (TimerOccurrenceState_value (tm_state v))),
      (''due_at'', public_datetime (tm_due_at v)),
      (''safe_projection'', JObj (tm_safe_projection v)),
      (''actor'', public_principal (tm_actor v)),
      (''correlation_id'', JStr (tm_correlation_id v)),
      (''causation_id'', opt_json JStr (tm_causation_id v)),
      (''occurred_at'', public_datetime (tm_occurred_at v)),
      (''revision'', JInt (tm_revision v)), (''schema_version'', JInt (tm_schema_version v)),
      (''policy_id'', opt_json JStr (tm_policy_id v)),
      (''policy_revision'', opt_json JInt (tm_policy_revision v))]"

definition public_wake_cycle :: "WakeCycle \<Rightarrow> json" where
  "public_wake_cycle v = JObj
     [(''namespace'', public_namespace (wk_namespace v)),
      (''wake_cycle_id'', JStr (wk_wake_cycle_id v)),
      (''state'', JStr (WakeCycleState_value (wk_state v))),
      (''trigger_event_ids'', public_list JStr (wk_trigger_event_ids v)),
      (''agenda_item_ids'', public_list JStr (wk_agenda_item_ids v)),
      (''actor'', public_principal (wk_actor v)),
      (''correlation_id'', JStr (wk_correlation_id v)),
      (''causation_id'', opt_json JStr (wk_causation_id v)),
      (''occurred_at'', public_datetime (wk_occurred_at v)),
      (''revision'', JInt (wk_revision v)), (''schema_version'', JInt (wk_schema_version v)),
      (''fencing_token'', JInt (wk_fencing_token v)),
      (''checkpoint_generation'', JInt (wk_checkpoint_generation v)),
      (''trigger_timer_occurrence_ids'', public_list JStr (wk_trigger_timer_occurrence_ids v)),
      (''policy_id'', opt_json JStr (wk_policy_id v)),
      (''policy_revision'', opt_json JInt (wk_policy_revision v))]"

definition public_agenda_item :: "AgendaItem \<Rightarrow> json" where
  "public_agenda_item v = JObj
     [(''namespace'', public_namespace (ag_namespace v)),
      (''agenda_item_id'', JStr (ag_agenda_item_id v)),
      (''wake_cycle_id'', JStr (ag_wake_cycle_id v)),
      (''source_event_id'', opt_json JStr (ag_source_event_id v)),
      (''work_id'', opt_json JStr (ag_work_id v)), (''title'', JStr (ag_title v)),
      (''state'', JStr (AgendaItemState_value (ag_state v))),
      (''priority'', JInt (ag_priority v)),
      (''due_at'', opt_json public_datetime (ag_due_at v)),
      (''actor'', public_principal (ag_actor v)),
      (''correlation_id'', JStr (ag_correlation_id v)),
      (''causation_id'', JStr (ag_causation_id v)),
      (''occurred_at'', public_datetime (ag_occurred_at v)),
      (''revision'', JInt (ag_revision v)), (''schema_version'', JInt (ag_schema_version v)),
      (''generation'', JInt (ag_generation v)),
      (''handled_generation'', JInt (ag_handled_generation v)),
      (''cause_ids'', public_list JStr (ag_cause_ids v)),
      (''source_timer_occurrence_id'', opt_json JStr (ag_source_timer_occurrence_id v)),
      (''policy_id'', opt_json JStr (ag_policy_id v)),
      (''policy_revision'', opt_json JInt (ag_policy_revision v))]"

definition public_decision :: "Decision \<Rightarrow> json" where
  "public_decision v = JObj
     [(''namespace'', public_namespace (dc_namespace v)),
      (''decision_id'', JStr (dc_decision_id v)),
      (''wake_cycle_id'', JStr (dc_wake_cycle_id v)),
      (''agenda_item_id'', JStr (dc_agenda_item_id v)),
      (''kind'', JStr (DecisionKind_value (dc_kind v))), (''rationale'', JStr (dc_rationale v)),
      (''proposed_effect_id'', opt_json JStr (dc_proposed_effect_id v)),
      (''actor'', public_principal (dc_actor v)),
      (''correlation_id'', JStr (dc_correlation_id v)),
      (''causation_id'', JStr (dc_causation_id v)),
      (''occurred_at'', public_datetime (dc_occurred_at v)),
      (''revision'', JInt (dc_revision v)), (''schema_version'', JInt (dc_schema_version v)),
      (''policy_id'', opt_json JStr (dc_policy_id v)),
      (''policy_revision'', opt_json JInt (dc_policy_revision v))]"

definition public_completion_evidence :: "CompletionEvidence \<Rightarrow> json" where
  "public_completion_evidence v = JObj
     [(''evidence_id'', JStr (ce_evidence_id v)), (''kind'', JStr (ce_kind v)),
      (''safe_summary'', JStr (ce_safe_summary v)),
      (''observed_at'', public_datetime (ce_observed_at v)),
      (''actor'', public_principal (ce_actor v)),
      (''schema_version'', JInt (ce_schema_version v))]"

definition public_finite_work :: "FiniteWork \<Rightarrow> json" where
  "public_finite_work v = JObj
     [(''namespace'', public_namespace (fw_namespace v)), (''work_id'', JStr (fw_work_id v)),
      (''title'', JStr (fw_title v)), (''description'', JStr (fw_description v)),
      (''state'', JStr (WorkState_value (fw_state v))),
      (''dependency_ids'', public_list JStr (fw_dependency_ids v)),
      (''responsibility_ids'', public_list JStr (fw_responsibility_ids v)),
      (''assignee_principal_id'', JStr (fw_assignee_principal_id v)),
      (''actor'', public_principal (fw_actor v)), (''mandate_id'', JStr (fw_mandate_id v)),
      (''mandate_revision'', JInt (fw_mandate_revision v)),
      (''completion_evidence'', public_list public_completion_evidence (fw_completion_evidence v)),
      (''correlation_id'', JStr (fw_correlation_id v)),
      (''causation_id'', opt_json JStr (fw_causation_id v)),
      (''created_at'', public_datetime (fw_created_at v)),
      (''updated_at'', public_datetime (fw_updated_at v)), (''revision'', JInt (fw_revision v)),
      (''schema_version'', JInt (fw_schema_version v))]"

definition public_responsibility :: "Responsibility \<Rightarrow> json" where
  "public_responsibility v = JObj
     [(''namespace'', public_namespace (re_namespace v)),
      (''responsibility_id'', JStr (re_responsibility_id v)),
      (''mandate_id'', JStr (re_mandate_id v)),
      (''mandate_revision'', JInt (re_mandate_revision v)),
      (''description'', JStr (re_description v)),
      (''owner_principal_id'', JStr (re_owner_principal_id v)),
      (''state'', JStr (ResponsibilityState_value (re_state v))),
      (''actor'', public_principal (re_actor v)),
      (''correlation_id'', JStr (re_correlation_id v)),
      (''causation_id'', opt_json JStr (re_causation_id v)),
      (''created_at'', public_datetime (re_created_at v)),
      (''updated_at'', public_datetime (re_updated_at v)), (''revision'', JInt (re_revision v)),
      (''schema_version'', JInt (re_schema_version v))]"

definition public_obligation :: "Obligation \<Rightarrow> json" where
  "public_obligation v = JObj
     [(''namespace'', public_namespace (ob_namespace v)),
      (''obligation_id'', JStr (ob_obligation_id v)),
      (''responsibility_id'', JStr (ob_responsibility_id v)),
      (''description'', JStr (ob_description v)),
      (''state'', JStr (ObligationState_value (ob_state v))),
      (''due_at'', opt_json public_datetime (ob_due_at v)),
      (''work_id'', opt_json JStr (ob_work_id v)),
      (''resolution_evidence'', public_list public_completion_evidence (ob_resolution_evidence v)),
      (''actor'', public_principal (ob_actor v)),
      (''correlation_id'', JStr (ob_correlation_id v)),
      (''causation_id'', opt_json JStr (ob_causation_id v)),
      (''created_at'', public_datetime (ob_created_at v)),
      (''updated_at'', public_datetime (ob_updated_at v)), (''revision'', JInt (ob_revision v)),
      (''schema_version'', JInt (ob_schema_version v))]"

end
