(* ===== verification/DraftDiff.thy ===== *)
theory DraftDiff
  imports PublicData
begin

text \<open>
  \<^verbatim>\<open>application/p5_services.py\<close>, \<^verbatim>\<open>build_draft_diff\<close>: the reviewable difference between the active
  Profile, Mandate and policy of a colleague and the proposed ones, computed on their public data.
\<close>

section \<open>The content of a contract\<close>

text \<open>\<^verbatim>\<open>data[key]\<close> of the public data of a contract; \<^verbatim>\<open>{}.get(key)\<close>, for no policy, is None.\<close>

definition data_field :: "json \<Rightarrow> string \<Rightarrow> json" where
  "data_field v key = (case v of
      JObj es \<Rightarrow> (case json_get es key of Some x \<Rightarrow> x | None \<Rightarrow> JNull) | _ \<Rightarrow> JNull)"

definition content_fields :: "string list \<Rightarrow> json \<Rightarrow> json" where
  "content_fields keys data = JObj (map (\<lambda>key. (key, data_field data key)) keys)"

definition profile_content :: "Profile \<Rightarrow> json" where
  "profile_content p = content_fields [''display_name'', ''description'', ''presentation'']
     (public_profile p)"

definition mandate_content :: "Mandate \<Rightarrow> json" where
  "mandate_content m = content_fields
     [''mission'', ''service_relationship'', ''responsibilities'', ''capabilities'', ''constraints'',
      ''working_context'', ''effect_boundaries''] (public_mandate m)"

definition policy_content :: "ColleaguePolicy \<Rightarrow> json" where
  "policy_content p = content_fields
     [''mandate_id'', ''mandate_revision'', ''timezone'', ''weekly_windows'', ''allowed_triggers'',
      ''proactivity'', ''notification'', ''interruption'', ''wake_budget'', ''outside_hours'',
      ''stop_conditions'', ''escalation_conditions'', ''failure_limit'', ''run_state'']
     (public_policy p)"

section \<open>One item\<close>

definition classify_set :: "string list \<Rightarrow> string list \<Rightarrow> DiffClassification" where
  "classify_set before after =
     (let left = set before; right = set after in
      if left = right then DIFF_UNCHANGED
      else if left \<subset> right then DIFF_EXPANDED
      else if right \<subset> left then DIFF_NARROWED
      else DIFF_CHANGED)"

definition wrapper :: "json \<Rightarrow> frozen_json result" where
  "wrapper v = FrozenJsonObject_init [(''value'', v)]"

definition diff_item ::
  "DiffSection \<Rightarrow> string \<Rightarrow> json \<Rightarrow> json \<Rightarrow> bool \<Rightarrow> DiffClassification option
     \<Rightarrow> DraftDiffItem result" where
  "diff_item section path before after authoritative classification =
     (let resolved = (case classification of Some c \<Rightarrow> c
          | None \<Rightarrow> if before = after then DIFF_UNCHANGED else DIFF_CHANGED)
      in bindR (wrapper before) (\<lambda>b. bindR (wrapper after) (\<lambda>a.
        DraftDiffItem_init \<lparr>di_section = section, di_path = path, di_classification = resolved,
          di_before = b, di_after = a, di_authoritative = authoritative\<rparr>)))"

definition field_item :: "DiffSection \<Rightarrow> bool \<Rightarrow> json \<Rightarrow> json \<Rightarrow> string \<Rightarrow> DraftDiffItem result" where
  "field_item section authoritative before after key =
     diff_item section key (data_field before key) (data_field after key) authoritative None"

section \<open>Identified collections\<close>

text \<open>The dictionary of the identified values: the last value of an identifier wins.\<close>

definition record_entry :: "string \<Rightarrow> json \<Rightarrow> (string \<times> json) result" where
  "record_entry id_key value = (case value of
      JObj es \<Rightarrow> (case json_get es id_key of
          Some (JStr i) \<Rightarrow> Inr (i, value)
        | _ \<Rightarrow> Inl (ValidationError ''canonical identified value is invalid''))
    | _ \<Rightarrow> Inl (ValidationError ''canonical identified value is invalid''))"

definition record_map :: "json \<Rightarrow> string \<Rightarrow> (string \<times> json) list result" where
  "record_map values id_key = (case values of
      JList vs \<Rightarrow> bindR (mapR (record_entry id_key) vs) (\<lambda>es. Inr (rev es))
    | _ \<Rightarrow> Inl (ValidationError ''canonical identified collection is invalid''))"

definition collection_class :: "json option \<Rightarrow> json option \<Rightarrow> DiffClassification" where
  "collection_class old new = (case (old, new) of
      (None, _) \<Rightarrow> DIFF_ADDED
    | (_, None) \<Rightarrow> DIFF_REMOVED
    | (Some x, Some y) \<Rightarrow> if x = y then DIFF_UNCHANGED else DIFF_CHANGED)"

definition collection_diff ::
  "DiffSection \<Rightarrow> string \<Rightarrow> json \<Rightarrow> json \<Rightarrow> string \<Rightarrow> DraftDiffItem list result" where
  "collection_diff section path before after id_key =
     bindR (record_map before id_key) (\<lambda>previous. bindR (record_map after id_key) (\<lambda>proposed.
       mapR (\<lambda>i. let old = map_of previous i; new = map_of proposed i
           in diff_item section (path @ ''.'' @ i) (case old of None \<Rightarrow> JNull | Some x \<Rightarrow> x)
                (case new of None \<Rightarrow> JNull | Some x \<Rightarrow> x) True (Some (collection_class old new)))
         (sort (remdups (map fst previous @ map fst proposed)))))"

section \<open>The policy\<close>

definition switch_class :: "string \<Rightarrow> json \<Rightarrow> json \<Rightarrow> DiffClassification option" where
  "switch_class key old new =
     (if old = JNull \<or> old = new then None
      else if key = ''proactivity''
      then Some (if new = JStr (ProactivityMode_value PROACTIVITY_BOUNDED)
                 then DIFF_EXPANDED else DIFF_NARROWED)
      else if key = ''run_state''
      then Some (if new = JStr (PolicyRunState_value RUN_ACTIVE)
                 then DIFF_EXPANDED else DIFF_NARROWED)
      else None)"

definition policy_item :: "json \<Rightarrow> json \<Rightarrow> string \<Rightarrow> DraftDiffItem result" where
  "policy_item before after key =
     (let old = data_field before key; new = data_field after key
      in diff_item SECTION_POLICY key old new True (switch_class key old new))"

text \<open>\<^verbatim>\<open>str(item)\<close> of the items: the public values of the enumerations are strings.\<close>

definition string_items :: "json \<Rightarrow> string list result" where
  "string_items v = (case v of
      JList xs \<Rightarrow> Inr (map (\<lambda>x. case x of JStr s \<Rightarrow> s | _ \<Rightarrow> []) xs)
    | _ \<Rightarrow> Inl (ValidationError ''canonical policy collection is invalid''))"

definition policy_set_item :: "json \<Rightarrow> json \<Rightarrow> string \<Rightarrow> DraftDiffItem result" where
  "policy_set_item before after key =
     (let old = data_field before key in
      bindR (string_items (if old = JNull then JList [] else old)) (\<lambda>old_values.
      bindR (string_items (data_field after key)) (\<lambda>new_values.
      let c = classify_set old_values new_values;
          c = (if key = ''stop_conditions''
               then (case c of DIFF_EXPANDED \<Rightarrow> DIFF_NARROWED | DIFF_NARROWED \<Rightarrow> DIFF_EXPANDED | _ \<Rightarrow> c)
               else c)
      in diff_item SECTION_POLICY key (JList (map JStr old_values)) (JList (map JStr new_values))
           True (Some c))))"

definition budget_class :: "json \<Rightarrow> json \<Rightarrow> DiffClassification option" where
  "budget_class old new = (case (old, new) of
      (JObj _, JObj _) \<Rightarrow>
        if data_field old ''period'' = data_field new ''period''
        then (case (data_field old ''limit'', data_field new ''limit'') of
            (JInt a, JInt b) \<Rightarrow>
              if a \<noteq> b then Some (if b > a then DIFF_EXPANDED else DIFF_NARROWED) else None
          | _ \<Rightarrow> None)
        else None
    | _ \<Rightarrow> None)"

definition budget_item :: "json \<Rightarrow> json \<Rightarrow> DraftDiffItem result" where
  "budget_item before after =
     (let old = data_field before ''wake_budget''; new = data_field after ''wake_budget''
      in diff_item SECTION_POLICY ''wake_budget'' old new True (budget_class old new))"

section \<open>The difference\<close>

definition mandate_collections :: "(string \<times> string) list" where
  "mandate_collections =
     [(''responsibilities'', ''responsibility_id''), (''capabilities'', ''capability_id''),
      (''constraints'', ''constraint_id''), (''effect_boundaries'', ''boundary_id'')]"

definition mandate_diff :: "json \<Rightarrow> json \<Rightarrow> DraftDiffItem list result" where
  "mandate_diff before after =
     bindR (mapR (field_item SECTION_MANDATE True before after)
       [''mission'', ''service_relationship'', ''working_context'']) (\<lambda>fields.
     bindR (mapR (\<lambda>(path, id_key). collection_diff SECTION_MANDATE path (data_field before path)
         (data_field after path) id_key) mandate_collections) (\<lambda>collections.
     Inr (fields @ concat collections)))"

definition policy_diff :: "json \<Rightarrow> json \<Rightarrow> DraftDiffItem list result" where
  "policy_diff before after =
     bindR (mapR (policy_item before after)
       [''timezone'', ''weekly_windows'', ''proactivity'', ''notification'', ''interruption'',
        ''outside_hours'', ''failure_limit'', ''run_state'']) (\<lambda>fields.
     bindR (mapR (policy_set_item before after)
       [''allowed_triggers'', ''stop_conditions'', ''escalation_conditions'']) (\<lambda>sets.
     bindR (budget_item before after) (\<lambda>budget. Inr (fields @ sets @ [budget]))))"

definition build_draft_diff ::
  "Profile \<Rightarrow> Mandate \<Rightarrow> ColleaguePolicy option \<Rightarrow> Profile \<Rightarrow> Mandate \<Rightarrow> ColleaguePolicy
     \<Rightarrow> DraftDiffItem list result" where
  "build_draft_diff profile mandate policy profile' mandate' policy' =
     (let policy_before = (case policy of None \<Rightarrow> JObj [] | Some p \<Rightarrow> policy_content p) in
      bindR (mapR (field_item SECTION_PROFILE False (profile_content profile)
          (profile_content profile')) [''display_name'', ''description'', ''presentation''])
        (\<lambda>profile_items.
      bindR (mandate_diff (mandate_content mandate) (mandate_content mandate')) (\<lambda>mandate_items.
      bindR (policy_diff policy_before (policy_content policy')) (\<lambda>policy_items.
      Inr (profile_items @ mandate_items @ policy_items)))))"

end
