(* ===== verification/DraftService.thy ===== *)
theory DraftService
  imports DraftDiff ChangeApply
begin

text \<open>
  The builder service: \<^verbatim>\<open>RevisionedColleagueBuilderService\<close> of
  \<^verbatim>\<open>application/p5_services.py\<close>, with the edits of \<^verbatim>\<open>application/p5_contracts.py\<close>.  An operation
  takes the instant \<open>now\<close> of its clock and the identifier port \<open>derive\<close>, and returns its outcome
  with the store it leaves.
\<close>

section \<open>Edits\<close>

record ProfileEdit =
  pd_display_name :: string
  pd_description :: string
  pd_presentation :: frozen_json

definition ProfileEdit_init :: "ProfileEdit \<Rightarrow> ProfileEdit result" where
  "ProfileEdit_init e =
     bindR (require_text_default (pd_display_name e) ''display_name'') (\<lambda>display_name.
     bindR (require_text_default (pd_description e) ''description'') (\<lambda>description.
     Inr (e\<lparr>pd_display_name := display_name, pd_description := description\<rparr>)))"

record MandateEdit =
  me_mission :: string
  me_service_relationship :: string
  me_responsibilities :: "ResponsibilityDefinition list"
  me_capabilities :: "CapabilityGrant list"
  me_constraints :: "Constraint list"
  me_working_context :: frozen_json
  me_effect_boundaries :: "EffectBoundary list"

definition MandateEdit_init :: "MandateEdit \<Rightarrow> MandateEdit result" where
  "MandateEdit_init e =
     bindR (require_text_default (me_mission e) ''mission'') (\<lambda>mission.
     bindR (require_text_default (me_service_relationship e) ''service_relationship'')
       (\<lambda>service_relationship. checks
       [raise_if (me_responsibilities e = [])
          (ValueError ''responsibilities must contain typed values''),
        raise_if (me_capabilities e = []) (ValueError ''capabilities must contain typed values''),
        raise_if (me_constraints e = []) (ValueError ''constraints must contain typed values''),
        raise_if (me_effect_boundaries e = [])
          (ValueError ''effect_boundaries must contain typed values'')]
       (Inr (e\<lparr>me_mission := mission, me_service_relationship := service_relationship\<rparr>))))"

record PolicyEdit =
  ye_timezone :: "string option"
  ye_weekly_windows :: "WeeklyWindow list option"
  ye_allowed_triggers :: "DurableTriggerKind list option"
  ye_proactivity :: "ProactivityMode option"
  ye_notification :: "NotificationMode option"
  ye_interruption :: "InterruptionMode option"
  ye_wake_limit :: "int option"
  ye_wake_period :: "WakeBudgetPeriod option"
  ye_outside_hours :: "OutsideHoursOutcome option"
  ye_stop_conditions :: "StopCondition list option"
  ye_escalation_conditions :: "EscalationCondition list option"
  ye_failure_limit :: "int option"
  ye_run_state :: "PolicyRunState option"
  ye_explicit_resume :: bool

definition PolicyEdit_init :: "PolicyEdit \<Rightarrow> PolicyEdit result" where
  "PolicyEdit_init e = checks
     [raise_if (ye_explicit_resume e \<and> ye_run_state e \<noteq> Some RUN_ACTIVE)
        (ValueError ''explicit resume intent requires an explicit active run state'')]
     (Inr e)"

record DraftUpdateRequest =
  ur_profile :: ProfileEdit
  ur_mandate :: MandateEdit
  ur_policy :: PolicyEdit
  ur_expected_draft_revision :: int
  ur_idempotency_key :: string

definition DraftUpdateRequest_init :: "DraftUpdateRequest \<Rightarrow> DraftUpdateRequest result" where
  "DraftUpdateRequest_init r = checks
     [chk (require_revision (ur_expected_draft_revision r) ''expected_draft_revision''),
      chk (require_stable_id (ur_idempotency_key r) ''idempotency_key'')]
     (Inr r)"

record ConfirmDraftRequest =
  nr_expected_draft_revision :: int
  nr_expected_base_profile_revision :: int
  nr_expected_base_mandate_revision :: int
  nr_expected_base_policy_revision :: int
  nr_expected_canonical_digest :: string
  nr_idempotency_key :: string

definition ConfirmDraftRequest_init :: "ConfirmDraftRequest \<Rightarrow> ConfirmDraftRequest result" where
  "ConfirmDraftRequest_init r = checks
     [chk (require_revision (nr_expected_draft_revision r) ''expected_draft_revision''),
      chk (require_revision (nr_expected_base_profile_revision r)
        ''expected_base_profile_revision''),
      chk (require_revision (nr_expected_base_mandate_revision r)
        ''expected_base_mandate_revision''),
      raise_if (nr_expected_base_policy_revision r < 0)
        (ValueError ''expected base policy revision must be non-negative''),
      chk (require_digest (nr_expected_canonical_digest r) ''expected_canonical_digest''),
      chk (require_stable_id (nr_idempotency_key r) ''idempotency_key'')]
     (Inr r)"

section \<open>The editable values of a policy\<close>

record policy_values =
  pv_timezone :: string
  pv_weekly_windows :: "WeeklyWindow list"
  pv_allowed_triggers :: "DurableTriggerKind list"
  pv_proactivity :: ProactivityMode
  pv_notification :: NotificationMode
  pv_interruption :: InterruptionMode
  pv_wake_limit :: int
  pv_wake_period :: WakeBudgetPeriod
  pv_outside_hours :: OutsideHoursOutcome
  pv_stop_conditions :: "StopCondition list"
  pv_escalation_conditions :: "EscalationCondition list"
  pv_failure_limit :: int
  pv_run_state :: PolicyRunState

definition default_windows :: "WeeklyWindow list" where
  "default_windows = map (\<lambda>day. \<lparr>ww_weekday = day, ww_start_minute = 0, ww_end_minute = 1440\<rparr>)
     [MONDAY, TUESDAY, WEDNESDAY, THURSDAY, FRIDAY, SATURDAY, SUNDAY]"

definition POLICY_DEFAULTS :: policy_values where
  "POLICY_DEFAULTS =
     \<lparr>pv_timezone = ''UTC'', pv_weekly_windows = default_windows,
      pv_allowed_triggers = [TRIGGER_EVENT, TRIGGER_TIMER], pv_proactivity = PROACTIVITY_BOUNDED,
      pv_notification = NOTIFICATION_ENABLED, pv_interruption = INTERRUPTION_WORKING_HOURS_ONLY,
      pv_wake_limit = 24, pv_wake_period = PERIOD_DAY, pv_outside_hours = OUTSIDE_DEFER,
      pv_stop_conditions = [STOP_ADMIN_STOP], pv_escalation_conditions = [ESC_BLOCKED_WORK],
      pv_failure_limit = 3, pv_run_state = RUN_ACTIVE\<rparr>"

definition policy_edit_values :: "ColleaguePolicy \<Rightarrow> policy_values" where
  "policy_edit_values p =
     \<lparr>pv_timezone = cp_timezone p, pv_weekly_windows = cp_weekly_windows p,
      pv_allowed_triggers = cp_allowed_triggers p, pv_proactivity = cp_proactivity p,
      pv_notification = cp_notification p, pv_interruption = cp_interruption p,
      pv_wake_limit = wb_limit (cp_wake_budget p), pv_wake_period = wb_period (cp_wake_budget p),
      pv_outside_hours = cp_outside_hours p, pv_stop_conditions = cp_stop_conditions p,
      pv_escalation_conditions = cp_escalation_conditions p,
      pv_failure_limit = cp_failure_limit p, pv_run_state = cp_run_state p\<rparr>"

text \<open>The public data of the values, by field, in the order of \<^verbatim>\<open>_POLICY_DEFAULTS\<close>.\<close>

definition policy_values_public :: "policy_values \<Rightarrow> (string \<times> json) list" where
  "policy_values_public v =
     [(''timezone'', JStr (pv_timezone v)),
      (''weekly_windows'', public_list public_weekly_window (pv_weekly_windows v)),
      (''allowed_triggers'', public_list (JStr \<circ> DurableTriggerKind_value) (pv_allowed_triggers v)),
      (''proactivity'', JStr (ProactivityMode_value (pv_proactivity v))),
      (''notification'', JStr (NotificationMode_value (pv_notification v))),
      (''interruption'', JStr (InterruptionMode_value (pv_interruption v))),
      (''wake_limit'', JInt (pv_wake_limit v)),
      (''wake_period'', JStr (WakeBudgetPeriod_value (pv_wake_period v))),
      (''outside_hours'', JStr (OutsideHoursOutcome_value (pv_outside_hours v))),
      (''stop_conditions'', public_list (JStr \<circ> StopCondition_value) (pv_stop_conditions v)),
      (''escalation_conditions'',
         public_list (JStr \<circ> EscalationCondition_value) (pv_escalation_conditions v)),
      (''failure_limit'', JInt (pv_failure_limit v)),
      (''run_state'', JStr (PolicyRunState_value (pv_run_state v)))]"

definition explicit_default :: "string \<times> json \<Rightarrow> ExplicitDefault result" where
  "explicit_default = (\<lambda>(field, value). bindR (wrapper value) (\<lambda>w.
     ExplicitDefault_init \<lparr>xd_path = ''policy.'' @ field, xd_value = w,
       xd_source = P5_SYSTEM_DEFAULT\<rparr>))"

text \<open>The fields an edit leaves out, in the same order.\<close>

definition omitted_fields :: "PolicyEdit option \<Rightarrow> string list" where
  "omitted_fields edit = (case edit of
      None \<Rightarrow> map fst (policy_values_public POLICY_DEFAULTS)
    | Some e \<Rightarrow> map fst (filter snd
        [(''timezone'', ye_timezone e = None), (''weekly_windows'', ye_weekly_windows e = None),
         (''allowed_triggers'', ye_allowed_triggers e = None),
         (''proactivity'', ye_proactivity e = None), (''notification'', ye_notification e = None),
         (''interruption'', ye_interruption e = None), (''wake_limit'', ye_wake_limit e = None),
         (''wake_period'', ye_wake_period e = None), (''outside_hours'', ye_outside_hours e = None),
         (''stop_conditions'', ye_stop_conditions e = None),
         (''escalation_conditions'', ye_escalation_conditions e = None),
         (''failure_limit'', ye_failure_limit e = None), (''run_state'', ye_run_state e = None)]))"

definition or_else :: "'a option \<Rightarrow> 'a \<Rightarrow> 'a" where
  "or_else x y = (case x of None \<Rightarrow> y | Some v \<Rightarrow> v)"

definition selected_values :: "PolicyEdit option \<Rightarrow> policy_values \<Rightarrow> policy_values" where
  "selected_values edit base = (case edit of None \<Rightarrow> base | Some e \<Rightarrow>
     \<lparr>pv_timezone = or_else (ye_timezone e) (pv_timezone base),
      pv_weekly_windows = or_else (ye_weekly_windows e) (pv_weekly_windows base),
      pv_allowed_triggers = or_else (ye_allowed_triggers e) (pv_allowed_triggers base),
      pv_proactivity = or_else (ye_proactivity e) (pv_proactivity base),
      pv_notification = or_else (ye_notification e) (pv_notification base),
      pv_interruption = or_else (ye_interruption e) (pv_interruption base),
      pv_wake_limit = or_else (ye_wake_limit e) (pv_wake_limit base),
      pv_wake_period = or_else (ye_wake_period e) (pv_wake_period base),
      pv_outside_hours = or_else (ye_outside_hours e) (pv_outside_hours base),
      pv_stop_conditions = or_else (ye_stop_conditions e) (pv_stop_conditions base),
      pv_escalation_conditions = or_else (ye_escalation_conditions e) (pv_escalation_conditions base),
      pv_failure_limit = or_else (ye_failure_limit e) (pv_failure_limit base),
      pv_run_state = or_else (ye_run_state e) (pv_run_state base)\<rparr>)"

definition policy_from_edit ::
  "zoneinfo \<Rightarrow> Namespace \<Rightarrow> string \<Rightarrow> int \<Rightarrow> string \<Rightarrow> int \<Rightarrow> Principal \<Rightarrow> datetime
     \<Rightarrow> PolicyEdit option \<Rightarrow> ColleaguePolicy option
     \<Rightarrow> (ColleaguePolicy \<times> ExplicitDefault list) result" where
  "policy_from_edit zones ns policy_id revision mandate_id mandate_revision actor now edit active =
     (let base = (case active of None \<Rightarrow> POLICY_DEFAULTS | Some p \<Rightarrow> policy_edit_values p);
          v = selected_values edit base;
          defaulted = (if active = None
            then filter (\<lambda>(field, _). field \<in> set (omitted_fields edit))
                   (policy_values_public POLICY_DEFAULTS)
            else [])
      in bindR (mapR explicit_default defaulted) (\<lambda>defaults.
         bindR (WakeBudget_init \<lparr>wb_limit = pv_wake_limit v, wb_period = pv_wake_period v\<rparr>)
           (\<lambda>budget.
         bindR (ColleaguePolicy_init zones
           \<lparr>cp_namespace = ns, cp_policy_id = policy_id, cp_mandate_id = mandate_id,
            cp_mandate_revision = mandate_revision, cp_timezone = pv_timezone v,
            cp_weekly_windows = pv_weekly_windows v, cp_allowed_triggers = pv_allowed_triggers v,
            cp_proactivity = pv_proactivity v, cp_notification = pv_notification v,
            cp_interruption = pv_interruption v, cp_wake_budget = budget,
            cp_outside_hours = pv_outside_hours v, cp_stop_conditions = pv_stop_conditions v,
            cp_escalation_conditions = pv_escalation_conditions v,
            cp_failure_limit = pv_failure_limit v, cp_run_state = pv_run_state v,
            cp_revision = revision, cp_issued_by = actor, cp_effective_at = now,
            cp_schema_version = SCHEMA_VERSION\<rparr>) (\<lambda>policy. Inr (policy, defaults)))))"

text \<open>
  The recorded defaults still in force: the last candidate of a path whose value is the proposed
  one.
\<close>

definition retain_matching_defaults ::
  "ColleagueDraft \<Rightarrow> ColleaguePolicy \<Rightarrow> ExplicitDefault list \<Rightarrow> ExplicitDefault list result" where
  "retain_matching_defaults existing proposed generated =
     (let candidates = rev (map (\<lambda>d. (xd_path d, d)) (df_explicit_defaults existing @ generated)) in
      bindR (mapR (\<lambda>(field, value).
        (case map_of candidates (''policy.'' @ field) of
           None \<Rightarrow> Inr []
         | Some item \<Rightarrow> bindR (explicit_default (field, value)) (\<lambda>d.
             Inr (if xd_value item = xd_value d then [item] else []))))
        (policy_values_public (policy_edit_values proposed))) (\<lambda>retained. Inr (concat retained)))"

section \<open>The digest of a draft\<close>

definition draft_envelope :: "ColleagueDraft \<Rightarrow> json" where
  "draft_envelope d = JObj
     [(''digest_schema_version'', JInt 1), (''namespace'', public_namespace (df_namespace d)),
      (''draft_id'', JStr (df_draft_id d)), (''draft_revision'', JInt (df_revision d)),
      (''base_profile_id'', JStr (df_base_profile_id d)),
      (''base_profile_revision'', JInt (df_base_profile_revision d)),
      (''base_mandate_id'', JStr (df_base_mandate_id d)),
      (''base_mandate_revision'', JInt (df_base_mandate_revision d)),
      (''base_policy_id'', opt_json JStr (df_base_policy_id d)),
      (''base_policy_revision'', JInt (df_base_policy_revision d)),
      (''proposed_profile'', public_profile (df_proposed_profile d)),
      (''proposed_mandate'', public_mandate (df_proposed_mandate d)),
      (''proposed_policy'', public_policy (df_proposed_policy d)),
      (''explicit_defaults'', public_list public_explicit_default (df_explicit_defaults d)),
      (''diff'', public_list public_draft_diff_item (df_diff d))]"

definition draft_digest :: "ColleagueDraft \<Rightarrow> string" where
  "draft_digest d = canonical_digest (draft_envelope d)"

definition zero_digest :: string where
  "zero_digest = ''sha256:'' @ replicate 64 (CHR ''0'')"

definition with_digest :: "ColleagueDraft \<Rightarrow> ColleagueDraft result" where
  "with_digest d = bindR (ColleagueDraft_init (d\<lparr>df_canonical_digest := zero_digest\<rparr>))
     (\<lambda>p. ColleagueDraft_init (p\<lparr>df_canonical_digest := draft_digest p\<rparr>))"

section \<open>The operations\<close>

type_synonym identifiers = "string \<Rightarrow> string list \<Rightarrow> string result"

definition require_admin :: "AuthenticatedSession \<Rightarrow> unit result" where
  "require_admin s = check_all
     [raise_if (pr_kind (se_principal s) \<noteq> HUMAN)
        (PermissionDeniedError ''colleague draft requires a HUMAN principal''),
      require_authoritative_human_role (se_principal s) {TENANT_ADMIN} [],
      raise_if (se_active_colleague_id s = None)
        (ValidationError ''an active colleague is required'')]"

definition base_values ::
  "AuthenticatedSession \<Rightarrow> 'z p6_store_scheme
     \<Rightarrow> (Profile \<times> Mandate \<times> ColleaguePolicy option) result" where
  "base_values s st = checks
     [require_admin s]
     (bindR (session_colleague s) (\<lambda>ns.
      bindR (active_configuration ns st) (\<lambda>(profile, mandate).
      bindR (get_active_policy ns st) (\<lambda>policy. Inr (profile, mandate, policy)))))"

text \<open>\<^verbatim>\<open>dataclasses.replace\<close> of the revision and of the author of the active values.\<close>

definition next_profile :: "Principal \<Rightarrow> datetime \<Rightarrow> Profile \<Rightarrow> Profile result" where
  "next_profile actor now p = Profile_init (p\<lparr>pf_revision := pf_revision p + 1,
     pf_updated_by := actor, pf_updated_at := now\<rparr>)"

definition next_mandate :: "Principal \<Rightarrow> datetime \<Rightarrow> Mandate \<Rightarrow> Mandate result" where
  "next_mandate actor now m = Mandate_init (m\<lparr>md_revision := md_revision m + 1,
     md_issued_by := actor, md_effective_at := now\<rparr>)"

definition new_draft ::
  "zoneinfo \<Rightarrow> identifiers \<Rightarrow> datetime \<Rightarrow> Principal \<Rightarrow> string \<Rightarrow> string
     \<Rightarrow> Profile \<times> Mandate \<times> ColleaguePolicy option \<Rightarrow> ColleagueDraft result" where
  "new_draft zones derive now actor colleague_id draft_id = (\<lambda>(profile, mandate, policy).
     bindR (next_profile actor now profile) (\<lambda>profile'.
     bindR (next_mandate actor now mandate) (\<lambda>mandate'.
     bindR (derive ''policy'' [colleague_id]) (\<lambda>policy_id.
     bindR (case policy of
         None \<Rightarrow> policy_from_edit zones (pf_namespace profile) policy_id 1 (md_mandate_id mandate)
           (md_revision mandate) actor now None None
       | Some p \<Rightarrow> bindR (ColleaguePolicy_init zones (p\<lparr>cp_revision := cp_revision p + 1,
           cp_issued_by := actor, cp_effective_at := now\<rparr>)) (\<lambda>p. Inr (p, []))) (\<lambda>(policy', defaults).
     bindR (build_draft_diff profile mandate policy profile' mandate' policy') (\<lambda>diff.
     bindR (derive ''correlation'' [draft_id]) (\<lambda>correlation_id.
     bindR (ColleagueDraft_init \<lparr>df_namespace = pf_namespace profile, df_draft_id = draft_id,
         df_revision = 1, df_base_profile_id = pf_profile_id profile,
         df_base_profile_revision = pf_revision profile,
         df_base_mandate_id = md_mandate_id mandate, df_base_mandate_revision = md_revision mandate,
         df_base_policy_id = map_option cp_policy_id policy,
         df_base_policy_revision = (case policy of None \<Rightarrow> 0 | Some p \<Rightarrow> cp_revision p),
         df_proposed_profile = profile', df_proposed_mandate = mandate',
         df_proposed_policy = policy', df_explicit_defaults = defaults, df_diff = diff,
         df_canonical_digest = zero_digest, df_state = DRAFT_OPEN, df_author = actor,
         df_created_at = now, df_updated_at = now, df_correlation_id = correlation_id,
         df_causation_id = md_mandate_id mandate, df_schema_version = SCHEMA_VERSION\<rparr>)
       with_digest)))))))"

definition existing_or_new ::
  "zoneinfo \<Rightarrow> identifiers \<Rightarrow> datetime \<Rightarrow> Principal \<Rightarrow> string \<Rightarrow> string
     \<Rightarrow> Profile \<times> Mandate \<times> ColleaguePolicy option \<Rightarrow> 'z p6_store_scheme
     \<Rightarrow> (ColleagueDraft \<times> 'z p6_store_scheme) result" where
  "existing_or_new zones derive now actor colleague_id draft_id base st =
     (case get_draft (pf_namespace (fst base)) draft_id st of
        Inr existing \<Rightarrow> Inr (existing, st)
      | Inl (NotFoundError _) \<Rightarrow>
          bindR (new_draft zones derive now actor colleague_id draft_id base) (\<lambda>d.
          bindR (create_draft d st) (\<lambda>((stored, _), st). Inr (stored, st)))
      | Inl e \<Rightarrow> Inl e)"

definition create_body ::
  "zoneinfo \<Rightarrow> identifiers \<Rightarrow> datetime \<Rightarrow> AuthenticatedSession \<Rightarrow> string \<Rightarrow> 'z p6_store_scheme
     \<Rightarrow> (ColleagueDraft \<times> 'z p6_store_scheme) result" where
  "create_body zones derive now s idempotency_key st = checks
     [require_admin s,
      raise_if (idempotency_key = []) (ValidationError ''draft idempotency key is required'')]
     (bindR (base_values s st) (\<lambda>base.
      let colleague_id = the (se_active_colleague_id s) in
      bindR (derive ''draft'' [colleague_id, idempotency_key]) (\<lambda>draft_id.
      existing_or_new zones derive now (se_principal s) colleague_id draft_id base st)))"

definition service_create ::
  "zoneinfo \<Rightarrow> identifiers \<Rightarrow> datetime \<Rightarrow> AuthenticatedSession \<Rightarrow> string \<Rightarrow> 'z p6_store_scheme
     \<Rightarrow> ColleagueDraft result \<times> 'z p6_store_scheme" where
  "service_create zones derive now s idempotency_key st =
     (case create_body zones derive now s idempotency_key st of
        Inl e \<Rightarrow> (Inl e, st)
      | Inr (d, st) \<Rightarrow> (Inr d, st))"

definition edited_profile ::
  "Profile \<Rightarrow> ProfileEdit \<Rightarrow> Principal \<Rightarrow> datetime \<Rightarrow> Profile result" where
  "edited_profile p e actor now = Profile_init
     \<lparr>pf_namespace = pf_namespace p, pf_profile_id = pf_profile_id p,
      pf_display_name = pd_display_name e, pf_description = pd_description e,
      pf_presentation = pd_presentation e, pf_revision = pf_revision p + 1, pf_updated_by = actor,
      pf_updated_at = now, pf_schema_version = SCHEMA_VERSION\<rparr>"

definition edited_mandate ::
  "Mandate \<Rightarrow> MandateEdit \<Rightarrow> Principal \<Rightarrow> datetime \<Rightarrow> Mandate result" where
  "edited_mandate m e actor now = Mandate_init
     \<lparr>md_namespace = md_namespace m, md_mandate_id = md_mandate_id m, md_mission = me_mission e,
      md_service_relationship = me_service_relationship e,
      md_responsibilities = me_responsibilities e, md_capabilities = me_capabilities e,
      md_constraints = me_constraints e, md_working_context = me_working_context e,
      md_effect_boundaries = me_effect_boundaries e, md_revision = md_revision m + 1,
      md_issued_by = actor, md_effective_at = now, md_schema_version = SCHEMA_VERSION\<rparr>"

definition resume_item ::
  "bool \<Rightarrow> Namespace \<Rightarrow> 'z p6_store_scheme \<Rightarrow> DraftDiffItem list result" where
  "resume_item explicit_resume ns st =
     (if explicit_resume
      then bindR (get_runtime_policy_state ns st) (\<lambda>(_, runtime_state). checks
        [raise_if (runtime_state \<noteq> Some RUN_STOPPED)
           (ValidationError ''explicit resume requires a durable stopped runtime'')]
        (bindR (diff_item SECTION_POLICY ''explicit_resume'' (JBool False) (JBool True) True
           (Some DIFF_EXPANDED)) (\<lambda>i. Inr [i])))
      else Inr [])"

definition edited_draft ::
  "zoneinfo \<Rightarrow> identifiers \<Rightarrow> datetime \<Rightarrow> Principal \<Rightarrow> DraftUpdateRequest \<Rightarrow> ColleagueDraft
     \<Rightarrow> Profile \<times> Mandate \<times> ColleaguePolicy option \<Rightarrow> 'z p6_store_scheme
     \<Rightarrow> ColleagueDraft result" where
  "edited_draft zones derive now actor r existing = (\<lambda>(profile, mandate, policy) st.
     bindR (edited_profile profile (ur_profile r) actor now) (\<lambda>profile'.
     bindR (edited_mandate mandate (ur_mandate r) actor now) (\<lambda>mandate'.
     bindR (case policy of
         None \<Rightarrow> derive ''policy'' [case ns_scope_id (pf_namespace profile) of
           Some i \<Rightarrow> if i = [] then ''missing'' else i | None \<Rightarrow> ''missing'']
       | Some p \<Rightarrow> Inr (cp_policy_id p)) (\<lambda>policy_id.
     bindR (policy_from_edit zones (pf_namespace profile) policy_id
         ((case policy of None \<Rightarrow> 0 | Some p \<Rightarrow> cp_revision p) + 1) (md_mandate_id mandate)
         (if mandate_content mandate \<noteq> mandate_content mandate' then md_revision mandate'
          else md_revision mandate) actor now (Some (ur_policy r)) policy) (\<lambda>(policy', generated).
     bindR (retain_matching_defaults existing policy' generated) (\<lambda>defaults.
     bindR (build_draft_diff profile mandate policy profile' mandate' policy') (\<lambda>diff.
     bindR (resume_item (ye_explicit_resume (ur_policy r)) (pf_namespace profile) st) (\<lambda>resume.
     bindR (ColleagueDraft_init (existing\<lparr>df_revision := df_revision existing + 1,
         df_proposed_profile := profile', df_proposed_mandate := mandate',
         df_proposed_policy := policy', df_explicit_defaults := defaults, df_diff := diff @ resume,
         df_canonical_digest := zero_digest, df_state := DRAFT_OPEN, df_updated_at := now,
         df_schema_version := SCHEMA_VERSION\<rparr>))
       with_digest))))))))"

definition service_update ::
  "zoneinfo \<Rightarrow> identifiers \<Rightarrow> datetime \<Rightarrow> AuthenticatedSession \<Rightarrow> string \<Rightarrow> DraftUpdateRequest
     \<Rightarrow> 'z p6_store_scheme \<Rightarrow> ColleagueDraft result \<times> 'z p6_store_scheme" where
  "service_update zones derive now s draft_id r st =
     (case bindR (base_values s st) (\<lambda>base.
         bindR (get_draft (pf_namespace (fst base)) draft_id st) (\<lambda>existing. checks
           [raise_if (df_revision existing \<noteq> ur_expected_draft_revision r)
              (StaleConflictError ''draft revision is stale''),
            raise_if (df_state existing \<notin> {DRAFT_OPEN, DRAFT_REVIEWABLE})
              (StaleConflictError ''terminal colleague draft cannot be updated'')]
           (edited_draft zones derive now (se_principal s) r existing base st))) of
        Inl e \<Rightarrow> (Inl e, st)
      | Inr d \<Rightarrow> update_draft d (ur_expected_draft_revision r) st)"

definition service_review ::
  "datetime \<Rightarrow> AuthenticatedSession \<Rightarrow> string \<Rightarrow> int \<Rightarrow> 'z p6_store_scheme
     \<Rightarrow> ColleagueDraft result \<times> 'z p6_store_scheme" where
  "service_review now s draft_id expected_revision st =
     (case checks [require_admin s] (session_colleague s) of
        Inl e \<Rightarrow> (Inl e, st)
      | Inr ns \<Rightarrow> review_draft ns draft_id expected_revision (se_principal s) now st)"

definition service_cancel ::
  "datetime \<Rightarrow> AuthenticatedSession \<Rightarrow> string \<Rightarrow> int \<Rightarrow> 'z p6_store_scheme
     \<Rightarrow> ColleagueDraft result \<times> 'z p6_store_scheme" where
  "service_cancel now s draft_id expected_revision st =
     (case checks [require_admin s] (session_colleague s) of
        Inl e \<Rightarrow> (Inl e, st)
      | Inr ns \<Rightarrow> cancel_draft ns draft_id expected_revision (se_principal s) now st)"

definition confirm_binding :: "string \<Rightarrow> ConfirmDraftRequest \<Rightarrow> string option \<Rightarrow> json" where
  "confirm_binding draft_id r change_decision_id = JObj
     ([(''draft_id'', JStr draft_id),
       (''expected_draft_revision'', JInt (nr_expected_draft_revision r)),
       (''expected_base_profile_revision'', JInt (nr_expected_base_profile_revision r)),
       (''expected_base_mandate_revision'', JInt (nr_expected_base_mandate_revision r)),
       (''expected_base_policy_revision'', JInt (nr_expected_base_policy_revision r)),
       (''expected_canonical_digest'', JStr (nr_expected_canonical_digest r))] @
      (case change_decision_id of None \<Rightarrow> [] | Some i \<Rightarrow> [(''change_decision_id'', JStr i)]))"

definition service_confirm ::
  "zoneinfo \<Rightarrow> identifiers \<Rightarrow> datetime \<Rightarrow> AuthenticatedSession \<Rightarrow> string \<Rightarrow> ConfirmDraftRequest
     \<Rightarrow> string option \<Rightarrow> 'z p6_store_scheme \<Rightarrow> ConfirmationResult result \<times> 'z p6_store_scheme"
where
  "service_confirm zones derive now s draft_id r change_decision_id st =
     (case checks [require_admin s]
         (bindR (session_colleague s) (\<lambda>ns.
          bindR (derive ''confirmation'' [draft_id, nr_idempotency_key r]) (\<lambda>confirmation_id.
          Inr \<lparr>cx_namespace = ns, cx_draft_id = draft_id,
            cx_draft_revision = nr_expected_draft_revision r,
            cx_base_revisions = (nr_expected_base_profile_revision r,
              nr_expected_base_mandate_revision r, nr_expected_base_policy_revision r),
            cx_canonical_digest = nr_expected_canonical_digest r, cx_actor = se_principal s,
            cx_idempotency_key = nr_idempotency_key r,
            cx_request_digest = canonical_digest (confirm_binding draft_id r change_decision_id),
            cx_confirmation_id = confirmation_id, cx_occurred_at = now,
            cx_change_decision_id = change_decision_id\<rparr>))) of
        Inl e \<Rightarrow> (Inl e, st)
      | Inr q \<Rightarrow> confirm_draft zones q st)"

end
