(* ===== verification/DraftFacts.thy ===== *)
theory DraftFacts
  imports DraftService
begin

text \<open>
  What the reviewable difference of a draft says, and what the second Admin is asked for.  A law on
  identified collections is proved once in a locale and used for the four of a Mandate.
\<close>

section \<open>Items\<close>

definition unchanged :: "DraftDiffItem list \<Rightarrow> bool" where
  "unchanged items \<longleftrightarrow> (\<forall>i \<in> set items. di_classification i = DIFF_UNCHANGED)"

lemma unchanged_simps [simp]:
  "unchanged []"
  "unchanged (i # is) \<longleftrightarrow> di_classification i = DIFF_UNCHANGED \<and> unchanged is"
  "unchanged (is @ js) \<longleftrightarrow> unchanged is \<and> unchanged js"
  "unchanged (concat iss) \<longleftrightarrow> (\<forall>is \<in> set iss. unchanged is)"
  by (auto simp: unchanged_def)

lemma mapR_all:
  assumes "mapR f xs = Inr ys" and "\<And>x y. x \<in> set xs \<Longrightarrow> f x = Inr y \<Longrightarrow> P y \<longleftrightarrow> Q x"
  shows "(\<forall>y \<in> set ys. P y) \<longleftrightarrow> (\<forall>x \<in> set xs. Q x)"
  using assms
proof (induction xs arbitrary: ys)
  case (Cons a xs)
  from Cons.prems(1) obtain y zs where y: "f a = Inr y" "mapR f xs = Inr zs" "ys = y # zs"
    by (auto simp: ok_simps)
  have "P y \<longleftrightarrow> Q a" by (rule Cons.prems(2) [OF _ y(1)]) simp
  moreover have "(\<forall>y \<in> set zs. P y) \<longleftrightarrow> (\<forall>x \<in> set xs. Q x)"
    by (rule Cons.IH [OF y(2)]) (rule Cons.prems(2), simp_all)
  ultimately show ?case by (simp add: y(3))
qed simp

lemma diff_item_ok:
  assumes "diff_item s path b a auth c = Inr i"
  shows "di_section i = s"
    and "di_classification i = (case c of Some k \<Rightarrow> k
      | None \<Rightarrow> if b = a then DIFF_UNCHANGED else DIFF_CHANGED)"
  using assms by (auto simp: diff_item_def DraftDiffItem_init_def ok_simps Let_def)

lemma field_item_unchanged:
  assumes "field_item s auth b a key = Inr i"
  shows "di_classification i = DIFF_UNCHANGED \<longleftrightarrow> data_field b key = data_field a key"
  using assms unfolding field_item_def by (drule_tac diff_item_ok(2)) auto

lemma policy_item_unchanged:
  assumes "policy_item b a key = Inr i"
  shows "di_classification i = DIFF_UNCHANGED \<longleftrightarrow> data_field b key = data_field a key"
  using assms unfolding policy_item_def Let_def
  by (drule_tac diff_item_ok(2)) (auto simp: switch_class_def split: if_splits)

lemma budget_item_unchanged:
  assumes "budget_item b a = Inr i"
  shows "di_classification i = DIFF_UNCHANGED \<longleftrightarrow>
    data_field b ''wake_budget'' = data_field a ''wake_budget''"
  using assms unfolding budget_item_def Let_def
  by (drule_tac diff_item_ok(2))
    (auto simp: budget_class_def split: json.splits if_splits option.splits)

lemma classify_set_unchanged: "classify_set b a = DIFF_UNCHANGED \<longleftrightarrow> set b = set a"
  by (simp add: classify_set_def Let_def)

lemma policy_set_item_unchanged:
  assumes "policy_set_item b a key = Inr i"
    and "string_items (if data_field b key = JNull then JList [] else data_field b key) = Inr x"
    and "string_items (data_field a key) = Inr y"
  shows "di_classification i = DIFF_UNCHANGED \<longleftrightarrow> set x = set y"
proof -
  have "di_classification i = DIFF_UNCHANGED \<longleftrightarrow> classify_set x y = DIFF_UNCHANGED"
    using assms unfolding policy_set_item_def Let_def
    by (simp only: bindR_Inr) (drule diff_item_ok(2), auto split: DiffClassification.splits if_splits)
  then show ?thesis by (simp only: classify_set_unchanged)
qed

section \<open>Identified collections\<close>

text \<open>A collection of contracts with an identifier, and their public data under \<open>key\<close>.\<close>

locale identified =
  fixes ident :: "'a \<Rightarrow> string" and public :: "'a \<Rightarrow> json" and key :: string
  assumes entry: "record_entry key (public x) = Inr (ident x, public x)"
    and faithful: "public x = public y \<Longrightarrow> x = y"
begin

lemma record_map_ok:
  "record_map (public_list public xs) key = Inr (rev (map (\<lambda>x. (ident x, public x)) xs))"
proof -
  have "mapR (record_entry key) (map public xs) = Inr (map (\<lambda>x. (ident x, public x)) xs)"
    by (induction xs) (simp_all add: entry)
  then show ?thesis by (simp add: record_map_def public_list_def)
qed

lemma same_maps:
  assumes "distinct (map ident xs)" "distinct (map ident ys)"
  shows "map_of (rev (map (\<lambda>x. (ident x, public x)) xs)) =
      map_of (rev (map (\<lambda>x. (ident x, public x)) ys)) \<longleftrightarrow> set xs = set ys"
proof -
  let ?f = "\<lambda>x. (ident x, public x)"
  have d: "distinct (map fst (rev (map ?f zs))) \<longleftrightarrow> distinct (map ident zs)" for zs
    by (simp add: rev_map comp_def flip: rev_map)
  have "map_of (rev (map ?f xs)) = map_of (rev (map ?f ys)) \<longleftrightarrow>
      set (rev (map ?f xs)) = set (rev (map ?f ys))"
    using assms d by (intro map_of_inject_set) auto
  also have "\<dots> \<longleftrightarrow> set xs = set ys"
    using faithful by (auto simp: inj_image_eq_iff inj_def)
  finally show ?thesis .
qed

lemma collection_unchanged:
  assumes run: "collection_diff s path (public_list public xs) (public_list public ys) key = Inr items"
    and "distinct (map ident xs)" "distinct (map ident ys)"
  shows "unchanged items \<longleftrightarrow> set xs = set ys"
proof -
  let ?p = "rev (map (\<lambda>x. (ident x, public x)) xs)"
  let ?q = "rev (map (\<lambda>x. (ident x, public x)) ys)"
  let ?ids = "sort (remdups (map fst ?p @ map fst ?q))"
  have same: "collection_class (map_of ?p i) (map_of ?q i) = DIFF_UNCHANGED \<longleftrightarrow>
      map_of ?p i = map_of ?q i" if "i \<in> set ?ids" for i
  proof (cases "map_of ?p i")
    case None
    with that have "map_of ?q i \<noteq> None" by (auto simp: map_of_eq_None_iff)
    with None show ?thesis by (auto simp: collection_class_def)
  next
    case (Some v)
    then show ?thesis by (auto simp: collection_class_def split: option.splits)
  qed
  have "unchanged items \<longleftrightarrow> (\<forall>i \<in> set ?ids.
      collection_class (map_of ?p i) (map_of ?q i) = DIFF_UNCHANGED)"
    using run unfolding collection_diff_def record_map_ok bindR_Inr Let_def unchanged_def
    by (rule mapR_all) (drule diff_item_ok(2), simp)
  also have "\<dots> \<longleftrightarrow> (\<forall>i \<in> set ?ids. map_of ?p i = map_of ?q i)"
    using same by blast
  also have "\<dots> \<longleftrightarrow> map_of ?p = map_of ?q"
  proof (intro iffI ext ballI)
    fix i assume *: "\<forall>i \<in> set ?ids. map_of ?p i = map_of ?q i"
    show "map_of ?p i = map_of ?q i"
    proof (cases "i \<in> set ?ids")
      case False
      then have "i \<notin> fst ` set ?p" "i \<notin> fst ` set ?q" by auto
      then have "map_of ?p i = None" "map_of ?q i = None" by (simp_all only: map_of_eq_None_iff not_False_eq_True)
      then show ?thesis by simp
    qed (use * in blast)
  qed simp
  finally show ?thesis using same_maps [OF assms(2,3)] by simp
qed

end

lemma EffectKind_value_inject [simp]: "EffectKind_value k = EffectKind_value l \<longleftrightarrow> k = l"
  by (cases k; cases l) auto

lemma public_list_inject:
  "(\<And>x y. f x = f y \<Longrightarrow> x = y) \<Longrightarrow> public_list f xs = public_list f ys \<longleftrightarrow> xs = ys"
  by (auto simp: public_list_def inj_map_eq_map inj_def)

lemma public_strings_inject [simp]: "public_list JStr xs = public_list JStr ys \<longleftrightarrow> xs = ys"
  by (rule public_list_inject) simp

interpretation responsibilities: identified rd_responsibility_id public_responsibility_definition
    "''responsibility_id''"
  by unfold_locales (auto simp: record_entry_def public_responsibility_definition_def)

interpretation capabilities: identified cg_capability_id public_capability_grant "''capability_id''"
  by unfold_locales (auto simp: record_entry_def public_capability_grant_def)

interpretation mandate_constraints: identified cn_constraint_id public_constraint "''constraint_id''"
  by unfold_locales (auto simp: record_entry_def public_constraint_def)

interpretation boundaries: identified eb_boundary_id public_effect_boundary "''boundary_id''"
  by unfold_locales (auto simp: record_entry_def public_effect_boundary_def)


section \<open>What the difference leaves unchanged\<close>

lemma enum_values_inject [simp]:
  "PolicyRunState_value a = PolicyRunState_value b \<longleftrightarrow> a = b"
  "ProactivityMode_value c = ProactivityMode_value d \<longleftrightarrow> c = d"
  "NotificationMode_value e = NotificationMode_value f \<longleftrightarrow> e = f"
  "InterruptionMode_value g = InterruptionMode_value h \<longleftrightarrow> g = h"
  "OutsideHoursOutcome_value i = OutsideHoursOutcome_value j \<longleftrightarrow> i = j"
  "WakeBudgetPeriod_value k = WakeBudgetPeriod_value l \<longleftrightarrow> k = l"
  "Weekday_value m = Weekday_value n \<longleftrightarrow> m = n"
  "DurableTriggerKind_value t = DurableTriggerKind_value u \<longleftrightarrow> t = u"
  "StopCondition_value v = StopCondition_value w \<longleftrightarrow> v = w"
  "EscalationCondition_value x = EscalationCondition_value y \<longleftrightarrow> x = y"
  by ((cases a; cases b; simp), (cases c; cases d; simp), (cases e; cases f; simp),
    (cases g; cases h; simp), (cases i; cases j; simp), (cases k; cases l; simp),
    (cases m; cases n; simp), (cases t; cases u; simp), (cases v; cases w; simp),
    (cases x; cases y; simp))

definition same_mandate_terms :: "Mandate \<Rightarrow> Mandate \<Rightarrow> bool" where
  "same_mandate_terms m m' \<longleftrightarrow>
     md_mission m = md_mission m' \<and> md_service_relationship m = md_service_relationship m' \<and>
     md_working_context m = md_working_context m' \<and>
     set (md_responsibilities m) = set (md_responsibilities m') \<and>
     set (md_capabilities m) = set (md_capabilities m') \<and>
     set (md_constraints m) = set (md_constraints m') \<and>
     set (md_effect_boundaries m) = set (md_effect_boundaries m')"

definition same_policy_terms :: "ColleaguePolicy \<Rightarrow> ColleaguePolicy \<Rightarrow> bool" where
  "same_policy_terms p p' \<longleftrightarrow>
     cp_timezone p = cp_timezone p' \<and> cp_weekly_windows p = cp_weekly_windows p' \<and>
     cp_proactivity p = cp_proactivity p' \<and> cp_notification p = cp_notification p' \<and>
     cp_interruption p = cp_interruption p' \<and> cp_outside_hours p = cp_outside_hours p' \<and>
     cp_failure_limit p = cp_failure_limit p' \<and> cp_run_state p = cp_run_state p' \<and>
     set (cp_allowed_triggers p) = set (cp_allowed_triggers p') \<and>
     set (cp_stop_conditions p) = set (cp_stop_conditions p') \<and>
     set (cp_escalation_conditions p) = set (cp_escalation_conditions p') \<and>
     cp_wake_budget p = cp_wake_budget p'"

definition unique_ids :: "Mandate \<Rightarrow> bool" where
  "unique_ids m \<longleftrightarrow> distinct (map rd_responsibility_id (md_responsibilities m)) \<and>
     distinct (map cg_capability_id (md_capabilities m)) \<and>
     distinct (map cn_constraint_id (md_constraints m)) \<and>
     distinct (map eb_boundary_id (md_effect_boundaries m))"

lemma Mandate_init_unique: "Mandate_init m = Inr m' \<Longrightarrow> unique_ids m \<and> unique_ids m'"
  by (auto simp: Mandate_init_def unique_ids_def ok_simps)

lemma mandate_diff_unchanged:
  assumes run: "mandate_diff (mandate_content m) (mandate_content m') = Inr items"
    and ids: "unique_ids m" "unique_ids m'"
  shows "unchanged items \<longleftrightarrow> same_mandate_terms m m'"
proof -
  have f: "data_field (mandate_content x) ''mission'' = JStr (md_mission x)"
    "data_field (mandate_content x) ''service_relationship'' = JStr (md_service_relationship x)"
    "data_field (mandate_content x) ''working_context'' = JObj (md_working_context x)"
    "data_field (mandate_content x) ''responsibilities'' =
       public_list public_responsibility_definition (md_responsibilities x)"
    "data_field (mandate_content x) ''capabilities'' =
       public_list public_capability_grant (md_capabilities x)"
    "data_field (mandate_content x) ''constraints'' =
       public_list public_constraint (md_constraints x)"
    "data_field (mandate_content x) ''effect_boundaries'' =
       public_list public_effect_boundary (md_effect_boundaries x)" for x
    by (simp_all add: mandate_content_def content_fields_def data_field_def public_mandate_def)
  from run obtain fields rs cs ns bs where parts:
      "mapR (field_item SECTION_MANDATE True (mandate_content m) (mandate_content m'))
         [''mission'', ''service_relationship'', ''working_context''] = Inr fields"
      "collection_diff SECTION_MANDATE ''responsibilities''
         (public_list public_responsibility_definition (md_responsibilities m))
         (public_list public_responsibility_definition (md_responsibilities m'))
         ''responsibility_id'' = Inr rs"
      "collection_diff SECTION_MANDATE ''capabilities''
         (public_list public_capability_grant (md_capabilities m))
         (public_list public_capability_grant (md_capabilities m')) ''capability_id'' = Inr cs"
      "collection_diff SECTION_MANDATE ''constraints''
         (public_list public_constraint (md_constraints m))
         (public_list public_constraint (md_constraints m')) ''constraint_id'' = Inr ns"
      "collection_diff SECTION_MANDATE ''effect_boundaries''
         (public_list public_effect_boundary (md_effect_boundaries m))
         (public_list public_effect_boundary (md_effect_boundaries m')) ''boundary_id'' = Inr bs"
      "items = fields @ rs @ cs @ ns @ bs"
    by (auto simp: mandate_diff_def mandate_collections_def f ok_simps)
  have "unchanged fields \<longleftrightarrow>
      (\<forall>key \<in> set [''mission'', ''service_relationship'', ''working_context''].
        data_field (mandate_content m) key = data_field (mandate_content m') key)"
    unfolding unchanged_def by (rule mapR_all [OF parts(1)]) (rule field_item_unchanged)
  then show ?thesis
    using ids responsibilities.collection_unchanged [OF parts(2)]
      capabilities.collection_unchanged [OF parts(3)]
      mandate_constraints.collection_unchanged [OF parts(4)]
      boundaries.collection_unchanged [OF parts(5)]
    by (simp add: parts(6) f same_mandate_terms_def unique_ids_def)
qed


lemma policy_diff_unchanged:
  assumes run: "policy_diff (policy_content p) (policy_content p') = Inr items"
  shows "unchanged items \<longleftrightarrow> same_policy_terms p p'"
proof -
  have f: "data_field (policy_content x) ''timezone'' = JStr (cp_timezone x)"
    "data_field (policy_content x) ''weekly_windows'' =
       public_list public_weekly_window (cp_weekly_windows x)"
    "data_field (policy_content x) ''proactivity'' = JStr (ProactivityMode_value (cp_proactivity x))"
    "data_field (policy_content x) ''notification'' = JStr (NotificationMode_value (cp_notification x))"
    "data_field (policy_content x) ''interruption'' = JStr (InterruptionMode_value (cp_interruption x))"
    "data_field (policy_content x) ''outside_hours'' =
       JStr (OutsideHoursOutcome_value (cp_outside_hours x))"
    "data_field (policy_content x) ''failure_limit'' = JInt (cp_failure_limit x)"
    "data_field (policy_content x) ''run_state'' = JStr (PolicyRunState_value (cp_run_state x))"
    "data_field (policy_content x) ''wake_budget'' = public_wake_budget (cp_wake_budget x)"
    "data_field (policy_content x) ''allowed_triggers'' =
       JList (map (JStr \<circ> DurableTriggerKind_value) (cp_allowed_triggers x))"
    "data_field (policy_content x) ''stop_conditions'' =
       JList (map (JStr \<circ> StopCondition_value) (cp_stop_conditions x))"
    "data_field (policy_content x) ''escalation_conditions'' =
       JList (map (JStr \<circ> EscalationCondition_value) (cp_escalation_conditions x))" for x
    by (simp_all add: policy_content_def content_fields_def data_field_def public_policy_def
        public_list_def)
  have strings: "string_items (if JList (map (JStr \<circ> g) xs) = JNull then JList []
      else JList (map (JStr \<circ> g) xs)) = Inr (map g xs)"
    "string_items (JList (map (JStr \<circ> g) xs)) = Inr (map g xs)" for g :: "'b \<Rightarrow> string" and xs
    by (simp_all add: string_items_def)
  have windows: "public_list public_weekly_window xs = public_list public_weekly_window ys \<longleftrightarrow> xs = ys"
    for xs ys by (rule public_list_inject) (auto simp: public_weekly_window_def)
  have budget: "public_wake_budget b = public_wake_budget b' \<longleftrightarrow> b = b'" for b b'
    by (auto simp: public_wake_budget_def)
  have inj: "inj DurableTriggerKind_value" "inj StopCondition_value" "inj EscalationCondition_value"
    by (simp_all add: inj_def)
  from run obtain fields sets b where run':
      "mapR (policy_item (policy_content p) (policy_content p'))
        [''timezone'', ''weekly_windows'', ''proactivity'', ''notification'', ''interruption'',
         ''outside_hours'', ''failure_limit'', ''run_state''] = Inr fields"
      "mapR (policy_set_item (policy_content p) (policy_content p'))
        [''allowed_triggers'', ''stop_conditions'', ''escalation_conditions''] = Inr sets"
      "budget_item (policy_content p) (policy_content p') = Inr b" "items = fields @ sets @ [b]"
    unfolding policy_diff_def bindR_eq_Inr sum.inject by blast
  from run'(2) obtain t c e where sets: "sets = [t, c, e]"
      "policy_set_item (policy_content p) (policy_content p') ''allowed_triggers'' = Inr t"
      "policy_set_item (policy_content p) (policy_content p') ''stop_conditions'' = Inr c"
      "policy_set_item (policy_content p) (policy_content p') ''escalation_conditions'' = Inr e"
    by (auto simp: bindR_eq_Inr)
  have parts:
      "mapR (policy_item (policy_content p) (policy_content p'))
        [''timezone'', ''weekly_windows'', ''proactivity'', ''notification'', ''interruption'',
         ''outside_hours'', ''failure_limit'', ''run_state''] = Inr fields"
      "policy_set_item (policy_content p) (policy_content p') ''allowed_triggers'' = Inr t"
      "policy_set_item (policy_content p) (policy_content p') ''stop_conditions'' = Inr c"
      "policy_set_item (policy_content p) (policy_content p') ''escalation_conditions'' = Inr e"
      "budget_item (policy_content p) (policy_content p') = Inr b"
      "items = fields @ [t, c, e, b]"
    using run' sets by simp_all
  have "unchanged fields \<longleftrightarrow> (\<forall>key \<in> set [''timezone'', ''weekly_windows'', ''proactivity'',
      ''notification'', ''interruption'', ''outside_hours'', ''failure_limit'', ''run_state''].
        data_field (policy_content p) key = data_field (policy_content p') key)"
    unfolding unchanged_def by (rule mapR_all [OF parts(1)]) (rule policy_item_unchanged)
  then show ?thesis
    using policy_set_item_unchanged [OF parts(2), unfolded f strings, OF refl refl]
      policy_set_item_unchanged [OF parts(3), unfolded f strings, OF refl refl]
      policy_set_item_unchanged [OF parts(4), unfolded f strings, OF refl refl]
      budget_item_unchanged [OF parts(5)]
    by (simp add: parts(6) f windows budget same_policy_terms_def inj_image_eq_iff [OF inj(1)]
        inj_image_eq_iff [OF inj(2)] inj_image_eq_iff [OF inj(3)])
qed

lemma new_policy_changed:
  assumes run: "policy_diff (JObj []) (policy_content p) = Inr items"
  shows "\<not> unchanged items"
proof -
  from run obtain fields sets b where run':
      "mapR (policy_item (JObj []) (policy_content p))
        [''timezone'', ''weekly_windows'', ''proactivity'', ''notification'', ''interruption'',
         ''outside_hours'', ''failure_limit'', ''run_state''] = Inr fields"
      "items = fields @ sets @ [b]"
    unfolding policy_diff_def bindR_eq_Inr sum.inject by blast
  then obtain i rest where "policy_item (JObj []) (policy_content p) ''timezone'' = Inr i"
      "items = i # rest"
    by (auto simp: bindR_eq_Inr)
  then show ?thesis
    using policy_item_unchanged
    by (auto simp: data_field_def policy_content_def content_fields_def public_policy_def)
qed


text \<open>The sections of the items, in the order of the difference.\<close>

definition in_section :: "DiffSection \<Rightarrow> DraftDiffItem list \<Rightarrow> bool" where
  "in_section s items \<longleftrightarrow> (\<forall>i \<in> set items. di_section i = s)"

lemma in_section_simps [simp]:
  "in_section s []"
  "in_section s (i # is) \<longleftrightarrow> di_section i = s \<and> in_section s is"
  "in_section s (is @ js) \<longleftrightarrow> in_section s is \<and> in_section s js"
  "in_section s (concat iss) \<longleftrightarrow> (\<forall>is \<in> set iss. in_section s is)"
  by (auto simp: in_section_def)

lemma mapR_section:
  assumes "mapR f xs = Inr items" and "\<And>x i. f x = Inr i \<Longrightarrow> di_section i = s"
  shows "in_section s items"
  using assms by (auto simp: in_section_def dest!: mapR_in_set)

lemma field_items_section:
  "mapR (field_item s auth b a) keys = Inr items \<Longrightarrow> in_section s items"
  by (erule mapR_section) (simp add: field_item_def diff_item_ok(1))

lemma collection_section:
  assumes "collection_diff s path b a key = Inr items" shows "in_section s items"
  using assms unfolding collection_diff_def bindR_eq_Inr
  by (auto simp: Let_def elim!: mapR_section dest: diff_item_ok(1))

lemma mandate_diff_section:
  assumes "mandate_diff b a = Inr items" shows "in_section SECTION_MANDATE items"
proof -
  from assms obtain fields cs where parts:
      "mapR (field_item SECTION_MANDATE True b a)
         [''mission'', ''service_relationship'', ''working_context''] = Inr fields"
      "mapR (\<lambda>(path, id_key). collection_diff SECTION_MANDATE path (data_field b path)
         (data_field a path) id_key) mandate_collections = Inr cs"
      "items = fields @ concat cs"
    unfolding mandate_diff_def bindR_eq_Inr sum.inject by blast
  have "in_section SECTION_MANDATE c" if "c \<in> set cs" for c
    using mapR_in_set [OF parts(2) that] collection_section by (auto split: prod.splits)
  with field_items_section [OF parts(1)] parts(3) show ?thesis by simp
qed

lemma policy_diff_section:
  assumes "policy_diff b a = Inr items" shows "in_section SECTION_POLICY items"
proof -
  from assms obtain fields sets budget keys keys' where parts:
      "mapR (policy_item b a) keys = Inr fields" "mapR (policy_set_item b a) keys' = Inr sets"
      "budget_item b a = Inr budget" "items = fields @ sets @ [budget]"
    unfolding policy_diff_def bindR_eq_Inr sum.inject by blast
  have "di_section i = SECTION_POLICY" if "policy_item b a key = Inr i" for key i
    using that by (simp add: policy_item_def Let_def diff_item_ok(1))
  moreover have "di_section i = SECTION_POLICY" if "policy_set_item b a key = Inr i" for key i
    using that by (auto simp: policy_set_item_def Let_def bindR_eq_Inr dest: diff_item_ok(1))
  moreover have "di_section budget = SECTION_POLICY"
    using parts(3) by (simp add: budget_item_def Let_def diff_item_ok(1))
  ultimately show ?thesis
    using parts mapR_section [OF parts(1)] mapR_section [OF parts(2)] by simp
qed

definition same_authority :: "Mandate \<Rightarrow> ColleaguePolicy option \<Rightarrow> Mandate \<Rightarrow> ColleaguePolicy \<Rightarrow> bool" where
  "same_authority m y m' y' \<longleftrightarrow> same_mandate_terms m m' \<and>
     (case y of None \<Rightarrow> False | Some q \<Rightarrow> same_policy_terms q y')"

lemma authority_changed_parts:
  assumes "df_diff d = ps @ ms @ ys" "in_section SECTION_PROFILE ps"
    "in_section SECTION_MANDATE ms" "in_section SECTION_POLICY ys"
  shows "authority_changed d \<longleftrightarrow> \<not> (unchanged ms \<and> unchanged ys)"
  using assms by (auto simp: authority_changed_def list_ex_iff in_section_def unchanged_def)

lemma authority_changed_iff:
  assumes run: "build_draft_diff p m y p' m' y' = Inr (df_diff d)"
    and ids: "unique_ids m" "unique_ids m'"
  shows "authority_changed d \<longleftrightarrow> \<not> same_authority m y m' y'"
proof -
  from run obtain ps ms ys where parts:
      "mapR (field_item SECTION_PROFILE False (profile_content p) (profile_content p'))
         [''display_name'', ''description'', ''presentation''] = Inr ps"
      "mandate_diff (mandate_content m) (mandate_content m') = Inr ms"
      "policy_diff (case y of None \<Rightarrow> JObj [] | Some q \<Rightarrow> policy_content q) (policy_content y') = Inr ys"
      "ps @ ms @ ys = df_diff d"
    unfolding build_draft_diff_def Let_def bindR_eq_Inr sum.inject by blast
  have "authority_changed d \<longleftrightarrow> \<not> (unchanged ms \<and> unchanged ys)"
    by (rule authority_changed_parts [OF parts(4) [symmetric] field_items_section [OF parts(1)]
        mandate_diff_section [OF parts(2)] policy_diff_section [OF parts(3)]])
  moreover have "unchanged ms \<longleftrightarrow> same_mandate_terms m m'"
    by (rule mandate_diff_unchanged [OF parts(2) ids])
  moreover have "unchanged ys \<longleftrightarrow> (case y of None \<Rightarrow> False | Some q \<Rightarrow> same_policy_terms q y')"
    using parts(3) policy_diff_unchanged new_policy_changed by (cases y) auto
  ultimately show ?thesis by (simp add: same_authority_def)
qed

end
