(* ===== verification/Intelligence.thy ===== *)
theory Intelligence
  imports AdmissionStore PublicData
begin

text \<open>
  \<^verbatim>\<open>PolicyGovernedIntelligence\<close> of \<^verbatim>\<open>application/p5_services.py\<close>: the policy is checked before and
  after the model is asked.  The model behind it is a parameter \<open>inner\<close> that may leave a different
  store: what other transactions commit while it answers.  The identifier and digest ports are
  parameters too.
\<close>

section \<open>Steps over a store\<close>

type_synonym ('s, 'a) step = "'s \<Rightarrow> 'a result \<times> 's"

definition bindS :: "('s, 'a) step \<Rightarrow> ('a \<Rightarrow> ('s, 'b) step) \<Rightarrow> ('s, 'b) step" where
  "bindS m f st = (case m st of (Inl e, st) \<Rightarrow> (Inl e, st) | (Inr x, st) \<Rightarrow> f x st)"

definition liftS :: "'a result \<Rightarrow> ('s, 'a) step" where
  "liftS r st = (r, st)"

definition readS :: "('s \<Rightarrow> 'a result) \<Rightarrow> ('s, 'a) step" where
  "readS f st = (f st, st)"

lemma bindS_ok:
  "bindS m f st = (Inr y, st') \<longleftrightarrow> (\<exists>x st1. m st = (Inr x, st1) \<and> f x st1 = (Inr y, st'))"
  by (auto simp: bindS_def split: sum.splits prod.splits)

lemma liftS_ok [simp]: "liftS r st = (Inr y, st') \<longleftrightarrow> r = Inr y \<and> st' = st"
  by (auto simp: liftS_def)

lemma readS_ok [simp]: "readS f st = (Inr y, st') \<longleftrightarrow> f st = Inr y \<and> st' = st"
  by (auto simp: readS_def)

section \<open>Records of the policy\<close>

record policy_ports =
  pp_derive :: "string \<Rightarrow> string list \<Rightarrow> string result"
  pp_digest :: "string \<Rightarrow> string \<Rightarrow> string result"

definition policy_enforcement ::
  "policy_ports \<Rightarrow> ColleaguePolicy \<Rightarrow> IntelligenceRequest \<Rightarrow> PolicyOutcomeKind \<Rightarrow> PolicyStage
     \<Rightarrow> PolicyEnforcementRecord result" where
  "policy_enforcement ports policy q outcome stage =
     bindR (pp_derive ports ''policy-outcome''
         [iq_request_id q, PolicyStage_value stage, PolicyOutcomeKind_value outcome]) (\<lambda>outcome_id.
     bindR (FrozenJsonObject_init [(''outcome'', JStr (PolicyOutcomeKind_value outcome)),
         (''stage'', JStr (PolicyStage_value stage))]) (\<lambda>projection.
     bindR (pp_digest ports ''policy-outcome'' (iq_request_id q)) (\<lambda>digest.
     PolicyEnforcementRecord_init
       \<lparr>pe_namespace = iq_namespace q, pe_outcome_id = outcome_id, pe_policy_id = cp_policy_id policy,
        pe_policy_revision = cp_revision policy, pe_mandate_id = cp_mandate_id policy,
        pe_mandate_revision = cp_mandate_revision policy, pe_stage = stage, pe_outcome = outcome,
        pe_trigger_class = Some (if wk_trigger_timer_occurrence_ids (iq_wake_cycle q) \<noteq> []
          then TRIGGER_TIMER else TRIGGER_EVENT),
        pe_source_id = wk_causation_id (iq_wake_cycle q), pe_actor = iq_model_principal q,
        pe_correlation_id = ag_correlation_id (iq_agenda_item q),
        pe_causation_id = ag_agenda_item_id (iq_agenda_item q), pe_occurred_at = iq_occurred_at q,
        pe_safe_projection = projection, pe_payload_digest = digest,
        pe_schema_version = SCHEMA_VERSION\<rparr>)))"

definition record_outcome ::
  "policy_ports \<Rightarrow> ColleaguePolicy \<Rightarrow> IntelligenceRequest \<Rightarrow> PolicyOutcomeKind \<Rightarrow> PolicyStage
     \<Rightarrow> ('z p5_store_scheme, PolicyEnforcementRecord) step" where
  "record_outcome ports policy q outcome stage =
     bindS (liftS (policy_enforcement ports policy q outcome stage)) (\<lambda>r.
     bindS (transaction (record_policy_outcome r None)) (\<lambda>_. liftS (Inr r)))"

section \<open>Refusals\<close>

definition no_op_decision :: "Decision \<Rightarrow> string \<Rightarrow> SemanticDecision result" where
  "no_op_decision decision request_id = SemanticDecision_init
     \<lparr>sd_outcome = SO_NO_OP, sd_decision = decision, sd_proposal = None, sd_request_id = request_id,
      sd_schema_version = SCHEMA_VERSION\<rparr>"

definition refuse_after_model ::
  "policy_ports \<Rightarrow> IntelligenceRequest \<Rightarrow> SemanticDecision \<Rightarrow> ColleaguePolicy \<Rightarrow> PolicyOutcomeKind
     \<Rightarrow> ('z p5_store_scheme, SemanticDecision) step" where
  "refuse_after_model ports q semantic policy outcome =
     bindS (record_outcome ports policy q outcome STAGE_POST_MODEL) (\<lambda>_.
     liftS (bindR (Decision_init ((sd_decision semantic)\<lparr>dc_kind := NO_ACTION,
         dc_rationale := ''P5 policy produced '' @ PolicyOutcomeKind_value outcome @
           '' before proposal persistence.'',
         dc_proposed_effect_id := None, dc_policy_id := Some (cp_policy_id policy),
         dc_policy_revision := Some (cp_revision policy)\<rparr>)) (\<lambda>decision.
       no_op_decision decision (sd_request_id semantic))))"

definition refuse_before_model ::
  "policy_ports \<Rightarrow> IntelligenceRequest \<Rightarrow> ColleaguePolicy \<Rightarrow> PolicyOutcomeKind
     \<Rightarrow> ('z p5_store_scheme, SemanticDecision) step" where
  "refuse_before_model ports q policy outcome =
     bindS (record_outcome ports policy q outcome STAGE_PRE_WAKE) (\<lambda>_.
     liftS (bindR (Decision_init
       \<lparr>dc_namespace = iq_namespace q, dc_decision_id = iq_decision_id q,
        dc_wake_cycle_id = wk_wake_cycle_id (iq_wake_cycle q),
        dc_agenda_item_id = ag_agenda_item_id (iq_agenda_item q), dc_kind = NO_ACTION,
        dc_rationale = ''P5 policy produced '' @ PolicyOutcomeKind_value outcome @
          '' before model invocation.'',
        dc_proposed_effect_id = None, dc_actor = iq_model_principal q,
        dc_correlation_id = ag_correlation_id (iq_agenda_item q),
        dc_causation_id = ag_agenda_item_id (iq_agenda_item q), dc_occurred_at = iq_occurred_at q,
        dc_revision = 1, dc_schema_version = SCHEMA_VERSION,
        dc_policy_id = Some (cp_policy_id policy), dc_policy_revision = Some (cp_revision policy)\<rparr>)
       (\<lambda>decision. no_op_decision decision (iq_request_id q))))"

section \<open>Deciding\<close>

text \<open>The guards shared by the two readings of the policy: the outcome that refuses, if any.\<close>

definition binding_refusal ::
  "IntelligenceRequest \<Rightarrow> ColleaguePolicy \<Rightarrow> PolicyRunState option \<Rightarrow> PolicyOutcomeKind option"
where
  "binding_refusal q policy run_state =
     (if (Some (cp_policy_id policy), Some (cp_revision policy)) \<noteq>
         (iq_policy_id q, iq_policy_revision q) then Some PO_STALE_POLICY
      else if (cp_mandate_id policy, cp_mandate_revision policy) \<noteq>
         (md_mandate_id (iq_mandate q), md_revision (iq_mandate q)) then Some PO_STALE_POLICY
      else if run_state = Some RUN_STOPPED then Some PO_STOPPED
      else None)"

text \<open>The guards on a proposal.\<close>

definition proposal_refusal ::
  "zoneinfo \<Rightarrow> IntelligenceRequest \<Rightarrow> ColleaguePolicy \<Rightarrow> EffectProposal
     \<Rightarrow> PolicyOutcomeKind option result" where
  "proposal_refusal zones q policy p =
     (if cp_proactivity policy = PROACTIVITY_DISABLED then Inr (Some PO_PROACTIVITY_SUPPRESSED)
      else if ep_effect_kind p = NOTIFICATION \<and> cp_notification policy = NOTIFICATION_SUPPRESSED
      then Inr (Some PO_NOTIFICATION_SUPPRESSED)
      else if cp_interruption policy = INTERRUPTION_NEVER
      then Inr (Some PO_INTERRUPTION_SUPPRESSED)
      else if cp_interruption policy = INTERRUPTION_WORKING_HOURS_ONLY
      then bindR (within_working_hours zones policy (iq_occurred_at q)) (\<lambda>within.
        Inr (if within then None else Some PO_INTERRUPTION_SUPPRESSED))
      else Inr None)"

definition bound_proposal ::
  "policy_ports \<Rightarrow> IntelligenceRequest \<Rightarrow> SemanticDecision \<Rightarrow> ColleaguePolicy \<Rightarrow> EffectProposal
     \<Rightarrow> ('z p5_store_scheme, SemanticDecision) step" where
  "bound_proposal ports q semantic policy p =
     bindS (liftS (EffectProposal_init (p\<lparr>ep_policy_id := Some (cp_policy_id policy),
         ep_policy_revision := Some (cp_revision policy)\<rparr>))) (\<lambda>proposal.
     bindS (liftS (Decision_init ((sd_decision semantic)\<lparr>dc_policy_id := Some (cp_policy_id policy),
         dc_policy_revision := Some (cp_revision policy)\<rparr>))) (\<lambda>decision.
     bindS (record_outcome ports policy q PO_ALLOWED STAGE_POST_MODEL) (\<lambda>_.
     liftS (SemanticDecision_init \<lparr>sd_outcome = sd_outcome semantic, sd_decision = decision,
       sd_proposal = Some proposal, sd_request_id = sd_request_id semantic,
       sd_schema_version = SCHEMA_VERSION\<rparr>))))"

definition decide_after_model ::
  "zoneinfo \<Rightarrow> policy_ports \<Rightarrow> IntelligenceRequest \<Rightarrow> SemanticDecision
     \<Rightarrow> ('z p5_store_scheme, SemanticDecision) step" where
  "decide_after_model zones ports q semantic =
     bindS (readS (get_runtime_policy_state (iq_namespace q))) (\<lambda>(policy, run_state).
     case policy of
       None \<Rightarrow> liftS (Inl (PermissionDeniedError ''typed runtime policy disappeared''))
     | Some y \<Rightarrow>
         (case binding_refusal q y run_state of
            Some outcome \<Rightarrow> refuse_after_model ports q semantic y outcome
          | None \<Rightarrow>
              (case sd_proposal semantic of
                 None \<Rightarrow> bindS (record_outcome ports y q PO_ALLOWED STAGE_POST_MODEL)
                   (\<lambda>_. liftS (Inr semantic))
               | Some p \<Rightarrow> bindS (liftS (proposal_refusal zones q y p)) (\<lambda>refused.
                   case refused of
                     Some outcome \<Rightarrow> refuse_after_model ports q semantic y outcome
                   | None \<Rightarrow> bound_proposal ports q semantic y p))))"

definition governed_decide ::
  "zoneinfo \<Rightarrow> policy_ports \<Rightarrow> (IntelligenceRequest \<Rightarrow> ('z p5_store_scheme, SemanticDecision) step)
     \<Rightarrow> IntelligenceRequest \<Rightarrow> ('z p5_store_scheme, SemanticDecision) step" where
  "governed_decide zones ports inner q =
     bindS (readS (get_runtime_policy_state (iq_namespace q))) (\<lambda>(policy, run_state).
     case policy of
       None \<Rightarrow> if iq_policy_id q = None then inner q
         else liftS (Inl (PermissionDeniedError ''typed runtime policy disappeared''))
     | Some y \<Rightarrow>
         (case binding_refusal q y run_state of
            Some outcome \<Rightarrow> refuse_before_model ports q y outcome
          | None \<Rightarrow> bindS (inner q) (decide_after_model zones ports q)))"

text \<open>\<^verbatim>\<open>P5DispatchAuthorizer.authorize\<close>: the approval itself is not looked at here.\<close>

definition p5_dispatch_authorize ::
  "EffectProposal \<Rightarrow> HumanApprovalDecision \<Rightarrow> 'z p5_store_scheme \<Rightarrow> unit result" where
  "p5_dispatch_authorize p approval st = chk (require_current_proposal_policy p st)"


section \<open>What leaves the service\<close>

text \<open>A proposal the policy lets through, in the store that the model left.\<close>

definition proposal_permitted ::
  "zoneinfo \<Rightarrow> IntelligenceRequest \<Rightarrow> 'z p5_store_scheme \<Rightarrow> EffectProposal \<Rightarrow> bool" where
  "proposal_permitted zones q st p \<longleftrightarrow> (\<exists>y run_state.
     get_runtime_policy_state (iq_namespace q) st = Inr (Some y, run_state) \<and>
     iq_policy_id q = Some (cp_policy_id y) \<and> iq_policy_revision q = Some (cp_revision y) \<and>
     ep_policy_id p = Some (cp_policy_id y) \<and> ep_policy_revision p = Some (cp_revision y) \<and>
     cp_mandate_id y = md_mandate_id (iq_mandate q) \<and>
     cp_mandate_revision y = md_revision (iq_mandate q) \<and> run_state \<noteq> Some RUN_STOPPED \<and>
     cp_proactivity y = PROACTIVITY_BOUNDED \<and>
     (ep_effect_kind p = NOTIFICATION \<longrightarrow> cp_notification y = NOTIFICATION_ENABLED) \<and>
     (cp_interruption y = INTERRUPTION_ALLOWED \<or>
      cp_interruption y = INTERRUPTION_WORKING_HOURS_ONLY \<and>
        within_working_hours zones y (iq_occurred_at q) = Inr True))"

lemma record_outcome_ok:
  "record_outcome ports policy q outcome stage st = (Inr r, st') \<Longrightarrow>
     p5_run_states st' = p5_run_states st \<and> rt st' = rt st"
  by (auto simp: record_outcome_def bindS_ok transaction_def record_policy_outcome_def
      insert_policy_outcome_def bindR_eq_Inr split: sum.splits prod.splits option.splits if_splits)

lemma no_op_has_no_proposal: "no_op_decision d i = Inr s \<Longrightarrow> sd_proposal s = None"
  by (auto simp: no_op_decision_def SemanticDecision_init_def checks_ok)

lemma refused_has_no_proposal:
  "refuse_after_model ports q semantic y outcome st = (Inr s, st') \<Longrightarrow> sd_proposal s = None"
  "refuse_before_model ports q y outcome st = (Inr s, st') \<Longrightarrow> sd_proposal s = None"
  by (auto simp: refuse_after_model_def refuse_before_model_def bindS_ok bindR_eq_Inr
      dest: no_op_has_no_proposal)

lemma EffectProposal_init_policy:
  "EffectProposal_init p = Inr p' \<Longrightarrow> ep_policy_id p' = ep_policy_id p \<and>
     ep_policy_revision p' = ep_policy_revision p \<and> ep_effect_kind p' = ep_effect_kind p"
  by (auto simp: EffectProposal_init_def ok_simps)

lemma bound_proposal_ok:
  assumes "bound_proposal ports q semantic y p st = (Inr s, st')"
  obtains p' where "sd_proposal s = Some p'" "ep_policy_id p' = Some (cp_policy_id y)"
    "ep_policy_revision p' = Some (cp_revision y)" "ep_effect_kind p' = ep_effect_kind p"
    "p5_run_states st' = p5_run_states st" "rt st' = rt st"
proof -
  from assms obtain p' r d where p': "EffectProposal_init (p\<lparr>ep_policy_id := Some (cp_policy_id y),
      ep_policy_revision := Some (cp_revision y)\<rparr>) = Inr p'"
    and r: "record_outcome ports y q PO_ALLOWED STAGE_POST_MODEL st = (Inr r, st')"
    and s: "SemanticDecision_init \<lparr>sd_outcome = sd_outcome semantic, sd_decision = d,
       sd_proposal = Some p', sd_request_id = sd_request_id semantic,
       sd_schema_version = SCHEMA_VERSION\<rparr> = Inr s"
    by (auto simp: bound_proposal_def bindS_ok)
  from s have "sd_proposal s = Some p'" by (auto simp: SemanticDecision_init_def checks_ok)
  with that EffectProposal_init_policy [OF p'] record_outcome_ok [OF r] show thesis by simp
qed

lemma runtime_policy_state_cong:
  "p5_run_states st' = p5_run_states st \<Longrightarrow> rt st' = rt st \<Longrightarrow>
     get_runtime_policy_state ns st' = get_runtime_policy_state ns st"
  by (simp add: get_runtime_policy_state_def get_active_policy_def run_state_of_def list_records_def)

lemma after_model_permitted:
  assumes run: "decide_after_model zones ports q semantic st = (Inr s, st')"
    and p: "sd_proposal s = Some p"
  shows "proposal_permitted zones q st' p"
proof -
  from run obtain policy run_state where read:
      "get_runtime_policy_state (iq_namespace q) st = Inr (policy, run_state)"
    by (auto simp: decide_after_model_def bindS_ok)
  with run obtain y where y: "policy = Some y" "binding_refusal q y run_state = None"
    using p by (auto simp: decide_after_model_def bindS_ok split: option.splits
        dest: refused_has_no_proposal)
  have not_refused: "refuse_after_model ports q semantic y c st \<noteq> (Inr s, st')" for c
    using p refused_has_no_proposal(1) [of ports q semantic y c st s st'] by auto
  from run read y p obtain p0 where p0: "sd_proposal semantic = Some p0"
    by (auto simp: decide_after_model_def bindS_ok split: option.splits)
  from run read y p0 not_refused obtain refused where refused: "proposal_refusal zones q y p0 = Inr refused"
      "(case refused of Some c \<Rightarrow> refuse_after_model ports q semantic y c
        | None \<Rightarrow> bound_proposal ports q semantic y p0) st = (Inr s, st')"
    by (auto simp: decide_after_model_def bindS_ok)
  then have p0: "sd_proposal semantic = Some p0" "proposal_refusal zones q y p0 = Inr None"
      "bound_proposal ports q semantic y p0 st = (Inr s, st')"
    using not_refused p0 by (cases refused; simp)+
  from p0(3) obtain p' where p': "sd_proposal s = Some p'" "ep_policy_id p' = Some (cp_policy_id y)"
      "ep_policy_revision p' = Some (cp_revision y)" "ep_effect_kind p' = ep_effect_kind p0"
      "p5_run_states st' = p5_run_states st" "rt st' = rt st"
    by (rule bound_proposal_ok)
  with y p0(2) read p runtime_policy_state_cong [OF p'(5,6)] show ?thesis
    unfolding proposal_permitted_def
    by (intro exI [of _ y] exI [of _ run_state])
      (cases "cp_proactivity y"; cases "cp_notification y"; cases "cp_interruption y";
        auto simp: binding_refusal_def proposal_refusal_def bindR_eq_Inr split: if_splits)
qed

lemma governed_permitted:
  assumes run: "governed_decide zones ports inner q st = (Inr s, st')"
    and p: "sd_proposal s = Some p" and bound: "iq_policy_id q \<noteq> None"
  shows "proposal_permitted zones q st' p"
proof -
  from run obtain policy run_state where read:
      "get_runtime_policy_state (iq_namespace q) st = Inr (policy, run_state)"
    by (auto simp: governed_decide_def bindS_ok)
  with run bound obtain y where y: "policy = Some y"
    by (auto simp: governed_decide_def bindS_ok split: option.splits)
  have not_refused: "refuse_before_model ports q y c st \<noteq> (Inr s, st')" for c
    using p refused_has_no_proposal(2) [of ports q y c st s st'] by auto
  with run read y obtain semantic st1 where
      "decide_after_model zones ports q semantic st1 = (Inr s, st')"
    by (auto simp: governed_decide_def bindS_ok split: option.splits)
  then show ?thesis using p by (rule after_model_permitted)
qed

end
