(* ===== verification/BuilderFacts.thy ===== *)
theory BuilderFacts
  imports DraftFacts GovernanceFacts Intelligence Samples
begin

text \<open>
  Claims on the builder service: which drafts a single Admin may confirm, what a mere reordering of
  a Mandate does, the replay of a creation, and which proposals of the model leave the governed
  intelligence.
\<close>

section \<open>A small colleague\<close>

definition ada_ns :: Namespace where
  "ada_ns = \<lparr>ns_tenant_id = ''acme'', ns_scope = COLLEAGUE, ns_scope_id = Some ''ada''\<rparr>"

definition ada_profile :: Profile where
  "ada_profile = \<lparr>pf_namespace = ada_ns, pf_profile_id = ''pf'', pf_display_name = ''Ada'',
     pf_description = ''D'', pf_presentation = [], pf_revision = 1,
     pf_updated_by = acme_human ''root'' TENANT_ADMIN, pf_updated_at = utc 0, pf_schema_version = 1\<rparr>"

definition duty :: "string \<Rightarrow> ResponsibilityDefinition" where
  "duty i = \<lparr>rd_responsibility_id = i, rd_description = ''d'', rd_obligations = [''o''],
     rd_completion_conditions = [''c'']\<rparr>"

definition ada_mandate :: Mandate where
  "ada_mandate = \<lparr>md_namespace = ada_ns, md_mandate_id = ''md'', md_mission = ''M'',
     md_service_relationship = ''S'', md_responsibilities = [duty ''r1'', duty ''r2''],
     md_capabilities = [\<lparr>cg_capability_id = ''c1'', cg_description = ''d''\<rparr>],
     md_constraints = [\<lparr>cn_constraint_id = ''n1'', cn_description = ''d''\<rparr>],
     md_working_context = [], md_effect_boundaries = [\<lparr>eb_boundary_id = ''b1'',
       eb_effect_kind = NOTIFICATION, eb_allowed_destination_kinds = [''x''],
       eb_allowed_actions = [''y''], eb_constraints = [], eb_human_approval_required = True\<rparr>],
     md_revision = 1, md_issued_by = acme_human ''root'' TENANT_ADMIN, md_effective_at = utc 0,
     md_schema_version = 1\<rparr>"

definition ada_policy :: ColleaguePolicy where
  "ada_policy = \<lparr>cp_namespace = ada_ns, cp_policy_id = ''py'', cp_mandate_id = ''md'',
     cp_mandate_revision = 1, cp_timezone = ''UTC'', cp_weekly_windows = default_windows,
     cp_allowed_triggers = [TRIGGER_EVENT], cp_proactivity = PROACTIVITY_BOUNDED,
     cp_notification = NOTIFICATION_ENABLED, cp_interruption = INTERRUPTION_ALLOWED,
     cp_wake_budget = \<lparr>wb_limit = 24, wb_period = PERIOD_DAY\<rparr>, cp_outside_hours = OUTSIDE_DEFER,
     cp_stop_conditions = [STOP_ADMIN_STOP], cp_escalation_conditions = [], cp_failure_limit = 3,
     cp_run_state = RUN_ACTIVE, cp_revision = 1, cp_issued_by = acme_human ''root'' TENANT_ADMIN,
     cp_effective_at = utc 0, cp_schema_version = 1\<rparr>"

definition reordered_mandate :: Mandate where
  "reordered_mandate = ada_mandate\<lparr>md_responsibilities := rev (md_responsibilities ada_mandate), md_revision := 2\<rparr>"

definition ada_diff :: "Mandate \<Rightarrow> DraftDiffItem list" where
  "ada_diff m = (case build_draft_diff ada_profile ada_mandate (Some ada_policy) ada_profile m
     ada_policy of Inr items \<Rightarrow> items | Inl _ \<Rightarrow> [])"

definition ada_draft :: "Mandate \<Rightarrow> ColleagueDraft" where
  "ada_draft m =
     \<lparr>df_namespace = ada_ns, df_draft_id = ''d1'', df_revision = 1, df_base_profile_id = ''pf'',
      df_base_profile_revision = 1, df_base_mandate_id = ''md'', df_base_mandate_revision = 1,
      df_base_policy_id = Some ''py'', df_base_policy_revision = 1,
      df_proposed_profile = ada_profile, df_proposed_mandate = m, df_proposed_policy = ada_policy,
      df_explicit_defaults = [], df_diff = ada_diff m, df_canonical_digest = zero_digest,
      df_state = DRAFT_REVIEWABLE, df_author = acme_human ''root'' TENANT_ADMIN,
      df_created_at = utc 0, df_updated_at = utc 0, df_correlation_id = ''c'',
      df_causation_id = ''md'', df_schema_version = 1\<rparr>"

lemma reordered_diff: "build_draft_diff ada_profile ada_mandate (Some ada_policy) ada_profile
    reordered_mandate ada_policy = Inr (df_diff (ada_draft reordered_mandate))"
proof -
  have "case build_draft_diff ada_profile ada_mandate (Some ada_policy) ada_profile
      reordered_mandate ada_policy of Inr _ \<Rightarrow> True | Inl _ \<Rightarrow> False"
    by code_simp
  then show ?thesis by (simp add: ada_draft_def ada_diff_def split: sum.splits)
qed

lemma reordered_terms:
  "unique_ids ada_mandate" "unique_ids reordered_mandate"
  "same_authority ada_mandate (Some ada_policy) reordered_mandate ada_policy"
  "\<not> same_mandate_content ada_mandate reordered_mandate"
  by (auto simp: unique_ids_def same_authority_def same_mandate_terms_def same_policy_terms_def
      same_mandate_content_def reordered_mandate_def ada_mandate_def duty_def)

lemma root_applies:
  "require_current_membership acme_governed (acme_human ''root'' TENANT_ADMIN) APPLY_CHANGE ada_ns =
     Inr (acme_member ''root'' TENANT_ADMIN [''*''])"
proof -
  have "membership_for_principal acme_governed ''acme'' ''root'' =
      Inr (acme_member ''root'' TENANT_ADMIN [''*''])"
    by (rule acme_root_membership(1)) simp_all
  moreover have "get_principal (rt acme_governed) ''acme'' ''root'' =
      Inr (acme_human ''root'' TENANT_ADMIN)"
    by (simp add: acme_governed_def acme_principals)
  moreover have "authorize_action (acme_human ''root'' TENANT_ADMIN)
      (acme_member ''root'' TENANT_ADMIN [''*'']) APPLY_CHANGE ada_ns = Inr ()"
    by (simp add: authorize_action_ok acme_human_def acme_principal_def acme_member_def ada_ns_def
        all_actions_def)
  moreover have "ns_tenant_id (pr_namespace (acme_human ''root'' TENANT_ADMIN)) = ''acme''"
      "pr_principal_id (acme_human ''root'' TENANT_ADMIN) = ''root''"
    by (simp_all add: acme_human_def acme_principal_def acme_defs)
  ultimately show ?thesis by (simp add: require_current_membership_def Let_def checks_def)
qed

section \<open>Who confirms a draft\<close>

lemma authorize_alone:
  assumes "build_draft_diff p m y p' m' y' = Inr (df_diff d)" "unique_ids m" "unique_ids m'"
  shows "authorize_draft_confirmation d actor None now st =
    (if same_authority m y m' y'
     then bindR (require_current_membership st actor APPLY_CHANGE (df_namespace d)) (\<lambda>_. Inr st)
     else Inl (PermissionDeniedError ''authority change requires a separate Admin approval''))"
  by (simp add: authorize_draft_confirmation_def authority_changed_iff [OF assms] checks_def)




section \<open>A creation is replayed\<close>

lemma with_digest_ok:
  assumes "with_digest d = Inr d'"
  shows "d' = d\<lparr>df_canonical_digest := draft_digest (d\<lparr>df_canonical_digest := zero_digest\<rparr>)\<rparr>"
    and "ColleagueDraft_init d' = Inr d'"
proof -
  from assms obtain p where p: "ColleagueDraft_init (d\<lparr>df_canonical_digest := zero_digest\<rparr>) = Inr p"
      "ColleagueDraft_init (p\<lparr>df_canonical_digest := draft_digest p\<rparr>) = Inr d'"
    by (auto simp: with_digest_def bindR_eq_Inr)
  from ColleagueDraft_init_eq [OF p(1)] ColleagueDraft_init_eq [OF p(2)] p(2)
  show "d' = d\<lparr>df_canonical_digest := draft_digest (d\<lparr>df_canonical_digest := zero_digest\<rparr>)\<rparr>"
    "ColleagueDraft_init d' = Inr d'" by simp_all
qed

lemma new_draft_ok:
  assumes "new_draft zones derive now actor colleague_id draft_id base = Inr d"
  shows "df_namespace d = pf_namespace (fst base)" "df_draft_id d = draft_id"
    "ColleagueDraft_init d = Inr d"
proof -
  obtain profile mandate policy where base: "base = (profile, mandate, policy)"
    by (cases base) auto
  from assms obtain d0 d1 where d: "ColleagueDraft_init d0 = Inr d1" "with_digest d1 = Inr d"
      "df_namespace d0 = pf_namespace profile" "df_draft_id d0 = draft_id"
    unfolding new_draft_def base prod.case bindR_eq_Inr
    by (auto simp: bindR_eq_Inr split: prod.splits)
  from ColleagueDraft_init_eq [OF d(1)] with_digest_ok [OF d(2)] d(3,4)
  show "df_namespace d = pf_namespace (fst base)" "df_draft_id d = draft_id"
    "ColleagueDraft_init d = Inr d" by (simp_all add: base)
qed

lemma base_values_rt: "rt st = rt st' \<Longrightarrow> base_values s st = base_values s st'"
  by (simp add: base_values_def active_configuration_def profiles_of_def mandates_of_def
      get_active_policy_def list_records_def)

lemma find_append:
  "find P (xs @ ys) = (case find P xs of Some x \<Rightarrow> Some x | None \<Rightarrow> find P ys)"
  by (induction xs) auto

lemma create_draft_stores:
  assumes "create_draft d st = Inr ((d', created), st')"
    and "\<And>x. get_draft (df_namespace d) (df_draft_id d) st \<noteq> Inr x"
    and "ColleagueDraft_init d = Inr d"
  shows "d' = d" "rt st' = rt st" "get_draft (df_namespace d) (df_draft_id d) st' = Inr d"
proof -
  have "find_draft st (df_namespace d) (df_draft_id d) = None"
    using assms(1,2) by (cases "find_draft st (df_namespace d) (df_draft_id d)")
      (auto simp: create_draft_def create_draft_with_def get_draft_def ok_simps)
  with assms(1,3) show "d' = d" "rt st' = rt st" "get_draft (df_namespace d) (df_draft_id d) st' = Inr d"
    by (auto simp: create_draft_def create_draft_with_def insert_draft_audit_def get_draft_def
        find_draft_def find_append Let_def ok_simps)
qed

lemma existing_or_new_stores:
  assumes "existing_or_new zones derive now actor c i base st = Inr (d, st')"
  shows "get_draft (pf_namespace (fst base)) i st' = Inr d \<and> (rt st' = rt st)"
proof (cases "get_draft (pf_namespace (fst base)) i st")
  case (Inl e)
  with assms obtain d0 created where new: "new_draft zones derive now actor c i base = Inr d0"
      and stored: "create_draft d0 st = Inr ((d, created), st')"
    by (auto simp: existing_or_new_def bindR_eq_Inr split: exc.splits)
  note d0 = new_draft_ok [OF new]
  have none: "get_draft (df_namespace d0) (df_draft_id d0) st \<noteq> Inr x" for x
    using Inl by (simp add: d0)
  show ?thesis using create_draft_stores [OF stored none d0(3)] by (simp add: d0)
qed (use assms in \<open>auto simp: existing_or_new_def\<close>)

lemma create_replays:
  assumes "service_create zones derive now s key st = (Inr d, st')"
  shows "service_create zones derive later s key st' = (Inr d, st')"
proof -
  let ?c = "the (se_active_colleague_id s)"
  from assms have body: "create_body zones derive now s key st = Inr (d, st')"
    by (simp add: service_create_def split: sum.splits prod.splits)
  then obtain base i where pre: "check_all [require_admin s,
        raise_if (key = []) (ValidationError ''draft idempotency key is required'')] = Inr ()"
      "base_values s st = Inr base" "derive ''draft'' [?c, key] = Inr i"
    and run: "existing_or_new zones derive now (se_principal s) ?c i base st = Inr (d, st')"
    unfolding create_body_def Let_def checks_ok bindR_eq_Inr by blast
  note found = existing_or_new_stores [OF run]
  with pre(2) have "base_values s st' = Inr base" using base_values_rt by metis
  with pre found have "create_body zones derive later s key st' = Inr (d, st')"
    by (simp add: create_body_def existing_or_new_def checks_ok)
  then show ?thesis by (simp add: service_create_def)
qed

section \<open>Which proposals leave the model\<close>

text \<open>
  C12. For a request bound to a policy, whatever the model answers and whatever other transactions
  commit while it does, an answer with a proposal leaves the governed intelligence only when in the
  store it leaves the active policy is the one of the request, for the revision of the Mandate the
  request was made under, the runtime is not stopped, proactivity is on, a notification is not
  suppressed, and the interruption is allowed at that time; and the proposal names this policy.
\<close>

theorem governed_proposals:
  assumes run: "governed_decide zones ports inner q st = (Inr s, st')"
    and p: "sd_proposal s = Some p" and bound: "iq_policy_id q \<noteq> None"
  shows "\<exists>y run_state. get_runtime_policy_state (iq_namespace q) st' = Inr (Some y, run_state) \<and>
     iq_policy_id q = Some (cp_policy_id y) \<and> iq_policy_revision q = Some (cp_revision y) \<and>
     ep_policy_id p = Some (cp_policy_id y) \<and> ep_policy_revision p = Some (cp_revision y) \<and>
     cp_mandate_id y = md_mandate_id (iq_mandate q) \<and>
     cp_mandate_revision y = md_revision (iq_mandate q) \<and> run_state \<noteq> Some RUN_STOPPED \<and>
     cp_proactivity y = PROACTIVITY_BOUNDED \<and>
     (ep_effect_kind p = NOTIFICATION \<longrightarrow> cp_notification y = NOTIFICATION_ENABLED) \<and>
     (cp_interruption y = INTERRUPTION_ALLOWED \<or>
      cp_interruption y = INTERRUPTION_WORKING_HOURS_ONLY \<and>
        within_working_hours zones y (iq_occurred_at q) = Inr True)"
  using governed_permitted [OF assms] unfolding proposal_permitted_def .

definition acme_policy :: ColleaguePolicy where
  "acme_policy = ada_policy\<lparr>cp_namespace := acme_colleague, cp_mandate_id := ''mandate''\<rparr>"

definition acme_wake :: WakeCycle where
  "acme_wake = \<lparr>wk_namespace = acme_colleague, wk_wake_cycle_id = ''wk1'', wk_state = WK_RUNNING,
     wk_trigger_event_ids = [''e1''], wk_agenda_item_ids = [''g1''],
     wk_actor = acme_principal ''svc'' SERVICE [], wk_correlation_id = ''c1'',
     wk_causation_id = Some ''e1'', wk_occurred_at = utc 0, wk_revision = 1, wk_schema_version = 1,
     wk_fencing_token = 1, wk_checkpoint_generation = 0, wk_trigger_timer_occurrence_ids = [],
     wk_policy_id = Some ''py'', wk_policy_revision = Some 1\<rparr>"

definition acme_request :: IntelligenceRequest where
  "acme_request = \<lparr>iq_namespace = acme_colleague, iq_request_id = ''q1'', iq_wake_cycle = acme_wake,
     iq_agenda_item = acme_item AG_SELECTED 1, iq_mandate = acme_mandate,
     iq_model_principal = acme_principal ''model'' MODEL [], iq_decision_id = ''d1'',
     iq_proposal_id = ''p1'', iq_effect_idempotency_key = ''k1'', iq_occurred_at = utc 0,
     iq_proposal_valid_until = utc (hours 1), iq_schema_version = 1, iq_policy_id = Some ''py'',
     iq_policy_revision = Some 1\<rparr>"

definition acme_answer :: SemanticDecision where
  "acme_answer = \<lparr>sd_outcome = SO_PROPOSAL, sd_decision =
     \<lparr>dc_namespace = acme_colleague, dc_decision_id = ''d1'', dc_wake_cycle_id = ''wk1'',
      dc_agenda_item_id = ''g1'', dc_kind = PROPOSE_EFFECT, dc_rationale = ''r'',
      dc_proposed_effect_id = Some ''p1'', dc_actor = acme_principal ''model'' MODEL [],
      dc_correlation_id = ''corr'', dc_causation_id = ''g1'', dc_occurred_at = utc 0,
      dc_revision = 1, dc_schema_version = 1, dc_policy_id = None, dc_policy_revision = None\<rparr>,
     sd_proposal = Some acme_proposal, sd_request_id = ''q1'', sd_schema_version = 1\<rparr>"

definition acme_ruled :: p6_store where
  "acme_ruled = empty_p6\<lparr>rt := empty_store\<lparr>st_records :=
     [(acme_colleague, RT_COLLEAGUE_POLICY, ''py'') \<mapsto> DColleaguePolicy acme_policy]\<rparr>\<rparr>"

definition acme_ports :: policy_ports where
  "acme_ports = \<lparr>pp_derive = \<lambda>kind parts. Inr kind,
     pp_digest = \<lambda>purpose text. Inr (acme_digest CHR ''0'')\<rparr>"

lemma acme_ruled_state:
  "get_runtime_policy_state acme_colleague acme_ruled = Inr (Some acme_policy, Some RUN_ACTIVE)"
proof -
  have at: "st_records (rt acme_ruled) (acme_colleague, RT_COLLEAGUE_POLICY, i) =
      (if i = ''py'' then Some (DColleaguePolicy acme_policy) else None)" for i
    by (simp add: acme_ruled_def)
  have "{i. st_records (rt acme_ruled) (acme_colleague, RT_COLLEAGUE_POLICY, i) \<noteq> None} = {''py''}"
    by (auto simp: at split: if_splits)
  then have "list_records acme_ruled acme_colleague RT_COLLEAGUE_POLICY = [DColleaguePolicy acme_policy]"
    by (simp add: list_records_def record_ids_def at)
  moreover have "run_state_of acme_ruled acme_colleague = None"
    by (simp add: run_state_of_def acme_ruled_def empty_p6_def)
  moreover have "cp_run_state acme_policy = RUN_ACTIVE"
    by (simp add: acme_policy_def ada_policy_def)
  ultimately show ?thesis
    by (simp add: get_runtime_policy_state_def get_active_policy_def checks_def)
qed

lemma acme_outcome_ok: "\<exists>r st'. record_outcome acme_ports acme_policy acme_request PO_ALLOWED
    STAGE_POST_MODEL acme_ruled = (Inr r, st')"
proof -
  have "\<exists>r. policy_enforcement acme_ports acme_policy acme_request PO_ALLOWED STAGE_POST_MODEL = Inr r"
    by (simp add: policy_enforcement_def acme_ports_def acme_request_def acme_wake_def acme_item_def
        acme_policy_def ada_policy_def FrozenJsonObject_init_def freeze_entry_def seal_entries_def
        PolicyEnforcementRecord_init_def acme_digests acme_defs ok_simps acme_id_defs bindR_eq_Inr
        SCHEMA_VERSION_def require_text_def bounded_text_def)
  then obtain r where r: "policy_enforcement acme_ports acme_policy acme_request PO_ALLOWED
      STAGE_POST_MODEL = Inr r" by blast
  have "\<exists>st'. record_policy_outcome r None acme_ruled = Inr (True, st')"
    by (simp add: record_policy_outcome_def insert_policy_outcome_def find_outcome_def acme_ruled_def
        empty_p6_def)
  then show ?thesis
    using r by (auto simp: record_outcome_def bindS_ok transaction_def)
qed

lemma acme_bound: "\<exists>s st' p. bound_proposal acme_ports acme_request acme_answer acme_policy
    acme_proposal acme_ruled = (Inr s, st') \<and> sd_proposal s = Some p"
proof -
  obtain r st' where r: "record_outcome acme_ports acme_policy acme_request PO_ALLOWED
      STAGE_POST_MODEL acme_ruled = (Inr r, st')"
    using acme_outcome_ok by blast
  have "\<exists>p. EffectProposal_init (acme_proposal\<lparr>ep_policy_id := Some (cp_policy_id acme_policy),
      ep_policy_revision := Some (cp_revision acme_policy)\<rparr>) = Inr p \<and> ep_namespace p = acme_colleague"
    by (simp add: EffectProposal_init_def acme_proposal_def acme_proposal_fields_def acme_defs
        acme_policy_def ada_policy_def ok_simps acme_id_defs hours_def minutes_def seconds_def checks_def)
  moreover have "\<exists>d. Decision_init ((sd_decision acme_answer)\<lparr>dc_policy_id := Some (cp_policy_id acme_policy),
      dc_policy_revision := Some (cp_revision acme_policy)\<rparr>) = Inr d \<and> dc_namespace d = acme_colleague"
    by (simp add: Decision_init_def acme_answer_def acme_policy_def ada_policy_def acme_defs ok_simps
        acme_id_defs require_text_def bounded_text_def checks_def)
  moreover have "sd_request_id acme_answer = ''q1''" "sd_outcome acme_answer = SO_PROPOSAL"
    by (simp_all add: acme_answer_def)
  ultimately show ?thesis
    using r by (auto simp: bound_proposal_def bindS_ok SemanticDecision_init_def ok_simps acme_id_defs
        SCHEMA_VERSION_def require_exact_def)
qed

lemma acme_answers: "\<exists>s st' p. governed_decide (\<lambda>_. None) acme_ports
    (\<lambda>q. liftS (Inr acme_answer)) acme_request acme_ruled = (Inr s, st') \<and> sd_proposal s = Some p"
proof -
  have ns: "iq_namespace acme_request = acme_colleague" by (simp add: acme_request_def)
  have "binding_refusal acme_request acme_policy (Some RUN_ACTIVE) = None"
    by (simp add: binding_refusal_def acme_request_def acme_policy_def ada_policy_def acme_mandate_def)
  moreover have "proposal_refusal (\<lambda>_. None) acme_request acme_policy acme_proposal = Inr None"
    by (simp add: proposal_refusal_def acme_policy_def ada_policy_def acme_proposal_def
        acme_proposal_fields_def)
  moreover have "sd_proposal acme_answer = Some acme_proposal" by (simp add: acme_answer_def)
  ultimately have "governed_decide (\<lambda>_. None) acme_ports (\<lambda>q. liftS (Inr acme_answer)) acme_request
      acme_ruled = bound_proposal acme_ports acme_request acme_answer acme_policy acme_proposal acme_ruled"
    by (simp add: governed_decide_def decide_after_model_def bindS_def readS_def liftS_def ns
        acme_ruled_state)
  with acme_bound show ?thesis by simp
qed

text \<open>The request is answered with a proposal under the policy it was bound to.\<close>

theorem governed_proposals_witness:
  "\<exists>s st' p (y :: ColleaguePolicy). governed_decide (\<lambda>_. None) acme_ports (\<lambda>q. liftS (Inr acme_answer)) acme_request
      acme_ruled = (Inr s, st') \<and> sd_proposal s = Some p \<and> ep_policy_id p = Some (cp_policy_id y)"
proof -
  from acme_answers obtain s st' p where run: "governed_decide (\<lambda>_. None) acme_ports
      (\<lambda>q. liftS (Inr acme_answer)) acme_request acme_ruled = (Inr s, st')" "sd_proposal s = Some p"
    by blast
  have "iq_policy_id acme_request \<noteq> None" by (simp add: acme_request_def)
  from governed_proposals [OF run this] run show ?thesis by blast
qed

end
