(* ===== verification/Spec2Isabelle.thy ===== *)
theory Spec2Isabelle
  imports Lifecycle Governance Policy Durability WakeRuns PackageRoundTrip PackageWorkflow Deployments
    GovernanceFacts BuilderFacts
begin

text \<open>
  A verification library for the runtime of digital colleagues
  (\<^verbatim>\<open>src/digital_colleagues\<close>).

  The program.  A tenant runs digital colleagues: a colleague has a descriptive Profile and an
  authoritative Mandate, receives events and timer occurrences, coalesces them into agenda
  items, lets a model decide on each, and may propose external effects.  An effect needs a
  human approval bound to the exact proposal before the dispatcher may hand it to a channel,
  under leases with fencing tokens and with a reconciliation path when the outcome is unknown.
  Everything durable is one namespaced SQLite database with an append-only audit table.

  Theories, in import order.
  \<^item> \<open>Prelude\<close>: errors as values (\<open>'a result = exc + 'a\<close>, Python exceptions as the left
    summand), sequencing of checks, the string functions of Python the code uses.
  \<^item> \<open>Datetimes\<close>: \<^verbatim>\<open>datetime\<close> values as microseconds and a zone.
  \<^item> \<open>Common\<close>, \<open>Namespaces\<close>: \<^verbatim>\<open>core/common.py\<close>, \<^verbatim>\<open>namespace.py\<close>, \<^verbatim>\<open>principals.py\<close>.  A constructor
    check \<open>X_init\<close> is the \<^verbatim>\<open>__post_init__\<close> of the dataclass \<open>X\<close>; the locale \<open>replayable\<close>
    states that running it again on its own result changes nothing, and every record
    interprets it, so \<open>x.valid r\<close> says that \<open>r\<close> is a value the constructor can return.
  \<^item> \<open>Work\<close>, \<open>WorkGraph\<close>, \<open>Lifecycle\<close>: \<^verbatim>\<open>core/work.py\<close>; the dependency check against
    acyclicity, the transition guards and what they imply for whole histories.
  \<^item> \<open>Authority\<close>, \<open>Runtime\<close>, \<open>Digests\<close>, \<open>Effects\<close>, \<open>Policy\<close>, \<open>Governance\<close>: the other core
    records with their constructors, canonical JSON and SHA-256, working hours and budgets
    (\<^verbatim>\<open>governance/policy.py\<close>), role-based access (\<^verbatim>\<open>governance/rbac.py\<close>).
  \<^item> \<open>Approvals\<close>: \<^verbatim>\<open>governance/approvals.py\<close>, with exact characterisations.
  \<^item> \<open>Contracts\<close>: \<^verbatim>\<open>application/contracts.py\<close>.
  \<^item> \<open>AgentPackage\<close>, \<open>PackageWorkflow\<close>, \<open>PackageRoundTrip\<close>: \<^verbatim>\<open>core/agent_package.py\<close>; the
    recursive workflow check against the paths of the graph, and the strict parser against the
    data form.  \<open>Deployments\<close>: \<^verbatim>\<open>core/deployment.py\<close> and \<^verbatim>\<open>application/p11_contracts.py\<close>.
    \<open>SessionContracts\<close>: \<^verbatim>\<open>application/p4_contracts.py\<close>.
  \<^item> \<open>Store\<close>, \<open>TriggerStore\<close>, \<open>AgendaStore\<close>, \<open>OutboxStore\<close>: \<^verbatim>\<open>adapters/sqlite/store.py\<close>.  The
    tables with row-wise updates are lists of rows, the record and ledger tables are maps; an
    SQL statement is a filter, a sort or a map over rows; a transaction either returns the new
    store or raises and leaves the old one.
  \<^item> \<open>Builder\<close>, \<open>SessionStore\<close>, \<open>StudioStore\<close>, \<open>DraftStore\<close>, \<open>PolicyStore\<close>, \<open>AdmissionStore\<close>,
    \<open>GovernanceStore\<close>, \<open>ChangeStore\<close>, \<open>ChangeApply\<close>, \<open>CredentialStore\<close>: \<^verbatim>\<open>core/builder.py\<close> and the
    stores \<^verbatim>\<open>adapters/sqlite/p4_store.py\<close>, \<^verbatim>\<open>p5_store.py\<close>, \<^verbatim>\<open>p6_store.py\<close>.  The classes extend one
    another, and so do their states: \<open>p4_store\<close> holds a runtime store and its own tables, \<open>p5_store\<close>
    and \<open>p6_store\<close> extend it, and an operation of a class takes every state that extends its own.
    A method that a subclass overrides is an argument of the operations that call it.
  \<^item> \<open>RowMachine\<close>, \<open>GovernanceFrame\<close>, \<open>GovernanceSteps\<close>, \<open>GovernanceTables\<close>, \<open>GovernanceInv\<close>,
    \<open>GovernanceFacts\<close>: the governed store as a step relation with one rule per committing operation
    (\<open>gov_step\<close>), what a step does to each table (\<open>governed\<close>), the locale \<open>row_machine\<close> of tables
    whose rows change one move at a time, interpreted on credentials, sessions, bootstrap
    transitions, changes and decisions, the joint invariant \<open>governance_ok\<close>, and what follows: two
    Admins remain, rights change only by two people, credentials are good once.
  \<^item> \<open>StoreFrame\<close>, \<open>StoreEffects\<close>: what each operation may change and what it writes.
  \<^item> \<open>StoreSteps\<close>: the store as a step relation with one rule per committing operation, its
    reachable states, and the locale \<open>fenced_rows\<close> of tables whose rows are leased, interpreted
    on the four leased tables.
  \<^item> \<open>Samples\<close>, \<open>Durability\<close>, \<open>Fencing\<close>: concrete stores; durability of records, ledger and
    audit; superseded claims are refused for ever.
  \<^item> \<open>OutboxInv\<close>, \<open>OutboxMoves\<close>, \<open>OutboxFacts\<close>: the invariant that ties every outbox row to its
    approval, proposal and attempt; the life of a row as an abstract machine, which the store
    refines; what follows for dispatch, outcomes and reconciliation.

  \<^item> \<open>World\<close>, \<open>Services\<close>, \<open>Adapters\<close>: \<^verbatim>\<open>application/services.py\<close> and \<^verbatim>\<open>worker/runtime.py\<close> as
    actions on a world of store, clock readings and applied effects.  An action may raise and
    keeps what its transactions committed before.  Clock, identifiers, checkpoints, model and
    channel are the fields of the record \<open>ports\<close>; the deterministic adapters of the repository
    are one instance.
  \<^item> \<open>AttemptUse\<close>, \<open>AttemptCount\<close>, \<open>ServiceFacts\<close>, \<open>ServiceRuns\<close>, \<open>Replays\<close>, \<open>WakeRuns\<close>: an attempt of an outbox row is
    used at most once, the attempts of a proposal are numbered and bounded, and what follows
    for the effects handed to the channel over any sequence of service calls, raising or not; a
    repeated approval request returns what the first one stored, for ever.
    The locale \<open>action_law\<close> is a contract every action between two transactions keeps; the ports
    may let other services commit while they run.

  \<^item> \<open>PublicData\<close>: \<^verbatim>\<open>core/serialization.py\<close>, the public JSON form of every contract.  \<open>DraftDiff\<close>,
    \<open>DraftService\<close>, \<open>Intelligence\<close>: \<^verbatim>\<open>application/p5_services.py\<close>, the reviewable difference of a
    draft, the builder service over the governed store, and the policy around the model.
    \<open>DraftFacts\<close>, \<open>BuilderFacts\<close>: what the difference leaves unchanged (the locale \<open>identified\<close>,
    interpreted on the four collections of a Mandate), which drafts need a second Admin, and
    which proposals leave the model.

  Bounds and fuel.  Python's \<^verbatim>\<open>int\<close> is \<open>int\<close>; SHA-256 is on 32-bit words.  The recursive
  graph search takes the interpreter's remaining stack frames as an argument; more frames than
  works are enough.  Every other recursion is structural or has a measure.

  Parameters.  The IANA time-zone database (\<^verbatim>\<open>zoneinfo\<close>) is an argument of the working-hours
  check: a partial map from zone names to offset functions.  The ports of the services (the HTTP
  channel and model, \<^verbatim>\<open>UtcClock\<close>, the checkpoints) are fields of \<open>ports\<close>.

  Not modelled.  Values of a wrong Python type (the \<^verbatim>\<open>isinstance\<close> refusals) are ruled out by
  the types of the model.  The HTTP adapters, the API edges, the command line, backup and
  diagnostics are I/O over the modelled operations.  Strings hold characters up to U+00FF.
\<close>

end
